(* ===== verification/RTJ_Prelude.thy ===== *)
theory RTJ_Prelude
  imports Main "HOL-Library.Char_ord" "HOL-Library.List_Lexorder" "HOL-Library.Word"
begin

text \<open>
  Shared vocabulary of the development: the fixed-width signed integers of Go written as
  \<open>int\<close> with the wrap-around explicit, the few functions of Go's \<open>strings\<close> and \<open>strconv\<close>
  packages the operator calls, a stable sort (\<open>sort.SliceStable\<close>), and the generic lemmas on
  lists, maps and options that the component theories use.  Strings are byte strings
  (\<open>char list\<close>), as Go's are.

  Collections: \<open>go_simps\<close> (unfolding of the Go library functions), \<open>api_simps\<close> (the accessor
  methods of the API types), \<open>status_defs\<close> (the functions that write the status of a job).
\<close>

named_theorems go_simps "library functions of Go"
named_theorems api_simps "accessor methods of the API types"
named_theorems status_defs "functions that write the status of a job"

type_synonym go_err = string
type_synonym 'a result = "go_err + 'a"
type_synonym strmap = "string \<rightharpoonup> string"

section \<open>Fixed-width integers\<close>

definition wrap32 :: "int \<Rightarrow> int" where
  "wrap32 x = (x + 2 ^ 31) mod 2 ^ 32 - 2 ^ 31"

definition is_int32 :: "int \<Rightarrow> bool" where
  "is_int32 x \<longleftrightarrow> - (2 ^ 31) \<le> x \<and> x < 2 ^ 31"

definition min_int64 :: int where "min_int64 = - (2 ^ 63)"
definition max_int64 :: int where "max_int64 = 2 ^ 63 - 1"

definition wrap64 :: "int \<Rightarrow> int" where
  "wrap64 x = (x + 2 ^ 63) mod 2 ^ 64 - 2 ^ 63"

definition sat64 :: "int \<Rightarrow> int" where
  "sat64 x = (if x < min_int64 then min_int64 else if x > max_int64 then max_int64 else x)"

lemma wrap32_id [simp]: "is_int32 x \<Longrightarrow> wrap32 x = x"
  by (simp add: wrap32_def is_int32_def)

lemma is_int32_wrap32 [simp]: "is_int32 (wrap32 x)"
  unfolding wrap32_def is_int32_def using pos_mod_bound [of "2 ^ 32" "x + 2 ^ 31"] by simp

lemma is_int32_small [intro]: "0 \<le> x \<Longrightarrow> x \<le> y \<Longrightarrow> is_int32 y \<Longrightarrow> is_int32 x"
  by (simp add: is_int32_def)

lemma wrap32_sub_nonneg:
  "is_int32 a \<Longrightarrow> is_int32 b \<Longrightarrow> 0 \<le> a \<Longrightarrow> 0 \<le> b \<Longrightarrow> wrap32 (a - b) = a - b"
  by (rule wrap32_id) (simp add: is_int32_def)

lemma sat64_mono: "x \<le> y \<Longrightarrow> sat64 x \<le> sat64 y"
  by (simp add: sat64_def min_int64_def max_int64_def)

lemma sat64_id [simp]: "min_int64 \<le> x \<Longrightarrow> x \<le> max_int64 \<Longrightarrow> sat64 x = x"
  by (simp add: sat64_def)

section \<open>Decimal printing (\<open>%d\<close>)\<close>

definition digit_char :: "nat \<Rightarrow> char" where
  "digit_char d = char_of (48 + d)"

fun utoa :: "nat \<Rightarrow> string" where
  "utoa n = (if n < 10 then [digit_char n] else utoa (n div 10) @ [digit_char (n mod 10)])"

declare utoa.simps [simp del]

definition itoa :: "int \<Rightarrow> string" where
  "itoa i = (if i < 0 then CHR ''-'' # utoa (nat (- i)) else utoa (nat i))"

definition digit_val :: "char \<Rightarrow> nat" where
  "digit_val c = of_char c - 48"

definition is_digit :: "char \<Rightarrow> bool" where
  "is_digit c \<longleftrightarrow> 48 \<le> (of_char c :: nat) \<and> (of_char c :: nat) \<le> 57"

definition hex_digit :: "nat \<Rightarrow> char" where
  "hex_digit d = (if d < 10 then char_of (48 + d) else char_of (87 + d))"

definition utoi :: "string \<Rightarrow> nat" where
  "utoi s = foldl (\<lambda>a c. 10 * a + digit_val c) 0 s"

lemma of_char_digit [simp]: "d < 10 \<Longrightarrow> of_char (digit_char d) = 48 + d"
  by (simp add: digit_char_def)

lemma digit_val_digit [simp]: "d < 10 \<Longrightarrow> digit_val (digit_char d) = d"
  by (simp add: digit_val_def)

lemma is_digit_digit [simp]: "d < 10 \<Longrightarrow> is_digit (digit_char d)"
  by (simp add: is_digit_def)

lemma utoi_snoc [simp]: "utoi (s @ [c]) = 10 * utoi s + digit_val c"
  by (simp add: utoi_def)

lemma utoi_utoa [simp]: "utoi (utoa n) = n"
proof (induction n rule: utoa.induct)
  case (1 n)
  show ?case
  proof (cases "n < 10")
    case True
    then show ?thesis by (simp add: utoa.simps [of n] utoi_def)
  next
    case False
    with 1 show ?thesis by (simp add: utoa.simps [of n])
  qed
qed

lemma utoa_inj: "utoa m = utoa n \<Longrightarrow> m = n"
  by (metis utoi_utoa)

lemma utoa_digits: "c \<in> set (utoa n) \<Longrightarrow> is_digit c"
proof (induction n rule: utoa.induct)
  case (1 n)
  then show ?case
    by (cases "n < 10") (auto simp: utoa.simps [of n])
qed

lemma utoa_not_Nil [simp]: "utoa n \<noteq> []"
  by (simp add: utoa.simps [of n])

lemma itoa_not_Nil [simp]: "itoa i \<noteq> []"
  by (simp add: itoa_def)

lemma dash_not_digit [simp]: "\<not> is_digit (CHR ''-'')"
  by (simp add: is_digit_def)

lemma itoa_inj: "itoa i = itoa j \<Longrightarrow> i = j"
proof (cases "i < 0"; cases "j < 0")
  assume "i < 0" "\<not> j < 0" "itoa i = itoa j"
  then have "CHR ''-'' \<in> set (utoa (nat j))" by (metis itoa_def list.set_intros(1))
  then show ?thesis using utoa_digits dash_not_digit by blast
next
  assume "\<not> i < 0" "j < 0" "itoa i = itoa j"
  then have "CHR ''-'' \<in> set (utoa (nat i))" by (metis itoa_def list.set_intros(1))
  then show ?thesis using utoa_digits dash_not_digit by blast
qed (auto simp: itoa_def dest: utoa_inj)

section \<open>The \<open>strings\<close> package\<close>

text \<open>
  \<open>strings.TrimSpace\<close> removes the code points of Unicode's White\_Space property; they are
  listed in their UTF-8 encoding.
\<close>

definition utf8_spaces :: "string list" where
  "utf8_spaces =
     [[CHR 0x09], [CHR 0x0A], [CHR 0x0B], [CHR 0x0C], [CHR 0x0D], [CHR 0x20],
      [CHR 0xC2, CHR 0x85], [CHR 0xC2, CHR 0xA0], [CHR 0xE1, CHR 0x9A, CHR 0x80],
      [CHR 0xE2, CHR 0x80, CHR 0x80], [CHR 0xE2, CHR 0x80, CHR 0x81],
      [CHR 0xE2, CHR 0x80, CHR 0x82], [CHR 0xE2, CHR 0x80, CHR 0x83],
      [CHR 0xE2, CHR 0x80, CHR 0x84], [CHR 0xE2, CHR 0x80, CHR 0x85],
      [CHR 0xE2, CHR 0x80, CHR 0x86], [CHR 0xE2, CHR 0x80, CHR 0x87],
      [CHR 0xE2, CHR 0x80, CHR 0x88], [CHR 0xE2, CHR 0x80, CHR 0x89],
      [CHR 0xE2, CHR 0x80, CHR 0x8A], [CHR 0xE2, CHR 0x80, CHR 0xA8],
      [CHR 0xE2, CHR 0x80, CHR 0xA9], [CHR 0xE2, CHR 0x80, CHR 0xAF],
      [CHR 0xE2, CHR 0x81, CHR 0x9F], [CHR 0xE3, CHR 0x80, CHR 0x80]]"

fun HasPrefix :: "string \<Rightarrow> string \<Rightarrow> bool" where
  "HasPrefix s [] = True"
| "HasPrefix [] (p # ps) = False"
| "HasPrefix (c # s) (p # ps) = (c = p \<and> HasPrefix s ps)"

text \<open>Stripping one of a list of (non-empty) patterns from the front, as long as one matches.\<close>

fun strip_any :: "nat \<Rightarrow> string list \<Rightarrow> string \<Rightarrow> string" where
  "strip_any 0 ps s = s"
| "strip_any (Suc n) ps s =
     (case find (HasPrefix s) ps of
        None \<Rightarrow> s
      | Some p \<Rightarrow> strip_any n ps (drop (length p) s))"

definition TrimLeftSpace :: "string \<Rightarrow> string" where
  "TrimLeftSpace s = strip_any (length s) utf8_spaces s"

definition TrimSpace :: "string \<Rightarrow> string" where
  "TrimSpace s =
     (let l = TrimLeftSpace s in rev (strip_any (length l) (map rev utf8_spaces) (rev l)))"

definition blank :: "string \<Rightarrow> bool" where
  "blank s \<longleftrightarrow> TrimSpace s = ''''"

lemma strip_any_Nil [simp]: "strip_any n utf8_spaces [] = []"
  by (cases n) (simp_all add: utf8_spaces_def)

lemma strip_any_rev_Nil [simp]: "strip_any n (map rev utf8_spaces) [] = []"
  by (cases n) (simp_all add: utf8_spaces_def)

lemma TrimSpace_Nil [simp]: "TrimSpace [] = []"
  by (simp add: TrimSpace_def TrimLeftSpace_def)

lemma blank_Nil [simp]: "blank []"
  by (simp add: blank_def)

text \<open>\<open>strings.TrimRight(s, cutset)\<close> and \<open>strings.Trim(s, cutset)\<close> for a one-byte cutset.\<close>

definition TrimRight1 :: "string \<Rightarrow> char \<Rightarrow> string" where
  "TrimRight1 s c = rev (dropWhile (\<lambda>x. x = c) (rev s))"

definition Trim1 :: "string \<Rightarrow> char \<Rightarrow> string" where
  "Trim1 s c = TrimRight1 (dropWhile (\<lambda>x. x = c) s) c"

lemma length_TrimRight1: "length (TrimRight1 s c) \<le> length s"
  by (simp add: TrimRight1_def) (metis length_dropWhile_le length_rev)

lemma length_Trim1: "length (Trim1 s c) \<le> length s"
  unfolding Trim1_def by (rule order_trans [OF length_TrimRight1]) (rule length_dropWhile_le)

lemma TrimRight1_last: "TrimRight1 s c \<noteq> [] \<Longrightarrow> last (TrimRight1 s c) \<noteq> c"
  unfolding TrimRight1_def
  using hd_dropWhile [of "\<lambda>x. x = c" "rev s"] by (simp add: last_rev)

lemma TrimRight1_id: "s = [] \<or> last s \<noteq> c \<Longrightarrow> TrimRight1 s c = s"
  unfolding TrimRight1_def by (cases s rule: rev_cases) auto

text \<open>\<open>strings.Contains\<close>.\<close>

fun Contains :: "string \<Rightarrow> string \<Rightarrow> bool" where
  "Contains [] p = (p = [])"
| "Contains (c # s) p = (HasPrefix (c # s) p \<or> Contains s p)"

lemma HasPrefix_append [simp]: "HasPrefix (p @ s) p"
  by (induction p) auto

lemma HasPrefix_iff: "HasPrefix s p \<longleftrightarrow> (\<exists>t. s = p @ t)"
  by (induction s p rule: HasPrefix.induct) auto

lemma Contains_iff: "Contains s p \<longleftrightarrow> (\<exists>a b. s = a @ p @ b)"
proof (induction s)
  case (Cons c s)
  have "(\<exists>a b. c # s = a @ p @ b) \<longleftrightarrow> (\<exists>b. c # s = p @ b) \<or> (\<exists>a b. s = a @ p @ b)"
    by (metis append_Cons append_Nil list.exhaust list.inject)
  with Cons.IH show ?case by (simp add: HasPrefix_iff)
qed auto

text \<open>\<open>strings.ToLower\<close> on an ASCII letter.\<close>

definition to_lower :: "char \<Rightarrow> char" where
  "to_lower c = (let n = of_char c :: nat in if 65 \<le> n \<and> n \<le> 90 then char_of (n + 32) else c)"

section \<open>Stable sorting by a \<open>less\<close> function\<close>

text \<open>
  \<open>sort.SliceStable(xs, less)\<close>.  For a strict weak order the stable sorted permutation is
  unique, so insertion sort computes the slice Go's algorithm leaves.
\<close>

fun ins_stable :: "('a \<Rightarrow> 'a \<Rightarrow> bool) \<Rightarrow> 'a \<Rightarrow> 'a list \<Rightarrow> 'a list" where
  "ins_stable lt x [] = [x]"
| "ins_stable lt x (y # ys) = (if lt y x then y # ins_stable lt x ys else x # y # ys)"

fun sort_stable :: "('a \<Rightarrow> 'a \<Rightarrow> bool) \<Rightarrow> 'a list \<Rightarrow> 'a list" where
  "sort_stable lt [] = []"
| "sort_stable lt (x # xs) = ins_stable lt x (sort_stable lt xs)"

lemma set_ins_stable [simp]: "set (ins_stable lt x xs) = insert x (set xs)"
  by (induction xs) auto

lemma set_sort_stable [simp]: "set (sort_stable lt xs) = set xs"
  by (induction xs) auto

lemma length_ins_stable [simp]: "length (ins_stable lt x xs) = Suc (length xs)"
  by (induction xs) auto

lemma length_sort_stable [simp]: "length (sort_stable lt xs) = length xs"
  by (induction xs) auto

text \<open>The contract a comparison function owes \<open>sort.SliceStable\<close>: a strict weak order.\<close>

locale weak_order =
  fixes lt :: "'a \<Rightarrow> 'a \<Rightarrow> bool"
  assumes irrefl: "\<not> lt x x"
    and trans: "lt x y \<Longrightarrow> lt y z \<Longrightarrow> lt x z"
    and neg_trans: "\<not> lt x y \<Longrightarrow> \<not> lt y z \<Longrightarrow> \<not> lt x z"
begin

definition incomparable :: "'a \<Rightarrow> 'a \<Rightarrow> bool" where
  "incomparable x y \<longleftrightarrow> \<not> lt x y \<and> \<not> lt y x"

lemma asym: "lt x y \<Longrightarrow> \<not> lt y x"
  using trans irrefl by blast

lemma ins_sorted:
  "sorted_wrt (\<lambda>a b. \<not> lt b a) xs \<Longrightarrow> sorted_wrt (\<lambda>a b. \<not> lt b a) (ins_stable lt x xs)"
proof (induction xs)
  case (Cons y ys)
  show ?case
  proof (cases "lt y x")
    case True
    with Cons asym [OF True] show ?thesis by simp
  next
    case False
    have "\<not> lt z x" if "z \<in> set ys" for z
      using neg_trans [OF _ False, of z] that Cons.prems by simp
    with False Cons.prems show ?thesis by simp
  qed
qed simp

lemma sort_sorted: "sorted_wrt (\<lambda>a b. \<not> lt b a) (sort_stable lt xs)"
  by (induction xs) (auto intro: ins_sorted)

text \<open>The first element with a property is minimal among all elements with that property.\<close>

lemma find_sorted_min:
  "sorted_wrt (\<lambda>a b. \<not> lt b a) xs \<Longrightarrow> find P xs = Some x \<Longrightarrow> y \<in> set xs \<Longrightarrow> P y \<Longrightarrow> \<not> lt y x"
proof (induction xs)
  case (Cons z zs)
  then show ?case using irrefl by (auto split: if_splits)
qed simp

lemma find_sort_min:
  assumes "find P (sort_stable lt xs) = Some x" and "y \<in> set xs" and "P y"
  shows "\<not> lt y x"
  using find_sorted_min [OF sort_sorted assms(1), of y] assms(2,3) by simp

lemma ins_stable_keeps:
  "filter (incomparable z) (ins_stable lt x xs) =
     (if incomparable z x then x # filter (incomparable z) xs else filter (incomparable z) xs)"
proof (induction xs)
  case (Cons y ys)
  have "incomparable z x \<Longrightarrow> lt y x \<Longrightarrow> \<not> incomparable z y"
    unfolding incomparable_def using neg_trans by blast
  with Cons show ?case by auto
qed simp

text \<open>Stability: elements the order does not distinguish keep their input order.\<close>

lemma sort_stable_keeps: "filter (incomparable z) (sort_stable lt xs) = filter (incomparable z) xs"
  by (induction xs) (auto simp: ins_stable_keeps)

end

section \<open>Lists, options and maps\<close>

lemma find_SomeD: "find P xs = Some x \<Longrightarrow> x \<in> set xs \<and> P x"
  by (induction xs) (auto split: if_splits)

lemma find_None_iff': "find P xs = None \<longleftrightarrow> (\<forall>x \<in> set xs. \<not> P x)"
  by (induction xs) auto

text \<open>A loop that stops at the first error.\<close>

fun each :: "('a \<Rightarrow> go_err option) \<Rightarrow> 'a list \<Rightarrow> go_err option" where
  "each f [] = None"
| "each f (x # xs) = (case f x of Some e \<Rightarrow> Some e | None \<Rightarrow> each f xs)"

lemma each_None_iff: "each f xs = None \<longleftrightarrow> (\<forall>x \<in> set xs. f x = None)"
  by (induction xs) (auto split: option.splits)

text \<open>Mapping a fallible function over a slice, failing at the first error.\<close>

fun collect :: "('a \<Rightarrow> 'e + 'b) \<Rightarrow> 'a list \<Rightarrow> 'e + 'b list" where
  "collect f [] = Inr []"
| "collect f (x # xs) =
     (case f x of Inl e \<Rightarrow> Inl e
      | Inr y \<Rightarrow> (case collect f xs of Inl e \<Rightarrow> Inl e | Inr ys \<Rightarrow> Inr (y # ys)))"

lemma collect_Cons_Inr:
  "collect f (x # xs) = Inr ys \<longleftrightarrow>
     (\<exists>y zs. ys = y # zs \<and> f x = Inr y \<and> collect f xs = Inr zs)"
  by (auto split: sum.splits)

lemma collect_Inr_iff:
  "collect f xs = Inr ys \<longleftrightarrow> length ys = length xs \<and> (\<forall>i < length xs. f (xs ! i) = Inr (ys ! i))"
proof (induction xs arbitrary: ys)
  case (Cons x xs)
  then show ?case
    by (cases ys) (auto simp: collect_Cons_Inr All_less_Suc2 simp del: collect.simps)
qed auto

lemma collect_Inr_length: "collect f xs = Inr ys \<Longrightarrow> length ys = length xs"
  by (simp add: collect_Inr_iff)

lemma collect_Inr_nth: "collect f xs = Inr ys \<Longrightarrow> i < length xs \<Longrightarrow> f (xs ! i) = Inr (ys ! i)"
  by (simp add: collect_Inr_iff)

text \<open>Reading a Go map of strings: the zero value for an absent key.\<close>

definition mget :: "('k \<rightharpoonup> string) \<Rightarrow> 'k \<Rightarrow> string" where
  "mget m k = (case m k of None \<Rightarrow> '''' | Some v \<Rightarrow> v)"

lemma mget_upd [simp]: "mget (m(k \<mapsto> v)) k' = (if k' = k then v else mget m k')"
  by (simp add: mget_def)

lemma mget_empty [simp]: "mget Map.empty k = ''''"
  by (simp add: mget_def)

end
