(* ===== verification/Go_Time.thy ===== *)
theory Go_Time
  imports RTJ_Prelude
begin

text \<open>
  The part of Go's \<open>time\<close> package the operator uses.  An instant (\<open>time.Time\<close>,
  \<open>metav1.Time\<close>) is its number of nanoseconds since the Unix epoch, a \<open>time.Duration\<close> a number
  of nanoseconds.  \<open>Sub\<close> saturates at the bounds of \<open>int64\<close> as Go's does; \<open>Add\<close> is exact,
  which Go's is for instants less than \<open>2^63\<close> seconds away from year 1.
  \<open>time.Parse(time.RFC3339, s)\<close> is written out with the leniencies of Go's parser (a one-digit
  hour, a fraction after a period or a comma, offsets of 24 hours and 60 minutes); its error
  carries no text.  \<open>Format\<close> with that layout is for instants in UTC.
\<close>

type_synonym gotime = int
type_synonym duration = int

abbreviation Second :: duration where "Second \<equiv> 1000000000"
abbreviation Minute :: duration where "Minute \<equiv> 60000000000"
abbreviation Hour :: duration where "Hour \<equiv> 3600000000000"

definition time_Sub :: "gotime \<Rightarrow> gotime \<Rightarrow> duration" where
  [go_simps]: "time_Sub t u = sat64 (t - u)"

definition time_Add :: "gotime \<Rightarrow> duration \<Rightarrow> gotime" where
  [go_simps]: "time_Add t d = t + d"

definition time_zero :: gotime where
  "time_zero = - 62135596800 * 1000000000"

section \<open>The civil calendar\<close>

text \<open>
  Days since the epoch of a date of the proleptic Gregorian calendar.  Years start in March,
  so that the leap day ends the year; an era is 400 years, 146097 days.
\<close>

definition days_from_civil :: "int \<Rightarrow> int \<Rightarrow> int \<Rightarrow> int" where
  "days_from_civil y m d =
     (let y' = (if m \<le> 2 then y - 1 else y);
          era = y' div 400; yoe = y' mod 400;
          mp = (m + 9) mod 12;
          doy = (153 * mp + 2) div 5 + d - 1
      in era * 146097 + (yoe * 365 + yoe div 4 - yoe div 100 + doy) - 719468)"

definition civil_from_days :: "int \<Rightarrow> int \<times> int \<times> int" where
  "civil_from_days z =
     (let z' = z + 719468;
          era = z' div 146097; doe = z' mod 146097;
          c = min 3 (doe div 36524); r = doe - 36524 * c;
          q = r div 1461; r' = r mod 1461;
          a = min 3 (r' div 365); doy = r' - 365 * a;
          yoe = 100 * c + 4 * q + a;
          mp = (5 * doy + 2) div 153;
          d = doy - (153 * mp + 2) div 5 + 1;
          m = (if mp < 10 then mp + 3 else mp - 9);
          y = era * 400 + yoe
      in (if m \<le> 2 then y + 1 else y, m, d))"

definition is_leap :: "int \<Rightarrow> bool" where
  "is_leap y \<longleftrightarrow> y mod 4 = 0 \<and> (y mod 100 \<noteq> 0 \<or> y mod 400 = 0)"

definition daysIn :: "int \<Rightarrow> int \<Rightarrow> int" where
  "daysIn m y =
     (if m = 2 then (if is_leap y then 29 else 28)
      else if m \<in> {4, 6, 9, 11} then 30 else 31)"

section \<open>\<open>time.Parse(time.RFC3339, _)\<close>\<close>

definition getnum :: "bool \<Rightarrow> string \<Rightarrow> (int \<times> string) option" where
  "getnum fixed s =
     (case s of
        [] \<Rightarrow> None
      | a # s' \<Rightarrow>
          if \<not> is_digit a then None
          else (case s' of
                  [] \<Rightarrow> if fixed then None else Some (int (digit_val a), s')
                | b # s'' \<Rightarrow>
                    if is_digit b then Some (int (10 * digit_val a + digit_val b), s'')
                    else if fixed then None else Some (int (digit_val a), s')))"

definition getyear :: "string \<Rightarrow> (int \<times> string) option" where
  "getyear s =
     (if length s < 4 \<or> \<not> list_all is_digit (take 4 s) then None
      else Some (int (utoi (take 4 s)), drop 4 s))"

definition expect :: "char \<Rightarrow> string \<Rightarrow> string option" where
  "expect c s = (case s of [] \<Rightarrow> None | x # s' \<Rightarrow> if x = c then Some s' else None)"

text \<open>A fraction of a second after the seconds: at most nine digits count.\<close>

definition getfrac :: "string \<Rightarrow> int \<times> string" where
  "getfrac s =
     (case s of
        p # d # _ \<Rightarrow>
          if (p = CHR ''.'' \<or> p = CHR '','') \<and> is_digit d
          then let ds = takeWhile is_digit (tl s); kept = take 9 ds
               in (int (utoi kept) * 10 ^ (9 - length kept), drop (length ds) (tl s))
          else (0, s)
      | _ \<Rightarrow> (0, s))"

definition getzone :: "string \<Rightarrow> (int \<times> string) option" where
  "getzone s =
     (case s of
        [] \<Rightarrow> None
      | c # s' \<Rightarrow>
          if c = CHR ''Z'' then Some (0, s')
          else if length s < 6 \<or> s ! 3 \<noteq> CHR '':'' then None
          else (case (getnum True (take 2 s'), getnum True (take 2 (drop 4 s))) of
                  (Some (hr, _), Some (mm, _)) \<Rightarrow>
                    if hr > 24 \<or> mm > 60 then None
                    else if c = CHR ''+'' then Some ((hr * 60 + mm) * 60, drop 6 s)
                    else if c = CHR ''-'' then Some (- ((hr * 60 + mm) * 60), drop 6 s)
                    else None
                | _ \<Rightarrow> None))"

definition parse_RFC3339 :: "string \<Rightarrow> gotime option" where
  "parse_RFC3339 s0 =
     Option.bind (getyear s0) (\<lambda>(year, s1).
     Option.bind (expect (CHR ''-'') s1) (\<lambda>s2.
     Option.bind (getnum True s2) (\<lambda>(month, s3).
     if month \<le> 0 \<or> 12 < month then None else
     Option.bind (expect (CHR ''-'') s3) (\<lambda>s4.
     Option.bind (getnum True s4) (\<lambda>(day, s5).
     Option.bind (expect (CHR ''T'') s5) (\<lambda>s6.
     Option.bind (getnum False s6) (\<lambda>(hour, s7).
     if 24 \<le> hour then None else
     Option.bind (expect (CHR '':'') s7) (\<lambda>s8.
     Option.bind (getnum True s8) (\<lambda>(mnt, s9).
     if 60 \<le> mnt then None else
     Option.bind (expect (CHR '':'') s9) (\<lambda>s10.
     Option.bind (getnum True s10) (\<lambda>(sec, s11).
     if 60 \<le> sec then None else
     case getfrac s11 of (nsec, s12) \<Rightarrow>
     Option.bind (getzone s12) (\<lambda>(off, s13).
     if s13 \<noteq> [] then None
     else if day < 1 \<or> daysIn month year < day then None
     else Some ((days_from_civil year month day * 86400 + hour * 3600 + mnt * 60 + sec - off)
                * 1000000000 + nsec)))))))))))))"

section \<open>\<open>Format(time.RFC3339)\<close> of an instant in UTC\<close>

definition pad :: "nat \<Rightarrow> int \<Rightarrow> string" where
  "pad w i =
     (let ds = utoa (nat \<bar>i\<bar>); z = replicate (w - length ds) (CHR ''0'') @ ds
      in if i < 0 then CHR ''-'' # z else z)"

definition format_RFC3339 :: "gotime \<Rightarrow> string" where
  "format_RFC3339 t =
     (let secs = t div 1000000000; day = secs div 86400; r = secs mod 86400
      in case civil_from_days day of (y, m, d) \<Rightarrow>
        pad 4 y @ ''-'' @ pad 2 m @ ''-'' @ pad 2 d @ ''T'' @
        pad 2 (r div 3600) @ '':'' @ pad 2 (r mod 3600 div 60) @ '':'' @ pad 2 (r mod 60) @ ''Z'')"

section \<open>\<open>Duration.Round\<close> and \<open>Duration.String\<close>\<close>

definition Duration_Round :: "duration \<Rightarrow> duration \<Rightarrow> duration" where
  "Duration_Round d m =
     (if m \<le> 0 then d
      else let r = \<bar>d\<bar> mod m in
        if d < 0
        then (if r + r < m then d + r
              else if d - m + r \<ge> min_int64 then d - m + r else min_int64)
        else (if r + r < m then d - r
              else if d + m - r \<le> max_int64 then d + m - r else max_int64))"

text \<open>The fractional digits of \<open>v / 10^prec\<close> with trailing zeros omitted, and the quotient.\<close>

definition fmtFrac :: "nat \<Rightarrow> nat \<Rightarrow> string \<times> nat" where
  "fmtFrac v prec =
     (let f = v mod 10 ^ prec;
          ds = utoa f; z = replicate (prec - length ds) (CHR ''0'') @ ds;
          k = TrimRight1 z (CHR ''0'')
      in (if prec = 0 \<or> f = 0 then '''' else CHR ''.'' # k, v div 10 ^ prec))"

definition Duration_String :: "duration \<Rightarrow> string" where
  "Duration_String d =
     (let u = nat \<bar>d\<bar>; sgn = (if d < 0 then ''-'' else '''')
      in sgn @
        (if u = 0 then ''0s''
         else if u < 1000 then utoa u @ ''ns''
         else if u < 1000000
              then (case fmtFrac u 3 of (f, q) \<Rightarrow> utoa q @ f @ [CHR 0xC2, CHR 0xB5] @ ''s'')
         else if u < 1000000000 then (case fmtFrac u 6 of (f, q) \<Rightarrow> utoa q @ f @ ''ms'')
         else (case fmtFrac u 9 of (f, secs) \<Rightarrow>
                let mins = secs div 60; ss = utoa (secs mod 60) @ f @ ''s''
                in if mins = 0 then ss
                   else let hrs = mins div 60; ms = utoa (mins mod 60) @ ''m'' @ ss
                        in if hrs = 0 then ms else utoa hrs @ ''h'' @ ms)))"

section \<open>The calendar is consistent\<close>

lemma era_decompose:
  fixes doe :: int
  assumes "0 \<le> doe" "doe < 146097"
  defines "c \<equiv> min 3 (doe div 36524)"
  defines "r \<equiv> doe - 36524 * c"
  shows "0 \<le> c \<and> c \<le> 3 \<and> 0 \<le> r \<and> r \<le> 36524"
  using assms by (auto simp: min_def split: if_splits)

lemma quad_decompose:
  fixes r :: int
  assumes "0 \<le> r" "r \<le> 36524"
  defines "q \<equiv> r div 1461" and "r' \<equiv> r mod 1461"
  defines "a \<equiv> min 3 (r' div 365)"
  shows "0 \<le> q \<and> q \<le> 24 \<and> 0 \<le> a \<and> a \<le> 3 \<and> 0 \<le> r' - 365 * a \<and> r' - 365 * a \<le> 365 \<and> r = 1461 * q + r'"
  using assms by (auto simp: min_def split: if_splits)

lemma yoe_days:
  fixes c q a :: int
  assumes "0 \<le> q" "q \<le> 24" "0 \<le> a" "a \<le> 3"
  shows "(100 * c + 4 * q + a) * 365 + (100 * c + 4 * q + a) div 4 - (100 * c + 4 * q + a) div 100
         = 36524 * c + 1461 * q + 365 * a"
proof -
  have "(100 * c + 4 * q + a) div 4 = 25 * c + q" using assms by linarith
  moreover have "(100 * c + 4 * q + a) div 100 = c" using assms by linarith
  ultimately show ?thesis by simp
qed

lemma month_decompose:
  fixes doy :: int
  assumes "0 \<le> doy" "doy \<le> 365"
  defines "mp \<equiv> (5 * doy + 2) div 153"
  shows "0 \<le> mp \<and> mp \<le> 11 \<and> 1 \<le> doy - (153 * mp + 2) div 5 + 1 \<and> doy - (153 * mp + 2) div 5 + 1 \<le> 31"
  using assms by auto

lemma leap_year_in_era:
  fixes q c era :: int
  assumes "0 \<le> q" "q \<le> 24" "q = 24 \<Longrightarrow> c = 3"
  shows "is_leap (era * 400 + (100 * c + 4 * q + 3) + 1)"
proof (cases "q = 24")
  case True
  with assms(3) have "era * 400 + (100 * c + 4 * q + 3) + 1 = 400 * (era + 1)" by simp
  moreover have "(4::int) dvd 400 * (era + 1)" and "(400::int) dvd 400 * (era + 1)"
    by (rule dvd_mult2, simp)+
  ultimately show ?thesis unfolding is_leap_def by (simp only: mod_eq_0_iff_dvd simp_thms)
next
  case False
  have "era * 400 + (100 * c + 4 * q + 3) + 1 = (4 * q + 4) + (4 * era + c) * 100" by simp
  then have "(era * 400 + (100 * c + 4 * q + 3) + 1) mod 100 = (4 * q + 4) mod 100"
    by (simp only: mod_mult_self1)
  moreover have "(4 * q + 4) mod 100 = 4 * q + 4" using assms(1,2) False by simp
  moreover have "(era * 400 + (100 * c + 4 * q + 3) + 1) mod 4 = 0"
  proof -
    have "era * 400 + (100 * c + 4 * q + 3) + 1 = 4 * (100 * era + 25 * c + q + 1)" by simp
    then show ?thesis by (simp only: mod_mult_self1_is_0)
  qed
  ultimately show ?thesis unfolding is_leap_def using assms(1) by simp
qed

lemma month_length:
  fixes doy :: int
  assumes "0 \<le> doy" "doy \<le> 365"
  defines "mp \<equiv> (5 * doy + 2) div 153"
  defines "m \<equiv> (if mp < 10 then mp + 3 else mp - 9)"
  assumes "m \<noteq> 2"
  shows "doy - (153 * mp + 2) div 5 + 1 \<le> daysIn m y"
proof -
  have b: "0 \<le> mp \<and> mp \<le> 11" using month_decompose [OF assms(1,2)] by (simp add: mp_def)
  have d: "doy \<le> (153 * (mp + 1) + 2) div 5 - 1" using assms(1,2) by (simp add: mp_def)
  from b have "mp \<in> set [0..11]" by simp
  then have "mp \<in> {0, 1, 2, 3, 4, 5, 6, 7, 8, 9, 10, 11}" by (simp add: upto.simps)
  then show ?thesis using d assms(5) unfolding m_def daysIn_def
    by (elim insertE emptyE) simp_all
qed

text \<open>
  The parts of a date: the era, the year in the era and the day of the year counted from
  March.  The day of the year is 365 only in a year whose February has 29 days.
\<close>

lemma civil_parts:
  fixes z :: int
  obtains era yoe doy where "0 \<le> yoe" "yoe < 400" "0 \<le> doy" "doy \<le> 365"
    "z + 719468 = era * 146097 + (yoe * 365 + yoe div 4 - yoe div 100 + doy)"
    "doy = 365 \<Longrightarrow> is_leap (era * 400 + yoe + 1)"
    "civil_from_days z =
       (let mp = (5 * doy + 2) div 153; m = (if mp < 10 then mp + 3 else mp - 9)
        in (if m \<le> 2 then era * 400 + yoe + 1 else era * 400 + yoe, m,
            doy - (153 * mp + 2) div 5 + 1))"
proof -
  define era where "era = (z + 719468) div 146097"
  define doe where "doe = (z + 719468) mod 146097"
  define c where "c = min 3 (doe div 36524)"
  define r where "r = doe - 36524 * c"
  define q where "q = r div 1461"
  define r' where "r' = r mod 1461"
  define a where "a = min 3 (r' div 365)"
  define doy where "doy = r' - 365 * a"
  define yoe where "yoe = 100 * c + 4 * q + a"
  have doe: "0 \<le> doe" "doe < 146097" by (simp_all add: doe_def)
  have c: "0 \<le> c" "c \<le> 3" "0 \<le> r" "r \<le> 36524"
    using era_decompose [OF doe] by (simp_all add: c_def r_def)
  have q: "0 \<le> q" "q \<le> 24" "0 \<le> a" "a \<le> 3" "0 \<le> doy" "doy \<le> 365" "r = 1461 * q + r'"
    using quad_decompose [OF c(3,4)] by (simp_all add: q_def r'_def a_def doy_def)
  have yd: "yoe * 365 + yoe div 4 - yoe div 100 = 36524 * c + 1461 * q + 365 * a"
    unfolding yoe_def by (rule yoe_days [OF q(1-4)])
  have leap: "is_leap (era * 400 + yoe + 1)" if "doy = 365"
  proof -
    have a3: "a = 3"
      using that unfolding doy_def a_def r'_def by (auto simp: min_def split: if_splits)
    have "c = 3" if "q = 24"
    proof (rule ccontr)
      assume "c \<noteq> 3"
      then have "doe < 36524 * (c + 1)" using doe c(2) unfolding c_def by (simp add: min_def split: if_splits)
      with \<open>doy = 365\<close> a3 q(7) that show False by (simp add: r_def doy_def)
    qed
    then show ?thesis
      using leap_year_in_era [OF q(1,2), of c era] unfolding yoe_def a3 by blast
  qed
  show thesis
  proof
    show "0 \<le> yoe" "yoe < 400" using c q by (simp_all add: yoe_def)
    show "0 \<le> doy" "doy \<le> 365" by (fact q)+
    show "z + 719468 = era * 146097 + (yoe * 365 + yoe div 4 - yoe div 100 + doy)"
    proof -
      have "z + 719468 = era * 146097 + doe"
        unfolding era_def doe_def by (rule div_mult_mod_eq [symmetric])
      then show ?thesis unfolding yd doy_def using q(7) r_def by linarith
    qed
    show "doy = 365 \<Longrightarrow> is_leap (era * 400 + yoe + 1)" by (fact leap)
    show "civil_from_days z =
       (let mp = (5 * doy + 2) div 153; m = (if mp < 10 then mp + 3 else mp - 9)
        in (if m \<le> 2 then era * 400 + yoe + 1 else era * 400 + yoe, m,
            doy - (153 * mp + 2) div 5 + 1))"
      by (simp only: civil_from_days_def Let_def era_def doe_def c_def r_def q_def r'_def a_def
          doy_def yoe_def)
  qed
qed

lemma civil_roundtrip:
  assumes "civil_from_days z = (y, m, d)"
  shows "days_from_civil y m d = z \<and> 1 \<le> m \<and> m \<le> 12 \<and> 1 \<le> d \<and> d \<le> daysIn m y"
proof -
  obtain era yoe doy where p: "0 \<le> yoe" "yoe < 400" "0 \<le> doy" "doy \<le> 365"
    "z + 719468 = era * 146097 + (yoe * 365 + yoe div 4 - yoe div 100 + doy)"
    "doy = 365 \<Longrightarrow> is_leap (era * 400 + yoe + 1)"
    and eq: "civil_from_days z =
       (let mp = (5 * doy + 2) div 153; m = (if mp < 10 then mp + 3 else mp - 9)
        in (if m \<le> 2 then era * 400 + yoe + 1 else era * 400 + yoe, m,
            doy - (153 * mp + 2) div 5 + 1))"
    by (rule civil_parts [of z]) blast
  define mp where "mp = (5 * doy + 2) div 153"
  have mp: "0 \<le> mp" "mp \<le> 11" "1 \<le> doy - (153 * mp + 2) div 5 + 1"
    using month_decompose [OF p(3,4)] by (simp_all add: mp_def)
  have m: "m = (if mp < 10 then mp + 3 else mp - 9)"
    and d: "d = doy - (153 * mp + 2) div 5 + 1"
    and y: "y = (if m \<le> 2 then era * 400 + yoe + 1 else era * 400 + yoe)"
    using assms unfolding eq by (auto simp: mp_def Let_def)
  have m9: "(m + 9) mod 12 = mp" using mp m by auto
  have y': "(if m \<le> 2 then y - 1 else y) = era * 400 + yoe" using y by simp
  have "(era * 400 + yoe) div 400 = era" "(era * 400 + yoe) mod 400 = yoe" using p(1,2) by auto
  then have "days_from_civil y m d = z"
    using p(5) unfolding days_from_civil_def Let_def y' m9 d by simp
  moreover have "d \<le> daysIn m y"
  proof (cases "m = 2")
    case True
    with m mp(1,2) have "mp = 11" by (auto split: if_splits)
    with True p(4,6) d y show ?thesis by (cases "doy = 365") (auto simp: daysIn_def)
  next
    case False
    then show ?thesis using month_length [OF p(3,4), of y] unfolding d m mp_def by blast
  qed
  ultimately show ?thesis using m mp d by auto
qed

section \<open>Printing and parsing an instant\<close>

definition year_of :: "gotime \<Rightarrow> int" where
  "year_of t = fst (civil_from_days (t div 1000000000 div 86400))"

lemma digit_char_0 [simp]: "digit_char 0 = CHR ''0''"
  using char_of_char [of "CHR ''0''", where 'a = nat] by (simp add: digit_char_def)

lemma replicate_23: "replicate 2 x = [x, x]" "replicate 3 x = [x, x, x]"
  by (simp_all add: numeral_2_eq_2 numeral_3_eq_3)

lemma utoa_1: "n < 10 \<Longrightarrow> utoa n = [digit_char n]"
  by (simp add: utoa.simps [of n])

lemma utoa_2: "10 \<le> n \<Longrightarrow> n < 100 \<Longrightarrow> utoa n = [digit_char (n div 10), digit_char (n mod 10)]"
  by (simp add: utoa.simps [of n] utoa_1)

lemma utoa_3:
  "100 \<le> n \<Longrightarrow> n < 1000 \<Longrightarrow>
   utoa n = [digit_char (n div 100), digit_char (n div 10 mod 10), digit_char (n mod 10)]"
  by (simp add: utoa.simps [of n] utoa_2 div_mult2_eq [symmetric])

lemma utoa_4:
  "1000 \<le> n \<Longrightarrow> n < 10000 \<Longrightarrow>
   utoa n = [digit_char (n div 1000), digit_char (n div 100 mod 10), digit_char (n div 10 mod 10),
             digit_char (n mod 10)]"
  by (simp add: utoa.simps [of n] utoa_3 div_mult2_eq [symmetric])

lemma pad_2: "n < 100 \<Longrightarrow> pad 2 (int n) = [digit_char (n div 10), digit_char (n mod 10)]"
  by (cases "n < 10") (simp_all add: pad_def utoa_1 utoa_2 numeral_2_eq_2)

lemma pad_4:
  assumes "n < 10000"
  shows "pad 4 (int n) =
   [digit_char (n div 1000), digit_char (n div 100 mod 10), digit_char (n div 10 mod 10),
    digit_char (n mod 10)]"
proof -
  consider "n < 10" | "10 \<le> n" "n < 100" | "100 \<le> n" "n < 1000" | "1000 \<le> n" by linarith
  then show ?thesis
    using assms
    by cases (simp_all add: pad_def utoa_1 utoa_2 utoa_3 utoa_4 replicate_23)
qed

lemma getnum_pad [simp]:
  assumes "0 \<le> i" "i < 100"
  shows "getnum fixed (pad 2 i @ s) = Some (i, s)"
proof -
  from assms have "pad 2 i = [digit_char (nat i div 10), digit_char (nat i mod 10)]"
    using pad_2 [of "nat i"] by simp
  with assms show ?thesis by (simp add: getnum_def)
qed

lemma getyear_pad [simp]:
  assumes "0 \<le> y" "y \<le> 9999"
  shows "getyear (pad 4 y @ s) = Some (y, s)"
proof -
  define n where "n = nat y"
  have n: "n < 10000" "y = int n" using assms by (simp_all add: n_def)
  have "n div 10 div 10 = n div 100" "n div 100 div 10 = n div 1000"
    by (simp_all add: div_mult2_eq [symmetric])
  then have "1000 * (n div 1000) + 100 * (n div 100 mod 10) + 10 * (n div 10 mod 10) + n mod 10 = n"
    using div_mult_mod_eq [of n 10] div_mult_mod_eq [of "n div 10" 10] div_mult_mod_eq [of "n div 100" 10]
    by linarith
  moreover have "n div 1000 < 10" using n(1) by simp
  ultimately show ?thesis unfolding n(2) pad_4 [OF n(1)] getyear_def
    by (simp add: utoi_def)
qed

lemma expect_Cons [simp]: "expect c (c # s) = Some s"
  by (simp add: expect_def)

text \<open>
  An instant of the years 0 to 9999 printed in RFC 3339 is read back by the parser, up to
  the fraction of a second the layout drops.
\<close>

lemma parse_format_RFC3339:
  assumes "0 \<le> year_of t" and "year_of t \<le> 9999"
  shows "parse_RFC3339 (format_RFC3339 t) = Some (t div 1000000000 * 1000000000)"
proof -
  define secs where "secs = t div 1000000000"
  define r where "r = secs mod 86400"
  obtain y m d where c: "civil_from_days (secs div 86400) = (y, m, d)" by (metis prod_cases3)
  have rt: "days_from_civil y m d = secs div 86400" "1 \<le> m" "m \<le> 12" "1 \<le> d" "d \<le> daysIn m y"
    using civil_roundtrip [OF c] by simp_all
  have d31: "daysIn m y \<le> 31" by (simp add: daysIn_def)
  have y: "0 \<le> y" "y \<le> 9999" using assms c by (simp_all add: year_of_def secs_def)
  have r: "0 \<le> r" "r < 86400" by (simp_all add: r_def)
  have h: "0 \<le> r div 3600" "r div 3600 < 24" using r by auto
  have mi: "0 \<le> r mod 3600 div 60" "r mod 3600 div 60 < 60" by auto
  have se: "0 \<le> r mod 60" "r mod 60 < 100" by (simp, rule order_less_trans [of _ 60]) simp_all
  have gs: "getnum True (pad 2 (r mod 60) @ ''Z'') = Some (r mod 60, ''Z'')"
    using se by (rule getnum_pad)
  have "r mod 3600 mod 60 = r mod 60" by (rule mod_mod_cancel) simp
  then have "r div 3600 * 3600 + r mod 3600 div 60 * 60 + r mod 60 = r"
    using div_mult_mod_eq [of r 3600] div_mult_mod_eq [of "r mod 3600" 60] by linarith
  moreover have "secs div 86400 * 86400 + r = secs" by (simp add: r_def)
  ultimately have total:
    "secs div 86400 * 86400 + r div 3600 * 3600 + r mod 3600 div 60 * 60 + r mod 60 = secs" by linarith
  have f: "format_RFC3339 t = pad 4 y @ CHR ''-'' # pad 2 m @ CHR ''-'' # pad 2 d @ CHR ''T'' #
      pad 2 (r div 3600) @ CHR '':'' # pad 2 (r mod 3600 div 60) @ CHR '':'' # pad 2 (r mod 60) @ ''Z''"
    by (simp add: format_RFC3339_def Let_def secs_def [symmetric] r_def [symmetric] c)
  show ?thesis
    unfolding f parse_RFC3339_def
    using rt d31 y h mi total
    by (simp add: gs not_le getfrac_def getzone_def secs_def [symmetric])
qed

end
