(* ===== verification/API_Types.thy ===== *)
theory API_Types
  imports Go_Time
begin

text \<open>
  The API objects of \<open>api/v1alpha1/resumabletrainingjob_types.go\<close>: the enumerations, the spec
  and the status of a \<open>ResumableTrainingJob\<close>, the accessor methods, and the phase machinery
  (\<open>SetPhase\<close>, \<open>markPhase\<close>, \<open>InitializePhase1Status\<close>).  A Go pointer field is an \<open>option\<close>.
  A string-typed enumeration is a datatype whose first constructor (\<open>..Unset\<close>) is the empty
  string; the CRD schema excludes other values.  Record fields carry a prefix for the struct
  they belong to (\<open>st_\<close> status, \<open>sp_\<close> spec, \<open>tt_\<close> transition timestamps, \<open>cr_\<close> checkpoint
  reference, \<open>es_\<close> elasticity status, \<open>sr_\<close> startup recovery, ...).
  A Go map whose size or iteration matters is an association list with distinct keys.
\<close>

section \<open>Enumerations\<close>

datatype ResumableTrainingJobPhase =
  PhaseUnset | PhasePending | PhaseQueued | PhaseAdmitted | PhaseStarting | PhaseRunning
| PhaseYieldRequested | PhaseDraining | PhasePaused | PhaseRestoring | PhaseSucceeded | PhaseFailed

datatype DesiredState = DesiredStateUnset | DesiredStateRunning | DesiredStatePaused
datatype RuntimeMode = RuntimeModeUnset | RuntimeModeDDP | RuntimeModeFSDP
datatype CompatibilityState =
  CompatibilityStateUnset | CompatibilityStateCompatible | CompatibilityStateIncompatible
| CompatibilityStateUnknown
datatype SuspensionSource =
  SuspensionSourceUnset | SuspensionSourceKueue | SuspensionSourceManual | SuspensionSourceUnknown
datatype RestoreMode = RestoreModeUnset | RestoreModeSameSize | RestoreModeReshard
datatype TopologyMode =
  TopologyModeUnset | TopologyModeDisabled | TopologyModeRequired | TopologyModePreferred
| TopologyModeUnconstrained
datatype ReadinessGateState =
  ReadinessGateUnset | ReadinessGatePending | ReadinessGateReady | ReadinessGateRejected
datatype StartupState =
  StartupUnset | StartupNotStarted | StartupStarting | StartupRunning | StartupTimedOut
| StartupRecoveryTimedOut | StartupEvicted
datatype PodsReadyState =
  PodsReadyUnset | PodsReadyUnknown | PodsReady | PodsNotReady | PodsReadyNoRuntime
datatype DeviceMode = DeviceModeUnset | DeviceModeDisabled | DeviceModeDRA
datatype ClaimAllocationState =
  ClaimAllocationUnset | ClaimAllocationPending | ClaimAllocationAllocated | ClaimAllocationFailed
| ClaimAllocationUnknown
datatype ElasticityMode = ElasticityModeUnset | ElasticityModeDisabled | ElasticityModeManual
datatype InPlaceShrinkPolicy =
  InPlaceShrinkPolicyUnset | InPlaceShrinkPolicyIfSupported | InPlaceShrinkPolicyNever
datatype ReclaimMode = ReclaimModeUnset | ReclaimModeReclaimablePods
datatype ResizeState =
  ResizeStateUnset | ResizeStateIdle | ResizeStatePending | ResizeStateInProgress
| ResizeStateBlocked | ResizeStateCompleted | ResizeStateFailed
datatype ResizePath = ResizePathUnset | ResizePathInPlace | ResizePathCheckpointAndRelaunch
datatype ExecutionMode = ExecutionModeUnset | ExecutionModeFixed | ExecutionModeElastic
datatype LaunchGateState = LaunchGateUnset | LaunchGateOpen | LaunchGateBlocked | LaunchGateUnknown
datatype ProvisioningState =
  ProvStateUnset | ProvStateNotConfigured | ProvStatePending | ProvStateProvisioned | ProvStateFailed
datatype AdmissionCheckState =
  AdmissionCheckUnset | AdmissionCheckPending | AdmissionCheckReady | AdmissionCheckRetry
| AdmissionCheckRejected
datatype TopologyGateState =
  TopologyGateUnset | TopologyGateNotConfigured | TopologyGatePending | TopologyGateAssigned
datatype MultiClusterDispatchPhase =
  DispatchPhaseUnset | DispatchPhasePending | DispatchPhaseDispatched | DispatchPhaseActive
datatype PreemptionState =
  PreemptionStateUnset | PreemptionStateProtected | PreemptionStateActive
| PreemptionStateCooldown | PreemptionStatePreemptible
datatype ConditionStatus = ConditionUnset | ConditionTrue | ConditionFalse | ConditionUnknown

text \<open>\<open>string(x)\<close> of the enumerations whose text the code passes on.\<close>

fun RuntimeMode_string :: "RuntimeMode \<Rightarrow> string" where
  "RuntimeMode_string RuntimeModeUnset = ''''"
| "RuntimeMode_string RuntimeModeDDP = ''DDP''"
| "RuntimeMode_string RuntimeModeFSDP = ''FSDP''"

fun DesiredState_string :: "DesiredState \<Rightarrow> string" where
  "DesiredState_string DesiredStateUnset = ''''"
| "DesiredState_string DesiredStateRunning = ''Running''"
| "DesiredState_string DesiredStatePaused = ''Paused''"

fun InPlaceShrinkPolicy_string :: "InPlaceShrinkPolicy \<Rightarrow> string" where
  "InPlaceShrinkPolicy_string InPlaceShrinkPolicyUnset = ''''"
| "InPlaceShrinkPolicy_string InPlaceShrinkPolicyIfSupported = ''IfSupported''"
| "InPlaceShrinkPolicy_string InPlaceShrinkPolicyNever = ''Never''"

fun ResizeState_string :: "ResizeState \<Rightarrow> string" where
  "ResizeState_string ResizeStateUnset = ''''"
| "ResizeState_string ResizeStateIdle = ''Idle''"
| "ResizeState_string ResizeStatePending = ''Pending''"
| "ResizeState_string ResizeStateInProgress = ''InProgress''"
| "ResizeState_string ResizeStateBlocked = ''Blocked''"
| "ResizeState_string ResizeStateCompleted = ''Completed''"
| "ResizeState_string ResizeStateFailed = ''Failed''"

fun PreemptionState_string :: "PreemptionState \<Rightarrow> string" where
  "PreemptionState_string PreemptionStateUnset = ''''"
| "PreemptionState_string PreemptionStateProtected = ''Protected''"
| "PreemptionState_string PreemptionStateActive = ''Active''"
| "PreemptionState_string PreemptionStateCooldown = ''Cooldown''"
| "PreemptionState_string PreemptionStatePreemptible = ''Preemptible''"

lemma ResizeState_string_inj [simp]: "ResizeState_string x = ResizeState_string y \<longleftrightarrow> x = y"
  by (cases x; cases y) simp_all

section \<open>Spec\<close>

record ElasticitySpec =
  els_Mode :: ElasticityMode
  els_TargetWorkerCount :: "int option"
  els_InPlaceShrinkPolicy :: InPlaceShrinkPolicy
  els_ReclaimMode :: ReclaimMode

record DeviceRequestSpec =
  dr_DeviceClassName :: string
  dr_Count :: int
  dr_Selectors :: "string list"

record DeviceClaimSpec =
  dc_Name :: string
  dc_Containers :: "string list"
  dc_Request :: DeviceRequestSpec

record DeviceSpec =
  dev_Mode :: DeviceMode
  dev_Claims :: "DeviceClaimSpec list"

record TopologySpec =
  topo_Mode :: TopologyMode
  topo_TopologyLevel :: string
  topo_LeaderWorkerColocation :: bool

record ResumableTrainingJobIdentity =
  id_Image :: string
  id_CodeVersion :: string
  id_WorldSize :: int
  id_GPUShape :: string

record EmbeddedObjectMetadata =
  em_Labels :: strmap
  em_Annotations :: strmap

record JobSetTemplate =
  tpl_APIVersion :: string
  tpl_Kind :: string
  tpl_Metadata :: "EmbeddedObjectMetadata option"
  tpl_Spec :: string

record ResumableTrainingJobRuntime =
  rt_Mode :: RuntimeMode
  rt_OptimizerMode :: string
  rt_ShardingMode :: string
  rt_Template :: JobSetTemplate

record CheckpointPolicy =
  cp_StorageURI :: string
  cp_Interval :: duration
  cp_FreshnessBudget :: duration
  cp_MaxDrainTime :: duration
  cp_SafePointMode :: string

record ResumePolicy =
  rp_SourcePolicy :: string
  rp_MaxResumeRetries :: int
  rp_AllowWorldSizeChange :: bool

record ParallelismSpec =
  par_PreferredCount :: int
  par_MinCount :: "int option"
  par_PodSetName :: string
  par_EnablePartialAdmission :: bool

record ResumableTrainingJobSpec =
  sp_Suspend :: "bool option"
  sp_QueueName :: string
  sp_WorkloadPriorityClassName :: string
  sp_Identity :: ResumableTrainingJobIdentity
  sp_Runtime :: ResumableTrainingJobRuntime
  sp_Checkpoint :: CheckpointPolicy
  sp_Resume :: ResumePolicy
  sp_Parallelism :: "ParallelismSpec option"
  sp_Topology :: "TopologySpec option"
  sp_PriorityPolicyRef :: "string option"
  sp_ManagedBy :: string
  sp_Devices :: "DeviceSpec option"
  sp_Elasticity :: "ElasticitySpec option"
  sp_Control :: "DesiredState option"

section \<open>Status\<close>

record CheckpointReference =
  cr_ID :: string
  cr_StorageURI :: string
  cr_ManifestURI :: string
  cr_CompletionTime :: "gotime option"
  cr_SourceRunAttempt :: int
  cr_CompatibilityState :: CompatibilityState
  cr_CompatibilityReason :: string
  cr_WorldSize :: int

record TransitionTimestamps =
  tt_LastTransitionTime :: "gotime option"
  tt_QueuedAt :: "gotime option"
  tt_AdmittedAt :: "gotime option"
  tt_StartingAt :: "gotime option"
  tt_RunningAt :: "gotime option"
  tt_YieldRequestedAt :: "gotime option"
  tt_DrainingAt :: "gotime option"
  tt_LastCheckpointCompletedAt :: "gotime option"
  tt_PausedAt :: "gotime option"
  tt_RestoringAt :: "gotime option"
  tt_RestoreCompletedAt :: "gotime option"
  tt_SucceededAt :: "gotime option"
  tt_FailedAt :: "gotime option"

record SuspensionStatus =
  ss_Suspended :: bool
  ss_Source :: SuspensionSource
  ss_Reason :: string
  ss_Message :: string
  ss_ObservedAt :: "gotime option"

record Condition =
  cond_Type :: string
  cond_Status :: ConditionStatus
  cond_ObservedGeneration :: int
  cond_LastTransitionTime :: gotime
  cond_Reason :: string
  cond_Message :: string

record ElasticityStatus =
  es_DesiredWorkerCount :: int
  es_TargetWorkerCount :: int
  es_ActiveWorkerCount :: int
  es_AdmittedWorkerCount :: int
  es_ResizeState :: ResizeState
  es_ResizeReason :: string
  es_CurrentExecutionMode :: ExecutionMode
  es_ResizePath :: ResizePath
  es_ReclaimableWorkerCount :: int
  es_ReclaimablePodsPublished :: bool
  es_InPlaceShrinkSupported :: bool
  es_LastResizeEvent :: string
  es_LastResizeCheckpoint :: "CheckpointReference option"
  es_LastResizeFailureReason :: string
  es_LastElasticTransitionTime :: "gotime option"
  es_LastResizeCompletedTime :: "gotime option"

record AdmissionStatus =
  ad_AdmittedWorkerCount :: int
  ad_PreferredWorkerCount :: int
  ad_ActiveWorkerCount :: int
  ad_AdmittedFlavors :: "(string \<times> string) list"

record RestoreStatus =
  re_LastCheckpointWorldSize :: int
  re_LastRestoreWorldSize :: int
  re_RestoreMode :: RestoreMode

record LaunchReadinessStatus =
  lr_Ready :: bool
  lr_GateState :: ReadinessGateState
  lr_Reason :: string
  lr_Message :: string
  lr_LastTransitionTime :: "gotime option"

record TopologyDomainStatus =
  tds_Values :: "string list"
  tds_Count :: int

record TopologyStatus =
  ts_Levels :: "string list"
  ts_Domains :: "TopologyDomainStatus list"

record EffectiveLaunchShape =
  ls_WorkerCount :: int
  ls_WorldSize :: int
  ls_ResumeMode :: RestoreMode
  ls_SelectedCheckpointID :: string

record StartupRecoveryStatus =
  sr_StartupState :: StartupState
  sr_PodsReadyState :: PodsReadyState
  sr_LastLaunchFailureReason :: string
  sr_LastEvictionReason :: string
  sr_LastRequeueReason :: string
  sr_LastTransitionTime :: "gotime option"

record ResourceClaimTemplateReference =
  rct_Name :: string
  rct_ClaimName :: string

record DeviceStatus =
  ds_DeviceMode :: DeviceMode
  ds_RequestedDeviceClasses :: "string list"
  ds_CurrentDeviceProfileFingerprint :: string
  ds_ResourceClaimTemplateRefs :: "ResourceClaimTemplateReference list"
  ds_ClaimAllocationState :: ClaimAllocationState
  ds_AllocatedClaimCount :: int
  ds_LastClaimFailureReason :: string
  ds_LastClaimFailureTime :: "gotime option"
  ds_LastCheckpointDeviceProfileFingerprint :: string
  ds_LastResumeDeviceProfileFingerprint :: string

record WorkloadReference =
  wr_APIVersion :: string
  wr_Kind :: string
  wr_Name :: string
  wr_Namespace :: string

record LaunchGateStatus =
  lg_State :: LaunchGateState
  lg_Reason :: string
  lg_Message :: string
  lg_AdmissionCheckSummary :: "(string \<times> AdmissionCheckState) list"
  lg_TopologyGateState :: TopologyGateState
  lg_LastTransitionTime :: "gotime option"

record ProvisioningRequestReference =
  prr_Name :: string
  prr_Namespace :: string

record ProvisioningStatus =
  pv_State :: ProvisioningState
  pv_ProvisioningRequestRef :: "ProvisioningRequestReference option"
  pv_Attempt :: int
  pv_Reason :: string
  pv_Message :: string
  pv_LastTransitionTime :: "gotime option"

record CapacityStatus =
  ca_GuaranteeActive :: bool
  ca_Reason :: string

record RemoteObjectReference =
  ror_Cluster :: string
  ror_Namespace :: string
  ror_Name :: string
  ror_UID :: string

record RemoteCheckpointSummary =
  rcs_LastCompletedCheckpointID :: string
  rcs_LastCompletedCheckpointTime :: "gotime option"
  rcs_StorageURI :: string

record MultiClusterStatus =
  mc_DispatchPhase :: MultiClusterDispatchPhase
  mc_NominatedClusters :: "string list"
  mc_ExecutionCluster :: string
  mc_RemoteObjectRef :: "RemoteObjectReference option"
  mc_RemotePhase :: ResumableTrainingJobPhase
  mc_RemoteCheckpoint :: "RemoteCheckpointSummary option"
  mc_RemoteObservedGeneration :: int
  mc_LocalExecutionSuppressed :: bool

record PriorityShapingStatus =
  psh_BasePriority :: int
  psh_EffectivePriority :: int
  psh_PreemptionState :: PreemptionState
  psh_PreemptionStateReason :: string
  psh_ProtectedUntil :: "gotime option"
  psh_LastCompletedCheckpointTime :: "gotime option"
  psh_CheckpointAge :: string
  psh_LastYieldTime :: "gotime option"
  psh_LastResumeTime :: "gotime option"
  psh_RecentYieldCount :: int
  psh_AppliedPolicyRef :: string

record ResumableTrainingJobStatus =
  st_Phase :: ResumableTrainingJobPhase
  st_Conditions :: "Condition list"
  st_WorkloadReference :: "WorkloadReference option"
  st_AdmittedClusterQueue :: string
  st_CurrentSuspension :: "SuspensionStatus option"
  st_CurrentRunAttempt :: int
  st_PauseRequestID :: string
  st_ActiveJobSetName :: string
  st_ActiveControlConfigMapName :: string
  st_SelectedCheckpoint :: "CheckpointReference option"
  st_LastCompletedCheckpoint :: "CheckpointReference option"
  st_TransitionTimestamps :: TransitionTimestamps
  st_Reason :: string
  st_Message :: string
  st_ObservedGeneration :: int
  st_Admission :: "AdmissionStatus option"
  st_Restore :: "RestoreStatus option"
  st_LaunchReadiness :: "LaunchReadinessStatus option"
  st_Topology :: "TopologyStatus option"
  st_EffectiveLaunchShape :: "EffectiveLaunchShape option"
  st_PriorityShaping :: "PriorityShapingStatus option"
  st_LaunchGate :: "LaunchGateStatus option"
  st_Provisioning :: "ProvisioningStatus option"
  st_StartupRecovery :: "StartupRecoveryStatus option"
  st_Capacity :: "CapacityStatus option"
  st_MultiCluster :: "MultiClusterStatus option"
  st_Devices :: "DeviceStatus option"
  st_Elasticity :: "ElasticityStatus option"

record ResumableTrainingJob =
  rtj_Name :: string
  rtj_Namespace :: string
  rtj_UID :: string
  rtj_Generation :: int
  rtj_Deleting :: bool
  rtj_Finalizers :: "string list"
  rtj_Labels :: strmap
  rtj_Annotations :: strmap
  rtj_Spec :: ResumableTrainingJobSpec
  rtj_Status :: ResumableTrainingJobStatus

section \<open>Accessor methods\<close>

definition EffectivePreferredCount :: "ResumableTrainingJob \<Rightarrow> int" where
  [api_simps]: "EffectivePreferredCount r =
     (case sp_Parallelism (rtj_Spec r) of
        Some p \<Rightarrow> if par_PreferredCount p > 0 then par_PreferredCount p
                  else id_WorldSize (sp_Identity (rtj_Spec r))
      | None \<Rightarrow> id_WorldSize (sp_Identity (rtj_Spec r)))"

definition EffectiveMinCount :: "ResumableTrainingJob \<Rightarrow> int option" where
  [api_simps]: "EffectiveMinCount r =
     (case sp_Parallelism (rtj_Spec r) of
        Some p \<Rightarrow> if par_EnablePartialAdmission p then par_MinCount p else None
      | None \<Rightarrow> None)"

definition EffectivePodSetName :: "ResumableTrainingJob \<Rightarrow> string" where
  [api_simps]: "EffectivePodSetName r =
     (case sp_Parallelism (rtj_Spec r) of
        Some p \<Rightarrow> par_PodSetName p | None \<Rightarrow> '''')"

definition EffectiveElasticityMinCount :: "ResumableTrainingJob \<Rightarrow> int" where
  [api_simps]: "EffectiveElasticityMinCount r =
     (case sp_Parallelism (rtj_Spec r) of
        Some p \<Rightarrow> (case par_MinCount p of Some m \<Rightarrow> m | None \<Rightarrow> 1)
      | None \<Rightarrow> 1)"

definition IsElasticityEnabled :: "ResumableTrainingJob \<Rightarrow> bool" where
  [api_simps]: "IsElasticityEnabled r =
     (case sp_Elasticity (rtj_Spec r) of
        Some e \<Rightarrow> els_Mode e \<noteq> ElasticityModeDisabled | None \<Rightarrow> False)"

definition EffectiveTargetWorkerCount :: "ResumableTrainingJob \<Rightarrow> int" where
  [api_simps]: "EffectiveTargetWorkerCount r =
     (case sp_Elasticity (rtj_Spec r) of
        Some e \<Rightarrow>
          (if IsElasticityEnabled r
           then (case els_TargetWorkerCount e of Some n \<Rightarrow> n | None \<Rightarrow> EffectivePreferredCount r)
           else EffectivePreferredCount r)
      | None \<Rightarrow> EffectivePreferredCount r)"

definition IsDevicesEnabled :: "ResumableTrainingJob \<Rightarrow> bool" where
  [api_simps]: "IsDevicesEnabled r =
     (case sp_Devices (rtj_Spec r) of Some d \<Rightarrow> dev_Mode d = DeviceModeDRA | None \<Rightarrow> False)"

definition MultiKueueControllerName :: string where
  "MultiKueueControllerName = ''kueue.x-k8s.io/multikueue''"

definition IsManagedByMultiKueue :: "ResumableTrainingJob \<Rightarrow> bool" where
  [api_simps]: "IsManagedByMultiKueue r = (sp_ManagedBy (rtj_Spec r) = MultiKueueControllerName)"

definition IsPriorityShapingEnabled :: "ResumableTrainingJob \<Rightarrow> bool" where
  [api_simps]: "IsPriorityShapingEnabled r =
     (case sp_PriorityPolicyRef (rtj_Spec r) of Some n \<Rightarrow> TrimSpace n \<noteq> '''' | None \<Rightarrow> False)"

definition IsTopologyEnabled :: "ResumableTrainingJob \<Rightarrow> bool" where
  [api_simps]: "IsTopologyEnabled r =
     (case sp_Topology (rtj_Spec r) of Some t \<Rightarrow> topo_Mode t \<noteq> TopologyModeDisabled | None \<Rightarrow> False)"

definition IsSuspendedForKueue :: "ResumableTrainingJob \<Rightarrow> bool" where
  [api_simps]: "IsSuspendedForKueue r = (sp_Suspend (rtj_Spec r) = Some True)"

section \<open>Phases\<close>

definition setTime :: "gotime option \<Rightarrow> gotime \<Rightarrow> gotime option \<times> bool" where
  "setTime dst now = (if dst = Some now then (dst, False) else (Some now, True))"

lemma fst_setTime [simp]: "fst (setTime dst now) = Some now"
  by (simp add: setTime_def)

lemma snd_setTime [simp]: "snd (setTime dst now) \<longleftrightarrow> dst \<noteq> Some now"
  by (simp add: setTime_def)

definition setLastTransitionTime :: "TransitionTimestamps \<Rightarrow> gotime \<Rightarrow> TransitionTimestamps \<times> bool" where
  "setLastTransitionTime t now =
     (case setTime (tt_LastTransitionTime t) now of (v, ch) \<Rightarrow> (t\<lparr>tt_LastTransitionTime := v\<rparr>, ch))"

definition markPhase ::
  "TransitionTimestamps \<Rightarrow> ResumableTrainingJobPhase \<Rightarrow> gotime \<Rightarrow> TransitionTimestamps \<times> bool" where
  "markPhase t0 phase now =
     (case setLastTransitionTime t0 now of (t, ch) \<Rightarrow>
      (case phase of
         PhaseQueued \<Rightarrow> (case setTime (tt_QueuedAt t) now of (v, b) \<Rightarrow> (t\<lparr>tt_QueuedAt := v\<rparr>, b \<or> ch))
       | PhaseAdmitted \<Rightarrow> (case setTime (tt_AdmittedAt t) now of (v, b) \<Rightarrow> (t\<lparr>tt_AdmittedAt := v\<rparr>, b \<or> ch))
       | PhaseStarting \<Rightarrow> (case setTime (tt_StartingAt t) now of (v, b) \<Rightarrow> (t\<lparr>tt_StartingAt := v\<rparr>, b \<or> ch))
       | PhaseRunning \<Rightarrow> (case setTime (tt_RunningAt t) now of (v, b) \<Rightarrow> (t\<lparr>tt_RunningAt := v\<rparr>, b \<or> ch))
       | PhaseYieldRequested \<Rightarrow>
           (case setTime (tt_YieldRequestedAt t) now of (v, b) \<Rightarrow> (t\<lparr>tt_YieldRequestedAt := v\<rparr>, b \<or> ch))
       | PhaseDraining \<Rightarrow> (case setTime (tt_DrainingAt t) now of (v, b) \<Rightarrow> (t\<lparr>tt_DrainingAt := v\<rparr>, b \<or> ch))
       | PhasePaused \<Rightarrow> (case setTime (tt_PausedAt t) now of (v, b) \<Rightarrow> (t\<lparr>tt_PausedAt := v\<rparr>, b \<or> ch))
       | PhaseRestoring \<Rightarrow> (case setTime (tt_RestoringAt t) now of (v, b) \<Rightarrow> (t\<lparr>tt_RestoringAt := v\<rparr>, b \<or> ch))
       | PhaseSucceeded \<Rightarrow> (case setTime (tt_SucceededAt t) now of (v, b) \<Rightarrow> (t\<lparr>tt_SucceededAt := v\<rparr>, b \<or> ch))
       | PhaseFailed \<Rightarrow> (case setTime (tt_FailedAt t) now of (v, b) \<Rightarrow> (t\<lparr>tt_FailedAt := v\<rparr>, b \<or> ch))
       | _ \<Rightarrow> (t, ch)))"

definition SetPhase ::
  "ResumableTrainingJobStatus \<Rightarrow> ResumableTrainingJobPhase \<Rightarrow> string \<Rightarrow> string \<Rightarrow> gotime
   \<Rightarrow> ResumableTrainingJobStatus \<times> bool" where
  "SetPhase s phase reason message now =
     (let (s1, ch1) =
        (if st_Phase s \<noteq> phase
         then (s\<lparr>st_Phase := phase,
                st_TransitionTimestamps := fst (markPhase (st_TransitionTimestamps s) phase now)\<rparr>, True)
         else if tt_LastTransitionTime (st_TransitionTimestamps s) = None
         then (s\<lparr>st_TransitionTimestamps :=
                fst (setLastTransitionTime (st_TransitionTimestamps s) now)\<rparr>,
               snd (setLastTransitionTime (st_TransitionTimestamps s) now))
         else (s, False));
        ch2 = (st_Reason s1 \<noteq> reason \<or> ch1); s2 = s1\<lparr>st_Reason := reason\<rparr>;
        ch3 = (st_Message s2 \<noteq> message \<or> ch2); s3 = s2\<lparr>st_Message := message\<rparr>
      in (s3, ch3))"

definition setObservedGeneration :: "ResumableTrainingJob \<Rightarrow> ResumableTrainingJob \<times> bool" where
  "setObservedGeneration r =
     (if st_ObservedGeneration (rtj_Status r) \<noteq> rtj_Generation r
      then (r\<lparr>rtj_Status := (rtj_Status r)\<lparr>st_ObservedGeneration := rtj_Generation r\<rparr>\<rparr>, True)
      else (r, False))"

definition ReasonControllerInitialized :: string where
  "ReasonControllerInitialized = ''ControllerInitialized''"

definition MessageControllerInitialized :: string where
  "MessageControllerInitialized = ''Phase 2 scaffold initialized the ResumableTrainingJob status.''"

definition InitializePhase1Status :: "ResumableTrainingJob \<Rightarrow> gotime \<Rightarrow> ResumableTrainingJob \<times> bool" where
  "InitializePhase1Status r now =
     (let (r1, ch1) =
        (if st_Phase (rtj_Status r) = PhaseUnset
         then (case SetPhase (rtj_Status r) PhasePending ReasonControllerInitialized
                      MessageControllerInitialized now of (s, b) \<Rightarrow> (r\<lparr>rtj_Status := s\<rparr>, b))
         else (r, False));
        (r2, ch2) = setObservedGeneration r1
      in (r2, ch2 \<or> ch1))"

lemma markPhase_LastTransitionTime [simp]:
  "tt_LastTransitionTime (fst (markPhase t phase now)) = Some now"
  by (simp add: markPhase_def setLastTransitionTime_def split_beta split: ResumableTrainingJobPhase.split)

lemma markPhase_YieldRequestedAt [simp]:
  "tt_YieldRequestedAt (fst (markPhase t phase now)) =
     (if phase = PhaseYieldRequested then Some now else tt_YieldRequestedAt t)"
  by (simp add: markPhase_def setLastTransitionTime_def split_beta split: ResumableTrainingJobPhase.split)

text \<open>What \<open>SetPhase\<close> writes: the phase, the reason and the message; the transition times only
  when the phase changes (or none was recorded); nothing else.\<close>

lemma SetPhase_fst:
  "fst (SetPhase s phase reason message now) =
     s\<lparr>st_Phase := phase, st_Reason := reason, st_Message := message,
       st_TransitionTimestamps :=
         (if st_Phase s \<noteq> phase then fst (markPhase (st_TransitionTimestamps s) phase now)
          else if tt_LastTransitionTime (st_TransitionTimestamps s) = None
          then (st_TransitionTimestamps s)\<lparr>tt_LastTransitionTime := Some now\<rparr>
          else st_TransitionTimestamps s)\<rparr>"
  by (auto simp: SetPhase_def Let_def setLastTransitionTime_def split_beta)

lemma SetPhase_snd:
  "snd (SetPhase s phase reason message now) \<longleftrightarrow>
     st_Phase s \<noteq> phase \<or> st_Reason s \<noteq> reason \<or> st_Message s \<noteq> message
     \<or> tt_LastTransitionTime (st_TransitionTimestamps s) = None"
  by (auto simp: SetPhase_def Let_def setLastTransitionTime_def split_beta)

lemma SetPhase_unchanged: "\<not> snd (SetPhase s p r m now) \<Longrightarrow> fst (SetPhase s p r m now) = s"
  by (simp add: SetPhase_fst SetPhase_snd)

lemma setObservedGeneration_fst [simp]:
  "fst (setObservedGeneration r) =
     r\<lparr>rtj_Status := (rtj_Status r)\<lparr>st_ObservedGeneration := rtj_Generation r\<rparr>\<rparr>"
  by (simp add: setObservedGeneration_def)

lemma setObservedGeneration_snd [simp]:
  "snd (setObservedGeneration r) \<longleftrightarrow> st_ObservedGeneration (rtj_Status r) \<noteq> rtj_Generation r"
  by (simp add: setObservedGeneration_def)

section \<open>A sample job\<close>

definition ex_status :: ResumableTrainingJobStatus where
  "ex_status = \<lparr> st_Phase = PhaseQueued, st_Conditions = [], st_WorkloadReference = None,
     st_AdmittedClusterQueue = '''', st_CurrentSuspension = None, st_CurrentRunAttempt = 1,
     st_PauseRequestID = '''', st_ActiveJobSetName = '''', st_ActiveControlConfigMapName = '''',
     st_SelectedCheckpoint = None, st_LastCompletedCheckpoint = None,
     st_TransitionTimestamps = \<lparr> tt_LastTransitionTime = None, tt_QueuedAt = None, tt_AdmittedAt = None,
       tt_StartingAt = None, tt_RunningAt = None, tt_YieldRequestedAt = None, tt_DrainingAt = None,
       tt_LastCheckpointCompletedAt = None, tt_PausedAt = None, tt_RestoringAt = None,
       tt_RestoreCompletedAt = None, tt_SucceededAt = None, tt_FailedAt = None \<rparr>,
     st_Reason = '''', st_Message = '''', st_ObservedGeneration = 1, st_Admission = None, st_Restore = None,
     st_LaunchReadiness = None, st_Topology = None, st_EffectiveLaunchShape = None,
     st_PriorityShaping = None, st_LaunchGate = None, st_Provisioning = None, st_StartupRecovery = None,
     st_Capacity = None, st_MultiCluster = None, st_Devices = None, st_Elasticity = None \<rparr>"

definition ex_spec :: ResumableTrainingJobSpec where
  "ex_spec = \<lparr> sp_Suspend = None, sp_QueueName = ''q'', sp_WorkloadPriorityClassName = ''p'',
     sp_Identity = \<lparr> id_Image = ''i'', id_CodeVersion = ''v'', id_WorldSize = 4, id_GPUShape = ''g'' \<rparr>,
     sp_Runtime = \<lparr> rt_Mode = RuntimeModeDDP, rt_OptimizerMode = ''o'', rt_ShardingMode = ''s'',
       rt_Template = \<lparr> tpl_APIVersion = '''', tpl_Kind = '''', tpl_Metadata = None, tpl_Spec = '''' \<rparr> \<rparr>,
     sp_Checkpoint = \<lparr> cp_StorageURI = ''s3://b/'', cp_Interval = Minute, cp_FreshnessBudget = Hour,
       cp_MaxDrainTime = Minute, cp_SafePointMode = ''StepBoundary'' \<rparr>,
     sp_Resume = \<lparr> rp_SourcePolicy = ''LatestCompatibleComplete'', rp_MaxResumeRetries = 3,
       rp_AllowWorldSizeChange = False \<rparr>,
     sp_Parallelism = None, sp_Topology = None, sp_PriorityPolicyRef = None, sp_ManagedBy = '''',
     sp_Devices = None, sp_Elasticity = None, sp_Control = None \<rparr>"

definition ex_job :: ResumableTrainingJob where
  "ex_job = \<lparr> rtj_Name = ''j'', rtj_Namespace = ''ns'', rtj_UID = ''uid-1'', rtj_Generation = 1,
     rtj_Deleting = False, rtj_Finalizers = [], rtj_Labels = Map.empty,
     rtj_Annotations = Map.empty, rtj_Spec = ex_spec, rtj_Status = ex_status \<rparr>"

end
