(* ===== verification/Conditions.thy ===== *)
theory Conditions
  imports API_Types
begin

text \<open>
  Status conditions and status updates.  \<open>meta.FindStatusCondition\<close> and \<open>meta.SetStatusCondition\<close>
  of \<open>k8s.io/apimachinery\<close> are parameters of the model, gathered in the record \<open>meta_ops\<close>; what
  their documentation promises is the locale \<open>conditions_api\<close>.  On top of them: \<open>setCondition\<close> and
  \<open>clearCondition\<close> of \<open>internal/controller/status_helpers.go\<close>.

  A status helper of the controller takes a job and returns the new job and whether it changed.
  Sequences of helpers, whose flags the code joins by \<open>||\<close>, are \<open>run_all\<close>; the contract every
  helper has to honour, that a job reported as unchanged is unchanged (the caller does not write
  it back), is \<open>honest\<close>.
\<close>

section \<open>The interface of \<open>apimachinery\<close>\<close>

record meta_ops =
  FindStatusCondition :: "Condition list \<Rightarrow> string \<Rightarrow> Condition option"
  SetStatusCondition :: "Condition list \<Rightarrow> Condition \<Rightarrow> Condition list"

text \<open>Finding returns the first condition of the type.  Setting appends a condition of a new type,
  and otherwise rewrites the condition of that type in place, keeping its transition time unless
  the status changes; the conditions of other types stay as they are.  A zero transition time
  (which is replaced by the current time) is outside the contract: the operator never passes one.\<close>

locale conditions_api =
  fixes M :: meta_ops
  assumes find_first: "FindStatusCondition M cs t = find (\<lambda>c. cond_Type c = t) cs"
    and set_absent: "cond_LastTransitionTime c \<noteq> time_zero \<Longrightarrow>
        find (\<lambda>x. cond_Type x = cond_Type c) cs = None \<Longrightarrow> SetStatusCondition M cs c = cs @ [c]"
    and set_types: "cond_LastTransitionTime c \<noteq> time_zero \<Longrightarrow>
        find (\<lambda>x. cond_Type x = cond_Type c) cs \<noteq> None \<Longrightarrow>
        map cond_Type (SetStatusCondition M cs c) = map cond_Type cs"
    and set_found: "cond_LastTransitionTime c \<noteq> time_zero \<Longrightarrow>
        find (\<lambda>x. cond_Type x = cond_Type c) cs = Some old \<Longrightarrow>
        find (\<lambda>x. cond_Type x = cond_Type c) (SetStatusCondition M cs c) =
          Some (if cond_Status old = cond_Status c
                then c\<lparr> cond_LastTransitionTime := cond_LastTransitionTime old \<rparr> else c)"
    and set_others: "cond_LastTransitionTime c \<noteq> time_zero \<Longrightarrow> t \<noteq> cond_Type c \<Longrightarrow>
        filter (\<lambda>x. cond_Type x = t) (SetStatusCondition M cs c) = filter (\<lambda>x. cond_Type x = t) cs"

text \<open>The implementation the documentation describes.\<close>

fun replace_condition :: "Condition list \<Rightarrow> Condition \<Rightarrow> Condition list" where
  "replace_condition [] c = [c]"
| "replace_condition (x # xs) c =
     (if cond_Type x = cond_Type c
      then (if cond_Status x = cond_Status c
            then c\<lparr> cond_LastTransitionTime := cond_LastTransitionTime x \<rparr> else c) # xs
      else x # replace_condition xs c)"

definition apimachinery :: meta_ops where
  "apimachinery =
     \<lparr> FindStatusCondition = (\<lambda>cs t. find (\<lambda>c. cond_Type c = t) cs),
       SetStatusCondition = replace_condition \<rparr>"

lemma replace_condition_absent:
  "find (\<lambda>x. cond_Type x = cond_Type c) cs = None \<Longrightarrow> replace_condition cs c = cs @ [c]"
  by (induction cs) (simp_all split: if_splits)

lemma replace_condition_types:
  "find (\<lambda>x. cond_Type x = cond_Type c) cs \<noteq> None \<Longrightarrow> map cond_Type (replace_condition cs c) = map cond_Type cs"
  by (induction cs) (auto split: if_splits)

lemma replace_condition_found:
  "find (\<lambda>x. cond_Type x = cond_Type c) cs = Some old \<Longrightarrow>
     find (\<lambda>x. cond_Type x = cond_Type c) (replace_condition cs c) =
       Some (if cond_Status old = cond_Status c
             then c\<lparr> cond_LastTransitionTime := cond_LastTransitionTime old \<rparr> else c)"
  by (induction cs) (auto split: if_splits)

lemma replace_condition_others:
  "t \<noteq> cond_Type c \<Longrightarrow>
     filter (\<lambda>x. cond_Type x = t) (replace_condition cs c) = filter (\<lambda>x. cond_Type x = t) cs"
  by (induction cs) auto

interpretation apimachinery: conditions_api apimachinery
  by unfold_locales
     (simp_all add: apimachinery_def replace_condition_absent replace_condition_types
        replace_condition_found replace_condition_others)

section \<open>Status updates\<close>

type_synonym job = ResumableTrainingJob
type_synonym update = "job \<Rightarrow> job \<times> bool"

text \<open>What a write of the status leaves alone.\<close>

lemma status_only:
  fixes j j' :: job
  assumes "j' = j\<lparr> rtj_Status := s \<rparr>"
  shows "rtj_Spec j' = rtj_Spec j" "rtj_Generation j' = rtj_Generation j" "rtj_Name j' = rtj_Name j"
    "rtj_Namespace j' = rtj_Namespace j" "rtj_Annotations j' = rtj_Annotations j" "rtj_UID j' = rtj_UID j"
    "rtj_Labels j' = rtj_Labels j" "rtj_Deleting j' = rtj_Deleting j" "rtj_Finalizers j' = rtj_Finalizers j"
  by (subst assms, simp)+

fun run_all :: "update list \<Rightarrow> update" where
  "run_all [] j = (j, False)"
| "run_all (u # us) j =
     (let (j1, b1) = u j; (j2, b2) = run_all us j1 in (j2, b1 \<or> b2))"

definition honest :: "update \<Rightarrow> bool" where
  "honest u \<longleftrightarrow> (\<forall>j. \<not> snd (u j) \<longrightarrow> fst (u j) = j)"

lemma honestD: "honest u \<Longrightarrow> \<not> snd (u j) \<Longrightarrow> fst (u j) = j"
  by (simp add: honest_def)

lemma honest_run_all: "(\<forall>u \<in> set us. honest u) \<Longrightarrow> honest (run_all us)"
proof (induction us)
  case (Cons u us)
  then have "honest u" "honest (run_all us)" by simp_all
  then have "fst (run_all (u # us) j) = j" if "\<not> snd (run_all (u # us) j)" for j
    using that honestD [of u j] honestD [of "run_all us" j] by (simp add: Let_def split_beta)
  then show ?case by (simp add: honest_def)
qed (simp add: honest_def)

lemma fst_run_all: "fst (run_all us j) = fold (\<lambda>u j. fst (u j)) us j"
  by (induction us arbitrary: j) (simp_all add: Let_def split_beta)

text \<open>An update that leaves a view of the job alone.\<close>

definition keeps :: "(job \<Rightarrow> 'a) \<Rightarrow> update \<Rightarrow> bool" where
  "keeps f u \<longleftrightarrow> (\<forall>j. f (fst (u j)) = f j)"

lemma keepsD: "keeps f u \<Longrightarrow> f (fst (u j)) = f j"
  by (simp add: keeps_def)

lemma keeps_run_all: "(\<forall>u \<in> set us. keeps f u) \<Longrightarrow> keeps f (run_all us)"
  by (induction us) (auto simp: keeps_def Let_def split_beta)

text \<open>\<open>if x.f != v { x.f = v; changed = true }\<close> for a field of the status.\<close>

definition put ::
  "(ResumableTrainingJobStatus \<Rightarrow> 'a) \<Rightarrow> ((('a \<Rightarrow> 'a) \<Rightarrow> ResumableTrainingJobStatus \<Rightarrow> ResumableTrainingJobStatus))
   \<Rightarrow> 'a \<Rightarrow> update" where
  "put get upd v j =
     (if get (rtj_Status j) \<noteq> v then (j\<lparr> rtj_Status := upd (\<lambda>_. v) (rtj_Status j) \<rparr>, True) else (j, False))"

lemma honest_put [simp]: "honest (put get upd v)"
  by (simp add: honest_def put_def)

definition phase_to ::
  "ResumableTrainingJobPhase \<Rightarrow> string \<Rightarrow> string \<Rightarrow> gotime \<Rightarrow> update" where
  "phase_to phase reason message now j =
     (case SetPhase (rtj_Status j) phase reason message now of (s, b) \<Rightarrow> (j\<lparr> rtj_Status := s \<rparr>, b))"

lemma phase_to_simps:
  "fst (phase_to p r m now j) = j\<lparr> rtj_Status := fst (SetPhase (rtj_Status j) p r m now) \<rparr>"
  "snd (phase_to p r m now j) = snd (SetPhase (rtj_Status j) p r m now)"
  by (simp_all add: phase_to_def split_beta)

lemma honest_phase_to [simp]: "honest (phase_to p r m now)"
  by (simp add: honest_def phase_to_simps SetPhase_unchanged)

lemma honest_setObservedGeneration [simp]: "honest setObservedGeneration"
  by (simp add: honest_def setObservedGeneration_def)

section \<open>Setting and clearing a condition\<close>

definition on_conditions :: "(Condition list \<Rightarrow> Condition list) \<Rightarrow> job \<Rightarrow> job" where
  "on_conditions f j = j\<lparr> rtj_Status := (rtj_Status j)\<lparr> st_Conditions := f (st_Conditions (rtj_Status j)) \<rparr> \<rparr>"

abbreviation conditions :: "job \<Rightarrow> Condition list" where
  "conditions j \<equiv> st_Conditions (rtj_Status j)"

definition find_condition :: "string \<Rightarrow> job \<Rightarrow> Condition option" where
  "find_condition t j = find (\<lambda>c. cond_Type c = t) (conditions j)"

fun currentStatus :: "Condition option \<Rightarrow> ConditionStatus" where
  "currentStatus None = ConditionUnset" | "currentStatus (Some c) = cond_Status c"

fun currentReason :: "Condition option \<Rightarrow> string" where
  "currentReason None = ''''" | "currentReason (Some c) = cond_Reason c"

fun currentMessage :: "Condition option \<Rightarrow> string" where
  "currentMessage None = ''''" | "currentMessage (Some c) = cond_Message c"

fun currentObservedGeneration :: "Condition option \<Rightarrow> int" where
  "currentObservedGeneration None = 0" | "currentObservedGeneration (Some c) = cond_ObservedGeneration c"

definition setCondition ::
  "meta_ops \<Rightarrow> string \<Rightarrow> ConditionStatus \<Rightarrow> string \<Rightarrow> string \<Rightarrow> gotime \<Rightarrow> update" where
  "setCondition M conditionType status reason message now job =
     (let current = FindStatusCondition M (conditions job) conditionType in
      if (case current of
            None \<Rightarrow> False
          | Some c \<Rightarrow> cond_Status c = status \<and> cond_Reason c = reason \<and> cond_Message c = message
                     \<and> cond_ObservedGeneration c = rtj_Generation job)
      then (job, False)
      else
        let job1 = on_conditions (\<lambda>cs. SetStatusCondition M cs
              \<lparr> cond_Type = conditionType, cond_Status = status,
                cond_ObservedGeneration = rtj_Generation job, cond_LastTransitionTime = now,
                cond_Reason = reason, cond_Message = message \<rparr>) job
        in (job1,
            if length (conditions job1) \<noteq> length (conditions job) then True
            else case FindStatusCondition M (conditions job1) conditionType of
              None \<Rightarrow> False
            | Some u \<Rightarrow> cond_Status u \<noteq> currentStatus current \<or> cond_Reason u \<noteq> currentReason current
                       \<or> cond_Message u \<noteq> currentMessage current
                       \<or> cond_ObservedGeneration u \<noteq> currentObservedGeneration current))"

definition clearCondition :: "string \<Rightarrow> update" where
  "clearCondition conditionType job =
     (let filtered = filter (\<lambda>c. cond_Type c \<noteq> conditionType) (conditions job)
      in (on_conditions (\<lambda>_. filtered) job, length filtered \<noteq> length (conditions job)))"

lemma on_conditions_simps [simp]:
  "conditions (on_conditions f j) = f (conditions j)"
  "rtj_Generation (on_conditions f j) = rtj_Generation j"
  "rtj_Spec (on_conditions f j) = rtj_Spec j"
  by (simp_all add: on_conditions_def)

lemma on_conditions_id: "f (conditions j) = conditions j \<Longrightarrow> on_conditions f j = j"
  by (simp add: on_conditions_def)

lemma fst_clearCondition:
  "fst (clearCondition t j) = on_conditions (filter (\<lambda>c. cond_Type c \<noteq> t)) j"
  by (simp add: clearCondition_def on_conditions_def Let_def)

lemma clearCondition_absent [simp]:
  "find_condition t' (fst (clearCondition t j)) = (if t' = t then None else find_condition t' j)"
proof -
  have "find (\<lambda>c. cond_Type c = t') (filter (\<lambda>c. cond_Type c \<noteq> t) cs) =
     (if t' = t then None else find (\<lambda>c. cond_Type c = t') cs)" for cs
    by (induction cs) auto
  from this [of "conditions j"] show ?thesis by (simp add: find_condition_def fst_clearCondition)
qed

lemma honest_clearCondition [simp]: "honest (clearCondition t)"
proof -
  have "filter P cs = cs" if "length (filter P cs) = length cs" for P and cs :: "Condition list"
    using that by (metis filter_id_conv length_filter_less less_irrefl)
  then show ?thesis by (auto simp: honest_def clearCondition_def Let_def intro!: on_conditions_id)
qed

lemma find_snoc: "find P (xs @ [x]) = (case find P xs of Some y \<Rightarrow> Some y | None \<Rightarrow> if P x then Some x else None)"
  by (induction xs) simp_all

context conditions_api
begin

lemma setCondition_fst:
  assumes "now \<noteq> time_zero"
  shows "find_condition t' (fst (setCondition M t s r m now j)) =
    (if t' = t
     then Some \<lparr> cond_Type = t, cond_Status = s, cond_ObservedGeneration = rtj_Generation j,
                 cond_LastTransitionTime =
                   (case find_condition t j of
                      None \<Rightarrow> now
                    | Some c \<Rightarrow> if cond_Status c = s then cond_LastTransitionTime c else now),
                 cond_Reason = r, cond_Message = m \<rparr>
     else find_condition t' j)"
proof -
  let ?c = "\<lparr> cond_Type = t, cond_Status = s, cond_ObservedGeneration = rtj_Generation j,
              cond_LastTransitionTime = now, cond_Reason = r, cond_Message = m \<rparr>"
  let ?cs = "conditions j"
  have nz: "cond_LastTransitionTime ?c \<noteq> time_zero" using assms by simp
  have other: "find (\<lambda>x. cond_Type x = t') (SetStatusCondition M ?cs ?c) = find (\<lambda>x. cond_Type x = t') ?cs"
    if "t' \<noteq> t"
  proof -
    have "filter (\<lambda>x. cond_Type x = t') (SetStatusCondition M ?cs ?c) = filter (\<lambda>x. cond_Type x = t') ?cs"
      using set_others [OF nz] that by simp
    moreover have "find P xs = (case filter P xs of [] \<Rightarrow> None | y # _ \<Rightarrow> Some y)" for P and xs :: "Condition list"
      by (induction xs) simp_all
    ultimately show ?thesis by simp
  qed
  have same: "c = \<lparr> cond_Type = t, cond_Status = s, cond_ObservedGeneration = rtj_Generation j,
                  cond_LastTransitionTime = cond_LastTransitionTime c, cond_Reason = r, cond_Message = m \<rparr>"
    if "find (\<lambda>c. cond_Type c = t) ?cs = Some c" "cond_Status c = s" "cond_Reason c = r"
      "cond_Message c = m" "cond_ObservedGeneration c = rtj_Generation j" for c
    using find_SomeD [OF that(1)] that by (cases c) simp
  show ?thesis
  proof (cases "find (\<lambda>c. cond_Type c = t) ?cs")
    case None
    with other show ?thesis
      using set_absent [OF nz] by (auto simp: setCondition_def Let_def find_first find_condition_def find_snoc split: option.split)
  next
    case (Some c)
    show ?thesis
      using Some other set_found [OF nz, of ?cs c] same [of c]
      by (auto simp: setCondition_def Let_def find_first find_condition_def)
  qed
qed

lemma honest_setCondition:
  assumes "now \<noteq> time_zero"
  shows "honest (setCondition M t s r m now)"
  unfolding honest_def
proof (intro allI impI)
  fix j assume u: "\<not> snd (setCondition M t s r m now j)"
  show "fst (setCondition M t s r m now j) = j"
  proof (cases "find_condition t j")
    case None
    then show ?thesis
      using u set_absent [of "\<lparr> cond_Type = t, cond_Status = s, cond_ObservedGeneration = rtj_Generation j,
              cond_LastTransitionTime = now, cond_Reason = r, cond_Message = m \<rparr>" "conditions j"] assms
      by (simp add: setCondition_def find_first find_condition_def Let_def)
  next
    case (Some c)
    then show ?thesis
      using u set_found [of "\<lparr> cond_Type = t, cond_Status = s, cond_ObservedGeneration = rtj_Generation j,
              cond_LastTransitionTime = now, cond_Reason = r, cond_Message = m \<rparr>" "conditions j" c] assms
      by (auto simp: setCondition_def find_first find_condition_def Let_def split: if_splits)
  qed
qed

end

lemma setCondition_keeps:
  "rtj_Spec (fst (setCondition M t s r m now j)) = rtj_Spec j"
  "rtj_Generation (fst (setCondition M t s r m now j)) = rtj_Generation j"
  by (simp_all add: setCondition_def Let_def)

end
