(* ===== verification/Status_Helpers.thy ===== *)
theory Status_Helpers
  imports Conditions
begin

text \<open>
  Status helpers of \<open>internal/controller/status_helpers.go\<close>: the phase transitions (\<open>mark...\<close>), the
  suspension, admission, restore and device sections of the status, the resize conditions.  Each is
  an \<open>update\<close>: it returns the new job and whether it changed.  The library functions on conditions
  are the parameter \<open>M\<close>.
\<close>

section \<open>Shared shapes\<close>

text \<open>The \<open>switch\<close> that opens every comparison of two pointers.\<close>

definition ptr_equal :: "('a \<Rightarrow> 'a \<Rightarrow> bool) \<Rightarrow> 'a option \<Rightarrow> 'a option \<Rightarrow> bool" where
  "ptr_equal eq l r = (case (l, r) of (None, None) \<Rightarrow> True | (Some x, Some y) \<Rightarrow> eq x y | _ \<Rightarrow> False)"

text \<open>\<open>if equal(status.f, desired) { return false }; status.f = desired; return true\<close>\<close>

definition sync_field ::
  "('a \<Rightarrow> 'a \<Rightarrow> bool) \<Rightarrow> (ResumableTrainingJobStatus \<Rightarrow> 'a)
   \<Rightarrow> (('a \<Rightarrow> 'a) \<Rightarrow> ResumableTrainingJobStatus \<Rightarrow> ResumableTrainingJobStatus) \<Rightarrow> 'a \<Rightarrow> 'a \<Rightarrow> update" where
  "sync_field eq get upd desired stored j =
     (if eq (get (rtj_Status j)) desired then (j, False)
      else (j\<lparr> rtj_Status := upd (\<lambda>_. stored) (rtj_Status j) \<rparr>, True))"

lemma honest_sync_field [simp]: "honest (sync_field eq get upd d s)"
  by (simp add: honest_def sync_field_def)

text \<open>\<open>if status.f == nil { return false }; status.f = nil; return true\<close>\<close>

definition drop_field ::
  "(ResumableTrainingJobStatus \<Rightarrow> 'a option)
   \<Rightarrow> (('a option \<Rightarrow> 'a option) \<Rightarrow> ResumableTrainingJobStatus \<Rightarrow> ResumableTrainingJobStatus) \<Rightarrow> update" where
  "drop_field get upd j =
     (if get (rtj_Status j) = None then (j, False)
      else (j\<lparr> rtj_Status := upd (\<lambda>_. None) (rtj_Status j) \<rparr>, True))"

lemma honest_drop_field [simp]: "honest (drop_field get upd)"
  by (simp add: honest_def drop_field_def)

definition timesEqual :: "gotime option \<Rightarrow> gotime option \<Rightarrow> bool" where
  "timesEqual l r = ptr_equal (=) l r"

lemma timesEqual_iff [simp]: "timesEqual l r \<longleftrightarrow> l = r"
  by (simp add: timesEqual_def ptr_equal_def split: option.split)

text \<open>Go maps are association lists with distinct keys; a missing key reads as the empty string.\<close>

definition stringMapsEqual :: "(string \<times> string) list \<Rightarrow> (string \<times> string) list \<Rightarrow> bool" where
  "stringMapsEqual l r \<longleftrightarrow>
     length l = length r \<and> list_all (\<lambda>(k, v). (case map_of r k of None \<Rightarrow> '''' | Some w \<Rightarrow> w) = v) l"

fun stringSlicesEqual :: "string list \<Rightarrow> string list \<Rightarrow> bool" where
  "stringSlicesEqual a b = (length a = length b \<and> list_all (\<lambda>i. a ! i = b ! i) [0..<length a])"

fun claimTemplateRefsEqual ::
  "ResourceClaimTemplateReference list \<Rightarrow> ResourceClaimTemplateReference list \<Rightarrow> bool" where
  "claimTemplateRefsEqual a b =
     (length a = length b
      \<and> list_all (\<lambda>i. \<not> (rct_Name (a ! i) \<noteq> rct_Name (b ! i) \<or> rct_ClaimName (a ! i) \<noteq> rct_ClaimName (b ! i)))
          [0..<length a])"

section \<open>Suspension\<close>

definition currentSuspensionEqual :: "SuspensionStatus option \<Rightarrow> SuspensionStatus option \<Rightarrow> bool" where
  "currentSuspensionEqual left right =
     ptr_equal (\<lambda>l r. ss_Suspended l = ss_Suspended r \<and> ss_Source l = ss_Source r
        \<and> ss_Reason l = ss_Reason r \<and> ss_Message l = ss_Message r
        \<and> timesEqual (ss_ObservedAt l) (ss_ObservedAt r)) left right"

definition setCurrentSuspension :: "SuspensionStatus option \<Rightarrow> update" where
  "setCurrentSuspension status =
     sync_field currentSuspensionEqual st_CurrentSuspension st_CurrentSuspension_update status status"

definition kueue_suspended_message :: "job \<Rightarrow> string" where
  "kueue_suspended_message job =
     (if st_ActiveJobSetName (rtj_Status job) \<noteq> ''''
      then ''Kueue has suspended the RTJ; the active child JobSet is draining toward checkpointed teardown.''
      else ''Kueue has suspended the RTJ; runtime launch is blocked until admission is restored.'')"

definition syncSuspensionStatus :: "meta_ops \<Rightarrow> gotime \<Rightarrow> update" where
  "syncSuspensionStatus M now job =
     (if IsSuspendedForKueue job then
        run_all
          [setCurrentSuspension (Some
             \<lparr> ss_Suspended = True, ss_Source = SuspensionSourceKueue, ss_Reason = ''KueueSuspended'',
               ss_Message = kueue_suspended_message job, ss_ObservedAt = Some now \<rparr>),
           setCondition M ''KueueSuspended'' ConditionTrue ''KueueSuspended'' (kueue_suspended_message job) now] job
      else if sp_Control (rtj_Spec job) = Some DesiredStatePaused \<and> st_ActiveJobSetName (rtj_Status job) = '''' then
        run_all
          [setCurrentSuspension (Some
             \<lparr> ss_Suspended = True, ss_Source = SuspensionSourceManual, ss_Reason = ''ManualPause'',
               ss_Message = ''Manual pause keeps the RTJ stopped until desiredState returns to Running.'',
               ss_ObservedAt = Some now \<rparr>),
           clearCondition ''KueueSuspended''] job
      else run_all [setCurrentSuspension None, clearCondition ''KueueSuspended''] job)"

section \<open>Phase transitions\<close>

definition markPendingPaused :: "meta_ops \<Rightarrow> gotime \<Rightarrow> update" where
  "markPendingPaused M now =
     run_all
       [phase_to PhasePending ''DesiredStatePaused'' ''Launch is deferred because desiredState is Paused.'' now,
        syncSuspensionStatus M now, setObservedGeneration]"

definition markQueuedForAdmission :: "meta_ops \<Rightarrow> gotime \<Rightarrow> update" where
  "markQueuedForAdmission M now =
     run_all
       [phase_to PhaseQueued ''WaitingForAdmission''
          ''Waiting for Kueue admission before creating a child JobSet.'' now,
        syncSuspensionStatus M now, setObservedGeneration]"

definition markStarting :: "meta_ops \<Rightarrow> int \<Rightarrow> string \<Rightarrow> string \<Rightarrow> gotime \<Rightarrow> update" where
  "markStarting M runAttempt controlConfigMapName jobSetName now =
     run_all
       [put st_CurrentRunAttempt st_CurrentRunAttempt_update runAttempt,
        put st_ActiveControlConfigMapName st_ActiveControlConfigMapName_update controlConfigMapName,
        put st_ActiveJobSetName st_ActiveJobSetName_update jobSetName,
        phase_to PhaseStarting ''CreatingRunAttempt''
          (''Created control ConfigMap '' @ controlConfigMapName @ '' and child JobSet '' @ jobSetName @
           '' for run attempt '' @ itoa runAttempt @ ''.'') now,
        syncSuspensionStatus M now, setObservedGeneration]"

definition markRunning :: "meta_ops \<Rightarrow> gotime \<Rightarrow> update" where
  "markRunning M now job =
     run_all
       [phase_to PhaseRunning ''ActiveRunPresent''
          (''Active child JobSet '' @ st_ActiveJobSetName (rtj_Status job) @ '' exists for run attempt '' @
           itoa (st_CurrentRunAttempt (rtj_Status job)) @ ''.'') now,
        syncSuspensionStatus M now, clearCondition ''Degraded'', setObservedGeneration] job"

datatype stopSource = stopSourceManual | stopSourceKueue | stopSourceResize

definition markStopRequested :: "meta_ops \<Rightarrow> string \<Rightarrow> stopSource \<Rightarrow> gotime \<Rightarrow> update" where
  "markStopRequested M requestID source now job =
     run_all
       [put st_PauseRequestID st_PauseRequestID_update requestID,
        phase_to PhaseYieldRequested
          (if source = stopSourceKueue then ''KueueStopRequested'' else ''PauseRequested'')
          (if source = stopSourceKueue
           then ''Kueue suspension requested graceful yield '' @ requestID @ '' through control ConfigMap '' @
                st_ActiveControlConfigMapName (rtj_Status job) @ ''.''
           else ''Pause request '' @ requestID @ '' was published to control ConfigMap '' @
                st_ActiveControlConfigMapName (rtj_Status job) @ ''.'') now,
        syncSuspensionStatus M now, setObservedGeneration] job"

definition markDraining :: "meta_ops \<Rightarrow> string \<Rightarrow> stopSource \<Rightarrow> gotime \<Rightarrow> update" where
  "markDraining M markerURI source now =
     run_all
       [phase_to PhaseDraining
          (if source = stopSourceKueue then ''KueueDrainInProgress'' else ''DrainInProgress'')
          (''Waiting for yield marker '' @ markerURI @
           (if source = stopSourceKueue
            then '' and a completed checkpoint manifest newer than the Kueue suspend request.''
            else '' and a completed checkpoint manifest newer than the pause request.'')) now,
        syncSuspensionStatus M now, setObservedGeneration]"

definition markPaused :: "meta_ops \<Rightarrow> gotime \<Rightarrow> update" where
  "markPaused M now job =
     run_all
       [phase_to PhasePaused ''PausedComplete''
          (''Run attempt '' @ itoa (st_CurrentRunAttempt (rtj_Status job)) @
           '' drained successfully and the active child JobSet was removed.'') now,
        syncSuspensionStatus M now, clearCondition ''Degraded'', setObservedGeneration] job"

text \<open>\<open>markRestoring\<close> reads the manifest URI of the selected checkpoint for its message: \<open>None\<close> is the
  nil dereference when neither the argument nor the status has one.\<close>

definition select_checkpoint :: "CheckpointReference option \<Rightarrow> update" where
  "select_checkpoint selectedCheckpoint job =
     (case selectedCheckpoint of
        None \<Rightarrow> (job, False)
      | Some c \<Rightarrow>
          if (case st_SelectedCheckpoint (rtj_Status job) of
                None \<Rightarrow> True | Some s \<Rightarrow> cr_ManifestURI s \<noteq> cr_ManifestURI c)
          then (job\<lparr> rtj_Status := (rtj_Status job)\<lparr> st_SelectedCheckpoint := Some c \<rparr> \<rparr>, True)
          else (job, False))"

definition markRestoring ::
  "meta_ops \<Rightarrow> int \<Rightarrow> string \<Rightarrow> string \<Rightarrow> CheckpointReference option \<Rightarrow> gotime \<Rightarrow> job \<Rightarrow> (job \<times> bool) option" where
  "markRestoring M runAttempt controlConfigMapName jobSetName selectedCheckpoint now job =
     (let (job1, b1) =
        run_all
          [put st_CurrentRunAttempt st_CurrentRunAttempt_update runAttempt,
           put st_ActiveControlConfigMapName st_ActiveControlConfigMapName_update controlConfigMapName,
           put st_ActiveJobSetName st_ActiveJobSetName_update jobSetName,
           put st_PauseRequestID st_PauseRequestID_update '''',
           select_checkpoint selectedCheckpoint] job
      in case st_SelectedCheckpoint (rtj_Status job1) of
           None \<Rightarrow> None
         | Some c \<Rightarrow>
             (let (job2, b2) =
                run_all
                  [phase_to PhaseRestoring ''RestoringFromCheckpoint''
                     (''Creating run attempt '' @ itoa runAttempt @ '' from selected checkpoint '' @
                      cr_ManifestURI c @ ''.'') now,
                   syncSuspensionStatus M now, clearCondition ''Degraded'', setObservedGeneration] job1
              in Some (job2, b1 \<or> b2)))"

definition markFailed :: "meta_ops \<Rightarrow> string \<Rightarrow> string \<Rightarrow> gotime \<Rightarrow> update" where
  "markFailed M reason message now =
     run_all [phase_to PhaseFailed reason message now, syncSuspensionStatus M now, setObservedGeneration]"

section \<open>Admission and restore\<close>

definition admissionStatusEqual :: "AdmissionStatus option \<Rightarrow> AdmissionStatus option \<Rightarrow> bool" where
  "admissionStatusEqual left right =
     ptr_equal (\<lambda>l r. ad_AdmittedWorkerCount l = ad_AdmittedWorkerCount r
        \<and> ad_PreferredWorkerCount l = ad_PreferredWorkerCount r
        \<and> ad_ActiveWorkerCount l = ad_ActiveWorkerCount r
        \<and> stringMapsEqual (ad_AdmittedFlavors l) (ad_AdmittedFlavors r)) left right"

definition syncAdmissionStatus :: "int \<Rightarrow> int \<Rightarrow> (string \<times> string) list \<Rightarrow> update" where
  "syncAdmissionStatus admittedWorkerCount preferredWorkerCount admittedFlavors =
     (let desired = Some \<lparr> ad_AdmittedWorkerCount = admittedWorkerCount,
                           ad_PreferredWorkerCount = preferredWorkerCount,
                           ad_ActiveWorkerCount = 0, ad_AdmittedFlavors = admittedFlavors \<rparr>
      in sync_field admissionStatusEqual st_Admission st_Admission_update desired desired)"

definition clearAdmissionStatus :: update where
  "clearAdmissionStatus = drop_field st_Admission st_Admission_update"

definition restoreStatusEqual :: "RestoreStatus option \<Rightarrow> RestoreStatus option \<Rightarrow> bool" where
  "restoreStatusEqual left right =
     ptr_equal (\<lambda>l r. re_LastCheckpointWorldSize l = re_LastCheckpointWorldSize r
        \<and> re_LastRestoreWorldSize l = re_LastRestoreWorldSize r \<and> re_RestoreMode l = re_RestoreMode r) left right"

definition syncRestoreStatus :: "int \<Rightarrow> int \<Rightarrow> update" where
  "syncRestoreStatus checkpointWorldSize restoreWorldSize =
     (let desired = Some \<lparr> re_LastCheckpointWorldSize = checkpointWorldSize,
                           re_LastRestoreWorldSize = restoreWorldSize,
                           re_RestoreMode = (if checkpointWorldSize \<noteq> restoreWorldSize then RestoreModeReshard
                                             else RestoreModeSameSize) \<rparr>
      in sync_field restoreStatusEqual st_Restore st_Restore_update desired desired)"

section \<open>Manager mode\<close>

definition zero_MultiClusterStatus :: MultiClusterStatus where
  "zero_MultiClusterStatus =
     \<lparr> mc_DispatchPhase = DispatchPhaseUnset, mc_NominatedClusters = [], mc_ExecutionCluster = '''',
       mc_RemoteObjectRef = None, mc_RemotePhase = PhaseUnset, mc_RemoteCheckpoint = None,
       mc_RemoteObservedGeneration = 0, mc_LocalExecutionSuppressed = False \<rparr>"

text \<open>\<open>if x.f == nil { x.f = &T{} }\<close> followed by writes through the pointer.\<close>

definition with_default ::
  "'a \<Rightarrow> (ResumableTrainingJobStatus \<Rightarrow> 'a option)
   \<Rightarrow> (('a option \<Rightarrow> 'a option) \<Rightarrow> ResumableTrainingJobStatus \<Rightarrow> ResumableTrainingJobStatus)
   \<Rightarrow> ('a \<Rightarrow> 'a \<times> bool) \<Rightarrow> update" where
  "with_default zero get upd f job =
     (let (v, b) = f (case get (rtj_Status job) of None \<Rightarrow> zero | Some v \<Rightarrow> v)
      in (job\<lparr> rtj_Status := upd (\<lambda>_. Some v) (rtj_Status job) \<rparr>, b))"

text \<open>The same through a pointer that may be nil: \<open>if x.f == nil { return false }\<close>.\<close>

definition if_present ::
  "(ResumableTrainingJobStatus \<Rightarrow> 'a option)
   \<Rightarrow> (('a option \<Rightarrow> 'a option) \<Rightarrow> ResumableTrainingJobStatus \<Rightarrow> ResumableTrainingJobStatus)
   \<Rightarrow> ('a \<Rightarrow> 'a \<times> bool) \<Rightarrow> update" where
  "if_present get upd f job =
     (case get (rtj_Status job) of
        None \<Rightarrow> (job, False)
      | Some v \<Rightarrow> (let (v', b) = f v in (job\<lparr> rtj_Status := upd (\<lambda>_. Some v') (rtj_Status job) \<rparr>, b)))"

text \<open>Field writes of a nested struct: \<open>if s.f != v { s.f = v; changed = true }\<close>, in sequence.\<close>

definition assign :: "('s \<Rightarrow> 'a) \<Rightarrow> (('a \<Rightarrow> 'a) \<Rightarrow> 's \<Rightarrow> 's) \<Rightarrow> 'a \<Rightarrow> 's \<Rightarrow> 's \<times> bool" where
  "assign get upd v s = (if get s \<noteq> v then (upd (\<lambda>_. v) s, True) else (s, False))"

definition assign_and ::
  "('s \<Rightarrow> 'a) \<Rightarrow> (('a \<Rightarrow> 'a) \<Rightarrow> 's \<Rightarrow> 's) \<Rightarrow> 'a \<Rightarrow> ('s \<Rightarrow> 's) \<Rightarrow> 's \<Rightarrow> 's \<times> bool" where
  "assign_and get upd v also_do s = (if get s \<noteq> v then (also_do (upd (\<lambda>_. v) s), True) else (s, False))"

fun assigns :: "('s \<Rightarrow> 's \<times> bool) list \<Rightarrow> 's \<Rightarrow> 's \<times> bool" where
  "assigns [] s = (s, False)"
| "assigns (a # as) s = (let (s1, b1) = a s; (s2, b2) = assigns as s1 in (s2, b1 \<or> b2))"

definition keeps_if_unchanged :: "('s \<Rightarrow> 's \<times> bool) \<Rightarrow> bool" where
  "keeps_if_unchanged f \<longleftrightarrow> (\<forall>s. \<not> snd (f s) \<longrightarrow> fst (f s) = s)"

definition markManagerSuppressed :: "gotime \<Rightarrow> update" where
  "markManagerSuppressed now =
     run_all
       [\<lambda>job. (case st_MultiCluster (rtj_Status job) of
                 Some _ \<Rightarrow> (job, False)
               | None \<Rightarrow> (job\<lparr> rtj_Status := (rtj_Status job)\<lparr> st_MultiCluster := Some zero_MultiClusterStatus \<rparr> \<rparr>, True)),
        if_present st_MultiCluster st_MultiCluster_update
          (assigns
             [assign mc_LocalExecutionSuppressed mc_LocalExecutionSuppressed_update True,
              \<lambda>mc. if mc_DispatchPhase mc = DispatchPhaseUnset
                   then (mc\<lparr> mc_DispatchPhase := DispatchPhasePending \<rparr>, True) else (mc, False)]),
        phase_to PhaseQueued ''LocalExecutionSuppressed''
          (''Manager mode: local child JobSet creation is suppressed for this MultiKueue-managed RTJ. '' @
           ''Runtime execution is delegated to a remote worker cluster.'') now,
        setObservedGeneration]"

section \<open>Priority shaping\<close>

definition zero_PriorityShapingStatus :: PriorityShapingStatus where
  "zero_PriorityShapingStatus =
     \<lparr> psh_BasePriority = 0, psh_EffectivePriority = 0, psh_PreemptionState = PreemptionStateUnset,
       psh_PreemptionStateReason = '''', psh_ProtectedUntil = None, psh_LastCompletedCheckpointTime = None,
       psh_CheckpointAge = '''', psh_LastYieldTime = None, psh_LastResumeTime = None,
       psh_RecentYieldCount = 0, psh_AppliedPolicyRef = '''' \<rparr>"

definition recordResumeForTelemetry :: "gotime \<Rightarrow> update" where
  "recordResumeForTelemetry now job =
     (if \<not> IsPriorityShapingEnabled job then (job, False)
      else with_default zero_PriorityShapingStatus st_PriorityShaping st_PriorityShaping_update
        (\<lambda>ps. if \<not> timesEqual (psh_LastResumeTime ps) (Some now)
              then (case sp_PriorityPolicyRef (rtj_Spec job) of
                      Some name \<Rightarrow>
                        if psh_AppliedPolicyRef ps \<noteq> name
                        then (ps\<lparr> psh_LastResumeTime := Some now, psh_AppliedPolicyRef := name \<rparr>, True)
                        else (ps\<lparr> psh_LastResumeTime := Some now \<rparr>, True)
                    | None \<Rightarrow> (ps\<lparr> psh_LastResumeTime := Some now \<rparr>, True))
              else (ps, False)) job)"

definition clearPriorityShapingOnQueued :: update where
  "clearPriorityShapingOnQueued =
     if_present st_PriorityShaping st_PriorityShaping_update
       (assigns
          [assign psh_PreemptionState psh_PreemptionState_update PreemptionStateUnset,
           assign psh_PreemptionStateReason psh_PreemptionStateReason_update '''',
           assign psh_ProtectedUntil psh_ProtectedUntil_update None,
           assign psh_CheckpointAge psh_CheckpointAge_update '''',
           \<lambda>ps. assign psh_EffectivePriority psh_EffectivePriority_update (psh_BasePriority ps) ps])"

section \<open>Devices\<close>

record DeviceProfile =
  dp_Fingerprint :: string
  dp_DeviceClasses :: "string list"

definition syncDeviceResumeFingerprint :: update where
  "syncDeviceResumeFingerprint =
     if_present st_Devices st_Devices_update
       (\<lambda>d. assign ds_LastResumeDeviceProfileFingerprint ds_LastResumeDeviceProfileFingerprint_update
              (ds_CurrentDeviceProfileFingerprint d) d)"

definition syncDeviceCheckpointFingerprint :: "string \<Rightarrow> update" where
  "syncDeviceCheckpointFingerprint manifestFingerprint =
     if_present st_Devices st_Devices_update
       (assign ds_LastCheckpointDeviceProfileFingerprint ds_LastCheckpointDeviceProfileFingerprint_update
          manifestFingerprint)"

definition deviceStatusEqual :: "DeviceStatus option \<Rightarrow> DeviceStatus option \<Rightarrow> bool" where
  "deviceStatusEqual left right =
     ptr_equal (\<lambda>l r. ds_DeviceMode l = ds_DeviceMode r
        \<and> ds_CurrentDeviceProfileFingerprint l = ds_CurrentDeviceProfileFingerprint r
        \<and> stringSlicesEqual (ds_RequestedDeviceClasses l) (ds_RequestedDeviceClasses r)
        \<and> claimTemplateRefsEqual (ds_ResourceClaimTemplateRefs l) (ds_ResourceClaimTemplateRefs r)) left right"

definition syncDeviceStatus :: "DeviceProfile \<Rightarrow> ResourceClaimTemplateReference list \<Rightarrow> update" where
  "syncDeviceStatus profile refs job =
     (let desired =
        \<lparr> ds_DeviceMode = DeviceModeDRA, ds_RequestedDeviceClasses = dp_DeviceClasses profile,
          ds_CurrentDeviceProfileFingerprint = dp_Fingerprint profile, ds_ResourceClaimTemplateRefs = refs,
          ds_ClaimAllocationState = ClaimAllocationPending, ds_AllocatedClaimCount = 0,
          ds_LastClaimFailureReason = '''', ds_LastClaimFailureTime = None,
          ds_LastCheckpointDeviceProfileFingerprint = '''', ds_LastResumeDeviceProfileFingerprint = '''' \<rparr>
      in sync_field deviceStatusEqual st_Devices st_Devices_update (Some desired)
           (Some (case st_Devices (rtj_Status job) of
              None \<Rightarrow> desired
            | Some old \<Rightarrow> desired\<lparr>
                ds_AllocatedClaimCount := ds_AllocatedClaimCount old,
                ds_LastClaimFailureReason := ds_LastClaimFailureReason old,
                ds_LastClaimFailureTime := ds_LastClaimFailureTime old,
                ds_LastCheckpointDeviceProfileFingerprint := ds_LastCheckpointDeviceProfileFingerprint old,
                ds_LastResumeDeviceProfileFingerprint := ds_LastResumeDeviceProfileFingerprint old,
                ds_ClaimAllocationState :=
                  (if ds_ClaimAllocationState old \<noteq> ClaimAllocationUnset then ds_ClaimAllocationState old
                   else ClaimAllocationPending) \<rparr>)) job)"

definition clearDeviceStatus :: update where
  "clearDeviceStatus = drop_field st_Devices st_Devices_update"

section \<open>Resize conditions\<close>

definition setResizePendingCondition :: "meta_ops \<Rightarrow> string \<Rightarrow> string \<Rightarrow> gotime \<Rightarrow> update" where
  "setResizePendingCondition M reason message now =
     setCondition M ''ResizePending'' ConditionTrue reason message now"

definition clearResizePendingCondition :: update where
  "clearResizePendingCondition = clearCondition ''ResizePending''"

definition setShrinkingInPlaceCondition :: "meta_ops \<Rightarrow> string \<Rightarrow> gotime \<Rightarrow> update" where
  "setShrinkingInPlaceCondition M message now =
     setCondition M ''ShrinkingInPlace'' ConditionTrue ''ShrinkInPlaceExecuting'' message now"

definition clearShrinkingInPlaceCondition :: update where
  "clearShrinkingInPlaceCondition = clearCondition ''ShrinkingInPlace''"

definition setShrinkReclaimPublishedCondition :: "meta_ops \<Rightarrow> string \<Rightarrow> gotime \<Rightarrow> update" where
  "setShrinkReclaimPublishedCondition M message now =
     setCondition M ''ShrinkReclaimPublished'' ConditionTrue ''ShrinkReclaimPublished'' message now"

definition clearShrinkReclaimPublishedCondition :: update where
  "clearShrinkReclaimPublishedCondition = clearCondition ''ShrinkReclaimPublished''"

definition setResizeCheckpointingCondition :: "meta_ops \<Rightarrow> string \<Rightarrow> gotime \<Rightarrow> update" where
  "setResizeCheckpointingCondition M message now =
     setCondition M ''ResizeCheckpointing'' ConditionTrue ''ResizeCheckpointing'' message now"

definition clearResizeCheckpointingCondition :: update where
  "clearResizeCheckpointingCondition = clearCondition ''ResizeCheckpointing''"

definition setRelaunchingForResizeCondition :: "meta_ops \<Rightarrow> string \<Rightarrow> gotime \<Rightarrow> update" where
  "setRelaunchingForResizeCondition M message now =
     setCondition M ''RelaunchingForResize'' ConditionTrue ''RelaunchingForResize'' message now"

definition clearRelaunchingForResizeCondition :: update where
  "clearRelaunchingForResizeCondition = clearCondition ''RelaunchingForResize''"

definition setResizeBlockedCondition :: "meta_ops \<Rightarrow> string \<Rightarrow> string \<Rightarrow> gotime \<Rightarrow> update" where
  "setResizeBlockedCondition M reason message now =
     setCondition M ''ResizeBlocked'' ConditionTrue reason message now"

definition clearResizeBlockedCondition :: update where
  "clearResizeBlockedCondition = clearCondition ''ResizeBlocked''"

definition setResizeFailedCondition :: "meta_ops \<Rightarrow> string \<Rightarrow> gotime \<Rightarrow> update" where
  "setResizeFailedCondition M message now =
     setCondition M ''ResizeFailed'' ConditionTrue ''ResizeFailed'' message now"

definition clearResizeFailedCondition :: update where
  "clearResizeFailedCondition = clearCondition ''ResizeFailed''"

lemmas resize_condition_defs =
  setResizePendingCondition_def clearResizePendingCondition_def setShrinkingInPlaceCondition_def
  clearShrinkingInPlaceCondition_def setShrinkReclaimPublishedCondition_def
  clearShrinkReclaimPublishedCondition_def setResizeCheckpointingCondition_def
  clearResizeCheckpointingCondition_def setRelaunchingForResizeCondition_def
  clearRelaunchingForResizeCondition_def setResizeBlockedCondition_def clearResizeBlockedCondition_def
  setResizeFailedCondition_def clearResizeFailedCondition_def

definition clearAllResizeConditions :: update where
  "clearAllResizeConditions =
     run_all
       [clearResizePendingCondition, clearShrinkingInPlaceCondition, clearShrinkReclaimPublishedCondition,
        clearResizeCheckpointingCondition, clearRelaunchingForResizeCondition, clearResizeBlockedCondition,
        clearResizeFailedCondition]"

definition blockReason :: "string \<Rightarrow> string" where
  "blockReason planReason =
     (if planReason = ''PreemptionInProgress'' then ''ResizeBlockedByPreemption''
      else if planReason = ''TargetBelowMinimum'' \<or> planReason = ''TargetAboveMaximum'' then ''ResizeBlockedByBounds''
      else if planReason = ''DRAConstraintsBlock'' then ''ResizeBlockedByDRA''
      else ''ResizeBlockedByWorkload'')"

definition syncResizeConditions :: "meta_ops \<Rightarrow> string \<Rightarrow> string \<Rightarrow> string \<Rightarrow> gotime \<Rightarrow> update" where
  "syncResizeConditions M planKind planReason planMessage now =
     (if planKind = ''NoResize'' then clearAllResizeConditions
      else if planKind = ''ShrinkInPlace'' then
        run_all
          [setResizePendingCondition M ''ShrinkInPlacePending'' planMessage now,
           clearShrinkingInPlaceCondition, clearShrinkReclaimPublishedCondition,
           clearResizeCheckpointingCondition, clearRelaunchingForResizeCondition,
           clearResizeBlockedCondition, clearResizeFailedCondition]
      else if planKind = ''ShrinkViaRelaunch'' then
        run_all
          [setResizePendingCondition M ''ShrinkViaRelaunchPending'' planMessage now,
           clearShrinkingInPlaceCondition, clearShrinkReclaimPublishedCondition,
           clearResizeBlockedCondition, clearResizeFailedCondition]
      else if planKind = ''GrowViaRelaunch'' then
        run_all
          [setResizePendingCondition M ''GrowViaRelaunchPending'' planMessage now,
           clearShrinkingInPlaceCondition, clearShrinkReclaimPublishedCondition,
           clearResizeBlockedCondition, clearResizeFailedCondition]
      else if planKind = ''ResizeBlocked'' then
        run_all
          [setResizeBlockedCondition M (blockReason planReason) planMessage now,
           clearResizePendingCondition, clearShrinkingInPlaceCondition,
           clearShrinkReclaimPublishedCondition, clearResizeCheckpointingCondition,
           clearRelaunchingForResizeCondition, clearResizeFailedCondition]
      else if planKind = ''ResizeInProgress'' then
        run_all [clearResizePendingCondition, clearResizeBlockedCondition, clearResizeFailedCondition]
      else if planKind = ''ReclaimPublished'' then
        run_all
          [setShrinkReclaimPublishedCondition M ''reclaimablePods published; waiting for surplus pod termination'' now,
           clearResizePendingCondition, clearShrinkingInPlaceCondition, clearResizeBlockedCondition,
           clearResizeFailedCondition]
      else run_all [])"

section \<open>Honesty\<close>

text \<open>An update whose steps depend on the job it starts from.\<close>

lemma honest_byI: "(\<And>j. \<exists>v. honest v \<and> u j = v j) \<Longrightarrow> honest u"
  unfolding honest_def by metis

lemma honest_run_dep:
  assumes "\<And>j. u j = run_all (us j) j" and "\<And>j. \<forall>v \<in> set (us j). honest v"
  shows "honest u"
  using assms honest_run_all by (metis honest_byI)

lemma honest_ifI: "honest u \<Longrightarrow> honest v \<Longrightarrow> honest (\<lambda>j. if P j then u j else v j)"
  by (simp add: honest_def)

lemma honest_unchanged [simp]: "honest (\<lambda>j. (j, False))"
  by (simp add: honest_def)

lemma assign_keeps [simp]: "keeps_if_unchanged (assign get upd v)"
  by (simp add: keeps_if_unchanged_def assign_def)

lemma assign_and_keeps [simp]: "keeps_if_unchanged (assign_and get upd v f)"
  by (simp add: keeps_if_unchanged_def assign_and_def)

lemma assigns_keeps: "(\<forall>a \<in> set as. keeps_if_unchanged a) \<Longrightarrow> keeps_if_unchanged (assigns as)"
proof (induction as)
  case (Cons a as)
  then have "keeps_if_unchanged a" "keeps_if_unchanged (assigns as)" by simp_all
  then show ?case by (auto simp: keeps_if_unchanged_def Let_def split_beta)
qed (simp add: keeps_if_unchanged_def)

text \<open>A getter and its record update.\<close>

definition lens ::
  "(ResumableTrainingJobStatus \<Rightarrow> 'a) \<Rightarrow> (('a \<Rightarrow> 'a) \<Rightarrow> ResumableTrainingJobStatus \<Rightarrow> ResumableTrainingJobStatus) \<Rightarrow> bool"
where
  "lens get upd \<longleftrightarrow> (\<forall>s. upd (\<lambda>_. get s) s = s)"

lemma lens_simps [simp]:
  "lens st_MultiCluster st_MultiCluster_update" "lens st_PriorityShaping st_PriorityShaping_update"
  "lens st_Devices st_Devices_update" "lens st_Elasticity st_Elasticity_update"
  "lens st_StartupRecovery st_StartupRecovery_update"
  by (simp_all add: lens_def)

lemma lensD: "lens get upd \<Longrightarrow> get s = v \<Longrightarrow> upd (\<lambda>_. v) s = s"
  by (auto simp: lens_def)

lemma honest_if_present:
  assumes "lens get upd" and "keeps_if_unchanged f"
  shows "honest (if_present get upd f)"
proof -
  have "fst (if_present get upd f j) = j" if "\<not> snd (if_present get upd f j)" for j
  proof (cases "get (rtj_Status j)")
    case (Some v)
    with that assms(2) have "fst (f v) = v"
      by (simp add: if_present_def keeps_if_unchanged_def Let_def split_beta)
    with Some lensD [OF assms(1) Some] show ?thesis by (simp add: if_present_def split_beta)
  qed (simp add: if_present_def)
  then show ?thesis by (simp add: honest_def)
qed

lemma honest_with_default:
  assumes "lens get upd" and "keeps_if_unchanged f" and "snd (f zero)"
  shows "honest (with_default zero get upd f)"
proof -
  have "fst (with_default zero get upd f j) = j" if u: "\<not> snd (with_default zero get upd f j)" for j
  proof (cases "get (rtj_Status j)")
    case None
    with u assms(3) show ?thesis by (simp add: with_default_def split_beta)
  next
    case (Some v)
    with u assms(2) have "fst (f v) = v"
      by (simp add: with_default_def keeps_if_unchanged_def split_beta)
    with Some lensD [OF assms(1) Some] show ?thesis by (simp add: with_default_def split_beta)
  qed
  then show ?thesis by (simp add: honest_def)
qed

lemma honest_select_checkpoint [simp]: "honest (select_checkpoint c)"
  by (simp add: honest_def select_checkpoint_def split: option.split)

lemma honest_markManagerSuppressed: "honest (markManagerSuppressed now)"
proof -
  have init: "honest (\<lambda>job. (case st_MultiCluster (rtj_Status job) of
      Some _ \<Rightarrow> (job, False)
    | None \<Rightarrow> (job\<lparr> rtj_Status := (rtj_Status job)\<lparr> st_MultiCluster := Some zero_MultiClusterStatus \<rparr> \<rparr>, True)))"
    by (simp add: honest_def split: option.split)
  have "keeps_if_unchanged (\<lambda>mc :: MultiClusterStatus. if mc_DispatchPhase mc = DispatchPhaseUnset
      then (mc\<lparr> mc_DispatchPhase := DispatchPhasePending \<rparr>, True) else (mc, False))"
    by (simp add: keeps_if_unchanged_def)
  then show ?thesis
    unfolding markManagerSuppressed_def
    by (intro honest_run_all) (simp add: init honest_if_present assigns_keeps)
qed

lemma honest_recordResumeForTelemetry: "honest (recordResumeForTelemetry now)"
proof (rule honest_byI)
  fix job :: job
  let ?f = "\<lambda>ps :: PriorityShapingStatus. if \<not> timesEqual (psh_LastResumeTime ps) (Some now)
              then (case sp_PriorityPolicyRef (rtj_Spec job) of
                      Some name \<Rightarrow>
                        if psh_AppliedPolicyRef ps \<noteq> name
                        then (ps\<lparr> psh_LastResumeTime := Some now, psh_AppliedPolicyRef := name \<rparr>, True)
                        else (ps\<lparr> psh_LastResumeTime := Some now \<rparr>, True)
                    | None \<Rightarrow> (ps\<lparr> psh_LastResumeTime := Some now \<rparr>, True))
              else (ps, False)"
  have "keeps_if_unchanged ?f" by (simp add: keeps_if_unchanged_def split: option.split)
  moreover have "snd (?f zero_PriorityShapingStatus)"
    by (simp add: zero_PriorityShapingStatus_def split: option.split)
  ultimately have "honest (with_default zero_PriorityShapingStatus st_PriorityShaping st_PriorityShaping_update ?f)"
    by (intro honest_with_default) simp_all
  then show "\<exists>v. honest v \<and> recordResumeForTelemetry now job = v job"
    unfolding recordResumeForTelemetry_def
    by (cases "IsPriorityShapingEnabled job") (auto intro: exI [of _ "\<lambda>j. (j, False)"])
qed

lemma honest_clearPriorityShapingOnQueued: "honest clearPriorityShapingOnQueued"
proof -
  have "keeps_if_unchanged (\<lambda>ps :: PriorityShapingStatus. assign psh_EffectivePriority psh_EffectivePriority_update (psh_BasePriority ps) ps)"
    by (simp add: keeps_if_unchanged_def assign_def)
  then show ?thesis
    unfolding clearPriorityShapingOnQueued_def by (intro honest_if_present) (simp_all add: assigns_keeps)
qed

lemma honest_device_helpers:
  "honest syncDeviceResumeFingerprint" "honest (syncDeviceCheckpointFingerprint fp)"
  "honest clearDeviceStatus" "honest (syncDeviceStatus profile refs)"
proof -
  have "keeps_if_unchanged (\<lambda>d :: DeviceStatus. assign ds_LastResumeDeviceProfileFingerprint
      ds_LastResumeDeviceProfileFingerprint_update (ds_CurrentDeviceProfileFingerprint d) d)"
    by (simp add: keeps_if_unchanged_def assign_def)
  then show "honest syncDeviceResumeFingerprint"
    unfolding syncDeviceResumeFingerprint_def by (intro honest_if_present) simp_all
  show "honest (syncDeviceCheckpointFingerprint fp)"
    unfolding syncDeviceCheckpointFingerprint_def by (intro honest_if_present) simp_all
  show "honest clearDeviceStatus" by (simp add: clearDeviceStatus_def)
  show "honest (syncDeviceStatus profile refs)"
    by (simp add: honest_def syncDeviceStatus_def Let_def sync_field_def)
qed

lemma honest_admission_helpers:
  "honest (syncAdmissionStatus a p f)" "honest clearAdmissionStatus" "honest (syncRestoreStatus c r)"
  by (simp_all add: syncAdmissionStatus_def clearAdmissionStatus_def syncRestoreStatus_def Let_def)

context conditions_api
begin

lemma honest_syncSuspensionStatus:
  assumes "now \<noteq> time_zero"
  shows "honest (syncSuspensionStatus M now)"
  unfolding syncSuspensionStatus_def setCurrentSuspension_def
  by (intro honest_ifI honest_run_dep [OF refl]) (auto simp: honest_setCondition [OF assms])

lemma honest_marks:
  assumes "now \<noteq> time_zero"
  shows "honest (markPendingPaused M now)" "honest (markQueuedForAdmission M now)"
    "honest (markStarting M n cm js now)" "honest (markRunning M now)"
    "honest (markStopRequested M rid src now)" "honest (markDraining M uri src now)"
    "honest (markPaused M now)" "honest (markFailed M r m now)"
proof -
  note s [simp] = honest_syncSuspensionStatus [OF assms]
  show "honest (markPendingPaused M now)" "honest (markQueuedForAdmission M now)"
    "honest (markStarting M n cm js now)" "honest (markDraining M uri src now)" "honest (markFailed M r m now)"
    unfolding markPendingPaused_def markQueuedForAdmission_def markStarting_def markDraining_def markFailed_def
    by (intro honest_run_all; simp)+
  show "honest (markRunning M now)" by (rule honest_run_dep [OF markRunning_def]) simp
  show "honest (markStopRequested M rid src now)" by (rule honest_run_dep [OF markStopRequested_def]) simp
  show "honest (markPaused M now)" by (rule honest_run_dep [OF markPaused_def]) simp
qed

lemma markRestoring_unchanged:
  assumes "now \<noteq> time_zero" and "markRestoring M n cm js c now j = Some (j', False)"
  shows "j' = j"
proof -
  define u where "u = run_all [put st_CurrentRunAttempt st_CurrentRunAttempt_update n,
           put st_ActiveControlConfigMapName st_ActiveControlConfigMapName_update cm,
           put st_ActiveJobSetName st_ActiveJobSetName_update js,
           put st_PauseRequestID st_PauseRequestID_update '''', select_checkpoint c]"
  define v where "v = (\<lambda>d :: CheckpointReference. run_all [phase_to PhaseRestoring ''RestoringFromCheckpoint''
                     (''Creating run attempt '' @ itoa n @ '' from selected checkpoint '' @
                      cr_ManifestURI d @ ''.'') now,
                   syncSuspensionStatus M now, clearCondition ''Degraded'', setObservedGeneration])"
  have u: "honest u" unfolding u_def by (intro honest_run_all) simp
  have v: "honest (v d)" for d
    unfolding v_def by (intro honest_run_all) (simp add: honest_syncSuspensionStatus [OF assms(1)])
  have "markRestoring M n cm js c now j =
      (let (job1, b1) = u j in case st_SelectedCheckpoint (rtj_Status job1) of None \<Rightarrow> None
       | Some d \<Rightarrow> (let (job2, b2) = v d job1 in Some (job2, b1 \<or> b2)))"
    unfolding markRestoring_def u_def v_def ..
  with assms(2) obtain d where "fst (v d (fst (u j))) = j'" and "\<not> snd (u j)" and "\<not> snd (v d (fst (u j)))"
    by (auto simp: split_beta split: option.splits)
  then show ?thesis using honestD [OF u, of j] honestD [OF v [of d], of "fst (u j)"] by simp
qed

lemma honest_resize_conditions:
  assumes "now \<noteq> time_zero"
  shows "honest (syncResizeConditions M kind reason message now)"
  unfolding syncResizeConditions_def clearAllResizeConditions_def resize_condition_defs
  by (simp add: honest_run_all honest_setCondition [OF assms])

end

section \<open>Frames\<close>

text \<open>The helpers write the phase, the suspension and the conditions and leave the rest of the status
  alone: \<open>touched s s'\<close> says that \<open>s'\<close> differs from \<open>s\<close> at most in the suspension, the conditions and
  the observed generation.\<close>

definition touched :: "ResumableTrainingJobStatus \<Rightarrow> ResumableTrainingJobStatus \<Rightarrow> bool" where
  "touched s s' \<longleftrightarrow> (\<exists>susp cs g. s' = s\<lparr> st_CurrentSuspension := susp, st_Conditions := cs, st_ObservedGeneration := g \<rparr>)"

lemma touched_refl [simp]: "touched s s"
  unfolding touched_def
  by (rule exI [of _ "st_CurrentSuspension s"], rule exI [of _ "st_Conditions s"],
      rule exI [of _ "st_ObservedGeneration s"]) simp

lemma touched_trans: "touched s1 s2 \<Longrightarrow> touched s2 s3 \<Longrightarrow> touched s1 s3"
  unfolding touched_def by (elim exE, simp, intro exI, rule refl)

lemma touched_simps [simp]:
  "touched s (s\<lparr> st_CurrentSuspension := susp \<rparr>)" "touched s (s\<lparr> st_Conditions := cs \<rparr>)"
  "touched s (s\<lparr> st_ObservedGeneration := g \<rparr>)"
proof -
  have "touched s (s\<lparr> st_CurrentSuspension := su, st_Conditions := c, st_ObservedGeneration := n \<rparr>)" for su c n
    unfolding touched_def by (intro exI, rule refl)
  from this [where su = susp and c = "st_Conditions s" and n = "st_ObservedGeneration s"]
    this [where su = "st_CurrentSuspension s" and c = cs and n = "st_ObservedGeneration s"]
    this [where su = "st_CurrentSuspension s" and c = "st_Conditions s" and n = g]
  show "touched s (s\<lparr> st_CurrentSuspension := susp \<rparr>)" "touched s (s\<lparr> st_Conditions := cs \<rparr>)"
    "touched s (s\<lparr> st_ObservedGeneration := g \<rparr>)" by simp_all
qed

lemma touched_fields:
  assumes "touched s s'"
  shows "st_Phase s' = st_Phase s" "st_PauseRequestID s' = st_PauseRequestID s"
    "st_CurrentRunAttempt s' = st_CurrentRunAttempt s" "st_ActiveJobSetName s' = st_ActiveJobSetName s"
    "st_ActiveControlConfigMapName s' = st_ActiveControlConfigMapName s"
    "st_SelectedCheckpoint s' = st_SelectedCheckpoint s"
    "st_LastCompletedCheckpoint s' = st_LastCompletedCheckpoint s"
    "st_TransitionTimestamps s' = st_TransitionTimestamps s" "st_StartupRecovery s' = st_StartupRecovery s"
    "st_Elasticity s' = st_Elasticity s" "st_WorkloadReference s' = st_WorkloadReference s"
    "st_Devices s' = st_Devices s" "st_Reason s' = st_Reason s" "st_Message s' = st_Message s"
    "st_LaunchGate s' = st_LaunchGate s" "st_Admission s' = st_Admission s"
    "st_PriorityShaping s' = st_PriorityShaping s" "st_MultiCluster s' = st_MultiCluster s"
  using assms by (auto simp: touched_def)

text \<open>An update that keeps everything but the status, and the status up to \<open>touched\<close>.\<close>

definition touches :: "update \<Rightarrow> bool" where
  "touches u \<longleftrightarrow> (\<forall>j. fst (u j) = j\<lparr> rtj_Status := rtj_Status (fst (u j)) \<rparr> \<and> touched (rtj_Status j) (rtj_Status (fst (u j))))"

lemma touchesD:
  assumes "touches u"
  shows "rtj_Spec (fst (u j)) = rtj_Spec j" "rtj_Generation (fst (u j)) = rtj_Generation j"
    "rtj_Name (fst (u j)) = rtj_Name j" "rtj_Namespace (fst (u j)) = rtj_Namespace j"
    "rtj_Annotations (fst (u j)) = rtj_Annotations j"
    "touched (rtj_Status j) (rtj_Status (fst (u j)))"
proof -
  from assms obtain s where "fst (u j) = j\<lparr> rtj_Status := s \<rparr>" "touched (rtj_Status j) (rtj_Status (fst (u j)))"
    unfolding touches_def by blast
  then show "rtj_Spec (fst (u j)) = rtj_Spec j" "rtj_Generation (fst (u j)) = rtj_Generation j"
    "rtj_Name (fst (u j)) = rtj_Name j" "rtj_Namespace (fst (u j)) = rtj_Namespace j"
    "rtj_Annotations (fst (u j)) = rtj_Annotations j" "touched (rtj_Status j) (rtj_Status (fst (u j)))"
    by simp_all
qed

lemma touches_run_all: "(\<forall>u \<in> set us. touches u) \<Longrightarrow> touches (run_all us)"
proof (induction us)
  case (Cons u us)
  then have u: "touches u" and us: "touches (run_all us)" by simp_all
  show ?case
    unfolding touches_def
  proof (intro allI conjI)
    fix j
    have 1: "fst (run_all (u # us) j) = fst (run_all us (fst (u j)))" by (simp add: split_beta)
    show "touched (rtj_Status j) (rtj_Status (fst (run_all (u # us) j)))"
      unfolding 1 using touchesD(6) [OF u, of j] touchesD(6) [OF us, of "fst (u j)"] by (rule touched_trans)
    obtain s where s: "fst (u j) = j\<lparr> rtj_Status := s \<rparr>" using u unfolding touches_def by blast
    obtain s' where s': "fst (run_all us (fst (u j))) = (fst (u j))\<lparr> rtj_Status := s' \<rparr>"
      using us unfolding touches_def by blast
    show "fst (run_all (u # us) j) = j\<lparr> rtj_Status := rtj_Status (fst (run_all (u # us) j)) \<rparr>"
      unfolding 1 s' unfolding s by simp
  qed
qed (simp add: touches_def)

lemma touches_run_dep:
  assumes "\<And>j. u j = run_all (us j) j" and "\<And>j. \<forall>v \<in> set (us j). touches v"
  shows "touches u"
  using touches_run_all assms unfolding touches_def by metis

lemma touches_ifI: "touches u \<Longrightarrow> touches v \<Longrightarrow> touches (\<lambda>j. if P j then u j else v j)"
  by (simp add: touches_def)

lemma touches_setCondition [simp]: "touches (setCondition M t s r m now)"
  by (simp add: touches_def setCondition_def Let_def on_conditions_def)

lemma touches_clearCondition [simp]: "touches (clearCondition t)"
  by (simp add: touches_def clearCondition_def Let_def on_conditions_def)

lemma touches_setObservedGeneration [simp]: "touches setObservedGeneration"
  by (simp add: touches_def)

lemma touches_setCurrentSuspension [simp]: "touches (setCurrentSuspension s)"
  by (simp add: touches_def setCurrentSuspension_def sync_field_def)

lemma touches_syncSuspensionStatus [simp]: "touches (syncSuspensionStatus M now)"
  unfolding syncSuspensionStatus_def by (intro touches_ifI touches_run_dep [OF refl]) simp_all

text \<open>What a phase transition does: \<open>moved p j j'\<close> says that \<open>j'\<close> is \<open>j\<close> with the phase \<open>p\<close>, some
  reason and message, the transition times of that change, and \<open>touched\<close> otherwise.\<close>

definition moved :: "ResumableTrainingJobPhase \<Rightarrow> gotime \<Rightarrow> job \<Rightarrow> job \<Rightarrow> bool" where
  "moved p now j j' \<longleftrightarrow>
     j' = j\<lparr> rtj_Status := rtj_Status j' \<rparr>
     \<and> (\<exists>r m. touched (fst (SetPhase (rtj_Status j) p r m now)) (rtj_Status j'))"

lemma fst_run_all_Cons: "fst (run_all (u # us) j) = fst (run_all us (fst (u j)))"
  by (simp add: split_beta)

lemma moved_run_all:
  assumes "\<forall>u \<in> set us. touches u"
  shows "moved p now j (fst (run_all (phase_to p r m now # us) j))"
proof -
  let ?j1 = "fst (phase_to p r m now j)"
  have us: "touches (run_all us)" using touches_run_all [OF assms] .
  have eq: "fst (run_all (phase_to p r m now # us) j) = fst (run_all us ?j1)" by (simp add: split_beta)
  obtain s where s: "fst (run_all us ?j1) = ?j1\<lparr> rtj_Status := s \<rparr>" using us unfolding touches_def by blast
  have "touched (rtj_Status ?j1) (rtj_Status (fst (run_all us ?j1)))" using touchesD(6) [OF us] .
  then show ?thesis unfolding moved_def eq s by (auto simp: phase_to_simps)
qed

lemma moved_fields:
  assumes "moved p now j j'"
  shows "rtj_Spec j' = rtj_Spec j" "rtj_Generation j' = rtj_Generation j" "rtj_Name j' = rtj_Name j"
    "rtj_Namespace j' = rtj_Namespace j" "rtj_Annotations j' = rtj_Annotations j"
    "st_Phase (rtj_Status j') = p"
    "st_PauseRequestID (rtj_Status j') = st_PauseRequestID (rtj_Status j)"
    "st_CurrentRunAttempt (rtj_Status j') = st_CurrentRunAttempt (rtj_Status j)"
    "st_ActiveJobSetName (rtj_Status j') = st_ActiveJobSetName (rtj_Status j)"
    "st_ActiveControlConfigMapName (rtj_Status j') = st_ActiveControlConfigMapName (rtj_Status j)"
    "st_SelectedCheckpoint (rtj_Status j') = st_SelectedCheckpoint (rtj_Status j)"
    "st_LastCompletedCheckpoint (rtj_Status j') = st_LastCompletedCheckpoint (rtj_Status j)"
    "st_StartupRecovery (rtj_Status j') = st_StartupRecovery (rtj_Status j)"
    "st_Elasticity (rtj_Status j') = st_Elasticity (rtj_Status j)"
    "st_WorkloadReference (rtj_Status j') = st_WorkloadReference (rtj_Status j)"
    "st_Devices (rtj_Status j') = st_Devices (rtj_Status j)"
    "tt_YieldRequestedAt (st_TransitionTimestamps (rtj_Status j')) =
       (if p = PhaseYieldRequested \<and> st_Phase (rtj_Status j) \<noteq> p then Some now
        else tt_YieldRequestedAt (st_TransitionTimestamps (rtj_Status j)))"
proof -
  obtain r m where t: "touched (fst (SetPhase (rtj_Status j) p r m now)) (rtj_Status j')"
    and j: "j' = j\<lparr> rtj_Status := rtj_Status j' \<rparr>" using assms unfolding moved_def by auto
  from j show "rtj_Spec j' = rtj_Spec j" "rtj_Generation j' = rtj_Generation j" "rtj_Name j' = rtj_Name j"
    "rtj_Namespace j' = rtj_Namespace j" "rtj_Annotations j' = rtj_Annotations j"
    by (rule status_only)+
qed (use assms touched_fields in \<open>auto simp: moved_def SetPhase_fst\<close>)

lemma moved_markDraining: "moved PhaseDraining now j (fst (markDraining M uri src now j))"
  unfolding markDraining_def by (intro moved_run_all) simp

lemma moved_markFailed: "moved PhaseFailed now j (fst (markFailed M r m now j))"
  unfolding markFailed_def by (intro moved_run_all) simp

lemma moved_markRunning: "moved PhaseRunning now j (fst (markRunning M now j))"
  unfolding markRunning_def by (intro moved_run_all) simp

lemma moved_markPaused: "moved PhasePaused now j (fst (markPaused M now j))"
  unfolding markPaused_def by (intro moved_run_all) simp

lemma moved_markPendingPaused: "moved PhasePending now j (fst (markPendingPaused M now j))"
  unfolding markPendingPaused_def by (intro moved_run_all) simp

lemma moved_markQueuedForAdmission: "moved PhaseQueued now j (fst (markQueuedForAdmission M now j))"
  unfolding markQueuedForAdmission_def by (intro moved_run_all) simp

lemma moved_markStopRequested:
  "moved PhaseYieldRequested now (fst (put st_PauseRequestID st_PauseRequestID_update rid j))
     (fst (markStopRequested M rid src now j))"
  unfolding markStopRequested_def by (subst fst_run_all_Cons, intro moved_run_all) simp

lemma put_simps:
  assumes "lens get upd"
  shows "fst (put get upd v j) = j\<lparr> rtj_Status := upd (\<lambda>_. v) (rtj_Status j) \<rparr>"
  using lensD [OF assms, of "rtj_Status j" v] by (auto simp: put_def)

lemma lens_more [simp]:
  "lens st_PauseRequestID st_PauseRequestID_update" "lens st_CurrentRunAttempt st_CurrentRunAttempt_update"
  "lens st_ActiveJobSetName st_ActiveJobSetName_update"
  "lens st_ActiveControlConfigMapName st_ActiveControlConfigMapName_update"
  by (simp_all add: lens_def)

section \<open>Conditions kept\<close>

lemma keeps_conditionsI:
  assumes "\<And>j. conditions (fst (u j)) = conditions j"
  shows "keeps (find_condition t) u"
  using assms by (simp add: keeps_def find_condition_def)

lemma keeps_find_condition [simp]:
  "keeps (find_condition t) (phase_to p r m now)" "keeps (find_condition t) setObservedGeneration"
  "keeps (find_condition t) (setCurrentSuspension s)"
  "keeps (find_condition t) (put st_PauseRequestID st_PauseRequestID_update rid)"
  by (rule keeps_conditionsI,
      simp add: phase_to_simps SetPhase_fst setCurrentSuspension_def sync_field_def put_simps)+

lemma keeps_ifI: "keeps f u \<Longrightarrow> keeps f v \<Longrightarrow> keeps f (\<lambda>j. if P j then u j else v j)"
  by (simp add: keeps_def)

lemma keeps_run_dep:
  assumes "\<And>j. u j = run_all (us j) j" and "\<And>j. \<forall>v \<in> set (us j). keeps f v"
  shows "keeps f u"
  unfolding keeps_def
proof
  fix j show "f (fst (u j)) = f j"
    using keepsD [OF keeps_run_all [OF assms(2)], of j j] assms(1) by simp
qed

lemma keeps_clearCondition [simp]: "t \<noteq> t' \<Longrightarrow> keeps (find_condition t) (clearCondition t')"
  by (simp add: keeps_def)

context conditions_api
begin

lemma keeps_setCondition:
  "now \<noteq> time_zero \<Longrightarrow> t \<noteq> t' \<Longrightarrow> keeps (find_condition t) (setCondition M t' s r m now)"
  by (simp add: keeps_def setCondition_fst)

lemma keeps_syncSuspensionStatus:
  assumes "now \<noteq> time_zero" and "t \<noteq> ''KueueSuspended''"
  shows "keeps (find_condition t) (syncSuspensionStatus M now)"
  unfolding syncSuspensionStatus_def
  by (intro keeps_ifI keeps_run_dep [OF refl]) (auto simp: keeps_setCondition assms)

lemma keeps_markStopRequested:
  assumes "now \<noteq> time_zero" and "t \<noteq> ''KueueSuspended''"
  shows "keeps (find_condition t) (markStopRequested M rid src now)"
  by (rule keeps_run_dep [OF markStopRequested_def]) (simp add: keeps_syncSuspensionStatus [OF assms])

end

section \<open>Properties\<close>



end
