(* ===== verification/Kueue_Types.thy ===== *)
theory Kueue_Types
  imports API_Types "HOL-Library.AList"
begin

text \<open>
  The objects of Kueue, Kubernetes and the API server that the operator reads: the fields of a
  \<open>Workload\<close> and of its admission that the source mentions, the answers of the API server, and
  the quoting verb of \<open>fmt\<close>.  A Go map is an association list with distinct keys when the code
  iterates over it (the order of the list is one of the orders Go may choose) and a partial
  function when it only looks keys up.
\<close>

section \<open>Workloads\<close>

datatype CheckState = CheckStatePending | CheckStateReady | CheckStateRetry | CheckStateRejected
  | CheckStateOther string

datatype DelayedTopologyRequestState =
  DelayedTopologyRequestStatePending | DelayedTopologyRequestStateReady
| DelayedTopologyRequestStateOther string

record Toleration =
  tol_Key :: string
  tol_Operator :: string
  tol_Value :: string
  tol_Effect :: string
  tol_TolerationSeconds :: "int option"

record PodSetUpdate =
  psu_Name :: string
  psu_Labels :: strmap
  psu_Annotations :: strmap
  psu_NodeSelector :: strmap
  psu_Tolerations :: "Toleration list"

record WorkloadCheck =
  acs_Name :: string
  acs_State :: CheckState
  acs_Message :: string
  acs_LastTransitionTime :: gotime
  acs_PodSetUpdates :: "PodSetUpdate list"

text \<open>The compressed topology assignment: slices of domains whose values at a level are shared
  (\<open>Universal\<close>) or given per domain with a common prefix and suffix (\<open>Individual\<close>).\<close>

record IndividualLevelValues =
  ilv_Prefix :: "string option"
  ilv_Suffix :: "string option"
  ilv_Roots :: "string list"

record SliceLevelValues =
  slv_Universal :: "string option"
  slv_Individual :: "IndividualLevelValues option"

record SlicePodCounts =
  spc_Universal :: "int option"
  spc_Individual :: "int list"

record TopologyAssignmentSlice =
  tas_DomainCount :: int
  tas_ValuesPerLevel :: "SliceLevelValues list"
  tas_PodCounts :: SlicePodCounts

record TopologyAssignment =
  ta_Levels :: "string list"
  ta_Slices :: "TopologyAssignmentSlice list"

record PodSetAssignment =
  psa_Name :: string
  psa_Flavors :: "(string \<times> string) list"
  psa_Count :: "int option"
  psa_TopologyAssignment :: "TopologyAssignment option"
  psa_DelayedTopologyRequest :: "DelayedTopologyRequestState option"

record Admission =
  adm_ClusterQueue :: string
  adm_PodSetAssignments :: "PodSetAssignment list"

record ReclaimablePod =
  rpod_Name :: string
  rpod_Count :: int

record OwnerReference =
  own_APIVersion :: string
  own_Kind :: string
  own_Name :: string
  own_UID :: string

record Workload =
  wl_Name :: string
  wl_Namespace :: string
  wl_OwnerReferences :: "OwnerReference list"
  wl_Priority :: "int option"
  wl_Admission :: "Admission option"
  wl_AdmissionChecks :: "WorkloadCheck list"
  wl_Conditions :: "Condition list"
  wl_ReclaimablePods :: "ReclaimablePod list"

section \<open>Answers of the API server\<close>

text \<open>The error of a read or a write: \<open>apierrors.IsNotFound\<close> and
  \<open>apierrors.IsAlreadyExists\<close> tell them apart.  The string is
  the text of the error (\<open>%v\<close>).\<close>

datatype api_error =
  ApiNotFound (err_text: string) | ApiAlreadyExists (err_text: string) | ApiOther (err_text: string)

fun IsNotFound :: "api_error \<Rightarrow> bool" where
  "IsNotFound (ApiNotFound _) = True"
| "IsNotFound (ApiAlreadyExists _) = False"
| "IsNotFound (ApiOther _) = False"

fun IsAlreadyExists :: "api_error \<Rightarrow> bool" where
  "IsAlreadyExists (ApiAlreadyExists _) = True"
| "IsAlreadyExists (ApiNotFound _) = False"
| "IsAlreadyExists (ApiOther _) = False"

text \<open>\<open>client.IgnoreNotFound\<close> after a read: an absent object is no error.\<close>

definition ignore_not_found :: "api_error + 'a \<Rightarrow> go_err + 'a option" where
  "ignore_not_found r =
     (case r of
        Inr x \<Rightarrow> Inr (Some x)
      | Inl e \<Rightarrow> if IsNotFound e then Inr None else Inl (err_text e))"

section \<open>Quoting (\<open>%q\<close>)\<close>

text \<open>\<open>strconv.Quote\<close> on printable text: the quotation mark, the backslash and the control
  characters are escaped; bytes of printable multi-byte characters stand for themselves.\<close>

definition quote_char :: "char \<Rightarrow> string" where
  "quote_char c =
     (let n = of_char c :: nat in
      if n = 34 then [char_of (92::nat), c]
      else if n = 92 then [c, c]
      else if n = 7 then [char_of (92::nat), CHR ''a'']
      else if n = 8 then [char_of (92::nat), CHR ''b'']
      else if n = 9 then [char_of (92::nat), CHR ''t'']
      else if n = 10 then [char_of (92::nat), CHR ''n'']
      else if n = 11 then [char_of (92::nat), CHR ''v'']
      else if n = 12 then [char_of (92::nat), CHR ''f'']
      else if n = 13 then [char_of (92::nat), CHR ''r'']
      else if n < 32 \<or> n = 127
      then [char_of (92::nat), CHR ''x'', hex_digit (n div 16), hex_digit (n mod 16)]
      else [c])"

definition quote :: "string \<Rightarrow> string" where
  "quote s = char_of (34::nat) # concat (map quote_char s) @ [char_of (34::nat)]"

section \<open>Go maps as association lists\<close>

text \<open>Reading a missing key gives the zero value.\<close>

definition aget :: "(string \<times> 'v) list \<Rightarrow> string \<Rightarrow> 'v \<Rightarrow> 'v" where
  "aget m k zero = (case map_of m k of None \<Rightarrow> zero | Some v \<Rightarrow> v)"

lemma map_of_update [simp]: "map_of (AList.update k v al) = (map_of al)(k \<mapsto> v)"
  by (rule update_conv')

end
