(* ===== verification/Startup_Recovery.thy ===== *)
theory Startup_Recovery
  imports Status_Helpers Kueue_Types
begin

text \<open>
  Startup and recovery tracking (\<open>internal/controller/startup_recovery.go\<close>): classification of a Kueue
  eviction, the \<open>startupRecovery\<close> section of the status and the two timeout conditions.  The API read of
  the workload is the argument \<open>workload\<close> (an error, a workload, or none).
\<close>

record EvictionClassification =
  ec_Evicted :: bool
  ec_Reason :: string
  ec_Message :: string
  ec_IsPodsReadyTimeout :: bool
  ec_IsPreemption :: bool

definition no_eviction :: EvictionClassification where
  "no_eviction = \<lparr> ec_Evicted = False, ec_Reason = '''', ec_Message = '''', ec_IsPodsReadyTimeout = False,
                   ec_IsPreemption = False \<rparr>"

definition eviction_of :: "Condition \<Rightarrow> EvictionClassification" where
  "eviction_of cond =
     \<lparr> ec_Evicted = True, ec_Reason = cond_Reason cond, ec_Message = cond_Message cond,
       ec_IsPodsReadyTimeout = (cond_Reason cond = ''PodsReadyTimeout''),
       ec_IsPreemption = (cond_Reason cond = ''Preempted'') \<rparr>"

definition ClassifyEviction :: "Workload option \<Rightarrow> EvictionClassification" where
  "ClassifyEviction workload =
     (case workload of
        None \<Rightarrow> no_eviction
      | Some wl \<Rightarrow>
          (case find (\<lambda>c. cond_Type c = ''Evicted'' \<and> cond_Status c = ConditionTrue) (wl_Conditions wl) of
             None \<Rightarrow> no_eviction
           | Some c \<Rightarrow> eviction_of c))"

definition ClassifyStartupState ::
  "ResumableTrainingJobPhase \<Rightarrow> bool \<Rightarrow> EvictionClassification \<Rightarrow> StartupState" where
  "ClassifyStartupState currentPhase wasRunning eviction =
     (if ec_Evicted eviction \<and> ec_IsPodsReadyTimeout eviction
      then (if wasRunning then StartupRecoveryTimedOut else StartupTimedOut)
      else if ec_Evicted eviction then StartupEvicted
      else case currentPhase of
             PhaseStarting \<Rightarrow> StartupStarting
           | PhaseRestoring \<Rightarrow> StartupStarting
           | PhaseRunning \<Rightarrow> StartupRunning
           | _ \<Rightarrow> StartupNotStarted)"

definition zero_StartupRecoveryStatus :: StartupRecoveryStatus where
  "zero_StartupRecoveryStatus =
     \<lparr> sr_StartupState = StartupUnset, sr_PodsReadyState = PodsReadyUnset, sr_LastLaunchFailureReason = '''',
       sr_LastEvictionReason = '''', sr_LastRequeueReason = '''', sr_LastTransitionTime = None \<rparr>"

definition syncStartupRecoveryStatus ::
  "StartupState \<Rightarrow> PodsReadyState \<Rightarrow> EvictionClassification \<Rightarrow> gotime \<Rightarrow> update" where
  "syncStartupRecoveryStatus startupState podsReadyState eviction now =
     with_default zero_StartupRecoveryStatus st_StartupRecovery st_StartupRecovery_update
       (assigns
          [assign_and sr_StartupState sr_StartupState_update startupState
             (\<lambda>sr. sr\<lparr> sr_LastTransitionTime := Some now \<rparr>),
           assign sr_PodsReadyState sr_PodsReadyState_update podsReadyState,
           (if ec_Evicted eviction
            then assign sr_LastEvictionReason sr_LastEvictionReason_update (ec_Reason eviction)
            else (\<lambda>sr. (sr, False))),
           (if ec_IsPodsReadyTimeout eviction
            then assign sr_LastRequeueReason sr_LastRequeueReason_update ''RequeuedAfterEviction''
            else (\<lambda>sr. (sr, False)))])"

definition syncStartupRecoveryOnLaunch :: "gotime \<Rightarrow> update" where
  "syncStartupRecoveryOnLaunch now = syncStartupRecoveryStatus StartupStarting PodsNotReady no_eviction now"

definition syncStartupRecoveryOnRunning :: "gotime \<Rightarrow> update" where
  "syncStartupRecoveryOnRunning now = syncStartupRecoveryStatus StartupRunning PodsReady no_eviction now"

definition syncStartupRecoveryOnEviction :: "EvictionClassification \<Rightarrow> bool \<Rightarrow> gotime \<Rightarrow> update" where
  "syncStartupRecoveryOnEviction eviction wasRunning now job =
     syncStartupRecoveryStatus (ClassifyStartupState (st_Phase (rtj_Status job)) wasRunning eviction)
       PodsNotReady eviction now job"

definition setStartupRecoveryConditions ::
  "meta_ops \<Rightarrow> EvictionClassification \<Rightarrow> bool \<Rightarrow> gotime \<Rightarrow> update" where
  "setStartupRecoveryConditions M eviction wasRunning now =
     (if \<not> ec_Evicted eviction \<or> \<not> ec_IsPodsReadyTimeout eviction
      then run_all [clearCondition ''StartupTimeoutEvicted'', clearCondition ''RecoveryTimeoutEvicted'']
      else if wasRunning
      then run_all
        [setCondition M ''RecoveryTimeoutEvicted'' ConditionTrue ''PodsReadyTimeout'' (ec_Message eviction) now,
         clearCondition ''StartupTimeoutEvicted'']
      else run_all
        [setCondition M ''StartupTimeoutEvicted'' ConditionTrue ''PodsReadyTimeout'' (ec_Message eviction) now,
         clearCondition ''RecoveryTimeoutEvicted''])"

definition clearStartupRecoveryTimeoutConditions :: update where
  "clearStartupRecoveryTimeoutConditions =
     run_all [clearCondition ''StartupTimeoutEvicted'', clearCondition ''RecoveryTimeoutEvicted'']"

definition wasPhaseRunning :: "job \<Rightarrow> bool" where
  "wasPhaseRunning job \<longleftrightarrow>
     st_Phase (rtj_Status job) = PhaseRunning
     \<or> (case st_StartupRecovery (rtj_Status job) of
          None \<Rightarrow> False | Some sr \<Rightarrow> sr_StartupState sr = StartupRunning)"

text \<open>\<open>startupRecoveryStatusEqual\<close> compares every field.\<close>

definition startupRecoveryStatusEqual ::
  "StartupRecoveryStatus option \<Rightarrow> StartupRecoveryStatus option \<Rightarrow> bool" where
  "startupRecoveryStatusEqual left right =
     ptr_equal (\<lambda>l r. sr_StartupState l = sr_StartupState r \<and> sr_PodsReadyState l = sr_PodsReadyState r
        \<and> sr_LastLaunchFailureReason l = sr_LastLaunchFailureReason r
        \<and> sr_LastEvictionReason l = sr_LastEvictionReason r
        \<and> sr_LastRequeueReason l = sr_LastRequeueReason r
        \<and> timesEqual (sr_LastTransitionTime l) (sr_LastTransitionTime r)) left right"

definition detectAndRecordEviction :: "meta_ops \<Rightarrow> go_err + Workload option \<Rightarrow> gotime \<Rightarrow> update" where
  "detectAndRecordEviction M workload now job =
     (case workload of
        Inl _ \<Rightarrow> (job, False)
      | Inr None \<Rightarrow> (job, False)
      | Inr (Some wl) \<Rightarrow>
          (let eviction = ClassifyEviction (Some wl); running = wasPhaseRunning job
           in if \<not> ec_Evicted eviction then (job, False)
              else run_all [syncStartupRecoveryOnEviction eviction running now,
                            setStartupRecoveryConditions M eviction running now] job))"

section \<open>Effect on the status\<close>

abbreviation startup_state :: "job \<Rightarrow> StartupState" where
  "startup_state j \<equiv>
     (case st_StartupRecovery (rtj_Status j) of None \<Rightarrow> StartupUnset | Some sr \<Rightarrow> sr_StartupState sr)"

lemma fst_assign: "fst (assign get upd v s) = (if get s = v then s else upd (\<lambda>_. v) s)"
  by (simp add: assign_def)

lemma fst_assign_and: "fst (assign_and get upd v f s) = (if get s = v then s else f (upd (\<lambda>_. v) s))"
  by (simp add: assign_and_def)

lemma syncStartupRecoveryStatus_state:
  "startup_state (fst (syncStartupRecoveryStatus st pods ev now j)) = st"
  "st_Phase (rtj_Status (fst (syncStartupRecoveryStatus st pods ev now j))) = st_Phase (rtj_Status j)"
  "conditions (fst (syncStartupRecoveryStatus st pods ev now j)) = conditions j"
  unfolding syncStartupRecoveryStatus_def
  by (simp_all add: with_default_def split_beta fst_assign fst_assign_and)

lemma honest_syncStartupRecoveryStatus:
  assumes "st \<noteq> StartupUnset"
  shows "honest (syncStartupRecoveryStatus st pods ev now)"
proof -
  have k: "keeps_if_unchanged (\<lambda>sr :: StartupRecoveryStatus. (sr, False))" by (simp add: keeps_if_unchanged_def)
  show ?thesis
    unfolding syncStartupRecoveryStatus_def
    by (intro honest_with_default assigns_keeps)
       (use assms k in \<open>auto simp: zero_StartupRecoveryStatus_def assign_and_def split_beta\<close>)
qed

lemma ClassifyStartupState_set [simp]: "ClassifyStartupState p w ev \<noteq> StartupUnset"
  by (simp add: ClassifyStartupState_def split: ResumableTrainingJobPhase.split)

lemma touches_setStartupRecoveryConditions [simp]: "touches (setStartupRecoveryConditions M ev w now)"
  unfolding setStartupRecoveryConditions_def by (simp add: touches_run_all)

definition timeouts_exclusive :: "job \<Rightarrow> bool" where
  "timeouts_exclusive j \<longleftrightarrow>
     find_condition ''StartupTimeoutEvicted'' j = None \<or> find_condition ''RecoveryTimeoutEvicted'' j = None"

context conditions_api
begin

lemma honest_detectAndRecordEviction:
  assumes "now \<noteq> time_zero"
  shows "honest (detectAndRecordEviction M wl now)"
proof -
  have c: "honest (setStartupRecoveryConditions M ev w now)" for ev w
    unfolding setStartupRecoveryConditions_def
    by (simp add: honest_run_all honest_setCondition [OF assms])
  have e: "honest (syncStartupRecoveryOnEviction ev w now)" for ev w
    unfolding honest_def syncStartupRecoveryOnEviction_def
    by (auto intro: honestD [OF honest_syncStartupRecoveryStatus])
  show ?thesis
  proof (rule honest_byI)
    fix j
    have r: "honest (run_all [syncStartupRecoveryOnEviction ev w now, setStartupRecoveryConditions M ev w now])" for ev w
      using c e by (intro honest_run_all) simp
    show "\<exists>v. honest v \<and> detectAndRecordEviction M wl now j = v j"
      unfolding detectAndRecordEviction_def Let_def
      using r by (auto split: sum.split option.split simp del: run_all.simps
          intro: exI [of _ "\<lambda>j. (j, False)"])
  qed
qed

lemma setStartupRecoveryConditions_find:
  assumes "now \<noteq> time_zero"
  shows "find_condition t (fst (setStartupRecoveryConditions M ev w now j)) =
    (if t \<in> {''StartupTimeoutEvicted'', ''RecoveryTimeoutEvicted''}
     then (if ec_Evicted ev \<and> ec_IsPodsReadyTimeout ev
              \<and> t = (if w then ''RecoveryTimeoutEvicted'' else ''StartupTimeoutEvicted'')
           then find_condition t (fst (setCondition M t ConditionTrue ''PodsReadyTimeout'' (ec_Message ev) now j))
           else None)
     else find_condition t j)"
  unfolding setStartupRecoveryConditions_def
  by (auto simp: fst_run_all setCondition_fst [OF assms] simp del: run_all.simps)

lemma detectAndRecordEviction_evicted:
  assumes "now \<noteq> time_zero" and "ec_Evicted (ClassifyEviction (Some wl))"
    and "j' = fst (detectAndRecordEviction M (Inr (Some wl)) now j)" and "ev = ClassifyEviction (Some wl)"
  shows "startup_state j' = ClassifyStartupState (st_Phase (rtj_Status j)) (wasPhaseRunning j) ev"
    and "st_Phase (rtj_Status j') = st_Phase (rtj_Status j)"
    and "find_condition t j' = find_condition t (fst (setStartupRecoveryConditions M ev (wasPhaseRunning j) now j))"
proof -
  let ?j1 = "fst (syncStartupRecoveryOnEviction ev (wasPhaseRunning j) now j)"
  have j': "j' = fst (setStartupRecoveryConditions M ev (wasPhaseRunning j) now ?j1)"
    using assms by (simp add: detectAndRecordEviction_def Let_def split_beta)
  have t: "touched (rtj_Status ?j1) (rtj_Status j')" unfolding j' by (rule touchesD) simp
  show "startup_state j' = ClassifyStartupState (st_Phase (rtj_Status j)) (wasPhaseRunning j) ev"
    using touched_fields(9) [OF t] by (simp add: syncStartupRecoveryOnEviction_def syncStartupRecoveryStatus_state)
  show "st_Phase (rtj_Status j') = st_Phase (rtj_Status j)"
    using touched_fields(1) [OF t] by (simp add: syncStartupRecoveryOnEviction_def syncStartupRecoveryStatus_state)
  have "find_condition u ?j1 = find_condition u j" "rtj_Generation ?j1 = rtj_Generation j" for u
    by (simp_all add: find_condition_def syncStartupRecoveryOnEviction_def syncStartupRecoveryStatus_state)
       (simp add: syncStartupRecoveryStatus_def with_default_def split_beta)
  then show "find_condition t j' = find_condition t (fst (setStartupRecoveryConditions M ev (wasPhaseRunning j) now j))"
    unfolding j' by (simp add: setStartupRecoveryConditions_find [OF assms(1)] setCondition_fst [OF assms(1)])
qed

end

section \<open>Properties\<close>

text \<open>
  When Kueue has evicted the workload, detection records exactly the kind of eviction: a readiness
  timeout is a recovery timeout if the job was running and a startup timeout otherwise, any other
  eviction is a plain one; of the two timeout conditions at most one is set, and it is the one of the
  recorded kind.
\<close>
theorem eviction_recorded:
  assumes "conditions_api M" and "now \<noteq> time_zero" and "ec_Evicted (ClassifyEviction (Some wl))"
    and j': "j' = fst (detectAndRecordEviction M (Inr (Some wl)) now j)"
  shows "startup_state j' =
      (if ec_IsPodsReadyTimeout (ClassifyEviction (Some wl))
       then (if wasPhaseRunning j then StartupRecoveryTimedOut else StartupTimedOut) else StartupEvicted)
    \<and> timeouts_exclusive j'
    \<and> (find_condition ''StartupTimeoutEvicted'' j' \<noteq> None \<longleftrightarrow> startup_state j' = StartupTimedOut)
    \<and> (find_condition ''RecoveryTimeoutEvicted'' j' \<noteq> None \<longleftrightarrow> startup_state j' = StartupRecoveryTimedOut)"
proof -
  note d = conditions_api.detectAndRecordEviction_evicted [OF assms(1-3) j' refl]
  have "startup_state j' =
      (if ec_IsPodsReadyTimeout (ClassifyEviction (Some wl))
       then (if wasPhaseRunning j then StartupRecoveryTimedOut else StartupTimedOut) else StartupEvicted)"
    unfolding d(1) using assms(3) by (simp add: ClassifyStartupState_def)
  then show ?thesis
    using assms(3)
    by (simp add: timeouts_exclusive_def d(3) conditions_api.setStartupRecoveryConditions_find [OF assms(1,2)]
        conditions_api.setCondition_fst [OF assms(1,2)])
qed

definition ex_evicted :: Workload where
  "ex_evicted = \<lparr> wl_Name = ''wl'', wl_Namespace = ''ns'', wl_OwnerReferences = [], wl_Priority = None,
     wl_Admission = None, wl_AdmissionChecks = [],
     wl_Conditions = [\<lparr> cond_Type = ''Evicted'', cond_Status = ConditionTrue, cond_ObservedGeneration = 1,
        cond_LastTransitionTime = 5, cond_Reason = ''PodsReadyTimeout'', cond_Message = ''timeout'' \<rparr>],
     wl_ReclaimablePods = [] \<rparr>"

text \<open>
  A recovery timeout does not survive the stop flow.  Detection runs on every reconciliation of a
  stopping job; after the first one has recorded a recovery timeout and the stop flow has moved the job
  to \<open>YieldRequested\<close>, the next one no longer sees that the job was running, rewrites the state to
  \<open>StartupTimedOut\<close> and replaces the condition \<open>RecoveryTimeoutEvicted\<close> by \<open>StartupTimeoutEvicted\<close>.
\<close>
lemma recovery_timeout_reclassified:
  assumes "conditions_api M" and "now \<noteq> time_zero" and "now' \<noteq> time_zero"
    and "ec_Evicted (ClassifyEviction (Some wl))" and "ec_IsPodsReadyTimeout (ClassifyEviction (Some wl))"
    and "wasPhaseRunning j"
    and j1: "j1 = fst (detectAndRecordEviction M (Inr (Some wl)) now j)"
    and j2: "j2 = fst (markStopRequested M rid stopSourceKueue now j1)"
    and j3: "j3 = fst (detectAndRecordEviction M (Inr (Some wl)) now' j2)"
  shows "startup_state j1 = StartupRecoveryTimedOut \<and> find_condition ''RecoveryTimeoutEvicted'' j1 \<noteq> None
       \<and> startup_state j3 = StartupTimedOut \<and> find_condition ''RecoveryTimeoutEvicted'' j3 = None
       \<and> find_condition ''StartupTimeoutEvicted'' j3 \<noteq> None"
proof -
  note find = conditions_api.setStartupRecoveryConditions_find [OF assms(1)]
    conditions_api.setCondition_fst [OF assms(1)]
  note d1 = conditions_api.detectAndRecordEviction_evicted [OF assms(1,2,4) j1 refl]
  note d3 = conditions_api.detectAndRecordEviction_evicted [OF assms(1,3,4) j3 refl]
  have s1: "startup_state j1 = StartupRecoveryTimedOut"
    unfolding d1(1) using assms(4-6) by (simp add: ClassifyStartupState_def)
  note m = moved_fields [OF moved_markStopRequested [of now rid j1 M stopSourceKueue], folded j2]
  have "st_Phase (rtj_Status j2) = PhaseYieldRequested" by (rule m)
  moreover have "startup_state j2 = startup_state j1" using m(13) by (simp add: put_simps)
  ultimately have "\<not> wasPhaseRunning j2" using s1 by (auto simp: wasPhaseRunning_def split: option.splits)
  then show ?thesis
    using s1 assms(2-6) by (simp add: d1(3) d3(1,3) find ClassifyStartupState_def)
qed

end
