(* ===== verification/Checkpoints.thy ===== *)
theory Checkpoints
  imports API_Types
begin

text \<open>
  The checkpoint package (\<open>internal/checkpoints\<close>): the manifest and its completeness check, the
  compatibility check against a resume request, the selection of the latest compatible
  manifest, and the catalog that reads them from an object store.  The object store
  (\<open>ObjectStore\<close>, implemented over the MinIO client) and the JSON decoding of objects are
  parameters, gathered in the record \<open>store_ops\<close>; errors that the MinIO client classifies as
  "not found" are the constructor \<open>NotFound\<close>.
\<close>

section \<open>Manifests (\<open>types.go\<close>)\<close>

definition SupportedManifestFormatVersion :: string where
  "SupportedManifestFormatVersion = ''yield-sdk.manifest/v1alpha1''"

record Artifact =
  art_Name :: string
  art_RelativePath :: string
  art_ObjectURI :: string
  art_SizeBytes :: int
  art_DigestAlgorithm :: string
  art_DigestValue :: string

record CheckpointManifest =
  mf_CheckpointID :: string
  mf_ClusterIdentity :: string
  mf_RTJIdentity :: string
  mf_RunAttempt :: int
  mf_GlobalStep :: int
  mf_WallClockTimestamp :: string
  mf_ImageIdentity :: string
  mf_CodeVersionIdentity :: string
  mf_RuntimeMode :: string
  mf_WorldSize :: int
  mf_GPUShape :: string
  mf_OptimizerMode :: string
  mf_ShardingMode :: string
  mf_FormatVersion :: string
  mf_ProducerVersion :: string
  mf_CrossSizeRestoreSupported :: "bool option"
  mf_DeviceProfileFingerprint :: string
  mf_StorageRootURI :: string
  mf_ManifestURI :: string
  mf_Artifacts :: "Artifact list"
  mf_CompletionTimestamp :: string

record CheckpointInfo =
  ci_CheckpointID :: string
  ci_GlobalStep :: int
  ci_CompletionTimestamp :: gotime
  ci_ManifestURI :: string

definition ResumeManifestURI :: "CheckpointReference option \<Rightarrow> string" where
  "ResumeManifestURI ref = (case ref of None \<Rightarrow> '''' | Some r \<Rightarrow> cr_ManifestURI r)"

definition YieldMarkerURI :: "string \<Rightarrow> int \<Rightarrow> string" where
  "YieldMarkerURI storageRoot runAttempt =
     TrimRight1 storageRoot (CHR ''/'') @ ''/yield-markers/run-'' @ itoa runAttempt @ ''.json''"

definition ManifestPrefixURI :: "string \<Rightarrow> string" where
  "ManifestPrefixURI storageRoot = TrimRight1 storageRoot (CHR ''/'') @ ''/manifests/''"

definition CompletionTime :: "CheckpointManifest \<Rightarrow> gotime option" where
  "CompletionTime m = parse_RFC3339 (mf_CompletionTimestamp m)"

definition artifact_error :: "Artifact \<Rightarrow> go_err option" where
  "artifact_error a =
     (if blank (art_Name a) then Some ''artifact is missing name''
      else if blank (art_RelativePath a)
        then Some (''artifact '' @ art_Name a @ '' is missing relativePath'')
      else if blank (art_ObjectURI a)
        then Some (''artifact '' @ art_Name a @ '' is missing objectURI'')
      else if blank (art_DigestAlgorithm a)
        then Some (''artifact '' @ art_Name a @ '' is missing digestAlgorithm'')
      else if blank (art_DigestValue a)
        then Some (''artifact '' @ art_Name a @ '' is missing digestValue'')
      else if art_SizeBytes a < 0
        then Some (''artifact '' @ art_Name a @ '' has negative size'')
      else None)"

definition ValidateComplete :: "CheckpointManifest \<Rightarrow> go_err option" where
  "ValidateComplete m =
     (if blank (mf_CheckpointID m) then Some ''missing checkpointID''
      else if blank (mf_StorageRootURI m) then Some ''missing storageRootURI''
      else if blank (mf_CompletionTimestamp m) then Some ''missing completionTimestamp''
      else if CompletionTime m = None then Some ''invalid completionTimestamp''
      else if mf_Artifacts m = [] then Some ''missing artifacts''
      else each artifact_error (mf_Artifacts m))"

definition CheckpointReference_of ::
  "CheckpointManifest \<Rightarrow> string \<Rightarrow> CheckpointReference option" where
  "CheckpointReference_of m reason =
     (case CompletionTime m of
        None \<Rightarrow> None
      | Some completedAt \<Rightarrow> Some
          \<lparr> cr_ID = mf_CheckpointID m, cr_StorageURI = mf_StorageRootURI m,
            cr_ManifestURI = mf_ManifestURI m, cr_CompletionTime = Some completedAt,
            cr_SourceRunAttempt = mf_RunAttempt m,
            cr_CompatibilityState = CompatibilityStateCompatible,
            cr_CompatibilityReason = reason, cr_WorldSize = mf_WorldSize m \<rparr>)"

section \<open>Compatibility (\<open>compatibility.go\<close>)\<close>

record ResumeRequest =
  rq_StorageRootURI :: string
  rq_ClusterIdentity :: string
  rq_RTJIdentity :: string
  rq_RuntimeMode :: string
  rq_WorldSize :: int
  rq_GPUShape :: string
  rq_ImageIdentity :: string
  rq_CodeVersionIdentity :: string
  rq_OptimizerMode :: string
  rq_ShardingMode :: string
  rq_SupportedFormatVersions :: "string list"
  rq_AllowWorldSizeChange :: bool
  rq_CurrentDeviceProfileFingerprint :: string

definition isSupportedFormatVersion :: "string \<Rightarrow> string list \<Rightarrow> bool" where
  "isSupportedFormatVersion version supported =
     (if blank version then False
      else (if supported = [] then version = SupportedManifestFormatVersion
            else version \<in> set supported))"

text \<open>The check \<open>strings.TrimSpace(x) == "" || x != y\<close> of an identity dimension.\<close>

definition mismatch :: "string \<Rightarrow> string \<Rightarrow> bool" where
  "mismatch have want \<longleftrightarrow> blank have \<or> have \<noteq> want"

definition exact_match_message :: string where
  "exact_match_message = ''exact match on lineage, mode, cluster, shape, image, code version, '' @
     ''world size, optimizer mode, sharding mode, and manifest format''"

definition CheckManifestCompatibility ::
  "CheckpointManifest \<Rightarrow> ResumeRequest \<Rightarrow> bool \<times> string" where
  "CheckManifestCompatibility m rq =
     (case ValidateComplete m of
        Some err \<Rightarrow> (False, ''incomplete manifest: '' @ err)
      | None \<Rightarrow>
     if mismatch (mf_ClusterIdentity m) (rq_ClusterIdentity rq)
       then (False, ''cluster identity mismatch'')
     else if mismatch (mf_RTJIdentity m) (rq_RTJIdentity rq)
       then (False, ''RTJ lineage identity mismatch'')
     else if mismatch (mf_RuntimeMode m) (rq_RuntimeMode rq)
       then (False, ''runtime mode mismatch'')
     else if mf_WorldSize m \<noteq> rq_WorldSize rq \<and> \<not> rq_AllowWorldSizeChange rq
       then (False, ''world size mismatch'')
     else if mf_WorldSize m \<noteq> rq_WorldSize rq \<and> mf_CrossSizeRestoreSupported m \<noteq> Some True
       then (False, ''checkpoint does not support cross-size restore'')
     else if mismatch (mf_GPUShape m) (rq_GPUShape rq)
       then (False, ''GPU shape mismatch'')
     else if mismatch (mf_ImageIdentity m) (rq_ImageIdentity rq)
       then (False, ''image identity mismatch'')
     else if mismatch (mf_CodeVersionIdentity m) (rq_CodeVersionIdentity rq)
       then (False, ''code version identity mismatch'')
     else if \<not> isSupportedFormatVersion (mf_FormatVersion m) (rq_SupportedFormatVersions rq)
       then (False, ''checkpoint format version mismatch'')
     else if mismatch (mf_OptimizerMode m) (rq_OptimizerMode rq)
       then (False, ''optimizer mode mismatch'')
     else if mismatch (mf_ShardingMode m) (rq_ShardingMode rq)
       then (False, ''sharding mode mismatch'')
     else if rq_CurrentDeviceProfileFingerprint rq \<noteq> '''' \<and> mf_DeviceProfileFingerprint m = ''''
       then (False, ''checkpoint was saved without device profile; '' @
               ''cannot resume under DRA device profile (fail-closed)'')
     else if rq_CurrentDeviceProfileFingerprint rq \<noteq> ''''
             \<and> mf_DeviceProfileFingerprint m \<noteq> rq_CurrentDeviceProfileFingerprint rq
       then (False, ''device profile fingerprint mismatch (fail-closed)'')
     else if mf_WorldSize m = rq_WorldSize rq
       then (True, exact_match_message @
               (if rq_CurrentDeviceProfileFingerprint rq \<noteq> '''' then '', device profile'' else ''''))
     else (True, ''compatible with world-size change ('' @ itoa (mf_WorldSize m) @ '' -> '' @
               itoa (rq_WorldSize rq) @ ''); all other dimensions match''))"

definition compatible :: "ResumeRequest \<Rightarrow> CheckpointManifest \<Rightarrow> bool" where
  "compatible rq m \<longleftrightarrow> fst (CheckManifestCompatibility m rq)"

definition IsCheckpointTooOld ::
  "CheckpointManifest \<Rightarrow> duration \<Rightarrow> gotime \<Rightarrow> bool \<times> string" where
  "IsCheckpointTooOld m maxAge now =
     (if maxAge \<le> 0 then (False, '''')
      else (case CompletionTime m of
              None \<Rightarrow> (False, ''cannot parse checkpoint completion time'')
            | Some ct \<Rightarrow>
                let age = time_Sub now ct
                in if age > maxAge
                   then (True, ''checkpoint age '' @ Duration_String (Duration_Round age Second) @
                           '' exceeds maxCheckpointAge '' @ Duration_String maxAge)
                   else (False, '''')))"

section \<open>Selection (\<open>selector.go\<close>)\<close>

text \<open>The comparison function of \<open>sort.SliceStable\<close>: newest first, unparsable times last,
  ties broken by the larger manifest URI.\<close>

definition manifest_before :: "CheckpointManifest \<Rightarrow> CheckpointManifest \<Rightarrow> bool" where
  "manifest_before a b =
     (case (CompletionTime a, CompletionTime b) of
        (Some l, None) \<Rightarrow> True
      | (None, Some r) \<Rightarrow> False
      | (None, None) \<Rightarrow> mf_ManifestURI a > mf_ManifestURI b
      | (Some l, Some r) \<Rightarrow> if l = r then mf_ManifestURI a > mf_ManifestURI b else l > r)"

definition SelectLatestCompatible ::
  "CheckpointManifest list \<Rightarrow> ResumeRequest \<Rightarrow> CheckpointManifest option" where
  "SelectLatestCompatible candidates rq =
     (if candidates = [] then None
      else find (compatible rq) (sort_stable manifest_before candidates))"

definition ResumeRequestFromRTJ :: "ResumableTrainingJob \<Rightarrow> string \<Rightarrow> ResumeRequest" where
  "ResumeRequestFromRTJ r clusterIdentity =
     (let sp = rtj_Spec r in
      \<lparr> rq_StorageRootURI = cp_StorageURI (sp_Checkpoint sp),
        rq_ClusterIdentity = clusterIdentity,
        rq_RTJIdentity = rtj_Namespace r @ ''/'' @ rtj_Name r,
        rq_RuntimeMode = RuntimeMode_string (rt_Mode (sp_Runtime sp)),
        rq_WorldSize = id_WorldSize (sp_Identity sp),
        rq_GPUShape = id_GPUShape (sp_Identity sp),
        rq_ImageIdentity = id_Image (sp_Identity sp),
        rq_CodeVersionIdentity = id_CodeVersion (sp_Identity sp),
        rq_OptimizerMode = rt_OptimizerMode (sp_Runtime sp),
        rq_ShardingMode = rt_ShardingMode (sp_Runtime sp),
        rq_SupportedFormatVersions = [SupportedManifestFormatVersion],
        rq_AllowWorldSizeChange = rp_AllowWorldSizeChange (sp_Resume sp),
        rq_CurrentDeviceProfileFingerprint =
          (case st_Devices (rtj_Status r) of
             None \<Rightarrow> '''' | Some d \<Rightarrow> ds_CurrentDeviceProfileFingerprint d) \<rparr>)"

section \<open>The catalog (\<open>catalog.go\<close>)\<close>

datatype store_error = NotFound string | OtherError string

definition store_error_text :: "store_error \<Rightarrow> string" where
  "store_error_text e = (case e of NotFound s \<Rightarrow> s | OtherError s \<Rightarrow> s)"

definition isNotFound :: "store_error \<Rightarrow> bool" where
  "isNotFound e = (case e of NotFound _ \<Rightarrow> True | OtherError _ \<Rightarrow> False)"

record YieldMarker =
  ym_CheckpointID :: string
  ym_ManifestURI :: string
  ym_RequestID :: string
  ym_CompletionTimestamp :: string
  ym_GlobalStep :: int

record PauseObservation =
  pob_MarkerURI :: string
  pob_Checkpoint :: CheckpointReference
  pob_RequestID :: string
  pob_GlobalStep :: int
  pob_CompletedAt :: gotime

text \<open>The object store and the JSON decoder, as the catalog calls them.\<close>

record store_ops =
  ListObjects :: "string \<Rightarrow> store_error + string list"
  ReadObject :: "string \<Rightarrow> store_error + string"
  StatObject :: "string \<Rightarrow> store_error option"
  unmarshal_manifest :: "string \<Rightarrow> go_err + CheckpointManifest"
  unmarshal_marker :: "string \<Rightarrow> go_err + YieldMarker"

definition DecodeManifest ::
  "store_ops \<Rightarrow> string \<Rightarrow> string \<Rightarrow> store_error + CheckpointManifest" where
  "DecodeManifest S raw manifestURI =
     (case unmarshal_manifest S raw of
        Inl err \<Rightarrow> Inl (OtherError (''decode checkpoint manifest '' @ manifestURI @ '': '' @ err))
      | Inr m \<Rightarrow> Inr (if mf_ManifestURI m = '''' then m\<lparr>mf_ManifestURI := manifestURI\<rparr> else m))"

definition readManifest :: "store_ops \<Rightarrow> string \<Rightarrow> store_error + CheckpointManifest" where
  "readManifest S uri =
     (case ReadObject S uri of Inl err \<Rightarrow> Inl err | Inr raw \<Rightarrow> DecodeManifest S raw uri)"

definition readYieldMarker :: "store_ops \<Rightarrow> string \<Rightarrow> store_error + YieldMarker" where
  "readYieldMarker S uri =
     (case ReadObject S uri of
        Inl err \<Rightarrow> Inl err
      | Inr raw \<Rightarrow>
          (case unmarshal_marker S raw of
             Inl err \<Rightarrow> Inl (OtherError (''decode yield marker '' @ uri @ '': '' @ err))
           | Inr mk \<Rightarrow>
               if ym_CheckpointID mk = '''' \<or> ym_ManifestURI mk = '''' \<or> ym_RequestID mk = ''''
                  \<or> ym_CompletionTimestamp mk = ''''
               then Inl (OtherError (''yield marker '' @ uri @ '' is incomplete''))
               else Inr mk))"

fun stat_all :: "store_ops \<Rightarrow> Artifact list \<Rightarrow> store_error option" where
  "stat_all S [] = None"
| "stat_all S (a # as) =
     (case StatObject S (art_ObjectURI a) of Some err \<Rightarrow> Some err | None \<Rightarrow> stat_all S as)"

definition validateManifestArtifacts :: "store_ops \<Rightarrow> CheckpointManifest \<Rightarrow> store_error option" where
  "validateManifestArtifacts S m =
     (case ValidateComplete m of
        Some err \<Rightarrow> Some (OtherError err)
      | None \<Rightarrow> stat_all S (mf_Artifacts m))"

definition tryLoadCandidate :: "store_ops \<Rightarrow> string \<Rightarrow> CheckpointManifest option" where
  "tryLoadCandidate S uri =
     (case readManifest S uri of
        Inl _ \<Rightarrow> None
      | Inr m \<Rightarrow>
          if ValidateComplete m \<noteq> None then None
          else if validateManifestArtifacts S m \<noteq> None then None
          else Some m)"

definition pause_accept_reason :: string where
  "pause_accept_reason =
     ''pause flow accepted a complete checkpoint manifest for the current drain request''"

definition resume_select_reason :: string where
  "resume_select_reason = ''latest compatible complete checkpoint selected for resume''"

text \<open>The result \<open>Inr None\<close> is the Go result \<open>(nil, false, nil)\<close>.\<close>

definition ObservePause ::
  "store_ops \<Rightarrow> string \<Rightarrow> int \<Rightarrow> string \<Rightarrow> gotime \<Rightarrow> store_error + PauseObservation option" where
  "ObservePause S storageRoot runAttempt requestID requestedAt =
     (let markerURI = YieldMarkerURI storageRoot runAttempt in
      case readYieldMarker S markerURI of
        Inl err \<Rightarrow> if isNotFound err then Inr None else Inl err
      | Inr marker \<Rightarrow>
          if ym_RequestID marker \<noteq> requestID then Inr None
          else (case parse_RFC3339 (ym_CompletionTimestamp marker) of
                  None \<Rightarrow> Inr None
                | Some completedAt \<Rightarrow>
                    if \<not> completedAt > requestedAt then Inr None
                    else (case readManifest S (ym_ManifestURI marker) of
                            Inl err \<Rightarrow> if isNotFound err then Inr None else Inl err
                          | Inr manifest \<Rightarrow>
                              (case validateManifestArtifacts S manifest of
                                 Some err \<Rightarrow> if isNotFound err then Inr None else Inl err
                               | None \<Rightarrow>
                                   (case CompletionTime manifest of
                                      None \<Rightarrow> Inr None
                                    | Some manifestCompletedAt \<Rightarrow>
                                        if \<not> manifestCompletedAt > requestedAt then Inr None
                                        else (case CheckpointReference_of manifest pause_accept_reason of
                                                None \<Rightarrow> Inl (OtherError ''completion time'')
                                              | Some ref \<Rightarrow> Inr (Some
                                                  \<lparr> pob_MarkerURI = markerURI, pob_Checkpoint = ref,
                                                    pob_RequestID = ym_RequestID marker,
                                                    pob_GlobalStep = ym_GlobalStep marker,
                                                    pob_CompletedAt = manifestCompletedAt \<rparr>)))))))"

definition SelectResumeCheckpoint ::
  "store_ops \<Rightarrow> ResumeRequest \<Rightarrow> store_error + CheckpointReference option" where
  "SelectResumeCheckpoint S rq =
     (case ListObjects S (ManifestPrefixURI (rq_StorageRootURI rq)) of
        Inl err \<Rightarrow> Inl err
      | Inr uris \<Rightarrow>
          (case SelectLatestCompatible (List.map_filter (tryLoadCandidate S) uris) rq of
             None \<Rightarrow> Inr None
           | Some m \<Rightarrow>
               (case CheckpointReference_of m resume_select_reason of
                  None \<Rightarrow> Inl (OtherError ''completion time'')
                | Some ref \<Rightarrow> Inr (Some ref))))"

definition info_step ::
  "store_ops \<Rightarrow> string \<Rightarrow> CheckpointInfo option \<Rightarrow> CheckpointInfo option" where
  "info_step S uri latest =
     (case readManifest S uri of
        Inl _ \<Rightarrow> latest
      | Inr m \<Rightarrow>
          (case CompletionTime m of
             None \<Rightarrow> latest
           | Some ct \<Rightarrow>
               if (case latest of None \<Rightarrow> True | Some i \<Rightarrow> ct > ci_CompletionTimestamp i)
               then Some \<lparr> ci_CheckpointID = mf_CheckpointID m, ci_GlobalStep = mf_GlobalStep m,
                           ci_CompletionTimestamp = ct, ci_ManifestURI = mf_ManifestURI m \<rparr>
               else latest))"

definition LatestCheckpointInfo :: "store_ops \<Rightarrow> string \<Rightarrow> store_error + CheckpointInfo option" where
  "LatestCheckpointInfo S storageRoot =
     (case ListObjects S (ManifestPrefixURI storageRoot) of
        Inl err \<Rightarrow> Inl err
      | Inr uris \<Rightarrow> if uris = [] then Inr None else Inr (fold (info_step S) uris None))"

text \<open>The \<open>Catalog\<close> interface: without a store the no-op catalog answers "nothing found".\<close>

datatype Catalog = NoopCatalog | ObjectStoreCatalog store_ops

definition NewCatalog :: "store_ops option \<Rightarrow> Catalog" where
  "NewCatalog store = (case store of None \<Rightarrow> NoopCatalog | Some S \<Rightarrow> ObjectStoreCatalog S)"

fun catalog_ObservePause ::
  "Catalog \<Rightarrow> string \<Rightarrow> int \<Rightarrow> string \<Rightarrow> gotime \<Rightarrow> store_error + PauseObservation option" where
  "catalog_ObservePause NoopCatalog root attempt rid at = Inr None"
| "catalog_ObservePause (ObjectStoreCatalog S) root attempt rid at = ObservePause S root attempt rid at"

fun catalog_SelectResumeCheckpoint ::
  "Catalog \<Rightarrow> ResumeRequest \<Rightarrow> store_error + CheckpointReference option" where
  "catalog_SelectResumeCheckpoint NoopCatalog rq = Inr None"
| "catalog_SelectResumeCheckpoint (ObjectStoreCatalog S) rq = SelectResumeCheckpoint S rq"

fun catalog_LatestCheckpointInfo :: "Catalog \<Rightarrow> string \<Rightarrow> store_error + CheckpointInfo option" where
  "catalog_LatestCheckpointInfo NoopCatalog root = Inr None"
| "catalog_LatestCheckpointInfo (ObjectStoreCatalog S) root = LatestCheckpointInfo S root"

section \<open>Completeness and compatibility\<close>

definition artifact_complete :: "Artifact \<Rightarrow> bool" where
  "artifact_complete a \<longleftrightarrow>
     \<not> blank (art_Name a) \<and> \<not> blank (art_RelativePath a) \<and> \<not> blank (art_ObjectURI a) \<and>
     \<not> blank (art_DigestAlgorithm a) \<and> \<not> blank (art_DigestValue a) \<and> 0 \<le> art_SizeBytes a"

lemma artifact_error_None: "artifact_error a = None \<longleftrightarrow> artifact_complete a"
  by (auto simp: artifact_error_def artifact_complete_def)

text \<open>What a complete manifest is, without the order of the checks.\<close>

definition manifest_complete :: "CheckpointManifest \<Rightarrow> bool" where
  "manifest_complete m \<longleftrightarrow>
     \<not> blank (mf_CheckpointID m) \<and> \<not> blank (mf_StorageRootURI m) \<and>
     \<not> blank (mf_CompletionTimestamp m) \<and> CompletionTime m \<noteq> None \<and> mf_Artifacts m \<noteq> [] \<and>
     list_all artifact_complete (mf_Artifacts m)"

lemma ValidateComplete_None: "ValidateComplete m = None \<longleftrightarrow> manifest_complete m"
  by (auto simp: ValidateComplete_def manifest_complete_def each_None_iff artifact_error_None list_all_iff)

lemma complete_CompletionTime: "manifest_complete m \<Longrightarrow> \<exists>t. CompletionTime m = Some t"
  by (auto simp: manifest_complete_def)

text \<open>The compatibility contract: one clause per dimension.\<close>

definition same_dimension :: "string \<Rightarrow> string \<Rightarrow> bool" where
  "same_dimension x y \<longleftrightarrow> x = y \<and> \<not> blank x"

definition world_size_ok :: "CheckpointManifest \<Rightarrow> ResumeRequest \<Rightarrow> bool" where
  "world_size_ok m rq \<longleftrightarrow>
     mf_WorldSize m = rq_WorldSize rq
     \<or> rq_AllowWorldSizeChange rq \<and> mf_CrossSizeRestoreSupported m = Some True"

definition device_profile_ok :: "CheckpointManifest \<Rightarrow> ResumeRequest \<Rightarrow> bool" where
  "device_profile_ok m rq \<longleftrightarrow>
     rq_CurrentDeviceProfileFingerprint rq = ''''
     \<or> mf_DeviceProfileFingerprint m = rq_CurrentDeviceProfileFingerprint rq"

definition compatible_spec :: "ResumeRequest \<Rightarrow> CheckpointManifest \<Rightarrow> bool" where
  "compatible_spec rq m \<longleftrightarrow>
     manifest_complete m \<and>
     same_dimension (mf_ClusterIdentity m) (rq_ClusterIdentity rq) \<and>
     same_dimension (mf_RTJIdentity m) (rq_RTJIdentity rq) \<and>
     same_dimension (mf_RuntimeMode m) (rq_RuntimeMode rq) \<and>
     world_size_ok m rq \<and>
     same_dimension (mf_GPUShape m) (rq_GPUShape rq) \<and>
     same_dimension (mf_ImageIdentity m) (rq_ImageIdentity rq) \<and>
     same_dimension (mf_CodeVersionIdentity m) (rq_CodeVersionIdentity rq) \<and>
     isSupportedFormatVersion (mf_FormatVersion m) (rq_SupportedFormatVersions rq) \<and>
     same_dimension (mf_OptimizerMode m) (rq_OptimizerMode rq) \<and>
     same_dimension (mf_ShardingMode m) (rq_ShardingMode rq) \<and>
     device_profile_ok m rq"

lemma mismatch_iff: "mismatch x y \<longleftrightarrow> \<not> same_dimension x y"
  by (auto simp: mismatch_def same_dimension_def)

lemma compatible_iff: "compatible rq m \<longleftrightarrow> compatible_spec rq m"
proof (cases "manifest_complete m")
  case False
  then obtain e where "ValidateComplete m = Some e"
    using ValidateComplete_None [of m] by (cases "ValidateComplete m") auto
  with False show ?thesis
    by (simp add: compatible_def compatible_spec_def CheckManifestCompatibility_def)
next
  case True
  then have "ValidateComplete m = None" by (simp add: ValidateComplete_None)
  with True show ?thesis
    unfolding compatible_def compatible_spec_def CheckManifestCompatibility_def mismatch_iff
      world_size_ok_def device_profile_ok_def
    by (simp add: eq_commute [of "[]"])
qed

text \<open>
  C22: \<open>CheckManifestCompatibility\<close> accepts a manifest exactly when it is complete, agrees with the
  request in every identity dimension (and none of them is blank), satisfies the world-size rule
  (equal, or a change both the request and the checkpoint allow) and carries the requested device
  profile when the request names one.
\<close>

theorem CheckManifestCompatibility_correct:
  "fst (CheckManifestCompatibility m rq) \<longleftrightarrow> compatible_spec rq m"
  using compatible_iff by (simp add: compatible_def)

section \<open>A store used by the witnesses\<close>

definition ex_artifact :: Artifact where
  "ex_artifact = \<lparr> art_Name = ''m'', art_RelativePath = ''m.pt'', art_ObjectURI = ''s3://b/m.pt'',
     art_SizeBytes = 10, art_DigestAlgorithm = ''sha256'', art_DigestValue = ''ab'' \<rparr>"

definition ex_manifest :: "string \<Rightarrow> string \<Rightarrow> CheckpointManifest" where
  "ex_manifest uri ts = \<lparr> mf_CheckpointID = ''ck'', mf_ClusterIdentity = ''c'', mf_RTJIdentity = ''ns/j'',
     mf_RunAttempt = 1, mf_GlobalStep = 7, mf_WallClockTimestamp = ts, mf_ImageIdentity = ''i'',
     mf_CodeVersionIdentity = ''v'', mf_RuntimeMode = ''DDP'', mf_WorldSize = 4, mf_GPUShape = ''g'',
     mf_OptimizerMode = ''o'', mf_ShardingMode = ''s'', mf_FormatVersion = SupportedManifestFormatVersion,
     mf_ProducerVersion = ''1'', mf_CrossSizeRestoreSupported = None, mf_DeviceProfileFingerprint = '''',
     mf_StorageRootURI = ''s3://b'', mf_ManifestURI = uri, mf_Artifacts = [ex_artifact],
     mf_CompletionTimestamp = ts \<rparr>"

definition ex_request :: ResumeRequest where
  "ex_request = \<lparr> rq_StorageRootURI = ''s3://b/'', rq_ClusterIdentity = ''c'', rq_RTJIdentity = ''ns/j'',
     rq_RuntimeMode = ''DDP'', rq_WorldSize = 4, rq_GPUShape = ''g'', rq_ImageIdentity = ''i'',
     rq_CodeVersionIdentity = ''v'', rq_OptimizerMode = ''o'', rq_ShardingMode = ''s'',
     rq_SupportedFormatVersions = [SupportedManifestFormatVersion], rq_AllowWorldSizeChange = False,
     rq_CurrentDeviceProfileFingerprint = '''' \<rparr>"

definition ex_old :: CheckpointManifest where "ex_old = ex_manifest ''m1'' ''2024-05-01T10:00:00Z''"
definition ex_new :: CheckpointManifest where "ex_new = ex_manifest ''m2'' ''2024-05-01T10:30:00Z''"

definition ex_marker :: YieldMarker where
  "ex_marker = \<lparr> ym_CheckpointID = ''ck'', ym_ManifestURI = ''m2'', ym_RequestID = ''r1'',
     ym_CompletionTimestamp = ''2024-05-01T10:30:00Z'', ym_GlobalStep = 7 \<rparr>"

definition ex_store :: store_ops where
  "ex_store = \<lparr> ListObjects = (\<lambda>p. if p = ''s3://b/manifests/'' then Inr [''m1'', ''m2'', ''m3''] else Inr []),
     ReadObject = (\<lambda>u. if u = ''m3'' then Inl (NotFound ''gone'') else Inr u),
     StatObject = (\<lambda>u. None),
     unmarshal_manifest = (\<lambda>raw. if raw = ''m1'' then Inr ex_old else Inr ex_new),
     unmarshal_marker = (\<lambda>raw. Inr ex_marker) \<rparr>"

lemma ex_select: "SelectLatestCompatible [ex_old, ex_new] ex_request = Some ex_new"
  by code_simp

lemma ex_resume:
  "\<exists>ref. SelectResumeCheckpoint ex_store ex_request = Inr (Some ref) \<and> cr_ManifestURI ref = ''m2''"
proof -
  have "case SelectResumeCheckpoint ex_store ex_request of
      Inr (Some ref) \<Rightarrow> cr_ManifestURI ref = ''m2'' | _ \<Rightarrow> False"
    by code_simp
  then show ?thesis by (auto split: sum.splits option.splits)
qed

lemma ex_pause: "\<exists>obs. ObservePause ex_store ''s3://b'' 2 ''r1'' 0 = Inr (Some obs)"
proof -
  have "case ObservePause ex_store ''s3://b'' 2 ''r1'' 0 of Inr (Some obs) \<Rightarrow> True | _ \<Rightarrow> False"
    by code_simp
  then show ?thesis by (auto split: sum.splits option.splits)
qed

lemma ex_list: "ListObjects ex_store (ManifestPrefixURI (rq_StorageRootURI ex_request)) = Inr [''m1'', ''m2'', ''m3'']"
  by code_simp

section \<open>Selection\<close>

interpretation manifest_order: weak_order manifest_before
proof unfold_locales
  fix x y z
  show "\<not> manifest_before x x"
    by (simp add: manifest_before_def split: option.split)
  show "manifest_before x y \<Longrightarrow> manifest_before y z \<Longrightarrow> manifest_before x z"
    unfolding manifest_before_def
    by (cases "CompletionTime x"; cases "CompletionTime y"; cases "CompletionTime z")
       (auto split: if_splits)
  show "\<not> manifest_before x y \<Longrightarrow> \<not> manifest_before y z \<Longrightarrow> \<not> manifest_before x z"
    unfolding manifest_before_def
    by (cases "CompletionTime x"; cases "CompletionTime y"; cases "CompletionTime z")
       (auto simp: not_less split: if_splits)
qed

lemma SelectLatestCompatible_eq:
  "SelectLatestCompatible cs rq = find (compatible rq) (sort_stable manifest_before cs)"
  by (simp add: SelectLatestCompatible_def)

lemma SelectLatestCompatible_SomeD:
  assumes "SelectLatestCompatible cs rq = Some m"
  shows "m \<in> set cs \<and> compatible_spec rq m"
  using find_SomeD [OF assms [unfolded SelectLatestCompatible_eq]] by (simp add: compatible_iff)

lemma SelectLatestCompatible_latest:
  assumes "SelectLatestCompatible cs rq = Some m" and "m' \<in> set cs" and "compatible_spec rq m'"
    and "CompletionTime m = Some t" and "CompletionTime m' = Some t'"
  shows "t' \<le> t"
proof -
  have "\<not> manifest_before m' m"
    using manifest_order.find_sort_min assms(1-3) unfolding SelectLatestCompatible_eq compatible_iff [symmetric]
    by blast
  with assms(4,5) show ?thesis by (auto simp: manifest_before_def split: if_splits)
qed

lemma SelectLatestCompatible_None_iff:
  "SelectLatestCompatible cs rq = None \<longleftrightarrow> (\<forall>m \<in> set cs. \<not> compatible_spec rq m)"
  by (simp add: SelectLatestCompatible_eq find_None_iff' compatible_iff)

text \<open>
  the selected manifest is one of the candidates, is compatible with the request, and no
  compatible candidate completed later.
\<close>

lemma SelectLatestCompatible_correct:
  assumes "SelectLatestCompatible cs rq = Some m"
  shows "m \<in> set cs \<and> compatible_spec rq m \<and>
         (\<exists>t. CompletionTime m = Some t \<and>
           list_all (\<lambda>m'. compatible_spec rq m' \<longrightarrow> the (CompletionTime m') \<le> t) cs)"
proof -
  have m: "m \<in> set cs" "compatible_spec rq m" using SelectLatestCompatible_SomeD [OF assms] by auto
  then obtain t where t: "CompletionTime m = Some t"
    using complete_CompletionTime by (auto simp: compatible_spec_def)
  have "the (CompletionTime m') \<le> t" if "m' \<in> set cs" "compatible_spec rq m'" for m'
  proof -
    from that(2) obtain t' where "CompletionTime m' = Some t'"
      using complete_CompletionTime by (auto simp: compatible_spec_def)
    with SelectLatestCompatible_latest [OF assms that t] show ?thesis by simp
  qed
  with m t show ?thesis by (auto simp: list_all_iff)
qed

text \<open>
  selection finds nothing exactly when no candidate is compatible.
\<close>

lemma SelectLatestCompatible_complete:
  "SelectLatestCompatible cs rq = None \<longleftrightarrow> list_all (\<lambda>m. \<not> compatible_spec rq m) cs"
  by (simp add: SelectLatestCompatible_None_iff list_all_iff)

section \<open>The catalog\<close>

definition artifacts_present :: "store_ops \<Rightarrow> CheckpointManifest \<Rightarrow> bool" where
  "artifacts_present S m \<longleftrightarrow> list_all (\<lambda>a. StatObject S (art_ObjectURI a) = None) (mf_Artifacts m)"

lemma stat_all_None: "stat_all S as = None \<longleftrightarrow> list_all (\<lambda>a. StatObject S (art_ObjectURI a) = None) as"
  by (induction as) (auto split: option.splits)

lemma validateManifestArtifacts_None:
  "validateManifestArtifacts S m = None \<longleftrightarrow> manifest_complete m \<and> artifacts_present S m"
  by (auto simp: validateManifestArtifacts_def stat_all_None artifacts_present_def
      ValidateComplete_None [symmetric] split: option.splits)

text \<open>A candidate: a stored manifest that decodes, is complete, and whose artifacts all exist.\<close>

lemma tryLoadCandidate_iff:
  "tryLoadCandidate S uri = Some m \<longleftrightarrow>
     readManifest S uri = Inr m \<and> manifest_complete m \<and> artifacts_present S m"
  by (auto simp: tryLoadCandidate_def validateManifestArtifacts_None ValidateComplete_None
      split: sum.splits if_splits)

lemma set_candidates:
  "m \<in> set (List.map_filter (tryLoadCandidate S) uris) \<longleftrightarrow>
     (\<exists>uri \<in> set uris. tryLoadCandidate S uri = Some m)"
  by (induction uris) (auto simp: List.map_filter_simps split: option.splits)

lemma CheckpointReference_of_Some:
  "CompletionTime m = Some t \<Longrightarrow> \<exists>ref. CheckpointReference_of m reason = Some ref \<and>
     cr_ID ref = mf_CheckpointID m \<and> cr_ManifestURI ref = mf_ManifestURI m \<and>
     cr_CompletionTime ref = Some t \<and> cr_WorldSize ref = mf_WorldSize m"
  by (simp add: CheckpointReference_of_def)

lemma CheckpointReference_of_fields:
  "CheckpointReference_of m reason = Some ref \<Longrightarrow>
     cr_ID ref = mf_CheckpointID m \<and> cr_ManifestURI ref = mf_ManifestURI m \<and>
     cr_CompletionTime ref = CompletionTime m \<and> cr_WorldSize ref = mf_WorldSize m"
  by (auto simp: CheckpointReference_of_def split: option.splits)

lemma SelectResumeCheckpoint_SomeD:
  assumes "SelectResumeCheckpoint S rq = Inr (Some ref)"
  shows "\<exists>uris uri m. ListObjects S (ManifestPrefixURI (rq_StorageRootURI rq)) = Inr uris \<and> uri \<in> set uris
     \<and> readManifest S uri = Inr m \<and> artifacts_present S m \<and> compatible_spec rq m
     \<and> SelectLatestCompatible (List.map_filter (tryLoadCandidate S) uris) rq = Some m
     \<and> CheckpointReference_of m resume_select_reason = Some ref"
proof -
  obtain uris m where u: "ListObjects S (ManifestPrefixURI (rq_StorageRootURI rq)) = Inr uris"
    and sel: "SelectLatestCompatible (List.map_filter (tryLoadCandidate S) uris) rq = Some m"
    and ref: "CheckpointReference_of m resume_select_reason = Some ref"
    using assms by (auto simp: SelectResumeCheckpoint_def split: sum.splits option.splits)
  from SelectLatestCompatible_SomeD [OF sel] obtain uri
    where "uri \<in> set uris" "tryLoadCandidate S uri = Some m" "compatible_spec rq m"
    unfolding set_candidates by blast
  with u sel ref show ?thesis by (auto simp: tryLoadCandidate_iff)
qed

text \<open>
  C4: what \<open>SelectResumeCheckpoint\<close> returns is a reference to a stored manifest under the request's
  manifest prefix that is complete, compatible with the request and has all its artifacts in the
  store; every other such manifest completed no later.
\<close>

theorem SelectResumeCheckpoint_sound:
  assumes "SelectResumeCheckpoint S rq = Inr (Some ref)"
  shows "\<exists>uris uri m. ListObjects S (ManifestPrefixURI (rq_StorageRootURI rq)) = Inr uris \<and>
     uri \<in> set uris \<and> readManifest S uri = Inr m \<and> compatible_spec rq m \<and> artifacts_present S m \<and>
     cr_ManifestURI ref = mf_ManifestURI m \<and> cr_WorldSize ref = mf_WorldSize m \<and>
     (\<forall>uri' m' t'. uri' \<in> set uris \<longrightarrow> readManifest S uri' = Inr m' \<longrightarrow> compatible_spec rq m' \<longrightarrow>
        artifacts_present S m' \<longrightarrow> CompletionTime m' = Some t' \<longrightarrow>
        (\<exists>t. cr_CompletionTime ref = Some t \<and> t' \<le> t))"
proof -
  let ?load = "tryLoadCandidate S"
  obtain uris uri m where u: "ListObjects S (ManifestPrefixURI (rq_StorageRootURI rq)) = Inr uris"
    and m: "uri \<in> set uris" "readManifest S uri = Inr m" "compatible_spec rq m" "artifacts_present S m"
    and sel: "SelectLatestCompatible (List.map_filter ?load uris) rq = Some m"
    and ref: "CheckpointReference_of m resume_select_reason = Some ref"
    using SelectResumeCheckpoint_SomeD [OF assms] by blast
  obtain t where t: "CompletionTime m = Some t"
    using m(3) complete_CompletionTime by (auto simp: compatible_spec_def)
  have latest: "t' \<le> t"
    if "uri' \<in> set uris" "readManifest S uri' = Inr m'" "compatible_spec rq m'"
      "artifacts_present S m'" "CompletionTime m' = Some t'" for uri' m' t'
  proof -
    have "m' \<in> set (List.map_filter ?load uris)"
      unfolding set_candidates using that by (auto simp: tryLoadCandidate_iff compatible_spec_def)
    then show ?thesis using SelectLatestCompatible_latest [OF sel _ that(3) t that(5)] by blast
  qed
  from CheckpointReference_of_fields [OF ref] t
  have "cr_ManifestURI ref = mf_ManifestURI m" "cr_WorldSize ref = mf_WorldSize m"
    "cr_CompletionTime ref = Some t" by auto
  with u m latest show ?thesis by blast
qed

theorem SelectResumeCheckpoint_sound_witness:
  "\<exists>ref m. SelectResumeCheckpoint ex_store ex_request = Inr (Some ref) \<and> compatible_spec ex_request m
     \<and> artifacts_present ex_store m \<and> cr_ManifestURI ref = mf_ManifestURI m"
proof -
  obtain ref where "SelectResumeCheckpoint ex_store ex_request = Inr (Some ref)" using ex_resume by blast
  with SelectResumeCheckpoint_sound [OF this] show ?thesis by blast
qed

text \<open>
  \<open>SelectResumeCheckpoint\<close> fails only when the listing fails; when the listing succeeds and some
  listed manifest is complete, present and compatible, it finds one.
\<close>

theorem SelectResumeCheckpoint_total:
  assumes "ListObjects S (ManifestPrefixURI (rq_StorageRootURI rq)) = Inr uris"
  shows "\<exists>r. SelectResumeCheckpoint S rq = Inr r \<and>
     (r = None \<longleftrightarrow> list_all (\<lambda>uri. \<not> (\<exists>m. readManifest S uri = Inr m \<and> compatible_spec rq m \<and>
        artifacts_present S m)) uris)"
proof (cases "SelectLatestCompatible (List.map_filter (tryLoadCandidate S) uris) rq")
  case None
  then have "\<forall>m. (\<exists>uri \<in> set uris. tryLoadCandidate S uri = Some m) \<longrightarrow> \<not> compatible_spec rq m"
    unfolding SelectLatestCompatible_None_iff by (simp add: set_candidates)
  with None assms show ?thesis
    by (auto simp: SelectResumeCheckpoint_def list_all_iff tryLoadCandidate_iff compatible_spec_def)
next
  case (Some m)
  from SelectLatestCompatible_SomeD [OF this] obtain uri
    where m: "uri \<in> set uris" "tryLoadCandidate S uri = Some m" "compatible_spec rq m"
    unfolding set_candidates by blast
  then obtain t where "CompletionTime m = Some t"
    using complete_CompletionTime by (auto simp: compatible_spec_def)
  then obtain ref where "CheckpointReference_of m resume_select_reason = Some ref"
    using CheckpointReference_of_Some by blast
  with assms Some m show ?thesis
    by (auto simp: SelectResumeCheckpoint_def list_all_iff tryLoadCandidate_iff)
qed

lemma ObservePause_SomeD:
  assumes "ObservePause S root attempt rid at = Inr (Some obs)"
  shows "\<exists>mk m. readYieldMarker S (YieldMarkerURI root attempt) = Inr mk \<and>
     ym_RequestID mk = rid \<and> readManifest S (ym_ManifestURI mk) = Inr m \<and>
     manifest_complete m \<and> artifacts_present S m \<and> CompletionTime m = Some (pob_CompletedAt obs) \<and>
     at < pob_CompletedAt obs \<and> cr_ManifestURI (pob_Checkpoint obs) = mf_ManifestURI m \<and>
     pob_RequestID obs = rid"
  using assms
  by (auto simp: ObservePause_def Let_def validateManifestArtifacts_None
      dest!: CheckpointReference_of_fields split: sum.splits if_splits option.splits)

text \<open>
  C23: an accepted pause observation comes from a yield marker written for this very request, and
  names a complete manifest, all of whose artifacts exist, that completed after the request.
\<close>

theorem ObservePause_sound:
  assumes "ObservePause S root attempt rid at = Inr (Some obs)"
  shows "\<exists>mk m. readYieldMarker S (YieldMarkerURI root attempt) = Inr mk \<and>
     ym_RequestID mk = rid \<and> readManifest S (ym_ManifestURI mk) = Inr m \<and>
     manifest_complete m \<and> artifacts_present S m \<and> CompletionTime m = Some (pob_CompletedAt obs) \<and>
     at < pob_CompletedAt obs \<and> cr_ManifestURI (pob_Checkpoint obs) = mf_ManifestURI m \<and>
     pob_RequestID obs = rid"
  using ObservePause_SomeD [OF assms] .

theorem ObservePause_sound_witness:
  "\<exists>obs m. ObservePause ex_store ''s3://b'' 2 ''r1'' 0 = Inr (Some obs) \<and> manifest_complete m
     \<and> CompletionTime m = Some (pob_CompletedAt obs) \<and> 0 < pob_CompletedAt obs"
proof -
  obtain obs where o: "ObservePause ex_store ''s3://b'' 2 ''r1'' 0 = Inr (Some obs)" using ex_pause by blast
  from ObservePause_sound [OF o] o show ?thesis by blast
qed

text \<open>
  the markers of two run attempts never share an object, so a marker left by an earlier attempt is
  never read for a later one.
\<close>

lemma YieldMarkerURI_inj:
  "YieldMarkerURI root a = YieldMarkerURI root b \<longleftrightarrow> a = b"
  by (auto simp: YieldMarkerURI_def dest: itoa_inj)

definition stored_time :: "store_ops \<Rightarrow> string \<Rightarrow> gotime option" where
  "stored_time S uri = (case readManifest S uri of Inl _ \<Rightarrow> None | Inr m \<Rightarrow> CompletionTime m)"

fun later :: "gotime option \<Rightarrow> gotime option \<Rightarrow> gotime option" where
  "later None l = l"
| "later (Some t) None = Some t"
| "later (Some t) (Some u) = Some (max t u)"

lemma info_step_time:
  "map_option ci_CompletionTimestamp (info_step S uri latest) =
     later (stored_time S uri) (map_option ci_CompletionTimestamp latest)"
  by (auto simp: info_step_def stored_time_def split: sum.splits option.splits)

lemma fold_info_time:
  "map_option ci_CompletionTimestamp (fold (info_step S) uris latest) =
     fold (\<lambda>uri. later (stored_time S uri)) uris (map_option ci_CompletionTimestamp latest)"
  by (induction uris arbitrary: latest) (simp_all add: info_step_time)

lemma fold_later_Some:
  "fold (\<lambda>x. later (f x)) xs (Some u) = Some (Max (insert u (set (List.map_filter f xs))))"
proof (induction xs arbitrary: u)
  case (Cons x xs)
  show ?case
  proof (cases "f x")
    case (Some t)
    then have "fold (\<lambda>x. later (f x)) (x # xs) (Some u) = Some (Max (insert (max t u) (set (List.map_filter f xs))))"
      by (simp add: Cons)
    also have "Max (insert (max t u) (set (List.map_filter f xs)))
             = Max (insert u (insert t (set (List.map_filter f xs))))"
      by (cases "set (List.map_filter f xs) = {}") (simp_all add: max.commute max.left_commute)
    finally show ?thesis using Some by (simp add: List.map_filter_simps)
  qed (simp add: Cons List.map_filter_simps)
qed (simp add: List.map_filter_simps)

lemma fold_later_None:
  "fold (\<lambda>x. later (f x)) xs None =
     (let ts = List.map_filter f xs in if ts = [] then None else Some (Max (set ts)))"
proof (induction xs)
  case (Cons x xs)
  then show ?case
    by (cases "f x") (simp_all add: fold_later_Some List.map_filter_simps)
qed (simp add: List.map_filter_simps)

text \<open>
  \<open>LatestCheckpointInfo\<close> reports the greatest completion time among the listed manifests that
  decode and carry a valid one, and nothing when there is none.
\<close>

lemma LatestCheckpointInfo_latest:
  assumes "ListObjects S (ManifestPrefixURI root) = Inr uris"
  shows "\<exists>r. LatestCheckpointInfo S root = Inr r \<and>
     map_option ci_CompletionTimestamp r =
       (let ts = List.map_filter (stored_time S) uris
        in if ts = [] then None else Some (Max (set ts)))"
  using assms fold_info_time [of S uris None] fold_later_None [of "stored_time S" uris]
  by (cases "uris = []") (simp_all add: LatestCheckpointInfo_def List.map_filter_simps)

end
