(* ===== verification/Names.thy ===== *)
theory Names
  imports RTJ_Prelude
begin

unbundle bit_operations_syntax

text \<open>
  Names of the child objects of a run attempt (\<open>internal/jobset/names.go\<close>).  The names are ASCII
  (a Kubernetes object name is), so a rune is a byte and \<open>strings.ToLower\<close> maps \<open>A\<close>-\<open>Z\<close> only.  The
  hash is computed in \<open>uint64\<close>, a \<open>64 word\<close>.
\<close>

definition fnv32a :: "string \<Rightarrow> 64 word" where
  "fnv32a value = fold (\<lambda>c hash. (hash XOR word_of_nat (of_char c)) * 16777619) value 2166136261"

text \<open>\<open>strconv.FormatUint(n, 36)\<close>\<close>

definition digit36 :: "nat \<Rightarrow> char" where
  "digit36 d = (if d < 10 then char_of (48 + d) else char_of (87 + d))"

fun format36 :: "nat \<Rightarrow> string" where
  "format36 n = (if n < 36 then [digit36 n] else format36 (n div 36) @ [digit36 (n mod 36)])"

declare format36.simps [simp del]

definition normalize_name :: "string \<Rightarrow> string" where
  "normalize_name value =
     map (\<lambda>c. if c = CHR ''.'' then CHR ''-'' else c)
       (map (\<lambda>c. if c = CHR ''_'' then CHR ''-'' else c) (map to_lower value))"

definition dnsLabel :: "string \<Rightarrow> string" where
  "dnsLabel value =
     (let clean = normalize_name value in
      if length clean \<le> 63 then Trim1 clean (CHR ''-'')
      else let suffix = format36 (unat (fnv32a clean));
               maxPrefix = (if 63 - int (length suffix) - 1 < 1 then 1 else 63 - int (length suffix) - 1)
           in Trim1 (take (nat maxPrefix) clean) (CHR ''-'') @ ''-'' @ suffix)"

definition ChildJobSetName :: "string \<Rightarrow> int \<Rightarrow> string" where
  "ChildJobSetName rtjName runAttempt = dnsLabel (rtjName @ ''-run-'' @ itoa runAttempt)"

definition ControlConfigMapName :: "string \<Rightarrow> int \<Rightarrow> string" where
  "ControlConfigMapName rtjName runAttempt = dnsLabel (rtjName @ ''-run-'' @ itoa runAttempt @ ''-control'')"

section \<open>Length\<close>

lemma format36_length: "n < 36 ^ Suc k \<Longrightarrow> length (format36 n) \<le> Suc k"
proof (induction k arbitrary: n)
  case 0
  then show ?case by (simp add: format36.simps [of n])
next
  case (Suc k)
  show ?case
  proof (cases "n < 36")
    case False
    have "n div 36 < 36 ^ Suc k" using Suc.prems by (simp add: div_less_iff_less_mult)
    with Suc.IH False show ?thesis by (simp add: format36.simps [of n])
  qed (simp add: format36.simps [of n])
qed

lemma suffix_length: "length (format36 (unat (w :: 64 word))) \<le> 13"
proof -
  have "unat w < 2 ^ 64" using unsigned_less [of w] by simp
  also have "(2 :: nat) ^ 64 < 36 ^ Suc 12" by simp
  finally have "unat w < 36 ^ Suc 12" .
  from format36_length [OF this] show ?thesis by simp
qed

lemma length_normalize [simp]: "length (normalize_name s) = length s"
  by (simp add: normalize_name_def)

section \<open>Names of a valid job\<close>

text \<open>A lower-case DNS label without leading or trailing hyphen, as the API server requires of an
  object name (periods, which it also allows, are replaced by hyphens).\<close>

definition label_char :: "char \<Rightarrow> bool" where
  "label_char c \<longleftrightarrow> (let n = of_char c :: nat in 48 \<le> n \<and> n \<le> 57 \<or> 97 \<le> n \<and> n \<le> 122 \<or> n = 45)"

definition dns_name :: "string \<Rightarrow> bool" where
  "dns_name s \<longleftrightarrow> s \<noteq> [] \<and> list_all label_char s \<and> hd s \<noteq> CHR ''-''"

lemma label_char_fixed:
  assumes "label_char c"
  shows "to_lower c = c" "c \<noteq> CHR ''_''" "c \<noteq> CHR ''.''"
  using assms by (auto simp: label_char_def to_lower_def Let_def)

lemma normalize_label: "list_all label_char s \<Longrightarrow> normalize_name s = s"
  by (induction s) (simp_all add: normalize_name_def label_char_fixed)

lemma digit_label: "is_digit c \<Longrightarrow> label_char c"
  by (auto simp: is_digit_def label_char_def Let_def)

lemma itoa_label: "list_all label_char (itoa i)"
  using utoa_digits digit_label
  by (auto simp: itoa_def list_all_iff label_char_def [of "CHR ''-''"])

lemma Trim1_id: "s \<noteq> [] \<Longrightarrow> hd s \<noteq> c \<Longrightarrow> last s \<noteq> c \<Longrightarrow> Trim1 s c = s"
  unfolding Trim1_def by (cases s) (auto simp: TrimRight1_id)

lemma itoa_last: "last (itoa i) \<noteq> CHR ''-''"
proof -
  have "is_digit (last (utoa n))" for n using utoa_digits [OF last_in_set [OF utoa_not_Nil]] .
  then have "last (utoa n) \<noteq> CHR ''-''" for n by (metis dash_not_digit)
  then show ?thesis by (simp add: itoa_def)
qed

lemma label_literals: "list_all label_char ''-run-''" "list_all label_char ''-control''"
  by (simp_all add: label_char_def)

lemma ChildJobSetName_eq:
  assumes "dns_name a" and "length a + 5 + length (itoa i) \<le> 63"
  shows "ChildJobSetName a i = a @ ''-run-'' @ itoa i"
proof -
  have "list_all label_char (a @ ''-run-'' @ itoa i)"
    using assms label_literals itoa_label by (simp add: dns_name_def)
  note * = normalize_label [OF this]
  show ?thesis
    unfolding ChildJobSetName_def dnsLabel_def *
    using assms itoa_last [of i] by (simp add: Trim1_id dns_name_def)
qed

lemma ControlConfigMapName_eq:
  assumes "dns_name a" and "length a + 13 + length (itoa i) \<le> 63"
  shows "ControlConfigMapName a i = a @ ''-run-'' @ itoa i @ ''-control''"
proof -
  have "list_all label_char (a @ ''-run-'' @ itoa i @ ''-control'')"
    using assms label_literals itoa_label by (simp add: dns_name_def)
  note * = normalize_label [OF this]
  show ?thesis
    unfolding ControlConfigMapName_def dnsLabel_def *
    using assms by (simp add: Trim1_id dns_name_def)
qed

lemma takeWhile_dash: "CHR ''-'' \<notin> set es \<Longrightarrow> takeWhile (\<lambda>c. c \<noteq> CHR ''-'') (rev (ys @ CHR ''-'' # es)) = rev es"
  by (subst rev_append) (auto simp: takeWhile_tail takeWhile_append2)

lemma append_dash_inj:
  assumes "xs @ CHR ''-'' # ds = ys @ CHR ''-'' # es"
    and "CHR ''-'' \<notin> set ds" and "CHR ''-'' \<notin> set es"
  shows "xs = ys \<and> ds = es"
proof -
  have "rev ds = rev es"
    using takeWhile_dash [OF assms(2), of xs] takeWhile_dash [OF assms(3), of ys] assms(1) by simp
  with assms(1) show ?thesis by simp
qed

lemma itoa_no_dash: "0 \<le> i \<Longrightarrow> CHR ''-'' \<notin> set (itoa i)"
  using utoa_digits [of "CHR ''-''" "nat i"] dash_not_digit by (auto simp: itoa_def)

lemma run_suffix_inj:
  assumes "a @ ''-run-'' @ itoa i = b @ ''-run-'' @ itoa j" and "0 \<le> i" and "0 \<le> j"
  shows "a = b \<and> i = j"
proof -
  have "(a @ ''-run'') @ CHR ''-'' # itoa i = (b @ ''-run'') @ CHR ''-'' # itoa j"
    using assms(1) by simp
  from append_dash_inj [OF this itoa_no_dash [OF assms(2)] itoa_no_dash [OF assms(3)]]
  show ?thesis by (auto dest: itoa_inj)
qed

text \<open>
  \<open>dnsLabel\<close> always fits the 63 characters of a DNS label: a longer value is cut to a prefix plus
  a base-36 hash, and the 64-bit hash never takes more than 13 digits.
\<close>
theorem dnsLabel_fits: "length (dnsLabel value) \<le> 63"
proof -
  let ?s = "format36 (unat (fnv32a (normalize_name value)))"
  let ?c = "take (62 - length ?s) (normalize_name value)"
  have s: "length ?s \<le> 13" by (rule suffix_length)
  have "length (Trim1 ?c (CHR ''-'')) \<le> 62 - length ?s"
    using length_Trim1 [of ?c "CHR ''-''"] by simp
  moreover have "nat (63 - int (length ?s) - 1) = 62 - length ?s" using s by simp
  ultimately show ?thesis
    using s length_Trim1 [of "normalize_name value" "CHR ''-''"] by (simp add: dnsLabel_def Let_def) linarith
qed

text \<open>
  Two run attempts of two jobs with valid names share a child JobSet name only if they are the same
  attempt of the same job, and the same holds of the control ConfigMap names (names short enough not to be
  hashed).
\<close>
lemma child_names_distinct:
  assumes "dns_name a" and "dns_name b" and "0 \<le> i" and "0 \<le> j"
    and "length a + 13 + length (itoa i) \<le> 63" and "length b + 13 + length (itoa j) \<le> 63"
  shows "(ChildJobSetName a i = ChildJobSetName b j \<longleftrightarrow> a = b \<and> i = j)
       \<and> (ControlConfigMapName a i = ControlConfigMapName b j \<longleftrightarrow> a = b \<and> i = j)"
proof -
  have "ControlConfigMapName x k = (x @ ''-run-'' @ itoa k) @ ''-control''"
    if "dns_name x" "length x + 13 + length (itoa k) \<le> 63" for x k
    using ControlConfigMapName_eq [OF that] by simp
  then show ?thesis using assms run_suffix_inj [OF _ assms(3,4), of a b]
    by (simp only: ChildJobSetName_eq append_same_eq) auto
qed

end
