(* ===== verification/Provisioning.thy ===== *)
theory Provisioning
  imports Kueue_Types
begin

text \<open>
  The observation layer of \<open>internal/provisioning\<close>: a launch-readiness view computed from a
  workload (\<open>view.go\<close>), the classification of the provisioning check (\<open>requests.go\<close>), the state
  of the topology assignment (\<open>topology.go\<close>) and the merging of the pod-set updates that the
  admission checks suggest (\<open>podsetupdates.go\<close>).
\<close>

section \<open>Provisioning requests (\<open>requests.go\<close>)\<close>

datatype ProvisioningClassification =
  ProvisioningUnset | ProvisioningNotConfigured | ProvisioningPending | ProvisioningProvisioned
| ProvisioningFailed | ProvisioningRetry

record ProvisioningRequestRef =
  pref_Name :: string
  pref_Namespace :: string

text \<open>The set of provisioning check names is a Go map to \<open>bool\<close>, here the list of the names mapped
  to \<open>true\<close>.\<close>

definition classifyCheckState :: "CheckState \<Rightarrow> ProvisioningClassification" where
  "classifyCheckState s =
     (case s of
        CheckStateReady \<Rightarrow> ProvisioningProvisioned
      | CheckStatePending \<Rightarrow> ProvisioningPending
      | CheckStateRetry \<Rightarrow> ProvisioningRetry
      | CheckStateRejected \<Rightarrow> ProvisioningFailed
      | CheckStateOther _ \<Rightarrow> ProvisioningPending)"

definition ClassifyProvisioningFromChecks ::
  "WorkloadCheck list \<Rightarrow> string list \<Rightarrow> ProvisioningClassification" where
  "ClassifyProvisioningFromChecks checks names =
     (if names = [] then ProvisioningNotConfigured
      else case find (\<lambda>ac. acs_Name ac \<in> set names) checks of
        Some ac \<Rightarrow> classifyCheckState (acs_State ac)
      | None \<Rightarrow> ProvisioningNotConfigured)"

definition FindProvisioningCheckName :: "WorkloadCheck list \<Rightarrow> string list \<Rightarrow> string" where
  "FindProvisioningCheckName checks names =
     (case find (\<lambda>ac. acs_Name ac \<in> set names) checks of
        Some ac \<Rightarrow> acs_Name ac | None \<Rightarrow> '''')"

definition ResolveProvisioningRequestRef ::
  "string \<Rightarrow> string \<Rightarrow> string \<Rightarrow> int \<Rightarrow> ProvisioningRequestRef option" where
  "ResolveProvisioningRequestRef workloadName workloadNamespace checkName attempt =
     (if workloadName = '''' \<or> checkName = '''' then None
      else let a = (if attempt < 1 then 1 else attempt)
           in Some \<lparr> pref_Name = workloadName @ ''-'' @ checkName @ ''-'' @ itoa a,
                     pref_Namespace = workloadNamespace \<rparr>)"

section \<open>Topology state (\<open>topology.go\<close>)\<close>

datatype DelayedTopologyState =
  DelayedTopologyUnset | DelayedTopologyNone | DelayedTopologyPending | DelayedTopologyReady

record PodSetTopologyState =
  pts_Name :: string
  pts_HasTopologyAssignment :: bool
  pts_DelayedTopologyState :: DelayedTopologyState

record TopologyView =
  tv_Configured :: bool
  tv_Assigned :: bool
  tv_DelayedTopologyState :: DelayedTopologyState
  tv_SecondPassPending :: bool
  tv_PodSetStates :: "PodSetTopologyState list"

definition delayed_state :: "PodSetAssignment \<Rightarrow> DelayedTopologyState" where
  "delayed_state psa =
     (case psa_DelayedTopologyRequest psa of
        None \<Rightarrow> DelayedTopologyNone
      | Some DelayedTopologyRequestStatePending \<Rightarrow> DelayedTopologyPending
      | Some DelayedTopologyRequestStateReady \<Rightarrow> DelayedTopologyReady
      | Some (DelayedTopologyRequestStateOther _) \<Rightarrow> DelayedTopologyPending)"

definition ParseTopologyFromAssignments :: "PodSetAssignment list \<Rightarrow> bool \<Rightarrow> TopologyView" where
  "ParseTopologyFromAssignments assignments topologyConfigured =
     (if assignments = []
      then \<lparr> tv_Configured = topologyConfigured, tv_Assigned = False,
             tv_DelayedTopologyState = DelayedTopologyUnset,
             tv_SecondPassPending = topologyConfigured, tv_PodSetStates = [] \<rparr>
      else
        let anyAssigned = list_ex (\<lambda>psa. psa_TopologyAssignment psa \<noteq> None) assignments;
            anyDelayedPending = list_ex (\<lambda>psa. delayed_state psa = DelayedTopologyPending) assignments
        in \<lparr> tv_Configured = topologyConfigured, tv_Assigned = anyAssigned,
             tv_DelayedTopologyState =
               (if anyDelayedPending then DelayedTopologyPending
                else if anyAssigned then DelayedTopologyReady else DelayedTopologyNone),
             tv_SecondPassPending =
               (topologyConfigured \<and> \<not> anyAssigned \<or> topologyConfigured \<and> anyDelayedPending),
             tv_PodSetStates =
               map (\<lambda>psa. \<lparr> pts_Name = psa_Name psa,
                            pts_HasTopologyAssignment = (psa_TopologyAssignment psa \<noteq> None),
                            pts_DelayedTopologyState = delayed_state psa \<rparr>) assignments \<rparr>)"

definition IsTopologyReady :: "TopologyView \<Rightarrow> bool" where
  "IsTopologyReady view =
     (if \<not> tv_Configured view then True else tv_Assigned view \<and> \<not> tv_SecondPassPending view)"

section \<open>Pod-set updates (\<open>podsetupdates.go\<close>)\<close>

record PodSetUpdateEntry =
  pue_Name :: string
  pue_Labels :: strmap
  pue_Annotations :: strmap
  pue_NodeSelector :: strmap
  pue_Tolerations :: "Toleration list"

record PodSetUpdateSet =
  pus_AdmissionCheckName :: string
  pus_Updates :: "PodSetUpdateEntry list"

definition ParsePodSetUpdates :: "PodSetUpdate list \<Rightarrow> PodSetUpdateEntry list" where
  "ParsePodSetUpdates updates =
     map (\<lambda>u. \<lparr> pue_Name = psu_Name u, pue_Labels = psu_Labels u, pue_Annotations = psu_Annotations u,
                pue_NodeSelector = psu_NodeSelector u, pue_Tolerations = psu_Tolerations u \<rparr>) updates"

text \<open>\<open>mergeMapInto\<close>: the entries of the source override.\<close>

definition mergeMapInto :: "strmap \<Rightarrow> strmap \<Rightarrow> strmap" where
  [simp]: "mergeMapInto dst src = dst ++ src"

definition empty_entry :: "string \<Rightarrow> PodSetUpdateEntry" where
  "empty_entry n = \<lparr> pue_Name = n, pue_Labels = Map.empty, pue_Annotations = Map.empty,
                     pue_NodeSelector = Map.empty, pue_Tolerations = [] \<rparr>"

definition merge_entry ::
  "PodSetUpdateEntry \<Rightarrow> (string \<rightharpoonup> PodSetUpdateEntry) \<Rightarrow> (string \<rightharpoonup> PodSetUpdateEntry)" where
  "merge_entry entry merged =
     (let existing = (case merged (pue_Name entry) of
                        Some x \<Rightarrow> x | None \<Rightarrow> empty_entry (pue_Name entry))
      in merged(pue_Name entry \<mapsto>
           existing\<lparr> pue_Labels := mergeMapInto (pue_Labels existing) (pue_Labels entry),
                     pue_Annotations := mergeMapInto (pue_Annotations existing) (pue_Annotations entry),
                     pue_NodeSelector := mergeMapInto (pue_NodeSelector existing) (pue_NodeSelector entry),
                     pue_Tolerations := pue_Tolerations existing @ pue_Tolerations entry \<rparr>))"

definition MergePodSetUpdates :: "PodSetUpdateSet list \<Rightarrow> (string \<rightharpoonup> PodSetUpdateEntry)" where
  "MergePodSetUpdates sets = fold (\<lambda>set. fold merge_entry (pus_Updates set)) sets Map.empty"

definition HasPodSetUpdates :: "PodSetUpdateSet list \<Rightarrow> bool" where
  "HasPodSetUpdates sets \<longleftrightarrow> list_ex (\<lambda>set. pus_Updates set \<noteq> []) sets"

section \<open>The view (\<open>view.go\<close>)\<close>

datatype CheckStateClassification = CheckPending | CheckReady | CheckRetry | CheckRejected

record AdmissionCheckView =
  acv_Name :: string
  acv_State :: CheckStateClassification
  acv_Message :: string
  acv_PodSetUpdates :: "PodSetUpdateEntry list"
  acv_IsProvisioningCheck :: bool

record LaunchReadinessView =
  lv_QuotaReserved :: bool
  lv_AdmissionChecks :: "AdmissionCheckView list"
  lv_ProvisioningRequestPresent :: bool
  lv_Provisioning :: ProvisioningClassification
  lv_ProvisioningRequestRef :: "ProvisioningRequestRef option"
  lv_PodSetUpdates :: "PodSetUpdateSet list"
  lv_TopologyState :: TopologyView
  lv_AllChecksReady :: bool

record ViewOptions =
  vo_ProvisioningACNames :: "string list"
  vo_TopologyEnabled :: bool
  vo_WorkloadName :: string
  vo_WorkloadNamespace :: string

fun normalizeCheckState :: "CheckState \<Rightarrow> CheckStateClassification" where
  "normalizeCheckState CheckStateReady = CheckReady"
| "normalizeCheckState CheckStatePending = CheckPending"
| "normalizeCheckState CheckStateRetry = CheckRetry"
| "normalizeCheckState CheckStateRejected = CheckRejected"
| "normalizeCheckState (CheckStateOther _) = CheckPending"

definition parseAdmissionCheck :: "WorkloadCheck \<Rightarrow> string list \<Rightarrow> AdmissionCheckView" where
  "parseAdmissionCheck ac names =
     \<lparr> acv_Name = acs_Name ac, acv_State = normalizeCheckState (acs_State ac),
       acv_Message = acs_Message ac, acv_PodSetUpdates = ParsePodSetUpdates (acs_PodSetUpdates ac),
       acv_IsProvisioningCheck = (acs_Name ac \<in> set names) \<rparr>"

definition zero_TopologyView :: TopologyView where
  "zero_TopologyView =
     \<lparr> tv_Configured = False, tv_Assigned = False, tv_DelayedTopologyState = DelayedTopologyUnset,
       tv_SecondPassPending = False, tv_PodSetStates = [] \<rparr>"

text \<open>The loop over the admission checks: its accumulator is the view under construction, the flag
  \<open>allReady\<close> and the name of the first provisioning check.\<close>

definition view_step ::
  "string list \<Rightarrow> WorkloadCheck \<Rightarrow> LaunchReadinessView \<times> bool \<times> string
   \<Rightarrow> LaunchReadinessView \<times> bool \<times> string" where
  "view_step names ac acc =
     (case acc of (view, allReady, provName) \<Rightarrow>
        let acView = parseAdmissionCheck ac names;
            view1 = view\<lparr> lv_AdmissionChecks := lv_AdmissionChecks view @ [acView] \<rparr>;
            allReady1 = (if acv_State acView \<noteq> CheckReady then False else allReady);
            (view2, provName1) =
              (if acv_IsProvisioningCheck acView \<and> provName = ''''
               then (view1\<lparr> lv_ProvisioningRequestPresent := True \<rparr>, acv_Name acView)
               else (view1, provName));
            view3 =
              (if acv_PodSetUpdates acView \<noteq> []
               then view2\<lparr> lv_PodSetUpdates := lv_PodSetUpdates view2 @
                      [\<lparr> pus_AdmissionCheckName = acv_Name acView, pus_Updates = acv_PodSetUpdates acView \<rparr>] \<rparr>
               else view2)
        in (view3, allReady1, provName1))"

definition BuildView :: "Workload option \<Rightarrow> ViewOptions \<Rightarrow> LaunchReadinessView" where
  "BuildView workload opts =
     (case workload of
        None \<Rightarrow>
          \<lparr> lv_QuotaReserved = False, lv_AdmissionChecks = [], lv_ProvisioningRequestPresent = False,
            lv_Provisioning = ProvisioningNotConfigured, lv_ProvisioningRequestRef = None,
            lv_PodSetUpdates = [],
            lv_TopologyState = zero_TopologyView\<lparr> tv_Configured := vo_TopologyEnabled opts \<rparr>,
            lv_AllChecksReady = True \<rparr>
      | Some wl \<Rightarrow>
          (let view0 = \<lparr> lv_QuotaReserved = (wl_Admission wl \<noteq> None), lv_AdmissionChecks = [],
                         lv_ProvisioningRequestPresent = False, lv_Provisioning = ProvisioningUnset,
                         lv_ProvisioningRequestRef = None, lv_PodSetUpdates = [],
                         lv_TopologyState = zero_TopologyView, lv_AllChecksReady = False \<rparr>;
               (view1, allReady, provName) =
                 fold (view_step (vo_ProvisioningACNames opts)) (wl_AdmissionChecks wl) (view0, True, '''');
               view2 = view1\<lparr> lv_AllChecksReady := (if wl_AdmissionChecks wl = [] then True else allReady) \<rparr>;
               view3 =
                 (if lv_ProvisioningRequestPresent view2
                  then view2\<lparr> lv_Provisioning :=
                                ClassifyProvisioningFromChecks (wl_AdmissionChecks wl)
                                  (vo_ProvisioningACNames opts),
                              lv_ProvisioningRequestRef :=
                                ResolveProvisioningRequestRef (vo_WorkloadName opts)
                                  (vo_WorkloadNamespace opts) provName 1 \<rparr>
                  else view2\<lparr> lv_Provisioning := ProvisioningNotConfigured \<rparr>)
           in view3\<lparr> lv_TopologyState :=
                (case wl_Admission wl of
                   Some adm \<Rightarrow> ParseTopologyFromAssignments (adm_PodSetAssignments adm) (vo_TopologyEnabled opts)
                 | None \<Rightarrow> zero_TopologyView\<lparr> tv_Configured := vo_TopologyEnabled opts,
                                               tv_SecondPassPending := vo_TopologyEnabled opts \<rparr>) \<rparr>))"

definition IsLaunchReady :: "LaunchReadinessView \<Rightarrow> bool" where
  "IsLaunchReady v \<longleftrightarrow> lv_QuotaReserved v \<and> lv_AllChecksReady v \<and> IsTopologyReady (lv_TopologyState v)"

definition MergedPodSetUpdates :: "LaunchReadinessView \<Rightarrow> (string \<rightharpoonup> PodSetUpdateEntry)" where
  "MergedPodSetUpdates v = MergePodSetUpdates (lv_PodSetUpdates v)"

section \<open>The view in closed form\<close>

definition update_sets :: "string list \<Rightarrow> WorkloadCheck list \<Rightarrow> PodSetUpdateSet list" where
  "update_sets names checks =
     map (\<lambda>ac. \<lparr> pus_AdmissionCheckName = acs_Name ac, pus_Updates = ParsePodSetUpdates (acs_PodSetUpdates ac) \<rparr>)
       (filter (\<lambda>ac. ParsePodSetUpdates (acs_PodSetUpdates ac) \<noteq> []) checks)"

definition is_prov :: "string list \<Rightarrow> WorkloadCheck \<Rightarrow> bool" where
  "is_prov names ac \<longleftrightarrow> acs_Name ac \<in> set names"

lemma FindProvisioningCheckName_Cons:
  "FindProvisioningCheckName (ac # checks) names =
     (if is_prov names ac then acs_Name ac else FindProvisioningCheckName checks names)"
  by (simp add: FindProvisioningCheckName_def is_prov_def)

lemma fold_view_step:
  assumes "\<forall>ac \<in> set checks. acs_Name ac \<noteq> ''''"
  shows "fold (view_step names) checks (view, r, n) =
    (view\<lparr> lv_AdmissionChecks := lv_AdmissionChecks view @ map (\<lambda>ac. parseAdmissionCheck ac names) checks,
           lv_ProvisioningRequestPresent :=
             (lv_ProvisioningRequestPresent view \<or> (n = '''' \<and> list_ex (is_prov names) checks)),
           lv_PodSetUpdates := lv_PodSetUpdates view @ update_sets names checks \<rparr>,
     r \<and> list_all (\<lambda>ac. acs_State ac = CheckStateReady) checks,
     if n = '''' then FindProvisioningCheckName checks names else n)"
  using assms
proof (induction checks arbitrary: view r n)
  case Nil
  then show ?case by (simp add: update_sets_def FindProvisioningCheckName_def)
next
  case (Cons ac checks)
  have ready: "normalizeCheckState s = CheckReady \<longleftrightarrow> s = CheckStateReady" for s
    by (cases s) simp_all
  have ne: "acs_Name ac \<noteq> ''''" "\<forall>ac \<in> set checks. acs_Name ac \<noteq> ''''" using Cons.prems by auto
  show ?case
    using ne(1) by (simp add: view_step_def [of _ ac] Let_def split_beta Cons.IH [OF ne(2)] parseAdmissionCheck_def
        FindProvisioningCheckName_Cons is_prov_def [of names ac] update_sets_def [of names "ac # checks"] ready)
      (auto simp: update_sets_def)
qed

text \<open>Check names of a workload are never empty (they are names of API objects).\<close>

definition named_checks :: "Workload \<Rightarrow> bool" where
  "named_checks wl \<longleftrightarrow> list_all (\<lambda>ac. acs_Name ac \<noteq> '''') (wl_AdmissionChecks wl)"

lemma BuildView_fields:
  assumes "named_checks wl"
  shows "lv_QuotaReserved (BuildView (Some wl) opts) \<longleftrightarrow> wl_Admission wl \<noteq> None"
    and "lv_AllChecksReady (BuildView (Some wl) opts) \<longleftrightarrow>
           list_all (\<lambda>ac. acs_State ac = CheckStateReady) (wl_AdmissionChecks wl)"
    and "lv_ProvisioningRequestPresent (BuildView (Some wl) opts) \<longleftrightarrow>
           list_ex (is_prov (vo_ProvisioningACNames opts)) (wl_AdmissionChecks wl)"
    and "lv_PodSetUpdates (BuildView (Some wl) opts) =
           update_sets (vo_ProvisioningACNames opts) (wl_AdmissionChecks wl)"
    and "lv_AdmissionChecks (BuildView (Some wl) opts) =
           map (\<lambda>ac. parseAdmissionCheck ac (vo_ProvisioningACNames opts)) (wl_AdmissionChecks wl)"
    and "lv_Provisioning (BuildView (Some wl) opts) =
           (if list_ex (is_prov (vo_ProvisioningACNames opts)) (wl_AdmissionChecks wl)
            then ClassifyProvisioningFromChecks (wl_AdmissionChecks wl) (vo_ProvisioningACNames opts)
            else ProvisioningNotConfigured)"
    and "lv_ProvisioningRequestRef (BuildView (Some wl) opts) =
           (if list_ex (is_prov (vo_ProvisioningACNames opts)) (wl_AdmissionChecks wl)
            then ResolveProvisioningRequestRef (vo_WorkloadName opts) (vo_WorkloadNamespace opts)
                   (FindProvisioningCheckName (wl_AdmissionChecks wl) (vo_ProvisioningACNames opts)) 1
            else None)"
proof -
  have ne: "\<forall>ac \<in> set (wl_AdmissionChecks wl). acs_Name ac \<noteq> ''''"
    using assms by (simp add: named_checks_def list_all_iff)
  note d = BuildView_def option.case fold_view_step [OF ne] Let_def split_beta fst_conv snd_conv
  show "lv_QuotaReserved (BuildView (Some wl) opts) \<longleftrightarrow> wl_Admission wl \<noteq> None"
    and "lv_AllChecksReady (BuildView (Some wl) opts) \<longleftrightarrow>
           list_all (\<lambda>ac. acs_State ac = CheckStateReady) (wl_AdmissionChecks wl)"
    and "lv_ProvisioningRequestPresent (BuildView (Some wl) opts) \<longleftrightarrow>
           list_ex (is_prov (vo_ProvisioningACNames opts)) (wl_AdmissionChecks wl)"
    and "lv_PodSetUpdates (BuildView (Some wl) opts) =
           update_sets (vo_ProvisioningACNames opts) (wl_AdmissionChecks wl)"
    and "lv_AdmissionChecks (BuildView (Some wl) opts) =
           map (\<lambda>ac. parseAdmissionCheck ac (vo_ProvisioningACNames opts)) (wl_AdmissionChecks wl)"
    and "lv_Provisioning (BuildView (Some wl) opts) =
           (if list_ex (is_prov (vo_ProvisioningACNames opts)) (wl_AdmissionChecks wl)
            then ClassifyProvisioningFromChecks (wl_AdmissionChecks wl) (vo_ProvisioningACNames opts)
            else ProvisioningNotConfigured)"
    and "lv_ProvisioningRequestRef (BuildView (Some wl) opts) =
           (if list_ex (is_prov (vo_ProvisioningACNames opts)) (wl_AdmissionChecks wl)
            then ResolveProvisioningRequestRef (vo_WorkloadName opts) (vo_WorkloadNamespace opts)
                   (FindProvisioningCheckName (wl_AdmissionChecks wl) (vo_ProvisioningACNames opts)) 1
            else None)"
    by (simp_all add: d)
qed

lemma BuildView_TopologyState:
  "lv_TopologyState (BuildView (Some wl) opts) =
     (case wl_Admission wl of
        Some adm \<Rightarrow> ParseTopologyFromAssignments (adm_PodSetAssignments adm) (vo_TopologyEnabled opts)
      | None \<Rightarrow> zero_TopologyView\<lparr> tv_Configured := vo_TopologyEnabled opts,
                                    tv_SecondPassPending := vo_TopologyEnabled opts \<rparr>)"
  by (simp add: BuildView_def Let_def split_beta split: option.split)

lemma IsTopologyReady_parsed:
  "IsTopologyReady (ParseTopologyFromAssignments as c) \<longleftrightarrow>
     (c \<longrightarrow> (\<exists>psa \<in> set as. psa_TopologyAssignment psa \<noteq> None)
          \<and> (\<forall>psa \<in> set as. delayed_state psa \<noteq> DelayedTopologyPending))"
  by (auto simp: IsTopologyReady_def ParseTopologyFromAssignments_def Let_def list_ex_iff)

section \<open>Merged updates\<close>

definition extend_entry :: "PodSetUpdateEntry \<Rightarrow> PodSetUpdateEntry list \<Rightarrow> PodSetUpdateEntry" where
  "extend_entry x es =
     x\<lparr> pue_Labels := foldl (++) (pue_Labels x) (map pue_Labels es),
        pue_Annotations := foldl (++) (pue_Annotations x) (map pue_Annotations es),
        pue_NodeSelector := foldl (++) (pue_NodeSelector x) (map pue_NodeSelector es),
        pue_Tolerations := pue_Tolerations x @ concat (map pue_Tolerations es) \<rparr>"

definition updates_for :: "string \<Rightarrow> PodSetUpdateSet list \<Rightarrow> PodSetUpdateEntry list" where
  "updates_for n sets = filter (\<lambda>e. pue_Name e = n) (concat (map pus_Updates sets))"

lemma extend_entry_Cons:
  "extend_entry (x\<lparr> pue_Labels := pue_Labels x ++ pue_Labels e,
                    pue_Annotations := pue_Annotations x ++ pue_Annotations e,
                    pue_NodeSelector := pue_NodeSelector x ++ pue_NodeSelector e,
                    pue_Tolerations := pue_Tolerations x @ pue_Tolerations e \<rparr>) es
   = extend_entry x (e # es)"
  by (simp add: extend_entry_def)

lemma extend_entry_Nil [simp]: "extend_entry x [] = x"
  by (simp add: extend_entry_def)

lemma fold_merge_entry:
  "fold merge_entry es m n =
     (if filter (\<lambda>e. pue_Name e = n) es = [] then m n
      else Some (extend_entry (case m n of Some x \<Rightarrow> x | None \<Rightarrow> empty_entry n)
                   (filter (\<lambda>e. pue_Name e = n) es)))"
proof (induction es arbitrary: m)
  case (Cons e es)
  show ?case
    unfolding fold_Cons comp_apply Cons.IH
    by (simp add: merge_entry_def Let_def extend_entry_Cons split: option.split)
       (simp add: extend_entry_def)
qed simp

lemma fold_sets:
  "fold (\<lambda>set. fold merge_entry (pus_Updates set)) sets m = fold merge_entry (concat (map pus_Updates sets)) m"
  by (induction sets arbitrary: m) simp_all

lemma foldl_map_add_apply:
  "foldl (++) m ms k = (case find (\<lambda>f. f k \<noteq> None) (rev ms) of Some f \<Rightarrow> f k | None \<Rightarrow> m k)"
proof (induction ms rule: rev_induct)
  case (snoc x xs)
  then show ?case by (cases "x k") (simp_all add: map_add_def)
qed simp

section \<open>Properties\<close>

definition ex_check :: "string \<Rightarrow> CheckState \<Rightarrow> WorkloadCheck" where
  "ex_check n s = \<lparr> acs_Name = n, acs_State = s, acs_Message = '''', acs_LastTransitionTime = 0,
                    acs_PodSetUpdates = [] \<rparr>"

definition ex_workload :: Workload where
  "ex_workload =
     \<lparr> wl_Name = ''wl'', wl_Namespace = ''ns'', wl_OwnerReferences = [], wl_Priority = None,
       wl_Admission = Some \<lparr> adm_ClusterQueue = ''cq'', adm_PodSetAssignments = [] \<rparr>,
       wl_AdmissionChecks = [ex_check ''rr'' CheckStateReady, ex_check ''prov'' CheckStateRetry],
       wl_Conditions = [], wl_ReclaimablePods = [] \<rparr>"

definition ex_view_options :: ViewOptions where
  "ex_view_options = \<lparr> vo_ProvisioningACNames = [''prov''], vo_TopologyEnabled = False,
                       vo_WorkloadName = ''wl'', vo_WorkloadNamespace = ''ns'' \<rparr>"

lemma ex_workload_named [simp]: "named_checks ex_workload"
  by (simp add: named_checks_def ex_workload_def ex_check_def)

text \<open>
  A workload is launch-ready exactly when its quota is reserved, every admission check is
  \<open>Ready\<close> (an unknown state counts as not ready), and, with topology enabled, some pod set has a
  topology assignment and no pod set has a delayed topology request outstanding.
\<close>

lemma BuildView_ready_iff:
  assumes "named_checks wl"
  shows "IsLaunchReady (BuildView (Some wl) opts) \<longleftrightarrow>
     (\<exists>adm. wl_Admission wl = Some adm \<and>
        (vo_TopologyEnabled opts \<longrightarrow>
           (\<exists>psa \<in> set (adm_PodSetAssignments adm). psa_TopologyAssignment psa \<noteq> None) \<and>
           (\<forall>psa \<in> set (adm_PodSetAssignments adm). delayed_state psa \<noteq> DelayedTopologyPending))) \<and>
     (\<forall>ac \<in> set (wl_AdmissionChecks wl). acs_State ac = CheckStateReady)"
proof (cases "wl_Admission wl")
  case None
  then show ?thesis by (simp add: IsLaunchReady_def BuildView_fields [OF assms])
next
  case (Some adm)
  then show ?thesis
    by (simp add: IsLaunchReady_def BuildView_fields [OF assms] BuildView_TopologyState
        IsTopologyReady_parsed list_all_iff conj_commute)
qed

text \<open>
  The provisioning state of the view is that of the first provisioning check of the workload:
  not configured without one; otherwise the request it names is \<open><workload>-<check>-1\<close>, and the
  capacity counts as provisioned only when that check is \<open>Ready\<close>.
\<close>

lemma BuildView_provisioning:
  assumes "named_checks wl" and "vo_WorkloadName opts \<noteq> ''''"
  shows "(case find (is_prov (vo_ProvisioningACNames opts)) (wl_AdmissionChecks wl) of
            None \<Rightarrow> lv_Provisioning (BuildView (Some wl) opts) = ProvisioningNotConfigured
                  \<and> lv_ProvisioningRequestRef (BuildView (Some wl) opts) = None
          | Some ac \<Rightarrow> lv_Provisioning (BuildView (Some wl) opts) = classifyCheckState (acs_State ac)
                  \<and> lv_ProvisioningRequestRef (BuildView (Some wl) opts) =
                      Some \<lparr> pref_Name = vo_WorkloadName opts @ ''-'' @ acs_Name ac @ ''-1'',
                             pref_Namespace = vo_WorkloadNamespace opts \<rparr>
                  \<and> (lv_Provisioning (BuildView (Some wl) opts) = ProvisioningProvisioned
                       \<longleftrightarrow> acs_State ac = CheckStateReady))"
proof (cases "find (is_prov (vo_ProvisioningACNames opts)) (wl_AdmissionChecks wl)")
  case None
  then have "\<not> list_ex (is_prov (vo_ProvisioningACNames opts)) (wl_AdmissionChecks wl)"
    by (auto simp: find_None_iff' list_ex_iff)
  with None show ?thesis by (simp add: BuildView_fields [OF assms(1)])
next
  case (Some ac)
  from find_SomeD [OF this] have ac: "ac \<in> set (wl_AdmissionChecks wl)" "is_prov (vo_ProvisioningACNames opts) ac"
    by auto
  then have ex: "list_ex (is_prov (vo_ProvisioningACNames opts)) (wl_AdmissionChecks wl)"
    and ne: "vo_ProvisioningACNames opts \<noteq> []" "acs_Name ac \<noteq> ''''"
    using assms(1) by (auto simp: list_ex_iff is_prov_def named_checks_def list_all_iff)
  have f: "find (\<lambda>ac. acs_Name ac \<in> set (vo_ProvisioningACNames opts)) (wl_AdmissionChecks wl) = Some ac"
    using Some by (simp add: is_prov_def [abs_def])
  have "itoa 1 = ''1''" by code_simp
  with Some ne ex assms(2) show ?thesis
    by (simp add: BuildView_fields [OF assms(1)] ClassifyProvisioningFromChecks_def f
        FindProvisioningCheckName_def ResolveProvisioningRequestRef_def)
      (auto simp: classifyCheckState_def split: CheckState.splits)
qed

text \<open>
  The merged pod-set updates hold, for each pod set, all updates the admission checks name it
  in, in the order of the checks: a later check overrides an earlier one key by key in labels,
  annotations and node selector, tolerations are concatenated, and a pod set no check names has
  no entry.
\<close>

lemma MergePodSetUpdates_spec:
  "MergePodSetUpdates sets n =
     (if updates_for n sets = [] then None
      else Some (extend_entry (empty_entry n) (updates_for n sets)))
   \<and> (\<forall>k. pue_Labels (extend_entry (empty_entry n) (updates_for n sets)) k =
          (case find (\<lambda>f. f k \<noteq> None) (rev (map pue_Labels (updates_for n sets))) of
             Some f \<Rightarrow> f k | None \<Rightarrow> None))"
proof -
  have "MergePodSetUpdates sets n = fold merge_entry (concat (map pus_Updates sets)) Map.empty n"
    by (simp add: MergePodSetUpdates_def fold_sets)
  then show ?thesis
    by (simp add: fold_merge_entry updates_for_def foldl_map_add_apply extend_entry_def empty_entry_def)
qed

end
