(* ===== verification/Topology.thy ===== *)
theory Topology
  imports Kueue_Types
begin

text \<open>
  Topology assignments (\<open>internal/topology/assignment.go\<close>): decoding of Kueue's compressed slices
  into one entry per domain, the status representation, and the question whether an assignment
  can be expressed by the node selector of a child JobSet.
\<close>

section \<open>Types\<close>

record DomainAssignment =
  dom_Labels :: strmap
  dom_Count :: int

record PodSetTopology =
  pst_PodSetName :: string
  pst_Levels :: "string list"
  pst_Domains :: "DomainAssignment list"

record ParseResult =
  pres_PodSets :: "(string \<times> PodSetTopology) list"

section \<open>Decoding\<close>

definition resolveLevelValues :: "SliceLevelValues \<Rightarrow> nat \<Rightarrow> go_err + string list" where
  "resolveLevelValues vpl domainCount =
     (case slv_Universal vpl of
        Some u \<Rightarrow> Inr (replicate domainCount u)
      | None \<Rightarrow>
     (case slv_Individual vpl of
        Some ind \<Rightarrow>
          if length (ilv_Roots ind) \<noteq> domainCount
          then Inl (''individual roots length '' @ utoa (length (ilv_Roots ind)) @
                    '' does not match domainCount '' @ utoa domainCount)
          else let prefix = (case ilv_Prefix ind of Some p \<Rightarrow> p | None \<Rightarrow> '''');
                   suffix = (case ilv_Suffix ind of Some s \<Rightarrow> s | None \<Rightarrow> '''')
               in Inr (map (\<lambda>root. prefix @ root @ suffix) (ilv_Roots ind))
      | None \<Rightarrow> Inl ''neither universal nor individual values specified''))"

definition resolvePodCounts :: "SlicePodCounts \<Rightarrow> nat \<Rightarrow> go_err + int list" where
  "resolvePodCounts pc domainCount =
     (case spc_Universal pc of
        Some u \<Rightarrow> Inr (replicate domainCount u)
      | None \<Rightarrow>
          if length (spc_Individual pc) > 0
          then (if length (spc_Individual pc) \<noteq> domainCount
                then Inl (''individual podCounts length '' @ utoa (length (spc_Individual pc)) @
                          '' does not match domainCount '' @ utoa domainCount)
                else Inr (spc_Individual pc))
          else Inl ''neither universal nor individual podCounts specified'')"

text \<open>\<open>labels[levels[l]] = levelValues[l][d]\<close> for every level in turn.\<close>

definition domain_labels :: "string list \<Rightarrow> string list list \<Rightarrow> nat \<Rightarrow> strmap" where
  "domain_labels levels levelValues d =
     fold (\<lambda>(level, values) labels. labels(level \<mapsto> values ! d)) (zip levels levelValues) Map.empty"

definition decodeDomains ::
  "string list \<Rightarrow> TopologyAssignmentSlice \<Rightarrow> go_err + DomainAssignment list" where
  "decodeDomains levels sl =
     (let domainCount = nat (tas_DomainCount sl) in
      case collect (\<lambda>(level, vpl). case resolveLevelValues vpl domainCount of
                      Inl e \<Rightarrow> Inl (''level '' @ quote level @ '': '' @ e) | Inr v \<Rightarrow> Inr v)
             (zip levels (tas_ValuesPerLevel sl)) of
        Inl e \<Rightarrow> Inl e
      | Inr levelValues \<Rightarrow>
          (case resolvePodCounts (tas_PodCounts sl) domainCount of
             Inl e \<Rightarrow> Inl (''podCounts: '' @ e)
           | Inr podCounts \<Rightarrow>
               Inr (map (\<lambda>d. \<lparr> dom_Labels = domain_labels levels levelValues d,
                              dom_Count = podCounts ! d \<rparr>) [0..<domainCount])))"

definition slice_domains ::
  "string list \<Rightarrow> nat \<times> TopologyAssignmentSlice \<Rightarrow> go_err + DomainAssignment list" where
  "slice_domains levels = (\<lambda>(sliceIdx, sl).
     if tas_DomainCount sl < 1
     then Inl (''slice['' @ utoa sliceIdx @ '']: domainCount must be >= 1'')
     else if length (tas_ValuesPerLevel sl) \<noteq> length levels
     then Inl (''slice['' @ utoa sliceIdx @ '']: valuesPerLevel length '' @
               utoa (length (tas_ValuesPerLevel sl)) @ '' does not match levels length '' @
               utoa (length levels))
     else case decodeDomains levels sl of
       Inl e \<Rightarrow> Inl (''slice['' @ utoa sliceIdx @ '']: '' @ e)
     | Inr ds \<Rightarrow> Inr ds)"

definition parsePodSetAssignment :: "string \<Rightarrow> TopologyAssignment \<Rightarrow> go_err + PodSetTopology" where
  "parsePodSetAssignment name ta =
     (if ta_Levels ta = [] then Inl ''topology assignment has no levels''
      else case collect (slice_domains (ta_Levels ta)) (zip [0..<length (ta_Slices ta)] (ta_Slices ta)) of
        Inl e \<Rightarrow> Inl e
      | Inr dss \<Rightarrow> Inr \<lparr> pst_PodSetName = name, pst_Levels = ta_Levels ta, pst_Domains = concat dss \<rparr>)"

fun parse_assignments ::
  "PodSetAssignment list \<Rightarrow> (string \<times> PodSetTopology) list \<Rightarrow> go_err + (string \<times> PodSetTopology) list" where
  "parse_assignments [] acc = Inr acc"
| "parse_assignments (psa # rest) acc =
     (case psa_TopologyAssignment psa of
        None \<Rightarrow> parse_assignments rest acc
      | Some ta \<Rightarrow>
          (case parsePodSetAssignment (psa_Name psa) ta of
             Inl e \<Rightarrow> Inl (''parse topology for PodSet '' @ quote (psa_Name psa) @ '': '' @ e)
           | Inr parsed \<Rightarrow> parse_assignments rest (AList.update (psa_Name psa) parsed acc)))"

text \<open>The result \<open>Inr None\<close> is the Go result \<open>(nil, nil)\<close>.\<close>

definition ParseFromAdmission :: "Admission option \<Rightarrow> go_err + ParseResult option" where
  "ParseFromAdmission admission =
     (case admission of
        None \<Rightarrow> Inr None
      | Some adm \<Rightarrow>
          (case parse_assignments (adm_PodSetAssignments adm) [] of
             Inl e \<Rightarrow> Inl e
           | Inr podSets \<Rightarrow>
               if list_ex (\<lambda>psa. psa_TopologyAssignment psa \<noteq> None) (adm_PodSetAssignments adm)
               then Inr (Some \<lparr> pres_PodSets = podSets \<rparr>) else Inr None))"

section \<open>Status and representability\<close>

definition ToTopologyStatus :: "PodSetTopology option \<Rightarrow> TopologyStatus option" where
  "ToTopologyStatus p =
     (case p of
        None \<Rightarrow> None
      | Some pst \<Rightarrow>
          if pst_Domains pst = [] then None
          else Some \<lparr> ts_Levels = pst_Levels pst,
                      ts_Domains = map (\<lambda>domain.
                        \<lparr> tds_Values = map (mget (dom_Labels domain)) (pst_Levels pst),
                          tds_Count = dom_Count domain \<rparr>) (pst_Domains pst) \<rparr>)"

definition IsSingleDomain :: "PodSetTopology option \<Rightarrow> bool" where
  "IsSingleDomain p = (case p of None \<Rightarrow> False | Some pst \<Rightarrow> length (pst_Domains pst) = 1)"

definition IsHomogeneous :: "PodSetTopology option \<Rightarrow> bool" where
  "IsHomogeneous p =
     (case p of
        None \<Rightarrow> True
      | Some pst \<Rightarrow>
          if length (pst_Domains pst) \<le> 1 then True
          else if length (pst_Levels pst) \<le> 1 then True
          else list_all (\<lambda>domain. list_all (\<lambda>level.
                   mget (dom_Labels (hd (pst_Domains pst))) level = mget (dom_Labels domain) level)
                 (butlast (pst_Levels pst))) (tl (pst_Domains pst)))"

fun join_sp :: "string list \<Rightarrow> string" where
  "join_sp [] = ''''"
| "join_sp [x] = x"
| "join_sp (x # xs) = x @ '' '' @ join_sp xs"

definition CanRepresentInJobSet :: "PodSetTopology option \<Rightarrow> bool \<times> string" where
  "CanRepresentInJobSet p =
     (case p of
        None \<Rightarrow> (True, '''')
      | Some pst \<Rightarrow>
          if pst_Domains pst = [] then (True, '''')
          else if IsSingleDomain p then (True, '''')
          else if length (pst_Levels pst) = 1
          then (False, ''multi-domain assignment across '' @ utoa (length (pst_Domains pst)) @
                  '' domains at level '' @ quote (hd (pst_Levels pst)) @
                  '' cannot be expressed as a single nodeSelector; '' @
                  ''per-pod scheduling gates are required but not yet supported'')
          else if \<not> IsHomogeneous p
          then (False, ''multi-domain assignment spans different values at higher topology levels ['' @
                  join_sp (butlast (pst_Levels pst)) @ '']; '' @
                  ''only assignments where higher levels are uniform can be expressed in a child JobSet'')
          else (True, ''''))"

definition common_step :: "PodSetTopology \<Rightarrow> string \<Rightarrow> strmap \<Rightarrow> strmap" where
  "common_step pst level result =
     (let firstVal = mget (dom_Labels (hd (pst_Domains pst))) level in
      if list_all (\<lambda>domain. mget (dom_Labels domain) level = firstVal) (tl (pst_Domains pst))
      then result(level \<mapsto> firstVal) else result)"

definition CommonNodeSelector :: "PodSetTopology option \<Rightarrow> strmap" where
  "CommonNodeSelector p =
     (case p of
        None \<Rightarrow> Map.empty
      | Some pst \<Rightarrow>
          if pst_Domains pst = [] then Map.empty
          else if IsSingleDomain p then dom_Labels (hd (pst_Domains pst))
          else fold (common_step pst) (pst_Levels pst) Map.empty)"

section \<open>What decoding means\<close>

text \<open>The value of a level in the \<open>d\<close>-th domain, the count of the \<open>d\<close>-th domain, and when a slice
  is well formed.\<close>

definition level_value :: "SliceLevelValues \<Rightarrow> nat \<Rightarrow> string" where
  "level_value v d =
     (case slv_Universal v of
        Some u \<Rightarrow> u
      | None \<Rightarrow> (case slv_Individual v of
                   Some ind \<Rightarrow> (case ilv_Prefix ind of Some p \<Rightarrow> p | None \<Rightarrow> '''') @ ilv_Roots ind ! d @
                               (case ilv_Suffix ind of Some s \<Rightarrow> s | None \<Rightarrow> '''')
                 | None \<Rightarrow> ''''))"

definition pod_count :: "SlicePodCounts \<Rightarrow> nat \<Rightarrow> int" where
  "pod_count pc d = (case spc_Universal pc of Some u \<Rightarrow> u | None \<Rightarrow> spc_Individual pc ! d)"

definition level_ok :: "nat \<Rightarrow> SliceLevelValues \<Rightarrow> bool" where
  "level_ok n v \<longleftrightarrow> slv_Universal v \<noteq> None \<or>
     (\<exists>ind. slv_Individual v = Some ind \<and> length (ilv_Roots ind) = n)"

definition counts_ok :: "nat \<Rightarrow> SlicePodCounts \<Rightarrow> bool" where
  "counts_ok n pc \<longleftrightarrow> spc_Universal pc \<noteq> None \<or> length (spc_Individual pc) = n \<and> 0 < n"

definition slice_ok :: "string list \<Rightarrow> TopologyAssignmentSlice \<Rightarrow> bool" where
  "slice_ok levels s \<longleftrightarrow>
     1 \<le> tas_DomainCount s \<and> length (tas_ValuesPerLevel s) = length levels \<and>
     (\<forall>v \<in> set (tas_ValuesPerLevel s). level_ok (nat (tas_DomainCount s)) v) \<and>
     counts_ok (nat (tas_DomainCount s)) (tas_PodCounts s)"

definition slice_expansion :: "string list \<Rightarrow> TopologyAssignmentSlice \<Rightarrow> DomainAssignment list" where
  "slice_expansion levels s =
     map (\<lambda>d. \<lparr> dom_Labels = map_of (rev (zip levels (map (\<lambda>v. level_value v d) (tas_ValuesPerLevel s)))),
                dom_Count = pod_count (tas_PodCounts s) d \<rparr>) [0..<nat (tas_DomainCount s)]"

lemma resolveLevelValues_Inr:
  "resolveLevelValues v n = Inr vs \<longleftrightarrow> level_ok n v \<and> vs = map (level_value v) [0..<n]"
proof -
  have rep: "map (\<lambda>d. u) [0..<n] = replicate n u" for u :: string
    by (simp add: map_replicate_const)
  have roots: "map (\<lambda>root. p @ root @ s) rs = map (\<lambda>d. p @ rs ! d @ s) [0..<length rs]" for p s and rs :: "string list"
    by (rule nth_equalityI) simp_all
  show ?thesis
    by (cases "slv_Universal v"; cases "slv_Individual v")
       (auto simp: resolveLevelValues_def level_ok_def level_value_def [abs_def] rep roots Let_def)
qed

lemma resolvePodCounts_Inr:
  "0 < n \<Longrightarrow> resolvePodCounts pc n = Inr cs \<longleftrightarrow> counts_ok n pc \<and> cs = map (pod_count pc) [0..<n]"
proof -
  assume "0 < n"
  have "map ((!) xs) [0..<length xs] = xs" for xs :: "int list" by (simp add: map_nth)
  moreover have "map (\<lambda>d. u) [0..<n] = replicate n u" for u :: int by (simp add: map_replicate_const)
  ultimately show ?thesis
    using \<open>0 < n\<close> by (cases "spc_Universal pc")
      (auto simp: resolvePodCounts_def counts_ok_def pod_count_def [abs_def])
qed

lemma fold_labels: "fold (\<lambda>(l, v) m. m(l \<mapsto> f v)) xs m = m ++ map_of (rev (map (\<lambda>(l, v). (l, f v)) xs))"
  by (induction xs arbitrary: m) (auto simp: map_add_def fun_eq_iff split: option.split)

lemma collect_map:
  assumes "\<And>x y. x \<in> set xs \<Longrightarrow> f x = Inr y \<longleftrightarrow> P x \<and> y = g x"
  shows "collect f xs = Inr ys \<longleftrightarrow> (\<forall>x \<in> set xs. P x) \<and> ys = map g xs"
  using assms
proof (induction xs arbitrary: ys)
  case (Cons x xs)
  have IH: "collect f xs = Inr zs \<longleftrightarrow> (\<forall>x \<in> set xs. P x) \<and> zs = map g xs" for zs
    using Cons by simp
  show ?case unfolding collect_Cons_Inr IH using Cons.prems [of x] by auto
qed auto

lemma collect_zip_snd:
  assumes "\<And>l x y. f (l, x) = Inr y \<longleftrightarrow> P x \<and> y = g x" and "length ls = length xs"
  shows "collect f (zip ls xs) = Inr ys \<longleftrightarrow> (\<forall>x \<in> set xs. P x) \<and> ys = map g xs"
proof -
  have "collect f (zip ls xs) = Inr ys \<longleftrightarrow>
      (\<forall>x \<in> set (zip ls xs). P (snd x)) \<and> ys = map (\<lambda>x. g (snd x)) (zip ls xs)"
    by (rule collect_map) (auto simp: assms(1))
  moreover have "map (\<lambda>x. g (snd x)) (zip ls xs) = map g (map snd (zip ls xs))" by simp
  moreover have "map snd (zip ls xs) = xs" using assms(2) by simp
  moreover have "(\<forall>x \<in> set (zip ls xs). P (snd x)) \<longleftrightarrow> (\<forall>x \<in> set (map snd (zip ls xs)). P x)" by simp
  ultimately show ?thesis by simp
qed

lemma domain_labels_eq:
  assumes "d < n" and "length vs = length levels"
  shows "domain_labels levels (map (\<lambda>v. map (level_value v) [0..<n]) vs) d =
      map_of (rev (zip levels (map (\<lambda>v. level_value v d) vs)))"
proof -
  have "map (\<lambda>(l, v). (l, v ! d)) (zip levels (map (\<lambda>v. map (level_value v) [0..<n]) vs)) =
      zip levels (map (\<lambda>v. level_value v d) vs)"
    using assms by (intro nth_equalityI) simp_all
  then show ?thesis by (simp add: domain_labels_def fold_labels)
qed

lemma decodeDomains_Inr:
  assumes "0 < nat (tas_DomainCount s)" and "length (tas_ValuesPerLevel s) = length levels"
  shows "decodeDomains levels s = Inr ds \<longleftrightarrow>
     (\<forall>v \<in> set (tas_ValuesPerLevel s). level_ok (nat (tas_DomainCount s)) v) \<and>
     counts_ok (nat (tas_DomainCount s)) (tas_PodCounts s) \<and> ds = slice_expansion levels s"
proof -
  let ?n = "nat (tas_DomainCount s)" and ?vs = "tas_ValuesPerLevel s"
  let ?lv = "map (\<lambda>v. map (level_value v) [0..<?n]) ?vs"
  let ?cs = "map (pod_count (tas_PodCounts s)) [0..<?n]"
  let ?f = "\<lambda>(level, vpl). case resolveLevelValues vpl ?n of
              Inl e \<Rightarrow> Inl (''level '' @ quote level @ '': '' @ e) | Inr v \<Rightarrow> Inr v"
  have "?f (l, x) = Inr y \<longleftrightarrow> level_ok ?n x \<and> y = map (level_value x) [0..<?n]" for l x y
    using resolveLevelValues_Inr [of x ?n y] by (auto split: sum.splits)
  then have c: "collect ?f (zip levels ?vs) = Inr lv \<longleftrightarrow> (\<forall>v \<in> set ?vs. level_ok ?n v) \<and> lv = ?lv" for lv
    using assms(2) by (intro collect_zip_snd) simp_all
  note p = resolvePodCounts_Inr [OF assms(1), of "tas_PodCounts s"]
  have exp: "map (\<lambda>d. \<lparr> dom_Labels = domain_labels levels ?lv d, dom_Count = ?cs ! d \<rparr>) [0..<?n]
      = slice_expansion levels s"
    unfolding slice_expansion_def using assms(2) by (intro map_cong) (simp_all add: domain_labels_eq)
  show ?thesis
  proof (cases "(\<forall>v \<in> set ?vs. level_ok ?n v) \<and> counts_ok ?n (tas_PodCounts s)")
    case True
    then have "collect ?f (zip levels ?vs) = Inr ?lv" "resolvePodCounts (tas_PodCounts s) ?n = Inr ?cs"
      using c p by auto
    with True exp show ?thesis by (auto simp: decodeDomains_def Let_def)
  next
    case False
    then have "(\<nexists>lv. collect ?f (zip levels ?vs) = Inr lv) \<or> (\<nexists>cs. resolvePodCounts (tas_PodCounts s) ?n = Inr cs)"
      using c p by blast
    with False show ?thesis by (auto simp: decodeDomains_def Let_def split: sum.splits)
  qed
qed

lemma slice_domains_Inr:
  "slice_domains levels (i, s) = Inr ds \<longleftrightarrow> slice_ok levels s \<and> ds = slice_expansion levels s"
proof (cases "1 \<le> tas_DomainCount s \<and> length (tas_ValuesPerLevel s) = length levels")
  case True
  then have "0 < nat (tas_DomainCount s)" "length (tas_ValuesPerLevel s) = length levels" by auto
  from decodeDomains_Inr [OF this, of ds] True show ?thesis
    by (auto simp: slice_domains_def slice_ok_def split: sum.splits)
qed (auto simp: slice_domains_def slice_ok_def)

lemma parsePodSetAssignment_Inr:
  "parsePodSetAssignment name ta = Inr pst \<longleftrightarrow>
     ta_Levels ta \<noteq> [] \<and> (\<forall>s \<in> set (ta_Slices ta). slice_ok (ta_Levels ta) s) \<and>
     pst = \<lparr> pst_PodSetName = name, pst_Levels = ta_Levels ta,
             pst_Domains = concat (map (slice_expansion (ta_Levels ta)) (ta_Slices ta)) \<rparr>"
proof -
  have c: "collect (slice_domains (ta_Levels ta)) (zip [0..<length (ta_Slices ta)] (ta_Slices ta)) = Inr dss \<longleftrightarrow>
      (\<forall>s \<in> set (ta_Slices ta). slice_ok (ta_Levels ta) s) \<and>
      dss = map (slice_expansion (ta_Levels ta)) (ta_Slices ta)" for dss
    by (rule collect_zip_snd) (simp_all add: slice_domains_Inr)
  show ?thesis
  proof (cases "collect (slice_domains (ta_Levels ta)) (zip [0..<length (ta_Slices ta)] (ta_Slices ta))")
    case (Inl e)
    then have "\<not> (\<forall>s \<in> set (ta_Slices ta). slice_ok (ta_Levels ta) s)" using c by auto
    with Inl show ?thesis by (simp add: parsePodSetAssignment_def)
  next
    case (Inr dss)
    with c have "(\<forall>s \<in> set (ta_Slices ta). slice_ok (ta_Levels ta) s)"
      "dss = map (slice_expansion (ta_Levels ta)) (ta_Slices ta)" by auto
    with Inr show ?thesis by (auto simp: parsePodSetAssignment_def)
  qed
qed

definition ta_ok :: "TopologyAssignment \<Rightarrow> bool" where
  "ta_ok ta \<longleftrightarrow> ta_Levels ta \<noteq> [] \<and> (\<forall>s \<in> set (ta_Slices ta). slice_ok (ta_Levels ta) s)"

definition expansion :: "string \<Rightarrow> TopologyAssignment \<Rightarrow> PodSetTopology" where
  "expansion name ta =
     \<lparr> pst_PodSetName = name, pst_Levels = ta_Levels ta,
       pst_Domains = concat (map (slice_expansion (ta_Levels ta)) (ta_Slices ta)) \<rparr>"

lemma parse_ok: "ta_ok ta \<Longrightarrow> parsePodSetAssignment name ta = Inr (expansion name ta)"
  by (simp add: parsePodSetAssignment_Inr ta_ok_def expansion_def)

lemma parse_bad: "\<not> ta_ok ta \<Longrightarrow> \<exists>e. parsePodSetAssignment name ta = Inl e"
  using parsePodSetAssignment_Inr [of name ta]
  by (cases "parsePodSetAssignment name ta") (auto simp: ta_ok_def)

definition record_topology ::
  "PodSetAssignment \<Rightarrow> (string \<times> PodSetTopology) list \<Rightarrow> (string \<times> PodSetTopology) list" where
  "record_topology psa acc =
     (case psa_TopologyAssignment psa of
        None \<Rightarrow> acc | Some ta \<Rightarrow> AList.update (psa_Name psa) (expansion (psa_Name psa) ta) acc)"

definition assignments_ok :: "PodSetAssignment list \<Rightarrow> bool" where
  "assignments_ok psas \<longleftrightarrow> (\<forall>psa \<in> set psas. \<forall>ta. psa_TopologyAssignment psa = Some ta \<longrightarrow> ta_ok ta)"

lemma parse_assignments_ok: "assignments_ok psas \<Longrightarrow> parse_assignments psas acc = Inr (fold record_topology psas acc)"
  by (induction psas arbitrary: acc)
     (auto simp: assignments_ok_def parse_ok record_topology_def split: option.split)

lemma parse_assignments_bad: "\<not> assignments_ok psas \<Longrightarrow> \<exists>e. parse_assignments psas acc = Inl e"
proof (induction psas arbitrary: acc)
  case (Cons psa psas)
  show ?case
  proof (cases "psa_TopologyAssignment psa")
    case None
    with Cons show ?thesis by (simp add: assignments_ok_def)
  next
    case (Some ta)
    show ?thesis
    proof (cases "ta_ok ta")
      case True
      with Cons Some have "\<not> assignments_ok psas" by (auto simp: assignments_ok_def)
      with Cons.IH Some True show ?thesis by (simp add: parse_ok)
    next
      case False
      with parse_bad [OF False, of "psa_Name psa"] Some show ?thesis by auto
    qed
  qed
qed (simp add: assignments_ok_def)

lemma map_of_fold_record:
  "map_of (fold record_topology psas acc) n =
     (case find (\<lambda>psa. psa_Name psa = n \<and> psa_TopologyAssignment psa \<noteq> None) (rev psas) of
        Some psa \<Rightarrow> Some (expansion n (the (psa_TopologyAssignment psa)))
      | None \<Rightarrow> map_of acc n)"
proof (induction psas rule: rev_induct)
  case (snoc psa psas)
  then show ?case by (auto simp: record_topology_def split: option.splits)
qed simp

section \<open>Representability\<close>

definition labelled :: "PodSetTopology \<Rightarrow> bool" where
  "labelled pst \<longleftrightarrow> pst_Levels pst \<noteq> [] \<and> (\<forall>d \<in> set (pst_Domains pst). dom (dom_Labels d) = set (pst_Levels pst))"

lemma slice_expansion_dom:
  "slice_ok levels s \<Longrightarrow> d \<in> set (slice_expansion levels s) \<Longrightarrow> dom (dom_Labels d) = set levels"
proof -
  assume ok: "slice_ok levels s" and "d \<in> set (slice_expansion levels s)"
  then obtain i where d: "dom_Labels d = map_of (rev (zip levels (map (\<lambda>v. level_value v i) (tas_ValuesPerLevel s))))"
    by (auto simp: slice_expansion_def)
  have "map fst (zip levels (map (\<lambda>v. level_value v i) (tas_ValuesPerLevel s))) = levels"
    using ok by (simp add: slice_ok_def)
  then have "fst ` set (zip levels (map (\<lambda>v. level_value v i) (tas_ValuesPerLevel s))) = set levels"
    by (metis set_map)
  then show ?thesis by (simp add: d dom_map_of_conv_image_fst)
qed

lemma parsed_labelled: "parsePodSetAssignment name ta = Inr pst \<Longrightarrow> labelled pst"
  by (auto simp: parsePodSetAssignment_Inr labelled_def dest: slice_expansion_dom)

definition uniform_at :: "PodSetTopology \<Rightarrow> string \<Rightarrow> bool" where
  "uniform_at pst level \<longleftrightarrow>
     (\<forall>d \<in> set (pst_Domains pst). mget (dom_Labels d) level = mget (dom_Labels (hd (pst_Domains pst))) level)"

lemma fold_common_step:
  assumes "pst_Domains pst \<noteq> []"
  shows "fold (common_step pst) levels m k =
    (if k \<in> set levels \<and> uniform_at pst k then Some (mget (dom_Labels (hd (pst_Domains pst))) k) else m k)"
proof -
  obtain d ds where D: "pst_Domains pst = d # ds" using assms by (cases "pst_Domains pst") auto
  have step: "common_step pst l m k =
      (if k = l \<and> uniform_at pst k then Some (mget (dom_Labels d) k) else m k)" for l m
    by (auto simp: common_step_def uniform_at_def D Let_def list_all_iff)
  show ?thesis by (induction levels arbitrary: m) (auto simp: step D)
qed

lemma CommonNodeSelector_multi:
  assumes "labelled pst" and "pst_Domains pst \<noteq> []"
  shows "CommonNodeSelector (Some pst) k = Some v \<longleftrightarrow> (\<forall>d \<in> set (pst_Domains pst). dom_Labels d k = Some v)"
proof -
  obtain d ds where D: "pst_Domains pst = d # ds" using assms by (cases "pst_Domains pst") auto
  have lab: "dom_Labels x k = Some (mget (dom_Labels x) k) \<longleftrightarrow> k \<in> set (pst_Levels pst)" if "x \<in> set (pst_Domains pst)" for x
    using assms(1) that domD [of k "dom_Labels x"] domI [of "dom_Labels x" k]
    by (auto simp: labelled_def mget_def split: option.splits)
  show ?thesis
  proof (cases "ds = []")
    case True
    then show ?thesis by (simp add: CommonNodeSelector_def IsSingleDomain_def D)
  next
    case False
    then have "CommonNodeSelector (Some pst) k =
        (if k \<in> set (pst_Levels pst) \<and> uniform_at pst k then Some (mget (dom_Labels d) k) else None)"
      using fold_common_step [OF assms(2), of "pst_Levels pst" Map.empty k]
      by (simp add: CommonNodeSelector_def IsSingleDomain_def D)
    moreover have "(k \<in> set (pst_Levels pst) \<and> uniform_at pst k \<and> mget (dom_Labels d) k = v) \<longleftrightarrow>
        (\<forall>x \<in> set (pst_Domains pst). dom_Labels x k = Some v)"
      using lab D by (auto simp: uniform_at_def) (metis mget_def option.simps(5))+
    ultimately show ?thesis by auto
  qed
qed

lemma IsHomogeneous_iff:
  assumes "pst_Domains pst \<noteq> []" and "1 < length (pst_Levels pst)" and "1 < length (pst_Domains pst)"
  shows "IsHomogeneous (Some pst) \<longleftrightarrow> (\<forall>level \<in> set (butlast (pst_Levels pst)). uniform_at pst level)"
proof -
  obtain d ds where D: "pst_Domains pst = d # ds" using assms by (cases "pst_Domains pst") auto
  show ?thesis using assms
    by (auto simp: IsHomogeneous_def uniform_at_def D list_all_iff)
qed

lemma uniform_selected:
  assumes "labelled pst" and "pst_Domains pst \<noteq> []" and "level \<in> set (pst_Levels pst)"
  shows "uniform_at pst level \<longleftrightarrow> level \<in> dom (CommonNodeSelector (Some pst))"
proof -
  obtain d ds where D: "pst_Domains pst = d # ds" using assms by (cases "pst_Domains pst") auto
  have lab: "\<exists>v. dom_Labels x level = Some v" if "x \<in> set (pst_Domains pst)" for x
    using assms(1,3) that domD [of level "dom_Labels x"] by (auto simp: labelled_def)
  have "level \<in> dom (CommonNodeSelector (Some pst)) \<longleftrightarrow>
      (\<exists>v. \<forall>x \<in> set (pst_Domains pst). dom_Labels x level = Some v)"
    using CommonNodeSelector_multi [OF assms(1,2)] by (auto simp: dom_def)
  also have "\<dots> \<longleftrightarrow> uniform_at pst level"
  proof
    assume "uniform_at pst level"
    moreover obtain v where "dom_Labels d level = Some v" using lab D by auto
    ultimately show "\<exists>v. \<forall>x \<in> set (pst_Domains pst). dom_Labels x level = Some v"
      using lab unfolding uniform_at_def D mget_def by (metis list.sel(1) option.simps(5))
  qed (auto simp: uniform_at_def mget_def D)
  finally show ?thesis by blast
qed

section \<open>Properties\<close>

definition ex_slice :: TopologyAssignmentSlice where
  "ex_slice =
     \<lparr> tas_DomainCount = 2,
       tas_ValuesPerLevel =
         [\<lparr> slv_Universal = Some ''zone-a'', slv_Individual = None \<rparr>,
          \<lparr> slv_Universal = None,
            slv_Individual = Some \<lparr> ilv_Prefix = Some ''host-'', ilv_Suffix = None, ilv_Roots = [''1'', ''2''] \<rparr> \<rparr>],
       tas_PodCounts = \<lparr> spc_Universal = None, spc_Individual = [3, 1] \<rparr> \<rparr>"

definition ex_ta :: TopologyAssignment where
  "ex_ta = \<lparr> ta_Levels = [''zone'', ''host''], ta_Slices = [ex_slice] \<rparr>"

lemma ex_parse: "parsePodSetAssignment ''w'' ex_ta = Inr (expansion ''w'' ex_ta)"
  by (rule parse_ok) (simp add: ta_ok_def slice_ok_def level_ok_def counts_ok_def ex_ta_def ex_slice_def)

lemma ex_domains: "length (pst_Domains (expansion ''w'' ex_ta)) = 2"
  by (simp add: expansion_def ex_ta_def slice_expansion_def ex_slice_def)

text \<open>
  C38: Parsing the topology of an admission fails exactly when some assignment is malformed (no
  levels, a slice with a wrong number of level values, roots or counts, or without values or
  counts); otherwise it returns nothing when no pod set has an assignment, and else maps each pod
  set that has one to the expansion of its slices, domain by domain with the value of every
  level and the pod count.
\<close>

theorem ParseFromAdmission_correct:
  "(\<exists>e. ParseFromAdmission (Some adm) = Inl e) \<noteq> assignments_ok (adm_PodSetAssignments adm)
   \<and> (\<forall>res. ParseFromAdmission (Some adm) = Inr res \<longrightarrow>
        (res = None \<longleftrightarrow> (\<forall>psa \<in> set (adm_PodSetAssignments adm). psa_TopologyAssignment psa = None))
      \<and> (\<forall>r n. res = Some r \<longrightarrow> map_of (pres_PodSets r) n =
           (case find (\<lambda>psa. psa_Name psa = n \<and> psa_TopologyAssignment psa \<noteq> None)
                   (rev (adm_PodSetAssignments adm)) of
              Some psa \<Rightarrow> Some (expansion n (the (psa_TopologyAssignment psa))) | None \<Rightarrow> None)))"
proof (cases "assignments_ok (adm_PodSetAssignments adm)")
  case True
  have "map_of (fold record_topology (adm_PodSetAssignments adm) []) n =
      (case find (\<lambda>psa. psa_Name psa = n \<and> psa_TopologyAssignment psa \<noteq> None) (rev (adm_PodSetAssignments adm)) of
         Some psa \<Rightarrow> Some (expansion n (the (psa_TopologyAssignment psa))) | None \<Rightarrow> None)" for n
    by (subst map_of_fold_record) (simp split: option.split)
  with True show ?thesis
    by (auto simp: ParseFromAdmission_def parse_assignments_ok list_ex_iff)
next
  case False
  then show ?thesis
    using parse_assignments_bad [OF False, of "[]"] by (auto simp: ParseFromAdmission_def)
qed

theorem ParseFromAdmission_correct_witness:
  "\<exists>e. ParseFromAdmission (Some \<lparr> adm_ClusterQueue = ''cq'', adm_PodSetAssignments =
     [\<lparr> psa_Name = ''w'', psa_Flavors = [], psa_Count = None,
        psa_TopologyAssignment = Some (ex_ta\<lparr> ta_Levels := [''zone''] \<rparr>),
        psa_DelayedTopologyRequest = None \<rparr>] \<rparr>) = Inl e"
proof -
  let ?adm = "\<lparr> adm_ClusterQueue = ''cq'', adm_PodSetAssignments =
     [\<lparr> psa_Name = ''w'', psa_Flavors = [], psa_Count = None,
        psa_TopologyAssignment = Some (ex_ta\<lparr> ta_Levels := [''zone''] \<rparr>),
        psa_DelayedTopologyRequest = None \<rparr>] \<rparr>"
  have "\<not> assignments_ok (adm_PodSetAssignments ?adm)"
    by (simp add: assignments_ok_def ta_ok_def slice_ok_def ex_ta_def ex_slice_def)
  then show ?thesis using ParseFromAdmission_correct [of ?adm] by blast
qed

text \<open>
  The node selector injected for a decoded assignment with at least one domain holds exactly
  the labels on which all domains agree, with their common value: it never excludes an assigned
  domain and drops no shared constraint.
\<close>

lemma CommonNodeSelector_exact:
  assumes "parsePodSetAssignment name ta = Inr pst" and "pst_Domains pst \<noteq> []"
  shows "CommonNodeSelector (Some pst) k = Some v \<longleftrightarrow> list_all (\<lambda>d. dom_Labels d k = Some v) (pst_Domains pst)"
  using CommonNodeSelector_multi [OF parsed_labelled [OF assms(1)] assms(2)] by (simp add: list_all_iff)

text \<open>
  An assignment counts as representable in a child JobSet exactly when it has at most one
  domain, or several levels and a common node selector that pins every level but the lowest.
\<close>

theorem CanRepresentInJobSet_correct:
  assumes "parsePodSetAssignment name ta = Inr pst"
  shows "fst (CanRepresentInJobSet (Some pst)) \<longleftrightarrow>
     length (pst_Domains pst) \<le> 1
     \<or> 1 < length (pst_Levels pst)
       \<and> set (butlast (pst_Levels pst)) \<subseteq> dom (CommonNodeSelector (Some pst))"
proof (cases "length (pst_Domains pst) \<le> 1")
  case True
  then have "pst_Domains pst = [] \<or> length (pst_Domains pst) = 1" by (cases "pst_Domains pst") auto
  then show ?thesis using True by (auto simp: CanRepresentInJobSet_def IsSingleDomain_def)
next
  case False
  note lab = parsed_labelled [OF assms]
  have ne: "pst_Domains pst \<noteq> []" "length (pst_Domains pst) \<noteq> 1" using False by auto
  have lv: "pst_Levels pst \<noteq> []" using lab by (simp add: labelled_def)
  show ?thesis
  proof (cases "length (pst_Levels pst) = 1")
    case True
    then show ?thesis using False ne by (simp add: CanRepresentInJobSet_def IsSingleDomain_def)
  next
    case L: False
    with lv have "1 < length (pst_Levels pst)" by (cases "pst_Levels pst") auto
    moreover from this have "IsHomogeneous (Some pst) \<longleftrightarrow>
        set (butlast (pst_Levels pst)) \<subseteq> dom (CommonNodeSelector (Some pst))"
      using IsHomogeneous_iff [OF ne(1)] False uniform_selected [OF lab ne(1)] in_set_butlastD by fastforce
    ultimately show ?thesis using False ne L by (simp add: CanRepresentInJobSet_def IsSingleDomain_def)
  qed
qed

end
