(* ===== verification/Jobset_Render.thy ===== *)
theory Jobset_Render
  imports Checkpoints Names Provisioning Topology
begin

text \<open>
  Rendering of the child JobSet, \<open>internal/jobset\<close>: parsing the embedded template (\<open>template.go\<close>), the
  admitted replica counts and the removal of Kueue's metadata (\<open>flavor_injection.go\<close>), the topology node
  selector (\<open>topology_injection.go\<close>), the pod-set updates of the admission checks (\<open>podsetupdates.go\<close>), the
  device claims (\<open>dra_render.go\<close>) and the pipeline that composes them (\<open>render.go\<close>).
  A pod template holds the fields the renderer reads or writes; the fields it only copies are one opaque
  \<open>rest\<close>.  Slices keep their order.  Go's maps of labels are partial functions; where the code lists the
  entries of such a map, the order in which Go visits the keys is the parameter \<open>re_Order\<close>.
\<close>

section \<open>Pod templates\<close>

record EnvVar =
  env_Name :: string
  env_Value :: string
  env_ValueFrom :: "string option"

record VolumeMount =
  vm_Name :: string
  vm_MountPath :: string
  vm_ReadOnly :: bool
  vm_Rest :: string

datatype VolumeSource =
  ConfigMapVolume string "(string \<times> string) list"
| EmptyDirVolume
| OtherVolume string

record Volume =
  vol_Name :: string
  vol_Source :: VolumeSource

record Container =
  ct_Name :: string
  ct_Env :: "EnvVar list"
  ct_VolumeMounts :: "VolumeMount list"
  ct_Claims :: "string list"
  ct_Rest :: string

record PodResourceClaim =
  prc_Name :: string
  prc_ResourceClaimTemplateName :: "string option"
  prc_ResourceClaimName :: "string option"

text \<open>\<open>PodTemplateSpec\<close>: the metadata of the pods and their \<open>PodSpec\<close> in one record.\<close>

record PodTemplate =
  pod_Labels :: strmap
  pod_Annotations :: strmap
  pod_NodeSelector :: strmap
  pod_Tolerations :: "Toleration list"
  pod_Volumes :: "Volume list"
  pod_Containers :: "Container list"
  pod_ResourceClaims :: "PodResourceClaim list"
  pod_Rest :: string

record ReplicatedJob =
  rj_Name :: string
  rj_Replicas :: "int option"
  rj_Parallelism :: "int option"
  rj_Completions :: "int option"
  rj_Template :: PodTemplate
  rj_Rest :: string

record Spec =
  ss_ReplicatedJobs :: "ReplicatedJob list"

record Object =
  ob_APIVersion :: string
  ob_Kind :: string
  ob_Name :: string
  ob_Namespace :: string
  ob_Labels :: strmap
  ob_Annotations :: strmap
  ob_Spec :: Spec

abbreviation ob_Jobs :: "Object \<Rightarrow> ReplicatedJob list" where
  "ob_Jobs obj \<equiv> ss_ReplicatedJobs (ob_Spec obj)"

text \<open>The libraries the renderer calls: the label keys of Kueue's constants package, \<open>json.Unmarshal\<close> of the
  embedded spec, the converter to unstructured objects (\<open>None\<close>: it succeeds), and the order of map ranges.\<close>

record render_env =
  re_QueueLabel :: string
  re_WorkloadPriorityClassLabel :: string
  re_PrebuiltWorkloadLabel :: string
  re_MaxExecTimeSecondsLabel :: string
  re_ProvReqAnnotationPrefix :: string
  re_Decode :: "string \<Rightarrow> go_err + Spec"
  re_ToUnstructured :: "Object \<Rightarrow> go_err option"
  re_Order :: "strmap \<Rightarrow> string list"

definition ParseTemplate :: "render_env \<Rightarrow> string \<Rightarrow> go_err + Spec" where
  "ParseTemplate R raw =
     (if raw = [] then Inl ''embedded JobSet spec is empty''
      else case re_Decode R raw of
             Inl err \<Rightarrow> Inl (''decode embedded JobSet spec: '' @ err)
           | Inr spec \<Rightarrow>
               if ss_ReplicatedJobs spec = []
               then Inl ''embedded JobSet spec must contain at least one replicated job''
               else Inr spec)"

section \<open>Admitted counts and Kueue metadata (\<open>flavor_injection.go\<close>)\<close>

definition podsPerReplica :: "ReplicatedJob \<Rightarrow> int" where
  "podsPerReplica rj =
     (let parallelism = (case rj_Parallelism rj of Some p \<Rightarrow> p | None \<Rightarrow> 1);
          completions = (case rj_Completions rj of Some c \<Rightarrow> c | None \<Rightarrow> parallelism)
      in if completions < parallelism then completions else parallelism)"

definition applyAdmittedReplicaCount :: "int \<Rightarrow> ReplicatedJob \<Rightarrow> ReplicatedJob" where
  "applyAdmittedReplicaCount admittedPodCount rj =
     (if admittedPodCount \<le> 0 then rj
      else let p = podsPerReplica rj;
               perReplica = (if p \<le> 0 then 1 else p);
               r = admittedPodCount div perReplica;
               replicas = (if r < 1 then 1 else r)
           in rj\<lparr> rj_Replicas := Some replicas \<rparr>)"

definition isKueueManagementLabel :: "render_env \<Rightarrow> string \<Rightarrow> bool" where
  "isKueueManagementLabel R key \<longleftrightarrow>
     HasPrefix key ''kueue.x-k8s.io/'' \<or> key = re_QueueLabel R \<or> key = re_WorkloadPriorityClassLabel R
     \<or> key = re_PrebuiltWorkloadLabel R \<or> key = re_MaxExecTimeSecondsLabel R"

definition isKueueManagementAnnotation :: "render_env \<Rightarrow> string \<Rightarrow> bool" where
  "isKueueManagementAnnotation R key \<longleftrightarrow>
     HasPrefix key ''kueue.x-k8s.io/'' \<or> HasPrefix key (re_ProvReqAnnotationPrefix R)"

text \<open>\<open>for key := range m { if p(key) { delete(m, key) } }\<close>\<close>

definition drop_keys :: "(string \<Rightarrow> bool) \<Rightarrow> strmap \<Rightarrow> strmap" where
  "drop_keys p m = (\<lambda>k. if p k then None else m k)"

definition stripKueuePodTemplateLabels :: "render_env \<Rightarrow> ReplicatedJob \<Rightarrow> ReplicatedJob" where
  "stripKueuePodTemplateLabels R rj =
     rj\<lparr> rj_Template := (rj_Template rj)\<lparr>
           pod_Labels := drop_keys (isKueueManagementLabel R) (pod_Labels (rj_Template rj)),
           pod_Annotations := drop_keys (isKueueManagementAnnotation R) (pod_Annotations (rj_Template rj)) \<rparr> \<rparr>"

definition stripKueueManagementMetadata :: "render_env \<Rightarrow> Object \<Rightarrow> Object" where
  "stripKueueManagementMetadata R obj =
     obj\<lparr> ob_Labels := drop_keys (isKueueManagementLabel R) (ob_Labels obj),
          ob_Annotations := drop_keys (isKueueManagementAnnotation R) (ob_Annotations obj) \<rparr>"

section \<open>Topology (\<open>topology_injection.go\<close>)\<close>

record TopologyInjectionResult =
  tir_Injected :: bool
  tir_NodeSelector :: strmap

definition add_selector :: "strmap \<Rightarrow> ReplicatedJob \<Rightarrow> ReplicatedJob" where
  "add_selector sel rj =
     rj\<lparr> rj_Template := (rj_Template rj)\<lparr> pod_NodeSelector := pod_NodeSelector (rj_Template rj) ++ sel \<rparr> \<rparr>"

fun inject_loop ::
  "render_env \<Rightarrow> ParseResult \<Rightarrow> TopologyInjectionResult \<Rightarrow> ReplicatedJob list
   \<Rightarrow> go_err + TopologyInjectionResult \<times> ReplicatedJob list" where
  "inject_loop R topo result [] = Inr (result, [])"
| "inject_loop R topo result (rj # rest) =
     (case map_of (pres_PodSets topo) (rj_Name rj) of
        None \<Rightarrow> map_sum id (apsnd ((#) rj)) (inject_loop R topo result rest)
      | Some pst \<Rightarrow>
          (case CanRepresentInJobSet (Some pst) of (representable, reason) \<Rightarrow>
             if \<not> representable
             then Inl (''topology assignment for PodSet '' @ quote (rj_Name rj) @
                       '' is not representable in child JobSet: '' @ reason)
             else let nodeSelector = CommonNodeSelector (Some pst) in
                  if re_Order R nodeSelector = []
                  then map_sum id (apsnd ((#) rj)) (inject_loop R topo result rest)
                  else map_sum id (apsnd ((#) (add_selector nodeSelector rj)))
                         (inject_loop R topo \<lparr> tir_Injected = True, tir_NodeSelector = nodeSelector \<rparr> rest)))"

text \<open>The worker pod set name is an unused argument of the code.\<close>

definition InjectTopology ::
  "render_env \<Rightarrow> Spec \<Rightarrow> string \<Rightarrow> ParseResult option \<Rightarrow> go_err + TopologyInjectionResult \<times> Spec" where
  "InjectTopology R spec workerPodSetName topologyResult =
     (let none = \<lparr> tir_Injected = False, tir_NodeSelector = Map.empty \<rparr> in
      case topologyResult of
        None \<Rightarrow> Inr (none, spec)
      | Some topo \<Rightarrow>
          map_sum id (apsnd (\<lambda>jobs. spec\<lparr> ss_ReplicatedJobs := jobs \<rparr>))
            (inject_loop R topo none (ss_ReplicatedJobs spec)))"

section \<open>Pod-set updates (\<open>podsetupdates.go\<close>)\<close>

record PodSetUpdateConflict =
  puc_PodSetName :: string
  puc_Field :: string
  puc_Key :: string
  puc_ExistingValue :: string
  puc_UpdateValue :: string

definition PodSetUpdateConflict_String :: "PodSetUpdateConflict \<Rightarrow> string" where
  "PodSetUpdateConflict_String c =
     ''PodSet '' @ quote (puc_PodSetName c) @ '': '' @ puc_Field c @ ''['' @ quote (puc_Key c) @ ''] existing='' @
     quote (puc_ExistingValue c) @ '' update='' @ quote (puc_UpdateValue c)"

record ApplyPodSetUpdatesResult =
  apr_Applied :: bool
  apr_Conflicts :: "PodSetUpdateConflict list"

fun join_with :: "string \<Rightarrow> string list \<Rightarrow> string" where
  "join_with sep [] = ''''"
| "join_with sep [x] = x"
| "join_with sep (x # xs) = x @ sep @ join_with sep xs"

definition ConflictMessage :: "ApplyPodSetUpdatesResult \<Rightarrow> string" where
  "ConflictMessage r =
     (if apr_Conflicts r = [] then ''''
      else ''podSetUpdate conflicts detected: '' @
           join_with ''; '' (map PodSetUpdateConflict_String (apr_Conflicts r)))"

definition applyMapAdditive ::
  "render_env \<Rightarrow> strmap \<Rightarrow> strmap \<Rightarrow> string \<Rightarrow> string \<Rightarrow> PodSetUpdateConflict list" where
  "applyMapAdditive R dst src podSetName fieldName =
     List.map_filter (\<lambda>k.
       case (src k, dst k) of
         (Some v, Some existing) \<Rightarrow>
           if existing \<noteq> v
           then Some \<lparr> puc_PodSetName = podSetName, puc_Field = fieldName, puc_Key = k,
                       puc_ExistingValue = existing, puc_UpdateValue = v \<rparr>
           else None
       | _ \<Rightarrow> None) (re_Order R src)"

text \<open>The seconds of a toleration are compared by value, the other fields field by field.\<close>

definition containsToleration :: "Toleration list \<Rightarrow> Toleration \<Rightarrow> bool" where
  "containsToleration tolerations target \<longleftrightarrow>
     list_ex (\<lambda>t. tol_Key t = tol_Key target \<and> tol_Operator t = tol_Operator target
        \<and> tol_Value t = tol_Value target \<and> tol_Effect t = tol_Effect target
        \<and> tol_TolerationSeconds t = tol_TolerationSeconds target) tolerations"

fun appendUniqueTolerations :: "Toleration list \<Rightarrow> Toleration list \<Rightarrow> Toleration list" where
  "appendUniqueTolerations dst [] = dst"
| "appendUniqueTolerations dst (t # src) =
     appendUniqueTolerations (if \<not> containsToleration dst t then dst @ [t] else dst) src"

text \<open>One map of the pod template: with a conflict it stays as it is, otherwise the entries of the update
  are written over it.\<close>

definition merge_additive :: "PodSetUpdateConflict list \<Rightarrow> strmap \<Rightarrow> strmap \<Rightarrow> strmap" where
  "merge_additive conflicts dst src = (if conflicts \<noteq> [] then dst else dst ++ src)"

definition apply_update ::
  "render_env \<Rightarrow> PodSetUpdateEntry \<Rightarrow> ReplicatedJob \<Rightarrow> PodSetUpdateConflict list \<times> ReplicatedJob" where
  "apply_update R update rj =
     (let pod = rj_Template rj;
          c1 = applyMapAdditive R (pod_Labels pod) (pue_Labels update) (rj_Name rj) ''labels'';
          c2 = applyMapAdditive R (pod_Annotations pod) (pue_Annotations update) (rj_Name rj) ''annotations'';
          c3 = applyMapAdditive R (pod_NodeSelector pod) (pue_NodeSelector update) (rj_Name rj) ''nodeSelector''
      in (c1 @ c2 @ c3,
          rj\<lparr> rj_Template := pod\<lparr>
            pod_Labels := merge_additive c1 (pod_Labels pod) (pue_Labels update),
            pod_Annotations := merge_additive c2 (pod_Annotations pod) (pue_Annotations update),
            pod_NodeSelector := merge_additive c3 (pod_NodeSelector pod) (pue_NodeSelector update),
            pod_Tolerations :=
              (if pue_Tolerations update \<noteq> []
               then appendUniqueTolerations (pod_Tolerations pod) (pue_Tolerations update)
               else pod_Tolerations pod) \<rparr> \<rparr>))"

fun apply_updates_loop ::
  "render_env \<Rightarrow> (string \<rightharpoonup> PodSetUpdateEntry) \<Rightarrow> ReplicatedJob list
   \<Rightarrow> PodSetUpdateConflict list \<times> ReplicatedJob list" where
  "apply_updates_loop R updates [] = ([], [])"
| "apply_updates_loop R updates (rj # rest) =
     (let (cs, rj') = (case updates (rj_Name rj) of None \<Rightarrow> ([], rj) | Some u \<Rightarrow> apply_update R u rj);
          (ds, rest') = apply_updates_loop R updates rest
      in (cs @ ds, rj' # rest'))"

text \<open>The shortcut for an empty map of updates is the loop in which no job has an update.\<close>

definition ApplyPodSetUpdates ::
  "render_env \<Rightarrow> Spec \<Rightarrow> (string \<rightharpoonup> PodSetUpdateEntry) \<Rightarrow> ApplyPodSetUpdatesResult \<times> Spec" where
  "ApplyPodSetUpdates R spec updates =
     (let (conflicts, jobs) = apply_updates_loop R updates (ss_ReplicatedJobs spec)
      in (\<lparr> apr_Applied = (conflicts = []), apr_Conflicts = conflicts \<rparr>, spec\<lparr> ss_ReplicatedJobs := jobs \<rparr>))"


section \<open>Device claims (\<open>dra_render.go\<close>)\<close>

record DRAClaimInjection =
  dci_ClaimName :: string
  dci_TemplateName :: string
  dci_Containers :: "string list"

definition BuildDRAClaimInjections :: "ResumableTrainingJob \<Rightarrow> DRAClaimInjection list" where
  "BuildDRAClaimInjections rtj =
     (if \<not> IsDevicesEnabled rtj then []
      else case (st_Devices (rtj_Status rtj), sp_Devices (rtj_Spec rtj)) of
        (Some devices, Some spec) \<Rightarrow>
          (let refMap = fold (\<lambda>ref m. m(rct_ClaimName ref \<mapsto> rct_Name ref))
                          (ds_ResourceClaimTemplateRefs devices) Map.empty
           in List.map_filter (\<lambda>claim.
                case refMap (dc_Name claim) of
                  None \<Rightarrow> None
                | Some templateName \<Rightarrow>
                    Some \<lparr> dci_ClaimName = dc_Name claim, dci_TemplateName = templateName,
                           dci_Containers = dc_Containers claim \<rparr>) (dev_Claims spec))
      | _ \<Rightarrow> [])"

definition anyContainerMatches :: "PodTemplate \<Rightarrow> string list \<Rightarrow> bool" where
  "anyContainerMatches pod targets \<longleftrightarrow>
     (if targets = [] then pod_Containers pod \<noteq> []
      else list_ex (\<lambda>target. list_ex (\<lambda>c. ct_Name c = target) (pod_Containers pod)) targets)"

definition hasPodResourceClaim :: "PodTemplate \<Rightarrow> string \<Rightarrow> bool" where
  "hasPodResourceClaim pod name \<longleftrightarrow> list_ex (\<lambda>rc. prc_Name rc = name) (pod_ResourceClaims pod)"

definition shouldAttachClaim :: "string \<Rightarrow> string list \<Rightarrow> bool" where
  "shouldAttachClaim containerName targetContainers \<longleftrightarrow>
     targetContainers = [] \<or> list_ex (\<lambda>name. name = containerName) targetContainers"

definition addContainerResourceClaim :: "string \<Rightarrow> Container \<Rightarrow> Container" where
  "addContainerResourceClaim claimName container =
     (if list_ex (\<lambda>rc. rc = claimName) (ct_Claims container) then container
      else container\<lparr> ct_Claims := ct_Claims container @ [claimName] \<rparr>)"

definition inject_claim :: "DRAClaimInjection \<Rightarrow> PodTemplate \<Rightarrow> PodTemplate" where
  "inject_claim claim pod =
     (if \<not> anyContainerMatches pod (dci_Containers claim) then pod
      else let pod1 =
             (if \<not> hasPodResourceClaim pod (dci_ClaimName claim)
              then pod\<lparr> pod_ResourceClaims := pod_ResourceClaims pod @
                     [\<lparr> prc_Name = dci_ClaimName claim,
                        prc_ResourceClaimTemplateName = Some (dci_TemplateName claim),
                        prc_ResourceClaimName = None \<rparr>] \<rparr>
              else pod)
           in pod1\<lparr> pod_Containers := map (\<lambda>c.
                if shouldAttachClaim (ct_Name c) (dci_Containers claim)
                then addContainerResourceClaim (dci_ClaimName claim) c else c) (pod_Containers pod1) \<rparr>)"

definition InjectDRAClaims :: "DRAClaimInjection list \<Rightarrow> Spec \<Rightarrow> Spec" where
  "InjectDRAClaims claims spec =
     spec\<lparr> ss_ReplicatedJobs :=
       map (\<lambda>rj. rj\<lparr> rj_Template := fold inject_claim claims (rj_Template rj) \<rparr>) (ss_ReplicatedJobs spec) \<rparr>"

section \<open>The renderer (\<open>render.go\<close>)\<close>

record RenderInput =
  ri_RTJ :: ResumableTrainingJob
  ri_RunAttempt :: int
  ri_JobSetName :: string
  ri_ControlConfigMapName :: string
  ri_ResumeManifestURI :: string
  ri_AdmittedCounts :: "(string \<times> int) list option"
  ri_OriginalWorldSize :: int
  ri_AllowWorldSizeChange :: bool
  ri_AdmittedFlavor :: string
  ri_TopologyResult :: "ParseResult option"
  ri_PodSetUpdates :: "string \<rightharpoonup> PodSetUpdateEntry"
  ri_DRAClaims :: "DRAClaimInjection list"
  ri_ElasticTargetWorkerCount :: int

text \<open>Replacing the first element with the same name, or appending.\<close>

fun ensure_named :: "('a \<Rightarrow> string) \<Rightarrow> 'a \<Rightarrow> 'a list \<Rightarrow> 'a list" where
  "ensure_named name x [] = [x]"
| "ensure_named name x (y # ys) = (if name y = name x then x # ys else y # ensure_named name x ys)"

definition ensureVolume :: "Volume \<Rightarrow> PodTemplate \<Rightarrow> PodTemplate" where
  "ensureVolume volume pod = pod\<lparr> pod_Volumes := ensure_named vol_Name volume (pod_Volumes pod) \<rparr>"

definition ensureVolumeMount :: "VolumeMount \<Rightarrow> Container \<Rightarrow> Container" where
  "ensureVolumeMount mount container =
     container\<lparr> ct_VolumeMounts := ensure_named vm_Name mount (ct_VolumeMounts container) \<rparr>"

definition upsertEnv :: "string \<times> string \<Rightarrow> Container \<Rightarrow> Container" where
  "upsertEnv nv container =
     container\<lparr> ct_Env := ensure_named env_Name
       \<lparr> env_Name = fst nv, env_Value = snd nv, env_ValueFrom = None \<rparr> (ct_Env container) \<rparr>"

definition total_count :: "(string \<times> int) list \<Rightarrow> int" where
  "total_count counts = fold (\<lambda>kc total. wrap32 (total + snd kc)) counts 0"

definition computeEffectiveWorldSize :: "(string \<times> int) list option \<Rightarrow> int \<Rightarrow> int" where
  "computeEffectiveWorldSize admittedCounts originalWorldSize =
     (case admittedCounts of
        None \<Rightarrow> originalWorldSize
      | Some counts \<Rightarrow>
          if counts \<noteq> [] \<and> total_count counts > 0 then total_count counts else originalWorldSize)"

definition resolveWorkerName :: "ResumableTrainingJob \<Rightarrow> Spec \<Rightarrow> string" where
  "resolveWorkerName rtj spec =
     (let name = EffectivePodSetName rtj in
      if name = [] \<and> ss_ReplicatedJobs spec \<noteq> [] then rj_Name (hd (ss_ReplicatedJobs spec)) else name)"

definition FormatBool :: "bool \<Rightarrow> string" where
  "FormatBool b = (if b then ''true'' else ''false'')"

definition env_writes :: "RenderInput \<Rightarrow> (string \<times> string) list" where
  "env_writes input =
     (let storage = cp_StorageURI (sp_Checkpoint (rtj_Spec (ri_RTJ input))) in
      [(''YIELD_SDK_STORAGE_URI'', storage),
       (''YIELD_SDK_CONTROL_FILE'', ''/var/run/yield-sdk/control/control.json''),
       (''YIELD_SDK_RUN_ATTEMPT'', itoa (ri_RunAttempt input)),
       (''YIELD_SDK_STAGING_ROOT'', ''/var/lib/yield-sdk/staging''),
       (''YIELD_SDK_RESTORE_ROOT'', ''/var/lib/yield-sdk/restore''),
       (''YIELD_SDK_YIELD_MARKER_PATH'', ''/var/lib/yield-sdk/yield-complete.json''),
       (''YIELD_SDK_YIELD_MARKER_URI'', YieldMarkerURI storage (ri_RunAttempt input)),
       (''YIELD_SDK_RTJ_IDENTITY'', rtj_Name (ri_RTJ input)),
       (''YIELD_SDK_CLUSTER_IDENTITY'', ''phase1-kind'')] @
      (if ri_ResumeManifestURI input \<noteq> ''''
       then [(''YIELD_SDK_RESTORE_MANIFEST_URI'', ri_ResumeManifestURI input)] else []) @
      (if ri_ElasticTargetWorkerCount input > 0
       then [(''YIELD_SDK_TARGET_WORKER_COUNT'', itoa (ri_ElasticTargetWorkerCount input))] else []) @
      (if ri_OriginalWorldSize input > 0
       then [(''YIELD_SDK_WORLD_SIZE'',
              itoa (computeEffectiveWorldSize (ri_AdmittedCounts input) (ri_OriginalWorldSize input))),
             (''YIELD_SDK_ORIGINAL_WORLD_SIZE'', itoa (ri_OriginalWorldSize input)),
             (''YIELD_SDK_ALLOW_WORLD_SIZE_CHANGE'', FormatBool (ri_AllowWorldSizeChange input))] @
            (if ri_AdmittedFlavor input \<noteq> ''''
             then [(''YIELD_SDK_ADMITTED_FLAVOR'', ri_AdmittedFlavor input)] else [])
       else []))"

definition render_container :: "RenderInput \<Rightarrow> Container \<Rightarrow> Container" where
  "render_container input c =
     ensureVolumeMount \<lparr> vm_Name = ''yield-sdk-staging'', vm_MountPath = ''/var/lib/yield-sdk'', vm_ReadOnly = False,
          vm_Rest = '''' \<rparr>
      (ensureVolumeMount \<lparr> vm_Name = ''yield-sdk-control'', vm_MountPath = ''/var/run/yield-sdk/control'',
          vm_ReadOnly = True, vm_Rest = '''' \<rparr>
        (fold upsertEnv (env_writes input) c))"

definition render_pod :: "RenderInput \<Rightarrow> PodTemplate \<Rightarrow> PodTemplate" where
  "render_pod input pod =
     (let pod1 = ensureVolume \<lparr> vol_Name = ''yield-sdk-control'', vol_Source =
                   ConfigMapVolume (ri_ControlConfigMapName input) [(''control.json'', ''control.json'')] \<rparr> pod;
          pod2 = ensureVolume \<lparr> vol_Name = ''yield-sdk-staging'', vol_Source = EmptyDirVolume \<rparr> pod1
      in pod2\<lparr> pod_Containers := map (render_container input) (pod_Containers pod2) \<rparr>)"

definition render_job :: "render_env \<Rightarrow> RenderInput \<Rightarrow> ReplicatedJob \<Rightarrow> ReplicatedJob" where
  "render_job R input rj =
     (let rj1 = (case ri_AdmittedCounts input of
                   None \<Rightarrow> rj
                 | Some counts \<Rightarrow>
                     (case map_of counts (rj_Name rj) of
                        None \<Rightarrow> rj | Some count \<Rightarrow> applyAdmittedReplicaCount count rj));
          rj2 = stripKueuePodTemplateLabels R rj1
      in rj2\<lparr> rj_Template := render_pod input (rj_Template rj2) \<rparr>)"

definition render_object :: "render_env \<Rightarrow> RenderInput \<Rightarrow> Spec \<Rightarrow> Object" where
  "render_object R input spec =
     (let rtj = ri_RTJ input;
          template = rt_Template (sp_Runtime (rtj_Spec rtj));
          (labels, annotations) =
            (case tpl_Metadata template of
               None \<Rightarrow> (Map.empty, Map.empty) | Some m \<Rightarrow> (em_Labels m, em_Annotations m));
          obj = \<lparr> ob_APIVersion = tpl_APIVersion template, ob_Kind = tpl_Kind template,
                  ob_Name = ri_JobSetName input, ob_Namespace = rtj_Namespace rtj,
                  ob_Labels = labels, ob_Annotations = annotations, ob_Spec = spec \<rparr>;
          obj1 = stripKueueManagementMetadata R obj
      in obj1\<lparr> ob_Labels := (ob_Labels obj1)
                 (''training.checkpoint.example.io/managed-by'' \<mapsto> ''resumabletrainingjob-controller'',
                  ''training.checkpoint.example.io/rtj-name'' \<mapsto> rtj_Name rtj,
                  ''training.checkpoint.example.io/run-attempt'' \<mapsto> itoa (ri_RunAttempt input)),
               ob_Spec := spec\<lparr> ss_ReplicatedJobs := map (render_job R input) (ss_ReplicatedJobs spec) \<rparr> \<rparr>)"

text \<open>The three injections that follow: topology, pod-set updates, device claims.\<close>

definition inject_all :: "render_env \<Rightarrow> RenderInput \<Rightarrow> Spec \<Rightarrow> go_err + Spec" where
  "inject_all R input spec =
     (case InjectTopology R spec (resolveWorkerName (ri_RTJ input) spec) (ri_TopologyResult input) of
        Inl err \<Rightarrow> Inl (''inject topology: '' @ err)
      | Inr (_, spec1) \<Rightarrow>
          (case ApplyPodSetUpdates R spec1 (ri_PodSetUpdates input) of (result, spec2) \<Rightarrow>
             if \<not> apr_Applied result then Inl (''apply podSetUpdates: '' @ ConflictMessage result)
             else Inr (if ri_DRAClaims input \<noteq> [] then InjectDRAClaims (ri_DRAClaims input) spec2 else spec2)))"

definition RenderChildJobSet :: "render_env \<Rightarrow> RenderInput \<Rightarrow> go_err + Object" where
  "RenderChildJobSet R input =
     (case ParseTemplate R (tpl_Spec (rt_Template (sp_Runtime (rtj_Spec (ri_RTJ input))))) of
        Inl err \<Rightarrow> Inl err
      | Inr spec \<Rightarrow>
          (let obj = render_object R input spec in
           map_sum id (\<lambda>s. obj\<lparr> ob_Spec := s \<rparr>) (inject_all R input (ob_Spec obj))))"

definition ToUnstructured :: "render_env \<Rightarrow> Object \<Rightarrow> go_err + Object" where
  "ToUnstructured R obj =
     (case re_ToUnstructured R obj of
        Some err \<Rightarrow> Inl (''convert rendered JobSet to unstructured: '' @ err) | None \<Rightarrow> Inr obj)"

definition RenderChildJobSetUnstructured :: "render_env \<Rightarrow> RenderInput \<Rightarrow> go_err + Object" where
  "RenderChildJobSetUnstructured R input =
     (case RenderChildJobSet R input of
        Inl err \<Rightarrow> Inl (''render child JobSet: '' @ err) | Inr obj \<Rightarrow> ToUnstructured R obj)"


section \<open>Lists keyed by name\<close>

lemma find_ensure_named:
  "find (\<lambda>y. name y = n) (ensure_named name x xs) = (if n = name x then Some x else find (\<lambda>y. name y = n) xs)"
  by (induction xs) auto

lemma ensure_named_distinct: "distinct (map name xs) \<Longrightarrow> distinct (map name (ensure_named name x xs))"
proof -
  have "set (map name (ensure_named name x ys)) = insert (name x) (set (map name ys))" for ys
    by (induction ys) auto
  then show "distinct (map name xs) \<Longrightarrow> ?thesis" by (induction xs) auto
qed

text \<open>The value a container sees under a name.\<close>

definition env_of :: "Container \<Rightarrow> string \<Rightarrow> EnvVar option" where
  "env_of c n = find (\<lambda>e. env_Name e = n) (ct_Env c)"

lemma env_of_upsertEnv:
  "env_of (upsertEnv nv c) n =
     (if n = fst nv then Some \<lparr> env_Name = fst nv, env_Value = snd nv, env_ValueFrom = None \<rparr> else env_of c n)"
  by (simp add: env_of_def upsertEnv_def find_ensure_named)

lemma env_of_fold_upsertEnv:
  assumes "distinct (map fst ws)"
  shows "env_of (fold upsertEnv ws c) n =
    (case map_of ws n of
       None \<Rightarrow> env_of c n | Some v \<Rightarrow> Some \<lparr> env_Name = n, env_Value = v, env_ValueFrom = None \<rparr>)"
  using assms
proof (induction ws arbitrary: c)
  case (Cons w ws)
  then have "map_of ws (fst w) = None" by (simp add: map_of_eq_None_iff)
  with Cons show ?case by (cases w) (auto simp: env_of_upsertEnv split: option.split)
qed simp

lemma env_of_mounts [simp]: "env_of (ensureVolumeMount m c) n = env_of c n"
  by (simp add: env_of_def ensureVolumeMount_def)

lemma env_writes_distinct: "distinct (map fst (env_writes input))"
  by (cases "ri_ResumeManifestURI input = []"; cases "ri_ElasticTargetWorkerCount input > 0";
      cases "ri_OriginalWorldSize input > 0"; cases "ri_AdmittedFlavor input = []")
     (simp_all add: env_writes_def Let_def)

lemma env_of_render_container:
  "env_of (render_container input c) n =
    (case map_of (env_writes input) n of
       None \<Rightarrow> env_of c n | Some v \<Rightarrow> Some \<lparr> env_Name = n, env_Value = v, env_ValueFrom = None \<rparr>)"
  by (simp add: render_container_def env_of_fold_upsertEnv env_writes_distinct)

lemma ct_Name_render [simp]: "ct_Name (render_container input c) = ct_Name c"
proof -
  have "ct_Name (fold upsertEnv ws c) = ct_Name c" for ws
    by (induction ws arbitrary: c) (simp_all add: upsertEnv_def)
  then show ?thesis by (simp add: render_container_def ensureVolumeMount_def)
qed

section \<open>Additive updates\<close>

text \<open>An update agrees with a map where both are defined.\<close>

definition agrees :: "strmap \<Rightarrow> strmap \<Rightarrow> bool" where
  "agrees dst src \<longleftrightarrow> (\<forall>k v w. src k = Some v \<longrightarrow> dst k = Some w \<longrightarrow> v = w)"

definition visits :: "render_env \<Rightarrow> strmap \<Rightarrow> bool" where
  "visits R m \<longleftrightarrow> set (re_Order R m) = dom m"

definition visits_entry :: "render_env \<Rightarrow> PodSetUpdateEntry \<Rightarrow> bool" where
  "visits_entry R u \<longleftrightarrow> visits R (pue_Labels u) \<and> visits R (pue_Annotations u) \<and> visits R (pue_NodeSelector u)"

definition agrees_entry :: "PodTemplate \<Rightarrow> PodSetUpdateEntry \<Rightarrow> bool" where
  "agrees_entry pod u \<longleftrightarrow> agrees (pod_Labels pod) (pue_Labels u)
     \<and> agrees (pod_Annotations pod) (pue_Annotations u) \<and> agrees (pod_NodeSelector pod) (pue_NodeSelector u)"

definition entry_below :: "PodSetUpdateEntry \<Rightarrow> PodTemplate \<Rightarrow> bool" where
  "entry_below u pod \<longleftrightarrow> pue_Labels u \<subseteq>\<^sub>m pod_Labels pod \<and> pue_Annotations u \<subseteq>\<^sub>m pod_Annotations pod
     \<and> pue_NodeSelector u \<subseteq>\<^sub>m pod_NodeSelector pod
     \<and> list_all (\<lambda>t. t \<in> set (pod_Tolerations pod)) (pue_Tolerations u)"

definition pod_below :: "PodTemplate \<Rightarrow> PodTemplate \<Rightarrow> bool" where
  "pod_below p q \<longleftrightarrow> pod_Labels p \<subseteq>\<^sub>m pod_Labels q \<and> pod_Annotations p \<subseteq>\<^sub>m pod_Annotations q
     \<and> pod_NodeSelector p \<subseteq>\<^sub>m pod_NodeSelector q \<and> set (pod_Tolerations p) \<subseteq> set (pod_Tolerations q)"

lemma map_filter_Nil_iff: "List.map_filter f xs = [] \<longleftrightarrow> (\<forall>x \<in> set xs. f x = None)"
  by (induction xs) (auto simp: List.map_filter_simps split: option.splits)

lemma applyMapAdditive_Nil:
  assumes "visits R src"
  shows "applyMapAdditive R dst src n f = [] \<longleftrightarrow> agrees dst src"
proof -
  have "applyMapAdditive R dst src n f = [] \<longleftrightarrow>
      (\<forall>k \<in> dom src. \<forall>v w. src k = Some v \<longrightarrow> dst k = Some w \<longrightarrow> w = v)"
    using assms by (auto simp: applyMapAdditive_def map_filter_Nil_iff visits_def split: option.splits if_splits)
  then show ?thesis by (auto simp: agrees_def)
qed

lemma merge_additive_below:
  assumes "visits R src"
  shows "dst \<subseteq>\<^sub>m merge_additive (applyMapAdditive R dst src n f) dst src"
  using applyMapAdditive_Nil [OF assms, of dst n f]
  by (auto simp: merge_additive_def agrees_def map_le_def map_add_def split: option.split)

lemma merge_additive_above: "src \<subseteq>\<^sub>m merge_additive [] dst src"
  by (simp add: merge_additive_def)

lemma appendUnique_mono: "set dst \<subseteq> set (appendUniqueTolerations dst src)"
  by (induction dst src rule: appendUniqueTolerations.induct) auto

lemma containsToleration_iff: "containsToleration ts t \<longleftrightarrow> t \<in> set ts"
proof -
  have "(tol_Key x = tol_Key t \<and> tol_Operator x = tol_Operator t \<and> tol_Value x = tol_Value t
      \<and> tol_Effect x = tol_Effect t \<and> tol_TolerationSeconds x = tol_TolerationSeconds t) \<longleftrightarrow> x = t" for x
    by (cases x; cases t) auto
  then show ?thesis by (auto simp: containsToleration_def list_ex_iff)
qed

lemma appendUnique_set: "set (appendUniqueTolerations dst src) = set dst \<union> set src"
  by (induction dst src rule: appendUniqueTolerations.induct) (auto simp: containsToleration_iff)

lemma apply_update_correct:
  assumes "visits_entry R u"
  shows "fst (apply_update R u rj) = [] \<longleftrightarrow> agrees_entry (rj_Template rj) u"
    and "pod_below (rj_Template rj) (rj_Template (snd (apply_update R u rj)))"
    and "fst (apply_update R u rj) = [] \<Longrightarrow> entry_below u (rj_Template (snd (apply_update R u rj)))"
    and "rj_Name (snd (apply_update R u rj)) = rj_Name rj"
proof -
  note v = assms [unfolded visits_entry_def]
  show "fst (apply_update R u rj) = [] \<longleftrightarrow> agrees_entry (rj_Template rj) u"
    using v by (simp add: apply_update_def Let_def agrees_entry_def applyMapAdditive_Nil)
  show "pod_below (rj_Template rj) (rj_Template (snd (apply_update R u rj)))"
    using v by (auto simp: apply_update_def Let_def pod_below_def appendUnique_set
        intro!: merge_additive_below)
  show "fst (apply_update R u rj) = [] \<Longrightarrow> entry_below u (rj_Template (snd (apply_update R u rj)))"
    by (auto simp: apply_update_def Let_def entry_below_def appendUnique_set list_all_iff merge_additive_above)
  show "rj_Name (snd (apply_update R u rj)) = rj_Name rj"
    by (simp add: apply_update_def Let_def)
qed

lemma apply_updates_loop_eq:
  "apply_updates_loop R updates jobs =
     (let rs = map (\<lambda>rj. case updates (rj_Name rj) of None \<Rightarrow> ([], rj) | Some u \<Rightarrow> apply_update R u rj) jobs
      in (concat (map fst rs), map snd rs))"
  by (induction jobs) (simp_all add: Let_def split_beta)


lemma ApplyPodSetUpdates_parts:
  assumes "ApplyPodSetUpdates R spec updates = (res, spec')"
  shows "apr_Applied res \<longleftrightarrow> (\<forall>rj \<in> set (ss_ReplicatedJobs spec). \<forall>u. updates (rj_Name rj) = Some u \<longrightarrow>
      fst (apply_update R u rj) = [])"
    and "length (ss_ReplicatedJobs spec') = length (ss_ReplicatedJobs spec)"
    and "i < length (ss_ReplicatedJobs spec) \<Longrightarrow> ss_ReplicatedJobs spec' ! i =
      (case updates (rj_Name (ss_ReplicatedJobs spec ! i)) of
         None \<Rightarrow> ss_ReplicatedJobs spec ! i | Some u \<Rightarrow> snd (apply_update R u (ss_ReplicatedJobs spec ! i)))"
  using assms
  by (auto simp: ApplyPodSetUpdates_def apply_updates_loop_eq Let_def split: option.splits)

section \<open>Device claims are injected once\<close>

definition claim_done :: "DRAClaimInjection \<Rightarrow> PodTemplate \<Rightarrow> bool" where
  "claim_done claim pod \<longleftrightarrow>
     anyContainerMatches pod (dci_Containers claim) \<longrightarrow>
       hasPodResourceClaim pod (dci_ClaimName claim)
       \<and> (\<forall>c \<in> set (pod_Containers pod). shouldAttachClaim (ct_Name c) (dci_Containers claim) \<longrightarrow>
            dci_ClaimName claim \<in> set (ct_Claims c))"

lemma addClaim_simps [simp]:
  "ct_Name (addContainerResourceClaim n c) = ct_Name c"
  "set (ct_Claims (addContainerResourceClaim n c)) = insert n (set (ct_Claims c))"
  "n \<in> set (ct_Claims c) \<Longrightarrow> addContainerResourceClaim n c = c"
  by (auto simp: addContainerResourceClaim_def list_ex_iff)

lemma anyContainerMatches_iff:
  "anyContainerMatches pod ts \<longleftrightarrow>
     (let ns = map ct_Name (pod_Containers pod) in if ts = [] then ns \<noteq> [] else \<exists>t \<in> set ts. t \<in> set ns)"
  by (auto simp: anyContainerMatches_def list_ex_iff)

lemma anyContainerMatches_names:
  "map ct_Name (pod_Containers p) = map ct_Name (pod_Containers q) \<Longrightarrow>
     anyContainerMatches p ts = anyContainerMatches q ts"
  by (simp only: anyContainerMatches_iff)

lemma inject_claim_names:
  "map ct_Name (pod_Containers (inject_claim claim pod)) = map ct_Name (pod_Containers pod)"
  by (auto simp: inject_claim_def Let_def)

lemma inject_claim_done: "claim_done claim (inject_claim claim pod)"
  using anyContainerMatches_names [OF inject_claim_names]
  by (auto simp: claim_done_def inject_claim_def Let_def hasPodResourceClaim_def)

lemma inject_claim_id: "claim_done claim pod \<Longrightarrow> inject_claim claim pod = pod"
proof -
  assume d: "claim_done claim pod"
  have "map (\<lambda>c. if shouldAttachClaim (ct_Name c) (dci_Containers claim)
      then addContainerResourceClaim (dci_ClaimName claim) c else c) (pod_Containers pod) = pod_Containers pod"
    if "anyContainerMatches pod (dci_Containers claim)"
    using d that by (intro map_idI) (simp add: claim_done_def)
  with d show ?thesis by (simp add: inject_claim_def claim_done_def)
qed

lemma inject_claim_keeps_done: "claim_done claim pod \<Longrightarrow> claim_done claim (inject_claim other pod)"
  using anyContainerMatches_names [OF inject_claim_names]
  by (auto simp: claim_done_def inject_claim_def Let_def hasPodResourceClaim_def)

lemma fold_inject_done: "\<forall>claim \<in> set claims. claim_done claim (fold inject_claim claims pod)"
proof (induction claims arbitrary: pod)
  case (Cons claim claims)
  have "claim_done claim p \<Longrightarrow> claim_done claim (fold inject_claim cs p)" for cs p
    by (induction cs arbitrary: p) (simp_all add: inject_claim_keeps_done)
  with Cons inject_claim_done show ?case by simp
qed simp

lemma fold_inject_id: "\<forall>claim \<in> set claims. claim_done claim pod \<Longrightarrow> fold inject_claim claims pod = pod"
  by (induction claims) (simp_all add: inject_claim_id)

lemma fold_inject_names:
  "map ct_Name (pod_Containers (fold inject_claim claims pod)) = map ct_Name (pod_Containers pod)"
  by (induction claims arbitrary: pod) (simp_all add: inject_claim_names)


lemma fold_inject_fields [simp]:
  "pod_Labels (fold inject_claim claims pod) = pod_Labels pod"
  "pod_Annotations (fold inject_claim claims pod) = pod_Annotations pod"
  "pod_NodeSelector (fold inject_claim claims pod) = pod_NodeSelector pod"
  "pod_Tolerations (fold inject_claim claims pod) = pod_Tolerations pod"
  "pod_Volumes (fold inject_claim claims pod) = pod_Volumes pod"
  by (induction claims arbitrary: pod) (simp_all add: inject_claim_def Let_def)

lemma fold_inject_envs:
  "map ct_Env (pod_Containers (fold inject_claim claims pod)) = map ct_Env (pod_Containers pod)"
proof (induction claims arbitrary: pod)
  case (Cons claim claims)
  have "map ct_Env (pod_Containers (inject_claim claim pod)) = map ct_Env (pod_Containers pod)"
    by (auto simp: inject_claim_def Let_def addContainerResourceClaim_def)
  with Cons show ?case by simp
qed simp

lemma apply_update_fields [simp]:
  "pod_Containers (rj_Template (snd (apply_update R u rj))) = pod_Containers (rj_Template rj)"
  "pod_Volumes (rj_Template (snd (apply_update R u rj))) = pod_Volumes (rj_Template rj)"
  "rj_Replicas (snd (apply_update R u rj)) = rj_Replicas rj"
  by (simp_all add: apply_update_def Let_def)

section \<open>The injections in closed form\<close>

definition topology_of :: "RenderInput \<Rightarrow> ReplicatedJob \<Rightarrow> PodSetTopology option" where
  "topology_of input rj =
     (case ri_TopologyResult input of None \<Rightarrow> None | Some topo \<Rightarrow> map_of (pres_PodSets topo) (rj_Name rj))"

definition placement :: "RenderInput \<Rightarrow> ReplicatedJob \<Rightarrow> strmap" where
  "placement input rj = CommonNodeSelector (topology_of input rj)"

text \<open>The maps that rendering ranges over, for one job of the template.\<close>

definition ranges_ok :: "render_env \<Rightarrow> RenderInput \<Rightarrow> ReplicatedJob \<Rightarrow> bool" where
  "ranges_ok R input rj \<longleftrightarrow> visits R (placement input rj)
     \<and> (\<forall>u. ri_PodSetUpdates input (rj_Name rj) = Some u \<longrightarrow> visits_entry R u)"

text \<open>A job after the node selector of its topology was added.\<close>

definition placed :: "RenderInput \<Rightarrow> ReplicatedJob \<Rightarrow> ReplicatedJob" where
  "placed input rj = add_selector (placement input rj) rj"

lemma add_selector_empty [simp]: "add_selector Map.empty rj = rj"
  by (simp add: add_selector_def)

lemma add_selector_simps [simp]:
  "rj_Name (add_selector sel rj) = rj_Name rj" "rj_Replicas (add_selector sel rj) = rj_Replicas rj"
  "pod_Containers (rj_Template (add_selector sel rj)) = pod_Containers (rj_Template rj)"
  "pod_Volumes (rj_Template (add_selector sel rj)) = pod_Volumes (rj_Template rj)"
  "pod_NodeSelector (rj_Template (add_selector sel rj)) = pod_NodeSelector (rj_Template rj) ++ sel"
  by (simp_all add: add_selector_def)

lemma inject_loop_eq:
  assumes "\<forall>rj \<in> set jobs. visits R (CommonNodeSelector (map_of (pres_PodSets topo) (rj_Name rj)))"
  shows "(\<forall>rj \<in> set jobs. fst (CanRepresentInJobSet (map_of (pres_PodSets topo) (rj_Name rj)))) \<Longrightarrow>
      \<exists>res'. inject_loop R topo res jobs =
        Inr (res', map (\<lambda>rj. add_selector (CommonNodeSelector (map_of (pres_PodSets topo) (rj_Name rj))) rj) jobs)"
    and "\<not> (\<forall>rj \<in> set jobs. fst (CanRepresentInJobSet (map_of (pres_PodSets topo) (rj_Name rj)))) \<Longrightarrow>
      \<exists>e. inject_loop R topo res jobs = Inl e"
proof -
  have empty: "add_selector m rj = rj" if "visits R m" "re_Order R m = []" for m rj
  proof -
    have "{} = dom m" using that by (simp add: visits_def)
    from this [symmetric] show ?thesis by simp
  qed
  have none: "CommonNodeSelector None = Map.empty" by (simp add: CommonNodeSelector_def)
  have ok: "\<exists>res'. inject_loop R topo res jobs =
      Inr (res', map (\<lambda>rj. add_selector (CommonNodeSelector (map_of (pres_PodSets topo) (rj_Name rj))) rj) jobs)"
    if "\<forall>rj \<in> set jobs. fst (CanRepresentInJobSet (map_of (pres_PodSets topo) (rj_Name rj)))" for res
    using that assms
  proof (induction jobs arbitrary: res)
    case (Cons rj jobs)
    let ?sel = "\<lambda>rj. CommonNodeSelector (map_of (pres_PodSets topo) (rj_Name rj))"
    have ih: "\<exists>res'. inject_loop R topo r jobs = Inr (res', map (\<lambda>rj. add_selector (?sel rj) rj) jobs)" for r
      using Cons.prems by (intro Cons.IH) simp_all
    obtain r1 r2 where r: "inject_loop R topo res jobs = Inr (r1, map (\<lambda>rj. add_selector (?sel rj) rj) jobs)"
      "inject_loop R topo \<lparr> tir_Injected = True, tir_NodeSelector = ?sel rj \<rparr> jobs =
         Inr (r2, map (\<lambda>rj. add_selector (?sel rj) rj) jobs)"
      using ih by meson
    show ?case
    proof (cases "map_of (pres_PodSets topo) (rj_Name rj)")
      case None
      then show ?thesis using r(1) by (simp add: none)
    next
      case (Some pst)
      then show ?thesis using r Cons.prems empty [of "?sel rj" rj] by (simp add: split_beta Let_def)
    qed
  qed simp
  then show "(\<forall>rj \<in> set jobs. fst (CanRepresentInJobSet (map_of (pres_PodSets topo) (rj_Name rj)))) \<Longrightarrow>
      \<exists>res'. inject_loop R topo res jobs =
        Inr (res', map (\<lambda>rj. add_selector (CommonNodeSelector (map_of (pres_PodSets topo) (rj_Name rj))) rj) jobs)" .
  have "\<exists>e. inject_loop R topo res jobs = Inl e"
    if "\<not> (\<forall>rj \<in> set jobs. fst (CanRepresentInJobSet (map_of (pres_PodSets topo) (rj_Name rj))))" for res
    using that
  proof (induction jobs arbitrary: res)
    case (Cons rj jobs)
    let ?rep = "\<lambda>rj. fst (CanRepresentInJobSet (map_of (pres_PodSets topo) (rj_Name rj)))"
    have none: "fst (CanRepresentInJobSet None)" by (simp add: CanRepresentInJobSet_def)
    show ?case
    proof (cases "?rep rj")
      case True
      then have "\<exists>e. inject_loop R topo r jobs = Inl e" for r
        using Cons.prems by (intro Cons.IH) simp
      then obtain e1 e2 where "inject_loop R topo res jobs = Inl e1" "inject_loop R topo
          \<lparr> tir_Injected = True, tir_NodeSelector = CommonNodeSelector (map_of (pres_PodSets topo) (rj_Name rj)) \<rparr> jobs = Inl e2"
        by meson
      then show ?thesis using True
        by (cases "map_of (pres_PodSets topo) (rj_Name rj)") (simp_all add: split_beta Let_def)
    next
      case False
      with none show ?thesis by (cases "map_of (pres_PodSets topo) (rj_Name rj)") (simp_all add: split_beta)
    qed
  qed simp
  then show "\<not> (\<forall>rj \<in> set jobs. fst (CanRepresentInJobSet (map_of (pres_PodSets topo) (rj_Name rj)))) \<Longrightarrow>
      \<exists>e. inject_loop R topo res jobs = Inl e" .
qed

lemma InjectTopology_eq:
  assumes "\<forall>rj \<in> set (ss_ReplicatedJobs spec). ranges_ok R input rj"
  shows "(\<forall>rj \<in> set (ss_ReplicatedJobs spec). fst (CanRepresentInJobSet (topology_of input rj))) \<Longrightarrow>
      \<exists>res. InjectTopology R spec w (ri_TopologyResult input) =
        Inr (res, spec\<lparr> ss_ReplicatedJobs := map (placed input) (ss_ReplicatedJobs spec) \<rparr>)"
    and "\<not> (\<forall>rj \<in> set (ss_ReplicatedJobs spec). fst (CanRepresentInJobSet (topology_of input rj))) \<Longrightarrow>
      \<exists>e. InjectTopology R spec w (ri_TopologyResult input) = Inl e"
proof -
  let ?none = "\<lparr> tir_Injected = False, tir_NodeSelector = Map.empty \<rparr>"
  have id: "map (placed input) jobs = jobs" if "ri_TopologyResult input = None" for jobs
    using that by (intro map_idI) (simp add: placed_def placement_def topology_of_def CommonNodeSelector_def)
  have rep: "fst (CanRepresentInJobSet None)" by (simp add: CanRepresentInJobSet_def)
  note loop = inject_loop_eq [of "ss_ReplicatedJobs spec" R "the (ri_TopologyResult input)" ?none]
  { assume "\<forall>rj \<in> set (ss_ReplicatedJobs spec). fst (CanRepresentInJobSet (topology_of input rj))"
    then show "\<exists>res. InjectTopology R spec w (ri_TopologyResult input) =
        Inr (res, spec\<lparr> ss_ReplicatedJobs := map (placed input) (ss_ReplicatedJobs spec) \<rparr>)"
      using loop(1) assms id
      by (cases "ri_TopologyResult input")
         (auto simp: InjectTopology_def ranges_ok_def placement_def topology_of_def placed_def [abs_def] Let_def) }
  { assume "\<not> (\<forall>rj \<in> set (ss_ReplicatedJobs spec). fst (CanRepresentInJobSet (topology_of input rj)))"
    then show "\<exists>e. InjectTopology R spec w (ri_TopologyResult input) = Inl e"
      using loop(2) assms rep
      by (cases "ri_TopologyResult input")
         (auto simp: InjectTopology_def ranges_ok_def placement_def topology_of_def Let_def) }
qed


text \<open>A job of the template, rendered and placed; the pod-set updates and the device claims follow.\<close>

definition staged :: "render_env \<Rightarrow> RenderInput \<Rightarrow> ReplicatedJob \<Rightarrow> ReplicatedJob" where
  "staged R input rj = placed input (render_job R input rj)"

lemma render_job_simps [simp]:
  "rj_Name (render_job R input rj) = rj_Name rj"
  "pod_Containers (rj_Template (render_job R input rj)) = map (render_container input) (pod_Containers (rj_Template rj))"
  by (simp_all add: render_job_def stripKueuePodTemplateLabels_def applyAdmittedReplicaCount_def render_pod_def
      ensureVolume_def Let_def split: option.split)

lemma topology_of_render [simp]: "topology_of input (render_job R input rj) = topology_of input rj"
  by (simp add: topology_of_def split: option.split)

lemma placement_render [simp]: "placement input (render_job R input rj) = placement input rj"
  by (simp add: placement_def)

lemma ranges_ok_render [simp]: "ranges_ok R input (render_job R input rj) = ranges_ok R input rj"
  by (simp add: ranges_ok_def)

text \<open>The volumes a rendered pod mounts.\<close>

lemma render_pod_volumes:
  "find (\<lambda>v. vol_Name v = ''yield-sdk-control'') (pod_Volumes (rj_Template (render_job R input rj))) =
     Some \<lparr> vol_Name = ''yield-sdk-control'',
            vol_Source = ConfigMapVolume (ri_ControlConfigMapName input) [(''control.json'', ''control.json'')] \<rparr>"
  by (simp add: render_job_def Let_def render_pod_def ensureVolume_def find_ensure_named)

definition admitted_replicas :: "RenderInput \<Rightarrow> ReplicatedJob \<Rightarrow> int option" where
  "admitted_replicas input rj =
     (case ri_AdmittedCounts input of
        None \<Rightarrow> rj_Replicas rj
      | Some counts \<Rightarrow>
          (case map_of counts (rj_Name rj) of
             None \<Rightarrow> rj_Replicas rj
           | Some n \<Rightarrow> if n \<le> 0 then rj_Replicas rj else Some (max 1 (n div max 1 (podsPerReplica rj)))))"

lemma render_job_replicas: "rj_Replicas (render_job R input rj) = admitted_replicas input rj"
  by (simp add: render_job_def admitted_replicas_def stripKueuePodTemplateLabels_def applyAdmittedReplicaCount_def
      Let_def max_def split: option.split)

section \<open>When rendering succeeds\<close>

definition renderable :: "render_env \<Rightarrow> RenderInput \<Rightarrow> ReplicatedJob \<Rightarrow> bool" where
  "renderable R input rj \<longleftrightarrow> fst (CanRepresentInJobSet (topology_of input rj))
     \<and> (\<forall>u. ri_PodSetUpdates input (rj_Name rj) = Some u \<longrightarrow>
          agrees_entry (rj_Template (staged R input rj)) u)"

text \<open>The job that results from a template job.\<close>

definition final_job_of :: "render_env \<Rightarrow> RenderInput \<Rightarrow> ReplicatedJob \<Rightarrow> ReplicatedJob" where
  "final_job_of R input rj =
     (let rj1 = staged R input rj;
          rj2 = (case ri_PodSetUpdates input (rj_Name rj) of None \<Rightarrow> rj1 | Some u \<Rightarrow> snd (apply_update R u rj1))
      in rj2\<lparr> rj_Template := fold inject_claim (ri_DRAClaims input) (rj_Template rj2) \<rparr>)"

lemma apply_all:
  assumes "\<forall>rj \<in> set jobs. ranges_ok R input rj"
  shows "fst (ApplyPodSetUpdates R (spec\<lparr> ss_ReplicatedJobs := map (staged R input) jobs \<rparr>) (ri_PodSetUpdates input)) =
      \<lparr> apr_Applied = True, apr_Conflicts = [] \<rparr> \<longleftrightarrow>
      (\<forall>rj \<in> set jobs. \<forall>u. ri_PodSetUpdates input (rj_Name rj) = Some u \<longrightarrow>
          agrees_entry (rj_Template (staged R input rj)) u)" (is "?A \<longleftrightarrow> ?B")
proof -
  have name: "rj_Name (staged R input rj) = rj_Name rj" for rj by (simp add: staged_def placed_def)
  have "?A \<longleftrightarrow> (\<forall>rj \<in> set jobs. \<forall>u. ri_PodSetUpdates input (rj_Name rj) = Some u \<longrightarrow>
      fst (apply_update R u (staged R input rj)) = [])"
    by (auto simp: ApplyPodSetUpdates_def apply_updates_loop_eq Let_def name split: option.splits)
  then show ?thesis using assms apply_update_correct(1) by (simp add: ranges_ok_def)
qed

lemma inject_all_eq:
  assumes "\<forall>rj \<in> set jobs. ranges_ok R input rj"
  shows "\<forall>rj \<in> set jobs. renderable R input rj \<Longrightarrow>
      inject_all R input (spec\<lparr> ss_ReplicatedJobs := map (render_job R input) jobs \<rparr>) =
        Inr (spec\<lparr> ss_ReplicatedJobs := map (final_job_of R input) jobs \<rparr>)"
    and "\<not> (\<forall>rj \<in> set jobs. renderable R input rj) \<Longrightarrow>
      \<exists>e. inject_all R input (spec\<lparr> ss_ReplicatedJobs := map (render_job R input) jobs \<rparr>) = Inl e"
proof -
  let ?s0 = "spec\<lparr> ss_ReplicatedJobs := map (render_job R input) jobs \<rparr>"
  let ?s1 = "spec\<lparr> ss_ReplicatedJobs := map (staged R input) jobs \<rparr>"
  let ?rep = "\<forall>rj \<in> set jobs. fst (CanRepresentInJobSet (topology_of input rj))"
  let ?ag = "\<forall>rj \<in> set jobs. \<forall>u. ri_PodSetUpdates input (rj_Name rj) = Some u \<longrightarrow>
          agrees_entry (rj_Template (staged R input rj)) u"
  have name: "rj_Name (staged R input rj) = rj_Name rj" for rj by (simp add: staged_def placed_def)
  have r0: "\<forall>rj \<in> set (ss_ReplicatedJobs ?s0). ranges_ok R input rj" using assms by simp
  note topo = InjectTopology_eq [OF r0]
  have split: "(\<forall>rj \<in> set jobs. renderable R input rj) \<longleftrightarrow> ?rep \<and> ?ag" by (auto simp: renderable_def)
  have rep0: "?rep \<longleftrightarrow> (\<forall>rj \<in> set (ss_ReplicatedJobs ?s0). fst (CanRepresentInJobSet (topology_of input rj)))"
    by simp
  have placed: "?s0\<lparr> ss_ReplicatedJobs := map (placed input) (ss_ReplicatedJobs ?s0) \<rparr> = ?s1"
    by (simp add: staged_def [abs_def] comp_def)
  have claims: "map (\<lambda>rj. rj\<lparr> rj_Template := fold inject_claim [] (rj_Template rj) \<rparr>) xs = xs" for xs
    by (intro map_idI) simp
  have upd: "snd (ApplyPodSetUpdates R ?s1 (ri_PodSetUpdates input)) = spec\<lparr> ss_ReplicatedJobs :=
      map (\<lambda>rj. case ri_PodSetUpdates input (rj_Name rj) of
                 None \<Rightarrow> staged R input rj | Some u \<Rightarrow> snd (apply_update R u (staged R input rj))) jobs \<rparr>"
    by (simp add: ApplyPodSetUpdates_def apply_updates_loop_eq Let_def name split: option.split)
  have final: "(if ri_DRAClaims input \<noteq> [] then InjectDRAClaims (ri_DRAClaims input)
        (snd (ApplyPodSetUpdates R ?s1 (ri_PodSetUpdates input))) else snd (ApplyPodSetUpdates R ?s1 (ri_PodSetUpdates input)))
      = spec\<lparr> ss_ReplicatedJobs := map (final_job_of R input) jobs \<rparr>"
    unfolding upd by (simp add: InjectDRAClaims_def final_job_of_def Let_def)
  have res: "apr_Applied (fst (ApplyPodSetUpdates R ?s1 (ri_PodSetUpdates input))) \<longleftrightarrow> ?ag"
    using apply_all [OF assms, of spec] by (simp add: ApplyPodSetUpdates_def Let_def split_beta)
  { assume "\<forall>rj \<in> set jobs. renderable R input rj"
    then have ?rep ?ag using split by simp_all
    with topo(1) rep0 obtain r where
      "InjectTopology R ?s0 (resolveWorkerName (ri_RTJ input) ?s0) (ri_TopologyResult input) = Inr (r, ?s1)"
      unfolding placed by blast
    then show "inject_all R input ?s0 = Inr (spec\<lparr> ss_ReplicatedJobs := map (final_job_of R input) jobs \<rparr>)"
      using res \<open>?ag\<close> final by (simp add: inject_all_def split_beta) }
  { assume n: "\<not> (\<forall>rj \<in> set jobs. renderable R input rj)"
    show "\<exists>e. inject_all R input ?s0 = Inl e"
    proof (cases ?rep)
      case True
      with topo(1) rep0 obtain r where
        "InjectTopology R ?s0 (resolveWorkerName (ri_RTJ input) ?s0) (ri_TopologyResult input) = Inr (r, ?s1)"
        unfolding placed by blast
      then show ?thesis using res True n split by (simp add: inject_all_def split_beta)
    next
      case False
      with topo(2) rep0 obtain e where
        "InjectTopology R ?s0 (resolveWorkerName (ri_RTJ input) ?s0) (ri_TopologyResult input) = Inl e" by blast
      then show ?thesis by (simp add: inject_all_def)
    qed }
qed


lemma RenderChildJobSet_eq:
  assumes "ParseTemplate R (tpl_Spec (rt_Template (sp_Runtime (rtj_Spec (ri_RTJ input))))) = Inr spec"
    and "\<forall>rj \<in> set (ss_ReplicatedJobs spec). ranges_ok R input rj"
  shows "\<forall>rj \<in> set (ss_ReplicatedJobs spec). renderable R input rj \<Longrightarrow>
      RenderChildJobSet R input = Inr ((render_object R input spec)\<lparr> ob_Spec :=
        spec\<lparr> ss_ReplicatedJobs := map (final_job_of R input) (ss_ReplicatedJobs spec) \<rparr> \<rparr>)"
    and "\<not> (\<forall>rj \<in> set (ss_ReplicatedJobs spec). renderable R input rj) \<Longrightarrow>
      \<exists>e. RenderChildJobSet R input = Inl e"
proof -
  have s: "ob_Spec (render_object R input spec) =
      spec\<lparr> ss_ReplicatedJobs := map (render_job R input) (ss_ReplicatedJobs spec) \<rparr>"
    by (simp add: render_object_def Let_def stripKueueManagementMetadata_def split_beta)
  note eq = inject_all_eq [OF assms(2), where spec = spec]
  show "RenderChildJobSet R input = Inr ((render_object R input spec)\<lparr> ob_Spec :=
        spec\<lparr> ss_ReplicatedJobs := map (final_job_of R input) (ss_ReplicatedJobs spec) \<rparr> \<rparr>)"
    if "\<forall>rj \<in> set (ss_ReplicatedJobs spec). renderable R input rj"
    using eq(1) [OF that] assms(1) by (simp add: RenderChildJobSet_def s Let_def)
  show "\<exists>e. RenderChildJobSet R input = Inl e"
    if "\<not> (\<forall>rj \<in> set (ss_ReplicatedJobs spec). renderable R input rj)"
    using eq(2) [OF that] assms(1) by (auto simp: RenderChildJobSet_def s Let_def)
qed

lemma final_job_of_correct:
  assumes "ranges_ok R input rj" and "renderable R input rj"
  shows "rj_Name (final_job_of R input rj) = rj_Name rj"
    and "rj_Replicas (final_job_of R input rj) = admitted_replicas input rj"
    and "map ct_Name (pod_Containers (rj_Template (final_job_of R input rj))) =
      map ct_Name (pod_Containers (rj_Template rj))"
    and "map ct_Env (pod_Containers (rj_Template (final_job_of R input rj))) =
      map (ct_Env o render_container input) (pod_Containers (rj_Template rj))"
    and "placement input rj \<subseteq>\<^sub>m pod_NodeSelector (rj_Template (final_job_of R input rj))"
    and "ri_PodSetUpdates input (rj_Name rj) = Some u \<Longrightarrow> entry_below u (rj_Template (final_job_of R input rj))"
    and "claim \<in> set (ri_DRAClaims input) \<Longrightarrow> claim_done claim (rj_Template (final_job_of R input rj))"
    and "find (\<lambda>v. vol_Name v = ''yield-sdk-control'') (pod_Volumes (rj_Template (final_job_of R input rj))) =
      Some \<lparr> vol_Name = ''yield-sdk-control'',
             vol_Source = ConfigMapVolume (ri_ControlConfigMapName input) [(''control.json'', ''control.json'')] \<rparr>"
proof -
  let ?rj1 = "staged R input rj"
  let ?rj2 = "case ri_PodSetUpdates input (rj_Name rj) of None \<Rightarrow> ?rj1 | Some u \<Rightarrow> snd (apply_update R u ?rj1)"
  have f: "final_job_of R input rj = ?rj2\<lparr> rj_Template := fold inject_claim (ri_DRAClaims input) (rj_Template ?rj2) \<rparr>"
    by (simp add: final_job_of_def Let_def)
  have v: "visits_entry R u" and n: "fst (apply_update R u ?rj1) = []" if "ri_PodSetUpdates input (rj_Name rj) = Some u" for u
    using assms that apply_update_correct(1) by (auto simp: ranges_ok_def renderable_def)
  have k: "rj_Name ?rj2 = rj_Name rj" "rj_Replicas ?rj2 = admitted_replicas input rj"
    "pod_Containers (rj_Template ?rj2) = map (render_container input) (pod_Containers (rj_Template rj))"
    "pod_Volumes (rj_Template ?rj2) = pod_Volumes (rj_Template (render_job R input rj))"
    using v apply_update_correct(4)
    by (auto simp: staged_def placed_def render_job_replicas split: option.split)
  have "pod_below (rj_Template ?rj1) (rj_Template ?rj2)"
    using v apply_update_correct(2) by (auto simp: pod_below_def split: option.split)
  then have "pod_NodeSelector (rj_Template ?rj1) \<subseteq>\<^sub>m pod_NodeSelector (rj_Template ?rj2)" by (simp add: pod_below_def)
  then have sel: "placement input rj \<subseteq>\<^sub>m pod_NodeSelector (rj_Template ?rj2)"
    by (metis (no_types, lifting) staged_def placed_def placement_render add_selector_simps(5) map_le_map_add map_le_trans)
  show "rj_Name (final_job_of R input rj) = rj_Name rj" "rj_Replicas (final_job_of R input rj) = admitted_replicas input rj"
    by (simp_all add: f k)
  show "map ct_Name (pod_Containers (rj_Template (final_job_of R input rj))) = map ct_Name (pod_Containers (rj_Template rj))"
    by (simp add: f fold_inject_names k)
  show "map ct_Env (pod_Containers (rj_Template (final_job_of R input rj))) =
      map (ct_Env o render_container input) (pod_Containers (rj_Template rj))"
    by (simp add: f fold_inject_envs k)
  show "placement input rj \<subseteq>\<^sub>m pod_NodeSelector (rj_Template (final_job_of R input rj))" using sel by (simp add: f)
  show "ri_PodSetUpdates input (rj_Name rj) = Some u \<Longrightarrow> entry_below u (rj_Template (final_job_of R input rj))"
    using v n apply_update_correct(3) by (fastforce simp: f entry_below_def)
  show "claim \<in> set (ri_DRAClaims input) \<Longrightarrow> claim_done claim (rj_Template (final_job_of R input rj))"
    using fold_inject_done by (simp add: f)
  show "find (\<lambda>v. vol_Name v = ''yield-sdk-control'') (pod_Volumes (rj_Template (final_job_of R input rj))) =
      Some \<lparr> vol_Name = ''yield-sdk-control'',
             vol_Source = ConfigMapVolume (ri_ControlConfigMapName input) [(''control.json'', ''control.json'')] \<rparr>"
    by (simp add: f k render_pod_volumes)
qed

text \<open>The environment of every container of a job.\<close>

lemma env_of_containers:
  assumes "map ct_Env cs = map (ct_Env o render_container input) ds"
    and "c \<in> set cs" and "map_of (env_writes input) n = Some v"
  shows "env_of c n = Some \<lparr> env_Name = n, env_Value = v, env_ValueFrom = None \<rparr>"
proof -
  have "ct_Env c \<in> set (map ct_Env cs)" using assms(2) by simp
  then obtain d where "ct_Env c = ct_Env (render_container input d)" unfolding assms(1) by auto
  then have "env_of c n = env_of (render_container input d) n" by (simp add: env_of_def)
  then show ?thesis using assms(3) by (simp add: env_of_render_container)
qed


section \<open>Properties\<close>

text \<open>
  Pod-set updates are additive.  Applying the updates succeeds exactly when no update contradicts a
  label, an annotation or a node selector of its pod template; no existing entry of a pod template is ever
  overwritten or lost, conflict or not; after success every update is present in its template, tolerations
  included.
\<close>
theorem ApplyPodSetUpdates_additive:
  assumes "ApplyPodSetUpdates R spec updates = (res, spec')"
    and "\<forall>rj \<in> set (ss_ReplicatedJobs spec). \<forall>u. updates (rj_Name rj) = Some u \<longrightarrow> visits_entry R u"
  shows "(apr_Applied res \<longleftrightarrow> (\<forall>rj \<in> set (ss_ReplicatedJobs spec). \<forall>u.
             updates (rj_Name rj) = Some u \<longrightarrow> agrees_entry (rj_Template rj) u))
    \<and> length (ss_ReplicatedJobs spec') = length (ss_ReplicatedJobs spec)
    \<and> (\<forall>i < length (ss_ReplicatedJobs spec).
          pod_below (rj_Template (ss_ReplicatedJobs spec ! i)) (rj_Template (ss_ReplicatedJobs spec' ! i))
          \<and> (\<forall>u. apr_Applied res \<longrightarrow> updates (rj_Name (ss_ReplicatedJobs spec ! i)) = Some u \<longrightarrow>
               entry_below u (rj_Template (ss_ReplicatedJobs spec' ! i))))"
proof (intro conjI allI impI)
  note parts = ApplyPodSetUpdates_parts [OF assms(1)]
  show "apr_Applied res \<longleftrightarrow> (\<forall>rj \<in> set (ss_ReplicatedJobs spec). \<forall>u.
             updates (rj_Name rj) = Some u \<longrightarrow> agrees_entry (rj_Template rj) u)"
    using parts(1) assms(2) apply_update_correct(1) by simp
  show "length (ss_ReplicatedJobs spec') = length (ss_ReplicatedJobs spec)" by (rule parts(2))
  fix i assume i: "i < length (ss_ReplicatedJobs spec)"
  let ?rj = "ss_ReplicatedJobs spec ! i"
  have v: "visits_entry R u" if "updates (rj_Name ?rj) = Some u" for u
    using assms(2) nth_mem [OF i] that by blast
  show "pod_below (rj_Template ?rj) (rj_Template (ss_ReplicatedJobs spec' ! i))"
    using parts(3) [OF i] apply_update_correct(2) [OF v] by (auto simp: pod_below_def split: option.split)
  fix u assume "apr_Applied res" "updates (rj_Name ?rj) = Some u"
  then show "entry_below u (rj_Template (ss_ReplicatedJobs spec' ! i))"
    using parts(1) parts(3) [OF i] i apply_update_correct(3) [OF v] by simp
qed

text \<open>An environment and an input for the witnesses: one worker job, placed in a zone, labelled by an
  admission check, with one device claim.\<close>

definition ex_pod :: PodTemplate where
  "ex_pod = \<lparr> pod_Labels = [''kueue.x-k8s.io/podset'' \<mapsto> ''w''], pod_Annotations = Map.empty, pod_NodeSelector = Map.empty,
     pod_Tolerations = [], pod_Volumes = [], pod_Containers = [\<lparr> ct_Name = ''main'', ct_Env = [], ct_VolumeMounts = [],
     ct_Claims = [], ct_Rest = '''' \<rparr>], pod_ResourceClaims = [], pod_Rest = '''' \<rparr>"

definition ex_worker :: ReplicatedJob where
  "ex_worker = \<lparr> rj_Name = ''worker'', rj_Replicas = Some 2, rj_Parallelism = Some 2, rj_Completions = None,
     rj_Template = ex_pod, rj_Rest = '''' \<rparr>"

definition ex_render_env :: render_env where
  "ex_render_env = \<lparr> re_QueueLabel = ''kueue.x-k8s.io/queue-name'',
     re_WorkloadPriorityClassLabel = ''kueue.x-k8s.io/priority-class'',
     re_PrebuiltWorkloadLabel = ''kueue.x-k8s.io/prebuilt-workload-name'',
     re_MaxExecTimeSecondsLabel = ''kueue.x-k8s.io/max-exec-time-seconds'',
     re_ProvReqAnnotationPrefix = ''provreq.kueue.x-k8s.io/'',
     re_Decode = (\<lambda>raw. Inr \<lparr> ss_ReplicatedJobs = [ex_worker] \<rparr>), re_ToUnstructured = (\<lambda>_. None),
     re_Order = (\<lambda>m. filter (\<lambda>k. m k \<noteq> None) [''zone'', ''team'']) \<rparr>"

definition ex_update :: PodSetUpdateEntry where
  "ex_update = (empty_entry ''worker'')\<lparr> pue_Labels := [''team'' \<mapsto> ''a''] \<rparr>"

definition ex_render_input :: RenderInput where
  "ex_render_input =
     \<lparr> ri_RTJ = ex_job\<lparr> rtj_Spec := (rtj_Spec ex_job)\<lparr> sp_Runtime := (sp_Runtime (rtj_Spec ex_job))\<lparr> rt_Template :=
         (rt_Template (sp_Runtime (rtj_Spec ex_job)))\<lparr> tpl_Spec := ''{}'' \<rparr> \<rparr> \<rparr> \<rparr>,
       ri_RunAttempt = 3, ri_JobSetName = ''j-run-3'', ri_ControlConfigMapName = ''j-run-3-control'',
       ri_ResumeManifestURI = ''s3://b/m.json'', ri_AdmittedCounts = Some [(''worker'', 8)], ri_OriginalWorldSize = 8,
       ri_AllowWorldSizeChange = True, ri_AdmittedFlavor = '''',
       ri_TopologyResult = Some \<lparr> pres_PodSets = [(''worker'', \<lparr> pst_PodSetName = ''worker'', pst_Levels = [''zone''],
         pst_Domains = [\<lparr> dom_Labels = [''zone'' \<mapsto> ''z1''], dom_Count = 8 \<rparr>] \<rparr>)] \<rparr>,
       ri_PodSetUpdates = [''worker'' \<mapsto> ex_update],
       ri_DRAClaims = [\<lparr> dci_ClaimName = ''gpu'', dci_TemplateName = ''t'', dci_Containers = [] \<rparr>],
       ri_ElasticTargetWorkerCount = 0 \<rparr>"

lemma ex_visits: "dom m \<subseteq> {''zone'', ''team''} \<Longrightarrow> visits ex_render_env m"
  by (auto simp: visits_def ex_render_env_def dom_def)

lemma ex_update_visits: "visits_entry ex_render_env ex_update"
  by (simp add: visits_entry_def ex_update_def empty_entry_def ex_visits)

text \<open>
  C26: Rendering fails exactly when the embedded template cannot be parsed, or some replicated job has a
  topology assignment that one node selector cannot express, or an admission check suggests an entry that
  contradicts the rendered pod template.  In every other case a JobSet is rendered.
\<close>
theorem RenderChildJobSet_error:
  assumes "\<And>spec rj. ParseTemplate R (tpl_Spec (rt_Template (sp_Runtime (rtj_Spec (ri_RTJ input))))) = Inr spec \<Longrightarrow>
      rj \<in> set (ss_ReplicatedJobs spec) \<Longrightarrow> ranges_ok R input rj"
  shows "(\<exists>e. RenderChildJobSet R input = Inl e) \<longleftrightarrow>
    (case ParseTemplate R (tpl_Spec (rt_Template (sp_Runtime (rtj_Spec (ri_RTJ input))))) of
       Inl _ \<Rightarrow> True
     | Inr spec \<Rightarrow> (\<exists>rj \<in> set (ss_ReplicatedJobs spec).
           \<not> fst (CanRepresentInJobSet (topology_of input rj))
           \<or> (\<exists>u. ri_PodSetUpdates input (rj_Name rj) = Some u \<and> \<not> agrees_entry (rj_Template (staged R input rj)) u)))"
proof (cases "ParseTemplate R (tpl_Spec (rt_Template (sp_Runtime (rtj_Spec (ri_RTJ input)))))")
  case (Inl e)
  then show ?thesis by (simp add: RenderChildJobSet_def)
next
  case (Inr spec)
  then have "\<forall>rj \<in> set (ss_ReplicatedJobs spec). ranges_ok R input rj" using assms by blast
  note eq = RenderChildJobSet_eq [OF Inr this]
  have "(\<exists>e. RenderChildJobSet R input = Inl e) \<longleftrightarrow> \<not> (\<forall>rj \<in> set (ss_ReplicatedJobs spec). renderable R input rj)"
    using eq by (cases "\<forall>rj \<in> set (ss_ReplicatedJobs spec). renderable R input rj") simp_all
  with Inr show ?thesis by (auto simp: renderable_def)
qed

lemma ex_parse_template:
  "ParseTemplate ex_render_env (tpl_Spec (rt_Template (sp_Runtime (rtj_Spec (ri_RTJ ex_render_input))))) = Inr spec \<longleftrightarrow>
     spec = \<lparr> ss_ReplicatedJobs = [ex_worker] \<rparr>"
  by (auto simp: ParseTemplate_def ex_render_env_def ex_render_input_def)

lemma ex_ranges: "ranges_ok ex_render_env ex_render_input ex_worker"
  by (simp add: ranges_ok_def placement_def topology_of_def ex_render_input_def ex_worker_def ex_update_visits
      CommonNodeSelector_def IsSingleDomain_def ex_visits)

lemma ex_renderable: "renderable ex_render_env ex_render_input ex_worker"
proof -
  have l: "pod_Labels (rj_Template (staged ex_render_env ex_render_input ex_worker)) = Map.empty"
    by (simp add: staged_def placed_def add_selector_def render_job_def render_pod_def ensureVolume_def Let_def
        stripKueuePodTemplateLabels_def ex_render_input_def ex_worker_def applyAdmittedReplicaCount_def ex_pod_def
        drop_keys_def isKueueManagementLabel_def fun_eq_iff)
  show ?thesis
    by (simp add: renderable_def agrees_entry_def agrees_def l)
       (simp add: topology_of_def ex_render_input_def ex_worker_def CanRepresentInJobSet_def IsSingleDomain_def
          ex_update_def empty_entry_def)
qed

theorem RenderChildJobSet_error_witness:
  "\<not> (\<exists>e. RenderChildJobSet ex_render_env ex_render_input = Inl e)"
proof -
  have "ParseTemplate ex_render_env (tpl_Spec (rt_Template (sp_Runtime (rtj_Spec (ri_RTJ ex_render_input)))))
      = Inr \<lparr> ss_ReplicatedJobs = [ex_worker] \<rparr>" by (simp add: ex_parse_template)
  moreover have "ranges_ok ex_render_env ex_render_input rj"
    if "ParseTemplate ex_render_env (tpl_Spec (rt_Template (sp_Runtime (rtj_Spec (ri_RTJ ex_render_input))))) = Inr spec"
      "rj \<in> set (ss_ReplicatedJobs spec)" for spec rj
    using that ex_ranges by (simp add: ex_parse_template)
  ultimately show ?thesis
    using RenderChildJobSet_error [of ex_render_env ex_render_input] ex_renderable by (simp add: renderable_def)
qed

text \<open>What rendering promises of one replicated job of the template.\<close>

definition job_rendered :: "RenderInput \<Rightarrow> ReplicatedJob \<Rightarrow> ReplicatedJob \<Rightarrow> bool" where
  "job_rendered input rj rj' \<longleftrightarrow>
     rj_Name rj' = rj_Name rj
   \<and> rj_Replicas rj' = admitted_replicas input rj
   \<and> map ct_Name (pod_Containers (rj_Template rj')) = map ct_Name (pod_Containers (rj_Template rj))
   \<and> placement input rj \<subseteq>\<^sub>m pod_NodeSelector (rj_Template rj')
   \<and> (\<forall>u. ri_PodSetUpdates input (rj_Name rj) = Some u \<longrightarrow> entry_below u (rj_Template rj'))
   \<and> (\<forall>claim \<in> set (ri_DRAClaims input). claim_done claim (rj_Template rj'))
   \<and> find (\<lambda>v. vol_Name v = ''yield-sdk-control'') (pod_Volumes (rj_Template rj')) =
       Some \<lparr> vol_Name = ''yield-sdk-control'',
              vol_Source = ConfigMapVolume (ri_ControlConfigMapName input) [(''control.json'', ''control.json'')] \<rparr>
   \<and> (\<forall>c \<in> set (pod_Containers (rj_Template rj')). \<forall>n v. map_of (env_writes input) n = Some v \<longrightarrow>
        env_of c n = Some \<lparr> env_Name = n, env_Value = v, env_ValueFrom = None \<rparr>)"

lemma final_job_rendered:
  assumes "ranges_ok R input rj" and "renderable R input rj"
  shows "job_rendered input rj (final_job_of R input rj)"
  unfolding job_rendered_def
  using final_job_of_correct [OF assms] env_of_containers [OF final_job_of_correct(4) [OF assms]]
  by (intro conjI allI impI ballI) assumption+

text \<open>A rendered JobSet in terms of its template.\<close>

lemma RenderChildJobSet_InrD:
  assumes "ParseTemplate R (tpl_Spec (rt_Template (sp_Runtime (rtj_Spec (ri_RTJ input))))) = Inr spec"
    and "\<forall>rj \<in> set (ss_ReplicatedJobs spec). ranges_ok R input rj"
    and "RenderChildJobSet R input = Inr obj"
  shows "list_all2 (job_rendered input) (ss_ReplicatedJobs spec) (ob_Jobs obj)"
    and "ob_Name obj = ri_JobSetName input"
    and "ob_Labels obj ''training.checkpoint.example.io/run-attempt'' = Some (itoa (ri_RunAttempt input))"
    and "isKueueManagementLabel R k \<Longrightarrow> \<not> HasPrefix k ''training.checkpoint.example.io/'' \<Longrightarrow> ob_Labels obj k = None"
proof -
  note eq = RenderChildJobSet_eq [OF assms(1,2)]
  have ren: "\<forall>rj \<in> set (ss_ReplicatedJobs spec). renderable R input rj" using eq(2) assms(3) by force
  have obj: "obj = (render_object R input spec)\<lparr> ob_Spec :=
      spec\<lparr> ss_ReplicatedJobs := map (final_job_of R input) (ss_ReplicatedJobs spec) \<rparr> \<rparr>"
    using eq(1) [OF ren] assms(3) by simp
  show "list_all2 (job_rendered input) (ss_ReplicatedJobs spec) (ob_Jobs obj)"
    using assms(2) ren final_job_rendered by (simp add: obj list_all2_conv_all_nth)
  have labels: "ob_Labels obj = (drop_keys (isKueueManagementLabel R) (case tpl_Metadata (rt_Template (sp_Runtime
      (rtj_Spec (ri_RTJ input)))) of None \<Rightarrow> Map.empty | Some m \<Rightarrow> em_Labels m))
                 (''training.checkpoint.example.io/managed-by'' \<mapsto> ''resumabletrainingjob-controller'',
                  ''training.checkpoint.example.io/rtj-name'' \<mapsto> rtj_Name (ri_RTJ input),
                  ''training.checkpoint.example.io/run-attempt'' \<mapsto> itoa (ri_RunAttempt input))"
    by (simp add: obj render_object_def Let_def stripKueueManagementMetadata_def split: option.split)
  show "ob_Name obj = ri_JobSetName input"
    by (simp add: obj render_object_def Let_def stripKueueManagementMetadata_def split_beta)
  show "ob_Labels obj ''training.checkpoint.example.io/run-attempt'' = Some (itoa (ri_RunAttempt input))"
    by (simp add: labels)
  show "ob_Labels obj k = None" if "isKueueManagementLabel R k" "\<not> HasPrefix k ''training.checkpoint.example.io/''"
  proof -
    have "k \<noteq> ''training.checkpoint.example.io/'' @ t" for t using that(2) HasPrefix_append by blast
    from this [of "''managed-by''"] this [of "''rtj-name''"] this [of "''run-attempt''"] that(1)
    show ?thesis by (simp add: labels drop_keys_def)
  qed
qed

text \<open>
  C12: What a rendered JobSet contains.  It has the requested name, the run attempt among its labels and none
  of Kueue's management labels; its replicated jobs are those of the template, in order, with the admitted
  replica counts, the same containers, the node selector of their topology, the suggested pod-set updates,
  the control volume of this run attempt and the device claims; and every container sees the environment of
  the run, with the restore manifest whenever one was given.
\<close>
theorem RenderChildJobSet_correct:
  assumes "ParseTemplate R (tpl_Spec (rt_Template (sp_Runtime (rtj_Spec (ri_RTJ input))))) = Inr spec"
    and "\<forall>rj \<in> set (ss_ReplicatedJobs spec). ranges_ok R input rj"
    and "RenderChildJobSet R input = Inr obj"
  shows "ob_Name obj = ri_JobSetName input
    \<and> ob_Labels obj ''training.checkpoint.example.io/run-attempt'' = Some (itoa (ri_RunAttempt input))
    \<and> (\<forall>k. isKueueManagementLabel R k \<longrightarrow> \<not> HasPrefix k ''training.checkpoint.example.io/'' \<longrightarrow> ob_Labels obj k = None)
    \<and> list_all2 (job_rendered input) (ss_ReplicatedJobs spec) (ob_Jobs obj)
    \<and> (ri_ResumeManifestURI input \<noteq> '''' \<longrightarrow>
        (\<forall>rj \<in> set (ob_Jobs obj). \<forall>c \<in> set (pod_Containers (rj_Template rj)).
           env_of c ''YIELD_SDK_RESTORE_MANIFEST_URI'' = Some \<lparr> env_Name = ''YIELD_SDK_RESTORE_MANIFEST_URI'',
             env_Value = ri_ResumeManifestURI input, env_ValueFrom = None \<rparr>))"
proof -
  note parts = RenderChildJobSet_InrD [OF assms]
  have "map_of (env_writes input) ''YIELD_SDK_RESTORE_MANIFEST_URI'' = Some (ri_ResumeManifestURI input)"
    if "ri_ResumeManifestURI input \<noteq> ''''" using that by (simp add: env_writes_def Let_def)
  moreover have "\<exists>rj0. job_rendered input rj0 rj" if "rj \<in> set (ob_Jobs obj)" for rj
    using parts(1) that by (auto simp: list_all2_conv_all_nth in_set_conv_nth)
  ultimately have "env_of c ''YIELD_SDK_RESTORE_MANIFEST_URI'' = Some \<lparr> env_Name = ''YIELD_SDK_RESTORE_MANIFEST_URI'',
             env_Value = ri_ResumeManifestURI input, env_ValueFrom = None \<rparr>"
    if "ri_ResumeManifestURI input \<noteq> ''''" "rj \<in> set (ob_Jobs obj)" "c \<in> set (pod_Containers (rj_Template rj))" for rj c
    using that unfolding job_rendered_def by blast
  with parts show ?thesis by blast
qed

theorem RenderChildJobSet_correct_witness:
  "\<exists>obj. RenderChildJobSet ex_render_env ex_render_input = Inr obj \<and> ob_Name obj = ''j-run-3''"
proof -
  have p: "ParseTemplate ex_render_env (tpl_Spec (rt_Template (sp_Runtime (rtj_Spec (ri_RTJ ex_render_input)))))
      = Inr \<lparr> ss_ReplicatedJobs = [ex_worker] \<rparr>" by (simp add: ex_parse_template)
  have r: "\<forall>rj \<in> set (ss_ReplicatedJobs \<lparr> ss_ReplicatedJobs = [ex_worker] \<rparr>). ranges_ok ex_render_env ex_render_input rj"
    by (simp add: ex_ranges)
  obtain obj where x: "RenderChildJobSet ex_render_env ex_render_input = Inr obj"
    using RenderChildJobSet_eq(1) [OF p r] ex_renderable by auto
  from RenderChildJobSet_correct [OF p r x] x show ?thesis by (auto simp: ex_render_input_def)
qed

text \<open>
  Injecting device claims is idempotent, as the reconciler relies on when it renders again: a second
  injection changes nothing, and after the first one every targeted container of every job holds the claims.
\<close>
theorem InjectDRAClaims_idempotent:
  "InjectDRAClaims claims (InjectDRAClaims claims spec) = InjectDRAClaims claims spec
   \<and> (\<forall>rj \<in> set (ss_ReplicatedJobs (InjectDRAClaims claims spec)). \<forall>claim \<in> set claims.
        claim_done claim (rj_Template rj))"
  using fold_inject_done by (auto simp: InjectDRAClaims_def comp_def fold_inject_id)

end
