(* ===== verification/DRA.thy ===== *)
theory DRA
  imports Status_Helpers Kueue_Types "HOL-Library.Multiset"
begin

text \<open>
  Dynamic resource allocation, \<open>internal/dra\<close>: the device profile and its fingerprint (\<open>profile.go\<close>), the
  ResourceClaimTemplates a job should own (\<open>templates.go\<close>) and the summary of the allocation state of its
  ResourceClaims (\<open>claims.go\<close>).  SHA-256 is the parameter \<open>sha256\<close> (from the canonical text to the hex
  digest).  \<open>sort.Slice\<close> is modelled by a stable sort, one of the results it may give.
\<close>

section \<open>Go strings in order\<close>

fun str_less :: "string \<Rightarrow> string \<Rightarrow> bool" where
  "str_less _ [] = False"
| "str_less [] (_ # _) = True"
| "str_less (a # as) (b # bs) =
     (if (of_char a :: nat) < of_char b then True
      else if (of_char b :: nat) < of_char a then False else str_less as bs)"

lemma str_less_irrefl: "\<not> str_less s s"
  by (induction s) auto

lemma str_less_trans: "str_less a b \<Longrightarrow> str_less b c \<Longrightarrow> str_less a c"
proof (induction a b arbitrary: c rule: str_less.induct)
  case (2 b bs)
  then show ?case by (cases c) auto
next
  case (3 a as b bs)
  then show ?case by (cases c) (auto split: if_splits)
qed simp

lemma str_less_total: "str_less a b \<or> a = b \<or> str_less b a"
proof (induction a b rule: str_less.induct)
  case (1 a)
  then show ?case by (cases a) auto
next
  case (3 a as b bs)
  then show ?case by (auto simp: not_less_iff_gr_or_eq)
qed simp

lemma str_less_neg_trans: "\<not> str_less a b \<Longrightarrow> \<not> str_less b c \<Longrightarrow> \<not> str_less a c"
  using str_less_total str_less_trans by blast

interpretation str_order: weak_order str_less
  by unfold_locales (auto simp: str_less_irrefl intro: str_less_trans dest: str_less_neg_trans)

definition sort_Strings :: "string list \<Rightarrow> string list" where
  "sort_Strings = sort_stable str_less"

section \<open>Device profiles (\<open>profile.go\<close>)\<close>

fun Join :: "string list \<Rightarrow> string \<Rightarrow> string" where
  "Join [] sep = ''''"
| "Join [x] sep = x"
| "Join (x # xs) sep = x @ sep @ Join xs sep"

definition profile_entry :: "DeviceClaimSpec \<Rightarrow> string" where
  "profile_entry claim =
     ''class='' @ dr_DeviceClassName (dc_Request claim) @
     '';selectors='' @ Join (sort_Strings (dr_Selectors (dc_Request claim))) '','' @
     '';count='' @ itoa (dr_Count (dc_Request claim))"

text \<open>The text that is hashed.\<close>

definition canonicalForm :: "DeviceClaimSpec list \<Rightarrow> string" where
  "canonicalForm claims = Join (sort_Strings (map profile_entry claims)) [char_of (10 :: nat)]"

definition BuildProfile :: "(string \<Rightarrow> string) \<Rightarrow> DeviceSpec option \<Rightarrow> DeviceProfile" where
  "BuildProfile sha256 devices =
     (case devices of
        None \<Rightarrow> \<lparr> dp_Fingerprint = '''', dp_DeviceClasses = [] \<rparr>
      | Some d \<Rightarrow>
          if dev_Mode d \<noteq> DeviceModeDRA \<or> dev_Claims d = []
          then \<lparr> dp_Fingerprint = '''', dp_DeviceClasses = [] \<rparr>
          else \<lparr> dp_Fingerprint = sha256 (canonicalForm (dev_Claims d)),
                 dp_DeviceClasses = sort_Strings (remdups (map (dr_DeviceClassName o dc_Request) (dev_Claims d))) \<rparr>)"

definition DeviceProfile_IsEmpty :: "DeviceProfile \<Rightarrow> bool" where
  "DeviceProfile_IsEmpty p \<longleftrightarrow> dp_Fingerprint p = ''''"

definition TemplateNameForClaim :: "string \<Rightarrow> string \<Rightarrow> string" where
  "TemplateNameForClaim rtjName claimName = rtjName @ ''-'' @ claimName"

definition TemplateRefs :: "string \<Rightarrow> DeviceClaimSpec list \<Rightarrow> ResourceClaimTemplateReference list" where
  "TemplateRefs rtjName claims =
     sort_stable (\<lambda>a b. str_less (rct_ClaimName a) (rct_ClaimName b))
       (map (\<lambda>claim. \<lparr> rct_Name = TemplateNameForClaim rtjName (dc_Name claim), rct_ClaimName = dc_Name claim \<rparr>) claims)"

section \<open>Templates (\<open>templates.go\<close>)\<close>

text \<open>A selector holds an optional CEL expression.\<close>

record DeviceRequest =
  dreq_Name :: string
  dreq_DeviceClassName :: string
  dreq_Selectors :: "string option list"
  dreq_AllocationMode :: string
  dreq_Count :: int

record ResourceClaimTemplate =
  rcm_Name :: string
  rcm_Namespace :: string
  rcm_Labels :: strmap
  rcm_OwnerReferences :: "OwnerReference list"
  rcm_Requests :: "DeviceRequest list"

record DesiredTemplate =
  dt_Name :: string
  dt_ClaimName :: string
  dt_Template :: ResourceClaimTemplate

definition buildTemplate :: "ResumableTrainingJob \<Rightarrow> string \<Rightarrow> DeviceClaimSpec \<Rightarrow> ResourceClaimTemplate" where
  "buildTemplate rtj name claim =
     \<lparr> rcm_Name = name, rcm_Namespace = rtj_Namespace rtj,
       rcm_Labels = [''training.checkpoint.example.io/rtj-name'' \<mapsto> rtj_Name rtj,
                    ''training.checkpoint.example.io/claim-name'' \<mapsto> dc_Name claim,
                    ''training.checkpoint.example.io/managed-by'' \<mapsto> ''rtj-operator''],
       rcm_OwnerReferences = [\<lparr> own_APIVersion = ''training.checkpoint.example.io/v1alpha1'',
                    own_Kind = ''ResumableTrainingJob'', own_Name = rtj_Name rtj, own_UID = rtj_UID rtj \<rparr>],
       rcm_Requests = [\<lparr> dreq_Name = dc_Name claim @ ''-req'',
                    dreq_DeviceClassName = dr_DeviceClassName (dc_Request claim),
                    dreq_Selectors = map Some (dr_Selectors (dc_Request claim)),
                    dreq_AllocationMode = ''ExactCount'', dreq_Count = dr_Count (dc_Request claim) \<rparr>] \<rparr>"

definition BuildDesiredTemplates :: "ResumableTrainingJob \<Rightarrow> DesiredTemplate list" where
  "BuildDesiredTemplates rtj =
     (case sp_Devices (rtj_Spec rtj) of
        None \<Rightarrow> []
      | Some d \<Rightarrow>
          if dev_Mode d \<noteq> DeviceModeDRA then []
          else sort_stable (\<lambda>a b. str_less (dt_ClaimName a) (dt_ClaimName b))
                 (map (\<lambda>claim. let name = TemplateNameForClaim (rtj_Name rtj) (dc_Name claim) in
                         \<lparr> dt_Name = name, dt_ClaimName = dc_Name claim, dt_Template = buildTemplate rtj name claim \<rparr>)
                   (dev_Claims d)))"

definition selectorsEqual :: "string option list \<Rightarrow> string option list \<Rightarrow> bool" where
  "selectorsEqual a b \<longleftrightarrow> length a = length b
     \<and> list_all2 (\<lambda>x y. (case x of Some e \<Rightarrow> e | None \<Rightarrow> '''') = (case y of Some e \<Rightarrow> e | None \<Rightarrow> '''')) a b"

definition request_matches :: "DeviceRequest \<Rightarrow> DeviceRequest \<Rightarrow> bool" where
  "request_matches e d \<longleftrightarrow> dreq_Name e = dreq_Name d \<and> dreq_DeviceClassName e = dreq_DeviceClassName d
     \<and> dreq_Count e = dreq_Count d \<and> dreq_AllocationMode e = dreq_AllocationMode d
     \<and> selectorsEqual (dreq_Selectors e) (dreq_Selectors d)"

definition TemplateSpecMatches :: "ResourceClaimTemplate \<Rightarrow> ResourceClaimTemplate \<Rightarrow> bool" where
  "TemplateSpecMatches existing desired \<longleftrightarrow>
     length (rcm_Requests existing) = length (rcm_Requests desired)
     \<and> list_all2 request_matches (rcm_Requests existing) (rcm_Requests desired)"

section \<open>Claims (\<open>claims.go\<close>)\<close>

record DeviceState =
  dvs_Driver :: string
  dvs_Pool :: string
  dvs_Device :: string
  dvs_Conditions :: "Condition list"

record ResourceClaim =
  rc_Name :: string
  rc_Labels :: "strmap option"
  rc_Annotations :: strmap
  rc_Allocated :: bool
  rc_Devices :: "DeviceState list"

record ClaimAllocationSummary =
  cas_State :: ClaimAllocationState
  cas_TotalClaims :: int
  cas_AllocatedCount :: int
  cas_PendingCount :: int
  cas_FailedCount :: int
  cas_LastFailureReason :: string
  cas_LastFailureTime :: "gotime option"

definition isClaimAllocated :: "ResourceClaim \<Rightarrow> bool" where
  "isClaimAllocated claim \<longleftrightarrow> rc_Allocated claim"

definition isDeviceFailureCondition :: "Condition \<Rightarrow> bool" where
  "isDeviceFailureCondition cond \<longleftrightarrow>
     (if cond_Type cond = ''Ready'' \<and> cond_Status cond = ConditionFalse then True
      else if cond_Type cond = ''AllocationFailed'' \<or> cond_Type cond = ''Failed''
      then cond_Status cond = ConditionTrue
      else cond_Reason cond \<in> {''AllocationFailed'', ''DeviceAllocationFailed'', ''Unschedulable'',
             ''UnsatisfiedConstraints'', ''DriverError''})"

definition conditionFailureReason :: "Condition \<Rightarrow> string" where
  "conditionFailureReason cond =
     (if cond_Message cond \<noteq> '''' then cond_Reason cond @ '': '' @ cond_Message cond
      else if cond_Reason cond \<noteq> '''' then cond_Reason cond else cond_Type cond)"

text \<open>The first failing condition of the devices, in order.\<close>

definition checkDeviceFailures :: "ResourceClaim \<Rightarrow> (string \<times> gotime) option" where
  "checkDeviceFailures claim =
     (case find (\<lambda>(d, c). isDeviceFailureCondition c)
             (concat (map (\<lambda>d. map (Pair d) (dvs_Conditions d)) (rc_Devices claim))) of
        None \<Rightarrow> None
      | Some (d, c) \<Rightarrow>
          Some (''device '' @ dvs_Driver d @ ''/'' @ dvs_Pool d @ ''/'' @ dvs_Device d @ '': '' @ conditionFailureReason c,
                cond_LastTransitionTime c))"

definition claim_step :: "ResourceClaim \<Rightarrow> ClaimAllocationSummary \<Rightarrow> ClaimAllocationSummary" where
  "claim_step claim s =
     (if isClaimAllocated claim then
        (case checkDeviceFailures claim of
           Some (reason, failTime) \<Rightarrow>
             (let s1 = s\<lparr> cas_FailedCount := wrap32 (cas_FailedCount s + 1) \<rparr> in
              if (case cas_LastFailureTime s of None \<Rightarrow> True | Some t \<Rightarrow> failTime > t)
              then s1\<lparr> cas_LastFailureReason := reason, cas_LastFailureTime := Some failTime \<rparr>
              else s1)
         | None \<Rightarrow> s\<lparr> cas_AllocatedCount := wrap32 (cas_AllocatedCount s + 1) \<rparr>)
      else s\<lparr> cas_PendingCount := wrap32 (cas_PendingCount s + 1) \<rparr>)"

definition zero_summary :: ClaimAllocationSummary where
  "zero_summary = \<lparr> cas_State = ClaimAllocationUnset, cas_TotalClaims = 0, cas_AllocatedCount = 0,
     cas_PendingCount = 0, cas_FailedCount = 0, cas_LastFailureReason = '''', cas_LastFailureTime = None \<rparr>"

definition SummarizeClaimAllocations :: "ResourceClaim list \<Rightarrow> ClaimAllocationSummary" where
  "SummarizeClaimAllocations claims =
     (if claims = [] then zero_summary\<lparr> cas_State := ClaimAllocationUnknown \<rparr>
      else let s = fold claim_step claims (zero_summary\<lparr> cas_TotalClaims := wrap32 (int (length claims)) \<rparr>)
           in s\<lparr> cas_State :=
                (if cas_FailedCount s > 0 then ClaimAllocationFailed
                 else if cas_AllocatedCount s = cas_TotalClaims s then ClaimAllocationAllocated
                 else ClaimAllocationPending) \<rparr>)"

text \<open>The UID argument is unused by the code.  The set of template names is the list of its elements.\<close>

definition matchesRTJ :: "ResourceClaim \<Rightarrow> string \<Rightarrow> string \<Rightarrow> string list \<Rightarrow> bool" where
  "matchesRTJ claim rtjName rtjUID templateNames \<longleftrightarrow>
     (case rc_Labels claim of
        None \<Rightarrow> False | Some m \<Rightarrow> mget m ''training.checkpoint.example.io/rtj-name'' = rtjName)
     \<or> (case rc_Annotations claim ''resource.kubernetes.io/claim-template-name'' of
          None \<Rightarrow> False | Some templateName \<Rightarrow> templateName \<in> set templateNames)"

definition FilterClaimsForRTJ ::
  "ResourceClaim list \<Rightarrow> string \<Rightarrow> string \<Rightarrow> string list \<Rightarrow> ResourceClaim list" where
  "FilterClaimsForRTJ claims rtjName rtjUID templateNames =
     sort_stable (\<lambda>a b. str_less (rc_Name a) (rc_Name b))
       (filter (\<lambda>claim. matchesRTJ claim rtjName rtjUID templateNames) claims)"

section \<open>Sorting is canonical\<close>

lemma mset_ins_stable: "mset (ins_stable lt x xs) = add_mset x (mset xs)"
  by (induction xs) auto

lemma mset_sort_stable [simp]: "mset (sort_stable lt xs) = mset xs"
  by (induction xs) (simp_all add: mset_ins_stable)

lemma sorted_wrt_unique:
  assumes "sorted_wrt R xs" and "sorted_wrt R ys" and "mset xs = mset ys" and "\<And>a b. R a b \<Longrightarrow> R b a \<Longrightarrow> a = b"
  shows "xs = ys"
  using assms(1-3)
proof (induction xs arbitrary: ys)
  case (Cons x xs)
  then obtain y ys' where ys: "ys = y # ys'" by (cases ys) auto
  have "set (x # xs) = set (y # ys')" using Cons.prems(3) ys by (metis set_mset_mset)
  then have "x = y \<or> R x y \<and> R y x" using Cons.prems(1,2) ys by (metis list.set_intros(1) set_ConsD sorted_wrt.simps(2))
  then have "x = y" using assms(4) by blast
  with Cons ys show ?case by simp
qed simp

lemma sort_Strings_cong: "mset xs = mset ys \<Longrightarrow> sort_Strings xs = sort_Strings ys"
  unfolding sort_Strings_def
  by (rule sorted_wrt_unique [OF str_order.sort_sorted str_order.sort_sorted])
     (use str_less_total in \<open>auto\<close>)

lemma mset_sort_Strings [simp]: "mset (sort_Strings xs) = mset xs"
  by (simp add: sort_Strings_def)

section \<open>Reading a joined text back\<close>

lemma split_at:
  assumes "a @ s # x = b @ s # y" and "s \<notin> set a" and "s \<notin> set b"
  shows "a = b \<and> x = y"
proof -
  have "takeWhile (\<lambda>c. c \<noteq> s) (a @ s # x) = a" "takeWhile (\<lambda>c. c \<noteq> s) (b @ s # y) = b"
    using assms(2,3) by (auto simp: takeWhile_tail takeWhile_append2)
  with assms(1) show ?thesis by simp
qed

definition plain :: "char \<Rightarrow> string \<Rightarrow> bool" where
  "plain s x \<longleftrightarrow> x \<noteq> [] \<and> s \<notin> set x"

lemma Join_Cons: "Join (x # xs) sep = (if xs = [] then x else x @ sep @ Join xs sep)"
  by (cases xs) simp_all

lemma Join_inj:
  assumes "Join xs [s] = Join ys [s]" and "\<forall>x \<in> set xs. plain s x" and "\<forall>y \<in> set ys. plain s y"
  shows "xs = ys"
  using assms
proof (induction xs arbitrary: ys)
  case Nil
  then show ?case by (cases ys) (auto simp: Join_Cons plain_def split: if_splits)
next
  case (Cons x xs)
  then obtain y ys' where ys: "ys = y # ys'" by (cases ys) (auto simp: Join_Cons plain_def split: if_splits)
  have x: "s \<notin> set x" "s \<notin> set y" using Cons.prems ys by (auto simp: plain_def)
  have "s \<in> set (Join (x # xs) [s]) \<longleftrightarrow> xs \<noteq> []" "s \<in> set (Join ys [s]) \<longleftrightarrow> ys' \<noteq> []"
    using x ys by (auto simp: Join_Cons)
  then have e: "xs = [] \<longleftrightarrow> ys' = []" using Cons.prems(1) by simp
  show ?case
  proof (cases "xs = []")
    case True
    with e Cons.prems(1) ys show ?thesis by (simp add: Join_Cons)
  next
    case False
    with e Cons.prems(1) ys have "x @ s # Join xs [s] = y @ s # Join ys' [s]" by (simp add: Join_Cons)
    from split_at [OF this x] Cons ys show ?thesis by auto
  qed
qed

section \<open>What a fingerprint identifies\<close>

text \<open>A claim up to its name and the order of its selectors.\<close>

definition claim_view :: "DeviceClaimSpec \<Rightarrow> string \<times> string multiset \<times> int" where
  "claim_view claim = (dr_DeviceClassName (dc_Request claim), mset (dr_Selectors (dc_Request claim)), dr_Count (dc_Request claim))"

text \<open>Texts that do not contain the characters the canonical form uses as separators.\<close>

definition separable :: "DeviceClaimSpec \<Rightarrow> bool" where
  "separable claim \<longleftrightarrow> (let r = dc_Request claim in
     CHR '';'' \<notin> set (dr_DeviceClassName r) \<and> char_of (10 :: nat) \<notin> set (dr_DeviceClassName r)
     \<and> (\<forall>x \<in> set (dr_Selectors r). plain (CHR '','') x \<and> CHR '';'' \<notin> set x \<and> char_of (10 :: nat) \<notin> set x))"

lemma profile_entry_cong: "claim_view c = claim_view c' \<Longrightarrow> profile_entry c = profile_entry c'"
  using sort_Strings_cong [of "dr_Selectors (dc_Request c)" "dr_Selectors (dc_Request c')"]
  by (simp add: claim_view_def profile_entry_def)

lemma image_mset_factor:
  assumes "image_mset g A = image_mset g B" and "\<And>x y. g x = g y \<Longrightarrow> f x = f y"
  shows "image_mset f A = image_mset f B"
proof -
  have f: "f x = f (SOME y. g y = g x)" for x by (rule assms(2)) (rule someI2 [of _ x], auto)
  have "image_mset f X = image_mset (\<lambda>v. f (SOME y. g y = v)) (image_mset g X)" for X
    unfolding multiset.map_comp comp_def using f by (intro image_mset_cong) simp
  with assms(1) show ?thesis by simp
qed

lemma newline_eq [simp]:
  "char_of (10 :: nat) = c \<longleftrightarrow> of_char c = (10 :: nat)" "c = char_of (10 :: nat) \<longleftrightarrow> of_char c = (10 :: nat)"
proof -
  have "of_char (char_of (10 :: nat) :: char) = (10 :: nat)" by simp
  then show "char_of (10 :: nat) = c \<longleftrightarrow> of_char c = (10 :: nat)" "c = char_of (10 :: nat) \<longleftrightarrow> of_char c = (10 :: nat)"
    by (metis char_of_char)+
qed

lemma itoa_chars: "char_of (10 :: nat) \<notin> set (itoa i)"
  by (auto simp: itoa_def is_digit_def dest: utoa_digits split: if_splits)

lemma Join_chars: "c \<in> set (Join xs sep) \<Longrightarrow> c \<in> set sep \<or> (\<exists>x \<in> set xs. c \<in> set x)"
  by (induction xs sep rule: Join.induct) auto

lemma profile_entry_plain:
  assumes "separable claim"
  shows "plain (char_of (10 :: nat)) (profile_entry claim)"
proof -
  have "char_of (10 :: nat) \<notin> set (Join (sort_Strings (dr_Selectors (dc_Request claim))) '','')"
    using assms by (auto simp: separable_def Let_def sort_Strings_def dest!: Join_chars)
  then show ?thesis
    using assms itoa_chars by (auto simp: plain_def profile_entry_def separable_def Let_def)
qed

lemma profile_entry_inj:
  assumes "profile_entry c = profile_entry c'" and "separable c" and "separable c'"
  shows "claim_view c = claim_view c'"
proof -
  let ?c = "dc_Request c" and ?c' = "dc_Request c'"
  let ?J = "\<lambda>r. Join (sort_Strings (dr_Selectors r)) '',''"
  have e: "dr_DeviceClassName ?c @ CHR '';'' # ''selectors='' @ ?J ?c @ CHR '';'' # ''count='' @ itoa (dr_Count ?c) =
      dr_DeviceClassName ?c' @ CHR '';'' # ''selectors='' @ ?J ?c' @ CHR '';'' # ''count='' @ itoa (dr_Count ?c')"
    using assms(1) by (simp add: profile_entry_def)
  have s: "CHR '';'' \<notin> set (?J ?c)" "CHR '';'' \<notin> set (?J ?c')"
    using assms(2,3) by (auto simp: separable_def Let_def sort_Strings_def dest!: Join_chars)
  from split_at [OF e] assms(2,3) have n: "dr_DeviceClassName ?c = dr_DeviceClassName ?c'"
    and e2: "?J ?c @ CHR '';'' # ''count='' @ itoa (dr_Count ?c) = ?J ?c' @ CHR '';'' # ''count='' @ itoa (dr_Count ?c')"
    by (auto simp: separable_def Let_def)
  from split_at [OF e2 s] have j: "?J ?c = ?J ?c'" and i: "dr_Count ?c = dr_Count ?c'" by (auto dest: itoa_inj)
  have "sort_Strings (dr_Selectors ?c) = sort_Strings (dr_Selectors ?c')"
    by (rule Join_inj [OF j]) (use assms(2,3) in \<open>auto simp: separable_def Let_def sort_Strings_def\<close>)
  then have "mset (dr_Selectors ?c) = mset (dr_Selectors ?c')" by (metis mset_sort_Strings)
  with n i show ?thesis by (simp add: claim_view_def)
qed

lemma canonicalForm_cong:
  assumes "image_mset claim_view (mset cs) = image_mset claim_view (mset cs')"
  shows "canonicalForm cs = canonicalForm cs'"
proof -
  have "mset (map profile_entry cs) = mset (map profile_entry cs')"
    using image_mset_factor [OF assms profile_entry_cong] by simp
  then show ?thesis unfolding canonicalForm_def by (metis sort_Strings_cong)
qed

lemma image_mset_separable:
  assumes "image_mset profile_entry A = image_mset profile_entry B"
    and "\<forall>c \<in># A. separable c" and "\<forall>c \<in># B. separable c"
  shows "image_mset claim_view A = image_mset claim_view B"
proof -
  let ?g = "\<lambda>e. claim_view (SOME c. separable c \<and> profile_entry c = e)"
  have "?g (profile_entry c) = claim_view c" if "separable c" for c
  proof -
    have "separable (SOME c'. separable c' \<and> profile_entry c' = profile_entry c)
        \<and> profile_entry (SOME c'. separable c' \<and> profile_entry c' = profile_entry c) = profile_entry c"
      by (rule someI [of _ c]) (simp add: that)
    then show ?thesis using profile_entry_inj that by blast
  qed
  then have "image_mset claim_view X = image_mset ?g (image_mset profile_entry X)" if "\<forall>c \<in># X. separable c" for X
    using that unfolding multiset.map_comp comp_def by (intro image_mset_cong) simp
  from this [OF assms(2)] this [OF assms(3)] show ?thesis unfolding assms(1) by simp
qed

lemma canonicalForm_inj:
  assumes "canonicalForm cs = canonicalForm cs'"
    and "\<forall>c \<in> set cs. separable c" and "\<forall>c \<in> set cs'. separable c"
  shows "image_mset claim_view (mset cs) = image_mset claim_view (mset cs')"
proof -
  have "sort_Strings (map profile_entry cs) = sort_Strings (map profile_entry cs')"
    by (rule Join_inj [OF assms(1) [unfolded canonicalForm_def]])
       (use assms(2,3) profile_entry_plain in \<open>auto simp: sort_Strings_def\<close>)
  then have "image_mset profile_entry (mset cs) = image_mset profile_entry (mset cs')"
    by (metis mset_map mset_sort_Strings)
  then show ?thesis by (rule image_mset_separable) (use assms(2,3) in auto)
qed

text \<open>
  A device profile fingerprint identifies the requested devices.  It does not depend on the order of the claims,
  on their names or on the order of the selectors; and when the class names and selectors avoid the separator
  characters of the canonical form and the hash has no collision, two claim lists with the same fingerprint
  request the same devices.
\<close>

theorem BuildProfile_identifies:
  assumes "dev_Mode d = DeviceModeDRA" and "dev_Mode d' = DeviceModeDRA" and "dev_Claims d \<noteq> []" and "dev_Claims d' \<noteq> []"
  shows "(image_mset claim_view (mset (dev_Claims d)) = image_mset claim_view (mset (dev_Claims d')) \<longrightarrow>
            BuildProfile sha (Some d) = BuildProfile sha (Some d'))
     \<and> (inj sha \<longrightarrow> (\<forall>c \<in> set (dev_Claims d) \<union> set (dev_Claims d'). separable c) \<longrightarrow>
            dp_Fingerprint (BuildProfile sha (Some d)) = dp_Fingerprint (BuildProfile sha (Some d')) \<longrightarrow>
            image_mset claim_view (mset (dev_Claims d)) = image_mset claim_view (mset (dev_Claims d')))"
proof (intro conjI impI)
  assume v: "image_mset claim_view (mset (dev_Claims d)) = image_mset claim_view (mset (dev_Claims d'))"
  have "image_mset (dr_DeviceClassName \<circ> dc_Request) (mset (dev_Claims d)) =
      image_mset (dr_DeviceClassName \<circ> dc_Request) (mset (dev_Claims d'))"
    by (rule image_mset_factor [OF v]) (simp add: claim_view_def)
  then have "set (map (dr_DeviceClassName \<circ> dc_Request) (dev_Claims d)) = set (map (dr_DeviceClassName \<circ> dc_Request) (dev_Claims d'))"
    by (metis mset_map set_mset_mset)
  then have "mset (remdups (map (dr_DeviceClassName \<circ> dc_Request) (dev_Claims d))) =
      mset (remdups (map (dr_DeviceClassName \<circ> dc_Request) (dev_Claims d')))"
    by (simp only: set_eq_iff_mset_remdups_eq)
  from sort_Strings_cong [OF this] canonicalForm_cong [OF v] assms show "BuildProfile sha (Some d) = BuildProfile sha (Some d')"
    by (simp add: BuildProfile_def)
next
  assume "inj sha" and s: "\<forall>c \<in> set (dev_Claims d) \<union> set (dev_Claims d'). separable c"
    and "dp_Fingerprint (BuildProfile sha (Some d)) = dp_Fingerprint (BuildProfile sha (Some d'))"
  then have "canonicalForm (dev_Claims d) = canonicalForm (dev_Claims d')"
    using assms by (simp add: BuildProfile_def inj_eq)
  then show "image_mset claim_view (mset (dev_Claims d)) = image_mset claim_view (mset (dev_Claims d'))"
    by (rule canonicalForm_inj) (use s in auto)
qed

definition ex_claim :: "string \<Rightarrow> string list \<Rightarrow> DeviceClaimSpec" where
  "ex_claim n sel = \<lparr> dc_Name = n, dc_Containers = [],
     dc_Request = \<lparr> dr_DeviceClassName = ''gpu.example.com'', dr_Count = 2, dr_Selectors = sel \<rparr> \<rparr>"

text \<open>A selector with a comma is not separable: one CEL expression and two can have the same canonical form.\<close>

lemma selector_collision:
  "BuildProfile sha (Some \<lparr> dev_Mode = DeviceModeDRA, dev_Claims = [ex_claim ''a'' [''f(x,y)'']] \<rparr>)
   = BuildProfile sha (Some \<lparr> dev_Mode = DeviceModeDRA, dev_Claims = [ex_claim ''a'' [''f(x'', ''y)'']] \<rparr>)"
  by (simp add: BuildProfile_def canonicalForm_def profile_entry_def ex_claim_def sort_Strings_def)

section \<open>The summary of the claims\<close>

definition failure :: "ResourceClaim \<Rightarrow> (string \<times> gotime) option" where
  "failure claim = (if isClaimAllocated claim then checkDeviceFailures claim else None)"

definition allocated_ok :: "ResourceClaim \<Rightarrow> bool" where
  "allocated_ok claim \<longleftrightarrow> isClaimAllocated claim \<and> checkDeviceFailures claim = None"

definition latest_failure :: "ResourceClaim list \<Rightarrow> ClaimAllocationSummary \<Rightarrow> bool" where
  "latest_failure claims s \<longleftrightarrow>
     (case cas_LastFailureTime s of
        None \<Rightarrow> (\<forall>c \<in> set claims. failure c = None)
      | Some t \<Rightarrow> (\<exists>c \<in> set claims. failure c = Some (cas_LastFailureReason s, t))
                 \<and> (\<forall>c \<in> set claims. \<forall>r t'. failure c = Some (r, t') \<longrightarrow> t' \<le> t))"

lemma latest_failure_state [simp]: "latest_failure claims (s\<lparr> cas_State := x \<rparr>) = latest_failure claims s"
  by (simp add: latest_failure_def split: option.split)

lemma claim_step_fields:
  "cas_FailedCount (claim_step c s) = (if failure c \<noteq> None then wrap32 (cas_FailedCount s + 1) else cas_FailedCount s)"
  "cas_AllocatedCount (claim_step c s) = (if allocated_ok c then wrap32 (cas_AllocatedCount s + 1) else cas_AllocatedCount s)"
  "cas_PendingCount (claim_step c s) = (if isClaimAllocated c then cas_PendingCount s else wrap32 (cas_PendingCount s + 1))"
  "cas_TotalClaims (claim_step c s) = cas_TotalClaims s"
  by (simp_all add: claim_step_def failure_def allocated_ok_def Let_def split: option.split)

lemma fold_counts:
  assumes "\<And>c s. cnt (claim_step c s) = (if P c then wrap32 (cnt s + 1) else cnt s)"
  shows "0 \<le> cnt s \<Longrightarrow> cnt s + int (length claims) < 2^31 \<Longrightarrow>
    cnt (fold claim_step claims s) = cnt s + int (length (filter P claims))"
proof (induction claims arbitrary: s)
  case (Cons c claims)
  have "cnt (claim_step c s) = (if P c then cnt s + 1 else cnt s)"
    using Cons.prems assms by (simp add: is_int32_def)
  with Cons.IH [of "claim_step c s"] Cons.prems show ?case by (auto split: if_splits)
qed simp

lemma fold_latest:
  assumes "latest_failure done s"
  shows "latest_failure (done @ claims) (fold claim_step claims s)"
  using assms
proof (induction claims arbitrary: s "done")
  case (Cons c claims)
  have "latest_failure (done @ [c]) (claim_step c s)"
  proof (cases "failure c")
    case None
    then have "cas_LastFailureTime (claim_step c s) = cas_LastFailureTime s"
      "cas_LastFailureReason (claim_step c s) = cas_LastFailureReason s"
      by (auto simp: claim_step_def failure_def Let_def split: option.splits)
    with Cons.prems None show ?thesis by (auto simp: latest_failure_def split: option.splits)
  next
    case (Some rt)
    obtain r t where rt: "rt = (r, t)" by (rule prod.exhaust)
    have x: "isClaimAllocated c" "checkDeviceFailures c = Some (r, t)"
      using Some rt by (auto simp: failure_def split: if_splits)
    show ?thesis
    proof (cases "cas_LastFailureTime s")
      case None
      with x Cons.prems Some rt show ?thesis by (auto simp: latest_failure_def claim_step_def Let_def)
    next
      case (Some t0)
      with x Cons.prems \<open>failure c = Some rt\<close> rt show ?thesis
        by (cases "t > t0") (auto simp: latest_failure_def claim_step_def Let_def)
    qed
  qed
  from Cons.IH [OF this] show ?case by simp
qed simp

text \<open>
  The allocation summary counts every claim once, as healthy, failed or pending, as long as there are fewer than
  \<open>2^31\<close> of them; the state is failed when any device of an allocated claim reports a failure, allocated when all
  claims are healthy and pending otherwise, and the reported failure is one of the latest.
\<close>

theorem SummarizeClaimAllocations_correct:
  assumes "claims \<noteq> []" and "length claims < 2^31" and "s = SummarizeClaimAllocations claims"
  shows "cas_TotalClaims s = int (length claims)
     \<and> cas_AllocatedCount s = int (length (filter allocated_ok claims))
     \<and> cas_FailedCount s = int (length (filter (\<lambda>c. failure c \<noteq> None) claims))
     \<and> cas_PendingCount s = int (length (filter (\<lambda>c. \<not> isClaimAllocated c) claims))
     \<and> cas_AllocatedCount s + cas_FailedCount s + cas_PendingCount s = cas_TotalClaims s
     \<and> cas_State s = (if \<exists>c \<in> set claims. failure c \<noteq> None then ClaimAllocationFailed
                      else if \<forall>c \<in> set claims. allocated_ok c then ClaimAllocationAllocated else ClaimAllocationPending)
     \<and> latest_failure claims s"
proof -
  let ?z = "zero_summary\<lparr> cas_TotalClaims := wrap32 (int (length claims)) \<rparr>"
  let ?f = "fold claim_step claims ?z"
  have total: "cas_TotalClaims (fold claim_step cs z) = cas_TotalClaims z" for cs z
    by (induction cs arbitrary: z) (simp_all add: claim_step_fields)
  have len: "int (length claims) < 2^31" using assms(2) by simp
  have t: "cas_TotalClaims ?f = int (length claims)" using len by (simp add: total is_int32_def)
  have a: "cas_AllocatedCount ?f = int (length (filter allocated_ok claims))"
    using fold_counts [of cas_AllocatedCount allocated_ok ?z claims] len by (simp add: claim_step_fields zero_summary_def)
  have f: "cas_FailedCount ?f = int (length (filter (\<lambda>c. failure c \<noteq> None) claims))"
    using fold_counts [of cas_FailedCount "\<lambda>c. failure c \<noteq> None" ?z claims] len by (simp add: claim_step_fields zero_summary_def)
  have p: "cas_PendingCount ?f = int (length (filter (\<lambda>c. \<not> isClaimAllocated c) claims))"
    using fold_counts [of cas_PendingCount "\<lambda>c. \<not> isClaimAllocated c" ?z claims] len
    by (simp add: claim_step_fields zero_summary_def)
  have parts: "length (filter allocated_ok cs) + length (filter (\<lambda>c. failure c \<noteq> None) cs)
      + length (filter (\<lambda>c. \<not> isClaimAllocated c) cs) = length cs" for cs
    by (induction cs) (auto simp: allocated_ok_def failure_def)
  have all: "length (filter allocated_ok claims) = length claims \<longleftrightarrow> (\<forall>c \<in> set claims. allocated_ok c)"
    by (metis filter_True filter_id_conv length_filter_less less_irrefl)
  have s: "s = ?f\<lparr> cas_State := (if cas_FailedCount ?f > 0 then ClaimAllocationFailed
      else if cas_AllocatedCount ?f = cas_TotalClaims ?f then ClaimAllocationAllocated else ClaimAllocationPending) \<rparr>"
    using assms(1,3) by (simp add: SummarizeClaimAllocations_def Let_def)
  have "latest_failure [] ?z" by (simp add: latest_failure_def zero_summary_def)
  from fold_latest [OF this, of claims] have "latest_failure claims s" by (simp add: s)
  moreover have "0 < length (filter (\<lambda>c. failure c \<noteq> None) claims) \<longleftrightarrow> (\<exists>c \<in> set claims. failure c \<noteq> None)"
    by (simp add: filter_empty_conv)
  moreover have "cas_State s = (if 0 < length (filter (\<lambda>c. failure c \<noteq> None) claims) then ClaimAllocationFailed
      else if length (filter allocated_ok claims) = length claims then ClaimAllocationAllocated else ClaimAllocationPending)"
    by (simp add: s f a t)
  ultimately show ?thesis using parts [of claims] all by (simp add: s t a f p)
qed

end
