(* ===== verification/Checkpoint_Priority.thy ===== *)
theory Checkpoint_Priority
  imports API_Types
begin

text \<open>
  The checkpoint-aware priority engine: the \<open>CheckpointPriorityPolicy\<close> API type with its
  defaulting and validation (\<open>api/v1alpha1/checkpointprioritypolicy_{types,webhook}.go\<close>) and the
  decision function of \<open>internal/policy/checkpointpriority\<close>.  Priorities are \<open>int32\<close> values in
  \<open>int\<close>; the sum is taken in \<open>int64\<close>, which cannot overflow on two \<open>int32\<close>s, and the result is
  converted back with \<open>wrap32\<close>.
\<close>

section \<open>The policy\<close>

definition MaxPriorityBound :: int where "MaxPriorityBound = 1000000000"
definition MinPriorityBound :: int where "MinPriorityBound = -1000000000"

record CheckpointPriorityPolicySpec =
  cpp_CheckpointFreshnessTarget :: duration
  cpp_StartupProtectionWindow :: duration
  cpp_MinRuntimeBetweenYields :: duration
  cpp_MaxYieldsPerWindow :: int
  cpp_YieldWindow :: "duration option"
  cpp_FailOpenOnTelemetryLoss :: "bool option"
  cpp_FailOpenOnCheckpointStoreErrors :: "bool option"
  cpp_ProtectedBoost :: "int option"
  cpp_CooldownBoost :: "int option"
  cpp_StaleCheckpointBoost :: "int option"
  cpp_PreemptibleOffset :: "int option"
  cpp_MinEffectivePriority :: "int option"
  cpp_MaxEffectivePriority :: "int option"

text \<open>\<open>if f == nil { f = \<delta> }\<close>\<close>

definition default_opt :: "'a option \<Rightarrow> 'a \<Rightarrow> 'a option" where
  [go_simps]: "default_opt x d = (case x of None \<Rightarrow> Some d | Some v \<Rightarrow> Some v)"

definition Policy_Default :: "CheckpointPriorityPolicySpec \<Rightarrow> CheckpointPriorityPolicySpec" where
  "Policy_Default p =
     p\<lparr>cpp_FailOpenOnTelemetryLoss := default_opt (cpp_FailOpenOnTelemetryLoss p) True,
       cpp_FailOpenOnCheckpointStoreErrors := default_opt (cpp_FailOpenOnCheckpointStoreErrors p) False,
       cpp_ProtectedBoost := default_opt (cpp_ProtectedBoost p) 0,
       cpp_CooldownBoost := default_opt (cpp_CooldownBoost p) 0,
       cpp_StaleCheckpointBoost := default_opt (cpp_StaleCheckpointBoost p) 0,
       cpp_PreemptibleOffset := default_opt (cpp_PreemptibleOffset p) 0\<rparr>"

definition validatePriorityBound :: "string \<Rightarrow> int option \<Rightarrow> go_err option" where
  "validatePriorityBound fieldName val =
     (case val of
        None \<Rightarrow> None
      | Some v \<Rightarrow>
          if v < MinPriorityBound \<or> v > MaxPriorityBound
          then Some (fieldName @ '' must be within ['' @ itoa MinPriorityBound @ '', ''
                     @ itoa MaxPriorityBound @ ''], got '' @ itoa v)
          else None)"

text \<open>The bounds of the six optional priorities, checked in the order of the code.\<close>

definition priority_fields :: "CheckpointPriorityPolicySpec \<Rightarrow> (string \<times> int option) list" where
  "priority_fields p =
     [(''spec.protectedBoost'', cpp_ProtectedBoost p),
      (''spec.cooldownBoost'', cpp_CooldownBoost p),
      (''spec.staleCheckpointBoost'', cpp_StaleCheckpointBoost p),
      (''spec.preemptibleOffset'', cpp_PreemptibleOffset p),
      (''spec.minEffectivePriority'', cpp_MinEffectivePriority p),
      (''spec.maxEffectivePriority'', cpp_MaxEffectivePriority p)]"

definition validateCheckpointPriorityPolicy :: "CheckpointPriorityPolicySpec \<Rightarrow> go_err option" where
  "validateCheckpointPriorityPolicy p =
     (if cpp_CheckpointFreshnessTarget p \<le> 0
      then Some (''spec.checkpointFreshnessTarget must be positive, got ''
                 @ Duration_String (cpp_CheckpointFreshnessTarget p))
      else if cpp_StartupProtectionWindow p \<le> 0
      then Some (''spec.startupProtectionWindow must be positive, got ''
                 @ Duration_String (cpp_StartupProtectionWindow p))
      else if cpp_MinRuntimeBetweenYields p \<le> 0
      then Some (''spec.minRuntimeBetweenYields must be positive, got ''
                 @ Duration_String (cpp_MinRuntimeBetweenYields p))
      else if cpp_MaxYieldsPerWindow p < 0
      then Some (''spec.maxYieldsPerWindow must be non-negative, got ''
                 @ itoa (cpp_MaxYieldsPerWindow p))
      else if cpp_MaxYieldsPerWindow p > 0
              \<and> (case cpp_YieldWindow p of None \<Rightarrow> True | Some w \<Rightarrow> w \<le> 0)
      then Some ''spec.yieldWindow is required and must be positive when maxYieldsPerWindow > 0''
      else if (case cpp_YieldWindow p of None \<Rightarrow> False | Some w \<Rightarrow> w \<le> 0)
      then Some (''spec.yieldWindow must be positive when set, got ''
                 @ Duration_String (the (cpp_YieldWindow p)))
      else case each (\<lambda>(f, v). validatePriorityBound f v) (priority_fields p) of
        Some e \<Rightarrow> Some e
      | None \<Rightarrow>
          (case (cpp_MinEffectivePriority p, cpp_MaxEffectivePriority p) of
             (Some lo, Some hi) \<Rightarrow>
               if lo > hi
               then Some (''spec.minEffectivePriority ('' @ itoa lo
                          @ '') must be <= spec.maxEffectivePriority ('' @ itoa hi @ '')'')
               else None
           | _ \<Rightarrow> None))"

section \<open>Windows (\<open>window.go\<close>)\<close>

record ProtectionWindowResult =
  pw_Protected :: bool
  pw_ProtectedUntil :: gotime
  pw_Anchor :: gotime

definition zero_ProtectionWindowResult :: ProtectionWindowResult where
  "zero_ProtectionWindowResult =
     \<lparr>pw_Protected = False, pw_ProtectedUntil = time_zero, pw_Anchor = time_zero\<rparr>"

fun protectionAnchor :: "gotime option \<Rightarrow> gotime option \<Rightarrow> gotime option" where
  "protectionAnchor None None = None"
| "protectionAnchor None (Some r) = Some r"
| "protectionAnchor (Some s) None = Some s"
| "protectionAnchor (Some s) (Some r) = (if r > s then Some r else Some s)"

definition CheckProtectionWindow ::
  "gotime \<Rightarrow> gotime option \<Rightarrow> gotime option \<Rightarrow> duration \<Rightarrow> ProtectionWindowResult" where
  "CheckProtectionWindow now runStartTime resumeTime protectionDuration =
     (if protectionDuration \<le> 0 then zero_ProtectionWindowResult
      else case protectionAnchor runStartTime resumeTime of
        None \<Rightarrow> zero_ProtectionWindowResult
      | Some anchor \<Rightarrow>
          (let expiresAt = time_Add anchor protectionDuration
           in \<lparr>pw_Protected = now < expiresAt, pw_ProtectedUntil = expiresAt, pw_Anchor = anchor\<rparr>))"

definition CheckCooldown :: "gotime \<Rightarrow> gotime option \<Rightarrow> duration \<Rightarrow> bool" where
  "CheckCooldown now resumeTime minRuntime =
     (case resumeTime of
        None \<Rightarrow> False
      | Some r \<Rightarrow> if minRuntime \<le> 0 then False else now < time_Add r minRuntime)"

definition IsYieldBudgetExhausted :: "int \<Rightarrow> int \<Rightarrow> bool" where
  "IsYieldBudgetExhausted recentYieldCount maxYieldsPerWindow =
     (if maxYieldsPerWindow \<le> 0 then False else recentYieldCount \<ge> maxYieldsPerWindow)"

definition CheckCheckpointFreshness ::
  "gotime \<Rightarrow> gotime option \<Rightarrow> duration \<Rightarrow> duration \<times> bool" where
  "CheckCheckpointFreshness now checkpointTime freshnessTarget =
     (case checkpointTime of
        None \<Rightarrow> (0, False)
      | Some t \<Rightarrow>
          (let a = time_Sub now t; age = (if a < 0 then 0 else a)
           in (age, age > freshnessTarget)))"

section \<open>The decision (\<open>types.go\<close>, \<open>decision.go\<close>)\<close>

datatype DecisionState =
  DecisionDisabled | DecisionStartupProtected | DecisionActive | DecisionCheckpointStale
| DecisionCoolingDown | DecisionYieldBudgetExhausted | DecisionTelemetryUnknown | DecisionPreemptible

record EvaluationInput =
  ei_BasePriority :: int
  ei_Now :: gotime
  ei_LastCompletedCheckpointTime :: "gotime option"
  ei_RunStartTime :: "gotime option"
  ei_LastResumeTime :: "gotime option"
  ei_LastYieldTime :: "gotime option"
  ei_RecentYieldCount :: int
  ei_CheckpointStoreError :: bool

record Decision =
  dn_State :: DecisionState
  dn_PreemptionState :: PreemptionState
  dn_EffectivePriority :: int
  dn_Reason :: string
  dn_Message :: string
  dn_ProtectedUntil :: "gotime option"

definition derefInt32 :: "int option \<Rightarrow> int" where
  [go_simps]: "derefInt32 p = (case p of None \<Rightarrow> 0 | Some v \<Rightarrow> v)"

definition derefBool :: "bool option \<Rightarrow> bool" where
  [go_simps]: "derefBool p = (case p of None \<Rightarrow> False | Some v \<Rightarrow> v)"

definition computeEffectivePriority :: "int \<Rightarrow> int \<Rightarrow> int option \<Rightarrow> int option \<Rightarrow> int" where
  "computeEffectivePriority basePriority adjustment minPriority maxPriority =
     (let raw0 = basePriority + adjustment;
          raw1 = (case minPriority of Some lo \<Rightarrow> if raw0 < lo then lo else raw0 | None \<Rightarrow> raw0);
          raw2 = (case maxPriority of Some hi \<Rightarrow> if raw1 > hi then hi else raw1 | None \<Rightarrow> raw1);
          raw3 = (if raw2 < - (2 ^ 31) then - (2 ^ 31) else raw2);
          raw4 = (if raw3 > 2 ^ 31 - 1 then 2 ^ 31 - 1 else raw3)
      in wrap32 raw4)"

text \<open>\<open>computeEffectivePriority\<close> with the bounds of a policy, as every call site passes them.\<close>

definition effective :: "EvaluationInput \<Rightarrow> CheckpointPriorityPolicySpec \<Rightarrow> int \<Rightarrow> int" where
  "effective input policy adj =
     computeEffectivePriority (ei_BasePriority input) adj
       (cpp_MinEffectivePriority policy) (cpp_MaxEffectivePriority policy)"

definition evaluateTelemetryUnknown ::
  "EvaluationInput \<Rightarrow> CheckpointPriorityPolicySpec \<Rightarrow> Decision" where
  "evaluateTelemetryUnknown input policy =
     (let (failOpen, reason, message) =
        (if ei_CheckpointStoreError input
         then let fo = derefBool (cpp_FailOpenOnCheckpointStoreErrors policy) in
              (fo, if fo then ''StoreErrorFailOpen'' else ''StoreErrorFailClosed'',
               if fo then ''Checkpoint store error; fail-open: keeping base priority''
               else ''Checkpoint store error; fail-closed: applying preemptible offset'')
         else let fo = derefBool (cpp_FailOpenOnTelemetryLoss policy) in
              (fo, if fo then ''TelemetryUnavailableFailOpen'' else ''TelemetryUnavailableFailClosed'',
               if fo then ''Checkpoint telemetry unavailable; fail-open: keeping base priority''
               else ''Checkpoint telemetry unavailable; fail-closed: applying preemptible offset''))
      in if failOpen
         then \<lparr>dn_State = DecisionTelemetryUnknown, dn_PreemptionState = PreemptionStateActive,
               dn_EffectivePriority = effective input policy 0,
               dn_Reason = reason, dn_Message = message, dn_ProtectedUntil = None\<rparr>
         else \<lparr>dn_State = DecisionTelemetryUnknown, dn_PreemptionState = PreemptionStatePreemptible,
               dn_EffectivePriority = effective input policy (derefInt32 (cpp_PreemptibleOffset policy)),
               dn_Reason = reason, dn_Message = message, dn_ProtectedUntil = None\<rparr>)"

definition Evaluate :: "EvaluationInput \<Rightarrow> CheckpointPriorityPolicySpec option \<Rightarrow> Decision" where
  "Evaluate input policy_opt =
     (case policy_opt of
        None \<Rightarrow>
          \<lparr>dn_State = DecisionDisabled, dn_PreemptionState = PreemptionStateUnset,
           dn_EffectivePriority = ei_BasePriority input, dn_Reason = ''PolicyDisabled'',
           dn_Message = ''No CheckpointPriorityPolicy attached; using base priority'',
           dn_ProtectedUntil = None\<rparr>
      | Some policy \<Rightarrow>
          (let pw = CheckProtectionWindow (ei_Now input) (ei_RunStartTime input)
                      (ei_LastResumeTime input) (cpp_StartupProtectionWindow policy)
           in if pw_Protected pw
              then \<lparr>dn_State = DecisionStartupProtected, dn_PreemptionState = PreemptionStateProtected,
                    dn_EffectivePriority = effective input policy (derefInt32 (cpp_ProtectedBoost policy)),
                    dn_Reason = ''WithinProtectionWindow'',
                    dn_Message = ''Job is within startup protection window (expires at ''
                                 @ format_RFC3339 (pw_ProtectedUntil pw) @ '')'',
                    dn_ProtectedUntil = Some (pw_ProtectedUntil pw)\<rparr>
              else if IsYieldBudgetExhausted (ei_RecentYieldCount input) (cpp_MaxYieldsPerWindow policy)
              then \<lparr>dn_State = DecisionYieldBudgetExhausted, dn_PreemptionState = PreemptionStateCooldown,
                    dn_EffectivePriority = effective input policy (derefInt32 (cpp_CooldownBoost policy)),
                    dn_Reason = ''YieldBudgetExhausted'',
                    dn_Message = ''Yield budget exhausted ('' @ itoa (ei_RecentYieldCount input)
                                 @ '' yields in window, max '' @ itoa (cpp_MaxYieldsPerWindow policy) @ '')'',
                    dn_ProtectedUntil = None\<rparr>
              else if CheckCooldown (ei_Now input) (ei_LastResumeTime input)
                        (cpp_MinRuntimeBetweenYields policy)
              then \<lparr>dn_State = DecisionCoolingDown, dn_PreemptionState = PreemptionStateCooldown,
                    dn_EffectivePriority = effective input policy (derefInt32 (cpp_CooldownBoost policy)),
                    dn_Reason = ''CooldownAfterResume'',
                    dn_Message = ''Job is in cooldown period (''
                                 @ Duration_String (Duration_Round (time_Sub (ei_Now input)
                                     (the (ei_LastResumeTime input))) Second)
                                 @ '' since last resume, min ''
                                 @ Duration_String (cpp_MinRuntimeBetweenYields policy) @ '')'',
                    dn_ProtectedUntil = None\<rparr>
              else if ei_LastCompletedCheckpointTime input = None
              then evaluateTelemetryUnknown input policy
              else
                (case CheckCheckpointFreshness (ei_Now input) (ei_LastCompletedCheckpointTime input)
                        (cpp_CheckpointFreshnessTarget policy) of
                   (age, stale) \<Rightarrow>
                     if stale
                     then \<lparr>dn_State = DecisionCheckpointStale,
                           dn_PreemptionState = PreemptionStatePreemptible,
                           dn_EffectivePriority =
                             effective input policy (derefInt32 (cpp_PreemptibleOffset policy)),
                           dn_Reason = ''CheckpointStale'',
                           dn_Message = ''Checkpoint age '' @ Duration_String (Duration_Round age Second)
                                        @ '' exceeds freshness target ''
                                        @ Duration_String (cpp_CheckpointFreshnessTarget policy),
                           dn_ProtectedUntil = None\<rparr>
                     else \<lparr>dn_State = DecisionActive, dn_PreemptionState = PreemptionStateActive,
                           dn_EffectivePriority = effective input policy 0,
                           dn_Reason = ''CheckpointFresh'',
                           dn_Message = ''Checkpoint is fresh (age ''
                                        @ Duration_String (Duration_Round age Second) @ '', target ''
                                        @ Duration_String (cpp_CheckpointFreshnessTarget policy) @ '')'',
                           dn_ProtectedUntil = None\<rparr>)))"

section \<open>Correctness\<close>

subsection \<open>Priorities\<close>

text \<open>The formula the API documents: the base priority plus an adjustment per preemption state,
  clamped to the configured interval, an absent bound being that of \<open>int32\<close>.\<close>

definition state_adjustment :: "CheckpointPriorityPolicySpec \<Rightarrow> PreemptionState \<Rightarrow> int" where
  "state_adjustment p s =
     (case s of
        PreemptionStateProtected \<Rightarrow> derefInt32 (cpp_ProtectedBoost p)
      | PreemptionStateCooldown \<Rightarrow> derefInt32 (cpp_CooldownBoost p)
      | PreemptionStatePreemptible \<Rightarrow> derefInt32 (cpp_PreemptibleOffset p)
      | _ \<Rightarrow> 0)"

definition clamp :: "int \<Rightarrow> int \<Rightarrow> int \<Rightarrow> int" where
  "clamp lo hi x = max lo (min hi x)"

definition floor_of :: "CheckpointPriorityPolicySpec \<Rightarrow> int" where
  "floor_of p = (case cpp_MinEffectivePriority p of Some lo \<Rightarrow> lo | None \<Rightarrow> - (2 ^ 31))"

definition ceil_of :: "CheckpointPriorityPolicySpec \<Rightarrow> int" where
  "ceil_of p = (case cpp_MaxEffectivePriority p of Some hi \<Rightarrow> hi | None \<Rightarrow> 2 ^ 31 - 1)"

definition priority_ok :: "int option \<Rightarrow> bool" where
  "priority_ok v = (case v of None \<Rightarrow> True | Some x \<Rightarrow> MinPriorityBound \<le> x \<and> x \<le> MaxPriorityBound)"

lemma validatePriorityBound_None: "validatePriorityBound f v = None \<longleftrightarrow> priority_ok v"
  by (auto simp: validatePriorityBound_def priority_ok_def split: option.split)

lemma validate_None_iff:
  "validateCheckpointPriorityPolicy p = None \<longleftrightarrow>
     0 < cpp_CheckpointFreshnessTarget p \<and> 0 < cpp_StartupProtectionWindow p
   \<and> 0 < cpp_MinRuntimeBetweenYields p \<and> 0 \<le> cpp_MaxYieldsPerWindow p
   \<and> (0 < cpp_MaxYieldsPerWindow p \<longrightarrow> cpp_YieldWindow p \<noteq> None)
   \<and> (\<forall>w. cpp_YieldWindow p = Some w \<longrightarrow> 0 < w)
   \<and> (\<forall>x \<in> set (priority_fields p). priority_ok (snd x))
   \<and> (\<forall>lo hi. cpp_MinEffectivePriority p = Some lo \<longrightarrow> cpp_MaxEffectivePriority p = Some hi
              \<longrightarrow> lo \<le> hi)"
proof -
  have "each (\<lambda>(f, v). validatePriorityBound f v) (priority_fields p) = None
    \<longleftrightarrow> (\<forall>x \<in> set (priority_fields p). priority_ok (snd x))"
    by (auto simp: each_None_iff validatePriorityBound_None)
  then show ?thesis
    unfolding validateCheckpointPriorityPolicy_def
    by (cases "each (\<lambda>(f, v). validatePriorityBound f v) (priority_fields p)")
       (auto simp: not_le not_less split: option.splits if_splits)
qed

lemma computeEffectivePriority_clamp:
  assumes "\<forall>lo. cpp_MinEffectivePriority p = Some lo \<longrightarrow> is_int32 lo"
    and "\<forall>hi. cpp_MaxEffectivePriority p = Some hi \<longrightarrow> is_int32 hi"
    and "floor_of p \<le> ceil_of p"
  shows "effective i p adj = clamp (floor_of p) (ceil_of p) (ei_BasePriority i + adj)"
proof -
  define x where "x = ei_BasePriority i + adj"
  have "effective i p adj = wrap32 (clamp (floor_of p) (ceil_of p) x)"
    using assms unfolding effective_def computeEffectivePriority_def Let_def x_def [symmetric]
    by (cases "cpp_MinEffectivePriority p"; cases "cpp_MaxEffectivePriority p")
       (auto simp: floor_of_def ceil_of_def clamp_def is_int32_def intro!: arg_cong [of _ _ wrap32])
  moreover have "is_int32 (clamp (floor_of p) (ceil_of p) x)"
    using assms by (auto simp: is_int32_def clamp_def floor_of_def ceil_of_def split: option.splits)
  ultimately show ?thesis by (simp add: x_def)
qed

lemma valid_bounds:
  assumes "validateCheckpointPriorityPolicy p = None"
  shows "\<forall>lo. cpp_MinEffectivePriority p = Some lo \<longrightarrow> is_int32 lo"
    and "\<forall>hi. cpp_MaxEffectivePriority p = Some hi \<longrightarrow> is_int32 hi"
    and "floor_of p \<le> ceil_of p"
proof -
  have min: "priority_ok (cpp_MinEffectivePriority p)" and max: "priority_ok (cpp_MaxEffectivePriority p)"
    and ord: "\<forall>lo hi. cpp_MinEffectivePriority p = Some lo \<longrightarrow> cpp_MaxEffectivePriority p = Some hi
              \<longrightarrow> lo \<le> hi"
    using assms by (simp_all add: validate_None_iff priority_fields_def)
  show "\<forall>lo. cpp_MinEffectivePriority p = Some lo \<longrightarrow> is_int32 lo"
    and "\<forall>hi. cpp_MaxEffectivePriority p = Some hi \<longrightarrow> is_int32 hi"
    and "floor_of p \<le> ceil_of p"
    using min max ord
    by (auto simp: priority_ok_def is_int32_def MinPriorityBound_def MaxPriorityBound_def
          floor_of_def ceil_of_def split: option.splits)
qed

lemma Evaluate_effective:
  "dn_EffectivePriority (Evaluate i (Some p)) =
     effective i p (state_adjustment p (dn_PreemptionState (Evaluate i (Some p))))"
  unfolding Evaluate_def evaluateTelemetryUnknown_def
  by (simp add: Let_def state_adjustment_def split: prod.split)

subsection \<open>The order of the states\<close>

lemma protected_iff:
  "pw_Protected (CheckProtectionWindow now s r d) \<longleftrightarrow>
     0 < d \<and> (\<exists>t. (s = Some t \<or> r = Some t) \<and> now < t + d)"
  by (cases s; cases r)
     (auto simp: CheckProtectionWindow_def zero_ProtectionWindowResult_def Let_def time_Add_def)

lemma cooldown_iff: "CheckCooldown now r d \<longleftrightarrow> 0 < d \<and> (\<exists>t. r = Some t \<and> now < t + d)"
  by (auto simp: CheckCooldown_def time_Add_def split: option.split)

lemma stale_iff:
  "0 \<le> d \<Longrightarrow> snd (CheckCheckpointFreshness now (Some t) d) \<longleftrightarrow> d < sat64 (now - t)"
  by (auto simp: CheckCheckpointFreshness_def Let_def time_Sub_def)

text \<open>The evaluation order of the documentation, over the timestamps themselves.\<close>

definition spec_state :: "EvaluationInput \<Rightarrow> CheckpointPriorityPolicySpec \<Rightarrow> DecisionState" where
  "spec_state i p =
     (if \<exists>t \<in> set_option (ei_RunStartTime i) \<union> set_option (ei_LastResumeTime i).
           ei_Now i < t + cpp_StartupProtectionWindow p
      then DecisionStartupProtected
      else if 0 < cpp_MaxYieldsPerWindow p \<and> cpp_MaxYieldsPerWindow p \<le> ei_RecentYieldCount i
      then DecisionYieldBudgetExhausted
      else if \<exists>t \<in> set_option (ei_LastResumeTime i). ei_Now i < t + cpp_MinRuntimeBetweenYields p
      then DecisionCoolingDown
      else case ei_LastCompletedCheckpointTime i of
        None \<Rightarrow> DecisionTelemetryUnknown
      | Some t \<Rightarrow> if cpp_CheckpointFreshnessTarget p < sat64 (ei_Now i - t)
                  then DecisionCheckpointStale else DecisionActive)"

fun spec_preemption :: "EvaluationInput \<Rightarrow> CheckpointPriorityPolicySpec \<Rightarrow> DecisionState \<Rightarrow> PreemptionState" where
  "spec_preemption i p DecisionStartupProtected = PreemptionStateProtected"
| "spec_preemption i p DecisionYieldBudgetExhausted = PreemptionStateCooldown"
| "spec_preemption i p DecisionCoolingDown = PreemptionStateCooldown"
| "spec_preemption i p DecisionCheckpointStale = PreemptionStatePreemptible"
| "spec_preemption i p DecisionActive = PreemptionStateActive"
| "spec_preemption i p DecisionTelemetryUnknown =
     (if derefBool (if ei_CheckpointStoreError i then cpp_FailOpenOnCheckpointStoreErrors p
                    else cpp_FailOpenOnTelemetryLoss p)
      then PreemptionStateActive else PreemptionStatePreemptible)"
| "spec_preemption i p DecisionPreemptible = PreemptionStatePreemptible"
| "spec_preemption i p DecisionDisabled = PreemptionStateUnset"

lemma evaluateTelemetryUnknown_simps [simp]:
  "dn_State (evaluateTelemetryUnknown i p) = DecisionTelemetryUnknown"
  "dn_PreemptionState (evaluateTelemetryUnknown i p) = spec_preemption i p DecisionTelemetryUnknown"
  "dn_ProtectedUntil (evaluateTelemetryUnknown i p) = None"
  by (simp_all add: evaluateTelemetryUnknown_def Let_def)

lemma Evaluate_state:
  assumes "validateCheckpointPriorityPolicy p = None"
  shows "dn_State (Evaluate i (Some p)) = spec_state i p"
    and "dn_PreemptionState (Evaluate i (Some p)) = spec_preemption i p (spec_state i p)"
proof -
  have pos: "0 < cpp_CheckpointFreshnessTarget p" "0 < cpp_StartupProtectionWindow p"
    "0 < cpp_MinRuntimeBetweenYields p"
    using assms by (simp_all add: validate_None_iff)
  have prot: "pw_Protected (CheckProtectionWindow (ei_Now i) (ei_RunStartTime i) (ei_LastResumeTime i)
      (cpp_StartupProtectionWindow p)) \<longleftrightarrow>
      (\<exists>t \<in> set_option (ei_RunStartTime i) \<union> set_option (ei_LastResumeTime i).
           ei_Now i < t + cpp_StartupProtectionWindow p)"
    using pos by (auto simp: protected_iff)
  have cool: "CheckCooldown (ei_Now i) (ei_LastResumeTime i) (cpp_MinRuntimeBetweenYields p) \<longleftrightarrow>
      (\<exists>t \<in> set_option (ei_LastResumeTime i). ei_Now i < t + cpp_MinRuntimeBetweenYields p)"
    using pos by (auto simp: cooldown_iff)
  have bud: "IsYieldBudgetExhausted (ei_RecentYieldCount i) (cpp_MaxYieldsPerWindow p) \<longleftrightarrow>
      0 < cpp_MaxYieldsPerWindow p \<and> cpp_MaxYieldsPerWindow p \<le> ei_RecentYieldCount i"
    by (auto simp: IsYieldBudgetExhausted_def)
  have stale: "snd (CheckCheckpointFreshness (ei_Now i) (Some t) (cpp_CheckpointFreshnessTarget p))
      \<longleftrightarrow> cpp_CheckpointFreshnessTarget p < sat64 (ei_Now i - t)" for t
    using pos by (intro stale_iff) simp
  note d = Evaluate_def Let_def prot cool bud option.case split_beta stale
  show "dn_State (Evaluate i (Some p)) = spec_state i p"
    by (cases "ei_LastCompletedCheckpointTime i") (simp_all only: d spec_state_def, simp_all add: stale)
  show "dn_PreemptionState (Evaluate i (Some p)) = spec_preemption i p (spec_state i p)"
    by (cases "ei_LastCompletedCheckpointTime i") (simp_all only: d spec_state_def, simp_all add: stale)
qed

section \<open>Properties\<close>

text \<open>A validated policy and a running job used by the witnesses.\<close>

definition ex_policy :: CheckpointPriorityPolicySpec where
  "ex_policy =
     \<lparr>cpp_CheckpointFreshnessTarget = 10 * Minute, cpp_StartupProtectionWindow = 5 * Minute,
      cpp_MinRuntimeBetweenYields = 2 * Minute, cpp_MaxYieldsPerWindow = 3,
      cpp_YieldWindow = Some Hour, cpp_FailOpenOnTelemetryLoss = Some True,
      cpp_FailOpenOnCheckpointStoreErrors = Some False, cpp_ProtectedBoost = Some 50,
      cpp_CooldownBoost = Some 25, cpp_StaleCheckpointBoost = None,
      cpp_PreemptibleOffset = Some (-500), cpp_MinEffectivePriority = Some (-100),
      cpp_MaxEffectivePriority = Some 1000\<rparr>"

definition ex_input :: EvaluationInput where
  "ex_input =
     \<lparr>ei_BasePriority = 100, ei_Now = 30 * Minute, ei_LastCompletedCheckpointTime = Some (Minute),
      ei_RunStartTime = Some 0, ei_LastResumeTime = Some (3 * Minute), ei_LastYieldTime = None,
      ei_RecentYieldCount = 1, ei_CheckpointStoreError = False\<rparr>"

lemma ex_policy_valid [simp]: "validateCheckpointPriorityPolicy ex_policy = None"
  by (simp add: validate_None_iff ex_policy_def priority_fields_def priority_ok_def
        MinPriorityBound_def MaxPriorityBound_def)



text \<open>
  C37: For a policy the webhook accepts, the decision is the first matching row of the documented
  order: startup protection (measured from the run start or the last resume, whichever window
  is still open), exhausted yield budget, cooldown after a resume, missing telemetry, stale
  checkpoint, active; each state has its documented preemption state, and the protection
  deadline is reported exactly while the job is protected.
\<close>

theorem Evaluate_order:
  assumes "validateCheckpointPriorityPolicy p = None"
  shows "dn_State (Evaluate i (Some p)) = spec_state i p
       \<and> dn_PreemptionState (Evaluate i (Some p)) = spec_preemption i p (spec_state i p)
       \<and> (dn_ProtectedUntil (Evaluate i (Some p)) \<noteq> None \<longleftrightarrow> spec_state i p = DecisionStartupProtected)"
proof -
  have "dn_ProtectedUntil (Evaluate i (Some p)) \<noteq> None
      \<longleftrightarrow> dn_State (Evaluate i (Some p)) = DecisionStartupProtected"
    by (simp add: Evaluate_def Let_def split_beta)
  then show ?thesis using Evaluate_state [OF assms] by simp
qed

theorem Evaluate_order_witness:
  "dn_State (Evaluate (ex_input\<lparr>ei_Now := 7 * Minute\<rparr>) (Some ex_policy)) = DecisionStartupProtected
 \<and> dn_State (Evaluate (ex_input\<lparr>ei_RecentYieldCount := 3\<rparr>) (Some ex_policy)) = DecisionYieldBudgetExhausted"
  using Evaluate_order [OF ex_policy_valid, of "ex_input\<lparr>ei_Now := 7 * Minute\<rparr>"]
    Evaluate_order [OF ex_policy_valid, of "ex_input\<lparr>ei_RecentYieldCount := 3\<rparr>"]
  by (simp add: spec_state_def) (simp add: ex_input_def ex_policy_def)

text \<open>
  With the telemetry of a job fixed (a checkpoint known, the yield budget not exhausted),
  the job becomes preemptible for staleness after a definite instant and stays so: there is a
  time \<open>T\<close> such that the engine answers \<open>CheckpointStale\<close> exactly at the instants from \<open>T\<close> on.
  Neither the protection window nor the cooldown can shield a stale job for ever, and no
  instant after \<open>T\<close> un-stales it.
\<close>

lemma Evaluate_stale_threshold:
  assumes "validateCheckpointPriorityPolicy p = None"
    and "ei_LastCompletedCheckpointTime i = Some t"
    and "cpp_CheckpointFreshnessTarget p < max_int64"
    and "\<not> IsYieldBudgetExhausted (ei_RecentYieldCount i) (cpp_MaxYieldsPerWindow p)"
  shows "\<exists>T. \<forall>now. dn_State (Evaluate (i\<lparr>ei_Now := now\<rparr>) (Some p)) = DecisionCheckpointStale \<longleftrightarrow> T \<le> now"
proof -
  define A where "A = set_option (ei_RunStartTime i) \<union> set_option (ei_LastResumeTime i)"
  define S where "S = insert (t + cpp_CheckpointFreshnessTarget p + 1)
      ((\<lambda>x. x + cpp_StartupProtectionWindow p) ` A
       \<union> (\<lambda>x. x + cpp_MinRuntimeBetweenYields p) ` set_option (ei_LastResumeTime i))"
  have fin: "finite S" "S \<noteq> {}" by (simp_all add: S_def A_def)
  have pos: "0 < cpp_CheckpointFreshnessTarget p" using assms by (simp add: validate_None_iff)
  have sat: "cpp_CheckpointFreshnessTarget p < sat64 (now - t)
      \<longleftrightarrow> t + cpp_CheckpointFreshnessTarget p + 1 \<le> now" for now
    using pos assms(3) by (auto simp: sat64_def min_int64_def max_int64_def)
  have "dn_State (Evaluate (i\<lparr>ei_Now := now\<rparr>) (Some p)) = DecisionCheckpointStale
      \<longleftrightarrow> (\<forall>x \<in> S. x \<le> now)" for now
    using assms(2,4) by (auto simp: Evaluate_state [OF assms(1)] spec_state_def sat S_def A_def
        IsYieldBudgetExhausted_def not_less not_le)
  moreover have "(\<forall>x \<in> S. x \<le> now) \<longleftrightarrow> Max S \<le> now" for now
    using fin by simp
  ultimately show ?thesis by blast
qed

end
