(* ===== verification/Controller_Env.thy ===== *)
theory Controller_Env
  imports Startup_Recovery Jobset_Render DRA Checkpoint_Priority
begin

text \<open>
  The world of the job controller.  The answers of the API client, the clock, the checkpoint catalog and the
  libraries are a record \<open>ctl_env\<close>; what the controller writes is a list of effects.  A flow of the controller
  returns the result of the reconciliation, the effects in order and the job as it is in memory at the end.
  \<open>failLaunch\<close> of \<open>internal/controller/resumabletrainingjob_controller.go\<close> is modelled here; the server's copy of
  the job after a reconciliation is \<open>persisted\<close>.  The clock is read once: the calls of \<open>r.now()\<close> in one
  reconciliation all answer \<open>ce_Now\<close>.
\<close>

record ConfigMap =
  cm_Name :: string
  cm_Namespace :: string
  cm_Labels :: strmap
  cm_Data :: strmap

text \<open>A child JobSet, as far as the controller looks at it.\<close>

record JobSetObject =
  js_Name :: string
  js_Deleting :: bool

datatype effect =
  UpdateStatus job
| UpdateJob job
| UpdateConfigMap ConfigMap
| CreateConfigMap ConfigMap
| CreateJobSet Object
| DeleteJobSet string
| PatchReclaimablePods string "ReclaimablePod list"
| PatchPriority string int
| CreateClaimTemplate ResourceClaimTemplate
| DeleteClaimTemplate string

datatype requeue = Done | RequeueNow | RequeueAfter duration

type_synonym outcome = "(go_err + requeue) \<times> effect list \<times> job"

datatype OperatorMode = ModeWorker | ModeManager

text \<open>Fields of the environment beside the plain reads and writes: \<open>ce_Render\<close> the libraries of the renderer,
  \<open>ce_UpdateJob\<close> the object the server returns for an update of the job (which controller-runtime decodes over
  the one in memory), \<open>ce_ControllerReference\<close> and \<open>ce_OwnerReference\<close> the answers of \<open>controllerutil\<close>,
  \<open>ce_DecodeCounts\<close> and \<open>ce_DecodeStrings\<close> \<open>json.Unmarshal\<close> into a map of counts (\<open>None\<close>: JSON null) and into a
  list of strings, \<open>ce_WorkloadName\<close> the workload name Kueue derives from a name and a UID, \<open>ce_Sha256\<close> the hex
  digest, \<open>ce_ClusterResolver\<close> the optional resolver of the execution cluster.\<close>

record ctl_env =
  ce_Meta :: meta_ops
  ce_Catalog :: Catalog
  ce_Now :: gotime
  ce_Mode :: OperatorMode
  ce_ProvisioningACNames :: "string list"
  ce_ClusterResolver :: "(job \<Rightarrow> go_err + string) option"
  ce_GetJob :: "string \<Rightarrow> string \<Rightarrow> api_error + job"
  ce_UpdateStatus :: "job \<Rightarrow> api_error option"
  ce_UpdateJob :: "job \<Rightarrow> api_error + job"
  ce_GetConfigMap :: "string \<Rightarrow> string \<Rightarrow> api_error + ConfigMap"
  ce_CreateConfigMap :: "ConfigMap \<Rightarrow> api_error option"
  ce_UpdateConfigMap :: "ConfigMap \<Rightarrow> api_error option"
  ce_GetJobSet :: "string \<Rightarrow> string \<Rightarrow> api_error + JobSetObject"
  ce_CreateJobSet :: "Object \<Rightarrow> api_error option"
  ce_DeleteJobSet :: "string \<Rightarrow> api_error option"
  ce_ControllerReference :: "job \<Rightarrow> go_err option"
  ce_OwnerReference :: "job \<Rightarrow> go_err option"
  ce_GetWorkload :: "string \<Rightarrow> string \<Rightarrow> api_error + Workload"
  ce_PatchReclaim :: "string \<Rightarrow> ReclaimablePod list \<Rightarrow> api_error option"
  ce_PatchPriority :: "string \<Rightarrow> int \<Rightarrow> api_error option"
  ce_GetPriorityPolicy :: "string \<Rightarrow> api_error + CheckpointPriorityPolicySpec"
  ce_GetPriorityClass :: "string \<Rightarrow> api_error + int"
  ce_WorkloadName :: "string \<Rightarrow> string \<Rightarrow> string"
  ce_GetClaimTemplate :: "string \<Rightarrow> string \<Rightarrow> api_error + ResourceClaimTemplate"
  ce_ListClaimTemplates :: "string \<Rightarrow> string \<Rightarrow> api_error + ResourceClaimTemplate list"
  ce_CreateClaimTemplate :: "ResourceClaimTemplate \<Rightarrow> api_error option"
  ce_DeleteClaimTemplate :: "string \<Rightarrow> api_error option"
  ce_ListClaims :: "string \<Rightarrow> api_error + ResourceClaim list"
  ce_Render :: render_env
  ce_DecodeCounts :: "string \<Rightarrow> go_err + (string \<times> int) list option"
  ce_DecodeStrings :: "string \<Rightarrow> go_err + string list"
  ce_Sha256 :: "string \<Rightarrow> string"

text \<open>The worker pod set of a job.\<close>

definition resolveWorkerPodSetNameForJob :: "ctl_env \<Rightarrow> job \<Rightarrow> string" where
  "resolveWorkerPodSetNameForJob E job =
     (let name = EffectivePodSetName job in
      if name = [] then
        (case ParseTemplate (ce_Render E) (tpl_Spec (rt_Template (sp_Runtime (rtj_Spec job)))) of
           Inl _ \<Rightarrow> name
         | Inr spec \<Rightarrow> (case ss_ReplicatedJobs spec of rj # _ \<Rightarrow> rj_Name rj | [] \<Rightarrow> name))
      else name)"

text \<open>\<open>findWorkloadForRTJ\<close> of \<open>launch_gate.go\<close>.\<close>

definition findWorkloadForRTJ :: "ctl_env \<Rightarrow> job \<Rightarrow> go_err + Workload option" where
  "findWorkloadForRTJ E job =
     (case st_WorkloadReference (rtj_Status job) of
        None \<Rightarrow> Inr None
      | Some ref \<Rightarrow>
          if wr_Name ref = [] then Inr None
          else ignore_not_found (ce_GetWorkload E (rtj_Namespace job) (wr_Name ref)))"

definition emits :: "effect list \<Rightarrow> outcome \<Rightarrow> outcome" where
  "emits es out = (case out of (r, es', j) \<Rightarrow> (r, es @ es', j))"

text \<open>\<open>if err := r.Status().Update(ctx, job); err != nil { return err }\<close>\<close>

definition save :: "ctl_env \<Rightarrow> job \<Rightarrow> outcome \<Rightarrow> outcome" where
  "save E job continue =
     (case ce_UpdateStatus E job of
        Some err \<Rightarrow> (Inl (err_text err), [UpdateStatus job], job)
      | None \<Rightarrow> emits [UpdateStatus job] continue)"

definition save_if :: "ctl_env \<Rightarrow> bool \<Rightarrow> job \<Rightarrow> outcome \<Rightarrow> outcome" where
  "save_if E changed job continue = (if changed then save E job continue else continue)"

definition failLaunch :: "ctl_env \<Rightarrow> job \<Rightarrow> string \<Rightarrow> outcome" where
  "failLaunch E job message =
     (case markFailed (ce_Meta E) ''LaunchFailed'' message (ce_Now E) job of
        (job1, changed) \<Rightarrow> save_if E changed job1 (Inl message, [], job1))"

text \<open>The object the server holds after a reconciliation: the last accepted write.\<close>

fun persisted :: "ctl_env \<Rightarrow> effect list \<Rightarrow> job \<Rightarrow> job" where
  "persisted E [] j = j"
| "persisted E (UpdateStatus j' # es) j =
     persisted E es (if ce_UpdateStatus E j' = None then j\<lparr> rtj_Status := rtj_Status j' \<rparr> else j)"
| "persisted E (UpdateJob j' # es) j =
     persisted E es (case ce_UpdateJob E j' of Inr _ \<Rightarrow> j'\<lparr> rtj_Status := rtj_Status j \<rparr> | Inl _ \<Rightarrow> j)"
| "persisted E (_ # es) j = persisted E es j"

abbreviation effects :: "outcome \<Rightarrow> effect list" where "effects out \<equiv> fst (snd out)"
abbreviation result :: "outcome \<Rightarrow> go_err + requeue" where "result out \<equiv> fst out"
abbreviation final_job :: "outcome \<Rightarrow> job" where "final_job out \<equiv> snd (snd out)"

lemma emits_simps [simp]:
  "result (emits es out) = result out" "effects (emits es out) = es @ effects out"
  "final_job (emits es out) = final_job out"
  by (simp_all add: emits_def split_beta)

lemma save_effects: "effects (save E j k) = UpdateStatus j # (if ce_UpdateStatus E j = None then effects k else [])"
  by (simp add: save_def split: option.split)

lemma save_if_effects:
  "effects (save_if E b j k) =
     (if b then UpdateStatus j # (if ce_UpdateStatus E j = None then effects k else []) else effects k)"
  by (simp add: save_if_def save_effects)

lemma failLaunch_effects: "set (effects (failLaunch E j m)) \<subseteq> range UpdateStatus"
  by (auto simp: failLaunch_def split_beta save_if_effects split: if_splits)

lemma persisted_append: "persisted E (es @ es') j = persisted E es' (persisted E es j)"
  by (induction E es j rule: persisted.induct) simp_all

section \<open>Answers that never fail\<close>

definition all_ok :: "ctl_env \<Rightarrow> bool" where
  "all_ok E \<longleftrightarrow> conditions_api (ce_Meta E) \<and> (\<forall>j. ce_UpdateStatus E j = None)
     \<and> (\<forall>ns n. \<exists>cm. ce_GetConfigMap E ns n = Inr cm) \<and> (\<forall>cm. ce_UpdateConfigMap E cm = None)
     \<and> (\<forall>n. ce_DeleteJobSet E n = None)"

lemma all_ok_save:
  assumes "all_ok E"
  shows "save E j k = emits [UpdateStatus j] k"
  using assms by (simp add: all_ok_def save_def)

end
