(* ===== verification/Go_JSON.thy ===== *)
theory Go_JSON
  imports RTJ_Prelude
begin

text \<open>
  The scanner of \<open>encoding/json\<close>, as \<open>json.Valid\<close> runs it: one step per byte, a stack of the open objects and
  arrays (at most 10000 deep), and a final step at the end of the input.  The webhook and the validation of the
  spec use it on the embedded JobSet template; the lemmas at the end show that what \<open>json.Marshal\<close> prints for
  text and for lists of fields is accepted.
\<close>

section \<open>The scanner\<close>

datatype parse_state = ObjectKey | ObjectValue | ArrayValue

datatype scan_mode =
  BeginValue | BeginValueOrEmpty | BeginStringOrEmpty | BeginString | EndValue | EndTop
| InString | InStringEsc | InStringHex nat
| Neg | Digits | Zero | Dot | Dot0 | Exp | ExpSign | Exp0
| Literal string

type_synonym scanner = "scan_mode \<times> parse_state list"

definition isSpace :: "char \<Rightarrow> bool" where
  "isSpace c \<longleftrightarrow> of_char c \<in> {9, 10, 13, 32 :: nat}"

definition is_hex :: "char \<Rightarrow> bool" where
  "is_hex c \<longleftrightarrow>
     (let n = of_char c :: nat in 48 \<le> n \<and> n \<le> 57 \<or> 97 \<le> n \<and> n \<le> 102 \<or> 65 \<le> n \<and> n \<le> 70)"

definition maxNestingDepth :: nat where
  "maxNestingDepth = 10000"

definition pushParseState :: "parse_state \<Rightarrow> scan_mode \<Rightarrow> parse_state list \<Rightarrow> scanner option" where
  "pushParseState p mode ps =
     (if length (p # ps) \<le> maxNestingDepth then Some (mode, p # ps) else None)"

definition popParseState :: "parse_state list \<Rightarrow> scanner option" where
  "popParseState ps = (if tl ps = [] then Some (EndTop, []) else Some (EndValue, tl ps))"

definition stateEndTop :: "char \<Rightarrow> scanner option" where
  "stateEndTop c = (if isSpace c then Some (EndTop, []) else None)"

fun stateEndValue :: "parse_state list \<Rightarrow> char \<Rightarrow> scanner option" where
  "stateEndValue [] c = stateEndTop c"
| "stateEndValue (p # ps) c =
     (if isSpace c then Some (EndValue, p # ps)
      else case p of
        ObjectKey \<Rightarrow> if c = CHR '':'' then Some (BeginValue, ObjectValue # ps) else None
      | ObjectValue \<Rightarrow>
          if c = CHR '','' then Some (BeginString, ObjectKey # ps)
          else if c = CHR ''}'' then popParseState (p # ps) else None
      | ArrayValue \<Rightarrow>
          if c = CHR '','' then Some (BeginValue, p # ps)
          else if c = CHR '']'' then popParseState (p # ps) else None)"

definition stateBeginValue :: "parse_state list \<Rightarrow> char \<Rightarrow> scanner option" where
  "stateBeginValue ps c =
     (if isSpace c then Some (BeginValue, ps)
      else if c = CHR ''{'' then pushParseState ObjectKey BeginStringOrEmpty ps
      else if c = CHR ''['' then pushParseState ArrayValue BeginValueOrEmpty ps
      else if c = CHR 0x22 then Some (InString, ps)
      else if c = CHR ''-'' then Some (Neg, ps)
      else if c = CHR ''0'' then Some (Zero, ps)
      else if c = CHR ''t'' then Some (Literal ''rue'', ps)
      else if c = CHR ''f'' then Some (Literal ''alse'', ps)
      else if c = CHR ''n'' then Some (Literal ''ull'', ps)
      else if is_digit c then Some (Digits, ps)
      else None)"

definition state0 :: "parse_state list \<Rightarrow> char \<Rightarrow> scanner option" where
  "state0 ps c =
     (if c = CHR ''.'' then Some (Dot, ps)
      else if c \<in> {CHR ''e'', CHR ''E''} then Some (Exp, ps)
      else stateEndValue ps c)"

definition stateESign :: "parse_state list \<Rightarrow> char \<Rightarrow> scanner option" where
  "stateESign ps c = (if is_digit c then Some (Exp0, ps) else None)"

fun scan_step :: "scanner \<Rightarrow> char \<Rightarrow> scanner option" where
  "scan_step (BeginValue, ps) c = stateBeginValue ps c"
| "scan_step (BeginValueOrEmpty, ps) c =
     (if isSpace c then Some (BeginValueOrEmpty, ps)
      else if c = CHR '']'' then stateEndValue ps c else stateBeginValue ps c)"
| "scan_step (BeginStringOrEmpty, ps) c =
     (if isSpace c then Some (BeginStringOrEmpty, ps)
      else if c = CHR ''}'' then stateEndValue (ObjectValue # tl ps) c
      else if c = CHR 0x22 then Some (InString, ps) else None)"
| "scan_step (BeginString, ps) c =
     (if isSpace c then Some (BeginString, ps)
      else if c = CHR 0x22 then Some (InString, ps) else None)"
| "scan_step (EndValue, ps) c = stateEndValue ps c"
| "scan_step (EndTop, ps) c = stateEndTop c"
| "scan_step (InString, ps) c =
     (if c = CHR 0x22 then Some (EndValue, ps)
      else if c = CHR 0x5C then Some (InStringEsc, ps)
      else if of_char c < (32::nat) then None
      else Some (InString, ps))"
| "scan_step (InStringEsc, ps) c =
     (if c \<in> set ''bfnrt/'' \<or> c = CHR 0x5C \<or> c = CHR 0x22 then Some (InString, ps)
      else if c = CHR ''u'' then Some (InStringHex 4, ps) else None)"
| "scan_step (InStringHex n, ps) c =
     (if is_hex c then Some (if n \<le> 1 then InString else InStringHex (n - 1), ps) else None)"
| "scan_step (Neg, ps) c =
     (if c = CHR ''0'' then Some (Zero, ps) else if is_digit c then Some (Digits, ps) else None)"
| "scan_step (Digits, ps) c = (if is_digit c then Some (Digits, ps) else state0 ps c)"
| "scan_step (Zero, ps) c = state0 ps c"
| "scan_step (Dot, ps) c = (if is_digit c then Some (Dot0, ps) else None)"
| "scan_step (Dot0, ps) c =
     (if is_digit c then Some (Dot0, ps)
      else if c \<in> {CHR ''e'', CHR ''E''} then Some (Exp, ps) else stateEndValue ps c)"
| "scan_step (Exp, ps) c =
     (if c \<in> {CHR ''+'', CHR ''-''} then Some (ExpSign, ps) else stateESign ps c)"
| "scan_step (ExpSign, ps) c = stateESign ps c"
| "scan_step (Exp0, ps) c = (if is_digit c then Some (Exp0, ps) else stateEndValue ps c)"
| "scan_step (Literal w, ps) c =
     (case w of
        [] \<Rightarrow> None
      | x # xs \<Rightarrow> if c = x then Some (if xs = [] then EndValue else Literal xs, ps) else None)"

fun scan :: "scanner \<Rightarrow> string \<Rightarrow> scanner option" where
  "scan s [] = Some s"
| "scan s (c # cs) = Option.bind (scan_step s c) (\<lambda>s'. scan s' cs)"

text \<open>\<open>scanner.eof\<close>: a space closes a number at the top level.\<close>

definition scan_eof :: "scanner \<Rightarrow> bool" where
  "scan_eof s \<longleftrightarrow> fst s = EndTop \<or> map_option fst (scan_step s (CHR '' '')) = Some EndTop"

definition json_Valid :: "string \<Rightarrow> bool" where
  "json_Valid data \<longleftrightarrow> (case scan (BeginValue, []) data of None \<Rightarrow> False | Some s \<Rightarrow> scan_eof s)"

section \<open>Printing\<close>

text \<open>\<open>json.Marshal\<close> of a map of ASCII strings: the keys in order, the values quoted, with the escapes of
  \<open>encoding/json\<close> (\<open><\<close>, \<open>>\<close> and \<open>&\<close> included).\<close>

definition json_char :: "char \<Rightarrow> string" where
  "json_char c =
     (let n = of_char c :: nat in
      if n = 34 \<or> n = 92 then [char_of (92::nat), c]
      else if n = 8 then [char_of (92::nat), CHR ''b'']
      else if n = 9 then [char_of (92::nat), CHR ''t'']
      else if n = 10 then [char_of (92::nat), CHR ''n'']
      else if n = 12 then [char_of (92::nat), CHR ''f'']
      else if n = 13 then [char_of (92::nat), CHR ''r'']
      else if n < 32 \<or> n = 60 \<or> n = 62 \<or> n = 38
      then char_of (92::nat) # ''u00'' @ [hex_digit (n div 16), hex_digit (n mod 16)]
      else [c])"

definition json_string :: "string \<Rightarrow> string" where
  "json_string s = char_of (34::nat) # concat (map json_char s) @ [char_of (34::nat)]"

fun json_fields :: "(string \<times> string) list \<Rightarrow> string" where
  "json_fields [] = ''''"
| "json_fields [(k, v)] = json_string k @ '':'' @ json_string v"
| "json_fields ((k, v) # kvs) = json_string k @ '':'' @ json_string v @ '','' @ json_fields kvs"

section \<open>What the scanner accepts\<close>

lemma scan_append: "scan s (xs @ ys) = Option.bind (scan s xs) (\<lambda>s'. scan s' ys)"
  by (induction xs arbitrary: s) (auto split: Option.bind_split)

lemma of_char_eq: "of_char c = (n :: nat) \<Longrightarrow> c = char_of n"
  by (metis char_of_char)

lemma json_chars:
  "char_of (34::nat) = CHR 0x22" "char_of (92::nat) = CHR 0x5C" "char_of (10::nat) = CHR 0x0A"
  by (simp_all add: char_of_def bit_0)

lemma of_char_less_256: "of_char c < (256 :: nat)"
  by simp

lemma is_hex_digit: "d < 16 \<Longrightarrow> is_hex (hex_digit d)"
  by (auto simp: is_hex_def hex_digit_def Let_def)

lemma scan_escape:
  "e \<in> {CHR ''b'', CHR ''t'', CHR ''n'', CHR ''f'', CHR ''r'', CHR 0x22, CHR 0x5C}
   \<Longrightarrow> scan (InString, ps) (CHR 0x5C # e # rest) = scan (InString, ps) rest"
  by auto

lemma scan_unicode:
  "is_hex a \<Longrightarrow> is_hex b
   \<Longrightarrow> scan (InString, ps) (CHR 0x5C # CHR ''u'' # CHR ''0'' # CHR ''0'' # a # b # rest) = scan (InString, ps) rest"
  by (simp add: is_hex_def [of "CHR ''0''"])

lemma scan_plain:
  "c \<noteq> CHR 0x22 \<Longrightarrow> c \<noteq> CHR 0x5C \<Longrightarrow> \<not> of_char c < (32::nat) \<Longrightarrow> scan (InString, ps) (c # rest) = scan (InString, ps) rest"
  by simp

lemma scan_json_char [simp]: "scan (InString, ps) (json_char c @ rest) = scan (InString, ps) rest"
proof -
  define n where "n = (of_char c :: nat)"
  have hex: "is_hex (hex_digit (n div 16))" "is_hex (hex_digit (n mod 16))"
    using of_char_less_256 [of c] by (simp_all add: n_def is_hex_digit less_mult_imp_div_less)
  have quote: "c = CHR 0x22 \<longleftrightarrow> n = 34" and backslash: "c = CHR 0x5C \<longleftrightarrow> n = 92"
    by (auto simp: n_def json_chars dest!: of_char_eq)
  consider "c = CHR 0x22 \<or> c = CHR 0x5C" | "n \<noteq> 34" "n \<noteq> 92" by (auto simp: quote backslash)
  then show ?thesis
  proof cases
    case 1
    then show ?thesis by (auto simp: json_char_def json_chars)
  next
    case 2
    then show ?thesis
      using hex quote backslash unfolding json_char_def Let_def n_def [symmetric]
      by (simp del: scan.simps scan_step.simps add: json_chars scan_escape scan_unicode scan_plain n_def [symmetric])
  qed
qed

lemma scan_json_chars [simp]: "scan (InString, ps) (concat (map json_char s) @ rest) = scan (InString, ps) rest"
  by (induction s) simp_all

text \<open>A printed string is accepted wherever a string may begin.\<close>

lemma scan_json_string:
  "m \<in> {BeginValue, BeginValueOrEmpty, BeginStringOrEmpty, BeginString}
   \<Longrightarrow> scan (m, ps) (json_string s @ rest) = scan (EndValue, ps) rest"
  by (auto simp: json_string_def json_chars stateBeginValue_def isSpace_def)

lemma scan_json_fields:
  "kvs \<noteq> [] \<Longrightarrow> m \<in> {BeginStringOrEmpty, BeginString}
   \<Longrightarrow> scan (m, ObjectKey # ps) (json_fields kvs @ rest) = scan (EndValue, ObjectValue # ps) rest"
proof (induction kvs arbitrary: m rule: json_fields.induct)
  case (2 k v)
  then show ?case by (auto simp: scan_json_string isSpace_def)
next
  case (3 k v kv kvs)
  then show ?case by (auto simp: scan_json_string isSpace_def)
qed simp

text \<open>A flat object of text fields is valid JSON, also with a newline after it.\<close>

lemma json_object_valid: "json_Valid (''{'' @ json_fields kvs @ ''}'' @ [char_of (10::nat)])"
proof (cases kvs)
  case Nil
  then show ?thesis
    by (simp add: json_Valid_def scan_eof_def stateBeginValue_def pushParseState_def popParseState_def stateEndTop_def
        isSpace_def maxNestingDepth_def json_chars)
next
  case (Cons kv kvs')
  then show ?thesis
    by (simp add: json_Valid_def scan_eof_def stateBeginValue_def pushParseState_def popParseState_def stateEndTop_def
        isSpace_def maxNestingDepth_def json_chars scan_json_fields)
qed

end
