(* ===== verification/Stop_Flow.thy ===== *)
theory Stop_Flow
  imports Controller_Env Go_JSON
begin

text \<open>
  The stop flow (\<open>internal/controller/suspend_flow.go\<close>): a running job that Kueue suspends, the user
  pauses or a resize stops is asked to yield, drains until a checkpoint newer than the request has been
  observed or the drain time is over, and then loses its child JobSet.
\<close>

definition pausePollInterval :: duration where
  "pausePollInterval = 2 * Second"

definition requestedStopSource :: "job \<Rightarrow> bool \<Rightarrow> stopSource option" where
  "requestedStopSource job activeExists =
     (if \<not> activeExists then None
      else if IsSuspendedForKueue job then Some stopSourceKueue
      else if sp_Control (rtj_Spec job) \<noteq> Some DesiredStateRunning then Some stopSourceManual
      else None)"

definition reconcileManualHold :: "ctl_env \<Rightarrow> job \<Rightarrow> gotime \<Rightarrow> outcome" where
  "reconcileManualHold E job now =
     (if st_LastCompletedCheckpoint (rtj_Status job) \<noteq> None \<and> st_PauseRequestID (rtj_Status job) \<noteq> ''''
      then (case markPaused (ce_Meta E) now job of
              (job1, changed) \<Rightarrow> save_if E changed job1 (Inr Done, [], job1))
      else if st_Phase (rtj_Status job) = PhaseFailed then (Inr Done, [], job)
      else (case markPendingPaused (ce_Meta E) now job of
              (job1, changed) \<Rightarrow> save_if E changed job1 (Inr Done, [], job1)))"

fun stopRequestPrefix :: "stopSource \<Rightarrow> string" where
  "stopRequestPrefix stopSourceKueue = ''kueue-suspend''"
| "stopRequestPrefix stopSourceResize = ''resize''"
| "stopRequestPrefix stopSourceManual = ''pause''"

definition new_request_id :: "stopSource \<Rightarrow> job \<Rightarrow> string" where
  "new_request_id source job =
     stopRequestPrefix source @ ''-run-'' @ itoa (st_CurrentRunAttempt (rtj_Status job)) @ ''-gen-'' @
     itoa (rtj_Generation job)"

text \<open>The three steps of \<open>ensureStopRequested\<close>, in order: choose the request identity, name the control
  ConfigMap, enter the phase.\<close>

definition ensure_id :: "meta_ops \<Rightarrow> stopSource \<Rightarrow> gotime \<Rightarrow> update" where
  "ensure_id M source now job =
     (if st_PauseRequestID (rtj_Status job) = ''''
      then markStopRequested M (new_request_id source job) source now job else (job, False))"

definition ensure_control_name :: update where
  "ensure_control_name job =
     (if st_ActiveControlConfigMapName (rtj_Status job) = ''''
      then (job\<lparr> rtj_Status := (rtj_Status job)\<lparr> st_ActiveControlConfigMapName :=
              ControlConfigMapName (rtj_Name job) (st_CurrentRunAttempt (rtj_Status job)) \<rparr> \<rparr>, True)
      else (job, False))"

definition ensure_phase :: "meta_ops \<Rightarrow> string \<Rightarrow> stopSource \<Rightarrow> gotime \<Rightarrow> update" where
  "ensure_phase M requestID source now job =
     (if st_Phase (rtj_Status job) \<noteq> PhaseYieldRequested \<and> st_Phase (rtj_Status job) \<noteq> PhaseDraining
      then markStopRequested M requestID source now job else (job, False))"

definition ensureStopRequested ::
  "meta_ops \<Rightarrow> stopSource \<Rightarrow> gotime \<Rightarrow> job \<Rightarrow> string \<times> gotime \<times> bool \<times> job" where
  "ensureStopRequested M source now job =
     (let requestID = (if st_PauseRequestID (rtj_Status job) = '''' then new_request_id source job
                       else st_PauseRequestID (rtj_Status job));
          (job1, ch1) = ensure_id M source now job;
          requestTime =
            (case tt_YieldRequestedAt (st_TransitionTimestamps (rtj_Status job1)) of Some t \<Rightarrow> t | None \<Rightarrow> now);
          (job3, ch3) = run_all [ensure_control_name, ensure_phase M requestID source now] job1
      in (requestID, requestTime, ch1 \<or> ch3, job3))"

section \<open>The control ConfigMap\<close>

definition controlPayload :: "DesiredState \<Rightarrow> string \<Rightarrow> gotime \<Rightarrow> string" where
  "controlPayload desiredState requestID updatedAt =
     ''{'' @ json_fields
       ([(''desiredState'', DesiredState_string desiredState)]
        @ (if requestID \<noteq> '''' then [(''requestId'', requestID)] else [])
        @ (if updatedAt \<noteq> time_zero then [(''updatedAt'', format_RFC3339 updatedAt)] else []))
     @ ''}'' @ [char_of (10::nat)]"

definition writePauseControl ::
  "ctl_env \<Rightarrow> job \<Rightarrow> string \<Rightarrow> gotime \<Rightarrow> api_error option \<times> effect list" where
  "writePauseControl E job requestID requestTime =
     (case ce_GetConfigMap E (rtj_Namespace job) (st_ActiveControlConfigMapName (rtj_Status job)) of
        Inl err \<Rightarrow> (Some err, [])
      | Inr cm \<Rightarrow>
          (let payload = controlPayload DesiredStatePaused requestID requestTime
           in if mget (cm_Data cm) ''control.json'' = payload then (None, [])
              else (let cm' = cm\<lparr> cm_Data := (cm_Data cm)(''control.json'' \<mapsto> payload) \<rparr>
                    in (ce_UpdateConfigMap E cm', [UpdateConfigMap cm']))))"

definition cleanupActiveJobSet :: "ctl_env \<Rightarrow> JobSetObject option \<Rightarrow> api_error option \<times> effect list" where
  "cleanupActiveJobSet E activeJobSet =
     (case activeJobSet of
        None \<Rightarrow> (None, [])
      | Some js \<Rightarrow>
          if js_Name js = '''' then (None, [])
          else if js_Deleting js then (None, [])
          else (case ce_DeleteJobSet E (js_Name js) of
                  Some err \<Rightarrow> (if IsNotFound err then None else Some err, [DeleteJobSet (js_Name js)])
                | None \<Rightarrow> (None, [DeleteJobSet (js_Name js)])))"

section \<open>The flow\<close>

definition drain_timeout_message :: "string \<Rightarrow> job \<Rightarrow> string" where
  "drain_timeout_message requestID job =
     ''Stop request '' @ requestID @ '' for run attempt '' @ itoa (st_CurrentRunAttempt (rtj_Status job)) @
     '' exceeded maxDrainTime '' @ Duration_String (cp_MaxDrainTime (sp_Checkpoint (rtj_Spec job))) @
     '' before a newer yield marker and checkpoint manifest were observed.''"

definition drain_timed_out :: "job \<Rightarrow> gotime \<Rightarrow> gotime \<Rightarrow> bool" where
  "drain_timed_out job requestTime now \<longleftrightarrow>
     time_Add requestTime (cp_MaxDrainTime (sp_Checkpoint (rtj_Spec job))) < now"

definition drain_failure :: "ctl_env \<Rightarrow> job \<Rightarrow> JobSetObject option \<Rightarrow> string \<Rightarrow> gotime \<Rightarrow> outcome" where
  "drain_failure E job activeJobSet requestID now =
     (case cleanupActiveJobSet E activeJobSet of
        (Some err, ds) \<Rightarrow> emits ds (Inl (err_text err), [], job)
      | (None, ds) \<Rightarrow> emits ds
          (let message = drain_timeout_message requestID job;
               (job1, changed) = run_all
                 [setCondition (ce_Meta E) ''Degraded'' ConditionTrue ''DrainTimedOut'' message now,
                  markFailed (ce_Meta E) ''DrainTimedOut'' message now] job
           in save_if E changed job1 (Inr Done, [], job1)))"

definition record_checkpoint :: "PauseObservation \<Rightarrow> job \<Rightarrow> job" where
  "record_checkpoint obs job =
     job\<lparr> rtj_Status := (rtj_Status job)\<lparr>
       st_LastCompletedCheckpoint := Some (pob_Checkpoint obs), st_SelectedCheckpoint := Some (pob_Checkpoint obs),
       st_TransitionTimestamps := (st_TransitionTimestamps (rtj_Status job))\<lparr>
         tt_LastCheckpointCompletedAt := Some (pob_CompletedAt obs) \<rparr> \<rparr> \<rparr>"

definition checkpoint_recorded :: "PauseObservation \<Rightarrow> job \<Rightarrow> bool" where
  "checkpoint_recorded obs job \<longleftrightarrow>
     (case st_LastCompletedCheckpoint (rtj_Status job) of
        None \<Rightarrow> False | Some c \<Rightarrow> cr_ManifestURI c = cr_ManifestURI (pob_Checkpoint obs))"

definition observe_drain ::
  "ctl_env \<Rightarrow> job \<Rightarrow> JobSetObject option \<Rightarrow> stopSource \<Rightarrow> string \<Rightarrow> gotime \<Rightarrow> gotime \<Rightarrow> outcome" where
  "observe_drain E job activeJobSet source requestID requestTime now =
     (let storageURI = cp_StorageURI (sp_Checkpoint (rtj_Spec job));
          attempt = st_CurrentRunAttempt (rtj_Status job)
      in case catalog_ObservePause (ce_Catalog E) storageURI attempt requestID requestTime of
           Inl err \<Rightarrow> failLaunch E job (''observe pause checkpoint state: '' @ store_error_text err)
         | Inr None \<Rightarrow>
             (case markDraining (ce_Meta E) (YieldMarkerURI storageURI attempt) source now job of
                (job1, changed) \<Rightarrow> save_if E changed job1 (Inr (RequeueAfter pausePollInterval), [], job1))
         | Inr (Some obs) \<Rightarrow>
             if \<not> checkpoint_recorded obs job
             then save E (record_checkpoint obs job)
                    (Inr (RequeueAfter pausePollInterval), [], record_checkpoint obs job)
             else (case cleanupActiveJobSet E activeJobSet of
                     (Some err, ds) \<Rightarrow> emits ds (Inl (err_text err), [], job)
                   | (None, ds) \<Rightarrow> emits ds (Inr (RequeueAfter pausePollInterval), [], job)))"

definition reconcileStopFlow ::
  "ctl_env \<Rightarrow> job \<Rightarrow> JobSetObject option \<Rightarrow> stopSource \<Rightarrow> gotime \<Rightarrow> outcome" where
  "reconcileStopFlow E job activeJobSet source now =
     (case ensureStopRequested (ce_Meta E) source now job of
        (requestID, requestTime, statusChanged, job1) \<Rightarrow>
          if statusChanged then save E job1 (Inr (RequeueAfter pausePollInterval), [], job1)
          else (case writePauseControl E job1 requestID requestTime of
                  (Some err, es) \<Rightarrow> emits es (failLaunch E job1 (''update pause control ConfigMap: '' @ err_text err))
                | (None, es) \<Rightarrow> emits es
                    (if drain_timed_out job1 requestTime now
                     then drain_failure E job1 activeJobSet requestID now
                     else observe_drain E job1 activeJobSet source requestID requestTime now)))"

definition reconcileResizeStopFlow :: "ctl_env \<Rightarrow> job \<Rightarrow> JobSetObject option \<Rightarrow> gotime \<Rightarrow> outcome" where
  "reconcileResizeStopFlow E job activeJobSet now = reconcileStopFlow E job activeJobSet stopSourceResize now"

section \<open>Requesting the stop\<close>

text \<open>A job whose stop has been requested and published: the request, the ConfigMap that carries it and
  the phase are in the status.\<close>

definition stopping :: "job \<Rightarrow> bool" where
  "stopping j \<longleftrightarrow> st_PauseRequestID (rtj_Status j) \<noteq> '''' \<and> st_ActiveControlConfigMapName (rtj_Status j) \<noteq> ''''
     \<and> st_Phase (rtj_Status j) \<in> {PhaseYieldRequested, PhaseDraining}"

abbreviation requested_at :: "job \<Rightarrow> gotime option" where
  "requested_at j \<equiv> tt_YieldRequestedAt (st_TransitionTimestamps (rtj_Status j))"

definition request_time :: "job \<Rightarrow> gotime \<Rightarrow> gotime" where
  "request_time j now = (case requested_at j of Some t \<Rightarrow> t | None \<Rightarrow> now)"

lemma markStopRequested_changes:
  assumes "st_PauseRequestID (rtj_Status j) \<noteq> rid \<or> st_Phase (rtj_Status j) \<noteq> PhaseYieldRequested"
  shows "snd (markStopRequested M rid src now j)"
  using assms by (auto simp: markStopRequested_def split_beta put_def phase_to_simps SetPhase_snd)

lemma new_request_id_not_Nil [simp]: "new_request_id src j \<noteq> ''''"
  by (cases src) (simp_all add: new_request_id_def)

lemmas ensure_defs = ensureStopRequested_def ensure_id_def ensure_control_name_def ensure_phase_def

lemma ensure_stopping:
  "stopping j \<Longrightarrow> ensureStopRequested M src now j = (st_PauseRequestID (rtj_Status j), request_time j now, False, j)"
  by (auto simp: ensure_defs stopping_def request_time_def)

lemma ensure_id_changes: "st_PauseRequestID (rtj_Status j) = '''' \<Longrightarrow> snd (ensure_id M src now j)"
  using markStopRequested_changes [of j "new_request_id src j"] new_request_id_not_Nil [of src j]
  by (simp add: ensure_id_def)

lemma ensure_unchanged_stopping:
  assumes "ensureStopRequested M src now j = (rid, t, False, j')"
  shows "stopping j"
proof -
  have "st_PauseRequestID (rtj_Status j) \<noteq> ''''"
    using assms ensure_id_changes [of j M src now] by (auto simp: ensureStopRequested_def Let_def split_beta)
  moreover from this have "st_ActiveControlConfigMapName (rtj_Status j) \<noteq> ''''"
    using assms by (auto simp: ensure_defs Let_def split_beta split: if_splits)
  ultimately show ?thesis
    using assms markStopRequested_changes [of j]
    by (auto simp: ensure_defs stopping_def Let_def split_beta split: if_splits)
qed

lemma dropWhile_keeps: "x \<in> set s \<Longrightarrow> x \<noteq> c \<Longrightarrow> x \<in> set (dropWhile (\<lambda>y. y = c) s)"
  by (induction s) auto

lemma Trim1_keeps: "x \<in> set s \<Longrightarrow> x \<noteq> c \<Longrightarrow> x \<in> set (Trim1 s c)"
  using dropWhile_keeps [of x "rev (dropWhile (\<lambda>y. y = c) s)" c] dropWhile_keeps [of x s c]
  by (simp add: Trim1_def TrimRight1_def)

lemma ControlConfigMapName_not_Nil: "ControlConfigMapName n i \<noteq> []"
proof -
  have "CHR ''l'' \<in> set (normalize_name (n @ ''-run-'' @ itoa i @ ''-control''))"
    by (simp add: normalize_name_def to_lower_def)
  from Trim1_keeps [OF this, of "CHR ''-''"] show ?thesis
    by (auto simp: ControlConfigMapName_def dnsLabel_def Let_def)
qed

lemma markStopRequested_fields:
  assumes "j' = fst (markStopRequested M rid src now j)"
  shows "j' = j\<lparr> rtj_Status := rtj_Status j' \<rparr>" "st_PauseRequestID (rtj_Status j') = rid"
    "st_Phase (rtj_Status j') = PhaseYieldRequested"
    "st_ActiveControlConfigMapName (rtj_Status j') = st_ActiveControlConfigMapName (rtj_Status j)"
    "requested_at j' = (if st_Phase (rtj_Status j) \<noteq> PhaseYieldRequested then Some now else requested_at j)"
    "st_Elasticity (rtj_Status j') = st_Elasticity (rtj_Status j)"
proof -
  have m: "moved PhaseYieldRequested now (j\<lparr> rtj_Status := (rtj_Status j)\<lparr> st_PauseRequestID := rid \<rparr> \<rparr>) j'"
    using moved_markStopRequested [of now rid j M src] assms by (simp add: put_simps)
  from m show "j' = j\<lparr> rtj_Status := rtj_Status j' \<rparr>" unfolding moved_def by simp
  from moved_fields [OF m] show "st_PauseRequestID (rtj_Status j') = rid"
    "st_Phase (rtj_Status j') = PhaseYieldRequested"
    "st_ActiveControlConfigMapName (rtj_Status j') = st_ActiveControlConfigMapName (rtj_Status j)"
    "requested_at j' = (if st_Phase (rtj_Status j) \<noteq> PhaseYieldRequested then Some now else requested_at j)"
    "st_Elasticity (rtj_Status j') = st_Elasticity (rtj_Status j)"
    by simp_all
qed

lemma same_but_status: "j1 = j\<lparr> rtj_Status := s1 \<rparr> \<Longrightarrow> j1\<lparr> rtj_Status := s \<rparr> = j\<lparr> rtj_Status := s \<rparr>"
  by simp

lemma ensure_requests:
  assumes "ensureStopRequested M src now j = (rid, t, ch, j')"
  shows "stopping j'" and "j' = j\<lparr> rtj_Status := rtj_Status j' \<rparr>"
    and "st_Phase (rtj_Status j) \<notin> {PhaseYieldRequested, PhaseDraining} \<Longrightarrow> requested_at j' = Some now"
    and "st_Elasticity (rtj_Status j') = st_Elasticity (rtj_Status j)"
proof -
  define j1 where "j1 = fst (ensure_id M src now j)"
  define j2 where "j2 = fst (ensure_control_name j1)"
  have rid: "rid \<noteq> ''''" and j': "j' = fst (ensure_phase M rid src now j2)"
    using assms by (auto simp: ensureStopRequested_def Let_def split_beta j1_def j2_def split: if_splits)
  note m1 = markStopRequested_fields [OF refl, of M "new_request_id src j" src now j]
  have j1: "st_PauseRequestID (rtj_Status j1) \<noteq> ''''" "j1 = j\<lparr> rtj_Status := rtj_Status j1 \<rparr>"
    "st_Phase (rtj_Status j1) = PhaseYieldRequested \<and>
       (st_Phase (rtj_Status j) \<noteq> PhaseYieldRequested \<longrightarrow> requested_at j1 = Some now) \<or> j1 = j"
    using m1 by (simp_all add: j1_def ensure_id_def)
  have j2: "st_PauseRequestID (rtj_Status j2) \<noteq> ''''" "st_ActiveControlConfigMapName (rtj_Status j2) \<noteq> ''''"
    "st_Phase (rtj_Status j2) = st_Phase (rtj_Status j1)" "requested_at j2 = requested_at j1"
    "j2 = j\<lparr> rtj_Status := rtj_Status j2 \<rparr>"
    using j1(1) ControlConfigMapName_not_Nil same_but_status [OF j1(2)]
    by (simp_all add: j2_def ensure_control_name_def) (use j1(2) in simp)
  note m2 = markStopRequested_fields [OF refl, of M rid src now j2]
  show "stopping j'" using j' j2 rid m2 by (auto simp: stopping_def ensure_phase_def)
  have "fst (markStopRequested M rid src now j2) = j\<lparr> rtj_Status := rtj_Status (fst (markStopRequested M rid src now j2)) \<rparr>"
    using m2(1) same_but_status [OF j2(5)] by simp
  with j2(5) show "j' = j\<lparr> rtj_Status := rtj_Status j' \<rparr>" by (simp add: j' ensure_phase_def)
  show "requested_at j' = Some now" if "st_Phase (rtj_Status j) \<notin> {PhaseYieldRequested, PhaseDraining}"
    using that j1(3) j' j2 m2(5) by (auto simp: ensure_phase_def)
  show "st_Elasticity (rtj_Status j') = st_Elasticity (rtj_Status j)"
    using m1(6) m2(6) by (simp add: j' j2_def j1_def ensure_phase_def ensure_control_name_def ensure_id_def)
qed

section \<open>One reconciliation\<close>

lemma reconcileStopFlow_stopping:
  "stopping j \<Longrightarrow> reconcileStopFlow E j js src now =
     (case writePauseControl E j (st_PauseRequestID (rtj_Status j)) (request_time j now) of
        (Some err, es) \<Rightarrow> emits es (failLaunch E j (''update pause control ConfigMap: '' @ err_text err))
      | (None, es) \<Rightarrow> emits es
          (if drain_timed_out j (request_time j now) now
           then drain_failure E j js (st_PauseRequestID (rtj_Status j)) now
           else observe_drain E j js src (st_PauseRequestID (rtj_Status j)) (request_time j now) now))"
  by (simp add: reconcileStopFlow_def ensure_stopping)

lemma reconcileStopFlow_requests:
  assumes "\<not> stopping j"
  obtains rid t j' where "ensureStopRequested (ce_Meta E) src now j = (rid, t, True, j')"
    and "reconcileStopFlow E j js src now = save E j' (Inr (RequeueAfter pausePollInterval), [], j')"
proof -
  obtain rid t ch j' where e: "ensureStopRequested (ce_Meta E) src now j = (rid, t, ch, j')"
    by (metis prod_cases4)
  with ensure_unchanged_stopping [of "ce_Meta E" src now j] assms have "ch" by (cases ch) auto
  with e that show thesis by (simp add: reconcileStopFlow_def)
qed

lemma writePauseControl_effects: "set (snd (writePauseControl E j rid t)) \<subseteq> range UpdateConfigMap"
  by (auto simp: writePauseControl_def Let_def split: sum.splits if_splits)

lemma cleanup_effects:
  "set (snd (cleanupActiveJobSet E js)) \<subseteq>
     (case js of Some x \<Rightarrow> if js_Name x \<noteq> '''' \<and> \<not> js_Deleting x then {DeleteJobSet (js_Name x)} else {} | None \<Rightarrow> {})"
  by (auto simp: cleanupActiveJobSet_def split: option.splits if_splits)

lemma observe_drain_deletes:
  assumes "DeleteJobSet n \<in> set (effects (observe_drain E j js src rid t now))"
  shows "\<exists>obs. catalog_ObservePause (ce_Catalog E) (cp_StorageURI (sp_Checkpoint (rtj_Spec j)))
            (st_CurrentRunAttempt (rtj_Status j)) rid t = Inr (Some obs) \<and> checkpoint_recorded obs j"
  using assms failLaunch_effects
  by (fastforce simp: observe_drain_def Let_def split_beta save_effects save_if_effects
      split: sum.splits option.splits if_splits prod.splits)

text \<open>A child JobSet is deleted only for a job whose stop was requested before, after the drain time or
  once the observed checkpoint is in its status.\<close>

lemma deletes_only_after:
  assumes "DeleteJobSet n \<in> set (effects (reconcileStopFlow E j js src now))"
  shows "stopping j"
    and "drain_timed_out j (request_time j now) now
      \<or> (\<exists>obs. catalog_ObservePause (ce_Catalog E) (cp_StorageURI (sp_Checkpoint (rtj_Spec j)))
            (st_CurrentRunAttempt (rtj_Status j)) (st_PauseRequestID (rtj_Status j)) (request_time j now)
            = Inr (Some obs) \<and> checkpoint_recorded obs j)"
proof -
  show st: "stopping j"
  proof (rule ccontr)
    assume "\<not> stopping j"
    from reconcileStopFlow_requests [OF this, of E src now js]
    obtain j' where "reconcileStopFlow E j js src now = save E j' (Inr (RequeueAfter pausePollInterval), [], j')" .
    with assms show False by (simp add: save_effects split: if_splits)
  qed
  let ?w = "writePauseControl E j (st_PauseRequestID (rtj_Status j)) (request_time j now)"
  have w: "DeleteJobSet n \<notin> set (snd ?w)" using writePauseControl_effects by fastforce
  have f: "DeleteJobSet n \<notin> set (effects (failLaunch E j m))" for m using failLaunch_effects by fastforce
  show "drain_timed_out j (request_time j now) now
      \<or> (\<exists>obs. catalog_ObservePause (ce_Catalog E) (cp_StorageURI (sp_Checkpoint (rtj_Spec j)))
            (st_CurrentRunAttempt (rtj_Status j)) (st_PauseRequestID (rtj_Status j)) (request_time j now)
            = Inr (Some obs) \<and> checkpoint_recorded obs j)"
    using assms w f observe_drain_deletes
    by (auto simp: reconcileStopFlow_stopping [OF st] split: prod.splits option.splits if_splits)
qed

section \<open>A drain keeps its request\<close>

text \<open>What a reconciliation may do to a job whose stop was requested: keep the request and its time, or
  give up.\<close>

definition drain_continues :: "job \<Rightarrow> job \<Rightarrow> bool" where
  "drain_continues j j' \<longleftrightarrow> j' = j\<lparr> rtj_Status := rtj_Status j' \<rparr>
     \<and> st_PauseRequestID (rtj_Status j') = st_PauseRequestID (rtj_Status j)
     \<and> (st_Phase (rtj_Status j') = PhaseFailed \<or> stopping j' \<and> requested_at j' = requested_at j)"

lemma persisted_inv:
  "P j \<Longrightarrow> (\<And>j'. UpdateJob j' \<notin> set es) \<Longrightarrow>
     (\<And>j'. UpdateStatus j' \<in> set es \<Longrightarrow> P (j\<lparr> rtj_Status := rtj_Status j' \<rparr>)) \<Longrightarrow> P (persisted E es j)"
proof (induction es arbitrary: j)
  case (Cons e es)
  then show ?case by (cases e) force+
qed simp

lemma failed_continues:
  assumes "touches u" and "moved PhaseFailed now (fst (u j)) j'"
  shows "drain_continues j j'"
proof -
  obtain s where s: "fst (u j) = j\<lparr> rtj_Status := s \<rparr>" using assms(1) unfolding touches_def by blast
  have "st_PauseRequestID (rtj_Status (fst (u j))) = st_PauseRequestID (rtj_Status j)"
    by (rule touched_fields [OF touchesD(6) [OF assms(1)]])
  moreover have "j' = j\<lparr> rtj_Status := rtj_Status j' \<rparr>" using assms(2) s by (simp add: moved_def)
  ultimately show ?thesis using moved_fields [OF assms(2)] by (simp add: drain_continues_def)
qed

lemma touches_id: "touches (\<lambda>j. (j, False))"
  by (simp add: touches_def)

lemma failLaunch_updates: "UpdateStatus j' \<in> set (effects (failLaunch E j m)) \<Longrightarrow> drain_continues j j'"
  using failed_continues [OF touches_id, of "ce_Now E" j] moved_markFailed [of "ce_Now E" j "ce_Meta E" "''LaunchFailed''" m]
  by (auto simp: failLaunch_def split_beta save_if_effects split: if_splits)

lemma drain_failure_updates:
  assumes "UpdateStatus j' \<in> set (effects (drain_failure E j js rid now))"
  shows "drain_continues j j'"
proof -
  let ?m = "drain_timeout_message rid j"
  let ?u = "setCondition (ce_Meta E) ''Degraded'' ConditionTrue ''DrainTimedOut'' ?m now"
  have "j' = fst (markFailed (ce_Meta E) ''DrainTimedOut'' ?m now (fst (?u j)))"
    using assms cleanup_effects [of E js]
    by (auto simp: drain_failure_def Let_def split_beta save_if_effects split: prod.splits option.splits if_splits)
  then show ?thesis using failed_continues [OF touches_setCondition moved_markFailed] by simp
qed

lemma observe_drain_updates:
  assumes "stopping j" and "UpdateStatus j' \<in> set (effects (observe_drain E j js src rid t now))"
  shows "drain_continues j j'"
proof -
  let ?r = "catalog_ObservePause (ce_Catalog E) (cp_StorageURI (sp_Checkpoint (rtj_Spec j)))
            (st_CurrentRunAttempt (rtj_Status j)) rid t"
  consider err where "?r = Inl err" | "?r = Inr None" | obs where "?r = Inr (Some obs)"
    by (metis old.sum.exhaust option.exhaust)
  then show ?thesis
  proof cases
    case 1
    with assms(2) failLaunch_updates show ?thesis by (auto simp: observe_drain_def)
  next
    case 2
    then have j': "j' = fst (markDraining (ce_Meta E) (YieldMarkerURI (cp_StorageURI (sp_Checkpoint (rtj_Spec j)))
        (st_CurrentRunAttempt (rtj_Status j))) src now j)"
      using assms(2) by (auto simp: observe_drain_def Let_def split_beta save_if_effects split: if_splits)
    have m: "moved PhaseDraining now j j'" unfolding j' by (rule moved_markDraining)
    then show ?thesis
      using assms(1) moved_fields [OF m] by (simp add: drain_continues_def stopping_def moved_def)
  next
    case 3
    then have "j' = record_checkpoint obs j"
      using assms(2) cleanup_effects [of E js]
      by (auto simp: observe_drain_def Let_def save_effects split: prod.splits option.splits if_splits)
    then show ?thesis
      using assms(1) by (simp add: drain_continues_def stopping_def record_checkpoint_def)
  qed
qed

lemma stop_flow_keeps_object: "UpdateJob j' \<notin> set (effects (observe_drain E j js src rid t now))"
    "UpdateJob j' \<notin> set (effects (drain_failure E j js rid now))"
    "UpdateJob j' \<notin> set (effects (failLaunch E j m))"
  using failLaunch_effects [of E j] cleanup_effects [of E js]
  by (fastforce simp: observe_drain_def drain_failure_def Let_def split_beta save_effects save_if_effects
      split: sum.splits option.splits prod.splits if_splits)+

lemma drain_step:
  assumes "stopping j"
  shows "drain_continues j (persisted E (effects (reconcileStopFlow E j js src now)) j)"
proof (rule persisted_inv)
  show "drain_continues j j" using assms by (simp add: drain_continues_def)
  show "UpdateJob j' \<notin> set (effects (reconcileStopFlow E j js src now))" for j'
  proof -
    have "UpdateJob j' \<notin> set (snd (writePauseControl E j (st_PauseRequestID (rtj_Status j)) (request_time j now)))"
      using writePauseControl_effects by blast
    then show ?thesis
      by (auto simp: reconcileStopFlow_stopping [OF assms] stop_flow_keeps_object
          split: prod.splits option.splits if_splits)
  qed
  fix j' assume "UpdateStatus j' \<in> set (effects (reconcileStopFlow E j js src now))"
  moreover have "UpdateStatus j' \<notin> set (snd (writePauseControl E j (st_PauseRequestID (rtj_Status j)) (request_time j now)))"
    using writePauseControl_effects by fastforce
  ultimately have "drain_continues j j'"
    using failLaunch_updates drain_failure_updates observe_drain_updates [OF assms]
    by (auto simp: reconcileStopFlow_stopping [OF assms] split: prod.splits option.splits if_splits)
  then show "drain_continues j (j\<lparr> rtj_Status := rtj_Status j' \<rparr>)" by (simp add: drain_continues_def)
qed

text \<open>Reconciliations of a draining job, at arbitrary times and with arbitrary answers of the cluster, as
  long as the drain has not been given up.\<close>

inductive drain_steps :: "job \<Rightarrow> job \<Rightarrow> bool" where
  drain_refl: "drain_steps j j"
| drain_next: "drain_steps j j' \<Longrightarrow>
    st_Phase (rtj_Status (persisted E (effects (reconcileStopFlow E j' js src now)) j')) \<noteq> PhaseFailed \<Longrightarrow>
    drain_steps j (persisted E (effects (reconcileStopFlow E j' js src now)) j')"

lemma drain_steps_keep:
  assumes "drain_steps j j'" and "stopping j"
  shows "stopping j' \<and> requested_at j' = requested_at j \<and> rtj_Spec j' = rtj_Spec j
     \<and> st_PauseRequestID (rtj_Status j') = st_PauseRequestID (rtj_Status j)"
  using assms
proof (induction rule: drain_steps.induct)
  case (drain_next j j' E js src now)
  let ?k = "persisted E (effects (reconcileStopFlow E j' js src now)) j'"
  from drain_next have st: "stopping j'" by simp
  note d = drain_step [OF this, of E js src now]
  then obtain s where "?k = j'\<lparr> rtj_Status := s \<rparr>" unfolding drain_continues_def by blast
  then have "rtj_Spec ?k = rtj_Spec j'" by simp
  with d drain_next show ?case by (simp add: drain_continues_def)
qed simp

section \<open>Reconciliations that succeed\<close>

lemma all_ok_write:
  assumes "all_ok E"
  shows "\<exists>es. writePauseControl E j rid t = (None, es) \<and> set es \<subseteq> range UpdateConfigMap"
proof -
  obtain cm where "ce_GetConfigMap E (rtj_Namespace j) (st_ActiveControlConfigMapName (rtj_Status j)) = Inr cm"
    using assms unfolding all_ok_def by metis
  then show ?thesis using assms by (auto simp: writePauseControl_def Let_def all_ok_def)
qed

lemma all_ok_cleanup:
  "all_ok E \<Longrightarrow> js_Name x \<noteq> '''' \<Longrightarrow> \<not> js_Deleting x \<Longrightarrow>
     cleanupActiveJobSet E (Some x) = (None, [DeleteJobSet (js_Name x)])"
  by (simp add: cleanupActiveJobSet_def all_ok_def)

lemma drain_timeout_deletes:
  assumes "all_ok E" and "js_Name x \<noteq> ''''" and "\<not> js_Deleting x" and "stopping j"
    and "drain_timed_out j (request_time j now) now" and "now \<noteq> time_zero"
    and out: "out = reconcileStopFlow E j (Some x) src now"
  shows "DeleteJobSet (js_Name x) \<in> set (effects out)" and "st_Phase (rtj_Status (final_job out)) = PhaseFailed"
    and "st_PauseRequestID (rtj_Status (final_job out)) = st_PauseRequestID (rtj_Status j)"
    and "st_LastCompletedCheckpoint (rtj_Status (final_job out)) = st_LastCompletedCheckpoint (rtj_Status j)"
    and "find_condition ''Degraded'' (final_job out) \<noteq> None" and "result out = Inr Done"
proof -
  let ?rid = "st_PauseRequestID (rtj_Status j)"
  let ?m = "drain_timeout_message ?rid j"
  let ?u = "setCondition (ce_Meta E) ''Degraded'' ConditionTrue ''DrainTimedOut'' ?m now"
  let ?j = "fst (markFailed (ce_Meta E) ''DrainTimedOut'' ?m now (fst (?u j)))"
  obtain es where w: "writePauseControl E j ?rid (request_time j now) = (None, es)"
    using all_ok_write [OF assms(1)] by blast
  have o: "effects out = es @ [DeleteJobSet (js_Name x)] @ effects (save_if E b ?j (Inr Done, [], ?j))"
    "final_job out = ?j" "result out = Inr Done" if "b = snd (run_all [?u, markFailed (ce_Meta E) ''DrainTimedOut'' ?m now] j)" for b
    using assms that w
    by (simp_all add: out reconcileStopFlow_stopping drain_failure_def all_ok_cleanup Let_def split_beta
        save_if_def all_ok_save)
  show "DeleteJobSet (js_Name x) \<in> set (effects out)" using o(1) [OF refl] by simp
  show "result out = Inr Done" using o(3) [OF refl] .
  have m: "moved PhaseFailed now (fst (?u j)) ?j" by (rule moved_markFailed)
  have "touched (rtj_Status j) (rtj_Status (fst (?u j)))" by (rule touchesD) simp
  note t = touched_fields [OF this]
  show "st_Phase (rtj_Status (final_job out)) = PhaseFailed"
    "st_PauseRequestID (rtj_Status (final_job out)) = st_PauseRequestID (rtj_Status j)"
    "st_LastCompletedCheckpoint (rtj_Status (final_job out)) = st_LastCompletedCheckpoint (rtj_Status j)"
    unfolding o(2) [OF refl] using moved_fields [OF m] t by simp_all
  have c: "conditions_api (ce_Meta E)" using assms(1) by (simp add: all_ok_def)
  have "keeps (find_condition ''Degraded'') (markFailed (ce_Meta E) ''DrainTimedOut'' ?m now)"
    unfolding markFailed_def
    by (intro keeps_run_all) (simp add: conditions_api.keeps_syncSuspensionStatus [OF c assms(6)])
  from keepsD [OF this, of "fst (?u j)"]
  show "find_condition ''Degraded'' (final_job out) \<noteq> None"
    unfolding o(2) [OF refl] by (simp add: conditions_api.setCondition_fst [OF c assms(6)])
qed

lemma checkpoint_observed_step:
  assumes "all_ok E" and "js_Name x \<noteq> ''''" and "\<not> js_Deleting x" and "stopping j"
    and "\<not> drain_timed_out j (request_time j now) now"
    and "catalog_ObservePause (ce_Catalog E) (cp_StorageURI (sp_Checkpoint (rtj_Spec j)))
            (st_CurrentRunAttempt (rtj_Status j)) (st_PauseRequestID (rtj_Status j)) (request_time j now) = Inr (Some obs)"
    and out: "out = reconcileStopFlow E j (Some x) src now"
  shows "checkpoint_recorded obs j \<Longrightarrow> DeleteJobSet (js_Name x) \<in> set (effects out) \<and> persisted E (effects out) j = j"
    and "\<not> checkpoint_recorded obs j \<Longrightarrow> persisted E (effects out) j = record_checkpoint obs j"
proof -
  obtain es where w: "writePauseControl E j (st_PauseRequestID (rtj_Status j)) (request_time j now) = (None, es)"
    and es: "set es \<subseteq> range UpdateConfigMap"
    using all_ok_write [OF assms(1)] by blast
  have p: "persisted E es k = k" for k using es by (induction es) auto
  have eff: "effects out = es @ effects (observe_drain E j (Some x) src (st_PauseRequestID (rtj_Status j)) (request_time j now) now)"
    using assms(4,5) w by (simp add: out reconcileStopFlow_stopping)
  show "checkpoint_recorded obs j \<Longrightarrow> DeleteJobSet (js_Name x) \<in> set (effects out) \<and> persisted E (effects out) j = j"
    using assms(1-6) by (simp add: eff persisted_append p observe_drain_def all_ok_cleanup)
  have "j\<lparr> rtj_Status := rtj_Status (record_checkpoint obs j) \<rparr> = record_checkpoint obs j"
    by (simp add: record_checkpoint_def)
  then show "\<not> checkpoint_recorded obs j \<Longrightarrow> persisted E (effects out) j = record_checkpoint obs j"
    using assms(1-6) by (simp add: eff persisted_append p observe_drain_def all_ok_save all_ok_def)
qed

lemma record_checkpoint_simps [simp]:
  "checkpoint_recorded obs (record_checkpoint obs j)" "stopping (record_checkpoint obs j) = stopping j"
  "rtj_Spec (record_checkpoint obs j) = rtj_Spec j"
  "st_CurrentRunAttempt (rtj_Status (record_checkpoint obs j)) = st_CurrentRunAttempt (rtj_Status j)"
  "st_PauseRequestID (rtj_Status (record_checkpoint obs j)) = st_PauseRequestID (rtj_Status j)"
  "requested_at (record_checkpoint obs j) = requested_at j"
  by (simp_all add: record_checkpoint_def checkpoint_recorded_def stopping_def)

section \<open>Properties\<close>

text \<open>A cluster in which every call succeeds, and a job of run attempt 2 that was asked to yield.\<close>

definition ex_ctl :: ctl_env where
  "ex_ctl = \<lparr> ce_Meta = apimachinery, ce_Catalog = ObjectStoreCatalog ex_store, ce_Now = 9, ce_Mode = ModeWorker,
     ce_ProvisioningACNames = [], ce_ClusterResolver = None, ce_GetJob = (\<lambda>_ _. Inl (ApiNotFound ''job'')),
     ce_UpdateStatus = (\<lambda>_. None), ce_UpdateJob = Inr,
     ce_GetConfigMap = (\<lambda>ns n. Inr \<lparr> cm_Name = n, cm_Namespace = ns, cm_Labels = Map.empty, cm_Data = Map.empty \<rparr>),
     ce_CreateConfigMap = (\<lambda>_. None), ce_UpdateConfigMap = (\<lambda>_. None),
     ce_GetJobSet = (\<lambda>_ _. Inl (ApiNotFound ''jobset'')), ce_CreateJobSet = (\<lambda>_. None), ce_DeleteJobSet = (\<lambda>_. None),
     ce_ControllerReference = (\<lambda>_. None), ce_OwnerReference = (\<lambda>_. None),
     ce_GetWorkload = (\<lambda>_ _. Inl (ApiNotFound ''workload'')), ce_PatchReclaim = (\<lambda>_ _. None),
     ce_PatchPriority = (\<lambda>_ _. None), ce_GetPriorityPolicy = (\<lambda>_. Inl (ApiNotFound ''policy'')),
     ce_GetPriorityClass = (\<lambda>_. Inl (ApiNotFound ''class'')), ce_WorkloadName = (\<lambda>n uid. n @ ''-'' @ uid),
     ce_GetClaimTemplate = (\<lambda>_ _. Inl (ApiNotFound ''template'')), ce_ListClaimTemplates = (\<lambda>_ _. Inr []),
     ce_CreateClaimTemplate = (\<lambda>_. None), ce_DeleteClaimTemplate = (\<lambda>_. None), ce_ListClaims = (\<lambda>_. Inr []),
     ce_Render = ex_render_env, ce_DecodeCounts = (\<lambda>_. Inr (Some [(''worker'', 8)])),
     ce_DecodeStrings = (\<lambda>_. Inr []), ce_Sha256 = (\<lambda>s. s) \<rparr>"

definition ex_active :: "ResumableTrainingJobPhase \<Rightarrow> gotime option \<Rightarrow> job" where
  "ex_active p t = ex_job\<lparr> rtj_Spec := ex_spec\<lparr> sp_Checkpoint := (sp_Checkpoint ex_spec)\<lparr> cp_StorageURI := ''s3://b'' \<rparr> \<rparr>,
     rtj_Status := ex_status\<lparr> st_Phase := p, st_CurrentRunAttempt := 2, st_PauseRequestID := ''r1'',
       st_ActiveJobSetName := ''j-run-2'', st_ActiveControlConfigMapName := ''j-run-2-control'',
       st_TransitionTimestamps := (st_TransitionTimestamps ex_status)\<lparr> tt_YieldRequestedAt := t \<rparr> \<rparr> \<rparr>"

definition ex_jobset :: JobSetObject where
  "ex_jobset = \<lparr> js_Name = ''j-run-2'', js_Deleting = False \<rparr>"

lemma ex_ctl_ok: "all_ok ex_ctl" "ce_Catalog ex_ctl = ObjectStoreCatalog ex_store"
  by (simp_all add: all_ok_def ex_ctl_def apimachinery.conditions_api_axioms)

lemma ex_jobset_ok: "js_Name ex_jobset \<noteq> ''''" "\<not> js_Deleting ex_jobset"
  by (simp_all add: ex_jobset_def)

lemma ex_active_simps:
  "stopping (ex_active PhaseYieldRequested t)" "request_time (ex_active p (Some t')) now = t'"
  "requested_at (ex_active p t) = t"
  "st_PauseRequestID (rtj_Status (ex_active p t)) = ''r1''" "st_Phase (rtj_Status (ex_active p t)) = p"
  "st_CurrentRunAttempt (rtj_Status (ex_active p t)) = 2"
  "cp_StorageURI (sp_Checkpoint (rtj_Spec (ex_active p t))) = ''s3://b''"
  "cp_MaxDrainTime (sp_Checkpoint (rtj_Spec (ex_active p t))) = Minute"
  by (simp_all add: ex_active_def stopping_def request_time_def ex_spec_def)

lemma ex_observed: "\<exists>obs. ObservePause ex_store ''s3://b'' 2 ''r1'' 1 = Inr (Some obs)"
proof -
  have "case ObservePause ex_store ''s3://b'' 2 ''r1'' 1 of Inr (Some obs) \<Rightarrow> True | _ \<Rightarrow> False" by code_simp
  then show ?thesis by (auto split: sum.splits option.splits)
qed

text \<open>
  The stop flow never deletes the child JobSet of a job that has not been asked to yield before, and
  before the drain time is over it deletes it only when the job's recorded last checkpoint is a complete
  manifest, with all its artifacts in the object store, that completed after the stop request.
\<close>
lemma stop_flow_deletes_safely:
  assumes "ce_Catalog E = ObjectStoreCatalog S"
    and "DeleteJobSet n \<in> set (effects (reconcileStopFlow E j js src now))"
  shows "stopping j \<and> (drain_timed_out j (request_time j now) now
     \<or> (\<exists>c m t. st_LastCompletedCheckpoint (rtj_Status j) = Some c \<and> cr_ManifestURI c = mf_ManifestURI m
          \<and> manifest_complete m \<and> artifacts_present S m \<and> CompletionTime m = Some t \<and> request_time j now < t))"
proof (cases "drain_timed_out j (request_time j now) now")
  case False
  then obtain obs where o: "ObservePause S (cp_StorageURI (sp_Checkpoint (rtj_Spec j)))
      (st_CurrentRunAttempt (rtj_Status j)) (st_PauseRequestID (rtj_Status j)) (request_time j now) = Inr (Some obs)"
    and r: "checkpoint_recorded obs j"
    using deletes_only_after(2) [OF assms(2)] assms(1) by auto
  from r obtain c where "st_LastCompletedCheckpoint (rtj_Status j) = Some c"
    "cr_ManifestURI c = cr_ManifestURI (pob_Checkpoint obs)"
    by (auto simp: checkpoint_recorded_def split: option.splits)
  then show ?thesis
    using ObservePause_SomeD [OF o] deletes_only_after(1) [OF assms(2)] by metis
qed (use deletes_only_after(1) [OF assms(2)] in simp)





text \<open>
  A failed drain is reported as a successful pause.  When the drain time runs out the job fails and is
  marked \<open>Degraded\<close>; if an earlier run had left a checkpoint, the next reconciliation of the held job moves it
  to \<open>Paused\<close>, with the message that it drained successfully, and removes the \<open>Degraded\<close> condition.
\<close>
lemma drain_failure_masked:
  assumes "all_ok E" and "js_Name x \<noteq> ''''" and "\<not> js_Deleting x" and "stopping j"
    and "drain_timed_out j (request_time j now) now" and "now \<noteq> time_zero"
    and "st_LastCompletedCheckpoint (rtj_Status j) \<noteq> None"
    and "j1 = final_job (reconcileStopFlow E j (Some x) src now)"
    and "j2 = final_job (reconcileManualHold E j1 now')"
  shows "st_Phase (rtj_Status j1) = PhaseFailed \<and> find_condition ''Degraded'' j1 \<noteq> None
       \<and> st_Phase (rtj_Status j2) = PhasePaused \<and> find_condition ''Degraded'' j2 = None"
proof -
  note d = drain_timeout_deletes [OF assms(1-6) refl, of src, folded assms(8)]
  have h: "st_LastCompletedCheckpoint (rtj_Status j1) \<noteq> None" "st_PauseRequestID (rtj_Status j1) \<noteq> ''''"
    using d(3,4) assms(4,7) by (auto simp: stopping_def)
  have j2: "j2 = fst (markPaused (ce_Meta E) now' j1)"
    using assms(1,9) h by (simp add: reconcileManualHold_def split_beta save_if_def all_ok_save)
  have "find_condition ''Degraded'' (fst (setObservedGeneration (fst (clearCondition ''Degraded'' k)))) = None" for k
    using keepsD [OF keeps_find_condition(2), of "''Degraded''" "fst (clearCondition ''Degraded'' k)"] by simp
  then have "find_condition ''Degraded'' j2 = None"
    by (simp add: j2 markPaused_def fst_run_all_Cons del: setObservedGeneration_fst run_all.simps(2))
  then show ?thesis using d(2,5) moved_fields(6) [OF moved_markPaused] j2 by metis
qed

end
