(* ===== verification/Elastic.thy ===== *)
theory Elastic
  imports Kueue_Types
begin

text \<open>
  The elasticity planner (\<open>internal/elastic\<close>): the pure function \<open>EvaluatePlan\<close> from a snapshot of
  a job to a plan, and the computation of the reclaimable pods published to Kueue.  \<open>int32\<close>
  values are \<open>int\<close>; the subtraction and the negation of the worker counts wrap (\<open>wrap32\<close>).
  Pod-set names are the lower-case DNS labels Kueue requires, on which \<open>kueue.NewPodSetReference\<close> is the
  identity.
\<close>

section \<open>Types (\<open>types.go\<close>)\<close>

datatype PlanKind =
  PlanNoResize | PlanShrinkInPlace | PlanShrinkViaRelaunch | PlanGrowViaRelaunch
| PlanResizeBlocked | PlanResizeInProgress | PlanReclaimPublished

fun PlanKind_string :: "PlanKind \<Rightarrow> string" where
  "PlanKind_string PlanNoResize = ''NoResize''"
| "PlanKind_string PlanShrinkInPlace = ''ShrinkInPlace''"
| "PlanKind_string PlanShrinkViaRelaunch = ''ShrinkViaRelaunch''"
| "PlanKind_string PlanGrowViaRelaunch = ''GrowViaRelaunch''"
| "PlanKind_string PlanResizeBlocked = ''ResizeBlocked''"
| "PlanKind_string PlanResizeInProgress = ''ResizeInProgress''"
| "PlanKind_string PlanReclaimPublished = ''ReclaimPublished''"

record PlanInput =
  pi_ElasticityEnabled :: bool
  pi_TargetWorkerCount :: int
  pi_CurrentWorkerCount :: int
  pi_ActiveWorkerCount :: int
  pi_MinWorkerCount :: int
  pi_MaxWorkerCount :: int
  pi_InPlaceShrinkPolicy :: string
  pi_RuntimeSupportsInPlaceShrink :: bool
  pi_WorkloadAdmitted :: bool
  pi_WorkloadExists :: bool
  pi_CurrentResizeState :: string
  pi_ReclaimablePodsPublished :: bool
  pi_CheckpointReady :: bool
  pi_LastResizeCheckpointExists :: bool
  pi_PreemptionInProgress :: bool
  pi_DRAConstraintsBlock :: bool
  pi_Now :: gotime

record PlanOutput =
  po_Kind :: PlanKind
  po_ReclaimableWorkerDelta :: int
  po_CheckpointRequired :: bool
  po_RelaunchRequired :: bool
  po_NewWorkerCount :: int
  po_Reason :: string
  po_Message :: string

record ReclaimDelta =
  rd_PodSetName :: string
  rd_Count :: int

definition IsReclaim :: "ReclaimDelta \<Rightarrow> bool" where
  "IsReclaim d \<longleftrightarrow> rd_Count d > 0"

definition IsClear :: "ReclaimDelta \<Rightarrow> bool" where
  "IsClear d \<longleftrightarrow> rd_Count d = 0"

section \<open>The planner (\<open>plan.go\<close>)\<close>

definition noResize :: "int \<Rightarrow> string \<Rightarrow> string \<Rightarrow> PlanOutput" where
  "noResize workerCount reason message =
     \<lparr> po_Kind = PlanNoResize, po_ReclaimableWorkerDelta = 0, po_CheckpointRequired = False,
       po_RelaunchRequired = False, po_NewWorkerCount = workerCount, po_Reason = reason,
       po_Message = message \<rparr>"

definition blocked :: "int \<Rightarrow> string \<Rightarrow> string \<Rightarrow> PlanOutput" where
  "blocked workerCount reason message =
     \<lparr> po_Kind = PlanResizeBlocked, po_ReclaimableWorkerDelta = 0, po_CheckpointRequired = False,
       po_RelaunchRequired = False, po_NewWorkerCount = workerCount, po_Reason = reason,
       po_Message = message \<rparr>"

definition from_to :: "PlanInput \<Rightarrow> string" where
  "from_to i = itoa (pi_CurrentWorkerCount i) @ '' to '' @ itoa (pi_TargetWorkerCount i)"

definition evaluateShrink :: "PlanInput \<Rightarrow> int \<Rightarrow> PlanOutput" where
  "evaluateShrink i reclaimCount =
     (if pi_InPlaceShrinkPolicy i = ''Never''
      then \<lparr> po_Kind = PlanShrinkViaRelaunch, po_ReclaimableWorkerDelta = 0,
             po_CheckpointRequired = True, po_RelaunchRequired = True,
             po_NewWorkerCount = pi_TargetWorkerCount i,
             po_Reason = ''InPlaceShrinkPolicyNever'',
             po_Message = ''shrinking from '' @ from_to i @
               '' workers via checkpoint-and-relaunch (policy=Never)'' \<rparr>
      else if pi_RuntimeSupportsInPlaceShrink i
      then \<lparr> po_Kind = PlanShrinkInPlace, po_ReclaimableWorkerDelta = reclaimCount,
             po_CheckpointRequired = False, po_RelaunchRequired = False,
             po_NewWorkerCount = pi_TargetWorkerCount i,
             po_Reason = ''InPlaceShrinkSupported'',
             po_Message = ''shrinking from '' @ from_to i @ '' workers in-place; '' @
               itoa reclaimCount @ '' pods reclaimable'' \<rparr>
      else \<lparr> po_Kind = PlanShrinkViaRelaunch, po_ReclaimableWorkerDelta = 0,
             po_CheckpointRequired = True, po_RelaunchRequired = True,
             po_NewWorkerCount = pi_TargetWorkerCount i,
             po_Reason = ''InPlaceShrinkNotSupported'',
             po_Message = ''shrinking from '' @ from_to i @
               '' workers via checkpoint-and-relaunch (runtime does not support in-place shrink)'' \<rparr>)"

definition EvaluatePlan :: "PlanInput \<Rightarrow> PlanOutput" where
  "EvaluatePlan i =
     (if \<not> pi_ElasticityEnabled i
      then noResize (pi_CurrentWorkerCount i) ''ElasticityDisabled''
             ''elasticity is disabled; no resize evaluation''
      else if \<not> pi_WorkloadAdmitted i
      then (if pi_TargetWorkerCount i \<noteq> 0 \<and> pi_TargetWorkerCount i \<noteq> pi_CurrentWorkerCount i
            then blocked (pi_CurrentWorkerCount i) ''WorkloadNotAdmitted''
                   ''resize blocked: workload is not yet admitted by Kueue''
            else noResize (pi_CurrentWorkerCount i) ''WorkloadNotAdmitted''
                   ''no resize needed; workload is not yet admitted'')
      else if pi_PreemptionInProgress i
      then blocked (pi_CurrentWorkerCount i) ''PreemptionInProgress''
             (''resize blocked: Kueue preemption is in progress; '' @
              ''resize will be evaluated after re-admission'')
      else if pi_TargetWorkerCount i = 0 \<or> pi_TargetWorkerCount i = pi_CurrentWorkerCount i
      then noResize (pi_CurrentWorkerCount i) ''TargetEqualsAdmitted''
             ''target worker count matches current admitted count''
      else if pi_TargetWorkerCount i < pi_MinWorkerCount i
      then blocked (pi_CurrentWorkerCount i) ''TargetBelowMinimum''
             (''target '' @ itoa (pi_TargetWorkerCount i) @ '' is below minimum '' @
              itoa (pi_MinWorkerCount i))
      else if pi_MaxWorkerCount i > 0 \<and> pi_TargetWorkerCount i > pi_MaxWorkerCount i
      then blocked (pi_CurrentWorkerCount i) ''TargetAboveMaximum''
             (''target '' @ itoa (pi_TargetWorkerCount i) @ '' exceeds maximum '' @
              itoa (pi_MaxWorkerCount i))
      else if pi_ReclaimablePodsPublished i
      then \<lparr> po_Kind = PlanReclaimPublished, po_ReclaimableWorkerDelta = 0,
             po_CheckpointRequired = False, po_RelaunchRequired = False,
             po_NewWorkerCount = pi_TargetWorkerCount i,
             po_Reason = ''ReclaimablePodsPublished'',
             po_Message = ''reclaimablePods written; waiting for surplus pod termination'' \<rparr>
      else if pi_CurrentResizeState i = ''InProgress''
      then \<lparr> po_Kind = PlanResizeInProgress, po_ReclaimableWorkerDelta = 0,
             po_CheckpointRequired = False, po_RelaunchRequired = False,
             po_NewWorkerCount = pi_TargetWorkerCount i,
             po_Reason = ''ResizeInProgress'',
             po_Message = ''a resize operation is currently in progress'' \<rparr>
      else if pi_DRAConstraintsBlock i
      then blocked (pi_CurrentWorkerCount i) ''DRAConstraintsBlock''
             ''resize blocked: DRA or topology constraints prevent the target configuration''
      else let delta = wrap32 (pi_TargetWorkerCount i - pi_CurrentWorkerCount i) in
        if delta < 0 then evaluateShrink i (wrap32 (- delta))
        else \<lparr> po_Kind = PlanGrowViaRelaunch, po_ReclaimableWorkerDelta = 0,
               po_CheckpointRequired = True, po_RelaunchRequired = True,
               po_NewWorkerCount = pi_TargetWorkerCount i,
               po_Reason = ''GrowRequiresRelaunch'',
               po_Message = ''growing from '' @ from_to i @
                 '' workers requires checkpoint-and-relaunch for new Kueue admission'' \<rparr>)"

section \<open>Reclaimable pods (\<open>reclaim.go\<close>)\<close>

definition ComputeReclaimDelta :: "PlanOutput \<Rightarrow> string \<Rightarrow> ReclaimDelta" where
  "ComputeReclaimDelta plan workerPodSetName =
     (if po_Kind plan \<noteq> PlanShrinkInPlace
      then \<lparr> rd_PodSetName = workerPodSetName, rd_Count = 0 \<rparr>
      else \<lparr> rd_PodSetName = workerPodSetName, rd_Count = po_ReclaimableWorkerDelta plan \<rparr>)"

definition BuildReclaimablePods :: "ReclaimDelta \<Rightarrow> ReclaimablePod list" where
  "BuildReclaimablePods delta =
     (if rd_Count delta \<le> 0 then []
      else [\<lparr> rpod_Name = rd_PodSetName delta, rpod_Count = rd_Count delta \<rparr>])"

definition ClearReclaimablePods :: "ReclaimablePod list" where
  "ClearReclaimablePods = []"

fun ReclaimDeltaFromExisting :: "ReclaimablePod list \<Rightarrow> string \<Rightarrow> ReclaimDelta" where
  "ReclaimDeltaFromExisting [] n = \<lparr> rd_PodSetName = n, rd_Count = 0 \<rparr>"
| "ReclaimDeltaFromExisting (rp # rps) n =
     (if rpod_Name rp = n then \<lparr> rd_PodSetName = n, rd_Count = rpod_Count rp \<rparr>
      else ReclaimDeltaFromExisting rps n)"

definition NeedsReclaimUpdate :: "ReclaimDelta \<Rightarrow> ReclaimablePod list \<Rightarrow> bool" where
  "NeedsReclaimUpdate desired existing \<longleftrightarrow>
     rd_Count desired \<noteq> rd_Count (ReclaimDeltaFromExisting existing (rd_PodSetName desired))"

section \<open>Correctness of the planner\<close>

lemmas plan_defs = EvaluatePlan_def noResize_def blocked_def evaluateShrink_def Let_def

text \<open>The counts of a snapshot are non-negative \<open>int32\<close> values, as the validation webhook and the
  defaulting guarantee.\<close>

definition plan_input_ok :: "PlanInput \<Rightarrow> bool" where
  "plan_input_ok i \<longleftrightarrow>
     is_int32 (pi_TargetWorkerCount i) \<and> 0 \<le> pi_TargetWorkerCount i \<and>
     is_int32 (pi_CurrentWorkerCount i) \<and> 0 \<le> pi_CurrentWorkerCount i"

text \<open>A snapshot in which a resize may start: every gate of the decision tree is open.\<close>

definition resize_ready :: "PlanInput \<Rightarrow> bool" where
  "resize_ready i \<longleftrightarrow>
     pi_ElasticityEnabled i \<and> pi_WorkloadAdmitted i \<and> \<not> pi_PreemptionInProgress i \<and>
     pi_TargetWorkerCount i \<noteq> 0 \<and> pi_TargetWorkerCount i \<noteq> pi_CurrentWorkerCount i \<and>
     \<not> pi_TargetWorkerCount i < pi_MinWorkerCount i \<and>
     \<not> (pi_MaxWorkerCount i > 0 \<and> pi_TargetWorkerCount i > pi_MaxWorkerCount i) \<and>
     \<not> pi_ReclaimablePodsPublished i \<and> pi_CurrentResizeState i \<noteq> ''InProgress'' \<and>
     \<not> pi_DRAConstraintsBlock i"

definition active_kind :: "PlanKind \<Rightarrow> bool" where
  "active_kind k \<longleftrightarrow> k \<in> {PlanShrinkInPlace, PlanShrinkViaRelaunch, PlanGrowViaRelaunch}"

text \<open>A snapshot used by the witnesses: eight workers, four wanted, in-place shrink possible.\<close>

definition ex_plan_input :: PlanInput where
  "ex_plan_input = \<lparr> pi_ElasticityEnabled = True, pi_TargetWorkerCount = 4, pi_CurrentWorkerCount = 8,
     pi_ActiveWorkerCount = 8, pi_MinWorkerCount = 2, pi_MaxWorkerCount = 8,
     pi_InPlaceShrinkPolicy = ''IfSupported'', pi_RuntimeSupportsInPlaceShrink = True,
     pi_WorkloadAdmitted = True, pi_WorkloadExists = True, pi_CurrentResizeState = ''Idle'',
     pi_ReclaimablePodsPublished = False, pi_CheckpointReady = True,
     pi_LastResizeCheckpointExists = False, pi_PreemptionInProgress = False,
     pi_DRAConstraintsBlock = False, pi_Now = 0 \<rparr>"

lemma ex_plan_input_ok [simp]: "plan_input_ok ex_plan_input"
  by (simp add: plan_input_ok_def ex_plan_input_def is_int32_def)

lemma ex_plan_input_ready: "resize_ready ex_plan_input"
  by (simp add: resize_ready_def ex_plan_input_def)

lemma EvaluatePlan_ready:
  assumes "resize_ready i" and "plan_input_ok i"
  shows "EvaluatePlan i =
    (if pi_TargetWorkerCount i < pi_CurrentWorkerCount i
     then evaluateShrink i (pi_CurrentWorkerCount i - pi_TargetWorkerCount i)
     else \<lparr> po_Kind = PlanGrowViaRelaunch, po_ReclaimableWorkerDelta = 0,
            po_CheckpointRequired = True, po_RelaunchRequired = True,
            po_NewWorkerCount = pi_TargetWorkerCount i, po_Reason = ''GrowRequiresRelaunch'',
            po_Message = ''growing from '' @ from_to i @
              '' workers requires checkpoint-and-relaunch for new Kueue admission'' \<rparr>)"
proof -
  have d: "wrap32 (pi_TargetWorkerCount i - pi_CurrentWorkerCount i)
         = pi_TargetWorkerCount i - pi_CurrentWorkerCount i"
    using assms(2) by (intro wrap32_sub_nonneg) (auto simp: plan_input_ok_def)
  have n: "wrap32 (pi_CurrentWorkerCount i - pi_TargetWorkerCount i)
         = pi_CurrentWorkerCount i - pi_TargetWorkerCount i"
    using assms(2) by (intro wrap32_sub_nonneg) (auto simp: plan_input_ok_def)
  show ?thesis using assms(1) d n
    by (cases "pi_MaxWorkerCount i > 0") (simp_all add: EvaluatePlan_def resize_ready_def Let_def)
qed

lemma evaluateShrink_kind: "po_Kind (evaluateShrink i n) \<in> {PlanShrinkInPlace, PlanShrinkViaRelaunch}"
  by (simp add: evaluateShrink_def)

lemma EvaluatePlan_not_ready:
  "\<not> resize_ready i \<Longrightarrow>
     po_Kind (EvaluatePlan i) \<in> {PlanNoResize, PlanResizeBlocked, PlanReclaimPublished, PlanResizeInProgress}
     \<and> po_ReclaimableWorkerDelta (EvaluatePlan i) = 0
     \<and> \<not> po_CheckpointRequired (EvaluatePlan i) \<and> \<not> po_RelaunchRequired (EvaluatePlan i)"
  by (cases "pi_MaxWorkerCount i > 0 \<and> pi_TargetWorkerCount i > pi_MaxWorkerCount i";
      cases "pi_WorkloadAdmitted i"; cases "pi_ElasticityEnabled i"; cases "pi_PreemptionInProgress i";
      cases "pi_TargetWorkerCount i = 0 \<or> pi_TargetWorkerCount i = pi_CurrentWorkerCount i")
     (auto simp: EvaluatePlan_def resize_ready_def noResize_def blocked_def)

lemma EvaluatePlan_active_iff: "active_kind (po_Kind (EvaluatePlan i)) \<longleftrightarrow> resize_ready i"
proof (cases "resize_ready i")
  case True
  then show ?thesis
    using evaluateShrink_kind [of i]
    by (auto simp: EvaluatePlan_def resize_ready_def active_kind_def Let_def)
next
  case False
  then show ?thesis using EvaluatePlan_not_ready [OF False] by (auto simp: active_kind_def)
qed

text \<open>
  C7: the planner starts a resize exactly when every gate is open, and then the direction and the path
  follow from the counts, the policy and the runtime's capability: a smaller target shrinks, in
  place iff the policy is not \<open>Never\<close> and the runtime supports it; a larger target always relaunches.
\<close>

theorem EvaluatePlan_decision:
  assumes "plan_input_ok i"
  shows "(active_kind (po_Kind (EvaluatePlan i)) \<longleftrightarrow> resize_ready i) \<and>
    (po_Kind (EvaluatePlan i) = PlanGrowViaRelaunch \<longleftrightarrow>
       resize_ready i \<and> pi_CurrentWorkerCount i < pi_TargetWorkerCount i) \<and>
    (po_Kind (EvaluatePlan i) = PlanShrinkInPlace \<longleftrightarrow>
       resize_ready i \<and> pi_TargetWorkerCount i < pi_CurrentWorkerCount i \<and>
       pi_InPlaceShrinkPolicy i \<noteq> ''Never'' \<and> pi_RuntimeSupportsInPlaceShrink i) \<and>
    (po_Kind (EvaluatePlan i) = PlanShrinkViaRelaunch \<longleftrightarrow>
       resize_ready i \<and> pi_TargetWorkerCount i < pi_CurrentWorkerCount i \<and>
       (pi_InPlaceShrinkPolicy i = ''Never'' \<or> \<not> pi_RuntimeSupportsInPlaceShrink i))"
proof (cases "resize_ready i")
  case True
  then have "pi_TargetWorkerCount i \<noteq> pi_CurrentWorkerCount i" by (simp add: resize_ready_def)
  with True show ?thesis
    using EvaluatePlan_active_iff [of i] unfolding EvaluatePlan_ready [OF True assms]
    by (simp add: evaluateShrink_def)
next
  case False
  with EvaluatePlan_not_ready [OF False] EvaluatePlan_active_iff [of i] show ?thesis by auto
qed

theorem EvaluatePlan_decision_witness: "po_Kind (EvaluatePlan ex_plan_input) = PlanShrinkInPlace"
  using EvaluatePlan_decision [OF ex_plan_input_ok] ex_plan_input_ready by (simp add: ex_plan_input_def)

text \<open>
  A plan that resizes keeps the worker count inside the configured bounds, requires a checkpoint
  exactly when it requires a relaunch, and an in-place shrink releases exactly the surplus: the new
  count plus the reclaimable pods is the admitted count.  Every other plan releases nothing and
  requires neither.
\<close>

theorem EvaluatePlan_safe:
  assumes "plan_input_ok i"
  shows "(active_kind (po_Kind (EvaluatePlan i)) \<longrightarrow>
       pi_MinWorkerCount i \<le> po_NewWorkerCount (EvaluatePlan i) \<and>
       (0 < pi_MaxWorkerCount i \<longrightarrow> po_NewWorkerCount (EvaluatePlan i) \<le> pi_MaxWorkerCount i)) \<and>
    (po_CheckpointRequired (EvaluatePlan i) \<longleftrightarrow> po_RelaunchRequired (EvaluatePlan i)) \<and>
    (po_RelaunchRequired (EvaluatePlan i) \<longleftrightarrow>
       po_Kind (EvaluatePlan i) \<in> {PlanShrinkViaRelaunch, PlanGrowViaRelaunch}) \<and>
    (po_Kind (EvaluatePlan i) = PlanShrinkInPlace \<longrightarrow>
       0 < po_ReclaimableWorkerDelta (EvaluatePlan i) \<and>
       po_NewWorkerCount (EvaluatePlan i) + po_ReclaimableWorkerDelta (EvaluatePlan i)
         = pi_CurrentWorkerCount i) \<and>
    (po_Kind (EvaluatePlan i) \<noteq> PlanShrinkInPlace \<longrightarrow> po_ReclaimableWorkerDelta (EvaluatePlan i) = 0)"
proof (cases "resize_ready i")
  case True
  then have "pi_TargetWorkerCount i \<noteq> pi_CurrentWorkerCount i"
    "pi_MinWorkerCount i \<le> pi_TargetWorkerCount i"
    "0 < pi_MaxWorkerCount i \<longrightarrow> pi_TargetWorkerCount i \<le> pi_MaxWorkerCount i"
    by (auto simp: resize_ready_def)
  then show ?thesis unfolding EvaluatePlan_ready [OF True assms] by (simp add: evaluateShrink_def)
next
  case False
  with EvaluatePlan_not_ready [OF False] show ?thesis by (auto simp: active_kind_def)
qed

section \<open>Publishing reclaimable pods is idempotent\<close>

lemma ReclaimDelta_roundtrip:
  "0 \<le> rd_Count d \<Longrightarrow> ReclaimDeltaFromExisting (BuildReclaimablePods d) (rd_PodSetName d) = d"
  by (cases d) (auto simp: BuildReclaimablePods_def)

text \<open>
  Once the reclaimable pods of a plan are published, they read back as the plan's delta and no
  further update is due; a plan that does not shrink in place publishes the empty list.
\<close>

theorem reclaim_published_idempotent:
  assumes "plan_input_ok i"
  shows "let d = ComputeReclaimDelta (EvaluatePlan i) n in
     ReclaimDeltaFromExisting (BuildReclaimablePods d) n = d \<and>
     \<not> NeedsReclaimUpdate d (BuildReclaimablePods d) \<and>
     (IsReclaim d \<longleftrightarrow> po_Kind (EvaluatePlan i) = PlanShrinkInPlace) \<and>
     (BuildReclaimablePods d = ClearReclaimablePods \<longleftrightarrow> IsClear d)"
proof -
  let ?d = "ComputeReclaimDelta (EvaluatePlan i) n"
  have n: "rd_PodSetName ?d = n" by (simp add: ComputeReclaimDelta_def)
  have c: "0 \<le> rd_Count ?d \<and> (0 < rd_Count ?d \<longleftrightarrow> po_Kind (EvaluatePlan i) = PlanShrinkInPlace)"
  proof (cases "resize_ready i")
    case True
    then have "pi_TargetWorkerCount i \<noteq> pi_CurrentWorkerCount i" by (simp add: resize_ready_def)
    then show ?thesis unfolding EvaluatePlan_ready [OF True assms]
      by (simp add: ComputeReclaimDelta_def evaluateShrink_def)
  next
    case False
    with EvaluatePlan_not_ready [OF False] show ?thesis by (auto simp: ComputeReclaimDelta_def)
  qed
  have r: "ReclaimDeltaFromExisting (BuildReclaimablePods ?d) n = ?d"
    using ReclaimDelta_roundtrip [of ?d] c n by simp
  then have "\<not> NeedsReclaimUpdate ?d (BuildReclaimablePods ?d)" by (simp add: NeedsReclaimUpdate_def n)
  moreover have "IsReclaim ?d \<longleftrightarrow> po_Kind (EvaluatePlan i) = PlanShrinkInPlace"
    using c by (simp add: IsReclaim_def)
  moreover have "BuildReclaimablePods ?d = ClearReclaimablePods \<longleftrightarrow> IsClear ?d"
    using c by (auto simp: BuildReclaimablePods_def ClearReclaimablePods_def IsClear_def)
  ultimately show ?thesis using r by (simp add: Let_def)
qed

end
