(* ===== verification/Elastic_Control.thy ===== *)
theory Elastic_Control
  imports Stop_Flow Elastic
begin

text \<open>
  Elastic resizing in the controller (\<open>elastic_plan.go\<close>, \<open>elastic_execute.go\<close> and
  \<open>workload_status_patch.go\<close> of \<open>internal/controller\<close>): the snapshot handed to the planner, the
  \<open>elasticity\<close> section of the status, and the execution of a plan.
\<close>

section \<open>Planning (\<open>elastic_plan.go\<close>)\<close>

definition buildElasticPlanInput :: "job \<Rightarrow> bool \<Rightarrow> bool \<Rightarrow> gotime \<Rightarrow> PlanInput" where
  "buildElasticPlanInput job workloadAdmitted workloadExists now =
     (let es = st_Elasticity (rtj_Status job); phase = st_Phase (rtj_Status job) in
      \<lparr> pi_ElasticityEnabled = IsElasticityEnabled job,
        pi_TargetWorkerCount =
          (case sp_Elasticity (rtj_Spec job) of
             Some e \<Rightarrow> if IsElasticityEnabled job
                       then (case els_TargetWorkerCount e of Some n \<Rightarrow> n | None \<Rightarrow> 0) else 0
           | None \<Rightarrow> 0),
        pi_CurrentWorkerCount =
          (case es of
             Some e \<Rightarrow> if es_AdmittedWorkerCount e > 0 then es_AdmittedWorkerCount e else EffectivePreferredCount job
           | None \<Rightarrow> EffectivePreferredCount job),
        pi_ActiveWorkerCount = (case es of Some e \<Rightarrow> es_ActiveWorkerCount e | None \<Rightarrow> 0),
        pi_MinWorkerCount = EffectiveElasticityMinCount job,
        pi_MaxWorkerCount = EffectivePreferredCount job,
        pi_InPlaceShrinkPolicy =
          (case sp_Elasticity (rtj_Spec job) of
             Some e \<Rightarrow> InPlaceShrinkPolicy_string (els_InPlaceShrinkPolicy e) | None \<Rightarrow> ''''),
        pi_RuntimeSupportsInPlaceShrink = (case es of Some e \<Rightarrow> es_InPlaceShrinkSupported e | None \<Rightarrow> False),
        pi_WorkloadAdmitted = workloadAdmitted,
        pi_WorkloadExists = workloadExists,
        pi_CurrentResizeState = (case es of Some e \<Rightarrow> ResizeState_string (es_ResizeState e) | None \<Rightarrow> ''''),
        pi_ReclaimablePodsPublished = (case es of Some e \<Rightarrow> es_ReclaimablePodsPublished e | None \<Rightarrow> False),
        pi_CheckpointReady = (st_LastCompletedCheckpoint (rtj_Status job) \<noteq> None),
        pi_LastResizeCheckpointExists = (case es of Some e \<Rightarrow> es_LastResizeCheckpoint e \<noteq> None | None \<Rightarrow> False),
        pi_PreemptionInProgress =
          (IsSuspendedForKueue job \<and> (phase = PhaseDraining \<or> phase = PhaseYieldRequested)),
        pi_DRAConstraintsBlock = False,
        pi_Now = now \<rparr>)"

fun planKindToResizeState :: "PlanKind \<Rightarrow> ResizeState" where
  "planKindToResizeState PlanNoResize = ResizeStateIdle"
| "planKindToResizeState PlanShrinkInPlace = ResizeStatePending"
| "planKindToResizeState PlanShrinkViaRelaunch = ResizeStatePending"
| "planKindToResizeState PlanGrowViaRelaunch = ResizeStatePending"
| "planKindToResizeState PlanResizeBlocked = ResizeStateBlocked"
| "planKindToResizeState PlanResizeInProgress = ResizeStateInProgress"
| "planKindToResizeState PlanReclaimPublished = ResizeStateInProgress"

fun planKindToResizePath :: "PlanKind \<Rightarrow> ResizePath" where
  "planKindToResizePath PlanShrinkInPlace = ResizePathInPlace"
| "planKindToResizePath PlanReclaimPublished = ResizePathInPlace"
| "planKindToResizePath PlanShrinkViaRelaunch = ResizePathCheckpointAndRelaunch"
| "planKindToResizePath PlanGrowViaRelaunch = ResizePathCheckpointAndRelaunch"
| "planKindToResizePath _ = ResizePathUnset"

definition zero_ElasticityStatus :: ElasticityStatus where
  "zero_ElasticityStatus =
     \<lparr> es_DesiredWorkerCount = 0, es_TargetWorkerCount = 0, es_ActiveWorkerCount = 0, es_AdmittedWorkerCount = 0,
       es_ResizeState = ResizeStateUnset, es_ResizeReason = '''', es_CurrentExecutionMode = ExecutionModeUnset,
       es_ResizePath = ResizePathUnset, es_ReclaimableWorkerCount = 0, es_ReclaimablePodsPublished = False,
       es_InPlaceShrinkSupported = False, es_LastResizeEvent = '''', es_LastResizeCheckpoint = None,
       es_LastResizeFailureReason = '''', es_LastElasticTransitionTime = None, es_LastResizeCompletedTime = None \<rparr>"

definition elasticity_writes ::
  "PlanOutput \<Rightarrow> PlanInput \<Rightarrow> gotime \<Rightarrow> ElasticityStatus \<Rightarrow> ElasticityStatus \<times> bool" where
  "elasticity_writes plan input now =
     assigns
       [assign es_DesiredWorkerCount es_DesiredWorkerCount_update (pi_MaxWorkerCount input),
        assign es_TargetWorkerCount es_TargetWorkerCount_update (pi_TargetWorkerCount input),
        assign es_AdmittedWorkerCount es_AdmittedWorkerCount_update (pi_CurrentWorkerCount input),
        assign es_ActiveWorkerCount es_ActiveWorkerCount_update (pi_ActiveWorkerCount input),
        assign es_CurrentExecutionMode es_CurrentExecutionMode_update
          (if pi_ElasticityEnabled input then ExecutionModeElastic else ExecutionModeFixed),
        assign es_InPlaceShrinkSupported es_InPlaceShrinkSupported_update (pi_RuntimeSupportsInPlaceShrink input),
        assign_and es_ResizeState es_ResizeState_update (planKindToResizeState (po_Kind plan))
          (\<lambda>es. es\<lparr> es_LastElasticTransitionTime := Some now \<rparr>),
        assign es_ResizePath es_ResizePath_update (planKindToResizePath (po_Kind plan)),
        assign es_ResizeReason es_ResizeReason_update (po_Reason plan),
        assign es_ReclaimableWorkerCount es_ReclaimableWorkerCount_update (po_ReclaimableWorkerDelta plan),
        (if po_Message plan \<noteq> '''' then assign es_LastResizeEvent es_LastResizeEvent_update (po_Message plan)
         else (\<lambda>es. (es, False)))]"

definition syncElasticityStatus :: "PlanOutput \<Rightarrow> PlanInput \<Rightarrow> gotime \<Rightarrow> update" where
  "syncElasticityStatus plan input now =
     with_default zero_ElasticityStatus st_Elasticity st_Elasticity_update (elasticity_writes plan input now)"

text \<open>\<open>evaluateElasticPlan\<close> returns the plan, the job and whether its status changed.\<close>

definition evaluateElasticPlan :: "bool \<Rightarrow> bool \<Rightarrow> gotime \<Rightarrow> job \<Rightarrow> PlanOutput \<times> job \<times> bool" where
  "evaluateElasticPlan workloadAdmitted workloadExists now job =
     (let input = buildElasticPlanInput job workloadAdmitted workloadExists now;
          plan = EvaluatePlan input
      in (plan, syncElasticityStatus plan input now job))"

section \<open>The reclaimable pods of the workload (\<open>workload_status_patch.go\<close>)\<close>

record WorkloadReclaimPatchResult =
  wpr_Patched :: bool
  wpr_WorkloadName :: string

definition patchWorkloadReclaimablePods ::
  "ctl_env \<Rightarrow> job \<Rightarrow> ReclaimablePod list \<Rightarrow> (go_err + WorkloadReclaimPatchResult) \<times> effect list" where
  "patchWorkloadReclaimablePods E job reclaimPods =
     (case st_WorkloadReference (rtj_Status job) of
        None \<Rightarrow> (Inl (''workload reference not set on RTJ '' @ rtj_Namespace job @ ''/'' @ rtj_Name job), [])
      | Some ref \<Rightarrow>
          (let workloadName = wr_Name ref in
           case ce_GetWorkload E (rtj_Namespace job) workloadName of
             Inl err \<Rightarrow> (Inl (''get workload '' @ workloadName @ '': '' @ err_text err), [])
           | Inr workload \<Rightarrow>
               (let desired = \<lparr> rd_PodSetName = resolveWorkerPodSetNameForJob E job,
                                rd_Count = (case reclaimPods of [] \<Rightarrow> 0 | p # _ \<Rightarrow> rpod_Count p) \<rparr>
                in if \<not> NeedsReclaimUpdate desired (wl_ReclaimablePods workload)
                   then (Inr \<lparr> wpr_Patched = False, wpr_WorkloadName = workloadName \<rparr>, [])
                   else (case ce_PatchReclaim E workloadName reclaimPods of
                           Some err \<Rightarrow>
                             (Inl (''SSA patch reclaimablePods on workload '' @ workloadName @ '': '' @ err_text err),
                              [PatchReclaimablePods workloadName reclaimPods])
                         | None \<Rightarrow>
                             (Inr \<lparr> wpr_Patched = True, wpr_WorkloadName = workloadName \<rparr>,
                              [PatchReclaimablePods workloadName reclaimPods])))))"

definition clearWorkloadReclaimablePods ::
  "ctl_env \<Rightarrow> job \<Rightarrow> (go_err + WorkloadReclaimPatchResult) \<times> effect list" where
  "clearWorkloadReclaimablePods E job = patchWorkloadReclaimablePods E job []"

section \<open>Execution (\<open>elastic_execute.go\<close>)\<close>

record ElasticExecuteResult =
  ex_Executed :: bool
  ex_StatusChanged :: bool
  ex_NeedsRequeue :: bool
  ex_TriggerStopFlow :: bool
  ex_WorkloadPatched :: bool

definition zero_execute :: ElasticExecuteResult where
  "zero_execute = \<lparr> ex_Executed = False, ex_StatusChanged = False, ex_NeedsRequeue = False,
                    ex_TriggerStopFlow = False, ex_WorkloadPatched = False \<rparr>"

type_synonym execution = "ElasticExecuteResult \<times> go_err option \<times> effect list \<times> job"

definition clearStaleResizeState :: update where
  "clearStaleResizeState =
     if_present st_Elasticity st_Elasticity_update
       (assigns
          [\<lambda>es. if es_ResizeState es \<noteq> ResizeStateIdle \<and> es_ResizeState es \<noteq> ResizeStateUnset
                then (es\<lparr> es_ResizeState := (if es_ResizeState es = ResizeStateInProgress then ResizeStateCompleted
                                             else ResizeStateIdle) \<rparr>, True)
                else (es, False),
           assign es_ReclaimablePodsPublished es_ReclaimablePodsPublished_update False])"

definition mark_in_progress :: "gotime \<Rightarrow> ElasticityStatus \<Rightarrow> ElasticityStatus \<times> bool" where
  "mark_in_progress now =
     assign_and es_ResizeState es_ResizeState_update ResizeStateInProgress
       (\<lambda>es. es\<lparr> es_LastElasticTransitionTime := Some now \<rparr>)"

definition executeShrinkInPlace :: "ctl_env \<Rightarrow> job \<Rightarrow> PlanOutput \<Rightarrow> gotime \<Rightarrow> execution" where
  "executeShrinkInPlace E job plan now =
     (let result = zero_execute\<lparr> ex_Executed := True \<rparr>;
          workerPodSetName = resolveWorkerPodSetNameForJob E job;
          reclaimDelta = ComputeReclaimDelta plan workerPodSetName
      in if \<not> IsReclaim reclaimDelta then (result, None, [], job)
         else case patchWorkloadReclaimablePods E job (BuildReclaimablePods reclaimDelta) of
           (Inl err, es) \<Rightarrow>
             (case setResizeFailedCondition (ce_Meta E) (''failed to patch reclaimablePods: '' @ err) now job of
                (job1, b) \<Rightarrow> (result\<lparr> ex_StatusChanged := b \<rparr>, Some err, es, job1))
         | (Inr patchResult, es) \<Rightarrow>
             (let (job1, b) = run_all
                [with_default zero_ElasticityStatus st_Elasticity st_Elasticity_update
                   (assigns
                      [assign es_ReclaimablePodsPublished es_ReclaimablePodsPublished_update True,
                       mark_in_progress now]),
                 setShrinkingInPlaceCondition (ce_Meta E)
                   (''in-place shrink: '' @ itoa (rd_Count reclaimDelta) @ '' workers reclaimable on workload '' @
                    wpr_WorkloadName patchResult) now,
                 setShrinkReclaimPublishedCondition (ce_Meta E)
                   (''reclaimablePods published: '' @ itoa (rd_Count reclaimDelta) @ '' pods on PodSet '' @
                    workerPodSetName) now,
                 clearResizePendingCondition] job
              in (result\<lparr> ex_StatusChanged := b, ex_WorkloadPatched := wpr_Patched patchResult \<rparr>, None, es, job1)))"

definition relaunch_message :: "PlanOutput \<Rightarrow> job \<Rightarrow> string" where
  "relaunch_message plan job =
     ''checkpoint-and-relaunch for '' @ (if po_Kind plan = PlanGrowViaRelaunch then ''grow'' else ''shrink'') @ '': '' @
     itoa (case st_Elasticity (rtj_Status job) of Some es \<Rightarrow> es_AdmittedWorkerCount es | None \<Rightarrow> 0) @ '' -> '' @
     itoa (po_NewWorkerCount plan) @ '' workers''"

definition executeRelaunchResize :: "ctl_env \<Rightarrow> job \<Rightarrow> PlanOutput \<Rightarrow> gotime \<Rightarrow> execution" where
  "executeRelaunchResize E job plan now =
     (let result = zero_execute\<lparr> ex_Executed := True, ex_TriggerStopFlow := True, ex_NeedsRequeue := True \<rparr>;
          (job1, b1) =
            with_default zero_ElasticityStatus st_Elasticity st_Elasticity_update
              (assigns
                 [mark_in_progress now,
                  assign es_TargetWorkerCount es_TargetWorkerCount_update (po_NewWorkerCount plan),
                  assign es_ReclaimablePodsPublished es_ReclaimablePodsPublished_update False]) job;
          (job2, b2) = run_all
            [setResizeCheckpointingCondition (ce_Meta E) (relaunch_message plan job1) now,
             clearResizePendingCondition, clearShrinkingInPlaceCondition, clearShrinkReclaimPublishedCondition] job1;
          (patched, es) =
            (if st_WorkloadReference (rtj_Status job2) \<noteq> None
             then (case clearWorkloadReclaimablePods E job2 of
                     (Inl _, es) \<Rightarrow> (False, es) | (Inr r, es) \<Rightarrow> (wpr_Patched r, es))
             else (False, []))
      in (result\<lparr> ex_StatusChanged := b2 \<or> b1, ex_WorkloadPatched := patched \<rparr>, None, es, job2))"

definition executeElasticPlan :: "ctl_env \<Rightarrow> job \<Rightarrow> PlanOutput \<Rightarrow> gotime \<Rightarrow> execution" where
  "executeElasticPlan E job plan now =
     (case syncResizeConditions (ce_Meta E) (PlanKind_string (po_Kind plan)) (po_Reason plan) (po_Message plan) now job of
        (job1, condChanged) \<Rightarrow>
          (case po_Kind plan of
             PlanNoResize \<Rightarrow>
               (case clearStaleResizeState job1 of
                  (job2, b) \<Rightarrow> (zero_execute\<lparr> ex_StatusChanged := b \<or> condChanged \<rparr>, None, [], job2))
           | PlanShrinkInPlace \<Rightarrow> executeShrinkInPlace E job1 plan now
           | PlanShrinkViaRelaunch \<Rightarrow> executeRelaunchResize E job1 plan now
           | PlanGrowViaRelaunch \<Rightarrow> executeRelaunchResize E job1 plan now
           | _ \<Rightarrow> (zero_execute\<lparr> ex_StatusChanged := condChanged \<rparr>, None, [], job1)))"

definition isResizeTriggeredStop :: "job \<Rightarrow> bool" where
  "isResizeTriggeredStop job \<longleftrightarrow>
     (case st_Elasticity (rtj_Status job) of
        None \<Rightarrow> False
      | Some es \<Rightarrow> es_ResizeState es = ResizeStateInProgress \<and> es_ResizePath es = ResizePathCheckpointAndRelaunch)"

definition completeResizeAfterRelaunch :: "gotime \<Rightarrow> update" where
  "completeResizeAfterRelaunch now job =
     (if st_Elasticity (rtj_Status job) = None then (job, False)
      else run_all
        [if_present st_Elasticity st_Elasticity_update
           (assigns
              [\<lambda>es. if es_ResizeState es = ResizeStateInProgress
                    then (es\<lparr> es_ResizeState := ResizeStateCompleted, es_LastElasticTransitionTime := Some now,
                              es_LastResizeCompletedTime := Some now \<rparr>, True)
                    else (es, False),
               assign es_ResizePath es_ResizePath_update ResizePathUnset]),
         clearResizeCheckpointingCondition, clearRelaunchingForResizeCondition, clearResizePendingCondition] job)"

definition markResizeRelaunchingCondition :: "meta_ops \<Rightarrow> int \<Rightarrow> gotime \<Rightarrow> update" where
  "markResizeRelaunchingCondition M targetWorkerCount now =
     run_all
       [setRelaunchingForResizeCondition M
          (''relaunching at '' @ itoa targetWorkerCount @ '' workers after resize checkpoint'') now,
        clearResizeCheckpointingCondition]"

section \<open>The resize conditions\<close>

abbreviation present :: "string \<Rightarrow> job \<Rightarrow> bool" where
  "present t j \<equiv> find_condition t j \<noteq> None"

definition resize_types :: "string list" where
  "resize_types = [''ResizePending'', ''ShrinkingInPlace'', ''ShrinkReclaimPublished'', ''ResizeCheckpointing'',
     ''RelaunchingForResize'', ''ResizeBlocked'', ''ResizeFailed'']"

text \<open>The condition a plan of each kind sets, and the ones it leaves as they are.\<close>

fun sets_type :: "PlanKind \<Rightarrow> string option" where
  "sets_type PlanShrinkInPlace = Some ''ResizePending''"
| "sets_type PlanShrinkViaRelaunch = Some ''ResizePending''"
| "sets_type PlanGrowViaRelaunch = Some ''ResizePending''"
| "sets_type PlanResizeBlocked = Some ''ResizeBlocked''"
| "sets_type PlanReclaimPublished = Some ''ShrinkReclaimPublished''"
| "sets_type _ = None"

fun leaves_types :: "PlanKind \<Rightarrow> string list" where
  "leaves_types PlanShrinkViaRelaunch = [''ResizeCheckpointing'', ''RelaunchingForResize'']"
| "leaves_types PlanGrowViaRelaunch = [''ResizeCheckpointing'', ''RelaunchingForResize'']"
| "leaves_types PlanReclaimPublished = [''ResizeCheckpointing'', ''RelaunchingForResize'']"
| "leaves_types PlanResizeInProgress =
     [''ShrinkingInPlace'', ''ShrinkReclaimPublished'', ''ResizeCheckpointing'', ''RelaunchingForResize'']"
| "leaves_types _ = []"

context conditions_api
begin

lemma syncResizeConditions_present:
  assumes "now \<noteq> time_zero"
  shows "present t (fst (syncResizeConditions M (PlanKind_string k) r m now j)) \<longleftrightarrow>
    (if t \<in> set resize_types then sets_type k = Some t \<or> t \<in> set (leaves_types k) \<and> present t j
     else present t j)"
  by (cases k)
     (auto simp: syncResizeConditions_def clearAllResizeConditions_def resize_condition_defs fst_run_all
        setCondition_fst [OF assms] resize_types_def simp del: run_all.simps)

end

section \<open>Effect of planning on the status\<close>

lemma touches_syncResizeConditions: "touches (syncResizeConditions M k r m now)"
  unfolding syncResizeConditions_def clearAllResizeConditions_def resize_condition_defs
  by (simp add: touches_run_all)

lemma fst_assign_es:
  "fst (assign es_DesiredWorkerCount es_DesiredWorkerCount_update n es) = es\<lparr> es_DesiredWorkerCount := n \<rparr>"
  "fst (assign es_TargetWorkerCount es_TargetWorkerCount_update n es) = es\<lparr> es_TargetWorkerCount := n \<rparr>"
  "fst (assign es_AdmittedWorkerCount es_AdmittedWorkerCount_update n es) = es\<lparr> es_AdmittedWorkerCount := n \<rparr>"
  "fst (assign es_ActiveWorkerCount es_ActiveWorkerCount_update n es) = es\<lparr> es_ActiveWorkerCount := n \<rparr>"
  "fst (assign es_CurrentExecutionMode es_CurrentExecutionMode_update x es) = es\<lparr> es_CurrentExecutionMode := x \<rparr>"
  "fst (assign es_InPlaceShrinkSupported es_InPlaceShrinkSupported_update b es) = es\<lparr> es_InPlaceShrinkSupported := b \<rparr>"
  "fst (assign es_ResizePath es_ResizePath_update p es) = es\<lparr> es_ResizePath := p \<rparr>"
  "fst (assign es_ResizeReason es_ResizeReason_update s es) = es\<lparr> es_ResizeReason := s \<rparr>"
  "fst (assign es_ReclaimableWorkerCount es_ReclaimableWorkerCount_update n es) = es\<lparr> es_ReclaimableWorkerCount := n \<rparr>"
  "fst (assign es_LastResizeEvent es_LastResizeEvent_update s es) = es\<lparr> es_LastResizeEvent := s \<rparr>"
  "fst (assign es_ReclaimablePodsPublished es_ReclaimablePodsPublished_update b es) = es\<lparr> es_ReclaimablePodsPublished := b \<rparr>"
  by (simp_all add: assign_def)

lemma elasticity_writes_fields:
  "es_ResizeState (fst (elasticity_writes plan input now es)) = planKindToResizeState (po_Kind plan)"
  "es_ResizePath (fst (elasticity_writes plan input now es)) = planKindToResizePath (po_Kind plan)"
  "es_ReclaimablePodsPublished (fst (elasticity_writes plan input now es)) = es_ReclaimablePodsPublished es"
  "es_AdmittedWorkerCount (fst (elasticity_writes plan input now es)) = pi_CurrentWorkerCount input"
  "es_TargetWorkerCount (fst (elasticity_writes plan input now es)) = pi_TargetWorkerCount input"
  by (simp_all add: elasticity_writes_def split_beta fst_assign_es fst_assign_and)

lemma fst_with_default:
  "fst (with_default zero get upd f j) =
     j\<lparr> rtj_Status := upd (\<lambda>_. Some (fst (f (case get (rtj_Status j) of None \<Rightarrow> zero | Some v \<Rightarrow> v)))) (rtj_Status j) \<rparr>"
  by (simp add: with_default_def split_beta)

abbreviation elasticity :: "job \<Rightarrow> ElasticityStatus" where
  "elasticity j \<equiv> (case st_Elasticity (rtj_Status j) of None \<Rightarrow> zero_ElasticityStatus | Some e \<Rightarrow> e)"

lemma syncElasticityStatus_fst:
  "fst (syncElasticityStatus plan input now j) =
     j\<lparr> rtj_Status := (rtj_Status j)\<lparr> st_Elasticity := Some (fst (elasticity_writes plan input now (elasticity j))) \<rparr> \<rparr>"
  by (simp add: syncElasticityStatus_def fst_with_default)

lemma published_not_active:
  assumes "pi_ReclaimablePodsPublished i"
  shows "po_Kind (EvaluatePlan i) \<in> {PlanNoResize, PlanResizeBlocked, PlanReclaimPublished}"
  using assms by (simp add: plan_defs)

lemma in_progress_plan:
  assumes "pi_ElasticityEnabled i" "pi_WorkloadAdmitted i" "\<not> pi_PreemptionInProgress i"
    "pi_TargetWorkerCount i \<noteq> 0" "pi_TargetWorkerCount i \<noteq> pi_CurrentWorkerCount i"
    "pi_MinWorkerCount i \<le> pi_TargetWorkerCount i"
    "pi_MaxWorkerCount i > 0 \<longrightarrow> pi_TargetWorkerCount i \<le> pi_MaxWorkerCount i"
    "\<not> pi_ReclaimablePodsPublished i" "pi_CurrentResizeState i = ''InProgress''"
  shows "po_Kind (EvaluatePlan i) = PlanResizeInProgress"
  using assms by (auto simp: plan_defs)

section \<open>A relaunch that never happens\<close>

definition current_workers :: "job \<Rightarrow> int" where
  "current_workers j = (if es_AdmittedWorkerCount (elasticity j) > 0 then es_AdmittedWorkerCount (elasticity j)
                        else EffectivePreferredCount j)"

definition wanted_workers :: "job \<Rightarrow> int" where
  "wanted_workers j =
     (case sp_Elasticity (rtj_Spec j) of
        Some e \<Rightarrow> (case els_TargetWorkerCount e of Some n \<Rightarrow> n | None \<Rightarrow> 0) | None \<Rightarrow> 0)"

text \<open>A job in the middle of a resize whose target is valid and not yet reached.\<close>

definition resize_in_flight :: "job \<Rightarrow> bool" where
  "resize_in_flight j \<longleftrightarrow> IsElasticityEnabled j \<and> \<not> IsSuspendedForKueue j
     \<and> es_ResizeState (elasticity j) = ResizeStateInProgress \<and> \<not> es_ReclaimablePodsPublished (elasticity j)
     \<and> wanted_workers j \<noteq> 0 \<and> wanted_workers j \<noteq> current_workers j
     \<and> EffectiveElasticityMinCount j \<le> wanted_workers j
     \<and> (EffectivePreferredCount j > 0 \<longrightarrow> wanted_workers j \<le> EffectivePreferredCount j)"

lemma plan_input_fields:
  "pi_ElasticityEnabled (buildElasticPlanInput j a e now) = IsElasticityEnabled j"
  "IsElasticityEnabled j \<Longrightarrow> pi_TargetWorkerCount (buildElasticPlanInput j a e now) = wanted_workers j"
  "pi_CurrentWorkerCount (buildElasticPlanInput j a e now) = current_workers j"
  "pi_MinWorkerCount (buildElasticPlanInput j a e now) = EffectiveElasticityMinCount j"
  "pi_MaxWorkerCount (buildElasticPlanInput j a e now) = EffectivePreferredCount j"
  "pi_WorkloadAdmitted (buildElasticPlanInput j a e now) = a"
  "\<not> IsSuspendedForKueue j \<Longrightarrow> \<not> pi_PreemptionInProgress (buildElasticPlanInput j a e now)"
  "pi_ReclaimablePodsPublished (buildElasticPlanInput j a e now) = es_ReclaimablePodsPublished (elasticity j)"
  "pi_CurrentResizeState (buildElasticPlanInput j a e now) = ResizeState_string (es_ResizeState (elasticity j))"
  by (simp_all add: buildElasticPlanInput_def Let_def wanted_workers_def current_workers_def
      zero_ElasticityStatus_def split: option.split)

lemma spec_accessors:
  assumes "rtj_Spec j' = rtj_Spec j"
  shows "IsElasticityEnabled j' = IsElasticityEnabled j" "IsSuspendedForKueue j' = IsSuspendedForKueue j"
    "wanted_workers j' = wanted_workers j" "EffectiveElasticityMinCount j' = EffectiveElasticityMinCount j"
    "EffectivePreferredCount j' = EffectivePreferredCount j"
  by (simp_all only: api_simps wanted_workers_def assms)

lemma resize_in_flight_cong:
  assumes "rtj_Spec j' = rtj_Spec j" and "elasticity j' = elasticity j" and "resize_in_flight j"
  shows "resize_in_flight j'"
  using assms(3) by (auto simp: resize_in_flight_def current_workers_def spec_accessors [OF assms(1)] assms(2))

lemma relaunch_plan_gates:
  assumes "po_Kind (EvaluatePlan i) \<in> {PlanShrinkViaRelaunch, PlanGrowViaRelaunch}"
  shows "pi_ElasticityEnabled i" "pi_TargetWorkerCount i \<noteq> 0" "pi_TargetWorkerCount i \<noteq> pi_CurrentWorkerCount i"
    "pi_MinWorkerCount i \<le> pi_TargetWorkerCount i" "\<not> pi_ReclaimablePodsPublished i"
    "pi_MaxWorkerCount i > 0 \<longrightarrow> pi_TargetWorkerCount i \<le> pi_MaxWorkerCount i"
  using assms by (auto simp: plan_defs split: if_splits)

text \<open>One look at a resize in flight: the planner finds it in progress, nothing is triggered, and the path
  that would let the relaunch be recognised later is erased.\<close>

lemma in_flight_step:
  assumes "resize_in_flight j" and "evaluateElasticPlan True ex now j = (plan, j1, ch)"
    and "executeElasticPlan E j1 plan now = (res, err, es, j2)"
  shows "po_Kind plan = PlanResizeInProgress" and "\<not> ex_TriggerStopFlow res" and "es = []"
    and "resize_in_flight j2" and "\<not> isResizeTriggeredStop j2"
    and "st_Phase (rtj_Status j2) = st_Phase (rtj_Status j)"
proof -
  let ?i = "buildElasticPlanInput j True ex now"
  have plan: "plan = EvaluatePlan ?i" and j1: "j1 = fst (syncElasticityStatus plan ?i now j)"
    using assms(2) by (auto simp: evaluateElasticPlan_def Let_def prod_eq_iff)
  have en: "IsElasticityEnabled j" "\<not> IsSuspendedForKueue j" using assms(1) by (simp_all add: resize_in_flight_def)
  show k: "po_Kind plan = PlanResizeInProgress"
    unfolding plan using assms(1) en
    by (intro in_progress_plan) (simp_all add: plan_input_fields resize_in_flight_def)
  then have j2: "j2 = fst (syncResizeConditions (ce_Meta E) (PlanKind_string (po_Kind plan)) (po_Reason plan) (po_Message plan) now j1)"
    and "res = zero_execute\<lparr> ex_StatusChanged := snd (syncResizeConditions (ce_Meta E) (PlanKind_string (po_Kind plan)) (po_Reason plan) (po_Message plan) now j1) \<rparr>"
    and "es = []" using assms(3) by (simp_all add: executeElasticPlan_def split_beta)
  then show "\<not> ex_TriggerStopFlow res" "es = []" by (simp_all add: zero_execute_def)
  note t = touchesD [OF touches_syncResizeConditions [of "ce_Meta E" "PlanKind_string (po_Kind plan)" "po_Reason plan" "po_Message plan" now],
      of j1, folded j2]
  have s: "rtj_Spec j2 = rtj_Spec j" using t(1) by (simp add: j1 syncElasticityStatus_fst)
  have e: "elasticity j2 = fst (elasticity_writes plan ?i now (elasticity j))"
    using touched_fields(10) [OF t(6)] by (simp add: j1 syncElasticityStatus_fst)
  have "current_workers j2 = current_workers j"
    unfolding current_workers_def e elasticity_writes_fields plan_input_fields spec_accessors [OF s]
    by (simp add: current_workers_def)
  then show "resize_in_flight j2"
    using assms(1) by (simp add: resize_in_flight_def spec_accessors [OF s] e elasticity_writes_fields k)
  have "es_ResizePath (elasticity j2) = ResizePathUnset" by (simp add: e elasticity_writes_fields k)
  then show "\<not> isResizeTriggeredStop j2" by (auto simp: isResizeTriggeredStop_def split: option.splits)
  show "st_Phase (rtj_Status j2) = st_Phase (rtj_Status j)"
    using touched_fields(1) [OF t(6)] by (simp add: j1 syncElasticityStatus_fst)
qed

lemma executeRelaunchResize_fields:
  assumes "executeRelaunchResize E j plan now = (res, err, es, j')"
  shows "ex_TriggerStopFlow res" "rtj_Spec j' = rtj_Spec j" "st_Phase (rtj_Status j') = st_Phase (rtj_Status j)"
    "es_ResizeState (elasticity j') = ResizeStateInProgress" "\<not> es_ReclaimablePodsPublished (elasticity j')"
    "es_ResizePath (elasticity j') = es_ResizePath (elasticity j)"
    "es_AdmittedWorkerCount (elasticity j') = es_AdmittedWorkerCount (elasticity j)"
proof -
  let ?w = "assigns [mark_in_progress now,
    assign es_TargetWorkerCount es_TargetWorkerCount_update (po_NewWorkerCount plan),
    assign es_ReclaimablePodsPublished es_ReclaimablePodsPublished_update False]"
  let ?j1 = "fst (with_default zero_ElasticityStatus st_Elasticity st_Elasticity_update ?w j)"
  let ?u = "run_all [setResizeCheckpointingCondition (ce_Meta E) (relaunch_message plan ?j1) now,
     clearResizePendingCondition, clearShrinkingInPlaceCondition, clearShrinkReclaimPublishedCondition]"
  have u: "touches ?u" unfolding resize_condition_defs by (simp add: touches_run_all)
  have j': "j' = fst (?u ?j1)" and "ex_TriggerStopFlow res"
    using assms by (auto simp: executeRelaunchResize_def Let_def split_beta zero_execute_def
        simp del: run_all.simps assigns.simps split: if_splits prod.splits)
  then show "ex_TriggerStopFlow res" by simp
  note t = touchesD [OF u, of ?j1, folded j']
  show "rtj_Spec j' = rtj_Spec j" using t(1) by (simp add: fst_with_default)
  show "st_Phase (rtj_Status j') = st_Phase (rtj_Status j)"
    using touched_fields(1) [OF t(6)] by (simp add: fst_with_default)
  have "elasticity j' = fst (?w (elasticity j))"
    using touched_fields(10) [OF t(6)] by (simp add: fst_with_default)
  then show "es_ResizeState (elasticity j') = ResizeStateInProgress" "\<not> es_ReclaimablePodsPublished (elasticity j')"
    "es_ResizePath (elasticity j') = es_ResizePath (elasticity j)"
    "es_AdmittedWorkerCount (elasticity j') = es_AdmittedWorkerCount (elasticity j)"
    by (simp_all add: split_beta mark_in_progress_def fst_assign_and fst_assign_es)
qed

lemma relaunch_starts_in_flight:
  assumes "evaluateElasticPlan True ex now j = (plan, j1, ch)"
    and "po_Kind plan \<in> {PlanShrinkViaRelaunch, PlanGrowViaRelaunch}"
    and "executeElasticPlan E j1 plan now = (res, err, es, j2)" and "\<not> IsSuspendedForKueue j"
  shows "ex_TriggerStopFlow res" and "resize_in_flight j2" and "isResizeTriggeredStop j2"
    and "st_Phase (rtj_Status j2) = st_Phase (rtj_Status j)"
proof -
  let ?i = "buildElasticPlanInput j True ex now"
  have plan: "plan = EvaluatePlan ?i" and j1: "j1 = fst (syncElasticityStatus plan ?i now j)"
    using assms(1) by (auto simp: evaluateElasticPlan_def Let_def prod_eq_iff)
  define jc where "jc = fst (syncResizeConditions (ce_Meta E) (PlanKind_string (po_Kind plan)) (po_Reason plan) (po_Message plan) now j1)"
  have x: "executeRelaunchResize E jc plan now = (res, err, es, j2)"
    using assms(2,3) by (auto simp: executeElasticPlan_def jc_def split_beta)
  note f = executeRelaunchResize_fields [OF x]
  note t = touchesD [OF touches_syncResizeConditions [of "ce_Meta E" "PlanKind_string (po_Kind plan)" "po_Reason plan" "po_Message plan" now],
      of j1, folded jc_def]
  note g = relaunch_plan_gates [OF assms(2) [unfolded plan]]
  have s: "rtj_Spec j2 = rtj_Spec j" using f(2) t(1) by (simp add: j1 syncElasticityStatus_fst)
  have e: "elasticity jc = fst (elasticity_writes plan ?i now (elasticity j))"
    using touched_fields(10) [OF t(6)] by (simp add: j1 syncElasticityStatus_fst)
  have c: "current_workers j2 = current_workers j"
    unfolding current_workers_def f(7) e elasticity_writes_fields plan_input_fields spec_accessors [OF s]
    by (simp add: current_workers_def)
  have en: "IsElasticityEnabled j" using g(1) by (simp add: plan_input_fields)
  show "resize_in_flight j2"
    unfolding resize_in_flight_def c spec_accessors [OF s]
    using g en f(4,5) assms(4) by (simp add: plan_input_fields)
  have "es_ResizePath (elasticity j2) = ResizePathCheckpointAndRelaunch"
    using assms(2) by (auto simp: f(6) e elasticity_writes_fields)
  then show "isResizeTriggeredStop j2"
    using f(4) by (auto simp: isResizeTriggeredStop_def zero_ElasticityStatus_def split: option.splits)
  show "ex_TriggerStopFlow res" by (rule f)
  show "st_Phase (rtj_Status j2) = st_Phase (rtj_Status j)"
    using f(3) touched_fields(1) [OF t(6)] by (simp add: j1 syncElasticityStatus_fst)
qed

section \<open>An in-place shrink\<close>

lemma executeShrinkInPlace_done:
  assumes "conditions_api (ce_Meta E)" and "now \<noteq> time_zero"
    and "po_Kind plan = PlanShrinkInPlace" and "po_ReclaimableWorkerDelta plan > 0"
    and "executeShrinkInPlace E j plan now = (res, None, es, j')"
  shows "es_ReclaimablePodsPublished (elasticity j')" and "es_ResizeState (elasticity j') = ResizeStateInProgress"
    and "\<not> ex_TriggerStopFlow res" and "present ''ShrinkReclaimPublished'' j'" and "present ''ShrinkingInPlace'' j'"
    and "\<not> present ''ResizePending'' j'" and "rtj_Spec j' = rtj_Spec j"
proof -
  let ?w = "assigns [assign es_ReclaimablePodsPublished es_ReclaimablePodsPublished_update True, mark_in_progress now]"
  let ?j1 = "fst (with_default zero_ElasticityStatus st_Elasticity st_Elasticity_update ?w j)"
  obtain m1 m2 where j': "j' = fst (run_all [setShrinkingInPlaceCondition (ce_Meta E) m1 now,
      setShrinkReclaimPublishedCondition (ce_Meta E) m2 now, clearResizePendingCondition] ?j1)"
    and r: "\<not> ex_TriggerStopFlow res"
    using assms(3-5)
    by (auto simp: executeShrinkInPlace_def Let_def split_beta zero_execute_def ComputeReclaimDelta_def IsReclaim_def
        fst_run_all_Cons simp del: run_all.simps(2) assigns.simps split: sum.splits prod.splits)
  have u: "touches (run_all [setShrinkingInPlaceCondition (ce_Meta E) m1 now,
      setShrinkReclaimPublishedCondition (ce_Meta E) m2 now, clearResizePendingCondition])"
    unfolding resize_condition_defs by (simp add: touches_run_all)
  note t = touchesD [OF u, of ?j1, folded j']
  have e: "elasticity j' = fst (?w (elasticity j))"
    using touched_fields(10) [OF t(6)] by (simp add: fst_with_default)
  then show "es_ReclaimablePodsPublished (elasticity j')" "es_ResizeState (elasticity j') = ResizeStateInProgress"
    by (simp_all add: split_beta mark_in_progress_def fst_assign_and fst_assign_es)
  show "\<not> ex_TriggerStopFlow res" by (rule r)
  show "rtj_Spec j' = rtj_Spec j" using t(1) by (simp add: fst_with_default)
  show "present ''ShrinkReclaimPublished'' j'" "present ''ShrinkingInPlace'' j'" "\<not> present ''ResizePending'' j'"
    by (simp_all add: j' resize_condition_defs fst_run_all conditions_api.setCondition_fst [OF assms(1,2)]
        del: run_all.simps)
qed

section \<open>Properties\<close>

text \<open>
  Which resize conditions a plan leaves on a job: the one of its kind is set, those of the execution of
  a relaunch stay when the plan is a relaunch, is in progress or waits for pods, all others are removed, and
  conditions of other types are untouched.  In particular a relaunch plan can leave \<open>ResizePending\<close> beside
  \<open>ResizeCheckpointing\<close>.
\<close>
lemma resize_conditions_table:
  assumes "conditions_api M" and "now \<noteq> time_zero"
  shows "present t (fst (syncResizeConditions M (PlanKind_string k) r m now j)) \<longleftrightarrow>
    (if t \<in> set resize_types then sets_type k = Some t \<or> t \<in> set (leaves_types k) \<and> present t j
     else present t j)"
  by (rule conditions_api.syncResizeConditions_present [OF assms])


definition ex_elastic_ctl :: ctl_env where
  "ex_elastic_ctl = ex_ctl\<lparr> ce_GetWorkload := (\<lambda>_ _. Inr ex_evicted) \<rparr>"

definition ex_elastic :: "int \<Rightarrow> job" where
  "ex_elastic n = (ex_active PhaseRunning None)\<lparr>
     rtj_Spec := ex_spec\<lparr> sp_Elasticity := Some \<lparr> els_Mode = ElasticityModeManual, els_TargetWorkerCount = Some n,
        els_InPlaceShrinkPolicy = InPlaceShrinkPolicyIfSupported, els_ReclaimMode = ReclaimModeUnset \<rparr> \<rparr>,
     rtj_Status := (rtj_Status (ex_active PhaseRunning None))\<lparr>
        st_WorkloadReference := Some \<lparr> wr_APIVersion = '''', wr_Kind = '''', wr_Name = ''wl'', wr_Namespace = ''ns'' \<rparr>,
        st_Elasticity := Some (zero_ElasticityStatus\<lparr> es_InPlaceShrinkSupported := (n = 2), es_AdmittedWorkerCount := 4 \<rparr>) \<rparr> \<rparr>"


text \<open>
  A resize by checkpoint and relaunch is abandoned.  When the planner asks for it, the stop flow is
  entered and publishes its request; but the next reconciliation of the job, which is neither suspended nor
  paused, marks it running again, the planner finds the resize in progress and triggers nothing, and the
  path that would let the relaunch be recognised is erased: the job stays in that state.
\<close>
theorem relaunch_resize_abandoned:
  assumes "all_ok E" and "\<not> IsSuspendedForKueue j" and "st_Phase (rtj_Status j) = PhaseRunning"
    and "evaluateElasticPlan True ex t1 j = (plan, j1, ch1)"
    and "po_Kind plan \<in> {PlanShrinkViaRelaunch, PlanGrowViaRelaunch}"
    and "executeElasticPlan E j1 plan t1 = (res1, err1, es1, j2)"
    and "j3 = persisted E (effects (reconcileResizeStopFlow E j2 js t1)) j2"
    and "evaluateElasticPlan True ex' t2 (fst (markRunning (ce_Meta E) t2 j3)) = (plan', j4, ch2)"
    and "executeElasticPlan E j4 plan' t2 = (res2, err2, es2, j5)"
  shows "ex_TriggerStopFlow res1 \<and> stopping j3
    \<and> po_Kind plan' = PlanResizeInProgress \<and> \<not> ex_TriggerStopFlow res2
    \<and> st_Phase (rtj_Status j5) = PhaseRunning \<and> \<not> isResizeTriggeredStop j5 \<and> resize_in_flight j5"
proof -
  note s = relaunch_starts_in_flight [OF assms(4-6) assms(2)]
  have ns: "\<not> stopping j2" using s(4) assms(3) by (simp add: stopping_def)
  obtain rid t j' where e: "ensureStopRequested (ce_Meta E) stopSourceResize t1 j2 = (rid, t, True, j')"
    and f: "reconcileStopFlow E j2 js stopSourceResize t1 = save E j' (Inr (RequeueAfter pausePollInterval), [], j')"
    using reconcileStopFlow_requests [OF ns] by metis
  note r = ensure_requests [OF e]
  have j3: "j3 = j'" using assms(1,7) r(2) by (simp add: reconcileResizeStopFlow_def f all_ok_save all_ok_def)
  have m: "moved PhaseRunning t2 j3 (fst (markRunning (ce_Meta E) t2 j3))" by (rule moved_markRunning)
  have "rtj_Spec j' = rtj_Spec j2" using r(2) by (rule status_only)
  then have sp: "rtj_Spec (fst (markRunning (ce_Meta E) t2 j3)) = rtj_Spec j2" using moved_fields(1) [OF m] j3 by simp
  have "elasticity (fst (markRunning (ce_Meta E) t2 j3)) = elasticity j2"
    using moved_fields(14) [OF m] r(4) j3 by simp
  from in_flight_step [OF resize_in_flight_cong [OF sp this s(2)] assms(8,9)] s(1) r(1) j3 moved_fields(6) [OF m]
  show ?thesis by simp
qed

end
