(* ===== verification/Launch_Gate.thy ===== *)
theory Launch_Gate
  imports Elastic_Control
begin

text \<open>
  The launch gates (\<open>internal/controller/launch_gate.go\<close>), the launch plan built from an admitted workload
  (\<open>launch_plan.go\<close>) and the sections of the status that report both (\<open>status_helpers.go\<close>, phase 7).
  A gate compares the launch-readiness view of the workload with what the job asks for; the first gate that
  is closed names the reason.
\<close>

section \<open>Reading the resume-readiness check\<close>

definition containsSubstring :: "string \<Rightarrow> string \<Rightarrow> bool" where
  "containsSubstring s substr \<longleftrightarrow>
     list_ex (\<lambda>i. take (length substr) (drop i s) = substr) [0 ..< Suc (length s) - length substr]"

definition containsReason :: "string \<Rightarrow> string \<Rightarrow> bool" where
  "containsReason message reason \<longleftrightarrow>
     length message > 0 \<and> length reason > 0
     \<and> (message = reason
        \<or> length message > length reason
          \<and> (take (length reason) message = reason \<or> containsSubstring message reason))"

definition knownReasons :: "string list" where
  "knownReasons =
     [''InitialLaunchReady'', ''CheckpointReady'', ''NoCheckpointAvailable'', ''CheckpointTooOld'',
      ''CheckpointIncomplete'', ''CheckpointIncompatible'', ''StorageUnavailable'', ''InitialLaunchBlocked'',
      ''PolicyResolutionFailed'', ''OwnerNotFound'']"

definition isResumeReadinessCheckState :: "WorkloadCheck \<Rightarrow> bool" where
  "isResumeReadinessCheckState acs \<longleftrightarrow>
     list_ex (\<lambda>reason. acs_Message acs \<noteq> '''' \<and> containsReason (acs_Message acs) reason) knownReasons"

fun readiness_loop :: "WorkloadCheck list \<Rightarrow> ReadinessGateState" where
  "readiness_loop [] = ReadinessGateUnset"
| "readiness_loop (acs # rest) =
     (if isResumeReadinessCheckState acs then
        (case acs_State acs of
           CheckStateReady \<Rightarrow> ReadinessGateReady
         | CheckStateRejected \<Rightarrow> ReadinessGateRejected
         | CheckStatePending \<Rightarrow> ReadinessGatePending
         | CheckStateRetry \<Rightarrow> ReadinessGatePending
         | CheckStateOther _ \<Rightarrow> readiness_loop rest)
      else readiness_loop rest)"

definition evaluateReadinessCheck :: "Workload option \<Rightarrow> ReadinessGateState" where
  "evaluateReadinessCheck workload =
     (case workload of None \<Rightarrow> ReadinessGateUnset | Some wl \<Rightarrow> readiness_loop (wl_AdmissionChecks wl))"

section \<open>The gates\<close>

record LaunchGateResult =
  lgr_Ready :: bool
  lgr_Reason :: string
  lgr_Message :: string
  lgr_TopologyResult :: "ParseResult option"
  lgr_Workload :: "Workload option"
  lgr_LaunchView :: "LaunchReadinessView option"
  lgr_ResizeRelaunch :: bool

definition gate_closed :: "string \<Rightarrow> string \<Rightarrow> LaunchGateResult \<Rightarrow> LaunchGateResult" where
  "gate_closed reason message res =
     res\<lparr> lgr_Ready := False, lgr_Reason := reason, lgr_Message := message \<rparr>"

text \<open>The reason for admission checks that are not ready.\<close>

definition checks_gate :: "LaunchReadinessView \<Rightarrow> Workload option \<Rightarrow> LaunchGateResult \<Rightarrow> LaunchGateResult" where
  "checks_gate view workload =
     (case lv_Provisioning view of
        ProvisioningPending \<Rightarrow> gate_closed ''ProvisioningInProgress''
          ''ProvisioningRequest AdmissionCheck is pending; waiting for backend to confirm capacity.''
      | ProvisioningRetry \<Rightarrow> gate_closed ''ProvisioningInProgress''
          ''ProvisioningRequest AdmissionCheck is pending; waiting for backend to confirm capacity.''
      | ProvisioningFailed \<Rightarrow> gate_closed ''ProvisioningFailed''
          ''ProvisioningRequest AdmissionCheck was rejected by the provisioning backend.''
      | _ \<Rightarrow>
          (case evaluateReadinessCheck workload of
             ReadinessGatePending \<Rightarrow> gate_closed ''WaitingForReadinessGate''
               ''Waiting for ResumeReadiness AdmissionCheck to complete.''
           | ReadinessGateRejected \<Rightarrow> gate_closed ''ReadinessGateRejected''
               ''ResumeReadiness AdmissionCheck was rejected.''
           | _ \<Rightarrow> gate_closed ''AdmissionCheckPending'' ''One or more AdmissionChecks are not yet Ready.''))"

definition gate_open :: "job \<Rightarrow> LaunchGateResult \<Rightarrow> LaunchGateResult" where
  "gate_open job res =
     res\<lparr> lgr_Ready := True, lgr_Reason := ''LaunchReady'', lgr_Message := ''All launch gates satisfied.'',
             lgr_ResizeRelaunch := isResizeTriggeredStop job \<rparr>"

definition topology_gate :: "job \<Rightarrow> Workload option \<Rightarrow> LaunchGateResult \<Rightarrow> LaunchGateResult" where
  "topology_gate job workload res =
     (if \<not> IsTopologyEnabled job then gate_open job res
      else case Option.bind workload wl_Admission of
        None \<Rightarrow> gate_closed ''WaitingForTopologyAssignment''
          ''Topology is enabled but Workload admission data is not yet available.'' res
      | Some adm \<Rightarrow>
          (case ParseFromAdmission (Some adm) of
             Inl err \<Rightarrow> gate_closed ''TopologyNotRepresentable''
               (''Failed to parse topology assignment: '' @ err) res
           | Inr None \<Rightarrow> gate_closed ''WaitingForTopologyAssignment''
               ''Topology is enabled but topology assignment is not yet present on the Workload.'' res
           | Inr (Some topo) \<Rightarrow> gate_open job (res\<lparr> lgr_TopologyResult := Some topo \<rparr>)))"

definition view_of :: "ctl_env \<Rightarrow> job \<Rightarrow> Workload option \<Rightarrow> LaunchReadinessView" where
  "view_of E job workload =
     BuildView workload
       \<lparr> vo_ProvisioningACNames = ce_ProvisioningACNames E, vo_TopologyEnabled = IsTopologyEnabled job,
         vo_WorkloadName = (case workload of None \<Rightarrow> '''' | Some wl \<Rightarrow> wl_Name wl),
         vo_WorkloadNamespace = (case workload of None \<Rightarrow> '''' | Some wl \<Rightarrow> wl_Namespace wl) \<rparr>"

definition gates :: "ctl_env \<Rightarrow> job \<Rightarrow> Workload option \<Rightarrow> LaunchGateResult" where
  "gates E job workload =
     (let view = view_of E job workload;
          res = \<lparr> lgr_Ready = False, lgr_Reason = '''', lgr_Message = '''', lgr_TopologyResult = None,
                     lgr_Workload = workload, lgr_LaunchView = Some view, lgr_ResizeRelaunch = False \<rparr>
      in if workload \<noteq> None \<and> \<not> lv_QuotaReserved view
         then gate_closed ''QuotaNotReserved'' ''Workload exists but quota has not been reserved yet.'' res
         else if workload \<noteq> None \<and> \<not> lv_AllChecksReady view then checks_gate view workload res
         else if IsTopologyEnabled job \<and> tv_SecondPassPending (lv_TopologyState view)
         then gate_closed ''TopologyPendingSecondPass''
           ''Topology is configured but the topology assignment is not yet available (second-pass pending).'' res
         else topology_gate job workload res)"

definition evaluateLaunchGates :: "ctl_env \<Rightarrow> job \<Rightarrow> go_err + LaunchGateResult" where
  "evaluateLaunchGates E job =
     (case findWorkloadForRTJ E job of
        Inl err \<Rightarrow> Inl (''find workload: '' @ err)
      | Inr workload \<Rightarrow> Inr (gates E job workload))"

section \<open>The launch plan (\<open>launch_plan.go\<close>)\<close>

text \<open>Go's maps of counts and flavors: \<open>None\<close> is the nil map.\<close>

record LaunchPlan =
  lp_AdmittedCounts :: "(string \<times> int) list option"
  lp_AdmittedFlavors :: "(string \<times> string) list option"
  lp_TopologyResult :: "ParseResult option"
  lp_WorkerCount :: int
  lp_WorldSize :: int
  lp_PodSetUpdates :: "string \<rightharpoonup> PodSetUpdateEntry"

definition parseAdmittedCounts :: "ctl_env \<Rightarrow> job \<Rightarrow> (string \<times> int) list option" where
  "parseAdmittedCounts E job =
     (case rtj_Annotations job ''training.checkpoint.example.io/admitted-pod-sets'' of
        None \<Rightarrow> None
      | Some raw \<Rightarrow>
          if raw = '''' then None
          else (case ce_DecodeCounts E raw of Inl _ \<Rightarrow> None | Inr counts \<Rightarrow> counts))"

definition totalAdmittedCount :: "(string \<times> int) list \<Rightarrow> int" where
  "totalAdmittedCount counts = fold (\<lambda>kc total. wrap32 (total + snd kc)) counts 0"

definition admittedWorldSize :: "ctl_env \<Rightarrow> job \<Rightarrow> int" where
  "admittedWorldSize E job =
     (case parseAdmittedCounts E job of
        None \<Rightarrow> id_WorldSize (sp_Identity (rtj_Spec job))
      | Some counts \<Rightarrow>
          let total = totalAdmittedCount counts in
          if total > 0 then total else id_WorldSize (sp_Identity (rtj_Spec job)))"

definition extractAdmittedCounts :: "Admission \<Rightarrow> (string \<times> int) list option" where
  "extractAdmittedCounts admission =
     (if adm_PodSetAssignments admission = [] then None
      else let counts = fold (\<lambda>psa m. case psa_Count psa of None \<Rightarrow> m | Some n \<Rightarrow> AList.update (psa_Name psa) n m)
                          (adm_PodSetAssignments admission) []
           in if counts = [] then None else Some counts)"

definition extractAdmittedFlavors :: "Admission \<Rightarrow> (string \<times> string) list option" where
  "extractAdmittedFlavors admission =
     (if adm_PodSetAssignments admission = [] then None
      else let flavors = fold (\<lambda>psa m. case psa_Flavors psa of
                                 [] \<Rightarrow> m | (_, flavor) # _ \<Rightarrow> AList.update (psa_Name psa) flavor m)
                           (adm_PodSetAssignments admission) []
           in if flavors = [] then None else Some flavors)"

definition buildLaunchPlan :: "ctl_env \<Rightarrow> job \<Rightarrow> LaunchGateResult \<Rightarrow> LaunchPlan" where
  "buildLaunchPlan E job gateResult =
     (let admission = Option.bind (lgr_Workload gateResult) wl_Admission;
          counts0 = Option.bind admission extractAdmittedCounts;
          flavors = Option.bind admission extractAdmittedFlavors;
          counts = (case counts0 of None \<Rightarrow> parseAdmittedCounts E job | Some c \<Rightarrow> Some c);
          total = (case counts of None \<Rightarrow> 0 | Some c \<Rightarrow> totalAdmittedCount c)
      in \<lparr> lp_AdmittedCounts = counts, lp_AdmittedFlavors = flavors,
           lp_TopologyResult = lgr_TopologyResult gateResult,
           lp_WorkerCount = (if total = 0 then EffectivePreferredCount job else total),
           lp_WorldSize = (if total = 0 then id_WorldSize (sp_Identity (rtj_Spec job)) else total),
           lp_PodSetUpdates = (case lgr_LaunchView gateResult of
                                 None \<Rightarrow> Map.empty | Some view \<Rightarrow> MergedPodSetUpdates view) \<rparr>)"

definition elastic_target :: "job \<Rightarrow> int" where
  "elastic_target job =
     (if IsElasticityEnabled job
      then (case sp_Elasticity (rtj_Spec job) of
              Some e \<Rightarrow> (case els_TargetWorkerCount e of Some n \<Rightarrow> n | None \<Rightarrow> 0) | None \<Rightarrow> 0)
      else 0)"

definition toRenderInput :: "LaunchPlan \<Rightarrow> job \<Rightarrow> int \<Rightarrow> string \<Rightarrow> string \<Rightarrow> string \<Rightarrow> RenderInput" where
  "toRenderInput plan job runAttempt childJobSetName controlConfigMapName resumeManifestURI =
     \<lparr> ri_RTJ = job, ri_RunAttempt = runAttempt, ri_JobSetName = childJobSetName,
       ri_ControlConfigMapName = controlConfigMapName, ri_ResumeManifestURI = resumeManifestURI,
       ri_AdmittedCounts = lp_AdmittedCounts plan,
       ri_OriginalWorldSize =
         (if lp_AdmittedCounts plan \<noteq> None then id_WorldSize (sp_Identity (rtj_Spec job)) else 0),
       ri_AllowWorldSizeChange =
         (lp_AdmittedCounts plan \<noteq> None \<and> rp_AllowWorldSizeChange (sp_Resume (rtj_Spec job))),
       ri_AdmittedFlavor =
         (case lp_AdmittedFlavors plan of
            None \<Rightarrow> ''''
          | Some flavors \<Rightarrow> (case find (\<lambda>kf. snd kf \<noteq> '''') flavors of None \<Rightarrow> '''' | Some kf \<Rightarrow> snd kf)),
       ri_TopologyResult = lp_TopologyResult plan, ri_PodSetUpdates = lp_PodSetUpdates plan,
       ri_DRAClaims = BuildDRAClaimInjections job, ri_ElasticTargetWorkerCount = elastic_target job \<rparr>"

definition buildEffectiveLaunchShape :: "LaunchPlan \<Rightarrow> CheckpointReference option \<Rightarrow> EffectiveLaunchShape" where
  "buildEffectiveLaunchShape plan selectedCheckpoint =
     (case selectedCheckpoint of
        None \<Rightarrow> \<lparr> ls_WorkerCount = lp_WorkerCount plan, ls_WorldSize = lp_WorldSize plan,
                  ls_ResumeMode = RestoreModeUnset, ls_SelectedCheckpointID = '''' \<rparr>
      | Some c \<Rightarrow> \<lparr> ls_WorkerCount = lp_WorkerCount plan, ls_WorldSize = lp_WorldSize plan,
                    ls_ResumeMode = (if cr_WorldSize c > 0 \<and> cr_WorldSize c \<noteq> lp_WorldSize plan then RestoreModeReshard
                                     else if cr_WorldSize c > 0 then RestoreModeSameSize else RestoreModeUnset),
                    ls_SelectedCheckpointID = cr_ID c \<rparr>)"


section \<open>Status of the launch (\<open>launch_plan.go\<close>)\<close>

definition launchReadinessEqual :: "LaunchReadinessStatus option \<Rightarrow> LaunchReadinessStatus option \<Rightarrow> bool" where
  "launchReadinessEqual left right =
     ptr_equal (\<lambda>l r. lr_Ready l = lr_Ready r \<and> lr_GateState l = lr_GateState r
        \<and> lr_Reason l = lr_Reason r \<and> lr_Message l = lr_Message r) left right"

definition syncLaunchReadinessStatus :: "LaunchGateResult option \<Rightarrow> update" where
  "syncLaunchReadinessStatus gateResult =
     (case gateResult of
        None \<Rightarrow> drop_field st_LaunchReadiness st_LaunchReadiness_update
      | Some g \<Rightarrow>
          (let desired = Some \<lparr> lr_Ready = lgr_Ready g,
                 lr_GateState =
                   (if lgr_Ready g then ReadinessGateReady
                    else if lgr_Reason g = ''ReadinessGateRejected'' then ReadinessGateRejected
                    else ReadinessGatePending),
                 lr_Reason = lgr_Reason g, lr_Message = lgr_Message g, lr_LastTransitionTime = None \<rparr>
           in sync_field launchReadinessEqual st_LaunchReadiness st_LaunchReadiness_update desired desired))"

definition topologyStatusEqual :: "TopologyStatus option \<Rightarrow> TopologyStatus option \<Rightarrow> bool" where
  "topologyStatusEqual left right =
     ptr_equal (\<lambda>l r. list_all2 (=) (ts_Levels l) (ts_Levels r)
        \<and> list_all2 (\<lambda>a b. tds_Count a = tds_Count b \<and> list_all2 (=) (tds_Values a) (tds_Values b))
            (ts_Domains l) (ts_Domains r)) left right"

definition syncTopologyStatus :: "ParseResult option \<Rightarrow> string \<Rightarrow> update" where
  "syncTopologyStatus topoResult workerPodSetName =
     (case topoResult of
        None \<Rightarrow> drop_field st_Topology st_Topology_update
      | Some t \<Rightarrow>
          (let pst = (case map_of (pres_PodSets t) workerPodSetName of
                        Some p \<Rightarrow> Some p
                      | None \<Rightarrow> (case pres_PodSets t of [] \<Rightarrow> None | (_, p) # _ \<Rightarrow> Some p));
               desired = ToTopologyStatus pst
           in sync_field topologyStatusEqual st_Topology st_Topology_update desired desired))"

definition effectiveLaunchShapeEqual :: "EffectiveLaunchShape option \<Rightarrow> EffectiveLaunchShape option \<Rightarrow> bool" where
  "effectiveLaunchShapeEqual left right =
     ptr_equal (\<lambda>l r. ls_WorkerCount l = ls_WorkerCount r \<and> ls_WorldSize l = ls_WorldSize r
        \<and> ls_ResumeMode l = ls_ResumeMode r \<and> ls_SelectedCheckpointID l = ls_SelectedCheckpointID r) left right"

definition syncEffectiveLaunchShape :: "EffectiveLaunchShape \<Rightarrow> update" where
  "syncEffectiveLaunchShape shape =
     sync_field effectiveLaunchShapeEqual st_EffectiveLaunchShape st_EffectiveLaunchShape_update
       (Some shape) (Some shape)"

section \<open>Status of the gates (\<open>status_helpers.go\<close>)\<close>

fun mapCheckState :: "CheckStateClassification \<Rightarrow> AdmissionCheckState" where
  "mapCheckState CheckReady = AdmissionCheckReady"
| "mapCheckState CheckPending = AdmissionCheckPending"
| "mapCheckState CheckRetry = AdmissionCheckRetry"
| "mapCheckState CheckRejected = AdmissionCheckRejected"

fun mapProvisioningState :: "ProvisioningClassification \<Rightarrow> ProvisioningState" where
  "mapProvisioningState ProvisioningNotConfigured = ProvStateNotConfigured"
| "mapProvisioningState ProvisioningPending = ProvStatePending"
| "mapProvisioningState ProvisioningRetry = ProvStatePending"
| "mapProvisioningState ProvisioningProvisioned = ProvStateProvisioned"
| "mapProvisioningState ProvisioningFailed = ProvStateFailed"
| "mapProvisioningState ProvisioningUnset = ProvStateNotConfigured"

definition launchGateStatusEqual :: "LaunchGateStatus option \<Rightarrow> LaunchGateStatus option \<Rightarrow> bool" where
  "launchGateStatusEqual left right =
     ptr_equal (\<lambda>l r. lg_State l = lg_State r \<and> lg_Reason l = lg_Reason r \<and> lg_Message l = lg_Message r
        \<and> lg_TopologyGateState l = lg_TopologyGateState r
        \<and> length (lg_AdmissionCheckSummary l) = length (lg_AdmissionCheckSummary r)
        \<and> list_all (\<lambda>(k, v). aget (lg_AdmissionCheckSummary r) k AdmissionCheckUnset = v)
            (lg_AdmissionCheckSummary l)) left right"

definition topology_gate_state :: "TopologyView \<Rightarrow> TopologyGateState" where
  "topology_gate_state t =
     (if \<not> tv_Configured t then TopologyGateNotConfigured
      else if tv_SecondPassPending t then TopologyGatePending
      else if tv_Assigned t then TopologyGateAssigned else TopologyGatePending)"

definition syncLaunchGateStatus :: "LaunchGateResult option \<Rightarrow> gotime \<Rightarrow> update" where
  "syncLaunchGateStatus gateResult now =
     (case Option.bind gateResult (\<lambda>g. map_option (Pair g) (lgr_LaunchView g)) of
        None \<Rightarrow> drop_field st_LaunchGate st_LaunchGate_update
      | Some (g, view) \<Rightarrow>
          (let desired = \<lparr> lg_State = (if lgr_Ready g then LaunchGateOpen else LaunchGateBlocked),
                 lg_Reason = lgr_Reason g, lg_Message = lgr_Message g,
                 lg_AdmissionCheckSummary =
                   fold (\<lambda>ac m. AList.update (acv_Name ac) (mapCheckState (acv_State ac)) m) (lv_AdmissionChecks view) [],
                 lg_TopologyGateState = topology_gate_state (lv_TopologyState view),
                 lg_LastTransitionTime = None \<rparr>
           in sync_field launchGateStatusEqual st_LaunchGate st_LaunchGate_update
                (Some desired) (Some (desired\<lparr> lg_LastTransitionTime := Some now \<rparr>))))"

definition provisioningRefEqual ::
  "ProvisioningRequestReference option \<Rightarrow> ProvisioningRequestReference option \<Rightarrow> bool" where
  "provisioningRefEqual left right =
     ptr_equal (\<lambda>l r. prr_Name l = prr_Name r \<and> prr_Namespace l = prr_Namespace r) left right"

definition provisioningStatusEqual :: "ProvisioningStatus option \<Rightarrow> ProvisioningStatus option \<Rightarrow> bool" where
  "provisioningStatusEqual left right =
     ptr_equal (\<lambda>l r. pv_State l = pv_State r \<and> pv_Reason l = pv_Reason r \<and> pv_Message l = pv_Message r
        \<and> pv_Attempt l = pv_Attempt r
        \<and> provisioningRefEqual (pv_ProvisioningRequestRef l) (pv_ProvisioningRequestRef r)) left right"

definition provisioning_text :: "ProvisioningClassification \<Rightarrow> string \<times> string" where
  "provisioning_text p =
     (if p = ProvisioningPending \<or> p = ProvisioningRetry
      then (''BackendProcessing'', ''ProvisioningRequest backend is processing the capacity request.'')
      else if p = ProvisioningProvisioned
      then (''CapacityConfirmed'', ''ProvisioningRequest backend confirmed physical capacity is available.'')
      else if p = ProvisioningFailed
      then (''BackendRejected'', ''ProvisioningRequest backend rejected the capacity request.'')
      else (''NotConfigured'', ''No ProvisioningRequest AdmissionCheck is configured.''))"

definition syncProvisioningStatus :: "LaunchReadinessView option \<Rightarrow> gotime \<Rightarrow> update" where
  "syncProvisioningStatus view now =
     (case view of
        None \<Rightarrow> drop_field st_Provisioning st_Provisioning_update
      | Some v \<Rightarrow>
          (let desired = \<lparr> pv_State = mapProvisioningState (lv_Provisioning v),
                 pv_ProvisioningRequestRef =
                   map_option (\<lambda>r. \<lparr> prr_Name = pref_Name r, prr_Namespace = pref_Namespace r \<rparr>)
                     (lv_ProvisioningRequestRef v),
                 pv_Attempt = (if lv_ProvisioningRequestRef v \<noteq> None then 1 else 0),
                 pv_Reason = fst (provisioning_text (lv_Provisioning v)),
                 pv_Message = snd (provisioning_text (lv_Provisioning v)), pv_LastTransitionTime = None \<rparr>
           in sync_field provisioningStatusEqual st_Provisioning st_Provisioning_update
                (Some desired) (Some (desired\<lparr> pv_LastTransitionTime := Some now \<rparr>))))"

definition capacityStatusEqual :: "CapacityStatus option \<Rightarrow> CapacityStatus option \<Rightarrow> bool" where
  "capacityStatusEqual left right =
     ptr_equal (\<lambda>l r. ca_GuaranteeActive l = ca_GuaranteeActive r \<and> ca_Reason l = ca_Reason r) left right"

definition syncCapacityStatus :: "LaunchReadinessView option \<Rightarrow> update" where
  "syncCapacityStatus view =
     (case view of
        None \<Rightarrow> drop_field st_Capacity st_Capacity_update
      | Some v \<Rightarrow>
          (let desired = Some
                 (if lv_Provisioning v = ProvisioningProvisioned \<and> lv_QuotaReserved v
                  then \<lparr> ca_GuaranteeActive = True, ca_Reason = ''ProvisioningSatisfied'' \<rparr>
                  else if lv_Provisioning v = ProvisioningNotConfigured \<and> lv_QuotaReserved v
                  then \<lparr> ca_GuaranteeActive = False, ca_Reason = ''QuotaOnlyAdmission'' \<rparr>
                  else if lv_ProvisioningRequestPresent v \<and> \<not> lv_AllChecksReady v
                  then \<lparr> ca_GuaranteeActive = False, ca_Reason = ''ProvisioningPending'' \<rparr>
                  else \<lparr> ca_GuaranteeActive = False, ca_Reason = ''NotAdmitted'' \<rparr>)
           in sync_field capacityStatusEqual st_Capacity st_Capacity_update desired desired))"

definition set_or_clear :: "meta_ops \<Rightarrow> bool \<Rightarrow> string \<Rightarrow> string \<Rightarrow> string \<Rightarrow> gotime \<Rightarrow> update" where
  "set_or_clear M b conditionType reason message now =
     (if b then setCondition M conditionType ConditionTrue reason message now else clearCondition conditionType)"

definition syncPhase7Conditions :: "meta_ops \<Rightarrow> LaunchGateResult option \<Rightarrow> gotime \<Rightarrow> update" where
  "syncPhase7Conditions M gateResult now =
     (case Option.bind gateResult (\<lambda>g. map_option (Pair g) (lgr_LaunchView g)) of
        None \<Rightarrow> run_all (map clearCondition
          [''CapacityPending'', ''ProvisioningInProgress'', ''ProvisioningFailed'', ''TopologyPendingSecondPass'',
           ''LaunchReady'', ''LaunchBlockedByConflictingPodSetUpdate''])
      | Some (g, view) \<Rightarrow> run_all
          [set_or_clear M (lv_ProvisioningRequestPresent view \<and> \<not> lv_AllChecksReady view) ''CapacityPending''
             ''CapacityPending'' ''Waiting for ProvisioningRequest to be satisfied before launching child runtime.'' now,
           set_or_clear M (lv_Provisioning view = ProvisioningPending \<or> lv_Provisioning view = ProvisioningRetry)
             ''ProvisioningInProgress'' ''ProvisioningInProgress''
             ''ProvisioningRequest backend is processing the capacity request.'' now,
           set_or_clear M (lv_Provisioning view = ProvisioningFailed) ''ProvisioningFailed'' ''ProvisioningFailed''
             ''ProvisioningRequest backend rejected the capacity request.'' now,
           set_or_clear M (tv_Configured (lv_TopologyState view) \<and> tv_SecondPassPending (lv_TopologyState view))
             ''TopologyPendingSecondPass'' ''TopologyPendingSecondPass''
             ''Topology is configured but the topology assignment is not yet available (second-pass pending).'' now,
           set_or_clear M (lgr_Ready g) ''LaunchReady'' ''LaunchReady''
             ''All launch gates satisfied; child runtime may be created.'' now])"

definition setLaunchBlockedByConflictingUpdate :: "meta_ops \<Rightarrow> string \<Rightarrow> gotime \<Rightarrow> update" where
  "setLaunchBlockedByConflictingUpdate M message now =
     setCondition M ''LaunchBlockedByConflictingPodSetUpdate'' ConditionTrue
       ''LaunchBlockedByConflictingPodSetUpdate'' message now"

section \<open>When the gates open\<close>

definition topology_granted :: "Admission \<Rightarrow> bool" where
  "topology_granted adm \<longleftrightarrow>
     (\<exists>psa \<in> set (adm_PodSetAssignments adm). psa_TopologyAssignment psa \<noteq> None)
     \<and> (\<forall>psa \<in> set (adm_PodSetAssignments adm). delayed_state psa \<noteq> DelayedTopologyPending)
     \<and> assignments_ok (adm_PodSetAssignments adm)"

lemma gate_simps [simp]:
  "\<not> lgr_Ready (gate_closed reason message res)" "lgr_Ready (gate_open job res)"
  "\<not> lgr_Ready (checks_gate view wl res)"
  by (simp_all add: gate_closed_def gate_open_def checks_gate_def
        split: ProvisioningClassification.split ReadinessGateState.split)

lemma gate_view_simps [simp]:
  "lgr_LaunchView (gate_closed reason message res) = lgr_LaunchView res"
  "lgr_LaunchView (gate_open job res) = lgr_LaunchView res"
  "lgr_LaunchView (checks_gate view wl res) = lgr_LaunchView res"
  "lgr_LaunchView (topology_gate job wl res) = lgr_LaunchView res"
  by (simp_all add: gate_closed_def gate_open_def checks_gate_def topology_gate_def
        split: ProvisioningClassification.split ReadinessGateState.split option.split sum.split)

lemma gates_view: "lgr_LaunchView (gates E job workload) = Some (view_of E job workload)"
  by (simp add: gates_def Let_def)

lemma ParseFromAdmission_Some:
  "(\<exists>t. ParseFromAdmission (Some adm) = Inr (Some t)) \<longleftrightarrow>
     assignments_ok (adm_PodSetAssignments adm)
     \<and> (\<exists>psa \<in> set (adm_PodSetAssignments adm). psa_TopologyAssignment psa \<noteq> None)"
proof (cases "assignments_ok (adm_PodSetAssignments adm)")
  case True
  then show ?thesis by (auto simp: ParseFromAdmission_def parse_assignments_ok list_ex_iff)
next
  case False
  with parse_assignments_bad [OF False, of "[]"] show ?thesis by (auto simp: ParseFromAdmission_def)
qed

lemma topology_gate_ready:
  "lgr_Ready (topology_gate job workload res) \<longleftrightarrow>
     (IsTopologyEnabled job \<longrightarrow>
        (\<exists>adm t. Option.bind workload wl_Admission = Some adm \<and> ParseFromAdmission (Some adm) = Inr (Some t)))"
  by (auto simp: topology_gate_def split: option.split sum.split)

lemma second_pass_pending:
  "tv_SecondPassPending (ParseTopologyFromAssignments as True) \<longleftrightarrow>
     (\<exists>psa \<in> set as. delayed_state psa = DelayedTopologyPending)
     \<or> \<not> (\<exists>psa \<in> set as. psa_TopologyAssignment psa \<noteq> None)"
  by (auto simp: ParseTopologyFromAssignments_def Let_def list_ex_iff)

text \<open>
  C9: The launch gates open exactly when nothing the job waits for is missing: without a workload (Kueue is not
  involved) only if the job asks for no topology; with one, when quota is reserved, every admission check is ready
  and, if topology is enabled, some pod set has an assignment, none is waiting for its second pass and all
  assignments can be decoded.
\<close>

theorem launch_gates_open_iff:
  assumes "findWorkloadForRTJ E job = Inr workload" and "\<forall>wl. workload = Some wl \<longrightarrow> named_checks wl"
  shows "\<exists>g. evaluateLaunchGates E job = Inr g
     \<and> (lgr_Ready g \<longleftrightarrow>
          (case workload of
             None \<Rightarrow> \<not> IsTopologyEnabled job
           | Some wl \<Rightarrow>
               (\<exists>adm. wl_Admission wl = Some adm \<and> (IsTopologyEnabled job \<longrightarrow> topology_granted adm))
               \<and> (\<forall>ac \<in> set (wl_AdmissionChecks wl). acs_State ac = CheckStateReady)))"
proof (cases workload)
  case None
  then show ?thesis using assms
    by (auto simp: evaluateLaunchGates_def gates_def Let_def topology_gate_ready)
next
  case (Some wl)
  then have n: "named_checks wl" using assms by simp
  show ?thesis
  proof (cases "wl_Admission wl")
    case None
    with Some n show ?thesis using assms
      by (simp add: evaluateLaunchGates_def gates_def Let_def view_of_def BuildView_fields)
  next
    case (Some adm)
    with \<open>workload = Some wl\<close> n assms ParseFromAdmission_Some [of adm] show ?thesis
      by (auto simp: evaluateLaunchGates_def gates_def Let_def view_of_def BuildView_fields BuildView_TopologyState
            topology_gate_ready second_pass_pending topology_granted_def list_all_iff)
  qed
qed

definition ex_gated :: "ctl_env \<times> job" where
  "ex_gated =
     (ex_ctl\<lparr> ce_GetWorkload := (\<lambda>_ _. Inr (ex_workload\<lparr> wl_AdmissionChecks := [ex_check ''rr'' CheckStateReady] \<rparr>)) \<rparr>,
      ex_job\<lparr> rtj_Status := ex_status\<lparr> st_WorkloadReference := Some \<lparr> wr_APIVersion = ''v1'', wr_Kind = ''Workload'',
        wr_Name = ''wl'', wr_Namespace = ''ns'' \<rparr> \<rparr> \<rparr>)"

theorem launch_gates_open_iff_witness: "\<exists>g. evaluateLaunchGates (fst ex_gated) (snd ex_gated) = Inr g \<and> lgr_Ready g"
proof -
  let ?wl = "ex_workload\<lparr> wl_AdmissionChecks := [ex_check ''rr'' CheckStateReady] \<rparr>"
  have "findWorkloadForRTJ (fst ex_gated) (snd ex_gated) = Inr (Some ?wl)"
    by (simp add: findWorkloadForRTJ_def ex_gated_def ex_ctl_def ignore_not_found_def)
  moreover have "\<forall>wl. Some ?wl = Some wl \<longrightarrow> named_checks wl" by (simp add: named_checks_def ex_check_def)
  ultimately show ?thesis
    using launch_gates_open_iff [of "fst ex_gated" "snd ex_gated" "Some ?wl"]
    by (auto simp: ex_gated_def ex_workload_def ex_check_def IsTopologyEnabled_def ex_job_def ex_spec_def)
qed

section \<open>What the status says about the gates\<close>

text \<open>The updates of a reconciliation that evaluated the gates, in the order of the code.\<close>

definition sync_gate_status :: "meta_ops \<Rightarrow> LaunchGateResult \<Rightarrow> gotime \<Rightarrow> update list" where
  "sync_gate_status M g now =
     syncLaunchGateStatus (Some g) now
     # (if lgr_LaunchView g \<noteq> None
        then [syncProvisioningStatus (lgr_LaunchView g) now, syncCapacityStatus (lgr_LaunchView g)] else [])
     @ [syncPhase7Conditions M (Some g) now]"

definition sync_gate_blocked :: "meta_ops \<Rightarrow> LaunchGateResult \<Rightarrow> gotime \<Rightarrow> update" where
  "sync_gate_blocked M g now = run_all (syncLaunchReadinessStatus (Some g) # sync_gate_status M g now)"

definition sync_gate_passed :: "meta_ops \<Rightarrow> string \<Rightarrow> LaunchGateResult \<Rightarrow> gotime \<Rightarrow> update" where
  "sync_gate_passed M workerName g now =
     run_all (syncLaunchReadinessStatus (Some g) # syncTopologyStatus (lgr_TopologyResult g) workerName
              # sync_gate_status M g now)"

lemma sync_field_fst:
  assumes "lens get upd"
  shows "\<exists>v. fst (sync_field eq get upd d s j) = j\<lparr> rtj_Status := upd (\<lambda>_. v) (rtj_Status j) \<rparr> \<and> (v = s \<or> eq v d)"
proof (cases "eq (get (rtj_Status j)) d")
  case True
  with lensD [OF assms refl, of "rtj_Status j"] show ?thesis
    by (intro exI [of _ "get (rtj_Status j)"]) (simp add: sync_field_def)
qed (auto simp: sync_field_def)

lemma lens_launch [simp]:
  "lens st_LaunchReadiness st_LaunchReadiness_update" "lens st_LaunchGate st_LaunchGate_update"
  "lens st_Provisioning st_Provisioning_update" "lens st_Capacity st_Capacity_update"
  "lens st_Topology st_Topology_update"
  by (simp_all add: lens_def)

lemma ptr_equal_Some: "ptr_equal eq l (Some y) \<longleftrightarrow> (\<exists>x. l = Some x \<and> eq x y)"
  by (simp add: ptr_equal_def split: option.split)

lemma touches_set_or_clear [simp]: "touches (set_or_clear M b t r m now)"
  by (simp add: set_or_clear_def)

lemma touches_syncPhase7Conditions: "touches (syncPhase7Conditions M (Some g) now)"
  by (auto simp: syncPhase7Conditions_def touches_run_all simp del: run_all.simps split: option.split)

lemma sync_gate_sections:
  assumes "lgr_LaunchView g = Some view"
  shows "\<exists>lr lg pv ca. fst (sync_gate_blocked M g now j) =
       fst (syncPhase7Conditions M (Some g) now
         (j\<lparr> rtj_Status := (rtj_Status j)\<lparr> st_LaunchReadiness := Some lr, st_LaunchGate := Some lg,
              st_Provisioning := Some pv, st_Capacity := Some ca \<rparr> \<rparr>))
     \<and> lr_Ready lr = lgr_Ready g \<and> lr_Reason lr = lgr_Reason g
     \<and> lg_State lg = (if lgr_Ready g then LaunchGateOpen else LaunchGateBlocked) \<and> lg_Reason lg = lgr_Reason g
     \<and> pv_State pv = mapProvisioningState (lv_Provisioning view)
     \<and> (ca_GuaranteeActive ca \<longleftrightarrow> lv_Provisioning view = ProvisioningProvisioned \<and> lv_QuotaReserved view)"
proof -
  note view = assms
  let ?j1 = "fst (syncLaunchReadinessStatus (Some g) j)"
  obtain lr where 1: "?j1 = j\<lparr> rtj_Status := (rtj_Status j)\<lparr> st_LaunchReadiness := Some lr \<rparr> \<rparr>"
    "lr_Ready lr = lgr_Ready g" "lr_Reason lr = lgr_Reason g"
    using sync_field_fst [OF lens_launch(1)]
    by (fastforce simp: syncLaunchReadinessStatus_def launchReadinessEqual_def ptr_equal_Some Let_def)
  let ?j2 = "fst (syncLaunchGateStatus (Some g) now ?j1)"
  obtain lg where 2: "?j2 = ?j1\<lparr> rtj_Status := (rtj_Status ?j1)\<lparr> st_LaunchGate := Some lg \<rparr> \<rparr>"
    "lg_State lg = (if lgr_Ready g then LaunchGateOpen else LaunchGateBlocked)" "lg_Reason lg = lgr_Reason g"
    using sync_field_fst [OF lens_launch(2)] view
    by (fastforce simp: syncLaunchGateStatus_def launchGateStatusEqual_def ptr_equal_Some Let_def)
  let ?j3 = "fst (syncProvisioningStatus (Some view) now ?j2)"
  obtain pv where 3: "?j3 = ?j2\<lparr> rtj_Status := (rtj_Status ?j2)\<lparr> st_Provisioning := Some pv \<rparr> \<rparr>"
    "pv_State pv = mapProvisioningState (lv_Provisioning view)"
    using sync_field_fst [OF lens_launch(3)]
    by (fastforce simp: syncProvisioningStatus_def provisioningStatusEqual_def ptr_equal_Some Let_def)
  let ?j4 = "fst (syncCapacityStatus (Some view) ?j3)"
  obtain ca where 4: "?j4 = ?j3\<lparr> rtj_Status := (rtj_Status ?j3)\<lparr> st_Capacity := Some ca \<rparr> \<rparr>"
    "ca_GuaranteeActive ca \<longleftrightarrow> lv_Provisioning view = ProvisioningProvisioned \<and> lv_QuotaReserved view"
    using sync_field_fst [OF lens_launch(4)]
    by (fastforce simp: syncCapacityStatus_def capacityStatusEqual_def ptr_equal_Some Let_def split: if_splits)
  have "fst (sync_gate_blocked M g now j) = fst (syncPhase7Conditions M (Some g) now ?j4)"
    by (simp add: sync_gate_blocked_def sync_gate_status_def view fst_run_all_Cons del: run_all.simps(2))
  with 1 2 3 4 show ?thesis
    by (intro exI [of _ lr] exI [of _ lg] exI [of _ pv] exI [of _ ca]) simp
qed

context conditions_api
begin

lemma present_set_or_clear:
  assumes "now \<noteq> time_zero"
  shows "present t' (fst (set_or_clear M b t r m now j)) \<longleftrightarrow> (if t' = t then b else present t' j)"
  by (simp add: set_or_clear_def setCondition_fst [OF assms])

lemma phase7_present:
  assumes "now \<noteq> time_zero" and "lgr_LaunchView g = Some view"
  shows "present t (fst (syncPhase7Conditions M (Some g) now j)) \<longleftrightarrow>
    (if t = ''CapacityPending'' then lv_ProvisioningRequestPresent view \<and> \<not> lv_AllChecksReady view
     else if t = ''ProvisioningInProgress''
     then lv_Provisioning view = ProvisioningPending \<or> lv_Provisioning view = ProvisioningRetry
     else if t = ''ProvisioningFailed'' then lv_Provisioning view = ProvisioningFailed
     else if t = ''TopologyPendingSecondPass''
     then tv_Configured (lv_TopologyState view) \<and> tv_SecondPassPending (lv_TopologyState view)
     else if t = ''LaunchReady'' then lgr_Ready g
     else present t j)"
  by (simp add: syncPhase7Conditions_def assms(2) fst_run_all_Cons present_set_or_clear [OF assms(1)]
        del: run_all.simps(2) not_None_eq)

end

text \<open>
  The status reports the gates as they were evaluated: the launch readiness and the launch gate carry the
  result and its reason, capacity counts as guaranteed only with a provisioned request and reserved quota, each
  condition of the launch is present exactly when the view calls for it, and no other condition changes.
\<close>

theorem gate_status_reported:
  assumes "conditions_api M" and "now \<noteq> time_zero" and "lgr_LaunchView g = Some view"
  shows "\<exists>lr lg ca. (let j' = fst (sync_gate_blocked M g now j) in
      st_LaunchReadiness (rtj_Status j') = Some lr \<and> lr_Ready lr = lgr_Ready g \<and> lr_Reason lr = lgr_Reason g
    \<and> st_LaunchGate (rtj_Status j') = Some lg \<and> (lg_State lg = LaunchGateOpen \<longleftrightarrow> lgr_Ready g) \<and> lg_Reason lg = lgr_Reason g
    \<and> st_Capacity (rtj_Status j') = Some ca
    \<and> (ca_GuaranteeActive ca \<longleftrightarrow> lv_Provisioning view = ProvisioningProvisioned \<and> lv_QuotaReserved view)
    \<and> (present ''LaunchReady'' j' \<longleftrightarrow> lgr_Ready g)
    \<and> (present ''ProvisioningFailed'' j' \<longleftrightarrow> lv_Provisioning view = ProvisioningFailed)
    \<and> (present ''ProvisioningInProgress'' j' \<longleftrightarrow>
         lv_Provisioning view = ProvisioningPending \<or> lv_Provisioning view = ProvisioningRetry)
    \<and> (\<forall>t. t \<notin> {''CapacityPending'', ''ProvisioningInProgress'', ''ProvisioningFailed'', ''TopologyPendingSecondPass'',
                 ''LaunchReady''} \<longrightarrow> (present t j' \<longleftrightarrow> present t j)))"
proof -
  from sync_gate_sections [OF assms(3), where M = M and now = now and j = j] obtain lr lg pv ca where
    f: "fst (sync_gate_blocked M g now j) = fst (syncPhase7Conditions M (Some g) now
         (j\<lparr> rtj_Status := (rtj_Status j)\<lparr> st_LaunchReadiness := Some lr, st_LaunchGate := Some lg,
              st_Provisioning := Some pv, st_Capacity := Some ca \<rparr> \<rparr>))" (is "?j' = fst (syncPhase7Conditions _ _ _ ?j1)")
    and v: "lr_Ready lr = lgr_Ready g" "lr_Reason lr = lgr_Reason g"
      "lg_State lg = (if lgr_Ready g then LaunchGateOpen else LaunchGateBlocked)" "lg_Reason lg = lgr_Reason g"
      "ca_GuaranteeActive ca \<longleftrightarrow> lv_Provisioning view = ProvisioningProvisioned \<and> lv_QuotaReserved view" by auto
  have s: "st_LaunchReadiness (rtj_Status ?j') = Some lr \<and> st_LaunchGate (rtj_Status ?j') = Some lg
      \<and> st_Capacity (rtj_Status ?j') = Some ca"
    using touchesD(6) [OF touches_syncPhase7Conditions, where j = ?j1 and M1 = M and g1 = g and now1 = now] f by (auto simp: touched_def)
  have p: "present t ?j1 \<longleftrightarrow> present t j" for t by (simp add: find_condition_def)
  note q = conditions_api.phase7_present [OF assms, of _ ?j1, folded f, unfolded p]
  have "\<forall>t. t \<notin> {''CapacityPending'', ''ProvisioningInProgress'', ''ProvisioningFailed'', ''TopologyPendingSecondPass'',
                 ''LaunchReady''} \<longrightarrow> (present t ?j' \<longleftrightarrow> present t j)"
    by (intro allI impI) (subst q, simp)
  moreover have "present ''LaunchReady'' ?j' \<longleftrightarrow> lgr_Ready g" by (subst q) simp
  moreover have "present ''ProvisioningFailed'' ?j' \<longleftrightarrow> lv_Provisioning view = ProvisioningFailed" by (subst q) simp
  moreover have "present ''ProvisioningInProgress'' ?j' \<longleftrightarrow>
      lv_Provisioning view = ProvisioningPending \<or> lv_Provisioning view = ProvisioningRetry" by (subst q) simp
  ultimately show ?thesis
    using s v unfolding Let_def by (intro exI [of _ lr] exI [of _ lg] exI [of _ ca]) (intro conjI; simp)
qed

end
