(* ===== verification/API_Validation.thy ===== *)
theory API_Validation
  imports Kueue_Types Go_JSON
begin

text \<open>
  Defaulting and validation of a \<open>ResumableTrainingJob\<close> (\<open>api/v1alpha1/resumabletrainingjob_types.go\<close>) and its
  admission webhook (\<open>resumabletrainingjob_webhook.go\<close>).  The errors of \<open>field.ErrorList\<close> are values, in the order of
  the code.  The library of Kueue the webhook calls, and the keys of its labels, are fields of \<open>webhook_env\<close>.
  The lemmas give the declarative reading of a valid job, and show that every version of a job the webhook lets
  through is valid and keeps its manager.
\<close>

section \<open>Field errors\<close>

datatype path_seg = Child string | Index nat
type_synonym field_path = "path_seg list"
datatype bad_value = BadInt int | BadString string
datatype field_error =
  Required field_path string
| Invalid field_path bad_value string
| NotSupported field_path string "string list"
| Forbidden field_path string
| TooLong field_path string nat
| Duplicate field_path string

definition path :: "string list \<Rightarrow> field_path" where
  "path = map Child"

definition err_if :: "bool \<Rightarrow> field_error \<Rightarrow> field_error list" where
  "err_if b e = (if b then [e] else [])"

lemma err_if_Nil [simp]: "err_if b e = [] \<longleftrightarrow> \<not> b"
  by (simp add: err_if_def)

section \<open>Constants and texts\<close>

definition DefaultJobSetAPIVersion :: string where "DefaultJobSetAPIVersion = ''jobset.x-k8s.io/v1alpha2''"
definition DefaultJobSetKind :: string where "DefaultJobSetKind = ''JobSet''"
definition SafePointModeStepBoundary :: string where "SafePointModeStepBoundary = ''StepBoundary''"
definition ResumeSourcePolicyLatestCompatibleComplete :: string where
  "ResumeSourcePolicyLatestCompatibleComplete = ''LatestCompatibleComplete''"
definition DefaultMaxResumeRetries :: int where "DefaultMaxResumeRetries = 3"
definition DefaultDeviceRequestCount :: int where "DefaultDeviceRequestCount = 1"
definition MaxManagedByLength :: nat where "MaxManagedByLength = 256"
definition MaxClaimNameLength :: nat where "MaxClaimNameLength = 63"

lemmas default_consts = DefaultJobSetAPIVersion_def DefaultJobSetKind_def SafePointModeStepBoundary_def
  ResumeSourcePolicyLatestCompatibleComplete_def DefaultMaxResumeRetries_def DefaultDeviceRequestCount_def

fun TopologyMode_string :: "TopologyMode \<Rightarrow> string" where
  "TopologyMode_string TopologyModeUnset = ''''"
| "TopologyMode_string TopologyModeDisabled = ''Disabled''"
| "TopologyMode_string TopologyModeRequired = ''Required''"
| "TopologyMode_string TopologyModePreferred = ''Preferred''"
| "TopologyMode_string TopologyModeUnconstrained = ''Unconstrained''"

fun DeviceMode_string :: "DeviceMode \<Rightarrow> string" where
  "DeviceMode_string DeviceModeUnset = ''''"
| "DeviceMode_string DeviceModeDisabled = ''Disabled''"
| "DeviceMode_string DeviceModeDRA = ''DRA''"

fun ElasticityMode_string :: "ElasticityMode \<Rightarrow> string" where
  "ElasticityMode_string ElasticityModeUnset = ''''"
| "ElasticityMode_string ElasticityModeDisabled = ''Disabled''"
| "ElasticityMode_string ElasticityModeManual = ''Manual''"

fun ReclaimMode_string :: "ReclaimMode \<Rightarrow> string" where
  "ReclaimMode_string ReclaimModeUnset = ''''"
| "ReclaimMode_string ReclaimModeReclaimablePods = ''ReclaimablePods''"

section \<open>Defaulting\<close>

text \<open>What the webhook takes from Kueue: the keys of the queue and priority labels, the job framework's
  defaulting of \<open>suspend\<close> and its two validations, and the optional hook that knows default queues.\<close>

record webhook_env =
  we_QueueLabel :: string
  we_WorkloadPriorityClassLabel :: string
  we_ApplyDefaultForSuspend :: "ResumableTrainingJob \<Rightarrow> go_err + ResumableTrainingJob"
  we_ValidateJobOnCreate :: "ResumableTrainingJob \<Rightarrow> field_error list"
  we_ValidateJobOnUpdate :: "ResumableTrainingJob \<Rightarrow> ResumableTrainingJob \<Rightarrow> (string \<Rightarrow> bool) \<Rightarrow> field_error list"
  we_DefaultQueueExist :: "(string \<Rightarrow> bool) option"

definition project_label :: "string \<Rightarrow> string \<Rightarrow> strmap \<Rightarrow> strmap" where
  "project_label key v labels = (if TrimSpace v \<noteq> '''' then labels(key \<mapsto> v) else labels(key := None))"

definition projectKueueLabels :: "webhook_env \<Rightarrow> ResumableTrainingJob \<Rightarrow> ResumableTrainingJob" where
  "projectKueueLabels W r =
     r\<lparr> rtj_Labels :=
          project_label (we_WorkloadPriorityClassLabel W) (sp_WorkloadPriorityClassName (rtj_Spec r))
            (project_label (we_QueueLabel W) (sp_QueueName (rtj_Spec r)) (rtj_Labels r)) \<rparr>"

definition default_count :: "DeviceClaimSpec \<Rightarrow> DeviceClaimSpec" where
  "default_count c =
     (if dr_Count (dc_Request c) = 0
      then c\<lparr> dc_Request := (dc_Request c)\<lparr> dr_Count := DefaultDeviceRequestCount \<rparr> \<rparr> else c)"

definition default_devices :: "DeviceSpec \<Rightarrow> DeviceSpec" where
  "default_devices d =
     (let d1 = (if dev_Mode d = DeviceModeUnset then d\<lparr> dev_Mode := DeviceModeDisabled \<rparr> else d)
      in d1\<lparr> dev_Claims := map default_count (dev_Claims d1) \<rparr>)"

definition default_elasticity :: "ElasticitySpec \<Rightarrow> ElasticitySpec" where
  "default_elasticity e =
     (let e1 = (if els_Mode e = ElasticityModeUnset then e\<lparr> els_Mode := ElasticityModeDisabled \<rparr> else e)
      in if els_Mode e1 = ElasticityModeManual
         then (let e2 = (if els_InPlaceShrinkPolicy e1 = InPlaceShrinkPolicyUnset
                         then e1\<lparr> els_InPlaceShrinkPolicy := InPlaceShrinkPolicyIfSupported \<rparr> else e1)
               in if els_ReclaimMode e2 = ReclaimModeUnset
                  then e2\<lparr> els_ReclaimMode := ReclaimModeReclaimablePods \<rparr> else e2)
         else e1)"

definition default_topology :: "TopologySpec \<Rightarrow> TopologySpec" where
  "default_topology t = (if topo_Mode t = TopologyModeUnset then t\<lparr> topo_Mode := TopologyModeDisabled \<rparr> else t)"

definition default_template :: "JobSetTemplate \<Rightarrow> JobSetTemplate" where
  "default_template t =
     (let t1 = (if tpl_APIVersion t = '''' then t\<lparr> tpl_APIVersion := DefaultJobSetAPIVersion \<rparr> else t)
      in if tpl_Kind t1 = '''' then t1\<lparr> tpl_Kind := DefaultJobSetKind \<rparr> else t1)"

definition default_resume :: "ResumePolicy \<Rightarrow> ResumePolicy" where
  "default_resume p =
     (let p1 = (if rp_SourcePolicy p = '''' then p\<lparr> rp_SourcePolicy := ResumeSourcePolicyLatestCompatibleComplete \<rparr> else p)
      in if rp_MaxResumeRetries p1 = 0 then p1\<lparr> rp_MaxResumeRetries := DefaultMaxResumeRetries \<rparr> else p1)"

definition default_spec :: "ResumableTrainingJobSpec \<Rightarrow> ResumableTrainingJobSpec" where
  "default_spec s =
     s\<lparr> sp_Control :=
          (case sp_Control s of
             None \<Rightarrow> Some DesiredStateRunning
           | Some d \<Rightarrow> Some (if d = DesiredStateUnset then DesiredStateRunning else d)),
        sp_Checkpoint :=
          (if cp_SafePointMode (sp_Checkpoint s) = ''''
           then (sp_Checkpoint s)\<lparr> cp_SafePointMode := SafePointModeStepBoundary \<rparr> else sp_Checkpoint s),
        sp_Resume := default_resume (sp_Resume s),
        sp_Runtime := (sp_Runtime s)\<lparr> rt_Template := default_template (rt_Template (sp_Runtime s)) \<rparr>,
        sp_Topology := map_option default_topology (sp_Topology s),
        sp_Devices := map_option default_devices (sp_Devices s),
        sp_Elasticity := map_option default_elasticity (sp_Elasticity s) \<rparr>"

definition Default :: "webhook_env \<Rightarrow> ResumableTrainingJob \<Rightarrow> ResumableTrainingJob" where
  "Default W r = projectKueueLabels W (r\<lparr> rtj_Spec := default_spec (rtj_Spec r) \<rparr>)"

section \<open>Validation\<close>

definition validateParallelism :: "ResumableTrainingJob \<Rightarrow> field_error list" where
  "validateParallelism r =
     (case sp_Parallelism (rtj_Spec r) of
        None \<Rightarrow> []
      | Some p \<Rightarrow>
          (let fldPath = path [''spec'', ''parallelism''];
               effectivePreferred = EffectivePreferredCount r
           in err_if (par_PreferredCount p < 0)
                (Invalid (fldPath @ [Child ''preferredCount'']) (BadInt (par_PreferredCount p))
                   ''preferredCount must be >= 0 (0 means use identity.worldSize)'')
              @ (case par_MinCount p of
                   None \<Rightarrow> []
                 | Some mc \<Rightarrow>
                     err_if (mc < 1) (Invalid (fldPath @ [Child ''minCount'']) (BadInt mc) ''minCount must be >= 1'')
                     @ err_if (mc > effectivePreferred)
                         (Invalid (fldPath @ [Child ''minCount'']) (BadInt mc)
                            (''minCount must be <= preferredCount (effective: '' @ itoa effectivePreferred @ '')'')))
              @ (if par_EnablePartialAdmission p
                 then err_if (\<not> rp_AllowWorldSizeChange (sp_Resume (rtj_Spec r)))
                        (Forbidden (fldPath @ [Child ''enablePartialAdmission''])
                           ''enablePartialAdmission requires spec.resume.allowWorldSizeChange=true'')
                      @ err_if (par_MinCount p = None)
                          (Required (fldPath @ [Child ''minCount''])
                             ''minCount is required when enablePartialAdmission is true'')
                 else [])))"

definition validateTopology :: "ResumableTrainingJob \<Rightarrow> field_error list" where
  "validateTopology r =
     (case sp_Topology (rtj_Spec r) of
        None \<Rightarrow> []
      | Some t \<Rightarrow>
          (let fldPath = path [''spec'', ''topology''] in
           (if topo_Mode t \<in> {TopologyModeDisabled, TopologyModeUnconstrained} then []
            else if topo_Mode t \<in> {TopologyModeRequired, TopologyModePreferred}
            then err_if (TrimSpace (topo_TopologyLevel t) = '''')
                   (Required (fldPath @ [Child ''topologyLevel''])
                      ''topologyLevel is required when mode is Required or Preferred'')
            else [NotSupported (fldPath @ [Child ''mode'']) (TopologyMode_string (topo_Mode t))
                    [''Disabled'', ''Required'', ''Preferred'', ''Unconstrained'']])
           @ err_if (topo_LeaderWorkerColocation t \<and> topo_Mode t = TopologyModeDisabled)
               (Forbidden (fldPath @ [Child ''leaderWorkerColocation''])
                  ''leaderWorkerColocation requires topology mode to be Required, Preferred, or Unconstrained'')))"

definition validatePriorityPolicyRef :: "ResumableTrainingJob \<Rightarrow> field_error list" where
  "validatePriorityPolicyRef r =
     (case sp_PriorityPolicyRef (rtj_Spec r) of
        None \<Rightarrow> []
      | Some name \<Rightarrow>
          err_if (TrimSpace name = '''')
            (Required (path [''spec'', ''priorityPolicyRef'', ''name''])
               ''name is required when priorityPolicyRef is set''))"

definition validateManagedBy :: "ResumableTrainingJob \<Rightarrow> field_error list" where
  "validateManagedBy r =
     (let mb = sp_ManagedBy (rtj_Spec r); fldPath = path [''spec'', ''managedBy''] in
      if mb = '''' then []
      else err_if (length mb > MaxManagedByLength) (TooLong fldPath mb MaxManagedByLength)
           @ err_if (\<not> Contains mb ''/'')
               (Invalid fldPath (BadString mb)
                  ''managedBy must be a domain-prefixed value containing '/' (e.g., kueue.x-k8s.io/multikueue)''))"

text \<open>The loop over the containers of a claim, with the names already seen.\<close>

fun container_errors :: "field_path \<Rightarrow> nat \<Rightarrow> string list \<Rightarrow> string list \<Rightarrow> field_error list" where
  "container_errors p j seen [] = []"
| "container_errors p j seen (c # cs) =
     (if TrimSpace c = ''''
      then Required (p @ [Index j]) ''container name must not be empty'' # container_errors p (Suc j) seen cs
      else if c \<in> set seen
      then Duplicate (p @ [Index j]) c # container_errors p (Suc j) seen cs
      else container_errors p (Suc j) (c # seen) cs)"

fun selector_errors :: "field_path \<Rightarrow> nat \<Rightarrow> string list \<Rightarrow> field_error list" where
  "selector_errors p k [] = []"
| "selector_errors p k (sel # sels) =
     err_if (TrimSpace sel = '''') (Required (p @ [Index k]) ''selector must not be empty'')
     @ selector_errors p (Suc k) sels"

definition claim_body_errors :: "field_path \<Rightarrow> DeviceClaimSpec \<Rightarrow> field_error list" where
  "claim_body_errors claimPath claim =
     (let reqPath = claimPath @ [Child ''request'']; req = dc_Request claim in
      err_if (dc_Containers claim = [])
        (Required (claimPath @ [Child ''containers'']) ''at least one container target is required'')
      @ container_errors (claimPath @ [Child ''containers'']) 0 [] (dc_Containers claim)
      @ err_if (TrimSpace (dr_DeviceClassName req) = '''')
          (Required (reqPath @ [Child ''deviceClassName'']) ''deviceClassName is required'')
      @ err_if (dr_Count req < 0) (Invalid (reqPath @ [Child ''count'']) (BadInt (dr_Count req)) ''count must be >= 1'')
      @ selector_errors (reqPath @ [Child ''selectors'']) 0 (dr_Selectors req))"

fun claim_errors :: "field_path \<Rightarrow> nat \<Rightarrow> string list \<Rightarrow> DeviceClaimSpec list \<Rightarrow> field_error list" where
  "claim_errors fldPath i seenNames [] = []"
| "claim_errors fldPath i seenNames (claim # claims) =
     (let claimPath = fldPath @ [Index i]; name = dc_Name claim;
          body = claim_body_errors claimPath claim
      in if TrimSpace name = ''''
         then Required (claimPath @ [Child ''name'']) ''claim name is required'' # body
                @ claim_errors fldPath (Suc i) seenNames claims
         else if length name > MaxClaimNameLength
         then TooLong (claimPath @ [Child ''name'']) name MaxClaimNameLength # body
                @ claim_errors fldPath (Suc i) seenNames claims
         else if name \<in> set seenNames
         then Duplicate (claimPath @ [Child ''name'']) name # body @ claim_errors fldPath (Suc i) seenNames claims
         else body @ claim_errors fldPath (Suc i) (name # seenNames) claims)"

definition validateDeviceClaims :: "DeviceClaimSpec list \<Rightarrow> field_path \<Rightarrow> field_error list" where
  "validateDeviceClaims claims fldPath = claim_errors fldPath 0 [] claims"

definition validateDevices :: "ResumableTrainingJob \<Rightarrow> field_error list" where
  "validateDevices r =
     (case sp_Devices (rtj_Spec r) of
        None \<Rightarrow> []
      | Some d \<Rightarrow>
          (let fldPath = path [''spec'', ''devices''] in
           case dev_Mode d of
             DeviceModeDisabled \<Rightarrow>
               err_if (dev_Claims d \<noteq> [])
                 (Forbidden (fldPath @ [Child ''claims'']) ''claims must be empty when mode is Disabled'')
           | DeviceModeDRA \<Rightarrow>
               err_if (dev_Claims d = [])
                 (Required (fldPath @ [Child ''claims'']) ''at least one claim is required when mode is DRA'')
               @ validateDeviceClaims (dev_Claims d) (fldPath @ [Child ''claims''])
           | _ \<Rightarrow> [NotSupported (fldPath @ [Child ''mode'']) (DeviceMode_string (dev_Mode d)) [''Disabled'', ''DRA'']]))"

definition target_errors :: "ResumableTrainingJob \<Rightarrow> field_path \<Rightarrow> int \<Rightarrow> field_error list" where
  "target_errors r p tc =
     (let effectiveMin = EffectiveElasticityMinCount r; effectiveMax = EffectivePreferredCount r in
      err_if (tc < 1) (Invalid p (BadInt tc) ''targetWorkerCount must be >= 1'')
      @ err_if (tc < effectiveMin)
          (Invalid p (BadInt tc) (''targetWorkerCount must be >= minCount (effective: '' @ itoa effectiveMin @ '')''))
      @ err_if (tc > effectiveMax)
          (Invalid p (BadInt tc) (''targetWorkerCount must be <= preferredCount (effective: '' @ itoa effectiveMax @ '')'')))"

definition validateElasticity :: "ResumableTrainingJob \<Rightarrow> field_error list" where
  "validateElasticity r =
     (case sp_Elasticity (rtj_Spec r) of
        None \<Rightarrow> []
      | Some e \<Rightarrow>
          (let fldPath = path [''spec'', ''elasticity''] in
           case els_Mode e of
             ElasticityModeDisabled \<Rightarrow>
               err_if (els_TargetWorkerCount e \<noteq> None)
                 (Forbidden (fldPath @ [Child ''targetWorkerCount''])
                    ''targetWorkerCount must not be set when mode is Disabled'')
           | ElasticityModeManual \<Rightarrow>
               err_if (\<not> rp_AllowWorldSizeChange (sp_Resume (rtj_Spec r)))
                 (Forbidden (fldPath @ [Child ''mode''])
                    ''elasticity mode Manual requires spec.resume.allowWorldSizeChange=true'')
               @ (case els_TargetWorkerCount e of
                    None \<Rightarrow> []
                  | Some tc \<Rightarrow> target_errors r (fldPath @ [Child ''targetWorkerCount'']) tc)
               @ err_if (els_InPlaceShrinkPolicy e \<noteq> InPlaceShrinkPolicyUnset
                         \<and> els_InPlaceShrinkPolicy e \<noteq> InPlaceShrinkPolicyIfSupported
                         \<and> els_InPlaceShrinkPolicy e \<noteq> InPlaceShrinkPolicyNever)
                   (NotSupported (fldPath @ [Child ''inPlaceShrinkPolicy''])
                      (InPlaceShrinkPolicy_string (els_InPlaceShrinkPolicy e)) [''IfSupported'', ''Never''])
               @ err_if (els_ReclaimMode e \<noteq> ReclaimModeUnset \<and> els_ReclaimMode e \<noteq> ReclaimModeReclaimablePods)
                   (NotSupported (fldPath @ [Child ''reclaimMode'']) (ReclaimMode_string (els_ReclaimMode e))
                      [''ReclaimablePods''])
           | _ \<Rightarrow> [NotSupported (fldPath @ [Child ''mode'']) (ElasticityMode_string (els_Mode e))
                     [''Disabled'', ''Manual'']]))"


text \<open>The checks of \<open>validationErrors\<close> itself, in four groups.\<close>

definition required :: "string list \<Rightarrow> string \<Rightarrow> string \<Rightarrow> field_error list" where
  "required p v msg = err_if (TrimSpace v = '''') (Required (path p) msg)"

definition identity_errors :: "ResumableTrainingJobSpec \<Rightarrow> field_error list" where
  "identity_errors s =
     (let idn = sp_Identity s in
      required [''spec'', ''queueName''] (sp_QueueName s) ''queueName is required''
      @ required [''spec'', ''workloadPriorityClassName''] (sp_WorkloadPriorityClassName s)
          ''workloadPriorityClassName is required''
      @ required [''spec'', ''identity'', ''image''] (id_Image idn) ''image is required''
      @ required [''spec'', ''identity'', ''codeVersion''] (id_CodeVersion idn) ''codeVersion is required''
      @ err_if (id_WorldSize idn < 1)
          (Invalid (path [''spec'', ''identity'', ''worldSize'']) (BadInt (id_WorldSize idn))
             ''worldSize must be greater than zero'')
      @ required [''spec'', ''identity'', ''gpuShape''] (id_GPUShape idn) ''gpuShape is required'')"

definition trimRawExtension :: "string \<Rightarrow> string" where
  "trimRawExtension raw = TrimSpace raw"

definition template_errors :: "JobSetTemplate \<Rightarrow> field_error list" where
  "template_errors t =
     required [''spec'', ''runtime'', ''template'', ''apiVersion''] (tpl_APIVersion t) ''apiVersion is required''
     @ err_if (tpl_Kind t \<noteq> DefaultJobSetKind)
         (NotSupported (path [''spec'', ''runtime'', ''template'', ''kind'']) (tpl_Kind t) [DefaultJobSetKind])
     @ (if trimRawExtension (tpl_Spec t) = ''''
        then [Required (path [''spec'', ''runtime'', ''template'', ''spec'']) ''embedded JobSet spec is required'']
        else err_if (\<not> json_Valid (trimRawExtension (tpl_Spec t)))
               (Invalid (path [''spec'', ''runtime'', ''template'', ''spec'']) (BadString (trimRawExtension (tpl_Spec t)))
                  ''embedded JobSet spec must be valid JSON''))"

definition runtime_errors :: "ResumableTrainingJobRuntime \<Rightarrow> field_error list" where
  "runtime_errors rt =
     err_if (rt_Mode rt \<noteq> RuntimeModeDDP \<and> rt_Mode rt \<noteq> RuntimeModeFSDP)
       (NotSupported (path [''spec'', ''runtime'', ''mode'']) (RuntimeMode_string (rt_Mode rt)) [''DDP'', ''FSDP''])
     @ required [''spec'', ''runtime'', ''optimizerMode''] (rt_OptimizerMode rt) ''optimizerMode is required''
     @ required [''spec'', ''runtime'', ''shardingMode''] (rt_ShardingMode rt) ''shardingMode is required''
     @ template_errors (rt_Template rt)"

definition positive :: "string \<Rightarrow> duration \<Rightarrow> string \<Rightarrow> field_error list" where
  "positive field d msg =
     err_if (d \<le> 0) (Invalid (path [''spec'', ''checkpoint'', field]) (BadString (Duration_String d)) msg)"

definition checkpoint_errors :: "CheckpointPolicy \<Rightarrow> field_error list" where
  "checkpoint_errors c =
     err_if (\<not> HasPrefix (cp_StorageURI c) ''s3://'')
       (Invalid (path [''spec'', ''checkpoint'', ''storageURI'']) (BadString (cp_StorageURI c))
          ''storageURI must use an s3:// prefix'')
     @ positive ''interval'' (cp_Interval c) ''interval must be greater than zero''
     @ positive ''freshnessBudget'' (cp_FreshnessBudget c) ''freshnessBudget must be greater than zero''
     @ positive ''maxDrainTime'' (cp_MaxDrainTime c) ''maxDrainTime must be greater than zero''
     @ err_if (cp_FreshnessBudget c > 0 \<and> cp_Interval c > 0 \<and> cp_FreshnessBudget c < cp_Interval c)
         (Invalid (path [''spec'', ''checkpoint'', ''freshnessBudget'']) (BadString (Duration_String (cp_FreshnessBudget c)))
            ''freshnessBudget must be greater than or equal to interval'')
     @ err_if (cp_SafePointMode c \<noteq> SafePointModeStepBoundary)
         (NotSupported (path [''spec'', ''checkpoint'', ''safePointMode'']) (cp_SafePointMode c) [SafePointModeStepBoundary])"

definition resume_errors :: "ResumePolicy \<Rightarrow> field_error list" where
  "resume_errors p =
     err_if (rp_SourcePolicy p \<noteq> ResumeSourcePolicyLatestCompatibleComplete)
       (NotSupported (path [''spec'', ''resume'', ''sourcePolicy'']) (rp_SourcePolicy p)
          [ResumeSourcePolicyLatestCompatibleComplete])
     @ err_if (rp_MaxResumeRetries p < 1)
         (Invalid (path [''spec'', ''resume'', ''maxResumeRetries'']) (BadInt (rp_MaxResumeRetries p))
            ''maxResumeRetries must be greater than zero'')"

definition control_errors :: "ResumableTrainingJobSpec \<Rightarrow> field_error list" where
  "control_errors s =
     (let p = path [''spec'', ''control'', ''desiredState''] in
      err_if (sp_Suspend s = Some True \<and> sp_Control s = Some DesiredStateUnset)
        (Required p ''desiredState must be explicit when suspend is set'')
      @ (case sp_Control s of
           None \<Rightarrow> []
         | Some d \<Rightarrow> err_if (d \<noteq> DesiredStateRunning \<and> d \<noteq> DesiredStatePaused)
                      (NotSupported p (DesiredState_string d) [''Running'', ''Paused''])))"

definition validationErrors :: "ResumableTrainingJob \<Rightarrow> field_error list" where
  "validationErrors r =
     (let s = rtj_Spec r in
      identity_errors s @ runtime_errors (sp_Runtime s) @ checkpoint_errors (sp_Checkpoint s)
      @ resume_errors (sp_Resume s) @ control_errors s
      @ validateParallelism r @ validateTopology r @ validatePriorityPolicyRef r @ validateManagedBy r
      @ validateDevices r @ validateElasticity r)"

text \<open>\<open>apierrors.NewInvalid\<close> carries the name of the job and the errors.\<close>

definition validate :: "ResumableTrainingJob \<Rightarrow> (string \<times> field_error list) option" where
  "validate r = (let allErrs = validationErrors r in if allErrs = [] then None else Some (rtj_Name r, allErrs))"

definition ValidateCreate :: "ResumableTrainingJob \<Rightarrow> (string \<times> field_error list) option" where
  "ValidateCreate r = validate r"

definition ValidateUpdate :: "ResumableTrainingJob \<Rightarrow> ResumableTrainingJob \<Rightarrow> (string \<times> field_error list) option" where
  "ValidateUpdate r old = validate r"

definition ValidateDelete :: "ResumableTrainingJob \<Rightarrow> (string \<times> field_error list) option" where
  "ValidateDelete r = None"

section \<open>The webhook\<close>

definition defaultQueueExists :: "webhook_env \<Rightarrow> string \<Rightarrow> bool" where
  "defaultQueueExists W namespace = (case we_DefaultQueueExist W of None \<Rightarrow> False | Some f \<Rightarrow> f namespace)"

definition elasticityModeOf :: "ResumableTrainingJob \<Rightarrow> ElasticityMode" where
  "elasticityModeOf job =
     (case sp_Elasticity (rtj_Spec job) of
        None \<Rightarrow> ElasticityModeDisabled
      | Some e \<Rightarrow> if els_Mode e = ElasticityModeUnset then ElasticityModeDisabled else els_Mode e)"

text \<open>The generic job of the webhook: only \<open>Suspend\<close> and \<open>IsSuspended\<close> do anything.\<close>

definition webhook_IsSuspended :: "ResumableTrainingJob \<Rightarrow> bool" where
  "webhook_IsSuspended job = IsSuspendedForKueue job"

definition webhook_Suspend :: "ResumableTrainingJob \<Rightarrow> ResumableTrainingJob" where
  "webhook_Suspend job = job\<lparr> rtj_Spec := (rtj_Spec job)\<lparr> sp_Suspend := Some True \<rparr> \<rparr>"

definition Webhook_Default :: "webhook_env \<Rightarrow> ResumableTrainingJob \<Rightarrow> go_err + ResumableTrainingJob" where
  "Webhook_Default W job = we_ApplyDefaultForSuspend W (Default W job)"

definition Webhook_ValidateCreate :: "webhook_env \<Rightarrow> ResumableTrainingJob \<Rightarrow> field_error list" where
  "Webhook_ValidateCreate W job =
     (let jobCopy = projectKueueLabels W job in validationErrors jobCopy @ we_ValidateJobOnCreate W jobCopy)"

definition Webhook_ValidateUpdate :: "webhook_env \<Rightarrow> ResumableTrainingJob \<Rightarrow> ResumableTrainingJob \<Rightarrow> field_error list" where
  "Webhook_ValidateUpdate W oldJob newJob =
     (let oldCopy = projectKueueLabels W oldJob; newCopy = projectKueueLabels W newJob;
          oldMode = elasticityModeOf oldCopy; newMode = elasticityModeOf newCopy
      in validationErrors newCopy
         @ we_ValidateJobOnCreate W newCopy
         @ we_ValidateJobOnUpdate W oldCopy newCopy (defaultQueueExists W)
         @ err_if (sp_ManagedBy (rtj_Spec oldCopy) \<noteq> sp_ManagedBy (rtj_Spec newCopy))
             (Invalid (path [''spec'', ''managedBy'']) (BadString (sp_ManagedBy (rtj_Spec newCopy)))
                (''managedBy is immutable once set (was '' @ quote (sp_ManagedBy (rtj_Spec oldCopy)) @ '')''))
         @ err_if (oldMode \<noteq> newMode \<and> sp_Suspend (rtj_Spec newCopy) \<noteq> Some True)
             (Forbidden (path [''spec'', ''elasticity'', ''mode''])
                (''elasticity mode change from '' @ quote (ElasticityMode_string oldMode) @ '' to ''
                 @ quote (ElasticityMode_string newMode) @ '' requires the RTJ to be suspended'')))"

definition Webhook_ValidateDelete :: "ResumableTrainingJob \<Rightarrow> field_error list" where
  "Webhook_ValidateDelete job = []"

section \<open>What a valid job is\<close>

definition claim_ok :: "DeviceClaimSpec \<Rightarrow> bool" where
  "claim_ok c \<longleftrightarrow>
     \<not> blank (dc_Name c) \<and> length (dc_Name c) \<le> MaxClaimNameLength
     \<and> dc_Containers c \<noteq> [] \<and> distinct (dc_Containers c) \<and> (\<forall>x \<in> set (dc_Containers c). \<not> blank x)
     \<and> \<not> blank (dr_DeviceClassName (dc_Request c)) \<and> 0 \<le> dr_Count (dc_Request c)
     \<and> (\<forall>x \<in> set (dr_Selectors (dc_Request c)). \<not> blank x)"

definition devices_ok :: "DeviceSpec \<Rightarrow> bool" where
  "devices_ok d \<longleftrightarrow>
     dev_Mode d = DeviceModeDisabled \<and> dev_Claims d = []
     \<or> dev_Mode d = DeviceModeDRA \<and> dev_Claims d \<noteq> []
        \<and> distinct (map dc_Name (dev_Claims d)) \<and> (\<forall>c \<in> set (dev_Claims d). claim_ok c)"

definition parallelism_ok :: "ResumableTrainingJob \<Rightarrow> ParallelismSpec \<Rightarrow> bool" where
  "parallelism_ok r p \<longleftrightarrow>
     0 \<le> par_PreferredCount p
     \<and> (\<forall>m. par_MinCount p = Some m \<longrightarrow> 1 \<le> m \<and> m \<le> EffectivePreferredCount r)
     \<and> (par_EnablePartialAdmission p \<longrightarrow>
          rp_AllowWorldSizeChange (sp_Resume (rtj_Spec r)) \<and> par_MinCount p \<noteq> None)"

definition topology_ok :: "TopologySpec \<Rightarrow> bool" where
  "topology_ok t \<longleftrightarrow>
     topo_Mode t = TopologyModeUnconstrained
     \<or> topo_Mode t = TopologyModeDisabled \<and> \<not> topo_LeaderWorkerColocation t
     \<or> topo_Mode t \<in> {TopologyModeRequired, TopologyModePreferred} \<and> \<not> blank (topo_TopologyLevel t)"

definition elasticity_ok :: "ResumableTrainingJob \<Rightarrow> ElasticitySpec \<Rightarrow> bool" where
  "elasticity_ok r e \<longleftrightarrow>
     els_Mode e = ElasticityModeDisabled \<and> els_TargetWorkerCount e = None
     \<or> els_Mode e = ElasticityModeManual \<and> rp_AllowWorldSizeChange (sp_Resume (rtj_Spec r))
        \<and> (\<forall>n. els_TargetWorkerCount e = Some n \<longrightarrow>
             1 \<le> n \<and> EffectiveElasticityMinCount r \<le> n \<and> n \<le> EffectivePreferredCount r)"

definition identity_ok :: "ResumableTrainingJobSpec \<Rightarrow> bool" where
  "identity_ok s \<longleftrightarrow>
     \<not> blank (sp_QueueName s) \<and> \<not> blank (sp_WorkloadPriorityClassName s)
     \<and> \<not> blank (id_Image (sp_Identity s)) \<and> \<not> blank (id_CodeVersion (sp_Identity s))
     \<and> 1 \<le> id_WorldSize (sp_Identity s) \<and> \<not> blank (id_GPUShape (sp_Identity s))"

definition runtime_ok :: "ResumableTrainingJobRuntime \<Rightarrow> bool" where
  "runtime_ok rt \<longleftrightarrow>
     rt_Mode rt \<noteq> RuntimeModeUnset \<and> \<not> blank (rt_OptimizerMode rt) \<and> \<not> blank (rt_ShardingMode rt)
     \<and> \<not> blank (tpl_APIVersion (rt_Template rt)) \<and> tpl_Kind (rt_Template rt) = ''JobSet''
     \<and> json_Valid (TrimSpace (tpl_Spec (rt_Template rt)))"

definition checkpoint_ok :: "CheckpointPolicy \<Rightarrow> bool" where
  "checkpoint_ok c \<longleftrightarrow>
     HasPrefix (cp_StorageURI c) ''s3://'' \<and> 0 < cp_Interval c \<and> cp_Interval c \<le> cp_FreshnessBudget c
     \<and> 0 < cp_MaxDrainTime c \<and> cp_SafePointMode c = ''StepBoundary''"

definition managedBy_ok :: "string \<Rightarrow> bool" where
  "managedBy_ok mb \<longleftrightarrow> mb = '''' \<or> length mb \<le> MaxManagedByLength \<and> Contains mb ''/''"

definition valid_job :: "ResumableTrainingJob \<Rightarrow> bool" where
  "valid_job r \<longleftrightarrow>
     (let s = rtj_Spec r in
      identity_ok s \<and> runtime_ok (sp_Runtime s) \<and> checkpoint_ok (sp_Checkpoint s)
      \<and> rp_SourcePolicy (sp_Resume s) = ''LatestCompatibleComplete'' \<and> 1 \<le> rp_MaxResumeRetries (sp_Resume s)
      \<and> sp_Control s \<noteq> Some DesiredStateUnset
      \<and> pred_option (parallelism_ok r) (sp_Parallelism s) \<and> pred_option topology_ok (sp_Topology s)
      \<and> pred_option (\<lambda>n. \<not> blank n) (sp_PriorityPolicyRef s) \<and> managedBy_ok (sp_ManagedBy s)
      \<and> pred_option devices_ok (sp_Devices s) \<and> pred_option (elasticity_ok r) (sp_Elasticity s))"

subsection \<open>Every group of checks against its predicate\<close>

lemma required_Nil [simp]: "required p v msg = [] \<longleftrightarrow> \<not> blank v"
  by (simp add: required_def blank_def)

lemma json_Valid_Nil [simp]: "\<not> json_Valid ''''"
  by (simp add: json_Valid_def scan_eof_def stateBeginValue_def isSpace_def)

lemma identity_errors_Nil: "identity_errors s = [] \<longleftrightarrow> identity_ok s"
  by (auto simp: identity_errors_def identity_ok_def Let_def)

lemma runtime_errors_Nil: "runtime_errors rt = [] \<longleftrightarrow> runtime_ok rt"
  by (cases "rt_Mode rt")
    (auto simp: runtime_errors_def template_errors_def runtime_ok_def trimRawExtension_def DefaultJobSetKind_def)

lemma checkpoint_errors_Nil: "checkpoint_errors c = [] \<longleftrightarrow> checkpoint_ok c"
  by (auto simp: checkpoint_errors_def checkpoint_ok_def positive_def SafePointModeStepBoundary_def)

lemma control_errors_Nil: "control_errors s = [] \<longleftrightarrow> sp_Control s \<noteq> Some DesiredStateUnset"
  by (cases "sp_Control s") (auto simp: control_errors_def Let_def intro: DesiredState.exhaust)

lemma validateParallelism_Nil: "validateParallelism r = [] \<longleftrightarrow> pred_option (parallelism_ok r) (sp_Parallelism (rtj_Spec r))"
  by (auto simp: validateParallelism_def parallelism_ok_def Let_def pred_option_def split: option.split)

lemma validateTopology_Nil: "validateTopology r = [] \<longleftrightarrow> pred_option topology_ok (sp_Topology (rtj_Spec r))"
  by (auto simp: validateTopology_def topology_ok_def blank_def Let_def pred_option_def split: option.split)

lemma validatePriorityPolicyRef_Nil:
  "validatePriorityPolicyRef r = [] \<longleftrightarrow> pred_option (\<lambda>n. \<not> blank n) (sp_PriorityPolicyRef (rtj_Spec r))"
  by (auto simp: validatePriorityPolicyRef_def blank_def pred_option_def split: option.split)

lemma validateManagedBy_Nil: "validateManagedBy r = [] \<longleftrightarrow> managedBy_ok (sp_ManagedBy (rtj_Spec r))"
  by (auto simp: validateManagedBy_def managedBy_ok_def Let_def)

text \<open>The loops: the names seen so far are those of the elements before.\<close>

lemma container_errors_Nil:
  "container_errors p j seen cs = [] \<longleftrightarrow> (\<forall>c \<in> set cs. \<not> blank c) \<and> distinct cs \<and> set cs \<inter> set seen = {}"
  by (induction cs arbitrary: j seen) (auto simp: blank_def)

lemma selector_errors_Nil: "selector_errors p k sels = [] \<longleftrightarrow> (\<forall>x \<in> set sels. \<not> blank x)"
  by (induction sels arbitrary: k) (auto simp: blank_def)

lemma claim_errors_Nil:
  "claim_errors p i seen cs = [] \<longleftrightarrow>
     (\<forall>c \<in> set cs. claim_ok c) \<and> distinct (map dc_Name cs) \<and> dc_Name ` set cs \<inter> set seen = {}"
proof (induction cs arbitrary: i seen)
  case (Cons c cs)
  have "claim_body_errors q c = [] \<and> \<not> blank (dc_Name c) \<and> length (dc_Name c) \<le> MaxClaimNameLength \<longleftrightarrow> claim_ok c" for q
    by (auto simp: claim_body_errors_def claim_ok_def Let_def container_errors_Nil selector_errors_Nil blank_def)
  with Cons.IH show ?case by (auto simp: Let_def blank_def)
qed simp

lemma validateDevices_Nil: "validateDevices r = [] \<longleftrightarrow> pred_option devices_ok (sp_Devices (rtj_Spec r))"
  by (auto simp: validateDevices_def devices_ok_def Let_def pred_option_def validateDeviceClaims_def claim_errors_Nil
      split: option.split DeviceMode.split)

lemma target_errors_Nil:
  "target_errors r p n = [] \<longleftrightarrow> 1 \<le> n \<and> EffectiveElasticityMinCount r \<le> n \<and> n \<le> EffectivePreferredCount r"
  by (auto simp: target_errors_def Let_def)

lemma validateElasticity_Nil: "validateElasticity r = [] \<longleftrightarrow> pred_option (elasticity_ok r) (sp_Elasticity (rtj_Spec r))"
proof -
  have "\<not> (p \<noteq> InPlaceShrinkPolicyUnset \<and> p \<noteq> InPlaceShrinkPolicyIfSupported \<and> p \<noteq> InPlaceShrinkPolicyNever)" for p
    by (cases p) simp_all
  moreover have "\<not> (m \<noteq> ReclaimModeUnset \<and> m \<noteq> ReclaimModeReclaimablePods)" for m
    by (cases m) simp_all
  ultimately show ?thesis
    by (auto simp: validateElasticity_def elasticity_ok_def Let_def pred_option_def target_errors_Nil
        split: option.splits ElasticityMode.split)
qed

lemma validationErrors_Nil: "validationErrors r = [] \<longleftrightarrow> valid_job r"
  by (auto simp: validationErrors_def valid_job_def Let_def identity_errors_Nil runtime_errors_Nil checkpoint_errors_Nil
      control_errors_Nil validateParallelism_Nil validateTopology_Nil validatePriorityPolicyRef_Nil validateManagedBy_Nil
      validateDevices_Nil validateElasticity_Nil resume_errors_def ResumeSourcePolicyLatestCompatibleComplete_def)

section \<open>Defaulting\<close>

lemmas default_defs = default_spec_def default_resume_def default_template_def default_topology_def default_devices_def
  default_count_def default_elasticity_def

lemma default_spec_idem: "default_spec (default_spec s) = default_spec s"
proof -
  have "map_option default_devices (map_option default_devices d) = map_option default_devices d" for d
    by (cases d) (auto simp: default_defs default_consts Let_def)
  moreover have "map_option default_elasticity (map_option default_elasticity e) = map_option default_elasticity e" for e
    by (cases e) (auto simp: default_elasticity_def Let_def)
  moreover have "map_option default_topology (map_option default_topology t) = map_option default_topology t" for t
    by (cases t) (auto simp: default_topology_def)
  moreover have "default_resume (default_resume p) = default_resume p" for p
    by (auto simp: default_resume_def default_consts Let_def)
  moreover have "default_template (default_template t) = default_template t" for t
    by (auto simp: default_template_def default_consts Let_def)
  ultimately show ?thesis by (auto simp: default_spec_def default_consts split: option.split)
qed

lemma project_labels_idem:
  "project_label k v (project_label k' v' (project_label k v (project_label k' v' m))) = project_label k v (project_label k' v' m)"
  by (auto simp: project_label_def fun_eq_iff)

lemma Default_spec [simp]: "rtj_Spec (Default W r) = default_spec (rtj_Spec r)"
  by (simp add: Default_def projectKueueLabels_def)

lemma Default_idem: "Default W (Default W r) = Default W r"
  by (simp add: Default_def projectKueueLabels_def default_spec_idem project_labels_idem)

text \<open>A job as a user may write it: every field the defaults provide is left out.\<close>

definition omit_optional :: "ResumableTrainingJob \<Rightarrow> ResumableTrainingJob" where
  "omit_optional r =
     (let s = rtj_Spec r in
      r\<lparr> rtj_Spec := s\<lparr> sp_Control := None,
           sp_Checkpoint := (sp_Checkpoint s)\<lparr> cp_SafePointMode := '''' \<rparr>,
           sp_Resume := (sp_Resume s)\<lparr> rp_SourcePolicy := '''', rp_MaxResumeRetries := 0 \<rparr>,
           sp_Runtime := (sp_Runtime s)\<lparr> rt_Template := (rt_Template (sp_Runtime s))\<lparr> tpl_APIVersion := '''', tpl_Kind := '''' \<rparr> \<rparr>,
           sp_Devices := map_option (\<lambda>d. d\<lparr> dev_Claims :=
               map (\<lambda>c. c\<lparr> dc_Request := (dc_Request c)\<lparr> dr_Count := 0 \<rparr> \<rparr>) (dev_Claims d) \<rparr>) (sp_Devices s),
           sp_Elasticity := map_option (\<lambda>e. e\<lparr> els_InPlaceShrinkPolicy := InPlaceShrinkPolicyUnset,
               els_ReclaimMode := ReclaimModeUnset \<rparr>) (sp_Elasticity s) \<rparr> \<rparr>)"

lemma DefaultJobSetAPIVersion_not_blank: "\<not> blank DefaultJobSetAPIVersion"
  unfolding blank_def DefaultJobSetAPIVersion_def by code_simp

lemma claim_ok_count [simp]: "claim_ok (default_count c) \<longleftrightarrow> claim_ok c"
  by (auto simp: claim_ok_def default_count_def default_consts)

lemma dc_Name_default_count [simp]: "dc_Name (default_count c) = dc_Name c"
  by (simp add: default_count_def)

lemma default_devices_ok: "devices_ok d \<Longrightarrow> devices_ok (default_devices d)"
  by (auto simp: devices_ok_def default_devices_def Let_def comp_def)

lemma default_elasticity_ok: "elasticity_ok r e \<Longrightarrow> elasticity_ok r (default_elasticity e)"
  by (auto simp: elasticity_ok_def default_elasticity_def Let_def)

text \<open>The bounds of a resize depend only on the parallelism and the identity of the spec, and on the resume policy's
  permission to change the world size.\<close>

definition same_shape :: "ResumableTrainingJob \<Rightarrow> ResumableTrainingJob \<Rightarrow> bool" where
  "same_shape r r' \<longleftrightarrow>
     sp_Parallelism (rtj_Spec r) = sp_Parallelism (rtj_Spec r') \<and> sp_Identity (rtj_Spec r) = sp_Identity (rtj_Spec r')
     \<and> rp_AllowWorldSizeChange (sp_Resume (rtj_Spec r)) = rp_AllowWorldSizeChange (sp_Resume (rtj_Spec r'))"

lemma same_shape_ok:
  assumes "same_shape r r'"
  shows "parallelism_ok r = parallelism_ok r'" and "elasticity_ok r = elasticity_ok r'"
proof -
  have "EffectivePreferredCount r = EffectivePreferredCount r'" "EffectiveElasticityMinCount r = EffectiveElasticityMinCount r'"
    using assms by (simp_all add: same_shape_def EffectivePreferredCount_def EffectiveElasticityMinCount_def split: option.split)
  then show "parallelism_ok r = parallelism_ok r'" "elasticity_ok r = elasticity_ok r'"
    using assms by (simp_all add: same_shape_def parallelism_ok_def elasticity_ok_def fun_eq_iff)
qed

lemma default_same_shape: "same_shape (Default W r) r" "same_shape (Default W (omit_optional r)) r"
  by (auto simp: same_shape_def default_spec_def default_resume_def omit_optional_def Let_def)

lemma Default_valid: "valid_job r \<Longrightarrow> valid_job (Default W r)"
  using same_shape_ok [OF default_same_shape(1), of W r]
  by (auto simp: valid_job_def Let_def default_spec_def default_resume_def default_template_def default_topology_def
      identity_ok_def runtime_ok_def checkpoint_ok_def default_consts option.pred_map comp_def topology_ok_def
      split: option.split intro!: option.pred_mono_strong [OF _ default_devices_ok] option.pred_mono_strong [OF _ default_elasticity_ok]
      elim: option.pred_mono_strong)

lemma claim_ok_omitted: "claim_ok c \<Longrightarrow> claim_ok (c\<lparr> dc_Request := (dc_Request c)\<lparr> dr_Count := 0 \<rparr> \<rparr>)"
  by (simp add: claim_ok_def)

lemma omit_devices_ok:
  "devices_ok d \<Longrightarrow> devices_ok (default_devices (d\<lparr> dev_Claims :=
     map (\<lambda>c. c\<lparr> dc_Request := (dc_Request c)\<lparr> dr_Count := 0 \<rparr> \<rparr>) (dev_Claims d) \<rparr>))"
  by (auto simp: devices_ok_def default_devices_def Let_def comp_def claim_ok_omitted)

lemma omit_elasticity_ok:
  "elasticity_ok r e \<Longrightarrow> elasticity_ok r (default_elasticity
     (e\<lparr> els_InPlaceShrinkPolicy := InPlaceShrinkPolicyUnset, els_ReclaimMode := ReclaimModeUnset \<rparr>))"
  by (auto simp: elasticity_ok_def default_elasticity_def Let_def)

lemma omit_valid: "valid_job r \<Longrightarrow> valid_job (Default W (omit_optional r))"
  using same_shape_ok [OF default_same_shape(2), of W r] DefaultJobSetAPIVersion_not_blank
  by (auto simp: valid_job_def Let_def default_spec_def default_resume_def default_template_def default_topology_def
      omit_optional_def identity_ok_def runtime_ok_def checkpoint_ok_def option.pred_map comp_def topology_ok_def
      DefaultJobSetKind_def SafePointModeStepBoundary_def ResumeSourcePolicyLatestCompatibleComplete_def
      DefaultMaxResumeRetries_def
      split: option.split intro!: option.pred_mono_strong [OF _ omit_devices_ok] option.pred_mono_strong [OF _ omit_elasticity_ok]
      elim: option.pred_mono_strong)

text \<open>A complete job, for the witnesses.\<close>

definition ex_valid :: ResumableTrainingJob where
  "ex_valid = ex_job\<lparr> rtj_Spec := ex_spec\<lparr>
     sp_Runtime := (sp_Runtime ex_spec)\<lparr> rt_Template :=
       \<lparr> tpl_APIVersion = DefaultJobSetAPIVersion, tpl_Kind = ''JobSet'', tpl_Metadata = None, tpl_Spec = ''{}'' \<rparr> \<rparr>,
     sp_Control := Some DesiredStateRunning,
     sp_ManagedBy := MultiKueueControllerName,
     sp_Devices := Some \<lparr> dev_Mode = DeviceModeDRA, dev_Claims = [\<lparr> dc_Name = ''gpu'', dc_Containers = [''c''],
        dc_Request = \<lparr> dr_DeviceClassName = ''k'', dr_Count = 1, dr_Selectors = [] \<rparr> \<rparr>] \<rparr> \<rparr> \<rparr>"

lemma not_blank_letters:
  "\<not> blank ''q''" "\<not> blank ''p''" "\<not> blank ''i''" "\<not> blank ''v''" "\<not> blank ''g''" "\<not> blank ''o''" "\<not> blank ''s''"
  "\<not> blank ''c''" "\<not> blank ''k''" "\<not> blank ''gpu''" "TrimSpace ''{}'' = ''{}''"
  unfolding blank_def by code_simp+

lemma ex_valid_template: "json_Valid ''{}''"
  by (simp add: json_Valid_def scan_eof_def stateBeginValue_def pushParseState_def popParseState_def isSpace_def
      maxNestingDepth_def)

lemma ex_valid_valid: "valid_job ex_valid"
  by (simp add: ex_valid_def valid_job_def ex_job_def ex_spec_def identity_ok_def runtime_ok_def checkpoint_ok_def
      devices_ok_def claim_ok_def managedBy_ok_def MultiKueueControllerName_def MaxManagedByLength_def MaxClaimNameLength_def
      not_blank_letters ex_valid_template DefaultJobSetAPIVersion_not_blank)

section \<open>The versions of a job the webhook lets through\<close>

text \<open>Kueue's defaulting of \<open>suspend\<close>, as its documentation has it: the job comes back suspended or as it was.\<close>

definition suspends_only :: "webhook_env \<Rightarrow> bool" where
  "suspends_only W \<longleftrightarrow>
     (\<forall>j j'. we_ApplyDefaultForSuspend W j = Inr j' \<longrightarrow> j' = j \<or> j' = webhook_Suspend j)"

text \<open>The API server calls the mutating webhook on what the client sent, then the validating one on the result;
  \<open>versions W a b\<close>: the object was created as \<open>a\<close>, and accepted updates have made it \<open>b\<close>.\<close>

inductive versions :: "webhook_env \<Rightarrow> ResumableTrainingJob \<Rightarrow> ResumableTrainingJob \<Rightarrow> bool" for W where
  created: "Webhook_Default W sent = Inr j \<Longrightarrow> Webhook_ValidateCreate W j = [] \<Longrightarrow> versions W j j"
| updated: "versions W a b \<Longrightarrow> Webhook_Default W sent = Inr c \<Longrightarrow> Webhook_ValidateUpdate W b c = [] \<Longrightarrow> versions W a c"

inductive_cases versionsE: "versions W a b"

lemma projectKueueLabels_spec [simp]: "rtj_Spec (projectKueueLabels W r) = rtj_Spec r"
  by (simp add: projectKueueLabels_def)

lemma valid_spec_cong: "rtj_Spec r = rtj_Spec r' \<Longrightarrow> valid_job r \<longleftrightarrow> valid_job r'"
  using same_shape_ok [of r r'] by (simp add: valid_job_def same_shape_def)

lemma accepted_create: "Webhook_ValidateCreate W j = [] \<Longrightarrow> valid_job j"
  using valid_spec_cong [of "projectKueueLabels W j" j]
  by (simp add: Webhook_ValidateCreate_def Let_def validationErrors_Nil)

lemma accepted_update:
  assumes "Webhook_ValidateUpdate W b c = []"
  shows "valid_job c" and "sp_ManagedBy (rtj_Spec c) = sp_ManagedBy (rtj_Spec b)"
    and "elasticityModeOf c = elasticityModeOf b \<or> IsSuspendedForKueue c"
  using assms valid_spec_cong [of "projectKueueLabels W c" c]
  by (auto simp: Webhook_ValidateUpdate_def Let_def validationErrors_Nil elasticityModeOf_def IsSuspendedForKueue_def)

text \<open>The labels Kueue selects workloads by.\<close>

definition labelled_for_kueue :: "webhook_env \<Rightarrow> ResumableTrainingJob \<Rightarrow> bool" where
  "labelled_for_kueue W r \<longleftrightarrow>
     rtj_Labels r (we_QueueLabel W) = Some (sp_QueueName (rtj_Spec r))
     \<and> rtj_Labels r (we_WorkloadPriorityClassLabel W) = Some (sp_WorkloadPriorityClassName (rtj_Spec r))"

lemma defaulted_labels:
  assumes "suspends_only W" and "we_QueueLabel W \<noteq> we_WorkloadPriorityClassLabel W"
    and "Webhook_Default W sent = Inr j" and "valid_job j"
  shows "labelled_for_kueue W j"
proof -
  have "j = Default W sent \<or> j = webhook_Suspend (Default W sent)"
    using assms(1,3) by (simp add: suspends_only_def Webhook_Default_def)
  then have j: "rtj_Labels j = rtj_Labels (Default W sent)" "sp_QueueName (rtj_Spec j) = sp_QueueName (rtj_Spec sent)"
    "sp_WorkloadPriorityClassName (rtj_Spec j) = sp_WorkloadPriorityClassName (rtj_Spec sent)"
    by (auto simp: webhook_Suspend_def default_spec_def)
  moreover have "\<not> blank (sp_QueueName (rtj_Spec j))" "\<not> blank (sp_WorkloadPriorityClassName (rtj_Spec j))"
    using assms(4) by (simp_all add: valid_job_def identity_ok_def Let_def)
  ultimately show ?thesis
    using assms(2) by (simp add: labelled_for_kueue_def Default_def projectKueueLabels_def project_label_def blank_def
        default_spec_def)
qed

lemma versions_invariant:
  assumes "versions W a b"
  shows "valid_job b \<and> sp_ManagedBy (rtj_Spec b) = sp_ManagedBy (rtj_Spec a)"
  using assms by (induction rule: versions.induct) (auto dest: accepted_create accepted_update)

lemma versions_labelled:
  assumes "versions W a b" and "suspends_only W" and "we_QueueLabel W \<noteq> we_WorkloadPriorityClassLabel W"
  shows "labelled_for_kueue W b"
  using assms(1) by (cases rule: versions.cases)
    (auto intro: defaulted_labels [OF assms(2,3)] accepted_create accepted_update(1))

text \<open>A webhook whose framework suspends every job and has no objections.\<close>

definition ex_webhook :: webhook_env where
  "ex_webhook = \<lparr> we_QueueLabel = ''kueue.x-k8s.io/queue-name'',
     we_WorkloadPriorityClassLabel = ''kueue.x-k8s.io/priority-class'',
     we_ApplyDefaultForSuspend = (\<lambda>j. Inr (webhook_Suspend j)), we_ValidateJobOnCreate = (\<lambda>_. []),
     we_ValidateJobOnUpdate = (\<lambda>_ _ _. []), we_DefaultQueueExist = None \<rparr>"

lemma omitted_invalid: "\<not> valid_job (omit_optional r)"
  by (simp add: valid_job_def omit_optional_def Let_def runtime_ok_def)

section \<open>Properties\<close>

text \<open>
  C10: Validation accepts exactly the well-formed jobs: every required text is more than white space, the world
  size and the durations are positive and the freshness budget covers a checkpoint interval, the storage is an
  \<open>s3://\<close> location, the embedded template is a JobSet in valid JSON, the worker counts lie inside their bounds and
  change only where the resume policy allows another world size, and the device claims have distinct names and
  distinct containers.  A rejected job comes with at least one error.
\<close>

theorem validation_exact:
  "(validate r = None \<longleftrightarrow> valid_job r) \<and> (\<forall>name errs. validate r = Some (name, errs) \<longrightarrow> name = rtj_Name r \<and> errs \<noteq> [])"
  by (simp add: validate_def Let_def validationErrors_Nil)

theorem validation_exact_witness:
  "validate ex_valid = None \<and> (\<exists>errs. validate (omit_optional ex_valid) = Some (''j'', errs) \<and> errs \<noteq> [])"
proof -
  obtain name errs where "validate (omit_optional ex_valid) = Some (name, errs)"
    using validation_exact [of "omit_optional ex_valid"] omitted_invalid by (metis not_None_eq surj_pair)
  moreover have "rtj_Name (omit_optional ex_valid) = ''j''" by (simp add: omit_optional_def Let_def ex_valid_def ex_job_def)
  ultimately show ?thesis
    using validation_exact [of ex_valid] validation_exact [of "omit_optional ex_valid"] ex_valid_valid by auto
qed

text \<open>
  C39: Defaulting is a normal form.  Applying the defaults twice is applying them once, a valid job stays valid,
  and a valid job from which the user left out every field the defaults provide (the desired state, the safe-point
  mode, the resume policy, the template's kind and version, the device counts and the resize policies) is valid
  again once the defaults are applied.
\<close>

theorem defaulting_completes:
  "Default W (Default W r) = Default W r
   \<and> (valid_job r \<longrightarrow> valid_job (Default W r) \<and> valid_job (Default W (omit_optional r)))"
  using Default_idem Default_valid omit_valid by blast

theorem defaulting_completes_witness:
  "valid_job ex_valid \<and> valid_job (Default ex_webhook (omit_optional ex_valid)) \<and> \<not> valid_job (omit_optional ex_valid)"
  using defaulting_completes [of ex_webhook ex_valid] ex_valid_valid omitted_invalid by blast

text \<open>
  C3: Whatever clients and controllers send, every version of a job that the webhook lets through is valid, is
  managed by the same controller as the version that was created, and carries the labels Kueue selects by; and
  the next accepted version has another elasticity mode only if it is suspended.
\<close>

theorem admitted_versions_invariant:
  assumes "versions W a b" and "suspends_only W" and "we_QueueLabel W \<noteq> we_WorkloadPriorityClassLabel W"
  shows "valid_job b \<and> sp_ManagedBy (rtj_Spec b) = sp_ManagedBy (rtj_Spec a) \<and> labelled_for_kueue W b
     \<and> (\<forall>sent c. Webhook_Default W sent = Inr c \<and> Webhook_ValidateUpdate W b c = []
          \<longrightarrow> elasticityModeOf c = elasticityModeOf b \<or> IsSuspendedForKueue c)"
  using versions_invariant [OF assms(1)] versions_labelled [OF assms] accepted_update(3) by blast

lemma valid_suspended: "valid_job (webhook_Suspend r) \<longleftrightarrow> valid_job r"
  using same_shape_ok [of "webhook_Suspend r" r]
  by (auto simp: valid_job_def same_shape_def webhook_Suspend_def identity_ok_def Let_def)

lemma ex_version: "versions ex_webhook (webhook_Suspend (Default ex_webhook ex_valid)) (webhook_Suspend (Default ex_webhook ex_valid))"
proof (rule versions.created)
  let ?j = "webhook_Suspend (Default ex_webhook ex_valid)"
  show "Webhook_Default ex_webhook ex_valid = Inr ?j" by (simp add: Webhook_Default_def ex_webhook_def)
  have "valid_job ?j" using Default_valid [OF ex_valid_valid] by (simp add: valid_suspended)
  then show "Webhook_ValidateCreate ex_webhook ?j = []"
    using valid_spec_cong [of "projectKueueLabels ex_webhook ?j" ?j]
    by (simp add: Webhook_ValidateCreate_def Let_def validationErrors_Nil) (simp add: ex_webhook_def)
qed

theorem admitted_versions_invariant_witness:
  "\<exists>j. versions ex_webhook j j \<and> suspends_only ex_webhook \<and> labelled_for_kueue ex_webhook j \<and> valid_job j"
proof -
  have s: "suspends_only ex_webhook" by (simp add: suspends_only_def ex_webhook_def)
  have "we_QueueLabel ex_webhook \<noteq> we_WorkloadPriorityClassLabel ex_webhook" by (simp add: ex_webhook_def)
  from admitted_versions_invariant [OF ex_version s this] ex_version s show ?thesis by blast
qed

end
