(* ===== verification/Kueue_Job.thy ===== *)
theory Kueue_Job
  imports Launch_Gate API_Validation
begin

text \<open>
  The integration with Kueue, \<open>internal/kueue\<close>: the generic job Kueue's framework drives
  (\<open>rtj_generic_job.go\<close>), the pod sets it accounts for (\<open>rtj_podsets.go\<close>) with their topology requests
  (\<open>rtj_topology.go\<close>), and the view of an admission (\<open>admission_view.go\<close>).  What the code takes from Kueue's
  libraries (merging a pod-set info into a pod template and undoing it, the constructor of pod-set references) and
  from \<open>json.Marshal\<close> of the template is a field of \<open>kueue_env\<close>; the operator's gate for partial admission is one
  too.  The lemmas connect the component with the controller: what Kueue admits is what the controller reads,
  and the devices Kueue accounts for are those the renderer injects.
\<close>

section \<open>Types of Kueue\<close>

record PodSetTopologyRequest =
  ptr_Required :: "string option"
  ptr_Preferred :: "string option"
  ptr_Unconstrained :: "bool option"
  ptr_PodIndexLabel :: "string option"
  ptr_SubGroupIndexLabel :: "string option"
  ptr_SubGroupCount :: "int option"
  ptr_PodSetGroupName :: "string option"

record PodSet =
  ps_Name :: string
  ps_Template :: PodTemplate
  ps_Count :: int
  ps_MinCount :: "int option"
  ps_TopologyRequest :: "PodSetTopologyRequest option"

record PodSetInfo =
  psi_Count :: int
  psi_Labels :: strmap
  psi_Annotations :: strmap
  psi_NodeSelector :: strmap
  psi_Tolerations :: "Toleration list"

record kueue_env =
  ke_Render :: render_env
  ke_Webhook :: webhook_env
  ke_NewPodSetReference :: "string \<Rightarrow> string"
  ke_Merge :: "PodTemplate \<Rightarrow> PodSetInfo \<Rightarrow> go_err + PodTemplate"
  ke_RestorePodSpec :: "PodTemplate \<Rightarrow> PodSetInfo \<Rightarrow> PodTemplate \<times> bool"
  ke_BadPodSetsInfoLenError :: "nat \<Rightarrow> nat \<Rightarrow> go_err"
  ke_EncodeSpec :: "Spec \<Rightarrow> go_err + string"
  ke_ExperimentalPartialAdmission :: bool

section \<open>Topology requests (\<open>rtj_topology.go\<close>)\<close>

definition JobCompletionIndexLabel :: string where
  "JobCompletionIndexLabel = ''kubernetes.io/job-completion-index''"

definition JobSetJobIndexLabel :: string where
  "JobSetJobIndexLabel = ''jobset.sigs.k8s.io/job-index''"

definition topologyColocationGroup :: string where
  "topologyColocationGroup = ''rtj-topology-group''"

definition findReplicatedJob :: "Spec \<Rightarrow> string \<Rightarrow> ReplicatedJob option" where
  "findReplicatedJob spec name = find (\<lambda>rj. rj_Name rj = name) (ss_ReplicatedJobs spec)"

definition subgroups :: "ReplicatedJob option \<Rightarrow> PodSetTopologyRequest \<Rightarrow> PodSetTopologyRequest" where
  "subgroups rj req =
     (case rj of
        None \<Rightarrow> req
      | Some job \<Rightarrow>
          (let replicas = (case rj_Replicas job of Some n \<Rightarrow> n | None \<Rightarrow> 1) in
           if replicas > 0
           then req\<lparr> ptr_SubGroupIndexLabel := Some JobSetJobIndexLabel, ptr_SubGroupCount := Some replicas \<rparr>
           else req))"

definition buildTopologyRequest :: "TopologySpec \<Rightarrow> ReplicatedJob option \<Rightarrow> PodSetTopologyRequest" where
  "buildTopologyRequest topology rj =
     (let req = subgroups rj
            \<lparr> ptr_Required = None, ptr_Preferred = None, ptr_Unconstrained = None,
              ptr_PodIndexLabel = Some JobCompletionIndexLabel, ptr_SubGroupIndexLabel = None, ptr_SubGroupCount = None,
              ptr_PodSetGroupName = None \<rparr>
      in case topo_Mode topology of
           TopologyModeRequired \<Rightarrow> req\<lparr> ptr_Required := Some (topo_TopologyLevel topology) \<rparr>
         | TopologyModePreferred \<Rightarrow> req\<lparr> ptr_Preferred := Some (topo_TopologyLevel topology) \<rparr>
         | TopologyModeUnconstrained \<Rightarrow> req\<lparr> ptr_Unconstrained := Some True \<rparr>
         | _ \<Rightarrow> req)"

definition topology_request :: "TopologySpec \<Rightarrow> string \<Rightarrow> Spec \<Rightarrow> PodSet \<Rightarrow> PodSet" where
  "topology_request topology workerPodSetName spec ps =
     (if ps_Name ps \<noteq> workerPodSetName \<and> \<not> topo_LeaderWorkerColocation topology then ps
      else let req = buildTopologyRequest topology (findReplicatedJob spec (ps_Name ps))
           in ps\<lparr> ps_TopologyRequest :=
                 Some (if topo_LeaderWorkerColocation topology
                       then req\<lparr> ptr_PodSetGroupName := Some topologyColocationGroup \<rparr> else req) \<rparr>)"

definition applyTopologyRequests :: "PodSet list \<Rightarrow> TopologySpec option \<Rightarrow> string \<Rightarrow> Spec \<Rightarrow> PodSet list" where
  "applyTopologyRequests podSets topology workerPodSetName spec =
     (case topology of
        None \<Rightarrow> podSets
      | Some t \<Rightarrow>
          if topo_Mode t = TopologyModeDisabled then podSets
          else map (topology_request t workerPodSetName spec) podSets)"

section \<open>Pod sets (\<open>rtj_podsets.go\<close>)\<close>

definition resolveWorkerPodSetName :: "ResumableTrainingJob \<Rightarrow> Spec \<Rightarrow> string" where
  "resolveWorkerPodSetName job spec =
     (let name = EffectivePodSetName job in
      if name = '''' \<and> ss_ReplicatedJobs spec \<noteq> [] then rj_Name (hd (ss_ReplicatedJobs spec)) else name)"

definition podsCountPerReplica :: "ReplicatedJob \<Rightarrow> int" where
  "podsCountPerReplica rj =
     (let jobPodsCount = (case rj_Parallelism rj of Some p \<Rightarrow> p | None \<Rightarrow> 1);
          completions = (case rj_Completions rj of Some c \<Rightarrow> c | None \<Rightarrow> jobPodsCount)
      in if completions < jobPodsCount then completions else jobPodsCount)"

definition podsCount :: "ReplicatedJob \<Rightarrow> int" where
  "podsCount rj = wrap32 ((case rj_Replicas rj of Some n \<Rightarrow> n | None \<Rightarrow> 1) * podsCountPerReplica rj)"

definition podHasTargetContainer :: "PodTemplate \<Rightarrow> string list \<Rightarrow> bool" where
  "podHasTargetContainer pod targets \<longleftrightarrow>
     (if targets = [] then pod_Containers pod \<noteq> []
      else list_ex (\<lambda>t. list_ex (\<lambda>c. ct_Name c = t) (pod_Containers pod)) targets)"

definition isTargetContainer :: "string \<Rightarrow> string list \<Rightarrow> bool" where
  "isTargetContainer name targets \<longleftrightarrow> targets = [] \<or> list_ex (\<lambda>t. t = name) targets"

definition account_claim :: "string \<Rightarrow> DeviceClaimSpec \<Rightarrow> PodTemplate \<Rightarrow> PodTemplate" where
  "account_claim templateName claim pod =
     (if \<not> podHasTargetContainer pod (dc_Containers claim) then pod
      else pod\<lparr> pod_ResourceClaims := pod_ResourceClaims pod
               @ [\<lparr> prc_Name = dc_Name claim, prc_ResourceClaimTemplateName = Some templateName,
                    prc_ResourceClaimName = None \<rparr>],
             pod_Containers := map (\<lambda>c. if isTargetContainer (ct_Name c) (dc_Containers claim)
                                       then c\<lparr> ct_Claims := ct_Claims c @ [dc_Name claim] \<rparr> else c)
                                 (pod_Containers pod) \<rparr>)"

definition injectDRAIntoPodSets :: "ResumableTrainingJob \<Rightarrow> PodSet list \<Rightarrow> PodSet list" where
  "injectDRAIntoPodSets job podSets =
     (case sp_Devices (rtj_Spec job) of
        None \<Rightarrow> podSets
      | Some d \<Rightarrow>
          fold (\<lambda>claim. map (\<lambda>ps. ps\<lparr> ps_Template :=
                  account_claim (TemplateNameForClaim (rtj_Name job) (dc_Name claim)) claim (ps_Template ps) \<rparr>))
            (dev_Claims d) podSets)"

fun podsets_of :: "kueue_env \<Rightarrow> nat \<Rightarrow> ReplicatedJob list \<Rightarrow> go_err + PodSet list" where
  "podsets_of K i [] = Inr []"
| "podsets_of K i (rj # rjs) =
     (if rj_Name rj = '''' then Inl (''replicatedJobs['' @ itoa (int i) @ ''].name is required'')
      else case podsets_of K (Suc i) rjs of
             Inl err \<Rightarrow> Inl err
           | Inr pss \<Rightarrow>
               Inr (\<lparr> ps_Name = ke_NewPodSetReference K (rj_Name rj), ps_Template = rj_Template rj,
                      ps_Count = podsCount rj, ps_MinCount = None, ps_TopologyRequest = None \<rparr> # pss))"

text \<open>The override of the worker's count: the first pod set of that name.\<close>

fun scale_worker :: "kueue_env \<Rightarrow> ResumableTrainingJob \<Rightarrow> string \<Rightarrow> PodSet list \<Rightarrow> PodSet list" where
  "scale_worker K job workerName [] = []"
| "scale_worker K job workerName (ps # pss) =
     (if ps_Name ps = workerName
      then (let ps1 = ps\<lparr> ps_Count := EffectivePreferredCount job \<rparr>
            in (if ke_ExperimentalPartialAdmission K then ps1\<lparr> ps_MinCount := EffectiveMinCount job \<rparr> else ps1) # pss)
      else ps # scale_worker K job workerName pss)"

definition PodSetsFromRTJTemplate :: "kueue_env \<Rightarrow> ResumableTrainingJob option \<Rightarrow> go_err + PodSet list" where
  "PodSetsFromRTJTemplate K job0 =
     (case job0 of
        None \<Rightarrow> Inl ''resumable training job is nil''
      | Some job \<Rightarrow>
          (case ParseTemplate (ke_Render K) (tpl_Spec (rt_Template (sp_Runtime (rtj_Spec job)))) of
             Inl err \<Rightarrow> Inl err
           | Inr spec \<Rightarrow>
               (case podsets_of K 0 (ss_ReplicatedJobs spec) of
                  Inl err \<Rightarrow> Inl err
                | Inr podSets \<Rightarrow>
                    (let workerName = resolveWorkerPodSetName job spec;
                         podSets1 = (if sp_Parallelism (rtj_Spec job) \<noteq> None
                                     then scale_worker K job workerName podSets else podSets);
                         podSets2 = (if IsTopologyEnabled job
                                     then applyTopologyRequests podSets1 (sp_Topology (rtj_Spec job)) workerName spec
                                     else podSets1)
                     in Inr (if IsDevicesEnabled job then injectDRAIntoPodSets job podSets2 else podSets2)))))"

section \<open>The generic job (\<open>rtj_generic_job.go\<close>)\<close>

definition SyncKueueLabels :: "kueue_env \<Rightarrow> ResumableTrainingJob \<Rightarrow> ResumableTrainingJob" where
  "SyncKueueLabels K job = projectKueueLabels (ke_Webhook K) job"

definition IsSuspended :: "ResumableTrainingJob \<Rightarrow> bool" where
  "IsSuspended job = IsSuspendedForKueue job"

definition Suspend :: "kueue_env \<Rightarrow> ResumableTrainingJob \<Rightarrow> ResumableTrainingJob" where
  "Suspend K job = SyncKueueLabels K (job\<lparr> rtj_Spec := (rtj_Spec job)\<lparr> sp_Suspend := Some True \<rparr> \<rparr>)"

definition decodeTemplateSpec :: "kueue_env \<Rightarrow> ResumableTrainingJob \<Rightarrow> go_err + Spec" where
  "decodeTemplateSpec K job = ParseTemplate (ke_Render K) (tpl_Spec (rt_Template (sp_Runtime (rtj_Spec job))))"

definition with_template :: "string \<Rightarrow> ResumableTrainingJob \<Rightarrow> ResumableTrainingJob" where
  "with_template raw job =
     (let rt = sp_Runtime (rtj_Spec job) in
      job\<lparr> rtj_Spec := (rtj_Spec job)\<lparr> sp_Runtime := rt\<lparr> rt_Template := (rt_Template rt)\<lparr> tpl_Spec := raw \<rparr> \<rparr> \<rparr> \<rparr>)"

definition encodeTemplateSpec :: "kueue_env \<Rightarrow> Spec \<Rightarrow> ResumableTrainingJob \<Rightarrow> go_err option \<times> ResumableTrainingJob" where
  "encodeTemplateSpec K spec job =
     (case ke_EncodeSpec K spec of Inl err \<Rightarrow> (Some err, job) | Inr raw \<Rightarrow> (None, with_template raw job))"

text \<open>The loop of \<open>RunWithPodSetsInfo\<close>: the templates merged, and the admitted counts in a Go map.\<close>

fun merge_infos ::
  "kueue_env \<Rightarrow> ReplicatedJob list \<Rightarrow> PodSetInfo list \<Rightarrow> (string \<times> int) list \<Rightarrow> go_err + ReplicatedJob list \<times> (string \<times> int) list"
where
  "merge_infos K (rj # rjs) (info # infos) counts =
     (case ke_Merge K (rj_Template rj) info of
        Inl err \<Rightarrow> Inl err
      | Inr t \<Rightarrow>
          (case merge_infos K rjs infos (AList.update (rj_Name rj) (psi_Count info) counts) of
             Inl err \<Rightarrow> Inl err
           | Inr (rjs', counts') \<Rightarrow> Inr (rj\<lparr> rj_Template := t \<rparr> # rjs', counts')))"
| "merge_infos K rjs infos counts = Inr (rjs, counts)"

text \<open>\<open>json.Marshal\<close> of a map of counts: the keys sorted.\<close>

definition marshalCounts :: "(string \<times> int) list \<Rightarrow> string" where
  "marshalCounts counts =
     ''{'' @ Join (map (\<lambda>k. json_string k @ '':'' @ itoa (aget counts k 0)) (sort_Strings (map fst counts))) '','' @ ''}''"

definition AdmittedPodSetsAnnotation :: string where
  "AdmittedPodSetsAnnotation = ''training.checkpoint.example.io/admitted-pod-sets''"

definition RunWithPodSetsInfo ::
  "kueue_env \<Rightarrow> PodSetInfo list \<Rightarrow> ResumableTrainingJob \<Rightarrow> go_err option \<times> ResumableTrainingJob" where
  "RunWithPodSetsInfo K podSetsInfo job =
     (case decodeTemplateSpec K job of
        Inl err \<Rightarrow> (Some err, job)
      | Inr spec \<Rightarrow>
          if length podSetsInfo \<noteq> length (ss_ReplicatedJobs spec)
          then (Some (ke_BadPodSetsInfoLenError K (length (ss_ReplicatedJobs spec)) (length podSetsInfo)), job)
          else (case merge_infos K (ss_ReplicatedJobs spec) podSetsInfo [] of
                  Inl err \<Rightarrow> (Some err, job)
                | Inr (rjs, admittedCounts) \<Rightarrow>
                    encodeTemplateSpec K (spec\<lparr> ss_ReplicatedJobs := rjs \<rparr>)
                      (SyncKueueLabels K
                        (job\<lparr> rtj_Annotations := (rtj_Annotations job)(AdmittedPodSetsAnnotation \<mapsto> marshalCounts admittedCounts),
                              rtj_Spec := (rtj_Spec job)\<lparr> sp_Suspend := Some False \<rparr> \<rparr>))))"

definition restore_jobs :: "kueue_env \<Rightarrow> ReplicatedJob list \<Rightarrow> PodSetInfo list \<Rightarrow> (ReplicatedJob \<times> bool) list" where
  "restore_jobs K rjs infos =
     map (\<lambda>(rj, info). case ke_RestorePodSpec K (rj_Template rj) info of (t, ch) \<Rightarrow> (rj\<lparr> rj_Template := t \<rparr>, ch))
       (zip rjs infos)"

definition RestorePodSetsInfo ::
  "kueue_env \<Rightarrow> PodSetInfo list \<Rightarrow> ResumableTrainingJob \<Rightarrow> bool \<times> ResumableTrainingJob" where
  "RestorePodSetsInfo K podSetsInfo job =
     (if podSetsInfo = [] then (False, job)
      else case decodeTemplateSpec K job of
        Inl _ \<Rightarrow> (False, job)
      | Inr spec \<Rightarrow>
          if length podSetsInfo \<noteq> length (ss_ReplicatedJobs spec) then (False, job)
          else (let res = restore_jobs K (ss_ReplicatedJobs spec) podSetsInfo in
                if \<not> list_ex snd res then (False, job)
                else (case encodeTemplateSpec K (spec\<lparr> ss_ReplicatedJobs := map fst res \<rparr>) job of
                        (Some _, job1) \<Rightarrow> (False, job1)
                      | (None, job1) \<Rightarrow> (True, job1))))"

definition Finished :: "ResumableTrainingJob \<Rightarrow> string \<times> bool \<times> bool" where
  "Finished job =
     (case st_Phase (rtj_Status job) of
        PhaseSucceeded \<Rightarrow> (st_Message (rtj_Status job), True, True)
      | PhaseFailed \<Rightarrow> (st_Message (rtj_Status job), False, True)
      | _ \<Rightarrow> ('''', False, False))"

definition PodSets :: "kueue_env \<Rightarrow> ResumableTrainingJob \<Rightarrow> go_err + PodSet list" where
  "PodSets K job = PodSetsFromRTJTemplate K (Some job)"

definition IsActive :: "ResumableTrainingJob \<Rightarrow> bool" where
  "IsActive job \<longleftrightarrow>
     st_Phase (rtj_Status job) \<in> {PhaseStarting, PhaseRunning, PhaseYieldRequested, PhaseDraining, PhaseRestoring}"

definition PodsReady_job :: "ResumableTrainingJob \<Rightarrow> bool" where
  "PodsReady_job job \<longleftrightarrow> st_Phase (rtj_Status job) = PhaseRunning \<or> st_Phase (rtj_Status job) = PhaseSucceeded"

definition PriorityClass :: "ResumableTrainingJob \<Rightarrow> string" where
  "PriorityClass job = sp_WorkloadPriorityClassName (rtj_Spec job)"

section \<open>The view of an admission (\<open>admission_view.go\<close>)\<close>

record PodSetAdmission =
  pad_Name :: string
  pad_Count :: int
  pad_Flavors :: "(string \<times> string) list"
  pad_NodeSelector :: strmap
  pad_Tolerations :: "Toleration list"
  pad_TopologyAssignment :: string

record AdmissionView =
  av_PodSets :: "PodSetAdmission list"
  av_ClusterQueueName :: string

definition TotalAdmittedCount :: "AdmissionView option \<Rightarrow> int" where
  "TotalAdmittedCount v =
     (case v of None \<Rightarrow> 0 | Some w \<Rightarrow> fold (\<lambda>ps total. wrap32 (total + pad_Count ps)) (av_PodSets w) 0)"

text \<open>\<open>dedupSorted\<close> appends to a prefix of the slice it reads: \<open>out\<close> is the first \<open>k\<close> cells of \<open>s\<close>, and appending
  writes cell \<open>k\<close> of the shared array.\<close>

function dedup_loop :: "string list \<Rightarrow> nat \<Rightarrow> nat \<Rightarrow> string list" where
  "dedup_loop s i k =
     (if i < length s
      then if s ! i \<noteq> s ! (i - 1) then dedup_loop (s[k := s ! i]) (Suc i) (Suc k) else dedup_loop s (Suc i) k
      else take k s)"
  by pat_completeness auto

termination
  by (relation "measure (\<lambda>(s, i, k). length s - i)") auto

declare dedup_loop.simps [simp del]

definition dedupSorted :: "string list \<Rightarrow> string list" where
  "dedupSorted s = (if length s \<le> 1 then s else dedup_loop s 1 1)"

definition FlavorsByPodSet :: "AdmissionView option \<Rightarrow> (string \<times> string) list option" where
  "FlavorsByPodSet v =
     (case v of
        None \<Rightarrow> None
      | Some w \<Rightarrow>
          if av_PodSets w = [] then None
          else Some (fold (\<lambda>ps res.
                 if pad_Flavors ps = [] then res
                 else AList.update (pad_Name ps) (Join (dedupSorted (sort_Strings (map snd (pad_Flavors ps)))) '','') res)
               (av_PodSets w) []))"

definition PodSetByName :: "AdmissionView option \<Rightarrow> string \<Rightarrow> PodSetAdmission option" where
  "PodSetByName v name = (case v of None \<Rightarrow> None | Some w \<Rightarrow> find (\<lambda>ps. pad_Name ps = name) (av_PodSets w))"

definition AdmissionView_IsEmpty :: "AdmissionView option \<Rightarrow> bool" where
  "AdmissionView_IsEmpty v \<longleftrightarrow> (case v of None \<Rightarrow> True | Some w \<Rightarrow> av_PodSets w = [])"

definition FromPodSetsInfo :: "string list \<Rightarrow> PodSetInfo list \<Rightarrow> AdmissionView option" where
  "FromPodSetsInfo podSetNames infos =
     (if podSetNames = [] \<or> length podSetNames \<noteq> length infos then None
      else Some \<lparr> av_PodSets =
                    map (\<lambda>(n, info). \<lparr> pad_Name = n, pad_Count = psi_Count info, pad_Flavors = [],
                           pad_NodeSelector = psi_NodeSelector info, pad_Tolerations = psi_Tolerations info,
                           pad_TopologyAssignment = '''' \<rparr>) (zip podSetNames infos),
                  av_ClusterQueueName = '''' \<rparr>)"

definition FromWorkloadAdmission :: "Admission option \<Rightarrow> AdmissionView option" where
  "FromWorkloadAdmission admission =
     (case admission of
        None \<Rightarrow> None
      | Some adm \<Rightarrow>
          if adm_PodSetAssignments adm = [] then None
          else Some \<lparr> av_PodSets =
                        map (\<lambda>psa. \<lparr> pad_Name = psa_Name psa,
                               pad_Count = (case psa_Count psa of Some n \<Rightarrow> n | None \<Rightarrow> 0),
                               pad_Flavors = psa_Flavors psa, pad_NodeSelector = Map.empty, pad_Tolerations = [],
                               pad_TopologyAssignment = '''' \<rparr>) (adm_PodSetAssignments adm),
                      av_ClusterQueueName = adm_ClusterQueue adm \<rparr>)"

section \<open>Writing into the slice that is read\<close>

text \<open>The cells the loop still reads, from \<open>i - 1\<close> on, are never overwritten with another value.\<close>

lemma dedup_loop_correct:
  assumes "1 \<le> k" and "k \<le> i" and "i \<le> length s"
  shows "dedup_loop s i k = take k s @ drop 1 (remdups_adj (drop (i - 1) s))"
  using assms
proof (induction s i k rule: dedup_loop.induct)
  case (1 s i k)
  show ?case
  proof (cases "i < length s")
    case False
    then have "i = length s" "i - 1 < length s" "Suc (i - 1) = i" using 1(3-5) by simp_all
    then have "drop (i - 1) s = [s ! (i - 1)]" using Cons_nth_drop_Suc [of "i - 1" s] by simp
    with False show ?thesis by (subst dedup_loop.simps) simp
  next
    case True
    then have d: "drop (i - 1) s = s ! (i - 1) # s ! i # drop (Suc i) s"
      using 1(3-5) by (metis Cons_nth_drop_Suc Suc_diff_1 Suc_le_lessD less_imp_diff_less One_nat_def le_trans)
    have di: "drop i s = s ! i # drop (Suc i) s" using True by (rule Cons_nth_drop_Suc [symmetric])
    show ?thesis
    proof (cases "s ! i = s ! (i - 1)")
      case eq: True
      have "dedup_loop s i k = dedup_loop s (Suc i) k" using True eq by (subst dedup_loop.simps) simp
      also have "\<dots> = take k s @ drop 1 (remdups_adj (drop i s))" using 1(2) 1(3-5) True eq by simp
      finally show ?thesis unfolding d di using eq by simp
    next
      case neq: False
      let ?s = "s[k := s ! i]"
      have "dedup_loop s i k = dedup_loop ?s (Suc i) (Suc k)" using True neq by (subst dedup_loop.simps) simp
      also have "\<dots> = take (Suc k) ?s @ drop 1 (remdups_adj (drop i ?s))" using 1(1) 1(3-5) True neq by simp
      also have "take (Suc k) ?s = take k s @ [s ! i]" using 1(3-5) True by (simp add: take_Suc_conv_app_nth)
      also have "drop i ?s = drop i s"
      proof (cases "k = i")
        case True then show ?thesis by simp
      next
        case False then show ?thesis using 1(4) by (simp add: drop_update_cancel)
      qed
      finally show ?thesis unfolding d di using neq remdups_adj_Cons_alt [of "s ! i" "drop (Suc i) s"]
        by (simp add: drop_Suc)
    qed
  qed
qed

lemma dedupSorted_remdups: "dedupSorted s = remdups_adj s"
proof (cases "length s \<le> 1")
  case True
  then show ?thesis by (cases s) (auto simp: dedupSorted_def)
next
  case False
  then obtain x y xs where s: "s = x # y # xs" by (cases s rule: remdups_adj.cases) auto
  have "dedup_loop s 1 1 = take 1 s @ drop 1 (remdups_adj s)" using dedup_loop_correct [of 1 1 s] s by simp
  also have "\<dots> = remdups_adj s" using remdups_adj_Cons_alt [of x "y # xs"] by (simp add: s drop_Suc)
  finally show ?thesis using False by (simp add: dedupSorted_def)
qed

section \<open>The pod sets Kueue accounts for\<close>

definition base_podset :: "kueue_env \<Rightarrow> ReplicatedJob \<Rightarrow> PodSet" where
  "base_podset K rj =
     \<lparr> ps_Name = ke_NewPodSetReference K (rj_Name rj), ps_Template = rj_Template rj,
       ps_Count = podsCount rj, ps_MinCount = None, ps_TopologyRequest = None \<rparr>"

lemma podsets_of_Inr:
  "podsets_of K i rjs = Inr pss \<longleftrightarrow> (\<forall>rj \<in> set rjs. rj_Name rj \<noteq> '''') \<and> pss = map (base_podset K) rjs"
proof (induction rjs arbitrary: i pss)
  case (Cons rj rjs)
  show ?case
  proof (cases "podsets_of K (Suc i) rjs")
    case (Inl err)
    then show ?thesis using Cons.IH [of "Suc i" "map (base_podset K) rjs"] by auto
  next
    case (Inr pss')
    then show ?thesis using Cons.IH [of "Suc i" pss'] by (auto simp: base_podset_def)
  qed
qed auto

definition scaled :: "kueue_env \<Rightarrow> ResumableTrainingJob \<Rightarrow> string \<Rightarrow> PodSet \<Rightarrow> PodSet" where
  "scaled K job workerName ps =
     (if ps_Name ps = workerName
      then ps\<lparr> ps_Count := EffectivePreferredCount job,
               ps_MinCount := if ke_ExperimentalPartialAdmission K then EffectiveMinCount job else ps_MinCount ps \<rparr>
      else ps)"

lemma scale_worker_map:
  fixes pss :: "PodSet list"
  shows "distinct (map ps_Name pss) \<Longrightarrow> scale_worker K job w pss = map (scaled K job w) pss"
proof (induction pss)
  case (Cons ps pss)
  show ?case
  proof (cases "ps_Name ps = w")
    case True
    then have "w \<notin> ps_Name ` set pss" using Cons.prems by simp
    then have "\<forall>x \<in> set pss. ps_Name x \<noteq> w" by blast
    then have "map (scaled K job w) pss = pss" by (intro map_idI) (simp add: scaled_def)
    with True show ?thesis by (simp add: Let_def) (simp add: scaled_def)
  next
    case False
    with Cons show ?thesis by (simp add: scaled_def)
  qed
qed simp

definition accounted :: "ResumableTrainingJob \<Rightarrow> PodTemplate \<Rightarrow> PodTemplate" where
  "accounted job =
     (case sp_Devices (rtj_Spec job) of
        None \<Rightarrow> id
      | Some d \<Rightarrow> fold (\<lambda>claim. account_claim (TemplateNameForClaim (rtj_Name job) (dc_Name claim)) claim) (dev_Claims d))"

lemma fold_map_template:
  fixes pss :: "PodSet list"
  shows "fold (\<lambda>x. map (\<lambda>ps. ps\<lparr> ps_Template := f x (ps_Template ps) \<rparr>)) xs pss
     = map (\<lambda>ps. ps\<lparr> ps_Template := fold f xs (ps_Template ps) \<rparr>) pss"
  by (induction xs arbitrary: pss) (simp_all add: comp_def)

lemma injectDRA_map:
  "injectDRAIntoPodSets job pss = map (\<lambda>ps. ps\<lparr> ps_Template := accounted job (ps_Template ps) \<rparr>) pss"
  using fold_map_template [of "\<lambda>claim. account_claim (TemplateNameForClaim (rtj_Name job) (dc_Name claim)) claim"]
  by (simp add: injectDRAIntoPodSets_def accounted_def split: option.split)

definition topology_requested :: "ResumableTrainingJob \<Rightarrow> Spec \<Rightarrow> PodSet \<Rightarrow> PodSet" where
  "topology_requested job spec ps =
     (case sp_Topology (rtj_Spec job) of
        None \<Rightarrow> ps
      | Some t \<Rightarrow> if topo_Mode t = TopologyModeDisabled then ps
                  else topology_request t (resolveWorkerPodSetName job spec) spec ps)"

definition podset_of :: "kueue_env \<Rightarrow> ResumableTrainingJob \<Rightarrow> Spec \<Rightarrow> ReplicatedJob \<Rightarrow> PodSet" where
  "podset_of K job spec rj =
     (let w = resolveWorkerPodSetName job spec;
          ps1 = (if sp_Parallelism (rtj_Spec job) \<noteq> None then scaled K job w (base_podset K rj) else base_podset K rj);
          ps2 = topology_requested job spec ps1
      in if IsDevicesEnabled job then ps2\<lparr> ps_Template := accounted job (ps_Template ps2) \<rparr> else ps2)"

text \<open>The names Kueue gives the pod sets are those of the replicated jobs.\<close>

definition plain_names :: "kueue_env \<Rightarrow> Spec \<Rightarrow> bool" where
  "plain_names K spec \<longleftrightarrow>
     distinct (map rj_Name (ss_ReplicatedJobs spec))
     \<and> (\<forall>rj \<in> set (ss_ReplicatedJobs spec). rj_Name rj \<noteq> '''' \<and> ke_NewPodSetReference K (rj_Name rj) = rj_Name rj)"

lemma PodSets_map:
  assumes "decodeTemplateSpec K job = Inr spec" and "plain_names K spec"
  shows "PodSets K job = Inr (map (podset_of K job spec) (ss_ReplicatedJobs spec))"
proof -
  let ?rjs = "ss_ReplicatedJobs spec"
  let ?w = "resolveWorkerPodSetName job spec"
  have n: "map ps_Name (map (base_podset K) ?rjs) = map rj_Name ?rjs"
    using assms(2) by (simp add: plain_names_def base_podset_def)
  have s: "scale_worker K job ?w (map (base_podset K) ?rjs) = map (scaled K job ?w) (map (base_podset K) ?rjs)"
    using assms(2) by (intro scale_worker_map, unfold n) (simp add: plain_names_def)
  have p: "podsets_of K 0 ?rjs = Inr (map (base_podset K) ?rjs)"
    using assms(2) by (simp add: podsets_of_Inr plain_names_def)
  have t: "(if IsTopologyEnabled job then applyTopologyRequests pss (sp_Topology (rtj_Spec job)) ?w spec else pss)
      = map (topology_requested job spec) pss" for pss
    by (cases "sp_Topology (rtj_Spec job)")
      (auto simp: applyTopologyRequests_def topology_requested_def IsTopologyEnabled_def map_idI)
  show ?thesis
    using assms(1) unfolding PodSets_def PodSetsFromRTJTemplate_def decodeTemplateSpec_def
    by (simp add: Let_def p s t injectDRA_map podset_of_def)
qed

section \<open>What Kueue admits reaches the controller\<close>

lemma update_fresh: "k \<notin> fst ` set al \<Longrightarrow> AList.update k v al = al @ [(k, v)]"
  by (induction al) auto

lemma merge_infos_counts:
  assumes "merge_infos K rjs infos counts = Inr (rjs', counts')" and "length rjs = length infos"
    and "distinct (map rj_Name rjs)" and "set (map rj_Name rjs) \<inter> fst ` set counts = {}"
  shows "counts' = counts @ zip (map rj_Name rjs) (map psi_Count infos)"
  using assms
proof (induction K rjs infos counts arbitrary: rjs' rule: merge_infos.induct)
  case (1 K rj rjs info infos counts)
  have u: "AList.update (rj_Name rj) (psi_Count info) counts = counts @ [(rj_Name rj, psi_Count info)]"
    using 1(5) by (intro update_fresh) auto
  from 1(2) obtain t rjs1 where "ke_Merge K (rj_Template rj) info = Inr t"
    and "merge_infos K rjs infos (AList.update (rj_Name rj) (psi_Count info) counts) = Inr (rjs1, counts')"
    by (auto split: sum.splits)
  moreover have "set (map rj_Name rjs) \<inter> fst ` set (counts @ [(rj_Name rj, psi_Count info)]) = {}"
    using 1(4,5) by auto
  ultimately show ?case using 1(1) 1(3,4) by (simp add: u)
qed auto

text \<open>\<open>encoding/json\<close> gives back what it has written: the same entries, in some order.\<close>

definition decodes_counts :: "ctl_env \<Rightarrow> (string \<times> int) list \<Rightarrow> bool" where
  "decodes_counts E cs \<longleftrightarrow> (\<exists>cs'. ce_DecodeCounts E (marshalCounts cs) = Inr (Some cs') \<and> mset cs' = mset cs)"

lemma fold_wrap32: "fold (\<lambda>kc total. wrap32 (total + snd kc)) cs (wrap32 t) = wrap32 (t + (\<Sum>kc\<leftarrow>cs. snd kc))"
proof (induction cs arbitrary: t)
  case (Cons kc cs)
  have "wrap32 (wrap32 t + snd kc) = wrap32 (t + snd kc)" by (simp add: wrap32_def mod_simps algebra_simps)
  then show ?case by (simp add: Cons.IH algebra_simps)
qed simp

lemma totalAdmittedCount_sum: "totalAdmittedCount cs = wrap32 (\<Sum>kc\<leftarrow>cs. snd kc)"
  using fold_wrap32 [of cs 0] by (simp add: totalAdmittedCount_def wrap32_def)

lemma run_outcome:
  assumes "RunWithPodSetsInfo K infos job = (None, job1)"
  obtains spec rjs counts raw where "decodeTemplateSpec K job = Inr spec"
    and "length infos = length (ss_ReplicatedJobs spec)" and "merge_infos K (ss_ReplicatedJobs spec) infos [] = Inr (rjs, counts)"
    and "ke_EncodeSpec K (spec\<lparr> ss_ReplicatedJobs := rjs \<rparr>) = Inr raw"
    and "job1 = with_template raw (SyncKueueLabels K
          (job\<lparr> rtj_Annotations := (rtj_Annotations job)(AdmittedPodSetsAnnotation \<mapsto> marshalCounts counts),
                rtj_Spec := (rtj_Spec job)\<lparr> sp_Suspend := Some False \<rparr> \<rparr>))"
  using assms by (auto simp: RunWithPodSetsInfo_def encodeTemplateSpec_def split: sum.splits if_splits prod.splits)

lemma run_annotation:
  "rtj_Annotations (with_template raw (SyncKueueLabels K j)) = rtj_Annotations j"
  "sp_Suspend (rtj_Spec (with_template raw (SyncKueueLabels K j))) = sp_Suspend (rtj_Spec j)"
  by (simp_all add: with_template_def SyncKueueLabels_def projectKueueLabels_def Let_def)

lemma marshalCounts_nonempty [simp]: "marshalCounts cs \<noteq> ''''"
  by (simp add: marshalCounts_def)

lemma run_counts:
  assumes "RunWithPodSetsInfo K infos job = (None, job1)" and "decodeTemplateSpec K job = Inr spec"
    and "distinct (map rj_Name (ss_ReplicatedJobs spec))" and "decodes_counts E (zip (map rj_Name (ss_ReplicatedJobs spec)) (map psi_Count infos))"
  obtains cs where "parseAdmittedCounts E job1 = Some cs"
    and "mset cs = mset (zip (map rj_Name (ss_ReplicatedJobs spec)) (map psi_Count infos))"
    and "sp_Suspend (rtj_Spec job1) = Some False"
proof -
  obtain spec' rjs counts raw where r: "decodeTemplateSpec K job = Inr spec'" "length infos = length (ss_ReplicatedJobs spec')"
      "merge_infos K (ss_ReplicatedJobs spec') infos [] = Inr (rjs, counts)"
      "job1 = with_template raw (SyncKueueLabels K
          (job\<lparr> rtj_Annotations := (rtj_Annotations job)(AdmittedPodSetsAnnotation \<mapsto> marshalCounts counts),
                rtj_Spec := (rtj_Spec job)\<lparr> sp_Suspend := Some False \<rparr> \<rparr>))"
    using assms(1) by (rule run_outcome)
  have spec: "spec' = spec" using r(1) assms(2) by simp
  have c: "counts = zip (map rj_Name (ss_ReplicatedJobs spec)) (map psi_Count infos)"
    using merge_infos_counts [OF r(3)] r(2) assms(3) by (simp add: spec)
  obtain cs where cs: "ce_DecodeCounts E (marshalCounts counts) = Inr (Some cs)" "mset cs = mset counts"
    using assms(4) by (auto simp: decodes_counts_def c)
  have "rtj_Annotations job1 AdmittedPodSetsAnnotation = Some (marshalCounts counts)" by (simp add: r(4) run_annotation)
  then have "parseAdmittedCounts E job1 = Some cs"
    using cs(1) by (simp add: parseAdmittedCounts_def AdmittedPodSetsAnnotation_def)
  moreover have "sp_Suspend (rtj_Spec job1) = Some False" by (simp add: r(4) run_annotation)
  ultimately show thesis using that cs(2) c by blast
qed

text \<open>
  C11: An admission reaches the controller.  When Kueue starts a job with the infos of its pod sets, the job is
  no longer suspended, and the controller that reads it finds exactly the admitted pod count of every replicated
  job; the world size it launches or resumes with is the number of admitted pods.
\<close>

theorem admission_reaches_controller:
  assumes "RunWithPodSetsInfo K infos job = (None, job1)" and "decodeTemplateSpec K job = Inr spec"
    and "distinct (map rj_Name (ss_ReplicatedJobs spec))" and "decodes_counts E (zip (map rj_Name (ss_ReplicatedJobs spec)) (map psi_Count infos))"
    and "0 < (\<Sum>i\<leftarrow>infos. psi_Count i)" and "is_int32 (\<Sum>i\<leftarrow>infos. psi_Count i)"
  shows "\<not> IsSuspendedForKueue job1
     \<and> (\<exists>cs. parseAdmittedCounts E job1 = Some cs
          \<and> mset cs = mset (zip (map rj_Name (ss_ReplicatedJobs spec)) (map psi_Count infos)))
     \<and> admittedWorldSize E job1 = (\<Sum>i\<leftarrow>infos. psi_Count i)"
proof -
  obtain cs where cs: "parseAdmittedCounts E job1 = Some cs"
      "mset cs = mset (zip (map rj_Name (ss_ReplicatedJobs spec)) (map psi_Count infos))"
      "sp_Suspend (rtj_Spec job1) = Some False"
    using run_counts [OF assms(1-4)] by blast
  have "length infos = length (ss_ReplicatedJobs spec)" using run_outcome [OF assms(1)] assms(2) by (metis sum.inject(2))
  then have "map snd (zip (map rj_Name (ss_ReplicatedJobs spec)) (map psi_Count infos)) = map psi_Count infos" by simp
  moreover have "sum_list (map snd cs) = sum_list (map snd (zip (map rj_Name (ss_ReplicatedJobs spec)) (map psi_Count infos)))"
    using cs(2) by (metis mset_map sum_mset_sum_list)
  ultimately have "(\<Sum>kc\<leftarrow>cs. snd kc) = (\<Sum>i\<leftarrow>infos. psi_Count i)" by simp
  then have "admittedWorldSize E job1 = (\<Sum>i\<leftarrow>infos. psi_Count i)"
    using assms(5,6) cs(1) by (simp add: admittedWorldSize_def totalAdmittedCount_sum)
  then show ?thesis using cs by (auto simp: IsSuspendedForKueue_def)
qed

text \<open>A Kueue that writes the node selector of an info into the template, for the witnesses: two versions of a
  one-worker template are all it can encode.\<close>

definition ex_info :: "int \<Rightarrow> strmap \<Rightarrow> PodSetInfo" where
  "ex_info n sel = \<lparr> psi_Count = n, psi_Labels = Map.empty, psi_Annotations = Map.empty, psi_NodeSelector = sel, psi_Tolerations = [] \<rparr>"

definition ex_placed :: Spec where
  "ex_placed = \<lparr> ss_ReplicatedJobs = [ex_worker\<lparr> rj_Template := ex_pod\<lparr> pod_NodeSelector := [''zone'' \<mapsto> ''z1''] \<rparr> \<rparr>] \<rparr>"

definition ex_unplaced :: Spec where
  "ex_unplaced = \<lparr> ss_ReplicatedJobs = [ex_worker] \<rparr>"

definition ex_kueue :: kueue_env where
  "ex_kueue = \<lparr> ke_Render = ex_render_env\<lparr> re_Decode := (\<lambda>raw. Inr (if raw = ''placed'' then ex_placed else ex_unplaced)) \<rparr>,
     ke_Webhook = ex_webhook, ke_NewPodSetReference = (\<lambda>n. n),
     ke_Merge = (\<lambda>t i. Inr (t\<lparr> pod_NodeSelector := psi_NodeSelector i \<rparr>)),
     ke_RestorePodSpec = (\<lambda>t i. (t\<lparr> pod_NodeSelector := psi_NodeSelector i \<rparr>, pod_NodeSelector t \<noteq> psi_NodeSelector i)),
     ke_BadPodSetsInfoLenError = (\<lambda>want got. ''bad length''),
     ke_EncodeSpec = (\<lambda>s. if s = ex_placed then Inr ''placed'' else if s = ex_unplaced then Inr ''{}'' else Inl ''unknown''),
     ke_ExperimentalPartialAdmission = True \<rparr>"

lemma ex_specs_differ [simp]: "ex_unplaced \<noteq> ex_placed"
  using fun_upd_same [of Map.empty "''zone''" "Some ''z1''"]
  by (auto simp: ex_unplaced_def ex_placed_def ex_worker_def ex_pod_def fun_eq_iff)

lemma ex_decode: "decodeTemplateSpec ex_kueue ex_valid = Inr ex_unplaced"
  by (simp add: decodeTemplateSpec_def ParseTemplate_def ex_kueue_def ex_valid_def ex_unplaced_def)

lemma ex_merged: "ex_unplaced\<lparr> ss_ReplicatedJobs := [ex_worker\<lparr> rj_Template := ex_pod\<lparr> pod_NodeSelector := [''zone'' \<mapsto> ''z1''] \<rparr> \<rparr>] \<rparr> = ex_placed"
  by (simp add: ex_unplaced_def ex_placed_def)

definition ex_started :: ResumableTrainingJob where
  "ex_started = snd (RunWithPodSetsInfo ex_kueue [ex_info 8 [''zone'' \<mapsto> ''z1'']] ex_valid)"

lemma ex_run: "RunWithPodSetsInfo ex_kueue [ex_info 8 [''zone'' \<mapsto> ''z1'']] ex_valid = (None, ex_started)"
proof -
  have "merge_infos ex_kueue (ss_ReplicatedJobs ex_unplaced) [ex_info 8 [''zone'' \<mapsto> ''z1'']] []
      = Inr ([ex_worker\<lparr> rj_Template := ex_pod\<lparr> pod_NodeSelector := [''zone'' \<mapsto> ''z1''] \<rparr> \<rparr>], [(''worker'', 8)])"
    by (simp add: ex_unplaced_def ex_kueue_def ex_info_def ex_worker_def)
  moreover have "ke_EncodeSpec ex_kueue ex_placed = Inr ''placed''" by (simp add: ex_kueue_def)
  moreover have "length (ss_ReplicatedJobs ex_unplaced) = 1" by (simp add: ex_unplaced_def)
  ultimately have "fst (RunWithPodSetsInfo ex_kueue [ex_info 8 [''zone'' \<mapsto> ''z1'']] ex_valid) = None"
    by (simp add: RunWithPodSetsInfo_def ex_decode encodeTemplateSpec_def ex_merged)
  then show ?thesis by (simp add: ex_started_def prod_eq_iff)
qed

theorem admission_reaches_controller_witness:
  "\<not> IsSuspendedForKueue ex_started \<and> admittedWorldSize ex_ctl ex_started = 8"
proof -
  have d: "distinct (map rj_Name (ss_ReplicatedJobs ex_unplaced))" by (simp add: ex_unplaced_def)
  have c: "decodes_counts ex_ctl (zip (map rj_Name (ss_ReplicatedJobs ex_unplaced)) (map psi_Count [ex_info 8 [''zone'' \<mapsto> ''z1'']]))"
    by (simp add: decodes_counts_def ex_ctl_def ex_unplaced_def ex_worker_def ex_info_def)
  have n: "(\<Sum>i\<leftarrow>[ex_info 8 [''zone'' \<mapsto> ''z1'']]. psi_Count i) = 8" by (simp add: ex_info_def)
  have "is_int32 8" by (simp add: is_int32_def)
  then show ?thesis using admission_reaches_controller [OF ex_run ex_decode d c] unfolding n by simp
qed

section \<open>Suspending undoes an admission\<close>

text \<open>What the libraries promise: a template that was encoded decodes to the same template, and restoring a
  template from the info of the original undoes the merge and tells whether it changed anything.\<close>

definition codec :: "kueue_env \<Rightarrow> bool" where
  "codec K \<longleftrightarrow> (\<forall>s raw. ke_EncodeSpec K s = Inr raw \<longrightarrow> raw \<noteq> '''' \<and> re_Decode (ke_Render K) raw = Inr s)"

definition restores :: "kueue_env \<Rightarrow> (PodTemplate \<Rightarrow> PodSetInfo) \<Rightarrow> bool" where
  "restores K info \<longleftrightarrow>
     (\<forall>t i t'. ke_Merge K t i = Inr t' \<longrightarrow> fst (ke_RestorePodSpec K t' (info t)) = t)
     \<and> (\<forall>t i. \<not> snd (ke_RestorePodSpec K t i) \<longrightarrow> fst (ke_RestorePodSpec K t i) = t)"

lemma decode_encoded:
  assumes "codec K" and "ke_EncodeSpec K spec = Inr raw" and "ss_ReplicatedJobs spec \<noteq> []"
  shows "decodeTemplateSpec K (with_template raw job) = Inr spec"
  using assms by (simp add: codec_def decodeTemplateSpec_def ParseTemplate_def with_template_def Let_def)

lemma merge_infos_jobs:
  assumes "merge_infos K rjs infos counts = Inr (rjs', counts')" and "length rjs = length infos" and "restores K info"
  shows "length rjs' = length rjs \<and> map fst (restore_jobs K rjs' (map (info o rj_Template) rjs)) = rjs"
  using assms(1,2)
proof (induction rjs arbitrary: infos counts rjs')
  case (Cons rj rjs)
  then obtain i infos' where infos: "infos = i # infos'" by (cases infos) auto
  with Cons.prems(1) obtain t rjs1 where t: "ke_Merge K (rj_Template rj) i = Inr t"
    and m: "merge_infos K rjs infos' (AList.update (rj_Name rj) (psi_Count i) counts) = Inr (rjs1, counts')"
    and r: "rjs' = rj\<lparr> rj_Template := t \<rparr> # rjs1"
    by (auto split: sum.splits)
  have "fst (ke_RestorePodSpec K t (info (rj_Template rj))) = rj_Template rj" using assms(3) t by (simp add: restores_def)
  then show ?case using Cons.IH [OF m] Cons.prems(2) by (simp add: r infos restore_jobs_def split_beta)
qed (auto simp: restore_jobs_def)

lemma restore_unchanged:
  assumes "restores K info" and "length rjs = length infos" and "\<not> list_ex snd (restore_jobs K rjs infos)"
  shows "map fst (restore_jobs K rjs infos) = rjs"
  using assms(2,3)
proof (induction rjs infos rule: list_induct2)
  case (Cons rj rjs i infos)
  then show ?case using assms(1) by (auto simp: restore_jobs_def restores_def split_beta)
qed (simp add: restore_jobs_def)



section \<open>The devices Kueue accounts for are those that run\<close>

definition fresh_claim :: "PodTemplate \<Rightarrow> string \<Rightarrow> bool" where
  "fresh_claim pod n \<longleftrightarrow> (\<forall>rc \<in> set (pod_ResourceClaims pod). prc_Name rc \<noteq> n) \<and> (\<forall>c \<in> set (pod_Containers pod). n \<notin> set (ct_Claims c))"

definition injection :: "ResumableTrainingJob \<Rightarrow> DeviceClaimSpec \<Rightarrow> DRAClaimInjection" where
  "injection job claim =
     \<lparr> dci_ClaimName = dc_Name claim, dci_TemplateName = TemplateNameForClaim (rtj_Name job) (dc_Name claim),
       dci_Containers = dc_Containers claim \<rparr>"

lemma account_inject:
  assumes "fresh_claim pod (dc_Name claim)"
  shows "account_claim (TemplateNameForClaim (rtj_Name job) (dc_Name claim)) claim pod = inject_claim (injection job claim) pod"
proof -
  have h: "\<not> hasPodResourceClaim pod (dc_Name claim)"
    using assms by (auto simp: hasPodResourceClaim_def fresh_claim_def list_ex_iff)
  have c: "addContainerResourceClaim (dc_Name claim) c = c\<lparr> ct_Claims := ct_Claims c @ [dc_Name claim] \<rparr>"
    if "c \<in> set (pod_Containers pod)" for c
    using that assms by (auto simp: addContainerResourceClaim_def fresh_claim_def list_ex_iff)
  show ?thesis
    by (simp add: account_claim_def inject_claim_def injection_def podHasTargetContainer_def anyContainerMatches_def
        isTargetContainer_def shouldAttachClaim_def Let_def h c)
qed

lemma account_fresh: "fresh_claim pod n \<Longrightarrow> dc_Name claim \<noteq> n \<Longrightarrow> fresh_claim (account_claim t claim pod) n"
  by (auto simp: fresh_claim_def account_claim_def)

lemma account_fold:
  "distinct (map dc_Name claims) \<Longrightarrow> (\<forall>c \<in> set claims. fresh_claim pod (dc_Name c))
   \<Longrightarrow> fold (\<lambda>claim. account_claim (TemplateNameForClaim (rtj_Name job) (dc_Name claim)) claim) claims pod
     = fold inject_claim (map (injection job) claims) pod"
proof (induction claims arbitrary: pod)
  case (Cons c claims)
  let ?pod = "inject_claim (injection job c) pod"
  have e: "account_claim (TemplateNameForClaim (rtj_Name job) (dc_Name c)) c pod = ?pod"
    using Cons.prems(2) by (simp add: account_inject)
  have "\<forall>x \<in> set claims. fresh_claim ?pod (dc_Name x)"
  proof
    fix x assume "x \<in> set claims"
    then have "dc_Name c \<noteq> dc_Name x" "fresh_claim pod (dc_Name x)" using Cons.prems by auto
    then show "fresh_claim ?pod (dc_Name x)" unfolding e [symmetric] by (intro account_fresh)
  qed
  then show ?case using Cons.IH [of ?pod] Cons.prems(1) by (simp add: e)
qed simp

lemma TemplateRefs_refs:
  "fold (\<lambda>ref m. m(rct_ClaimName ref \<mapsto> rct_Name ref)) (TemplateRefs n claims) Map.empty (dc_Name c)
     = (if dc_Name c \<in> dc_Name ` set claims then Some (TemplateNameForClaim n (dc_Name c)) else None)"
proof -
  have "fold (\<lambda>ref m. m(rct_ClaimName ref \<mapsto> rct_Name ref)) refs m k
      = (if k \<in> rct_ClaimName ` set refs then Some (TemplateNameForClaim n k) else m k)"
    if "\<forall>r \<in> set refs. rct_Name r = TemplateNameForClaim n (rct_ClaimName r)" for refs :: "ResourceClaimTemplateReference list" and m k
    using that by (induction refs arbitrary: m) auto
  moreover have "set (TemplateRefs n claims) = (\<lambda>claim. \<lparr> rct_Name = TemplateNameForClaim n (dc_Name claim), rct_ClaimName = dc_Name claim \<rparr>) ` set claims"
    by (simp add: TemplateRefs_def)
  ultimately show ?thesis by (force simp: image_image)
qed

lemma injections_settled:
  assumes "sp_Devices (rtj_Spec job) = Some d" and "IsDevicesEnabled job" and "st_Devices (rtj_Status job) = Some ds"
    and "ds_ResourceClaimTemplateRefs ds = TemplateRefs (rtj_Name job) (dev_Claims d)"
  shows "BuildDRAClaimInjections job = map (injection job) (dev_Claims d)"
proof -
  have "List.map_filter (\<lambda>claim. case (if dc_Name claim \<in> dc_Name ` S then Some (t claim) else None) of
            None \<Rightarrow> None | Some templateName \<Rightarrow> Some (f claim templateName)) claims = map (\<lambda>c. f c (t c)) claims"
    if "set claims \<subseteq> S" for S claims and t :: "DeviceClaimSpec \<Rightarrow> string" and f :: "DeviceClaimSpec \<Rightarrow> string \<Rightarrow> DRAClaimInjection"
    using that by (induction claims) (auto simp: map_filter_simps)
  from this [of "dev_Claims d" "set (dev_Claims d)"] show ?thesis
    using assms by (simp add: BuildDRAClaimInjections_def Let_def TemplateRefs_refs injection_def)
qed

text \<open>
  C27: The devices Kueue accounts for are the devices that run.  For a job whose claims have distinct names and
  whose claim templates are recorded in the status, the pod templates of its pod sets are the templates of its
  replicated jobs with exactly the claims injected that the renderer injects into the child JobSet, as long as the
  user's templates do not already use those claim names.
\<close>

theorem accounted_devices_run:
  assumes "decodeTemplateSpec K job = Inr spec" and "plain_names K spec"
    and "sp_Devices (rtj_Spec job) = Some d" and "IsDevicesEnabled job" and "distinct (map dc_Name (dev_Claims d))"
    and "st_Devices (rtj_Status job) = Some ds" and "ds_ResourceClaimTemplateRefs ds = TemplateRefs (rtj_Name job) (dev_Claims d)"
    and "\<forall>rj \<in> set (ss_ReplicatedJobs spec). \<forall>c \<in> set (dev_Claims d). fresh_claim (rj_Template rj) (dc_Name c)"
  shows "\<exists>pss. PodSets K job = Inr pss
     \<and> map ps_Template pss = map rj_Template (ss_ReplicatedJobs (InjectDRAClaims (BuildDRAClaimInjections job) spec))"
proof -
  have t: "ps_Template (topology_requested job spec ps) = ps_Template ps" for ps
    by (simp add: topology_requested_def topology_request_def Let_def split: option.split)
  have "ps_Template (podset_of K job spec rj) = fold inject_claim (BuildDRAClaimInjections job) (rj_Template rj)"
    if "rj \<in> set (ss_ReplicatedJobs spec)" for rj
    using that assms(3-8) account_fold [of "dev_Claims d" "rj_Template rj" job] injections_settled [OF assms(3,4,6,7)]
    by (simp add: podset_of_def Let_def t accounted_def scaled_def base_podset_def)
  then show ?thesis using PodSets_map [OF assms(1,2)] by (simp add: InjectDRAClaims_def)
qed

definition ex_devices :: DeviceStatus where
  "ex_devices = \<lparr> ds_DeviceMode = DeviceModeDRA, ds_RequestedDeviceClasses = [], ds_CurrentDeviceProfileFingerprint = '''',
     ds_ResourceClaimTemplateRefs = TemplateRefs ''j'' [ex_claim ''gpu'' [''x'']],
     ds_ClaimAllocationState = ClaimAllocationPending, ds_AllocatedClaimCount = 0, ds_LastClaimFailureReason = '''',
     ds_LastClaimFailureTime = None, ds_LastCheckpointDeviceProfileFingerprint = '''',
     ds_LastResumeDeviceProfileFingerprint = '''' \<rparr>"

definition ex_claiming :: ResumableTrainingJob where
  "ex_claiming = ex_valid\<lparr>
     rtj_Spec := (rtj_Spec ex_valid)\<lparr> sp_Devices := Some \<lparr> dev_Mode = DeviceModeDRA, dev_Claims = [ex_claim ''gpu'' [''x'']] \<rparr> \<rparr>,
     rtj_Status := ex_status\<lparr> st_Devices := Some ex_devices \<rparr> \<rparr>"

theorem accounted_devices_run_witness:
  "\<exists>pss. PodSets ex_kueue ex_claiming = Inr pss
     \<and> map ps_Template pss = map rj_Template (ss_ReplicatedJobs (InjectDRAClaims (BuildDRAClaimInjections ex_claiming) ex_unplaced))"
proof (rule accounted_devices_run)
  show "decodeTemplateSpec ex_kueue ex_claiming = Inr ex_unplaced"
    using ex_decode by (simp add: decodeTemplateSpec_def ex_claiming_def)
  show "plain_names ex_kueue ex_unplaced" by (simp add: plain_names_def ex_unplaced_def ex_kueue_def ex_worker_def)
  show "sp_Devices (rtj_Spec ex_claiming) = Some \<lparr> dev_Mode = DeviceModeDRA, dev_Claims = [ex_claim ''gpu'' [''x'']] \<rparr>"
    "st_Devices (rtj_Status ex_claiming) = Some ex_devices"
    "IsDevicesEnabled ex_claiming"
    by (simp_all add: ex_claiming_def IsDevicesEnabled_def)
qed (simp_all add: ex_devices_def ex_claiming_def ex_valid_def ex_job_def fresh_claim_def ex_unplaced_def ex_worker_def ex_pod_def)

section \<open>Counts and requests of the pod sets\<close>

text \<open>
  C36: What Kueue is asked for.  A valid job has one pod set per replicated job, in the order and under the names
  of the template.  The worker's count is the effective preferred count when the spec configures parallelism; every
  other count is the number of pods of the replicated job.  Only a worker has a minimum count, only if both the
  operator and the job opt in, and then it is between one and the count.  A topology is requested exactly when the
  job enables one, for the worker, and for the others only with colocation, in which case all share one group.
\<close>

theorem pod_sets_requested:
  assumes "valid_job job" and "decodeTemplateSpec K job = Inr spec" and "plain_names K spec"
  shows "\<exists>pss. PodSets K job = Inr pss \<and> map ps_Name pss = map rj_Name (ss_ReplicatedJobs spec)
     \<and> list_all2 (\<lambda>ps rj.
          let worker = (rj_Name rj = resolveWorkerPodSetName job spec) in
          ps_Count ps = (if worker \<and> sp_Parallelism (rtj_Spec job) \<noteq> None then EffectivePreferredCount job else podsCount rj)
          \<and> (\<forall>m. ps_MinCount ps = Some m \<longrightarrow>
               worker \<and> ke_ExperimentalPartialAdmission K \<and> EffectiveMinCount job = Some m \<and> 1 \<le> m \<and> m \<le> ps_Count ps)
          \<and> (\<forall>t. sp_Topology (rtj_Spec job) = Some t \<longrightarrow>
               (ps_TopologyRequest ps \<noteq> None \<longleftrightarrow> IsTopologyEnabled job \<and> (worker \<or> topo_LeaderWorkerColocation t))
               \<and> (\<forall>req. ps_TopologyRequest ps = Some req \<longrightarrow>
                    (ptr_PodSetGroupName req = Some topologyColocationGroup \<longleftrightarrow> topo_LeaderWorkerColocation t))))
        pss (ss_ReplicatedJobs spec)"
proof -
  have b: "base_podset K rj = \<lparr> ps_Name = rj_Name rj, ps_Template = rj_Template rj, ps_Count = podsCount rj, ps_MinCount = None,
      ps_TopologyRequest = None \<rparr>" if "rj \<in> set (ss_ReplicatedJobs spec)" for rj
    using that assms(3) by (simp add: plain_names_def base_podset_def)
  have min: "1 \<le> m \<and> m \<le> EffectivePreferredCount job" if "EffectiveMinCount job = Some m" for m
    using that assms(1)
    by (auto simp: EffectiveMinCount_def valid_job_def Let_def parallelism_ok_def split: option.splits if_splits)
  have g: "ptr_PodSetGroupName (buildTopologyRequest t r) = None" for t r
    by (simp add: buildTopologyRequest_def subgroups_def Let_def split: TopologyMode.split option.split)
  note defs = podset_of_def Let_def scaled_def topology_requested_def topology_request_def
  show ?thesis
    unfolding PodSets_map [OF assms(2,3)]
    by (auto simp: list_all2_map1 list_all2_same defs b g min IsTopologyEnabled_def split: option.splits)
qed

theorem pod_sets_requested_witness:
  "\<exists>pss. PodSets ex_kueue ex_valid = Inr pss \<and> map ps_Name pss = [''worker''] \<and> map ps_Count pss = [4]"
proof -
  have d: "decodeTemplateSpec ex_kueue ex_valid = Inr ex_unplaced" "plain_names ex_kueue ex_unplaced"
    by (simp_all add: ex_decode) (simp add: plain_names_def ex_unplaced_def ex_kueue_def ex_worker_def)
  have p: "sp_Parallelism (rtj_Spec ex_valid) = None" by (simp add: ex_valid_def ex_spec_def)
  have c: "podsCount ex_worker = 4" by (simp add: podsCount_def podsCountPerReplica_def ex_worker_def is_int32_def)
  show ?thesis
    using pod_sets_requested [OF ex_valid_valid d]
    by (auto simp: p c ex_unplaced_def list_all2_Cons2 Let_def) (auto simp: ex_worker_def)
qed

section \<open>The phases as Kueue sees them\<close>

text \<open>A finished job is not active; a job with ready pods is active unless it succeeded.\<close>

lemma finished_not_active: "snd (snd (Finished job)) \<Longrightarrow> \<not> IsActive job"
  by (cases "st_Phase (rtj_Status job)") (simp_all add: Finished_def IsActive_def)

lemma ready_active: "PodsReady_job job \<Longrightarrow> IsActive job \<or> fst (snd (Finished job))"
  by (auto simp: PodsReady_job_def IsActive_def Finished_def)

lemma podsPerReplica_same: "podsCountPerReplica rj = podsPerReplica rj"
  by (simp add: podsCountPerReplica_def podsPerReplica_def)

end
