(* ===== verification/Resume_Flow.thy ===== *)
theory Resume_Flow
  imports Launch_Gate
begin

text \<open>
  Launching and resuming a run attempt (\<open>internal/controller/resume_flow.go\<close>, with \<open>createIfMissing\<close> and
  \<open>buildControlConfigMap\<close> of \<open>resumabletrainingjob_controller.go\<close>): the choice between a launch and a resume,
  the checkpoint a resume restores from, the control ConfigMap and the child JobSet of the attempt and the
  status that records them.  Both flows exist with and without a launch-gate result, as in the code.
\<close>

section \<open>The resources of a run attempt\<close>

text \<open>The arguments are the answer of the read, the answer of the create, and the create itself.\<close>

definition createIfMissing :: "api_error + 'a \<Rightarrow> api_error option \<Rightarrow> effect \<Rightarrow> (api_error + bool) \<times> effect list" where
  "createIfMissing current created create =
     (case current of
        Inr _ \<Rightarrow> (Inr False, [])
      | Inl err \<Rightarrow>
          if \<not> IsNotFound err then (Inl err, [])
          else (case created of
                  None \<Rightarrow> (Inr True, [create])
                | Some err \<Rightarrow> (if IsAlreadyExists err then Inr False else Inl err, [create])))"

definition buildControlConfigMap :: "job \<Rightarrow> string \<Rightarrow> int \<Rightarrow> ConfigMap" where
  "buildControlConfigMap job name runAttempt =
     \<lparr> cm_Name = name, cm_Namespace = rtj_Namespace job,
       cm_Labels = [''training.checkpoint.example.io/managed-by'' \<mapsto> ''resumabletrainingjob-controller'',
                    ''training.checkpoint.example.io/rtj-name'' \<mapsto> rtj_Name job,
                    ''training.checkpoint.example.io/run-attempt'' \<mapsto> itoa runAttempt],
       cm_Data = [''control.json'' \<mapsto> controlPayload DesiredStateRunning '''' time_zero] \<rparr>"

text \<open>The part both variants share; \<open>renderInput\<close> takes the names of the child JobSet and of the control ConfigMap.\<close>

definition create_attempt ::
  "ctl_env \<Rightarrow> job \<Rightarrow> int \<Rightarrow> (string \<Rightarrow> string \<Rightarrow> RenderInput) \<Rightarrow> (go_err + string \<times> string) \<times> effect list" where
  "create_attempt E job runAttempt renderInput =
     (let controlConfigMapName = ControlConfigMapName (rtj_Name job) runAttempt;
          childJobSetName = ChildJobSetName (rtj_Name job) runAttempt;
          cm = buildControlConfigMap job controlConfigMapName runAttempt
      in case ce_ControllerReference E job of
           Some err \<Rightarrow> (Inl (''set control ConfigMap owner reference: '' @ err), [])
         | None \<Rightarrow>
             (case createIfMissing (ce_GetConfigMap E (rtj_Namespace job) controlConfigMapName)
                     (ce_CreateConfigMap E cm) (CreateConfigMap cm) of
                (Inl err, es) \<Rightarrow> (Inl (''create control ConfigMap: '' @ err_text err), es)
              | (Inr _, es) \<Rightarrow>
                  (case RenderChildJobSetUnstructured (ce_Render E) (renderInput childJobSetName controlConfigMapName) of
                     Inl err \<Rightarrow> (Inl (''render child JobSet: '' @ err), es)
                   | Inr obj \<Rightarrow>
                       (case ce_OwnerReference E job of
                          Some err \<Rightarrow> (Inl (''set child JobSet owner reference: '' @ err), es)
                        | None \<Rightarrow>
                            (case createIfMissing (ce_GetJobSet E (ob_Namespace obj) (ob_Name obj))
                                    (ce_CreateJobSet E obj) (CreateJobSet obj) of
                               (Inl err, es') \<Rightarrow> (Inl (''create child JobSet: '' @ err_text err), es @ es')
                             | (Inr _, es') \<Rightarrow> (Inr (controlConfigMapName, childJobSetName), es @ es'))))))"

definition createRunAttemptResources ::
  "ctl_env \<Rightarrow> job \<Rightarrow> int \<Rightarrow> string \<Rightarrow> (go_err + string \<times> string) \<times> effect list" where
  "createRunAttemptResources E job runAttempt resumeManifestURI =
     (let admittedCounts = parseAdmittedCounts E job in
      create_attempt E job runAttempt (\<lambda>childJobSetName controlConfigMapName.
        \<lparr> ri_RTJ = job, ri_RunAttempt = runAttempt, ri_JobSetName = childJobSetName,
          ri_ControlConfigMapName = controlConfigMapName, ri_ResumeManifestURI = resumeManifestURI,
          ri_AdmittedCounts = admittedCounts,
          ri_OriginalWorldSize = (if admittedCounts \<noteq> None then id_WorldSize (sp_Identity (rtj_Spec job)) else 0),
          ri_AllowWorldSizeChange = (admittedCounts \<noteq> None \<and> rp_AllowWorldSizeChange (sp_Resume (rtj_Spec job))),
          ri_AdmittedFlavor = '''', ri_TopologyResult = None, ri_PodSetUpdates = Map.empty,
          ri_DRAClaims = BuildDRAClaimInjections job, ri_ElasticTargetWorkerCount = elastic_target job \<rparr>))"

definition createRunAttemptResourcesWithPlan ::
  "ctl_env \<Rightarrow> job \<Rightarrow> int \<Rightarrow> string \<Rightarrow> LaunchPlan \<Rightarrow> (go_err + string \<times> string) \<times> effect list" where
  "createRunAttemptResourcesWithPlan E job runAttempt resumeManifestURI plan =
     create_attempt E job runAttempt (\<lambda>childJobSetName controlConfigMapName.
       toRenderInput plan job runAttempt childJobSetName controlConfigMapName resumeManifestURI)"

section \<open>Launch\<close>

text \<open>Run attempts are \<open>int32\<close>; the guard also catches the wrap-around.\<close>

definition next_attempt :: "job \<Rightarrow> int" where
  "next_attempt job =
     (let runAttempt = wrap32 (st_CurrentRunAttempt (rtj_Status job) + 1) in if runAttempt < 1 then 1 else runAttempt)"

definition sync_counts :: "ctl_env \<Rightarrow> update" where
  "sync_counts E job =
     (case parseAdmittedCounts E job of
        None \<Rightarrow> (job, False)
      | Some counts \<Rightarrow> syncAdmissionStatus (totalAdmittedCount counts) (EffectivePreferredCount job) [] job)"

definition reconcileLaunch :: "ctl_env \<Rightarrow> job \<Rightarrow> gotime \<Rightarrow> outcome" where
  "reconcileLaunch E job now =
     (let runAttempt = next_attempt job in
      case createRunAttemptResources E job runAttempt (ResumeManifestURI (st_SelectedCheckpoint (rtj_Status job))) of
        (Inl err, es) \<Rightarrow> emits es (failLaunch E job err)
      | (Inr (controlConfigMapName, childJobSetName), es) \<Rightarrow>
          (case run_all [markStarting (ce_Meta E) runAttempt controlConfigMapName childJobSetName now,
                         syncStartupRecoveryOnLaunch now, sync_counts E] job of
             (job1, changed) \<Rightarrow> emits es (save_if E changed job1 (Inr RequeueNow, [], job1))))"

definition sync_resize_relaunch :: "meta_ops \<Rightarrow> LaunchGateResult \<Rightarrow> gotime \<Rightarrow> update" where
  "sync_resize_relaunch M gateResult now job =
     (if lgr_ResizeRelaunch gateResult
      then markResizeRelaunchingCondition M
             (case st_Elasticity (rtj_Status job) of None \<Rightarrow> 0 | Some e \<Rightarrow> es_TargetWorkerCount e) now job
      else (job, False))"

definition sync_plan :: "LaunchPlan \<Rightarrow> update" where
  "sync_plan plan job =
     (if lp_AdmittedCounts plan \<noteq> None
      then syncAdmissionStatus (lp_WorkerCount plan) (EffectivePreferredCount job)
             (case lp_AdmittedFlavors plan of None \<Rightarrow> [] | Some flavors \<Rightarrow> flavors) job
      else (job, False))"

definition reconcileLaunchWithGate :: "ctl_env \<Rightarrow> job \<Rightarrow> gotime \<Rightarrow> LaunchGateResult \<Rightarrow> outcome" where
  "reconcileLaunchWithGate E job now gateResult =
     (let runAttempt = next_attempt job; plan = buildLaunchPlan E job gateResult in
      case createRunAttemptResourcesWithPlan E job runAttempt
             (ResumeManifestURI (st_SelectedCheckpoint (rtj_Status job))) plan of
        (Inl err, es) \<Rightarrow> emits es (failLaunch E job err)
      | (Inr (controlConfigMapName, childJobSetName), es) \<Rightarrow>
          (case run_all [markStarting (ce_Meta E) runAttempt controlConfigMapName childJobSetName now,
                         syncStartupRecoveryOnLaunch now, sync_resize_relaunch (ce_Meta E) gateResult now,
                         sync_plan plan, syncEffectiveLaunchShape (buildEffectiveLaunchShape plan None)] job of
             (job1, changed) \<Rightarrow> emits es (save_if E changed job1 (Inr RequeueNow, [], job1))))"

section \<open>Resume\<close>

definition shouldResume :: "job \<Rightarrow> bool" where
  "shouldResume job =
     (let s = rtj_Status job in
      if st_Phase s = PhaseRestoring \<and> st_SelectedCheckpoint s \<noteq> None then True
      else if st_LastCompletedCheckpoint s = None then False
      else st_Phase s = PhasePaused \<or> st_Phase s = PhaseQueued)"

definition resume_request :: "ctl_env \<Rightarrow> job \<Rightarrow> ResumeRequest" where
  "resume_request E job =
     (let sp = rtj_Spec job in
      \<lparr> rq_StorageRootURI = cp_StorageURI (sp_Checkpoint sp), rq_ClusterIdentity = ''phase1-kind'',
        rq_RTJIdentity = rtj_Name job, rq_RuntimeMode = RuntimeMode_string (rt_Mode (sp_Runtime sp)),
        rq_WorldSize = admittedWorldSize E job, rq_GPUShape = id_GPUShape (sp_Identity sp),
        rq_ImageIdentity = id_Image (sp_Identity sp), rq_CodeVersionIdentity = id_CodeVersion (sp_Identity sp),
        rq_OptimizerMode = rt_OptimizerMode (sp_Runtime sp), rq_ShardingMode = rt_ShardingMode (sp_Runtime sp),
        rq_SupportedFormatVersions = [SupportedManifestFormatVersion],
        rq_AllowWorldSizeChange = rp_AllowWorldSizeChange (sp_Resume sp),
        rq_CurrentDeviceProfileFingerprint =
          (case st_Devices (rtj_Status job) of None \<Rightarrow> '''' | Some d \<Rightarrow> ds_CurrentDeviceProfileFingerprint d) \<rparr>)"

definition resumeCheckpointForAttempt :: "ctl_env \<Rightarrow> job \<Rightarrow> store_error + CheckpointReference option" where
  "resumeCheckpointForAttempt E job =
     (if st_Phase (rtj_Status job) = PhaseRestoring \<and> st_SelectedCheckpoint (rtj_Status job) \<noteq> None
      then Inr (st_SelectedCheckpoint (rtj_Status job))
      else catalog_SelectResumeCheckpoint (ce_Catalog E) (resume_request E job))"

definition resume_attempt :: "job \<Rightarrow> int" where
  "resume_attempt job =
     (let s = rtj_Status job;
          runAttempt = (if st_Phase s = PhaseRestoring \<and> st_ActiveJobSetName s \<noteq> '''' then st_CurrentRunAttempt s
                        else wrap32 (st_CurrentRunAttempt s + 1))
      in if runAttempt < 1 then 1 else runAttempt)"

definition no_checkpoint :: "ctl_env \<Rightarrow> job \<Rightarrow> gotime \<Rightarrow> outcome" where
  "no_checkpoint E job now =
     (let message = ''No compatible complete checkpoint was available for resume.'' in
      case run_all [setCondition (ce_Meta E) ''Degraded'' ConditionTrue ''NoCompatibleCheckpoint'' message now,
                    markFailed (ce_Meta E) ''NoCompatibleCheckpoint'' message now] job of
        (job1, changed) \<Rightarrow> save_if E changed job1 (Inr Done, [], job1))"

text \<open>The status after the resources exist.  \<open>markRestoring\<close> dereferences the selected checkpoint, which is never
  nil here; its \<open>None\<close> is the run-time panic.\<close>

definition restored ::
  "ctl_env \<Rightarrow> job \<Rightarrow> gotime \<Rightarrow> int \<Rightarrow> CheckpointReference \<Rightarrow> string \<times> string \<Rightarrow> update list \<Rightarrow> outcome" where
  "restored E job now runAttempt selected names updates =
     (case markRestoring (ce_Meta E) runAttempt (fst names) (snd names) (Some selected) now job of
        None \<Rightarrow> (Inl ''panic: nil pointer dereference'', [], job)
      | Some (job1, b1) \<Rightarrow>
          (case run_all (syncStartupRecoveryOnLaunch now # updates) job1 of
             (job2, b2) \<Rightarrow> save_if E (b1 \<or> b2) job2 (Inr RequeueNow, [], job2)))"

definition sync_restore :: "int \<Rightarrow> CheckpointReference \<Rightarrow> update" where
  "sync_restore restoreWorldSize selected job =
     (if cr_WorldSize selected > 0 then syncRestoreStatus (cr_WorldSize selected) restoreWorldSize job else (job, False))"

definition reconcileResume :: "ctl_env \<Rightarrow> job \<Rightarrow> gotime \<Rightarrow> outcome" where
  "reconcileResume E job now =
     (case resumeCheckpointForAttempt E job of
        Inl err \<Rightarrow> failLaunch E job (''select resume checkpoint: '' @ store_error_text err)
      | Inr None \<Rightarrow> no_checkpoint E job now
      | Inr (Some selected) \<Rightarrow>
          (let runAttempt = resume_attempt job in
           case createRunAttemptResources E job runAttempt (cr_ManifestURI selected) of
             (Inl err, es) \<Rightarrow> emits es (failLaunch E job err)
           | (Inr names, es) \<Rightarrow> emits es
               (restored E job now runAttempt selected names
                  [\<lambda>j. sync_restore (admittedWorldSize E j) selected j, sync_counts E])))"

definition reconcileResumeWithGate :: "ctl_env \<Rightarrow> job \<Rightarrow> gotime \<Rightarrow> LaunchGateResult \<Rightarrow> outcome" where
  "reconcileResumeWithGate E job now gateResult =
     (case resumeCheckpointForAttempt E job of
        Inl err \<Rightarrow> failLaunch E job (''select resume checkpoint: '' @ store_error_text err)
      | Inr None \<Rightarrow> no_checkpoint E job now
      | Inr (Some selected) \<Rightarrow>
          (let runAttempt = resume_attempt job; plan = buildLaunchPlan E job gateResult in
           case createRunAttemptResourcesWithPlan E job runAttempt (cr_ManifestURI selected) plan of
             (Inl err, es) \<Rightarrow> emits es (failLaunch E job err)
           | (Inr names, es) \<Rightarrow> emits es
               (restored E job now runAttempt selected names
                  [sync_resize_relaunch (ce_Meta E) gateResult now, sync_restore (lp_WorldSize plan) selected,
                   sync_plan plan, syncEffectiveLaunchShape (buildEffectiveLaunchShape plan (Some selected))])))"

section \<open>What an attempt creates\<close>

lemma createIfMissing_effects:
  "set (snd (createIfMissing current created create)) \<subseteq> {create}"
  "snd (createIfMissing current created create) \<noteq> [] \<Longrightarrow> \<exists>err. current = Inl err \<and> IsNotFound err"
  "length (snd (createIfMissing current created create)) \<le> 1"
  by (auto simp: createIfMissing_def split: sum.splits option.splits if_splits)

fun is_create :: "effect \<Rightarrow> bool" where
  "is_create (CreateJobSet _) = True"
| "is_create _ = False"

lemma is_create_iff: "is_create e \<longleftrightarrow> (\<exists>obj. e = CreateJobSet obj)"
  by (cases e) simp_all

definition created :: "effect list \<Rightarrow> Object list" where
  "created es = map (\<lambda>e. case e of CreateJobSet obj \<Rightarrow> obj) (filter is_create es)"

lemma created_simps [simp]:
  "created [] = []" "created (es @ es') = created es @ created es'" "created (UpdateStatus j # es) = created es"
  "created (CreateJobSet obj # es) = obj # created es" "created (CreateConfigMap cm # es) = created es"
  by (simp_all add: created_def)

lemma in_created: "obj \<in> set (created es) \<longleftrightarrow> CreateJobSet obj \<in> set es"
  by (force simp: created_def is_create_iff image_iff)

lemma created_none: "\<forall>e \<in> set es. \<not> is_create e \<Longrightarrow> created es = []"
  by (simp add: created_def)

lemma created_failLaunch [simp]: "created (effects (failLaunch E j m)) = []"
  using failLaunch_effects [of E j m] by (intro created_none) auto

lemma created_save [simp]: "created (effects (save_if E b j (r, [], j))) = []"
  by (simp add: save_if_effects)

lemma created_if_missing:
  "created (snd (createIfMissing current c (CreateConfigMap cm))) = []"
  "created (snd (createIfMissing current c (CreateJobSet obj))) \<in> {[], [obj]}"
  "created (snd (createIfMissing current c (CreateJobSet obj))) \<noteq> [] \<Longrightarrow> \<exists>err. current = Inl err \<and> IsNotFound err"
  by (auto simp: createIfMissing_def split: sum.splits option.splits if_splits)

text \<open>The JobSet an attempt creates is the rendered one, and no JobSet of its name existed.\<close>

lemma create_attempt_created:
  assumes "create_attempt E job n ri = (r, es)"
  shows "created es = [] \<or> (\<exists>obj err. created es = [obj]
     \<and> RenderChildJobSetUnstructured (ce_Render E)
         (ri (ChildJobSetName (rtj_Name job) n) (ControlConfigMapName (rtj_Name job) n)) = Inr obj
     \<and> ce_GetJobSet E (ob_Namespace obj) (ob_Name obj) = Inl err \<and> IsNotFound err)"
proof -
  let ?cm = "buildControlConfigMap job (ControlConfigMapName (rtj_Name job) n) n"
  obtain b es0 where c: "createIfMissing (ce_GetConfigMap E (rtj_Namespace job) (ControlConfigMapName (rtj_Name job) n))
      (ce_CreateConfigMap E ?cm) (CreateConfigMap ?cm) = (b, es0)" by (rule prod.exhaust)
  then have e0: "created es0 = []"
    using created_if_missing(1) by (metis snd_conv)
  let ?js = "\<lambda>obj. createIfMissing (ce_GetJobSet E (ob_Namespace obj) (ob_Name obj)) (ce_CreateJobSet E obj) (CreateJobSet obj)"
  have "created es = [] \<or> (\<exists>obj. RenderChildJobSetUnstructured (ce_Render E)
         (ri (ChildJobSetName (rtj_Name job) n) (ControlConfigMapName (rtj_Name job) n)) = Inr obj
       \<and> created es = created (snd (?js obj)))"
    using assms e0 by (auto simp: create_attempt_def Let_def c split: option.splits sum.splits prod.splits)
  then show ?thesis
  proof (elim disjE exE conjE)
    fix obj assume r: "RenderChildJobSetUnstructured (ce_Render E)
         (ri (ChildJobSetName (rtj_Name job) n) (ControlConfigMapName (rtj_Name job) n)) = Inr obj"
      and e: "created es = created (snd (?js obj))"
    show ?thesis
    proof (cases "created (snd (?js obj)) = []")
      case False
      with created_if_missing(2) have "created es = [obj]" unfolding e by blast
      with r created_if_missing(3) [OF False] show ?thesis by blast
    qed (simp add: e)
  qed simp
qed

lemma create_attempt_names:
  assumes "create_attempt E job n ri = (Inr names, es)"
  shows "names = (ControlConfigMapName (rtj_Name job) n, ChildJobSetName (rtj_Name job) n)"
  using assms by (auto simp: create_attempt_def Let_def split: option.splits sum.splits prod.splits)

lemmas attempt_defs = createRunAttemptResources_def createRunAttemptResourcesWithPlan_def Let_def

section \<open>What stays while the status is completed\<close>

text \<open>The part of a job that identifies its run.\<close>

definition run_view ::
  "job \<Rightarrow> (ResumableTrainingJobPhase \<times> int \<times> string \<times> string \<times> CheckpointReference option) \<times> CheckpointReference option
     \<times> ResumableTrainingJobSpec \<times> string \<times> string" where
  "run_view j = (let s = rtj_Status j in
     ((st_Phase s, st_CurrentRunAttempt s, st_ActiveJobSetName s, st_ActiveControlConfigMapName s, st_SelectedCheckpoint s),
      st_LastCompletedCheckpoint s, rtj_Spec j, rtj_Name j, rtj_Namespace j))"

lemma keeps_touches: "touches u \<Longrightarrow> keeps run_view u"
  by (simp add: keeps_def run_view_def Let_def touchesD touched_fields [OF touchesD(6)])

lemma keeps_sync_sections [simp]:
  "keeps run_view (syncAdmissionStatus a p fl)" "keeps run_view (syncRestoreStatus c w)"
  "keeps run_view (syncEffectiveLaunchShape shape)" "keeps run_view (syncStartupRecoveryOnLaunch now)"
  by (simp_all add: keeps_def run_view_def Let_def syncAdmissionStatus_def syncRestoreStatus_def
        syncEffectiveLaunchShape_def sync_field_def syncStartupRecoveryOnLaunch_def syncStartupRecoveryStatus_def
        with_default_def split_beta split: option.split)

lemma keeps_byI: "(\<And>j. \<exists>v. keeps f v \<and> u j = v j) \<Longrightarrow> keeps f u"
  unfolding keeps_def by metis

lemma keeps_unchanged [simp]: "keeps f (\<lambda>j. (j, False))"
  by (simp add: keeps_def)

lemma touches_sync_resize_relaunch: "touches (sync_resize_relaunch M g now)"
proof -
  have "touches (markResizeRelaunchingCondition M t now)" for t
    unfolding markResizeRelaunchingCondition_def resize_condition_defs by (simp add: touches_run_all)
  then show ?thesis by (simp add: sync_resize_relaunch_def touches_def)
qed

lemma keeps_sync_updates [simp]:
  "keeps run_view (sync_counts E)" "keeps run_view (sync_plan plan)" "keeps run_view (sync_restore w c)"
  "keeps run_view (sync_resize_relaunch M g now)" "keeps run_view (\<lambda>j. sync_restore (admittedWorldSize E j) c j)"
  using keepsD [OF keeps_sync_sections(1)] keepsD [OF keeps_sync_sections(2)] keeps_touches [OF touches_sync_resize_relaunch]
  by (simp_all add: keeps_def sync_counts_def sync_plan_def sync_restore_def split: option.split)

lemma moved_run_view:
  assumes "moved p now j j'"
  shows "run_view j' = (let s = rtj_Status j in
     ((p, st_CurrentRunAttempt s, st_ActiveJobSetName s, st_ActiveControlConfigMapName s, st_SelectedCheckpoint s),
      st_LastCompletedCheckpoint s, rtj_Spec j, rtj_Name j, rtj_Namespace j))"
  by (simp add: run_view_def Let_def moved_fields [OF assms])

lemma markStarting_view:
  "run_view (fst (markStarting M n cm js now j)) =
     ((PhaseStarting, n, js, cm, st_SelectedCheckpoint (rtj_Status j)), st_LastCompletedCheckpoint (rtj_Status j),
      rtj_Spec j, rtj_Name j, rtj_Namespace j)"
proof -
  let ?j3 = "j\<lparr> rtj_Status := (rtj_Status j)\<lparr> st_CurrentRunAttempt := n, st_ActiveControlConfigMapName := cm,
      st_ActiveJobSetName := js \<rparr> \<rparr>"
  have "moved PhaseStarting now (fst (put st_ActiveJobSetName st_ActiveJobSetName_update js
      (fst (put st_ActiveControlConfigMapName st_ActiveControlConfigMapName_update cm
      (fst (put st_CurrentRunAttempt st_CurrentRunAttempt_update n j)))))) (fst (markStarting M n cm js now j))"
    unfolding markStarting_def
    by (subst fst_run_all_Cons, subst fst_run_all_Cons, subst fst_run_all_Cons, intro moved_run_all) simp
  then have "moved PhaseStarting now ?j3 (fst (markStarting M n cm js now j))" by (simp add: put_simps)
  from moved_run_view [OF this] show ?thesis by simp
qed

lemma markRestoring_view:
  "\<exists>j' b. markRestoring M n cm js (Some c) now j = Some (j', b)
     \<and> (\<exists>c'. cr_ManifestURI c' = cr_ManifestURI c
         \<and> run_view j' = ((PhaseRestoring, n, js, cm, Some c'), st_LastCompletedCheckpoint (rtj_Status j),
              rtj_Spec j, rtj_Name j, rtj_Namespace j))"
proof -
  define us where "us = [put st_CurrentRunAttempt st_CurrentRunAttempt_update n,
           put st_ActiveControlConfigMapName st_ActiveControlConfigMapName_update cm,
           put st_ActiveJobSetName st_ActiveJobSetName_update js,
           put st_PauseRequestID st_PauseRequestID_update '''', select_checkpoint (Some c)]"
  let ?j4 = "j\<lparr> rtj_Status := (rtj_Status j)\<lparr> st_CurrentRunAttempt := n, st_ActiveControlConfigMapName := cm,
      st_ActiveJobSetName := js, st_PauseRequestID := '''' \<rparr> \<rparr>"
  have "fst (run_all us j) = fst (select_checkpoint (Some c) ?j4)"
    unfolding us_def by (simp only: fst_run_all_Cons put_simps lens_more) (simp add: split_beta)
  then obtain c' where c': "cr_ManifestURI c' = cr_ManifestURI c"
    and j5: "fst (run_all us j) = ?j4\<lparr> rtj_Status := (rtj_Status ?j4)\<lparr> st_SelectedCheckpoint := Some c' \<rparr> \<rparr>"
    by (cases "st_SelectedCheckpoint (rtj_Status j)") (auto simp: select_checkpoint_def split: if_splits)
  let ?j5 = "fst (run_all us j)"
  define vs where "vs m = [phase_to PhaseRestoring ''RestoringFromCheckpoint'' m now, syncSuspensionStatus M now,
      clearCondition ''Degraded'', setObservedGeneration]" for m
  have m: "moved PhaseRestoring now ?j5 (fst (run_all (vs m) ?j5))" for m
    unfolding vs_def by (intro moved_run_all) simp
  have "markRestoring M n cm js (Some c) now j =
      (case run_all us j of (j1, b1) \<Rightarrow> case st_SelectedCheckpoint (rtj_Status j1) of None \<Rightarrow> None
       | Some s \<Rightarrow> (case run_all (vs (''Creating run attempt '' @ itoa n @ '' from selected checkpoint '' @ cr_ManifestURI s @ ''.'')) j1
            of (j2, b2) \<Rightarrow> Some (j2, b1 \<or> b2)))"
    unfolding markRestoring_def us_def vs_def Let_def ..
  then obtain m b where "markRestoring M n cm js (Some c) now j = Some (fst (run_all (vs m) ?j5), b)"
    by (auto simp: split_beta j5)
  then show ?thesis using c' moved_run_view [OF m, of m] by (auto simp: j5 intro!: exI [of _ c'])
qed

section \<open>A resumed run restores a compatible checkpoint\<close>

text \<open>Go ranges over every key of the maps that the rendering of this launch visits.\<close>

definition ranges_launch :: "ctl_env \<Rightarrow> job \<Rightarrow> LaunchGateResult \<Rightarrow> bool" where
  "ranges_launch E job g \<longleftrightarrow> visits (ce_Render E) Map.empty
     \<and> (\<forall>t. lgr_TopologyResult g = Some t \<longrightarrow> (\<forall>n. visits (ce_Render E) (CommonNodeSelector (map_of (pres_PodSets t) n))))
     \<and> (\<forall>n u. lp_PodSetUpdates (buildLaunchPlan E job g) n = Some u \<longrightarrow> visits_entry (ce_Render E) u)"

lemma ranges_launch_ok:
  assumes "ranges_launch E job g"
  shows "ranges_ok (ce_Render E) (toRenderInput (buildLaunchPlan E job g) job n js cm uri) rj"
    and "ri_TopologyResult input = None \<Longrightarrow> ri_PodSetUpdates input = Map.empty \<Longrightarrow> ranges_ok (ce_Render E) input rj"
proof -
  have n: "CommonNodeSelector None = Map.empty" by (simp add: CommonNodeSelector_def)
  have t: "ri_TopologyResult (toRenderInput (buildLaunchPlan E job g) job n js cm uri) = lgr_TopologyResult g"
    by (simp add: toRenderInput_def buildLaunchPlan_def Let_def)
  have u: "ri_PodSetUpdates (toRenderInput (buildLaunchPlan E job g) job n js cm uri) = lp_PodSetUpdates (buildLaunchPlan E job g)"
    by (simp add: toRenderInput_def)
  show "ranges_ok (ce_Render E) (toRenderInput (buildLaunchPlan E job g) job n js cm uri) rj"
    using assms by (auto simp: ranges_ok_def placement_def topology_of_def t u ranges_launch_def n split: option.split)
  show "ri_TopologyResult input = None \<Longrightarrow> ri_PodSetUpdates input = Map.empty \<Longrightarrow> ranges_ok (ce_Render E) input rj"
    using assms by (simp add: ranges_ok_def placement_def topology_of_def ranges_launch_def n)
qed

text \<open>A JobSet that restores from \<open>uri\<close>.\<close>

definition restores_from :: "string \<Rightarrow> Object \<Rightarrow> bool" where
  "restores_from uri obj \<longleftrightarrow>
     (\<forall>rj \<in> set (ob_Jobs obj). \<forall>c \<in> set (pod_Containers (rj_Template rj)).
        env_of c ''YIELD_SDK_RESTORE_MANIFEST_URI'' =
          Some \<lparr> env_Name = ''YIELD_SDK_RESTORE_MANIFEST_URI'', env_Value = uri, env_ValueFrom = None \<rparr>)"

lemma rendered_restores:
  assumes "RenderChildJobSetUnstructured R input = Inr obj" and "\<And>rj. ranges_ok R input rj"
  shows "ob_Name obj = ri_JobSetName input"
    and "ob_Labels obj ''training.checkpoint.example.io/run-attempt'' = Some (itoa (ri_RunAttempt input))"
    and "ri_ResumeManifestURI input \<noteq> '''' \<Longrightarrow> restores_from (ri_ResumeManifestURI input) obj"
proof -
  have r: "RenderChildJobSet R input = Inr obj"
    using assms(1) by (auto simp: RenderChildJobSetUnstructured_def ToUnstructured_def split: sum.splits option.splits)
  obtain spec where p: "ParseTemplate R (tpl_Spec (rt_Template (sp_Runtime (rtj_Spec (ri_RTJ input))))) = Inr spec"
    using r by (auto simp: RenderChildJobSet_def split: sum.splits)
  have "\<forall>rj \<in> set (ss_ReplicatedJobs spec). ranges_ok R input rj" using assms(2) by blast
  note parts = RenderChildJobSet_InrD [OF p this r]
  show "ob_Name obj = ri_JobSetName input"
    "ob_Labels obj ''training.checkpoint.example.io/run-attempt'' = Some (itoa (ri_RunAttempt input))" by (rule parts)+
  assume "ri_ResumeManifestURI input \<noteq> ''''"
  then have w: "map_of (env_writes input) ''YIELD_SDK_RESTORE_MANIFEST_URI'' = Some (ri_ResumeManifestURI input)"
    by (simp add: env_writes_def Let_def)
  have "\<exists>rj0. job_rendered input rj0 rj" if "rj \<in> set (ob_Jobs obj)" for rj
    using parts(1) that by (auto simp: list_all2_conv_all_nth in_set_conv_nth)
  with w show "restores_from (ri_ResumeManifestURI input) obj"
    unfolding restores_from_def job_rendered_def by blast
qed

lemma readManifest_uri: "readManifest S uri = Inr m \<Longrightarrow> uri \<noteq> '''' \<Longrightarrow> mf_ManifestURI m \<noteq> ''''"
  by (auto simp: readManifest_def DecodeManifest_def split: sum.splits if_splits)

text \<open>The JobSet created by either variant of the resume flow.\<close>

lemma resume_created:
  assumes "CreateJobSet obj \<in> set (effects out)"
    and "out = reconcileResumeWithGate E job now g \<or> out = reconcileResume E job now"
  shows "\<exists>selected input err. resumeCheckpointForAttempt E job = Inr (Some selected)
     \<and> RenderChildJobSetUnstructured (ce_Render E) input = Inr obj
     \<and> ri_JobSetName input = ChildJobSetName (rtj_Name job) (resume_attempt job)
     \<and> ri_RunAttempt input = resume_attempt job \<and> ri_ResumeManifestURI input = cr_ManifestURI selected
     \<and> (ranges_launch E job g \<longrightarrow> (\<forall>rj. ranges_ok (ce_Render E) input rj))
     \<and> ce_GetJobSet E (ob_Namespace obj) (ob_Name obj) = Inl err \<and> IsNotFound err"
proof -
  have c: "created (effects (no_checkpoint E job now)) = []"
    "created (effects (restored E job now n c names us)) = []" for n c names us
    by (simp_all add: no_checkpoint_def restored_def Let_def split_beta split: option.split prod.split del: run_all.simps)
  have o: "obj \<in> set (created (effects out))" using assms(1) by (simp add: in_created)
  from assms(2) show ?thesis
  proof
    assume out: "out = reconcileResumeWithGate E job now g"
    with o c obtain selected where s: "resumeCheckpointForAttempt E job = Inr (Some selected)"
      by (auto simp: reconcileResumeWithGate_def split: sum.splits option.splits)
    obtain r es where a: "createRunAttemptResourcesWithPlan E job (resume_attempt job) (cr_ManifestURI selected)
        (buildLaunchPlan E job g) = (r, es)" by (rule prod.exhaust)
    have "obj \<in> set (created es)"
      using o out s c by (auto simp: reconcileResumeWithGate_def a Let_def split: sum.splits)
    with create_attempt_created [OF a [unfolded attempt_defs]] s ranges_launch_ok(1) show ?thesis
      by (fastforce simp: toRenderInput_def)
  next
    assume out: "out = reconcileResume E job now"
    with o c obtain selected where s: "resumeCheckpointForAttempt E job = Inr (Some selected)"
      by (auto simp: reconcileResume_def split: sum.splits option.splits)
    obtain r es where a: "createRunAttemptResources E job (resume_attempt job) (cr_ManifestURI selected) = (r, es)"
      by (rule prod.exhaust)
    have "obj \<in> set (created es)"
      using o out s c by (auto simp: reconcileResume_def a Let_def split: sum.splits)
    with create_attempt_created [OF a [unfolded attempt_defs]] s ranges_launch_ok(2) show ?thesis
      by fastforce
  qed
qed

section \<open>An attempt that can be launched\<close>

text \<open>The answers that let a launch without a gate result go through: the owner references can be set, the template
  decodes, the control ConfigMap is there and no child JobSet of the attempt is.\<close>

definition launchable :: "ctl_env \<Rightarrow> job \<Rightarrow> int \<Rightarrow> bool" where
  "launchable E job n \<longleftrightarrow> ce_ControllerReference E job = None \<and> ce_OwnerReference E job = None
     \<and> (\<exists>spec. ParseTemplate (ce_Render E) (tpl_Spec (rt_Template (sp_Runtime (rtj_Spec job)))) = Inr spec)
     \<and> (\<forall>obj. re_ToUnstructured (ce_Render E) obj = None) \<and> visits (ce_Render E) Map.empty
     \<and> (\<exists>cm. ce_GetConfigMap E (rtj_Namespace job) (ControlConfigMapName (rtj_Name job) n) = Inr cm)
     \<and> (\<exists>err. ce_GetJobSet E (rtj_Namespace job) (ChildJobSetName (rtj_Name job) n) = Inl err \<and> IsNotFound err)
     \<and> (\<forall>obj. ce_CreateJobSet E obj = None)"

lemma launchable_creates:
  assumes "launchable E job n"
  shows "\<exists>es obj. createRunAttemptResources E job n uri =
       (Inr (ControlConfigMapName (rtj_Name job) n, ChildJobSetName (rtj_Name job) n), es)
     \<and> created es = [obj] \<and> ob_Name obj = ChildJobSetName (rtj_Name job) n \<and> (uri \<noteq> '''' \<longrightarrow> restores_from uri obj)"
proof -
  let ?counts = "parseAdmittedCounts E job"
  let ?input = "\<lparr> ri_RTJ = job, ri_RunAttempt = n, ri_JobSetName = ChildJobSetName (rtj_Name job) n,
          ri_ControlConfigMapName = ControlConfigMapName (rtj_Name job) n, ri_ResumeManifestURI = uri,
          ri_AdmittedCounts = ?counts,
          ri_OriginalWorldSize = (if ?counts \<noteq> None then id_WorldSize (sp_Identity (rtj_Spec job)) else 0),
          ri_AllowWorldSizeChange = (?counts \<noteq> None \<and> rp_AllowWorldSizeChange (sp_Resume (rtj_Spec job))),
          ri_AdmittedFlavor = '''', ri_TopologyResult = None, ri_PodSetUpdates = Map.empty,
          ri_DRAClaims = BuildDRAClaimInjections job, ri_ElasticTargetWorkerCount = elastic_target job \<rparr>"
  obtain spec where p: "ParseTemplate (ce_Render E) (tpl_Spec (rt_Template (sp_Runtime (rtj_Spec (ri_RTJ ?input))))) = Inr spec"
    using assms by (auto simp: launchable_def)
  have r: "ranges_ok (ce_Render E) ?input rj" and b: "renderable (ce_Render E) ?input rj" for rj
    using assms by (simp_all add: ranges_ok_def renderable_def placement_def topology_of_def launchable_def
        CommonNodeSelector_def CanRepresentInJobSet_def)
  let ?obj = "(render_object (ce_Render E) ?input spec)\<lparr> ob_Spec :=
      spec\<lparr> ss_ReplicatedJobs := map (final_job_of (ce_Render E) ?input) (ss_ReplicatedJobs spec) \<rparr> \<rparr>"
  have "RenderChildJobSet (ce_Render E) ?input = Inr ?obj"
    by (rule RenderChildJobSet_eq(1) [OF p]) (use r b in blast)+
  then have o: "RenderChildJobSetUnstructured (ce_Render E) ?input = Inr ?obj"
    using assms by (simp add: RenderChildJobSetUnstructured_def ToUnstructured_def launchable_def)
  have ns: "ob_Namespace ?obj = rtj_Namespace job" "ob_Name ?obj = ChildJobSetName (rtj_Name job) n"
    by (simp_all add: render_object_def Let_def stripKueueManagementMetadata_def split_beta)
  have "createRunAttemptResources E job n uri =
      (Inr (ControlConfigMapName (rtj_Name job) n, ChildJobSetName (rtj_Name job) n), [CreateJobSet ?obj])"
    using assms unfolding attempt_defs create_attempt_def o sum.case ns
    by (auto simp: launchable_def createIfMissing_def)
  with ns rendered_restores(3) [OF o r] show ?thesis by auto
qed

text \<open>
  C5: A resumed run restores a compatible checkpoint.  When a resume that is not already restoring creates a child
  JobSet, the catalog holds a complete manifest, compatible with the job as it is admitted now and with all its
  artifacts stored, and every container of the JobSet is told to restore from it; the JobSet carries the name and
  the label of the new run attempt, and none of that name existed before.
\<close>

theorem resume_restores_compatible:
  assumes "ce_Catalog E = ObjectStoreCatalog S" and "st_Phase (rtj_Status job) \<noteq> PhaseRestoring"
    and "ranges_launch E job g" and "CreateJobSet obj \<in> set (effects out)"
    and "out = reconcileResumeWithGate E job now g \<or> out = reconcileResume E job now"
  shows "\<exists>uri m. readManifest S uri = Inr m \<and> compatible_spec (resume_request E job) m \<and> artifacts_present S m
     \<and> (uri \<noteq> '''' \<longrightarrow> restores_from (mf_ManifestURI m) obj)
     \<and> ob_Name obj = ChildJobSetName (rtj_Name job) (resume_attempt job)
     \<and> ob_Labels obj ''training.checkpoint.example.io/run-attempt'' = Some (itoa (resume_attempt job))
     \<and> (\<exists>err. ce_GetJobSet E (ob_Namespace obj) (ob_Name obj) = Inl err \<and> IsNotFound err)"
proof -
  from resume_created [OF assms(4,5)] obtain selected input err where
    s: "resumeCheckpointForAttempt E job = Inr (Some selected)"
    and r: "RenderChildJobSetUnstructured (ce_Render E) input = Inr obj"
    and i: "ri_JobSetName input = ChildJobSetName (rtj_Name job) (resume_attempt job)"
      "ri_RunAttempt input = resume_attempt job" "ri_ResumeManifestURI input = cr_ManifestURI selected"
      "\<forall>rj. ranges_ok (ce_Render E) input rj"
      "ce_GetJobSet E (ob_Namespace obj) (ob_Name obj) = Inl err \<and> IsNotFound err"
    using assms(3) by blast
  have "SelectResumeCheckpoint S (resume_request E job) = Inr (Some selected)"
    using s assms(1,2) by (simp add: resumeCheckpointForAttempt_def)
  from SelectResumeCheckpoint_SomeD [OF this] obtain uri m where
    m: "readManifest S uri = Inr m" "artifacts_present S m" "compatible_spec (resume_request E job) m"
    and ref: "CheckpointReference_of m resume_select_reason = Some selected" by blast
  have "cr_ManifestURI selected = mf_ManifestURI m" using CheckpointReference_of_fields [OF ref] by simp
  with m i rendered_restores [OF r] readManifest_uri [OF m(1)] show ?thesis by metis
qed

text \<open>A paused job with a compatible checkpoint in its store.\<close>

definition ex_resume_ctl :: ctl_env where
  "ex_resume_ctl = ex_ctl\<lparr> ce_Catalog := ObjectStoreCatalog (ex_store\<lparr> unmarshal_manifest :=
     (\<lambda>_. Inr (ex_new\<lparr> mf_ClusterIdentity := ''phase1-kind'', mf_RTJIdentity := ''j'' \<rparr>)) \<rparr>) \<rparr>"

definition ex_paused :: job where
  "ex_paused = ex_job\<lparr> rtj_Spec := ex_spec\<lparr> sp_Runtime := (sp_Runtime ex_spec)\<lparr> rt_Template :=
       (rt_Template (sp_Runtime ex_spec))\<lparr> tpl_Spec := ''{}'' \<rparr> \<rparr> \<rparr>,
     rtj_Status := ex_status\<lparr> st_Phase := PhasePaused, st_CurrentRunAttempt := 2 \<rparr> \<rparr>"

definition ex_gate :: LaunchGateResult where
  "ex_gate = \<lparr> lgr_Ready = True, lgr_Reason = '''', lgr_Message = '''', lgr_TopologyResult = None, lgr_Workload = None,
     lgr_LaunchView = None, lgr_ResizeRelaunch = False \<rparr>"

lemma ex_ranges_launch: "ranges_launch ex_resume_ctl ex_paused ex_gate"
  by (simp add: ranges_launch_def visits_def ex_resume_ctl_def ex_ctl_def ex_render_env_def ex_gate_def buildLaunchPlan_def Let_def)

lemma ex_selected: "\<exists>c. resumeCheckpointForAttempt ex_resume_ctl ex_paused = Inr (Some c)"
proof -
  have "case resumeCheckpointForAttempt ex_resume_ctl ex_paused of Inr (Some c) \<Rightarrow> True | _ \<Rightarrow> False" by code_simp
  then show ?thesis by (auto split: sum.splits option.splits)
qed

lemma ex_launchable: "launchable ex_resume_ctl ex_paused n"
  by (simp add: launchable_def ex_resume_ctl_def ex_ctl_def ex_render_env_def ex_paused_def ParseTemplate_def visits_def)

lemma ex_resume_creates: "\<exists>obj. CreateJobSet obj \<in> set (effects (reconcileResume ex_resume_ctl ex_paused 3))"
proof -
  obtain c where c: "resumeCheckpointForAttempt ex_resume_ctl ex_paused = Inr (Some c)" using ex_selected by blast
  obtain es obj where "createRunAttemptResources ex_resume_ctl ex_paused (resume_attempt ex_paused) (cr_ManifestURI c) =
       (Inr (ControlConfigMapName (rtj_Name ex_paused) (resume_attempt ex_paused),
             ChildJobSetName (rtj_Name ex_paused) (resume_attempt ex_paused)), es)" "created es = [obj]"
    using launchable_creates [OF ex_launchable] by blast
  then have "obj \<in> set (created (effects (reconcileResume ex_resume_ctl ex_paused 3)))"
    by (simp add: reconcileResume_def c Let_def)
  then show ?thesis by (auto simp: in_created)
qed

theorem resume_restores_compatible_witness:
  "\<exists>S obj m. CreateJobSet obj \<in> set (effects (reconcileResume ex_resume_ctl ex_paused 3))
     \<and> compatible_spec (resume_request ex_resume_ctl ex_paused) m \<and> artifacts_present S m"
proof -
  obtain obj where o: "CreateJobSet obj \<in> set (effects (reconcileResume ex_resume_ctl ex_paused 3))"
    using ex_resume_creates by blast
  have "st_Phase (rtj_Status ex_paused) \<noteq> PhaseRestoring" by (simp add: ex_paused_def)
  moreover obtain S where "ce_Catalog ex_resume_ctl = ObjectStoreCatalog S" by (simp add: ex_resume_ctl_def)
  ultimately show ?thesis using resume_restores_compatible [OF _ _ ex_ranges_launch o disjI2 [OF refl]] o by blast
qed

section \<open>One attempt, one JobSet\<close>

lemma rendered_name:
  "RenderChildJobSetUnstructured R input = Inr obj \<Longrightarrow> ob_Name obj = ri_JobSetName input"
  by (auto simp: RenderChildJobSetUnstructured_def RenderChildJobSet_def ToUnstructured_def render_object_def Let_def
      stripKueueManagementMetadata_def split_beta map_sum_def split: sum.splits option.splits)

text \<open>What a successful creation of the resources of attempt \<open>n\<close> leaves.\<close>

definition attempt_made :: "job \<Rightarrow> int \<Rightarrow> string \<times> string \<Rightarrow> effect list \<Rightarrow> bool" where
  "attempt_made job n names es \<longleftrightarrow>
     names = (ControlConfigMapName (rtj_Name job) n, ChildJobSetName (rtj_Name job) n)
     \<and> (created es = [] \<or> (\<exists>obj. created es = [obj] \<and> ob_Name obj = ChildJobSetName (rtj_Name job) n))"

lemma resources_made:
  "createRunAttemptResources E job n uri = (r, es) \<Longrightarrow> length (created es) \<le> 1 \<and> (\<forall>names. r = Inr names \<longrightarrow> attempt_made job n names es)"
  "createRunAttemptResourcesWithPlan E job n uri plan = (r, es) \<Longrightarrow> length (created es) \<le> 1 \<and> (\<forall>names. r = Inr names \<longrightarrow> attempt_made job n names es)"
proof -
  have *: "length (created es) \<le> 1 \<and> (\<forall>names. r = Inr names \<longrightarrow> attempt_made job n names es)"
    if "create_attempt E job n ri = (r, es)"
      "\<And>js cm. ri_JobSetName (ri js cm) = js" for ri
    using create_attempt_created [OF that(1)] create_attempt_names [of E job n ri _ es] that
    by (auto simp: attempt_made_def dest: rendered_name)
  show "createRunAttemptResources E job n uri = (r, es) \<Longrightarrow> length (created es) \<le> 1 \<and> (\<forall>names. r = Inr names \<longrightarrow> attempt_made job n names es)"
    unfolding attempt_defs by (erule *) simp
  show "createRunAttemptResourcesWithPlan E job n uri plan = (r, es) \<Longrightarrow> length (created es) \<le> 1 \<and> (\<forall>names. r = Inr names \<longrightarrow> attempt_made job n names es)"
    unfolding attempt_defs by (erule *) (simp add: toRenderInput_def)
qed

definition run_recorded :: "job \<Rightarrow> ResumableTrainingJobPhase \<Rightarrow> int \<Rightarrow> outcome \<Rightarrow> bool" where
  "run_recorded job p n out \<longleftrightarrow> (let s = rtj_Status (final_job out) in
     rtj_Name (final_job out) = rtj_Name job \<and> st_Phase s = p \<and> st_CurrentRunAttempt s = n
     \<and> st_ActiveJobSetName s = ChildJobSetName (rtj_Name job) n
     \<and> st_ActiveControlConfigMapName s = ControlConfigMapName (rtj_Name job) n
     \<and> (\<forall>obj \<in> set (created (effects out)). ob_Name obj = st_ActiveJobSetName s))"

lemma save_if_final: "result (save_if E b j (Inr RequeueNow, [], j)) = Inr RequeueNow \<Longrightarrow> final_job (save_if E b j (Inr RequeueNow, [], j)) = j"
  by (auto simp: save_if_def save_def split: option.splits)

lemma failLaunch_result: "result (failLaunch E j m) \<noteq> Inr r"
  by (simp add: failLaunch_def save_if_def save_def split_beta split: option.split)

lemma launch_recorded:
  assumes "attempt_made job n names es"
    and "out = emits es (save_if E b j1 (Inr RequeueNow, [], j1))"
    and "j1 = fst (run_all (markStarting (ce_Meta E) n (fst names) (snd names) now # us) job)"
    and "\<forall>u \<in> set us. keeps run_view u" and "result out = Inr RequeueNow"
  shows "run_recorded job PhaseStarting n out"
proof -
  have v: "run_view j1 = run_view (fst (markStarting (ce_Meta E) n (fst names) (snd names) now job))"
    using keepsD [OF keeps_run_all [OF assms(4)]] by (simp add: assms(3) fst_run_all_Cons del: run_all.simps(2))
  have "final_job out = j1" using assms(2,5) save_if_final by simp
  with v assms(1,2) show ?thesis
    unfolding markStarting_view by (auto simp: run_recorded_def run_view_def Let_def attempt_made_def)
qed

lemma restored_recorded:
  assumes "attempt_made job n names es" and "out = emits es (restored E job now n c names us)"
    and "\<forall>u \<in> set us. keeps run_view u" and "result out = Inr RequeueNow"
  shows "run_recorded job PhaseRestoring n out
    \<and> (\<exists>c'. st_SelectedCheckpoint (rtj_Status (final_job out)) = Some c' \<and> cr_ManifestURI c' = cr_ManifestURI c)"
proof -
  obtain j1 b c' where m: "markRestoring (ce_Meta E) n (fst names) (snd names) (Some c) now job = Some (j1, b)"
    and c': "cr_ManifestURI c' = cr_ManifestURI c"
    and v: "run_view j1 = ((PhaseRestoring, n, snd names, fst names, Some c'), st_LastCompletedCheckpoint (rtj_Status job),
              rtj_Spec job, rtj_Name job, rtj_Namespace job)"
    using markRestoring_view by blast
  let ?j2 = "fst (run_all (syncStartupRecoveryOnLaunch now # us) j1)"
  have k: "keeps run_view (run_all (syncStartupRecoveryOnLaunch now # us))"
    using assms(3) by (intro keeps_run_all) simp
  have "restored E job now n c names us = save_if E (b \<or> snd (run_all (syncStartupRecoveryOnLaunch now # us) j1)) ?j2
      (Inr RequeueNow, [], ?j2)"
    by (simp add: restored_def m split_beta del: run_all.simps)
  with assms(2,4) have f: "final_job out = ?j2" and e: "created (effects out) = created es"
    using save_if_final by (auto simp del: run_all.simps)
  from keepsD [OF k, of j1] v assms(1) c' show ?thesis
    by (auto simp: run_recorded_def f e run_view_def Let_def attempt_made_def simp del: run_all.simps)
qed

lemma launch_flows_recorded:
  assumes "out = reconcileLaunch E job now \<or> out = reconcileLaunchWithGate E job now g"
  shows "length (created (effects out)) \<le> 1
    \<and> (result out = Inr RequeueNow \<longrightarrow> run_recorded job PhaseStarting (next_attempt job) out)"
  using assms
proof
  assume out: "out = reconcileLaunch E job now"
  obtain r es where a: "createRunAttemptResources E job (next_attempt job)
      (ResumeManifestURI (st_SelectedCheckpoint (rtj_Status job))) = (r, es)" by (rule prod.exhaust)
  note made = resources_made(1) [OF a]
  show ?thesis
  proof (cases r)
    case (Inl e)
    then show ?thesis using made out by (simp add: reconcileLaunch_def Let_def a failLaunch_result)
  next
    case (Inr names)
    let ?us = "[syncStartupRecoveryOnLaunch now, sync_counts E]"
    let ?r = "run_all (markStarting (ce_Meta E) (next_attempt job) (fst names) (snd names) now # ?us) job"
    have o: "out = emits es (save_if E (snd ?r) (fst ?r) (Inr RequeueNow, [], fst ?r))"
      using out Inr by (simp add: reconcileLaunch_def Let_def a split_beta del: run_all.simps)
    have "created (effects out) = created es" by (simp add: o del: run_all.simps)
    then show ?thesis
      using made Inr launch_recorded [OF _ o refl] by simp
  qed
next
  assume out: "out = reconcileLaunchWithGate E job now g"
  let ?plan = "buildLaunchPlan E job g"
  obtain r es where a: "createRunAttemptResourcesWithPlan E job (next_attempt job)
      (ResumeManifestURI (st_SelectedCheckpoint (rtj_Status job))) ?plan = (r, es)" by (rule prod.exhaust)
  note made = resources_made(2) [OF a]
  show ?thesis
  proof (cases r)
    case (Inl e)
    then show ?thesis using made out by (simp add: reconcileLaunchWithGate_def Let_def a failLaunch_result)
  next
    case (Inr names)
    let ?us = "[syncStartupRecoveryOnLaunch now, sync_resize_relaunch (ce_Meta E) g now, sync_plan ?plan,
        syncEffectiveLaunchShape (buildEffectiveLaunchShape ?plan None)]"
    let ?r = "run_all (markStarting (ce_Meta E) (next_attempt job) (fst names) (snd names) now # ?us) job"
    have o: "out = emits es (save_if E (snd ?r) (fst ?r) (Inr RequeueNow, [], fst ?r))"
      using out Inr by (simp add: reconcileLaunchWithGate_def Let_def a split_beta del: run_all.simps)
    have "created (effects out) = created es" by (simp add: o del: run_all.simps)
    then show ?thesis
      using made Inr launch_recorded [OF _ o refl] by simp
  qed
qed

text \<open>The result of a resume that found a checkpoint, for either variant.\<close>

lemma resume_flows_recorded:
  assumes "out = reconcileResume E job now \<or> out = reconcileResumeWithGate E job now g"
  shows "length (created (effects out)) \<le> 1
    \<and> (result out = Inr RequeueNow \<longrightarrow> run_recorded job PhaseRestoring (resume_attempt job) out
         \<and> (\<exists>c c'. resumeCheckpointForAttempt E job = Inr (Some c) \<and> cr_ManifestURI c' = cr_ManifestURI c
              \<and> st_SelectedCheckpoint (rtj_Status (final_job out)) = Some c'))"
proof (cases "\<exists>c. resumeCheckpointForAttempt E job = Inr (Some c)")
  case False
  have n: "created (effects (no_checkpoint E job now)) = []" "result (no_checkpoint E job now) \<noteq> Inr RequeueNow"
    by (auto simp: no_checkpoint_def Let_def split_beta save_if_def save_def simp del: run_all.simps split: option.splits if_splits)
  from False have "resumeCheckpointForAttempt E job = Inr None \<or> (\<exists>e. resumeCheckpointForAttempt E job = Inl e)"
    by (cases "resumeCheckpointForAttempt E job") (auto simp: not_Some_eq)
  with assms n show ?thesis by (auto simp: reconcileResume_def reconcileResumeWithGate_def failLaunch_result)
next
  case True
  then obtain c where c: "resumeCheckpointForAttempt E job = Inr (Some c)" by blast
  have *: "length (created (effects out)) \<le> 1
    \<and> (result out = Inr RequeueNow \<longrightarrow> run_recorded job PhaseRestoring (resume_attempt job) out
         \<and> (\<exists>c'. st_SelectedCheckpoint (rtj_Status (final_job out)) = Some c' \<and> cr_ManifestURI c' = cr_ManifestURI c))"
    if "length (created es) \<le> 1 \<and> (\<forall>names. r = Inr names \<longrightarrow> attempt_made job (resume_attempt job) names es)"
      "out = (case r of Inl err \<Rightarrow> emits es (failLaunch E job err)
              | Inr names \<Rightarrow> emits es (restored E job now (resume_attempt job) c names us))"
      "\<forall>u \<in> set us. keeps run_view u" for r es us
  proof (cases r)
    case (Inl e)
    with that show ?thesis by (simp add: failLaunch_result)
  next
    case (Inr names)
    have "created (effects (restored E job now (resume_attempt job) c names us)) = []"
      by (simp add: restored_def split_beta split: option.split del: run_all.simps)
    then show ?thesis using that Inr restored_recorded [OF _ _ that(3), of job "resume_attempt job" names es out E now c] by simp
  qed
  obtain r es where a: "createRunAttemptResources E job (resume_attempt job) (cr_ManifestURI c) = (r, es)" by (rule prod.exhaust)
  obtain r' es' where b: "createRunAttemptResourcesWithPlan E job (resume_attempt job) (cr_ManifestURI c)
      (buildLaunchPlan E job g) = (r', es')" by (rule prod.exhaust)
  from assms show ?thesis
  proof
    assume "out = reconcileResume E job now"
    then have "out = (case r of Inl err \<Rightarrow> emits es (failLaunch E job err)
        | Inr names \<Rightarrow> emits es (restored E job now (resume_attempt job) c names
             [\<lambda>j. sync_restore (admittedWorldSize E j) c j, sync_counts E]))"
      by (simp add: reconcileResume_def Let_def a c split: sum.split)
    from * [OF resources_made(1) [OF a] this] c show ?thesis by auto
  next
    assume "out = reconcileResumeWithGate E job now g"
    then have "out = (case r' of Inl err \<Rightarrow> emits es' (failLaunch E job err)
        | Inr names \<Rightarrow> emits es' (restored E job now (resume_attempt job) c names
             [sync_resize_relaunch (ce_Meta E) g now, sync_restore (lp_WorldSize (buildLaunchPlan E job g)) c,
              sync_plan (buildLaunchPlan E job g),
              syncEffectiveLaunchShape (buildEffectiveLaunchShape (buildLaunchPlan E job g) (Some c))]))"
      by (simp add: reconcileResumeWithGate_def Let_def b c split: sum.split)
    from * [OF resources_made(2) [OF b] this] c show ?thesis by auto
  qed
qed

text \<open>
  C24: Every pass of the launch and resume flows creates at most one child JobSet, and a pass that asks to be
  repeated has recorded the attempt it created: the status names the JobSet and the control ConfigMap of the run
  attempt it counts, in phase \<open>Starting\<close> with the next attempt or \<open>Restoring\<close> with the attempt of the resume, and
  a JobSet created in the pass is the one recorded.
\<close>

theorem run_attempt_recorded:
  assumes "out \<in> {reconcileLaunch E job now, reconcileLaunchWithGate E job now g,
                  reconcileResume E job now, reconcileResumeWithGate E job now g}"
  shows "length (created (effects out)) \<le> 1
     \<and> (result out = Inr RequeueNow \<longrightarrow>
          run_recorded job PhaseStarting (next_attempt job) out
        \<or> run_recorded job PhaseRestoring (resume_attempt job) out
            \<and> st_SelectedCheckpoint (rtj_Status (final_job out)) \<noteq> None)"
proof -
  from assms consider "out = reconcileLaunch E job now \<or> out = reconcileLaunchWithGate E job now g"
    | "out = reconcileResume E job now \<or> out = reconcileResumeWithGate E job now g" by blast
  then show ?thesis
  proof cases
    case 1
    from launch_flows_recorded [OF this] show ?thesis by blast
  next
    case 2
    from resume_flows_recorded [OF this] show ?thesis by blast
  qed
qed

theorem run_attempt_recorded_witness: "length (created (effects (reconcileResume ex_resume_ctl ex_paused 3))) = 1"
proof -
  have "created (effects (reconcileResume ex_resume_ctl ex_paused 3)) \<noteq> []"
    using ex_resume_creates by (auto simp flip: in_created)
  then have "length (created (effects (reconcileResume ex_resume_ctl ex_paused 3))) \<noteq> 0" by simp
  with run_attempt_recorded [of "reconcileResume ex_resume_ctl ex_paused 3" ex_resume_ctl ex_paused 3 ex_gate]
  show ?thesis by (cases "created (effects (reconcileResume ex_resume_ctl ex_paused 3))") simp_all
qed

lemma Trim1_nonempty: "x \<in> set s \<Longrightarrow> x \<noteq> c \<Longrightarrow> Trim1 s c \<noteq> []"
  by (induction s) (auto simp: Trim1_def TrimRight1_def)

lemma ChildJobSetName_nonempty: "ChildJobSetName name n \<noteq> ''''"
proof -
  have "CHR ''r'' \<in> set (normalize_name (name @ ''-run-'' @ itoa n))"
    by (simp add: normalize_name_def to_lower_def Let_def)
  then have "Trim1 (normalize_name (name @ ''-run-'' @ itoa n)) (CHR ''-'') \<noteq> []" by (rule Trim1_nonempty) simp
  then show ?thesis by (simp add: ChildJobSetName_def dnsLabel_def Let_def)
qed

text \<open>
  C28: Retrying a resume is stable.  Once a resume has recorded its attempt, the next resume pass on the job as it was
  recorded uses the same run attempt and the same manifest, without asking the catalog again, so it finds or
  completes the JobSet of that attempt instead of starting another one.
\<close>

theorem resume_retry_stable:
  assumes "out = reconcileResume E job now \<or> out = reconcileResumeWithGate E job now g"
    and "result out = Inr RequeueNow"
  shows "resume_attempt (final_job out) = resume_attempt job \<and> shouldResume (final_job out)
    \<and> (\<exists>c c'. resumeCheckpointForAttempt E job = Inr (Some c) \<and> resumeCheckpointForAttempt E' (final_job out) = Inr (Some c')
          \<and> cr_ManifestURI c' = cr_ManifestURI c)
    \<and> (\<forall>now' g'. \<forall>obj \<in> set (created (effects (reconcileResumeWithGate E' (final_job out) now' g'))).
          ob_Name obj = st_ActiveJobSetName (rtj_Status (final_job out)))"
proof -
  obtain c c' where r: "run_recorded job PhaseRestoring (resume_attempt job) out"
    and c: "resumeCheckpointForAttempt E job = Inr (Some c)" "cr_ManifestURI c' = cr_ManifestURI c"
    and s: "st_SelectedCheckpoint (rtj_Status (final_job out)) = Some c'"
    using resume_flows_recorded [OF assms(1)] assms(2) by blast
  have p: "st_Phase (rtj_Status (final_job out)) = PhaseRestoring"
    and n: "st_CurrentRunAttempt (rtj_Status (final_job out)) = resume_attempt job"
    and js: "st_ActiveJobSetName (rtj_Status (final_job out)) \<noteq> ''''"
    and nm: "st_ActiveJobSetName (rtj_Status (final_job out)) = ChildJobSetName (rtj_Name (final_job out)) (resume_attempt job)"
    using r by (auto simp: run_recorded_def Let_def ChildJobSetName_nonempty)
  have "1 \<le> resume_attempt job" by (simp add: resume_attempt_def Let_def)
  then have at: "resume_attempt (final_job out) = resume_attempt job"
    using p n js by (simp add: resume_attempt_def Let_def)
  have "ob_Name obj = st_ActiveJobSetName (rtj_Status (final_job out))"
    if "obj \<in> set (created (effects (reconcileResumeWithGate E' (final_job out) now' g')))" for obj now' g'
  proof -
    from that have "CreateJobSet obj \<in> set (effects (reconcileResumeWithGate E' (final_job out) now' g'))"
      by (simp add: in_created)
    from resume_created [OF this disjI1 [OF refl]] at nm show ?thesis by (metis rendered_name)
  qed
  with at c s p show ?thesis
    by (auto simp: shouldResume_def resumeCheckpointForAttempt_def)
qed

theorem resume_retry_stable_witness:
  "resume_attempt (final_job (reconcileResume ex_resume_ctl ex_paused 3)) = 3"
proof -
  obtain c where c: "resumeCheckpointForAttempt ex_resume_ctl ex_paused = Inr (Some c)" using ex_selected by blast
  obtain es where a: "createRunAttemptResources ex_resume_ctl ex_paused (resume_attempt ex_paused) (cr_ManifestURI c) =
       (Inr (ControlConfigMapName (rtj_Name ex_paused) (resume_attempt ex_paused),
             ChildJobSetName (rtj_Name ex_paused) (resume_attempt ex_paused)), es)"
    using launchable_creates [OF ex_launchable] by blast
  obtain j b where m: "markRestoring (ce_Meta ex_resume_ctl) (resume_attempt ex_paused)
      (ControlConfigMapName (rtj_Name ex_paused) (resume_attempt ex_paused))
      (ChildJobSetName (rtj_Name ex_paused) (resume_attempt ex_paused)) (Some c) 3 ex_paused = Some (j, b)"
    using markRestoring_view by blast
  have "ce_UpdateStatus ex_resume_ctl j' = None" for j' by (simp add: ex_resume_ctl_def ex_ctl_def)
  then have "result (reconcileResume ex_resume_ctl ex_paused 3) = Inr RequeueNow"
    by (simp add: reconcileResume_def c a Let_def restored_def m split_beta save_if_def save_def del: run_all.simps)
  moreover have "resume_attempt ex_paused = 3" by code_simp
  ultimately show ?thesis
    using resume_retry_stable [OF disjI1 [OF refl], of ex_resume_ctl ex_paused 3] by simp
qed

end
