(* ===== verification/DRA_Control.thy ===== *)
theory DRA_Control
  imports Stop_Flow
begin

text \<open>
  The controller's side of dynamic resource allocation: the reconciliation of the ResourceClaimTemplates of a job
  (\<open>internal/controller/dra_templates.go\<close>) and the observation of its claims (\<open>dra_status.go\<close>).
\<close>

section \<open>Templates (\<open>dra_templates.go\<close>)\<close>

definition isOwnedByRTJ :: "OwnerReference list \<Rightarrow> job \<Rightarrow> bool" where
  "isOwnedByRTJ refs job \<longleftrightarrow>
     list_ex (\<lambda>ref. own_Kind ref = ''ResumableTrainingJob'' \<and> own_Name ref = rtj_Name job \<and> own_UID ref = rtj_UID job) refs"

text \<open>The create that ends both branches: an object that exists already is left to the next pass.\<close>

definition create_template :: "ctl_env \<Rightarrow> string \<Rightarrow> DesiredTemplate \<Rightarrow> (go_err + bool) \<times> effect list" where
  "create_template E what dt =
     (case ce_CreateClaimTemplate E (dt_Template dt) of
        Some err \<Rightarrow>
          ((if IsAlreadyExists err then Inr False
            else Inl (what @ '' ResourceClaimTemplate '' @ dt_Name dt @ '': '' @ err_text err)),
           [CreateClaimTemplate (dt_Template dt)])
      | None \<Rightarrow> (Inr True, [CreateClaimTemplate (dt_Template dt)]))"

definition reconcileSingleTemplate :: "ctl_env \<Rightarrow> job \<Rightarrow> DesiredTemplate \<Rightarrow> (go_err + bool) \<times> effect list" where
  "reconcileSingleTemplate E job dt =
     (case ce_GetClaimTemplate E (rtj_Namespace job) (dt_Name dt) of
        Inl err \<Rightarrow>
          if IsNotFound err then create_template E ''create'' dt
          else (Inl (''get ResourceClaimTemplate '' @ dt_Name dt @ '': '' @ err_text err), [])
      | Inr existing \<Rightarrow>
          if TemplateSpecMatches existing (dt_Template dt) then (Inr True, [])
          else
            (case ce_DeleteClaimTemplate E (rcm_Name existing) of
               Some err \<Rightarrow>
                 if IsNotFound err
                 then (case create_template E ''recreate'' dt of
                         (r, es) \<Rightarrow> (r, DeleteClaimTemplate (rcm_Name existing) # es))
                 else (Inl (''delete drifted ResourceClaimTemplate '' @ dt_Name dt @ '': '' @ err_text err),
                       [DeleteClaimTemplate (rcm_Name existing)])
             | None \<Rightarrow>
                 (case create_template E ''recreate'' dt of
                    (r, es) \<Rightarrow> (r, DeleteClaimTemplate (rcm_Name existing) # es))))"

fun reconcile_templates :: "ctl_env \<Rightarrow> job \<Rightarrow> DesiredTemplate list \<Rightarrow> (go_err + bool) \<times> effect list" where
  "reconcile_templates E job [] = (Inr True, [])"
| "reconcile_templates E job (dt # dts) =
     (case reconcileSingleTemplate E job dt of
        (Inl err, es) \<Rightarrow> (Inl (''reconcile template '' @ dt_Name dt @ '': '' @ err), es)
      | (Inr ready, es) \<Rightarrow>
          (case reconcile_templates E job dts of (r, es') \<Rightarrow> (map_sum id (\<lambda>b. ready \<and> b) r, es @ es')))"

fun delete_orphans :: "ctl_env \<Rightarrow> job \<Rightarrow> string list \<Rightarrow> ResourceClaimTemplate list \<Rightarrow> go_err option \<times> effect list" where
  "delete_orphans E job desired [] = (None, [])"
| "delete_orphans E job desired (tmpl # rest) =
     (if rcm_Name tmpl \<in> set desired \<or> \<not> isOwnedByRTJ (rcm_OwnerReferences tmpl) job
      then delete_orphans E job desired rest
      else case ce_DeleteClaimTemplate E (rcm_Name tmpl) of
        Some err \<Rightarrow>
          if IsNotFound err
          then (case delete_orphans E job desired rest of (r, es) \<Rightarrow> (r, DeleteClaimTemplate (rcm_Name tmpl) # es))
          else (Some (''delete orphaned template '' @ rcm_Name tmpl @ '': '' @ err_text err),
                [DeleteClaimTemplate (rcm_Name tmpl)])
      | None \<Rightarrow>
          (case delete_orphans E job desired rest of (r, es) \<Rightarrow> (r, DeleteClaimTemplate (rcm_Name tmpl) # es)))"

text \<open>\<open>ce_ListClaimTemplates\<close> lists the templates of a namespace that carry the labels of the job of a name.\<close>

definition cleanupOrphanedTemplates :: "ctl_env \<Rightarrow> job \<Rightarrow> DesiredTemplate list \<Rightarrow> go_err option \<times> effect list" where
  "cleanupOrphanedTemplates E job desired =
     (case ce_ListClaimTemplates E (rtj_Namespace job) (rtj_Name job) of
        Inl err \<Rightarrow> (Some (''list ResourceClaimTemplates: '' @ err_text err), [])
      | Inr items \<Rightarrow> delete_orphans E job (map dt_Name desired) items)"

record DRATemplateReconcileResult =
  drr_StatusChanged :: bool
  drr_TemplatesReady :: bool

definition reconcileDRATemplates ::
  "ctl_env \<Rightarrow> job \<Rightarrow> (go_err + DRATemplateReconcileResult) \<times> effect list \<times> job" where
  "reconcileDRATemplates E job =
     (let cleared = (case clearDeviceStatus job of (job1, changed) \<Rightarrow>
            (Inr \<lparr> drr_StatusChanged = changed, drr_TemplatesReady = True \<rparr>, [], job1)) in
      case sp_Devices (rtj_Spec job) of
        None \<Rightarrow> cleared
      | Some devices \<Rightarrow>
          if \<not> IsDevicesEnabled job then cleared
          else
            (let profile = BuildProfile (ce_Sha256 E) (Some devices); desired = BuildDesiredTemplates job in
             if List.null desired then cleared
             else case reconcile_templates E job desired of
               (Inl err, es) \<Rightarrow> (Inl err, es, job)
             | (Inr allReady, es) \<Rightarrow>
                 (case cleanupOrphanedTemplates E job desired of
                    (Some err, es') \<Rightarrow> (Inl (''cleanup orphaned templates: '' @ err), es @ es', job)
                  | (None, es') \<Rightarrow>
                      (case syncDeviceStatus profile (TemplateRefs (rtj_Name job) (dev_Claims devices)) job of
                         (job1, changed) \<Rightarrow>
                           (Inr \<lparr> drr_StatusChanged = changed, drr_TemplatesReady = allReady \<rparr>, es @ es', job1)))))"

section \<open>Claims (\<open>dra_status.go\<close>)\<close>

definition syncClaimAllocationFields :: "ClaimAllocationSummary \<Rightarrow> update" where
  "syncClaimAllocationFields summary =
     if_present st_Devices st_Devices_update
       (assigns
          ([assign ds_ClaimAllocationState ds_ClaimAllocationState_update (cas_State summary),
            assign ds_AllocatedClaimCount ds_AllocatedClaimCount_update (cas_AllocatedCount summary)]
           @ (if cas_State summary = ClaimAllocationFailed
              then [assign ds_LastClaimFailureReason ds_LastClaimFailureReason_update (cas_LastFailureReason summary)]
                   @ (case cas_LastFailureTime summary of
                        None \<Rightarrow> []
                      | Some t \<Rightarrow> [assign ds_LastClaimFailureTime ds_LastClaimFailureTime_update (Some t)])
              else [])))"

definition observeDRAClaimStatus ::
  "ctl_env \<Rightarrow> job \<Rightarrow> (go_err + bool \<times> ClaimAllocationSummary) \<times> job" where
  "observeDRAClaimStatus E job =
     (case st_Devices (rtj_Status job) of
        None \<Rightarrow> (Inr (False, zero_summary), job)
      | Some devices \<Rightarrow>
          if \<not> IsDevicesEnabled job then (Inr (False, zero_summary), job)
          else
            (let templateNames = map rct_Name (ds_ResourceClaimTemplateRefs devices) in
             case ce_ListClaims E (rtj_Namespace job) of
               Inl err \<Rightarrow> (Inl (''list ResourceClaims: '' @ err_text err), job)
             | Inr items \<Rightarrow>
                 (let rtjClaims = FilterClaimsForRTJ items (rtj_Name job) (rtj_UID job) templateNames in
                  if List.null rtjClaims \<and> templateNames \<noteq> [] then
                    (if ds_ClaimAllocationState devices = ClaimAllocationUnknown
                     then (Inr (True, zero_summary),
                           job\<lparr> rtj_Status := (rtj_Status job)\<lparr> st_Devices :=
                             Some (devices\<lparr> ds_ClaimAllocationState := ClaimAllocationPending \<rparr>) \<rparr> \<rparr>)
                     else (Inr (False, zero_summary), job))
                  else
                    (let summary = SummarizeClaimAllocations rtjClaims in
                     case syncClaimAllocationFields summary job of
                       (job1, changed) \<Rightarrow> (Inr (changed, summary), job1)))))"

definition syncDRAClaimConditions :: "meta_ops \<Rightarrow> ClaimAllocationSummary \<Rightarrow> gotime \<Rightarrow> update" where
  "syncDRAClaimConditions M summary now =
     (if cas_State summary = ClaimAllocationFailed
      then setCondition M ''DRAClaimAllocationFailed'' ConditionTrue ''ClaimAllocationFailed''
             (''DRA claim allocation failed: '' @ itoa (cas_FailedCount summary) @ ''/'' @
              itoa (cas_TotalClaims summary) @ '' claims failed. Last failure: '' @ cas_LastFailureReason summary) now
      else clearCondition ''DRAClaimAllocationFailed'')"

section \<open>Templates of a namespace\<close>

text \<open>The templates a namespace holds, and what the effects of a pass make of them.\<close>

type_synonym templates = "string \<rightharpoonup> ResourceClaimTemplate"

fun template_effect :: "effect \<Rightarrow> templates \<Rightarrow> templates" where
  "template_effect (CreateClaimTemplate t) st = st(rcm_Name t \<mapsto> t)"
| "template_effect (DeleteClaimTemplate n) st = st(n := None)"
| "template_effect _ st = st"

definition templates_after :: "effect list \<Rightarrow> templates \<Rightarrow> templates" where
  "templates_after es st = fold template_effect es st"

definition labelled_for :: "string \<Rightarrow> ResourceClaimTemplate \<Rightarrow> bool" where
  "labelled_for name t \<longleftrightarrow> rcm_Labels t ''training.checkpoint.example.io/rtj-name'' = Some name
     \<and> rcm_Labels t ''training.checkpoint.example.io/managed-by'' = Some ''rtj-operator''"

text \<open>An API server that answers for these templates and rejects no write; no other client interferes.\<close>

definition serves_templates :: "ctl_env \<Rightarrow> string \<Rightarrow> templates \<Rightarrow> bool" where
  "serves_templates E ns st \<longleftrightarrow>
     (\<forall>n t. st n = Some t \<longrightarrow> rcm_Name t = n \<and> ce_GetClaimTemplate E ns n = Inr t)
     \<and> (\<forall>n. st n = None \<longrightarrow> (\<exists>err. ce_GetClaimTemplate E ns n = Inl err \<and> IsNotFound err))
     \<and> (\<forall>t. ce_CreateClaimTemplate E t = None) \<and> (\<forall>n. ce_DeleteClaimTemplate E n = None)
     \<and> (\<forall>name. \<exists>items. ce_ListClaimTemplates E ns name = Inr items
          \<and> set items = {t. labelled_for name t \<and> (\<exists>n. st n = Some t)})"

definition template_writes :: "templates \<Rightarrow> DesiredTemplate \<Rightarrow> effect list" where
  "template_writes st dt =
     (case st (dt_Name dt) of
        None \<Rightarrow> [CreateClaimTemplate (dt_Template dt)]
      | Some t \<Rightarrow> if TemplateSpecMatches t (dt_Template dt) then []
                  else [DeleteClaimTemplate (dt_Name dt), CreateClaimTemplate (dt_Template dt)])"

lemma reconcileSingleTemplate_served:
  assumes "serves_templates E (rtj_Namespace job) st"
  shows "reconcileSingleTemplate E job dt = (Inr True, template_writes st dt)"
proof (cases "st (dt_Name dt)")
  case None
  then obtain err where "ce_GetClaimTemplate E (rtj_Namespace job) (dt_Name dt) = Inl err" "IsNotFound err"
    using assms unfolding serves_templates_def by blast
  with None assms show ?thesis
    by (simp add: serves_templates_def reconcileSingleTemplate_def create_template_def template_writes_def)
next
  case (Some t)
  with assms show ?thesis
    by (auto simp: serves_templates_def reconcileSingleTemplate_def create_template_def template_writes_def)
qed

lemma reconcile_templates_served:
  assumes "serves_templates E (rtj_Namespace job) st"
  shows "reconcile_templates E job dts = (Inr True, concat (map (template_writes st) dts))"
  by (induction dts) (simp_all add: reconcileSingleTemplate_served [OF assms])

lemma delete_orphans_served:
  assumes "serves_templates E ns st"
  shows "delete_orphans E job desired items = (None, map (DeleteClaimTemplate \<circ> rcm_Name)
     (filter (\<lambda>t. rcm_Name t \<notin> set desired \<and> isOwnedByRTJ (rcm_OwnerReferences t) job) items))"
  using assms by (induction items) (auto simp: serves_templates_def)

text \<open>A template name is written only by its own desired template.\<close>

lemma template_writes_after:
  assumes "rcm_Name (dt_Template dt) = dt_Name dt"
  shows "templates_after (template_writes st0 dt) st n =
     (if n = dt_Name dt \<and> template_writes st0 dt \<noteq> [] then Some (dt_Template dt) else st n)"
  using assms by (auto simp: template_writes_def templates_after_def split: option.split)

lemma templates_after_simps [simp]:
  "templates_after [] st = st" "templates_after (es @ es') st = templates_after es' (templates_after es st)"
  by (simp_all add: templates_after_def)

lemma all_writes_after:
  assumes "distinct (map dt_Name dts)" and "\<forall>dt \<in> set dts. rcm_Name (dt_Template dt) = dt_Name dt"
  shows "templates_after (concat (map (template_writes st0) dts)) st n =
     (case find (\<lambda>dt. dt_Name dt = n \<and> template_writes st0 dt \<noteq> []) dts of
        Some dt \<Rightarrow> Some (dt_Template dt) | None \<Rightarrow> st n)"
  using assms
proof (induction dts arbitrary: st)
  case (Cons dt dts)
  have *: "find (\<lambda>d. dt_Name d = n \<and> template_writes st0 d \<noteq> []) dts = None" if "n = dt_Name dt"
  proof -
    have "dt_Name dt \<notin> dt_Name ` set dts" using Cons.prems(1) by simp
    with that show ?thesis unfolding find_None_iff by (metis image_eqI)
  qed
  have ih: "templates_after (concat (map (template_writes st0) dts)) st' n =
     (case find (\<lambda>dt. dt_Name dt = n \<and> template_writes st0 dt \<noteq> []) dts of
        Some dt \<Rightarrow> Some (dt_Template dt) | None \<Rightarrow> st' n)" for st'
    using Cons.IH Cons.prems by simp
  show ?case
    using * Cons.prems(2) by (auto simp: ih template_writes_after split: option.splits)
qed simp

lemma deletes_after: "templates_after (map (DeleteClaimTemplate \<circ> rcm_Name) ts) st n = (if n \<in> rcm_Name ` set ts then None else st n)"
  by (induction ts arbitrary: st) (auto simp: templates_after_def)

section \<open>The templates of a job\<close>

definition claim_template :: "job \<Rightarrow> DeviceClaimSpec \<Rightarrow> ResourceClaimTemplate" where
  "claim_template job claim = buildTemplate job (TemplateNameForClaim (rtj_Name job) (dc_Name claim)) claim"

definition desired_of :: "job \<Rightarrow> DeviceClaimSpec \<Rightarrow> DesiredTemplate" where
  "desired_of job claim = \<lparr> dt_Name = TemplateNameForClaim (rtj_Name job) (dc_Name claim), dt_ClaimName = dc_Name claim,
     dt_Template = claim_template job claim \<rparr>"

lemma template_matches_itself [simp]: "TemplateSpecMatches (claim_template job c) (claim_template job c)"
  by (simp add: TemplateSpecMatches_def request_matches_def selectorsEqual_def list.rel_refl)

lemma claim_template_simps [simp]:
  "rcm_Name (claim_template job c) = TemplateNameForClaim (rtj_Name job) (dc_Name c)"
  "labelled_for (rtj_Name job) (claim_template job c)"
  by (simp_all add: claim_template_def buildTemplate_def labelled_for_def)

lemma TemplateNameForClaim_inj [simp]: "TemplateNameForClaim n a = TemplateNameForClaim n b \<longleftrightarrow> a = b"
  by (simp add: TemplateNameForClaim_def)

lemma desired_templates:
  assumes "sp_Devices (rtj_Spec job) = Some d" and "dev_Mode d = DeviceModeDRA"
  shows "mset (BuildDesiredTemplates job) = image_mset (desired_of job) (mset (dev_Claims d))"
    and "set (BuildDesiredTemplates job) = desired_of job ` set (dev_Claims d)"
proof -
  have "desired_of job = (\<lambda>claim. let name = TemplateNameForClaim (rtj_Name job) (dc_Name claim) in
      \<lparr> dt_Name = name, dt_ClaimName = dc_Name claim, dt_Template = buildTemplate job name claim \<rparr>)"
    by (simp add: fun_eq_iff desired_of_def claim_template_def Let_def)
  then show "mset (BuildDesiredTemplates job) = image_mset (desired_of job) (mset (dev_Claims d))"
    using assms by (simp add: BuildDesiredTemplates_def)
  then show "set (BuildDesiredTemplates job) = desired_of job ` set (dev_Claims d)"
    by (metis set_image_mset set_mset_mset)
qed

lemma desired_distinct:
  assumes "sp_Devices (rtj_Spec job) = Some d" and "dev_Mode d = DeviceModeDRA" and "distinct (map dc_Name (dev_Claims d))"
  shows "distinct (map dt_Name (BuildDesiredTemplates job))"
proof -
  have "mset (map dt_Name (BuildDesiredTemplates job)) = mset (map (TemplateNameForClaim (rtj_Name job)) (map dc_Name (dev_Claims d)))"
    by (simp add: desired_templates [OF assms(1,2)] multiset.map_comp comp_def desired_of_def)
  moreover have "distinct (map (TemplateNameForClaim (rtj_Name job)) (map dc_Name (dev_Claims d)))"
    using assms(3) by (auto simp: distinct_map inj_on_def)
  ultimately show ?thesis by (metis distinct_count_atmost_1 set_mset_mset)
qed

section \<open>Convergence\<close>

text \<open>A namespace that holds what a job asks for, and nothing else of that job.\<close>

definition templates_settled :: "job \<Rightarrow> DeviceClaimSpec list \<Rightarrow> templates \<Rightarrow> bool" where
  "templates_settled job claims st \<longleftrightarrow>
     (\<forall>claim \<in> set claims. \<exists>t. st (TemplateNameForClaim (rtj_Name job) (dc_Name claim)) = Some t
        \<and> TemplateSpecMatches t (claim_template job claim))
     \<and> (\<forall>n t. st n = Some t \<longrightarrow> labelled_for (rtj_Name job) t \<longrightarrow> isOwnedByRTJ (rcm_OwnerReferences t) job \<longrightarrow>
          n \<in> (TemplateNameForClaim (rtj_Name job) \<circ> dc_Name) ` set claims)"

definition orphans :: "job \<Rightarrow> DeviceClaimSpec list \<Rightarrow> ResourceClaimTemplate list \<Rightarrow> ResourceClaimTemplate list" where
  "orphans job claims = filter (\<lambda>t. rcm_Name t \<notin> (TemplateNameForClaim (rtj_Name job) \<circ> dc_Name) ` set claims
     \<and> isOwnedByRTJ (rcm_OwnerReferences t) job)"

lemma reconcileDRATemplates_served:
  assumes "sp_Devices (rtj_Spec job) = Some d" and "dev_Mode d = DeviceModeDRA" and "dev_Claims d \<noteq> []"
    and "serves_templates E (rtj_Namespace job) st" and "ce_ListClaimTemplates E (rtj_Namespace job) (rtj_Name job) = Inr items"
  shows "reconcileDRATemplates E job =
    (case syncDeviceStatus (BuildProfile (ce_Sha256 E) (Some d)) (TemplateRefs (rtj_Name job) (dev_Claims d)) job of
       (job1, changed) \<Rightarrow>
         (Inr \<lparr> drr_StatusChanged = changed, drr_TemplatesReady = True \<rparr>,
          concat (map (template_writes st) (BuildDesiredTemplates job))
            @ map (DeleteClaimTemplate \<circ> rcm_Name) (orphans job (dev_Claims d) items), job1))"
proof -
  have ds: "\<not> List.null (BuildDesiredTemplates job)"
    using desired_templates(2) [OF assms(1,2)] assms(3) by auto
  have n: "set (map dt_Name (BuildDesiredTemplates job)) = (TemplateNameForClaim (rtj_Name job) \<circ> dc_Name) ` set (dev_Claims d)"
    by (auto simp: desired_templates(2) [OF assms(1,2)] desired_of_def image_iff)
  have "IsDevicesEnabled job" using assms(1,2) by (simp add: IsDevicesEnabled_def)
  then show ?thesis
    using assms(1,5) ds
    by (simp add: reconcileDRATemplates_def Let_def cleanupOrphanedTemplates_def reconcile_templates_served [OF assms(4)]
        delete_orphans_served [OF assms(4)] n orphans_def split_beta del: set_map)
qed

lemma settled_writes:
  assumes "templates_settled job (dev_Claims d) st" and "sp_Devices (rtj_Spec job) = Some d" and "dev_Mode d = DeviceModeDRA"
    and "\<forall>t \<in> set items. labelled_for (rtj_Name job) t \<and> (\<exists>n. st n = Some t)"
    and "\<And>n t. st n = Some t \<Longrightarrow> rcm_Name t = n"
  shows "concat (map (template_writes st) (BuildDesiredTemplates job)) = []" and "orphans job (dev_Claims d) items = []"
proof -
  show "concat (map (template_writes st) (BuildDesiredTemplates job)) = []"
    using assms(1) by (auto simp: desired_templates(2) [OF assms(2,3)] desired_of_def template_writes_def templates_settled_def
        split: option.split)
  show "orphans job (dev_Claims d) items = []"
    using assms(1,4,5) unfolding orphans_def filter_empty_conv templates_settled_def by metis
qed

lemma syncDeviceStatus_settles:
  "snd (syncDeviceStatus p refs (fst (syncDeviceStatus p refs j))) = False"
  "rtj_Spec (fst (syncDeviceStatus p refs j)) = rtj_Spec j" "rtj_Name (fst (syncDeviceStatus p refs j)) = rtj_Name j"
  "rtj_Namespace (fst (syncDeviceStatus p refs j)) = rtj_Namespace j" "rtj_UID (fst (syncDeviceStatus p refs j)) = rtj_UID j"
  by (auto simp: syncDeviceStatus_def sync_field_def Let_def deviceStatusEqual_def ptr_equal_def list_all_iff split: option.splits)

lemma served_list:
  assumes "serves_templates E ns st"
  shows "\<exists>items. ce_ListClaimTemplates E ns name = Inr items \<and> set items = {t. labelled_for name t \<and> (\<exists>n. st n = Some t)}"
    and "st n = Some t \<Longrightarrow> rcm_Name t = n"
  using assms unfolding serves_templates_def by blast+

lemma templates_pass:
  assumes "sp_Devices (rtj_Spec job) = Some d" and "dev_Mode d = DeviceModeDRA" and "distinct (map dc_Name (dev_Claims d))"
    and "serves_templates E (rtj_Namespace job) st"
    and "set items = {t. labelled_for (rtj_Name job) t \<and> (\<exists>n. st n = Some t)}"
  shows "templates_after (concat (map (template_writes st) (BuildDesiredTemplates job))
            @ map (DeleteClaimTemplate \<circ> rcm_Name) (orphans job (dev_Claims d) items)) st n =
     (case find (\<lambda>claim. TemplateNameForClaim (rtj_Name job) (dc_Name claim) = n) (dev_Claims d) of
        Some claim \<Rightarrow>
          (case st n of
             Some t \<Rightarrow> Some (if TemplateSpecMatches t (claim_template job claim) then t else claim_template job claim)
           | None \<Rightarrow> Some (claim_template job claim))
      | None \<Rightarrow> (case st n of
             Some t \<Rightarrow> if labelled_for (rtj_Name job) t \<and> isOwnedByRTJ (rcm_OwnerReferences t) job then None else Some t
           | None \<Rightarrow> None))"
proof -
  let ?ds = "BuildDesiredTemplates job"
  let ?name = "\<lambda>claim. TemplateNameForClaim (rtj_Name job) (dc_Name claim)"
  note ds = desired_templates(2) [OF assms(1,2)]
  have names: "\<forall>dt \<in> set ?ds. rcm_Name (dt_Template dt) = dt_Name dt" by (auto simp: ds desired_of_def)
  note w = all_writes_after [OF desired_distinct [OF assms(1-3)] names, of st st n]
  show ?thesis
  proof (cases "find (\<lambda>claim. ?name claim = n) (dev_Claims d)")
    case (Some claim)
    then have c: "claim \<in> set (dev_Claims d)" "?name claim = n" by (auto simp: find_Some_iff)
    then have o: "n \<notin> rcm_Name ` set (orphans job (dev_Claims d) items)"
      by (auto simp: orphans_def dest!: spec [of _ claim] intro: rev_image_eqI)
    have u: "dt = desired_of job claim" if dt: "dt \<in> set ?ds" "dt_Name dt = n" for dt
    proof -
      obtain claim' where "claim' \<in> set (dev_Claims d)" "dt = desired_of job claim'" using dt(1) ds by auto
      moreover from this have "dc_Name claim' = dc_Name claim" using dt(2) c(2) by (auto simp: desired_of_def)
      ultimately show ?thesis using assms(3) c(1) by (auto simp: distinct_map dest: inj_onD)
    qed
    have m: "desired_of job claim \<in> set ?ds" "dt_Name (desired_of job claim) = n" using c ds by (auto simp: desired_of_def)
    have f: "find (\<lambda>dt. dt_Name dt = n \<and> template_writes st dt \<noteq> []) ?ds =
        (if template_writes st (desired_of job claim) \<noteq> [] then Some (desired_of job claim) else None)"
    proof (cases "find (\<lambda>dt. dt_Name dt = n \<and> template_writes st dt \<noteq> []) ?ds")
      case None
      with m show ?thesis by (auto simp: find_None_iff)
    next
      case (Some dt)
      then have "dt \<in> set ?ds" "dt_Name dt = n" "template_writes st dt \<noteq> []" by (auto simp: find_Some_iff)
      with u Some show ?thesis by auto
    qed
    have tw: "template_writes st (desired_of job claim) =
        (case st n of None \<Rightarrow> [CreateClaimTemplate (claim_template job claim)]
         | Some t \<Rightarrow> if TemplateSpecMatches t (claim_template job claim) then []
                     else [DeleteClaimTemplate n, CreateClaimTemplate (claim_template job claim)])"
      using c(2) by (simp add: template_writes_def desired_of_def split: option.split)
    have "templates_after (concat (map (template_writes st) ?ds)) st n =
        (if template_writes st (desired_of job claim) \<noteq> [] then Some (claim_template job claim) else st n)"
      unfolding w f by (simp add: desired_of_def)
    then show ?thesis
      using Some o by (simp add: deletes_after tw split: option.split)
  next
    case None
    then have nc: "n \<notin> (TemplateNameForClaim (rtj_Name job) \<circ> dc_Name) ` set (dev_Claims d)" by (auto simp: find_None_iff)
    then have f: "find (\<lambda>dt. dt_Name dt = n \<and> template_writes st dt \<noteq> []) ?ds = None"
      by (auto simp: find_None_iff ds desired_of_def)
    have "n \<in> rcm_Name ` set (orphans job (dev_Claims d) items) \<longleftrightarrow>
        (\<exists>t. st n = Some t \<and> labelled_for (rtj_Name job) t \<and> isOwnedByRTJ (rcm_OwnerReferences t) job)"
      using nc served_list(2) [OF assms(4)] by (force simp: orphans_def assms(5))
    with None show ?thesis by (auto simp: deletes_after w f split: option.splits)
  qed
qed

lemma find_distinct: "distinct (map f xs) \<Longrightarrow> x \<in> set xs \<Longrightarrow> find (\<lambda>y. f y = f x) xs = Some x"
  by (induction xs) (auto simp: image_iff)

lemma settled_identity:
  assumes "rtj_Name job' = rtj_Name job" and "rtj_Namespace job' = rtj_Namespace job" and "rtj_UID job' = rtj_UID job"
  shows "templates_settled job' claims st = templates_settled job claims st"
proof -
  have "claim_template job' c = claim_template job c" for c
    by (simp add: claim_template_def buildTemplate_def assms)
  then show ?thesis by (simp add: templates_settled_def isOwnedByRTJ_def assms)
qed

lemma settled_pass:
  assumes "sp_Devices (rtj_Spec job) = Some d" and "dev_Mode d = DeviceModeDRA" and "dev_Claims d \<noteq> []"
    and "serves_templates E (rtj_Namespace job) st" and "templates_settled job (dev_Claims d) st"
    and "\<not> snd (syncDeviceStatus (BuildProfile (ce_Sha256 E) (Some d)) (TemplateRefs (rtj_Name job) (dev_Claims d)) job)"
  shows "reconcileDRATemplates E job = (Inr \<lparr> drr_StatusChanged = False, drr_TemplatesReady = True \<rparr>, [], job)"
proof -
  from served_list(1) [OF assms(4), of "rtj_Name job"] obtain items where
    i: "ce_ListClaimTemplates E (rtj_Namespace job) (rtj_Name job) = Inr items"
    "\<forall>t \<in> set items. labelled_for (rtj_Name job) t \<and> (\<exists>n. st n = Some t)" by auto
  have w: "concat (map (template_writes st) (BuildDesiredTemplates job)) = []" "orphans job (dev_Claims d) items = []"
    by (rule settled_writes [OF assms(5,1,2) i(2)], erule served_list(2) [OF assms(4)])+
  show ?thesis
    unfolding reconcileDRATemplates_served [OF assms(1-4) i(1)] w
    using assms(6) honestD [OF honest_device_helpers(4) assms(6)] by (simp add: split_beta)
qed


text \<open>A namespace with a drifted template and an orphan of the job.\<close>

definition ex_dra_job :: job where
  "ex_dra_job = ex_job\<lparr> rtj_Spec := ex_spec\<lparr> sp_Devices :=
     Some \<lparr> dev_Mode = DeviceModeDRA, dev_Claims = [ex_claim ''gpu'' [''x'']] \<rparr> \<rparr> \<rparr>"

definition ex_templates :: templates where
  "ex_templates = [''j-gpu'' \<mapsto> (claim_template ex_dra_job (ex_claim ''gpu'' [])),
                   ''j-nic'' \<mapsto> claim_template ex_dra_job (ex_claim ''nic'' [])]"

definition serve :: "ctl_env \<Rightarrow> templates \<Rightarrow> string list \<Rightarrow> ctl_env" where
  "serve E st ns = E\<lparr> ce_GetClaimTemplate := (\<lambda>_ n. case st n of Some t \<Rightarrow> Inr t | None \<Rightarrow> Inl (ApiNotFound n)),
     ce_CreateClaimTemplate := (\<lambda>_. None), ce_DeleteClaimTemplate := (\<lambda>_. None),
     ce_ListClaimTemplates := (\<lambda>_ name. Inr (filter (labelled_for name) (List.map_filter st ns))) \<rparr>"

lemma serves_serve:
  assumes "dom st \<subseteq> set ns" and "\<And>n t. st n = Some t \<Longrightarrow> rcm_Name t = n"
  shows "serves_templates (serve E st ns) any st"
proof -
  have "set (List.map_filter st xs) = {t. \<exists>n \<in> set xs. st n = Some t}" for xs
    by (induction xs) (auto simp: map_filter_simps split: option.split)
  moreover have "n \<in> set ns" if "st n = Some t" for n t using assms(1) that by blast
  ultimately show ?thesis using assms(2) unfolding serves_templates_def
    by (intro conjI allI impI) (auto simp: serve_def)
qed

lemma named_after:
  assumes "\<forall>n t. st n = Some t \<longrightarrow> rcm_Name t = n" and "finite (dom st)"
  shows "(\<forall>n t. templates_after es st n = Some t \<longrightarrow> rcm_Name t = n) \<and> finite (dom (templates_after es st))"
  using assms
proof (induction es arbitrary: st)
  case (Cons e es)
  have "(\<forall>n t. template_effect e st n = Some t \<longrightarrow> rcm_Name t = n) \<and> finite (dom (template_effect e st))"
    using Cons.prems by (cases e) auto
  with Cons.IH [of "template_effect e st"] show ?case by (simp add: templates_after_def)
qed simp


section \<open>Templates of another job\<close>

text \<open>A template name does not tell which part of it is the job's name.  A job deletes and replaces the template
  of another job whose name and claim name join to the same text, since the name of the request differs and its
  owner is not looked at.\<close>

lemma template_collision:
  assumes "TemplateNameForClaim (rtj_Name job') (dc_Name c') = TemplateNameForClaim (rtj_Name job) (dc_Name c)"
    and "dc_Name c' \<noteq> dc_Name c" and "serves_templates E (rtj_Namespace job) st"
    and "st (TemplateNameForClaim (rtj_Name job) (dc_Name c)) = Some (claim_template job' c')"
  shows "snd (reconcileSingleTemplate E job (desired_of job c)) =
     [DeleteClaimTemplate (rcm_Name (claim_template job' c')), CreateClaimTemplate (claim_template job c)]"
proof -
  have "\<not> TemplateSpecMatches (claim_template job' c') (claim_template job c)"
    using assms(2) by (simp add: TemplateSpecMatches_def request_matches_def claim_template_def buildTemplate_def)
  then show ?thesis
    using assms(1,4) by (simp add: reconcileSingleTemplate_served [OF assms(3)] template_writes_def desired_of_def)
qed

lemma template_collision_instance:
  "TemplateNameForClaim ''train-a'' ''gpu'' = TemplateNameForClaim ''train'' ''a-gpu''"
  by (simp add: TemplateNameForClaim_def)

end
