(* ===== verification/Priority_State.thy ===== *)
theory Priority_State
  imports Stop_Flow
begin

text \<open>
  Priority shaping in the controller: the telemetry snapshot and the yield history (\<open>internal/controller/telemetry.go\<close>,
  with \<open>recordYieldForTelemetry\<close> of \<open>status_helpers.go\<close>), and the evaluation of the policy of a job, its status,
  annotations and condition and the patch of the workload's priority (\<open>priority_state.go\<close>).
\<close>

section \<open>Yield history (\<open>telemetry.go\<close>)\<close>

definition yieldHistoryAnnotation :: string where
  "yieldHistoryAnnotation = ''training.checkpoint.example.io/yield-history''"

definition parseYieldHistory :: "ctl_env \<Rightarrow> string \<Rightarrow> gotime list" where
  "parseYieldHistory E raw =
     (case ce_DecodeStrings E raw of Inl _ \<Rightarrow> [] | Inr parsed \<Rightarrow> List.map_filter parse_RFC3339 parsed)"

definition countYieldsInWindow :: "ctl_env \<Rightarrow> job \<Rightarrow> gotime \<Rightarrow> duration \<Rightarrow> int" where
  "countYieldsInWindow E job now window =
     (if window \<le> 0 then 0
      else case rtj_Annotations job yieldHistoryAnnotation of
        None \<Rightarrow> 0
      | Some raw \<Rightarrow>
          if raw = '''' then 0
          else let cutoff = time_Add now (- window)
               in fold (\<lambda>ts count. if \<not> ts < cutoff then wrap32 (count + 1) else count) (parseYieldHistory E raw) 0)"

text \<open>\<open>json.Marshal\<close> of a list of timestamps: none of their characters is escaped.\<close>

definition marshalYieldHistory :: "gotime list \<Rightarrow> string" where
  "marshalYieldHistory timestamps =
     ''['' @ Join (map (\<lambda>ts. char_of (34 :: nat) # format_RFC3339 ts @ [char_of (34 :: nat)]) timestamps) '','' @ '']''"

definition set_annotation :: "string \<Rightarrow> string \<Rightarrow> job \<Rightarrow> job" where
  "set_annotation k v job = job\<lparr> rtj_Annotations := (rtj_Annotations job)(k \<mapsto> v) \<rparr>"

definition RecordYieldEvent :: "ctl_env \<Rightarrow> gotime \<Rightarrow> duration \<Rightarrow> job \<Rightarrow> job \<times> bool" where
  "RecordYieldEvent E now window job =
     (let existing = parseYieldHistory E (mget (rtj_Annotations job) yieldHistoryAnnotation);
          cutoff = time_Add now (- window);
          kept = filter (\<lambda>ts. \<not> ts < cutoff) existing @ [now]
      in (set_annotation yieldHistoryAnnotation (marshalYieldHistory kept) job, True))"

definition recordYieldForTelemetry :: "ctl_env \<Rightarrow> gotime \<Rightarrow> duration \<Rightarrow> job \<Rightarrow> job \<times> bool" where
  "recordYieldForTelemetry E now yieldWindow job =
     (if \<not> IsPriorityShapingEnabled job then (job, False)
      else case RecordYieldEvent E now yieldWindow job of
        (job1, changed) \<Rightarrow>
          (case with_default zero_PriorityShapingStatus st_PriorityShaping st_PriorityShaping_update
                  (assign psh_LastYieldTime psh_LastYieldTime_update (Some now)) job1 of
             (job2, b) \<Rightarrow> (job2, changed \<or> b)))"

section \<open>The snapshot\<close>

record TelemetrySnapshot =
  tsn_LastCompletedCheckpointTime :: "gotime option"
  tsn_LastCompletedCheckpointID :: string
  tsn_LastCompletedCheckpointStep :: int
  tsn_LastRunStartTime :: "gotime option"
  tsn_LastResumeTime :: "gotime option"
  tsn_LastYieldTime :: "gotime option"
  tsn_LastDrainDuration :: duration
  tsn_RecentYieldCount :: int
  tsn_CurrentRunActiveSince :: "gotime option"

text \<open>Time, identifier and step of the last checkpoint: from the status, else from the catalog.\<close>

definition checkpoint_telemetry :: "ctl_env \<Rightarrow> job \<Rightarrow> gotime option \<times> string \<times> int" where
  "checkpoint_telemetry E job =
     (let (t, ident) = (case st_LastCompletedCheckpoint (rtj_Status job) of
                          None \<Rightarrow> (None, '''') | Some ref \<Rightarrow> (cr_CompletionTime ref, cr_ID ref))
      in if t \<noteq> None then (t, ident, 0)
         else case catalog_LatestCheckpointInfo (ce_Catalog E) (cp_StorageURI (sp_Checkpoint (rtj_Spec job))) of
                Inr (Some info) \<Rightarrow> (Some (ci_CompletionTimestamp info), ci_CheckpointID info, ci_GlobalStep info)
              | _ \<Rightarrow> (t, ident, 0))"

definition CollectTelemetry :: "ctl_env \<Rightarrow> job \<Rightarrow> gotime \<Rightarrow> duration \<Rightarrow> TelemetrySnapshot" where
  "CollectTelemetry E job now yieldWindow =
     (let ts = st_TransitionTimestamps (rtj_Status job);
          (checkpointTime, ident, step) = checkpoint_telemetry E job
      in \<lparr> tsn_LastCompletedCheckpointTime = checkpointTime, tsn_LastCompletedCheckpointID = ident,
           tsn_LastCompletedCheckpointStep = step, tsn_LastRunStartTime = tt_StartingAt ts,
           tsn_LastResumeTime =
             (if tt_RestoreCompletedAt ts \<noteq> None then tt_RestoreCompletedAt ts
              else if tt_RestoringAt ts \<noteq> None \<and> tt_RunningAt ts \<noteq> None then tt_RunningAt ts else None),
           tsn_LastYieldTime = tt_YieldRequestedAt ts,
           tsn_LastDrainDuration =
             (case (tt_YieldRequestedAt ts, tt_PausedAt ts) of
                (Some y, Some p) \<Rightarrow> if p > y then time_Sub p y else 0
              | _ \<Rightarrow> 0),
           tsn_RecentYieldCount = countYieldsInWindow E job now yieldWindow,
           tsn_CurrentRunActiveSince = tt_RunningAt ts \<rparr>)"

definition policy_name :: "job \<Rightarrow> string" where
  "policy_name job = (case sp_PriorityPolicyRef (rtj_Spec job) of None \<Rightarrow> '''' | Some n \<Rightarrow> n)"

definition SyncPriorityShapingTelemetry :: "TelemetrySnapshot \<Rightarrow> gotime \<Rightarrow> update" where
  "SyncPriorityShapingTelemetry snap now job =
     (if \<not> IsPriorityShapingEnabled job then drop_field st_PriorityShaping st_PriorityShaping_update job
      else with_default zero_PriorityShapingStatus st_PriorityShaping st_PriorityShaping_update
        (assigns
           [assign psh_LastCompletedCheckpointTime psh_LastCompletedCheckpointTime_update
              (tsn_LastCompletedCheckpointTime snap),
            assign psh_CheckpointAge psh_CheckpointAge_update
              (case tsn_LastCompletedCheckpointTime snap of
                 None \<Rightarrow> '''' | Some t \<Rightarrow> Duration_String (Duration_Round (time_Sub now t) Second)),
            assign psh_LastYieldTime psh_LastYieldTime_update (tsn_LastYieldTime snap),
            assign psh_LastResumeTime psh_LastResumeTime_update (tsn_LastResumeTime snap),
            assign psh_RecentYieldCount psh_RecentYieldCount_update (tsn_RecentYieldCount snap),
            assign psh_AppliedPolicyRef psh_AppliedPolicyRef_update (policy_name job)]) job)"

section \<open>Evaluation (\<open>priority_state.go\<close>)\<close>

record PriorityStateResult =
  psr_StatusChanged :: bool
  psr_WorkloadPatched :: bool
  psr_AnnotationsChanged :: bool
  psr_Decision :: "Decision option"
  psr_RequeueAfter :: duration

definition zero_priority_result :: PriorityStateResult where
  "zero_priority_result = \<lparr> psr_StatusChanged = False, psr_WorkloadPatched = False, psr_AnnotationsChanged = False,
     psr_Decision = None, psr_RequeueAfter = 0 \<rparr>"

definition effectivePriorityAnnotation :: string where
  "effectivePriorityAnnotation = ''training.checkpoint.example.io/effective-priority''"

definition preemptionStateAnnotation :: string where
  "preemptionStateAnnotation = ''training.checkpoint.example.io/preemption-state''"

definition resolvePolicy :: "ctl_env \<Rightarrow> job \<Rightarrow> string + CheckpointPriorityPolicySpec" where
  "resolvePolicy E job =
     (case sp_PriorityPolicyRef (rtj_Spec job) of
        None \<Rightarrow> Inl ''no priorityPolicyRef set''
      | Some name \<Rightarrow> map_sum err_text Policy_Default (ce_GetPriorityPolicy E name))"

definition resolveBasePriority :: "ctl_env \<Rightarrow> job \<Rightarrow> string + int" where
  "resolveBasePriority E job = map_sum err_text id (ce_GetPriorityClass E (sp_WorkloadPriorityClassName (rtj_Spec job)))"

definition buildEvaluationInput :: "int \<Rightarrow> TelemetrySnapshot \<Rightarrow> gotime \<Rightarrow> EvaluationInput" where
  "buildEvaluationInput basePriority snap now =
     \<lparr> ei_BasePriority = basePriority, ei_Now = now,
       ei_LastCompletedCheckpointTime = tsn_LastCompletedCheckpointTime snap,
       ei_RunStartTime = tsn_LastRunStartTime snap, ei_LastResumeTime = tsn_LastResumeTime snap,
       ei_LastYieldTime = tsn_LastYieldTime snap, ei_RecentYieldCount = tsn_RecentYieldCount snap,
       ei_CheckpointStoreError = False \<rparr>"

definition syncDecisionToStatus :: "int \<Rightarrow> Decision \<Rightarrow> update" where
  "syncDecisionToStatus basePriority decision =
     with_default zero_PriorityShapingStatus st_PriorityShaping st_PriorityShaping_update
       (assigns
          [assign psh_BasePriority psh_BasePriority_update basePriority,
           assign psh_EffectivePriority psh_EffectivePriority_update (dn_EffectivePriority decision),
           assign psh_PreemptionState psh_PreemptionState_update (dn_PreemptionState decision),
           assign psh_PreemptionStateReason psh_PreemptionStateReason_update (dn_Reason decision),
           assign psh_ProtectedUntil psh_ProtectedUntil_update (dn_ProtectedUntil decision)])"

definition WorkloadNameForObject :: "ctl_env \<Rightarrow> job \<Rightarrow> string" where
  "WorkloadNameForObject E job = ce_WorkloadName E (rtj_Name job) (rtj_UID job)"

definition patchWorkloadPriority :: "ctl_env \<Rightarrow> job \<Rightarrow> int \<Rightarrow> (go_err + bool) \<times> effect list" where
  "patchWorkloadPriority E job effectivePriority =
     (let workloadName = WorkloadNameForObject E job in
      if workloadName = '''' then (Inr False, [])
      else case ce_GetWorkload E (rtj_Namespace job) workloadName of
        Inl err \<Rightarrow> (if IsNotFound err then Inr False else Inl (err_text err), [])
      | Inr workload \<Rightarrow>
          (let currentPriority = derefInt32 (wl_Priority workload) in
           if currentPriority = effectivePriority then (Inr False, [])
           else ((case ce_PatchPriority E workloadName effectivePriority of
                    Some err \<Rightarrow> Inl (''patch Workload '' @ workloadName @ '' priority from '' @ itoa currentPriority @
                                     '' to '' @ itoa effectivePriority @ '': '' @ err_text err)
                  | None \<Rightarrow> Inr True), [PatchPriority workloadName effectivePriority])))"

definition put_annotation :: "string \<Rightarrow> string \<Rightarrow> job \<Rightarrow> job \<times> bool" where
  "put_annotation k v job =
     (if mget (rtj_Annotations job) k \<noteq> v then (set_annotation k v job, True) else (job, False))"

definition syncPriorityAnnotations :: "Decision \<Rightarrow> job \<Rightarrow> job \<times> bool" where
  "syncPriorityAnnotations decision =
     run_all [put_annotation effectivePriorityAnnotation (itoa (dn_EffectivePriority decision)),
              put_annotation preemptionStateAnnotation (PreemptionState_string (dn_PreemptionState decision))]"

definition drop_annotation :: "string \<Rightarrow> job \<Rightarrow> job \<times> bool" where
  "drop_annotation k job =
     (case rtj_Annotations job k of
        None \<Rightarrow> (job, False) | Some _ \<Rightarrow> (job\<lparr> rtj_Annotations := (rtj_Annotations job)(k := None) \<rparr>, True))"

definition clearPriorityAnnotations :: "job \<Rightarrow> job \<times> bool" where
  "clearPriorityAnnotations = run_all [drop_annotation effectivePriorityAnnotation, drop_annotation preemptionStateAnnotation]"

definition setPriorityShapingCondition ::
  "meta_ops \<Rightarrow> ConditionStatus \<Rightarrow> string \<Rightarrow> string \<Rightarrow> gotime \<Rightarrow> update" where
  "setPriorityShapingCondition M status reason message now = setCondition M ''PriorityShaping'' status reason message now"

fun isActivePriorityPhase :: "ResumableTrainingJobPhase \<Rightarrow> bool" where
  "isActivePriorityPhase PhaseStarting = True"
| "isActivePriorityPhase PhaseRunning = True"
| "isActivePriorityPhase PhaseRestoring = True"
| "isActivePriorityPhase PhaseYieldRequested = True"
| "isActivePriorityPhase PhaseDraining = True"
| "isActivePriorityPhase _ = False"

definition priority_requeue :: "Decision \<Rightarrow> gotime \<Rightarrow> duration" where
  "priority_requeue decision now =
     (case dn_ProtectedUntil decision of
        None \<Rightarrow> 0
      | Some t \<Rightarrow> let remaining = time_Sub t now in if remaining > 0 then wrap64 (remaining + Second) else 0)"

definition shaping_message :: "Decision \<Rightarrow> int \<Rightarrow> string" where
  "shaping_message decision basePriority =
     ''Priority shaping active: state='' @ PreemptionState_string (dn_PreemptionState decision) @
     '', base='' @ itoa basePriority @ '', effective='' @ itoa (dn_EffectivePriority decision) @
     '', reason='' @ dn_Reason decision"

text \<open>Steps 3 to 10 of the function, once policy and base priority are known.\<close>

definition apply_policy ::
  "ctl_env \<Rightarrow> job \<Rightarrow> gotime \<Rightarrow> CheckpointPriorityPolicySpec \<Rightarrow> int \<Rightarrow> PriorityStateResult \<times> effect list \<times> job" where
  "apply_policy E job now policy basePriority =
     (let snap = CollectTelemetry E job now (case cpp_YieldWindow policy of None \<Rightarrow> 0 | Some w \<Rightarrow> w);
          decision = Evaluate (buildEvaluationInput basePriority snap now) (Some policy);
          (job1, b1) = run_all [SyncPriorityShapingTelemetry snap now, syncDecisionToStatus basePriority decision] job;
          (patched, es) = patchWorkloadPriority E job1 (dn_EffectivePriority decision)
      in case patched of
           Inl err \<Rightarrow>
             (case setPriorityShapingCondition (ce_Meta E) ConditionFalse ''WorkloadPatchFailed''
                     (''Failed to patch Workload priority: '' @ err) now job1 of
                (job2, b2) \<Rightarrow>
                  (zero_priority_result\<lparr> psr_StatusChanged := b2 \<or> b1, psr_Decision := Some decision \<rparr>, es, job2))
         | Inr wasPatched \<Rightarrow>
             (let (job2, annotated) = syncPriorityAnnotations decision job1;
                  (job3, b3) = setPriorityShapingCondition (ce_Meta E) ConditionTrue (dn_Reason decision)
                    (shaping_message decision basePriority) now job2
              in (\<lparr> psr_StatusChanged = b1 \<or> b3, psr_WorkloadPatched = wasPatched, psr_AnnotationsChanged = annotated,
                    psr_Decision = Some decision, psr_RequeueAfter = priority_requeue decision now \<rparr>, es, job3)))"

definition reconcilePriorityState :: "ctl_env \<Rightarrow> job \<Rightarrow> gotime \<Rightarrow> PriorityStateResult \<times> effect list \<times> job" where
  "reconcilePriorityState E job now =
     (if \<not> IsPriorityShapingEnabled job then
        (let (job1, b1) = drop_field st_PriorityShaping st_PriorityShaping_update job;
             (job2, annotated) = clearPriorityAnnotations job1;
             (job3, b3) = clearCondition ''PriorityShaping'' job2
         in (zero_priority_result\<lparr> psr_StatusChanged := b1 \<or> b3, psr_AnnotationsChanged := annotated \<rparr>, [], job3))
      else case resolvePolicy E job of
        Inl err \<Rightarrow>
          (case setPriorityShapingCondition (ce_Meta E) ConditionFalse ''PolicyResolutionFailed''
                  (''Failed to resolve CheckpointPriorityPolicy '' @ quote (policy_name job) @ '': '' @ err) now job of
             (job1, b) \<Rightarrow> (zero_priority_result\<lparr> psr_StatusChanged := b \<rparr>, [], job1))
      | Inr policy \<Rightarrow>
          (case resolveBasePriority E job of
             Inl err \<Rightarrow>
               (case setPriorityShapingCondition (ce_Meta E) ConditionFalse ''BasePriorityResolutionFailed''
                       (''Failed to resolve WorkloadPriorityClass '' @ quote (sp_WorkloadPriorityClassName (rtj_Spec job)) @
                        '': '' @ err) now job of
                  (job1, b) \<Rightarrow> (zero_priority_result\<lparr> psr_StatusChanged := b \<rparr>, [], job1))
           | Inr basePriority \<Rightarrow> apply_policy E job now policy basePriority))"

section \<open>Properties\<close>

text \<open>What the evaluation decides, from the job, the environment and the clock.\<close>

definition shaping_decision :: "ctl_env \<Rightarrow> job \<Rightarrow> gotime \<Rightarrow> CheckpointPriorityPolicySpec \<Rightarrow> int \<Rightarrow> Decision" where
  "shaping_decision E job now policy basePriority =
     Evaluate (buildEvaluationInput basePriority
       (CollectTelemetry E job now (case cpp_YieldWindow policy of None \<Rightarrow> 0 | Some w \<Rightarrow> w)) now) (Some policy)"

lemma mget_put_annotation [simp]:
  "mget (rtj_Annotations (fst (put_annotation k v j))) k' = (if k' = k then v else mget (rtj_Annotations j) k')"
  by (simp add: put_annotation_def set_annotation_def)

lemma put_annotation_keeps [simp]:
  "rtj_Status (fst (put_annotation k v j)) = rtj_Status j" "rtj_Spec (fst (put_annotation k v j)) = rtj_Spec j"
  "rtj_Generation (fst (put_annotation k v j)) = rtj_Generation j"
  "k' \<noteq> k \<Longrightarrow> rtj_Annotations (fst (put_annotation k v j)) k' = rtj_Annotations j k'"
  by (simp_all add: put_annotation_def set_annotation_def)

lemma annotation_keys [simp]:
  "effectivePriorityAnnotation \<noteq> preemptionStateAnnotation" "preemptionStateAnnotation \<noteq> effectivePriorityAnnotation"
  "yieldHistoryAnnotation \<noteq> effectivePriorityAnnotation" "yieldHistoryAnnotation \<noteq> preemptionStateAnnotation"
  by (simp_all add: effectivePriorityAnnotation_def preemptionStateAnnotation_def yieldHistoryAnnotation_def)

lemma fst_assign_psh:
  "fst (assign psh_BasePriority psh_BasePriority_update n ps) = ps\<lparr> psh_BasePriority := n \<rparr>"
  "fst (assign psh_EffectivePriority psh_EffectivePriority_update n ps) = ps\<lparr> psh_EffectivePriority := n \<rparr>"
  "fst (assign psh_PreemptionState psh_PreemptionState_update s ps) = ps\<lparr> psh_PreemptionState := s \<rparr>"
  "fst (assign psh_PreemptionStateReason psh_PreemptionStateReason_update r ps) = ps\<lparr> psh_PreemptionStateReason := r \<rparr>"
  "fst (assign psh_ProtectedUntil psh_ProtectedUntil_update t ps) = ps\<lparr> psh_ProtectedUntil := t \<rparr>"
  by (simp_all add: fst_assign)

lemma syncDecisionToStatus_fst:
  "\<exists>ps. fst (syncDecisionToStatus b d j) = j\<lparr> rtj_Status := (rtj_Status j)\<lparr> st_PriorityShaping := Some ps \<rparr> \<rparr>
      \<and> psh_BasePriority ps = b \<and> psh_EffectivePriority ps = dn_EffectivePriority d
      \<and> psh_PreemptionState ps = dn_PreemptionState d \<and> psh_PreemptionStateReason ps = dn_Reason d
      \<and> psh_ProtectedUntil ps = dn_ProtectedUntil d"
  by (simp add: syncDecisionToStatus_def with_default_def split_beta fst_assign_psh)
    (rule exI, rule conjI, rule refl, simp)

lemma SyncPriorityShapingTelemetry_status:
  "\<exists>s. fst (SyncPriorityShapingTelemetry snap now j) = j\<lparr> rtj_Status := s \<rparr>"
  by (simp add: SyncPriorityShapingTelemetry_def drop_field_def with_default_def split_beta)
    (metis ResumableTrainingJob.surjective ResumableTrainingJob.update_convs(10))

text \<open>The job after steps 3 to 6: only the status moved, and it holds the decision.\<close>

lemma shaping_status:
  assumes "j1 = fst (run_all [SyncPriorityShapingTelemetry snap now, syncDecisionToStatus b d] j)"
  shows "\<exists>s ps. j1 = j\<lparr> rtj_Status := s \<rparr> \<and> st_PriorityShaping s = Some ps \<and> psh_BasePriority ps = b
      \<and> psh_EffectivePriority ps = dn_EffectivePriority d \<and> psh_PreemptionState ps = dn_PreemptionState d
      \<and> psh_PreemptionStateReason ps = dn_Reason d \<and> psh_ProtectedUntil ps = dn_ProtectedUntil d"
proof -
  obtain s where s: "fst (SyncPriorityShapingTelemetry snap now j) = j\<lparr> rtj_Status := s \<rparr>"
    using SyncPriorityShapingTelemetry_status by blast
  obtain ps where ps: "fst (syncDecisionToStatus b d (j\<lparr> rtj_Status := s \<rparr>)) =
        (j\<lparr> rtj_Status := s \<rparr>)\<lparr> rtj_Status := (rtj_Status (j\<lparr> rtj_Status := s \<rparr>))\<lparr> st_PriorityShaping := Some ps \<rparr> \<rparr>"
    and p: "psh_BasePriority ps = b" "psh_EffectivePriority ps = dn_EffectivePriority d"
      "psh_PreemptionState ps = dn_PreemptionState d" "psh_PreemptionStateReason ps = dn_Reason d"
      "psh_ProtectedUntil ps = dn_ProtectedUntil d"
    using syncDecisionToStatus_fst [of b d "j\<lparr> rtj_Status := s \<rparr>"] by (elim exE conjE)
  have "j1 = j\<lparr> rtj_Status := s\<lparr> st_PriorityShaping := Some ps \<rparr> \<rparr>"
    using ps by (simp add: assms s split_beta)
  with p show ?thesis by (intro exI [of _ "s\<lparr> st_PriorityShaping := Some ps \<rparr>"] exI [of _ ps]) simp
qed

lemma setCondition_status_only: "\<exists>s. fst (setCondition M t st r m now j) = j\<lparr> rtj_Status := s \<rparr>
    \<and> st_PriorityShaping s = st_PriorityShaping (rtj_Status j)"
  by (rule exI [of _ "rtj_Status (fst (setCondition M t st r m now j))"])
    (simp add: setCondition_def Let_def on_conditions_def)

text \<open>A workload that can be read, and a patch that the server accepts.\<close>

lemma patchWorkloadPriority_ok:
  assumes "WorkloadNameForObject E j \<noteq> ''''" and "ce_GetWorkload E (rtj_Namespace j) (WorkloadNameForObject E j) = Inr wl"
    and "ce_PatchPriority E (WorkloadNameForObject E j) p = None"
  shows "patchWorkloadPriority E j p =
     (if derefInt32 (wl_Priority wl) = p then (Inr False, []) else (Inr True, [PatchPriority (WorkloadNameForObject E j) p]))"
  using assms by (simp add: patchWorkloadPriority_def Let_def)

lemma apply_policy_patched:
  assumes "d = shaping_decision E j now p b"
    and "run_all [SyncPriorityShapingTelemetry (CollectTelemetry E j now (case cpp_YieldWindow p of None \<Rightarrow> 0 | Some w \<Rightarrow> w)) now,
           syncDecisionToStatus b d] j = (j1, b1)"
    and "syncPriorityAnnotations d j1 = (j2, a)" and "patchWorkloadPriority E j1 (dn_EffectivePriority d) = (Inr w, es)"
  shows "\<exists>changed. apply_policy E j now p b =
     (\<lparr> psr_StatusChanged = changed, psr_WorkloadPatched = w, psr_AnnotationsChanged = a, psr_Decision = Some d,
        psr_RequeueAfter = priority_requeue d now \<rparr>, es,
      fst (setPriorityShapingCondition (ce_Meta E) ConditionTrue (dn_Reason d) (shaping_message d b) now j2))"
  unfolding apply_policy_def Let_def shaping_decision_def [symmetric] assms(1) [symmetric] assms(2-4)
  by (simp add: split_beta del: run_all.simps)
    (use assms(2) in \<open>simp add: assms(3,4) split_beta del: run_all.simps\<close>)

text \<open>The states the engine answers for an attached policy, and their adjustments.\<close>

lemma clamp_valid:
  assumes "validateCheckpointPriorityPolicy p = None"
  shows "dn_EffectivePriority (Evaluate i (Some p)) =
     clamp (floor_of p) (ceil_of p) (ei_BasePriority i + state_adjustment p (dn_PreemptionState (Evaluate i (Some p))))"
  using valid_bounds [OF assms] by (simp add: Evaluate_effective computeEffectivePriority_clamp)

text \<open>
  C31: When priority shaping runs for a job whose policy and priority class resolve, its workload can be read and
  the patch is accepted, then the status, the annotations, the condition and the workload agree on one decision:
  the status records the base priority and an effective priority that is the base plus the adjustment of the recorded
  preemption state, clamped to the bounds of the policy; the two annotations spell that priority and that state; the
  \<open>PriorityShaping\<close> condition is true with the recorded reason; and the workload is patched with that priority exactly
  when its own priority differs.
\<close>

theorem priority_materialized:
  assumes "conditions_api (ce_Meta E)" and "now \<noteq> time_zero" and "IsPriorityShapingEnabled j"
    and "resolvePolicy E j = Inr p" and "validateCheckpointPriorityPolicy p = None"
    and "resolveBasePriority E j = Inr b" and "WorkloadNameForObject E j \<noteq> ''''"
    and "ce_GetWorkload E (rtj_Namespace j) (WorkloadNameForObject E j) = Inr wl"
    and "\<forall>v. ce_PatchPriority E (WorkloadNameForObject E j) v = None"
    and "reconcilePriorityState E j now = (R, es, j')"
  shows "\<exists>ps c. st_PriorityShaping (rtj_Status j') = Some ps \<and> psh_BasePriority ps = b
     \<and> psh_EffectivePriority ps = clamp (floor_of p) (ceil_of p) (b + state_adjustment p (psh_PreemptionState ps))
     \<and> mget (rtj_Annotations j') effectivePriorityAnnotation = itoa (psh_EffectivePriority ps)
     \<and> mget (rtj_Annotations j') preemptionStateAnnotation = PreemptionState_string (psh_PreemptionState ps)
     \<and> find_condition ''PriorityShaping'' j' = Some c \<and> cond_Status c = ConditionTrue
     \<and> cond_Reason c = psh_PreemptionStateReason ps
     \<and> es = (if derefInt32 (wl_Priority wl) = psh_EffectivePriority ps then []
             else [PatchPriority (WorkloadNameForObject E j) (psh_EffectivePriority ps)])
     \<and> (psr_WorkloadPatched R \<longleftrightarrow> es \<noteq> [])"
proof -
  define snap where "snap = CollectTelemetry E j now (case cpp_YieldWindow p of None \<Rightarrow> 0 | Some w \<Rightarrow> w)"
  define d where "d = shaping_decision E j now p b"
  define j1 where "j1 = fst (run_all [SyncPriorityShapingTelemetry snap now, syncDecisionToStatus b d] j)"
  define b1 where "b1 = snd (run_all [SyncPriorityShapingTelemetry snap now, syncDecisionToStatus b d] j)"
  define j2 where "j2 = fst (syncPriorityAnnotations d j1)"
  define c2 where "c2 = setPriorityShapingCondition (ce_Meta E) ConditionTrue (dn_Reason d) (shaping_message d b) now"
  obtain s ps where j1: "j1 = j\<lparr> rtj_Status := s \<rparr>" "st_PriorityShaping s = Some ps"
    and ps: "psh_BasePriority ps = b" "psh_EffectivePriority ps = dn_EffectivePriority d"
      "psh_PreemptionState ps = dn_PreemptionState d" "psh_PreemptionStateReason ps = dn_Reason d"
    using shaping_status [OF j1_def] by (elim exE conjE)
  have name: "WorkloadNameForObject E j1 = WorkloadNameForObject E j" "rtj_Namespace j1 = rtj_Namespace j"
    by (simp_all add: j1 WorkloadNameForObject_def)
  have patch: "patchWorkloadPriority E j1 (dn_EffectivePriority d) =
      (if derefInt32 (wl_Priority wl) = dn_EffectivePriority d then (Inr False, [])
       else (Inr True, [PatchPriority (WorkloadNameForObject E j) (dn_EffectivePriority d)]))"
    using patchWorkloadPriority_ok [of E j1 wl "dn_EffectivePriority d"] assms(7-9) by (simp add: name)
  have run: "reconcilePriorityState E j now = apply_policy E j now p b"
    using assms(3,4,6) by (simp add: reconcilePriorityState_def)
  have split: "run_all [SyncPriorityShapingTelemetry snap now, syncDecisionToStatus b d] j = (j1, b1)"
    "syncPriorityAnnotations d j1 = (j2, snd (syncPriorityAnnotations d j1))"
    by (simp_all add: j1_def b1_def j2_def)
  have out: "j' = fst (c2 j2)"
     "es = snd (patchWorkloadPriority E j1 (dn_EffectivePriority d))"
     "psr_WorkloadPatched R \<longleftrightarrow> es \<noteq> []"
  proof -
    obtain w es0 where w: "patchWorkloadPriority E j1 (dn_EffectivePriority d) = (Inr w, es0)" "w \<longleftrightarrow> es0 \<noteq> []"
      using patch by (cases "derefInt32 (wl_Priority wl) = dn_EffectivePriority d") auto
    then show "j' = fst (c2 j2)" "es = snd (patchWorkloadPriority E j1 (dn_EffectivePriority d))"
        "psr_WorkloadPatched R \<longleftrightarrow> es \<noteq> []"
      using assms(10) apply_policy_patched [OF d_def split(1) [unfolded snap_def] split(2) w(1)] unfolding run c2_def
      by auto
  qed
  have "rtj_Status j2 = rtj_Status j1" "mget (rtj_Annotations j2) effectivePriorityAnnotation = itoa (dn_EffectivePriority d)"
     "mget (rtj_Annotations j2) preemptionStateAnnotation = PreemptionState_string (dn_PreemptionState d)"
    by (simp_all add: j2_def syncPriorityAnnotations_def split_beta)
  moreover obtain s' where s': "fst (c2 j2) = j2\<lparr> rtj_Status := s' \<rparr>" "st_PriorityShaping s' = st_PriorityShaping (rtj_Status j2)"
    using setCondition_status_only unfolding c2_def setPriorityShapingCondition_def by blast
  moreover have "\<exists>c. find_condition ''PriorityShaping'' (fst (c2 j2)) = Some c \<and> cond_Status c = ConditionTrue
      \<and> cond_Reason c = dn_Reason d"
    unfolding c2_def setPriorityShapingCondition_def
    by (simp add: conditions_api.setCondition_fst [OF assms(1,2)])
  moreover have "dn_EffectivePriority d = clamp (floor_of p) (ceil_of p) (b + state_adjustment p (dn_PreemptionState d))"
    unfolding d_def shaping_decision_def by (subst clamp_valid [OF assms(5)]) (simp add: buildEvaluationInput_def)
  ultimately show ?thesis
    using out ps j1 patch by auto
qed

text \<open>A job with a policy in a cluster that has it, whose workload has no priority yet.\<close>

definition ex_shaping_ctl :: ctl_env where
  "ex_shaping_ctl = ex_ctl\<lparr> ce_GetPriorityPolicy := (\<lambda>_. Inr ex_policy), ce_GetPriorityClass := (\<lambda>_. Inr 100),
     ce_GetWorkload := (\<lambda>_ _. Inr ex_workload) \<rparr>"

definition ex_shaped :: job where
  "ex_shaped = (ex_active PhaseRunning None)\<lparr> rtj_Spec := ex_spec\<lparr> sp_PriorityPolicyRef := Some ''policy'' \<rparr> \<rparr>"

lemma ex_policy_ref: "TrimSpace ''policy'' \<noteq> ''''"
  by code_simp

lemma ex_shaping:
  "conditions_api (ce_Meta ex_shaping_ctl)" "IsPriorityShapingEnabled ex_shaped"
  "resolvePolicy ex_shaping_ctl ex_shaped = Inr (Policy_Default ex_policy)"
  "validateCheckpointPriorityPolicy (Policy_Default ex_policy) = None"
  "resolveBasePriority ex_shaping_ctl ex_shaped = Inr 100"
  "WorkloadNameForObject ex_shaping_ctl ex_shaped = ''j-uid-1''"
  "ce_GetWorkload ex_shaping_ctl ns n = Inr ex_workload" "\<forall>v. ce_PatchPriority ex_shaping_ctl n v = None"
  by (simp_all add: ex_policy_ref ex_shaping_ctl_def ex_shaped_def ex_ctl_def apimachinery.conditions_api_axioms api_simps
        resolvePolicy_def resolveBasePriority_def WorkloadNameForObject_def ex_active_def ex_job_def ex_spec_def
        validate_None_iff Policy_Default_def ex_policy_def default_opt_def priority_fields_def priority_ok_def
        MinPriorityBound_def MaxPriorityBound_def)

theorem priority_materialized_witness:
  "\<exists>ps. st_PriorityShaping (rtj_Status (snd (snd (reconcilePriorityState ex_shaping_ctl ex_shaped 9)))) = Some ps
      \<and> psh_BasePriority ps = 100 \<and> -100 \<le> psh_EffectivePriority ps \<and> psh_EffectivePriority ps \<le> 1000
      \<and> mget (rtj_Annotations (snd (snd (reconcilePriorityState ex_shaping_ctl ex_shaped 9)))) effectivePriorityAnnotation =
          itoa (psh_EffectivePriority ps)"
proof -
  let ?p = "Policy_Default ex_policy"
  have bounds: "floor_of ?p = -100" "ceil_of ?p = 1000"
    by (simp_all add: floor_of_def ceil_of_def Policy_Default_def ex_policy_def)
  obtain R es j' where r: "reconcilePriorityState ex_shaping_ctl ex_shaped 9 = (R, es, j')"
    by (cases "reconcilePriorityState ex_shaping_ctl ex_shaped 9") auto
  have "(9 :: gotime) \<noteq> time_zero" by (simp add: time_zero_def)
  with priority_materialized [OF ex_shaping(1) _ ex_shaping(2-5) _ ex_shaping(7) ex_shaping(8) r] show ?thesis
    by (auto simp: r ex_shaping(6) bounds clamp_def)
qed

section \<open>The yield budget\<close>

lemma budget_needs_yields:
  "dn_State (Evaluate i (Some p)) = DecisionYieldBudgetExhausted \<Longrightarrow> 0 < ei_RecentYieldCount i"
  by (auto simp: Evaluate_def Let_def IsYieldBudgetExhausted_def evaluateTelemetryUnknown_def split_beta split: if_splits)

lemma keeps_annotations [simp]:
  "rtj_Annotations (fst (setPriorityShapingCondition M s r m now j)) = rtj_Annotations j"
  "rtj_Annotations (fst (clearCondition t j)) = rtj_Annotations j"
  "rtj_Annotations (fst (drop_field get upd j)) = rtj_Annotations j"
  "rtj_Annotations (fst (with_default z get upd f j)) = rtj_Annotations j"
  by (simp_all add: setPriorityShapingCondition_def setCondition_def Let_def on_conditions_def clearCondition_def
        drop_field_def with_default_def split_beta)

text \<open>\<open>RecordYieldEvent\<close> is the only writer of the yield history, and no flow of the controller calls it: a job that
  starts without a history keeps none through every evaluation, and the engine never answers that its yield budget is
  exhausted.\<close>

lemma yield_budget_never_exhausted:
  assumes "rtj_Annotations j yieldHistoryAnnotation = None"
  shows "dn_State (shaping_decision E j now p b) \<noteq> DecisionYieldBudgetExhausted"
    and "rtj_Annotations (snd (snd (reconcilePriorityState E j now))) yieldHistoryAnnotation = None"
proof -
  have "tsn_RecentYieldCount (CollectTelemetry E j now w) = 0" for w
    using assms by (simp add: CollectTelemetry_def countYieldsInWindow_def Let_def split_beta)
  then show "dn_State (shaping_decision E j now p b) \<noteq> DecisionYieldBudgetExhausted"
    using budget_needs_yields by (force simp: shaping_decision_def buildEvaluationInput_def)
  have sync: "rtj_Annotations (fst (SyncPriorityShapingTelemetry snap now x)) = rtj_Annotations x"
    "rtj_Annotations (fst (syncDecisionToStatus b d x)) = rtj_Annotations x" for snap b d x
    by (simp_all add: SyncPriorityShapingTelemetry_def syncDecisionToStatus_def)
  have "rtj_Annotations (snd (snd (apply_policy E j now q b'))) yieldHistoryAnnotation = None" for q b'
    using assms by (auto simp: apply_policy_def Let_def split_beta syncPriorityAnnotations_def sync split: sum.split)
  then show "rtj_Annotations (snd (snd (reconcilePriorityState E j now))) yieldHistoryAnnotation = None"
    using assms
    by (auto simp: reconcilePriorityState_def Let_def split_beta clearPriorityAnnotations_def drop_annotation_def
          split: sum.split option.split)
qed

end
