(* ===== verification/Remote_Status.thy ===== *)
theory Remote_Status
  imports Stop_Flow
begin

text \<open>
  The manager side of MultiKueue: the reflection of a remote run into the status of the manager's job
  (\<open>internal/controller/remote_status.go\<close>), the resolution of the execution cluster
  (\<open>internal/remote/cluster_resolver.go\<close>), the operator mode (\<open>mode.go\<close>) and \<open>reconcileManagerIntent\<close> of
  \<open>resumabletrainingjob_controller.go\<close>.  The summaries of the remote status, which the code only logs, are records
  of the enumerations themselves.
\<close>

section \<open>Mode (\<open>mode.go\<close>)\<close>

fun OperatorMode_string :: "OperatorMode \<Rightarrow> string" where
  "OperatorMode_string ModeWorker = ''worker''"
| "OperatorMode_string ModeManager = ''manager''"

definition ParseOperatorMode :: "string \<Rightarrow> go_err + OperatorMode" where
  "ParseOperatorMode s =
     (if s = ''worker'' then Inr ModeWorker
      else if s = ''manager'' then Inr ModeManager
      else Inl (''unsupported operator mode '' @ quote s @ '': must be '' @ quote ''worker'' @ '' or '' @ quote ''manager''))"

definition ShouldSuppressRuntime :: "OperatorMode \<Rightarrow> job \<Rightarrow> bool" where
  "ShouldSuppressRuntime mode job \<longleftrightarrow> mode = ModeManager \<and> IsManagedByMultiKueue job"

section \<open>The execution cluster (\<open>cluster_resolver.go\<close>)\<close>

fun extractClusterFromAdmissionChecks :: "WorkloadCheck list \<Rightarrow> string \<Rightarrow> string" where
  "extractClusterFromAdmissionChecks [] admissionCheckName = ''''"
| "extractClusterFromAdmissionChecks (check # checks) admissionCheckName =
     (if admissionCheckName \<noteq> '''' \<and> acs_Name check \<noteq> admissionCheckName
      then extractClusterFromAdmissionChecks checks admissionCheckName
      else if acs_State check = CheckStateReady \<and> acs_Message check \<noteq> '''' then acs_Message check
      else extractClusterFromAdmissionChecks checks admissionCheckName)"

text \<open>\<open>WorkloadClusterResolver.ResolveExecutionCluster\<close>; the first argument is the client's read of a workload.\<close>

definition ResolveExecutionCluster ::
  "(string \<Rightarrow> string \<Rightarrow> api_error + Workload) \<Rightarrow> string \<Rightarrow> job \<Rightarrow> go_err + string" where
  "ResolveExecutionCluster getWorkload admissionCheckName job =
     (case st_WorkloadReference (rtj_Status job) of
        None \<Rightarrow> Inr ''''
      | Some ref \<Rightarrow>
          if wr_Name ref = '''' then Inr ''''
          else
            (let ns = (if wr_Namespace ref = '''' then rtj_Namespace job else wr_Namespace ref) in
             case getWorkload ns (wr_Name ref) of
               Inl err \<Rightarrow> Inl (''get workload '' @ ns @ ''/'' @ wr_Name ref @ '': '' @ err_text err)
             | Inr wl \<Rightarrow> Inr (extractClusterFromAdmissionChecks (wl_AdmissionChecks wl) admissionCheckName)))"

definition StaticClusterResolver :: "string \<Rightarrow> job \<Rightarrow> go_err + string" where
  "StaticClusterResolver clusterName job = Inr clusterName"

section \<open>The reflected status (\<open>remote_status.go\<close>)\<close>

definition hasRemoteStatusSignal :: "job \<Rightarrow> bool" where
  "hasRemoteStatusSignal job \<longleftrightarrow>
     st_ActiveJobSetName (rtj_Status job) \<noteq> '''' \<or> st_CurrentRunAttempt (rtj_Status job) > 0"

definition classifyRemoteState :: "job \<Rightarrow> string \<Rightarrow> MultiClusterDispatchPhase \<times> ResumableTrainingJobPhase" where
  "classifyRemoteState job executionCluster =
     (if hasRemoteStatusSignal job then (DispatchPhaseActive, st_Phase (rtj_Status job))
      else if executionCluster \<noteq> '''' then (DispatchPhaseDispatched, PhaseUnset)
      else (DispatchPhasePending, PhaseUnset))"

definition remoteObjectRefEqual :: "RemoteObjectReference option \<Rightarrow> RemoteObjectReference option \<Rightarrow> bool" where
  "remoteObjectRefEqual a b =
     ptr_equal (\<lambda>l r. ror_Cluster l = ror_Cluster r \<and> ror_Namespace l = ror_Namespace r \<and> ror_Name l = ror_Name r
        \<and> ror_UID l = ror_UID r) a b"

definition remoteCheckpointSummaryEqual ::
  "RemoteCheckpointSummary option \<Rightarrow> RemoteCheckpointSummary option \<Rightarrow> bool" where
  "remoteCheckpointSummaryEqual a b =
     ptr_equal (\<lambda>l r. rcs_LastCompletedCheckpointID l = rcs_LastCompletedCheckpointID r
        \<and> rcs_StorageURI l = rcs_StorageURI r
        \<and> timesEqual (rcs_LastCompletedCheckpointTime l) (rcs_LastCompletedCheckpointTime r)) a b"

definition syncRemoteObjectRef :: "job \<Rightarrow> string \<Rightarrow> MultiClusterStatus \<Rightarrow> MultiClusterStatus \<times> bool" where
  "syncRemoteObjectRef job executionCluster mc =
     (if executionCluster = '''' then
        (if mc_RemoteObjectRef mc \<noteq> None then (mc\<lparr> mc_RemoteObjectRef := None \<rparr>, True) else (mc, False))
      else
        (let desired = Some \<lparr> ror_Cluster = executionCluster, ror_Namespace = rtj_Namespace job,
                              ror_Name = rtj_Name job, ror_UID = '''' \<rparr>
         in if remoteObjectRefEqual (mc_RemoteObjectRef mc) desired then (mc, False)
            else (mc\<lparr> mc_RemoteObjectRef := desired \<rparr>, True)))"

definition checkpoint_summary :: "CheckpointReference \<Rightarrow> RemoteCheckpointSummary" where
  "checkpoint_summary checkpoint =
     \<lparr> rcs_LastCompletedCheckpointID = cr_ID checkpoint, rcs_LastCompletedCheckpointTime = cr_CompletionTime checkpoint,
       rcs_StorageURI = cr_StorageURI checkpoint \<rparr>"

definition syncRemoteCheckpointSummary ::
  "CheckpointReference option \<Rightarrow> MultiClusterStatus \<Rightarrow> MultiClusterStatus \<times> bool" where
  "syncRemoteCheckpointSummary checkpoint mc =
     (case checkpoint of
        None \<Rightarrow> if mc_RemoteCheckpoint mc \<noteq> None then (mc\<lparr> mc_RemoteCheckpoint := None \<rparr>, True) else (mc, False)
      | Some c \<Rightarrow>
          if remoteCheckpointSummaryEqual (mc_RemoteCheckpoint mc) (Some (checkpoint_summary c)) then (mc, False)
          else (mc\<lparr> mc_RemoteCheckpoint := Some (checkpoint_summary c) \<rparr>, True))"

definition syncRemoteStatus :: "string \<Rightarrow> update" where
  "syncRemoteStatus executionCluster job =
     with_default zero_MultiClusterStatus st_MultiCluster st_MultiCluster_update
       (assigns
          [assign mc_LocalExecutionSuppressed mc_LocalExecutionSuppressed_update True,
           assign mc_ExecutionCluster mc_ExecutionCluster_update executionCluster,
           assign mc_DispatchPhase mc_DispatchPhase_update (fst (classifyRemoteState job executionCluster)),
           assign mc_RemotePhase mc_RemotePhase_update (snd (classifyRemoteState job executionCluster)),
           syncRemoteObjectRef job executionCluster,
           syncRemoteCheckpointSummary (st_LastCompletedCheckpoint (rtj_Status job)),
           \<lambda>mc. if st_ObservedGeneration (rtj_Status job) \<noteq> mc_RemoteObservedGeneration mc \<and> hasRemoteStatusSignal job
                then (mc\<lparr> mc_RemoteObservedGeneration := st_ObservedGeneration (rtj_Status job) \<rparr>, True)
                else (mc, False)]) job"

definition isRemotePauseRequested :: "job \<Rightarrow> bool" where
  "isRemotePauseRequested job \<longleftrightarrow> sp_Control (rtj_Spec job) = Some DesiredStatePaused"

definition ensure_multicluster :: update where
  "ensure_multicluster job =
     (case st_MultiCluster (rtj_Status job) of
        Some _ \<Rightarrow> (job, False)
      | None \<Rightarrow> (job\<lparr> rtj_Status := (rtj_Status job)\<lparr> st_MultiCluster := Some zero_MultiClusterStatus \<rparr> \<rparr>, True))"

definition markRemotePaused :: "gotime \<Rightarrow> update" where
  "markRemotePaused now =
     run_all
       [phase_to PhasePaused ''RemotePauseComplete''
          ''Remote RTJ execution has been paused. Checkpoint preserved in shared store for cross-worker resume.'' now,
        ensure_multicluster,
        if_present st_MultiCluster st_MultiCluster_update
          (assigns [assign mc_RemotePhase mc_RemotePhase_update PhasePaused,
                    assign mc_LocalExecutionSuppressed mc_LocalExecutionSuppressed_update True]),
        setObservedGeneration]"

definition preserveRemoteCheckpoint :: "job \<Rightarrow> RemoteCheckpointSummary option" where
  "preserveRemoteCheckpoint job = Option.bind (st_MultiCluster (rtj_Status job)) mc_RemoteCheckpoint"

definition restoreRemoteCheckpoint :: "RemoteCheckpointSummary option \<Rightarrow> update" where
  "restoreRemoteCheckpoint preserved job =
     (case preserved of
        None \<Rightarrow> (job, False)
      | Some cp \<Rightarrow>
          with_default zero_MultiClusterStatus st_MultiCluster st_MultiCluster_update
            (\<lambda>mc. if mc_RemoteCheckpoint mc \<noteq> None then (mc, False)
                  else (mc\<lparr> mc_RemoteCheckpoint := Some cp \<rparr>, True)) job)"

section \<open>Summaries of the mirrored status\<close>

record remoteLaunchSummary =
  rls_LaunchGateState :: LaunchGateState
  rls_ProvisioningState :: ProvisioningState
  rls_CapacityGuaranteeActive :: bool
  rls_StartupState :: StartupState

definition buildRemoteLaunchSummary :: "job \<Rightarrow> remoteLaunchSummary" where
  "buildRemoteLaunchSummary job =
     (let s = rtj_Status job in
      \<lparr> rls_LaunchGateState = (case st_LaunchGate s of None \<Rightarrow> LaunchGateUnset | Some g \<Rightarrow> lg_State g),
        rls_ProvisioningState = (case st_Provisioning s of None \<Rightarrow> ProvStateUnset | Some p \<Rightarrow> pv_State p),
        rls_CapacityGuaranteeActive = (case st_Capacity s of None \<Rightarrow> False | Some c \<Rightarrow> ca_GuaranteeActive c),
        rls_StartupState = (case st_StartupRecovery s of None \<Rightarrow> StartupUnset | Some r \<Rightarrow> sr_StartupState r) \<rparr>)"

definition hasPhase7RemoteStatus :: "job \<Rightarrow> bool" where
  "hasPhase7RemoteStatus job \<longleftrightarrow>
     st_LaunchGate (rtj_Status job) \<noteq> None \<or> st_Provisioning (rtj_Status job) \<noteq> None
     \<or> st_StartupRecovery (rtj_Status job) \<noteq> None \<or> st_Capacity (rtj_Status job) \<noteq> None"

record remoteDRASummary =
  rds_DeviceMode :: DeviceMode
  rds_DeviceProfileFingerprint :: string
  rds_ClaimAllocationState :: ClaimAllocationState
  rds_AllocatedClaimCount :: int
  rds_RequestedDeviceClasses :: "string list"

definition buildRemoteDRASummary :: "job \<Rightarrow> remoteDRASummary" where
  "buildRemoteDRASummary job =
     (case st_Devices (rtj_Status job) of
        None \<Rightarrow> \<lparr> rds_DeviceMode = DeviceModeUnset, rds_DeviceProfileFingerprint = '''',
                  rds_ClaimAllocationState = ClaimAllocationUnset, rds_AllocatedClaimCount = 0,
                  rds_RequestedDeviceClasses = [] \<rparr>
      | Some ds \<Rightarrow> \<lparr> rds_DeviceMode = ds_DeviceMode ds, rds_DeviceProfileFingerprint = ds_CurrentDeviceProfileFingerprint ds,
                     rds_ClaimAllocationState = ds_ClaimAllocationState ds,
                     rds_AllocatedClaimCount = ds_AllocatedClaimCount ds,
                     rds_RequestedDeviceClasses = ds_RequestedDeviceClasses ds \<rparr>)"

definition hasPhase8RemoteStatus :: "job \<Rightarrow> bool" where
  "hasPhase8RemoteStatus job \<longleftrightarrow>
     (case st_Devices (rtj_Status job) of
        None \<Rightarrow> False | Some ds \<Rightarrow> ds_DeviceMode ds \<noteq> DeviceModeUnset \<and> ds_DeviceMode ds \<noteq> DeviceModeDisabled)"

record remoteElasticitySummary =
  res_ResizeState :: ResizeState
  res_ResizePath :: ResizePath
  res_TargetWorkerCount :: int
  res_ActiveWorkerCount :: int
  res_AdmittedWorkerCount :: int
  res_ReclaimablePodsPublished :: bool
  res_InPlaceShrinkSupported :: bool
  res_CurrentExecutionMode :: ExecutionMode

definition buildRemoteElasticitySummary :: "job \<Rightarrow> remoteElasticitySummary" where
  "buildRemoteElasticitySummary job =
     (case st_Elasticity (rtj_Status job) of
        None \<Rightarrow> \<lparr> res_ResizeState = ResizeStateUnset, res_ResizePath = ResizePathUnset, res_TargetWorkerCount = 0,
                  res_ActiveWorkerCount = 0, res_AdmittedWorkerCount = 0, res_ReclaimablePodsPublished = False,
                  res_InPlaceShrinkSupported = False, res_CurrentExecutionMode = ExecutionModeUnset \<rparr>
      | Some e \<Rightarrow> \<lparr> res_ResizeState = es_ResizeState e, res_ResizePath = es_ResizePath e,
                    res_TargetWorkerCount = es_TargetWorkerCount e, res_ActiveWorkerCount = es_ActiveWorkerCount e,
                    res_AdmittedWorkerCount = es_AdmittedWorkerCount e,
                    res_ReclaimablePodsPublished = es_ReclaimablePodsPublished e,
                    res_InPlaceShrinkSupported = es_InPlaceShrinkSupported e,
                    res_CurrentExecutionMode = es_CurrentExecutionMode e \<rparr>)"

definition hasPhase9RemoteStatus :: "job \<Rightarrow> bool" where
  "hasPhase9RemoteStatus job \<longleftrightarrow>
     (case st_Elasticity (rtj_Status job) of
        None \<Rightarrow> False
      | Some e \<Rightarrow> es_CurrentExecutionMode e \<noteq> ExecutionModeUnset \<and> es_CurrentExecutionMode e \<noteq> ExecutionModeFixed)"

section \<open>The manager's reconciliation\<close>

text \<open>\<open>reconcileManagerIntent\<close>, without its logging.\<close>

definition execution_cluster :: "ctl_env \<Rightarrow> job \<Rightarrow> string" where
  "execution_cluster E job =
     (case ce_ClusterResolver E of
        None \<Rightarrow> '''' | Some resolve \<Rightarrow> (case resolve job of Inl _ \<Rightarrow> '''' | Inr c \<Rightarrow> c))"

definition manager_updates :: "string \<Rightarrow> RemoteCheckpointSummary option \<Rightarrow> bool \<Rightarrow> gotime \<Rightarrow> update" where
  "manager_updates cluster preserved pauseRequested now =
     run_all
       [syncRemoteStatus cluster,
        \<lambda>job. if pauseRequested then restoreRemoteCheckpoint preserved job else (job, False),
        \<lambda>job. if hasRemoteStatusSignal job then (job, False)
              else if pauseRequested then markRemotePaused now job else markManagerSuppressed now job,
        setObservedGeneration]"

definition reconcileManagerIntent :: "ctl_env \<Rightarrow> job \<Rightarrow> outcome" where
  "reconcileManagerIntent E job =
     (let now = ce_Now E;
          pauseRequested = isRemotePauseRequested job;
          preserved = (if pauseRequested then preserveRemoteCheckpoint job else None);
          (job1, changed) = manager_updates (execution_cluster E job) preserved pauseRequested now job
      in save_if E changed job1
           (Inr (if pauseRequested \<and> hasRemoteStatusSignal job1 then RequeueAfter (5 * Second) else Done), [], job1))"

section \<open>Properties\<close>

abbreviation multicluster :: "job \<Rightarrow> MultiClusterStatus" where
  "multicluster j \<equiv> (case st_MultiCluster (rtj_Status j) of None \<Rightarrow> zero_MultiClusterStatus | Some mc \<Rightarrow> mc)"

abbreviation with_multicluster :: "MultiClusterStatus \<Rightarrow> job \<Rightarrow> job" where
  "with_multicluster mc j \<equiv> j\<lparr> rtj_Status := (rtj_Status j)\<lparr> st_MultiCluster := Some mc \<rparr> \<rparr>"

text \<open>The view of a remote run a manager should show for a cluster and the mirrored status.\<close>

definition remote_view :: "string \<Rightarrow> job \<Rightarrow> MultiClusterStatus" where
  "remote_view cluster job =
     (multicluster job)
       \<lparr> mc_LocalExecutionSuppressed := True, mc_ExecutionCluster := cluster,
         mc_DispatchPhase := (if hasRemoteStatusSignal job then DispatchPhaseActive
                              else if cluster = '''' then DispatchPhasePending else DispatchPhaseDispatched),
         mc_RemotePhase := (if hasRemoteStatusSignal job then st_Phase (rtj_Status job) else PhaseUnset),
         mc_RemoteObjectRef := (if cluster = '''' then None
           else Some \<lparr> ror_Cluster = cluster, ror_Namespace = rtj_Namespace job, ror_Name = rtj_Name job, ror_UID = '''' \<rparr>),
         mc_RemoteCheckpoint := map_option checkpoint_summary (st_LastCompletedCheckpoint (rtj_Status job)),
         mc_RemoteObservedGeneration := (if hasRemoteStatusSignal job then st_ObservedGeneration (rtj_Status job)
           else mc_RemoteObservedGeneration (multicluster job)) \<rparr>"

lemma ror_eq: "(l :: RemoteObjectReference) = r \<longleftrightarrow>
    ror_Cluster l = ror_Cluster r \<and> ror_Namespace l = ror_Namespace r \<and> ror_Name l = ror_Name r \<and> ror_UID l = ror_UID r"
  by (cases l; cases r) auto

lemma rcs_eq: "(l :: RemoteCheckpointSummary) = r \<longleftrightarrow>
    rcs_LastCompletedCheckpointID l = rcs_LastCompletedCheckpointID r \<and> rcs_StorageURI l = rcs_StorageURI r
    \<and> rcs_LastCompletedCheckpointTime l = rcs_LastCompletedCheckpointTime r"
  by (cases l; cases r) auto

lemma remote_equal_iff [simp]:
  "remoteObjectRefEqual a b \<longleftrightarrow> a = b" "remoteCheckpointSummaryEqual x y \<longleftrightarrow> x = y"
  by (auto simp: remoteObjectRefEqual_def remoteCheckpointSummaryEqual_def ptr_equal_def ror_eq rcs_eq split: option.splits)

lemma fst_assign_mc:
  "fst (assign mc_LocalExecutionSuppressed mc_LocalExecutionSuppressed_update b mc) = mc\<lparr> mc_LocalExecutionSuppressed := b \<rparr>"
  "fst (assign mc_ExecutionCluster mc_ExecutionCluster_update c mc) = mc\<lparr> mc_ExecutionCluster := c \<rparr>"
  "fst (assign mc_DispatchPhase mc_DispatchPhase_update d mc) = mc\<lparr> mc_DispatchPhase := d \<rparr>"
  "fst (assign mc_RemotePhase mc_RemotePhase_update p mc) = mc\<lparr> mc_RemotePhase := p \<rparr>"
  "fst (syncRemoteObjectRef j c mc) = mc\<lparr> mc_RemoteObjectRef := (if c = '''' then None
     else Some \<lparr> ror_Cluster = c, ror_Namespace = rtj_Namespace j, ror_Name = rtj_Name j, ror_UID = '''' \<rparr>) \<rparr>"
  "fst (syncRemoteCheckpointSummary r mc) = mc\<lparr> mc_RemoteCheckpoint := map_option checkpoint_summary r \<rparr>"
  by (auto simp: fst_assign syncRemoteObjectRef_def syncRemoteCheckpointSummary_def Let_def split: option.split)

lemma syncRemoteStatus_fst: "fst (syncRemoteStatus c j) = with_multicluster (remote_view c j) j"
  unfolding syncRemoteStatus_def with_default_def
  by (simp add: split_beta fst_assign_mc remote_view_def classifyRemoteState_def)

lemma restoreRemoteCheckpoint_fst:
  assumes "st_MultiCluster (rtj_Status j) = Some mc"
  shows "fst (restoreRemoteCheckpoint pre j) =
     with_multicluster (mc\<lparr> mc_RemoteCheckpoint := (case mc_RemoteCheckpoint mc of None \<Rightarrow> pre | Some c \<Rightarrow> Some c) \<rparr>) j"
  using assms by (auto simp: restoreRemoteCheckpoint_def with_default_def split: option.split)

text \<open>A queued or paused manager job: the phase moves, the multi-cluster status is \<open>mc\<close>, nothing else of it is lost.\<close>

definition settled_at :: "ResumableTrainingJobPhase \<Rightarrow> MultiClusterStatus \<Rightarrow> job \<Rightarrow> job \<Rightarrow> bool" where
  "settled_at p mc j j' \<longleftrightarrow>
     j' = j\<lparr> rtj_Status := rtj_Status j' \<rparr> \<and> st_Phase (rtj_Status j') = p \<and> st_MultiCluster (rtj_Status j') = Some mc
     \<and> st_ObservedGeneration (rtj_Status j') = rtj_Generation j
     \<and> st_ActiveJobSetName (rtj_Status j') = st_ActiveJobSetName (rtj_Status j)
     \<and> st_CurrentRunAttempt (rtj_Status j') = st_CurrentRunAttempt (rtj_Status j)
     \<and> st_LastCompletedCheckpoint (rtj_Status j') = st_LastCompletedCheckpoint (rtj_Status j)"

lemma SetPhase_other_fields:
  "st_MultiCluster (fst (SetPhase s p r m now)) = st_MultiCluster s"
  "st_ObservedGeneration (fst (SetPhase s p r m now)) = st_ObservedGeneration s"
  "st_ActiveJobSetName (fst (SetPhase s p r m now)) = st_ActiveJobSetName s"
  "st_CurrentRunAttempt (fst (SetPhase s p r m now)) = st_CurrentRunAttempt s"
  "st_LastCompletedCheckpoint (fst (SetPhase s p r m now)) = st_LastCompletedCheckpoint s"
  "st_Phase (fst (SetPhase s p r m now)) = p"
  by (simp_all add: SetPhase_def Let_def split_beta)

lemma fst_if_present:
  "get (rtj_Status j) = Some v \<Longrightarrow> fst (if_present get upd f j) = j\<lparr> rtj_Status := upd (\<lambda>_. Some (fst (f v))) (rtj_Status j) \<rparr>"
  by (simp add: if_present_def split_beta)

lemma fst_assigns_Cons: "fst (assigns (a # as) s) = fst (assigns as (fst (a s)))"
  by (simp add: split_beta)

lemma settled_observe:
  "fst (setObservedGeneration j) = j\<lparr> rtj_Status := (rtj_Status j)\<lparr> st_ObservedGeneration := rtj_Generation j \<rparr> \<rparr>"
  by (simp add: setObservedGeneration_def)

text \<open>A settled job is already observed, and what it was settled from may have had another view.\<close>

lemma settled_observed: "settled_at p mc j j' \<Longrightarrow> fst (setObservedGeneration j') = j'"
proof -
  assume s: "settled_at p mc j j'"
  then have "rtj_Generation j' = rtj_Generation j" unfolding settled_at_def using status_only(2) by blast
  with s show ?thesis by (simp add: setObservedGeneration_def settled_at_def)
qed

lemma settled_from: "settled_at p mc (with_multicluster x j) j' \<Longrightarrow> settled_at p mc j j'"
  by (simp add: settled_at_def)

lemma settled_markRemotePaused:
  assumes "st_MultiCluster (rtj_Status j) = Some mc"
  shows "settled_at PhasePaused (mc\<lparr> mc_RemotePhase := PhasePaused, mc_LocalExecutionSuppressed := True \<rparr>) j
    (fst (markRemotePaused now j))"
proof -
  let ?j1 = "j\<lparr> rtj_Status := fst (SetPhase (rtj_Status j) PhasePaused ''RemotePauseComplete''
    ''Remote RTJ execution has been paused. Checkpoint preserved in shared store for cross-worker resume.'' now) \<rparr>"
  have mc: "st_MultiCluster (rtj_Status ?j1) = Some mc" using assms by (simp add: SetPhase_other_fields)
  have "fst (ensure_multicluster ?j1) = ?j1" using mc by (simp add: ensure_multicluster_def)
  then have "fst (markRemotePaused now j) = fst (setObservedGeneration (with_multicluster
      (mc\<lparr> mc_RemotePhase := PhasePaused, mc_LocalExecutionSuppressed := True \<rparr>) ?j1))"
    using fst_if_present [where get = st_MultiCluster, OF mc] unfolding markRemotePaused_def
    by (simp add: fst_run_all_Cons phase_to_simps fst_assigns_Cons fst_assign_mc del: run_all.simps assigns.simps)
      simp
  then show ?thesis by (simp add: settled_observe settled_at_def SetPhase_other_fields)
qed

lemma settled_markManagerSuppressed:
  assumes "st_MultiCluster (rtj_Status j) = Some mc" and "mc_DispatchPhase mc \<noteq> DispatchPhaseUnset"
  shows "settled_at PhaseQueued (mc\<lparr> mc_LocalExecutionSuppressed := True \<rparr>) j (fst (markManagerSuppressed now j))"
proof -
  let ?j1 = "with_multicluster (mc\<lparr> mc_LocalExecutionSuppressed := True \<rparr>) j"
  have "\<exists>r m. fst (markManagerSuppressed now j) =
      fst (setObservedGeneration (?j1\<lparr> rtj_Status := fst (SetPhase (rtj_Status ?j1) PhaseQueued r m now) \<rparr>))"
    using assms fst_if_present [where get = st_MultiCluster, OF assms(1)] unfolding markManagerSuppressed_def
    by (intro exI) (simp add: fst_run_all_Cons phase_to_simps fst_assigns_Cons fst_assign_mc del: run_all.simps assigns.simps, simp)
  then show ?thesis by (auto simp: settled_observe settled_at_def SetPhase_other_fields)
qed

text \<open>The job of the manager after its updates: the view of the remote run, the checkpoint preserved over a pause.\<close>

definition manager_view :: "string \<Rightarrow> job \<Rightarrow> MultiClusterStatus" where
  "manager_view cluster job =
     (let mc = remote_view cluster job; paused = isRemotePauseRequested job in
      mc\<lparr> mc_RemoteCheckpoint := (if paused \<and> mc_RemoteCheckpoint mc = None then preserveRemoteCheckpoint job
                                  else mc_RemoteCheckpoint mc),
          mc_RemotePhase := (if paused \<and> \<not> hasRemoteStatusSignal job then PhasePaused else mc_RemotePhase mc) \<rparr>)"

lemma manager_updates_settle:
  assumes "pause = isRemotePauseRequested j" and "pre = (if pause then preserveRemoteCheckpoint j else None)"
  shows "settled_at (if hasRemoteStatusSignal j then st_Phase (rtj_Status j) else if pause then PhasePaused else PhaseQueued)
     (manager_view cluster j) j (fst (manager_updates cluster pre pause now j))"
proof -
  let ?mc = "remote_view cluster j"
  let ?mc2 = "if pause then ?mc\<lparr> mc_RemoteCheckpoint := (case mc_RemoteCheckpoint ?mc of None \<Rightarrow> pre | Some c \<Rightarrow> Some c) \<rparr> else ?mc"
  let ?j2 = "with_multicluster ?mc2 j"
  have step: "fst ((if pause then restoreRemoteCheckpoint pre (with_multicluster ?mc j) else (with_multicluster ?mc j, False))) = ?j2"
    by (simp add: restoreRemoteCheckpoint_fst)
  have sig: "hasRemoteStatusSignal ?j2 = hasRemoteStatusSignal j" by (simp add: hasRemoteStatusSignal_def)
  have mc2: "st_MultiCluster (rtj_Status ?j2) = Some ?mc2" by simp
  have flags: "mc_LocalExecutionSuppressed ?mc2" "mc_DispatchPhase ?mc2 \<noteq> DispatchPhaseUnset"
    by (simp_all add: remote_view_def)
  let ?j3 = "fst (if hasRemoteStatusSignal ?j2 then (?j2, False)
      else if pause then markRemotePaused now ?j2 else markManagerSuppressed now ?j2)"
  have run: "fst (manager_updates cluster pre pause now j) = fst (setObservedGeneration ?j3)"
    by (simp add: manager_updates_def fst_run_all_Cons syncRemoteStatus_fst step del: run_all.simps) simp
  show ?thesis
  proof (cases "hasRemoteStatusSignal j")
    case True
    have "?mc2 = manager_view cluster j"
      using True by (auto simp: manager_view_def assms Let_def split: option.split)
    with True sig show ?thesis unfolding run by (simp add: settled_at_def settled_observe)
  next
    case False
    have view: "?mc2\<lparr> mc_RemotePhase := if pause then PhasePaused else mc_RemotePhase ?mc2,
        mc_LocalExecutionSuppressed := True \<rparr> = manager_view cluster j"
      using False flags(1) by (auto simp: manager_view_def assms Let_def remote_view_def split: option.split)
    show ?thesis
    proof (cases pause)
      case True
      note p = settled_markRemotePaused [OF mc2, of now]
      have "?j3 = fst (markRemotePaused now ?j2)" using sig False True by simp
      with settled_observed [OF p] settled_from [OF p] view True False show ?thesis unfolding run by simp
    next
      case pf: False
      note q = settled_markManagerSuppressed [OF mc2 flags(2), of now]
      have "?j3 = fst (markManagerSuppressed now ?j2)" using sig False pf by simp
      with settled_observed [OF q] settled_from [OF q] view pf False show ?thesis unfolding run by simp
    qed
  qed
qed

lemma honest_syncRemoteStatus: "honest (syncRemoteStatus c)"
proof (rule honest_byI)
  fix j
  let ?f = "assigns
          [assign mc_LocalExecutionSuppressed mc_LocalExecutionSuppressed_update True,
           assign mc_ExecutionCluster mc_ExecutionCluster_update c,
           assign mc_DispatchPhase mc_DispatchPhase_update (fst (classifyRemoteState j c)),
           assign mc_RemotePhase mc_RemotePhase_update (snd (classifyRemoteState j c)),
           syncRemoteObjectRef j c, syncRemoteCheckpointSummary (st_LastCompletedCheckpoint (rtj_Status j)),
           \<lambda>mc. if st_ObservedGeneration (rtj_Status j) \<noteq> mc_RemoteObservedGeneration mc \<and> hasRemoteStatusSignal j
                then (mc\<lparr> mc_RemoteObservedGeneration := st_ObservedGeneration (rtj_Status j) \<rparr>, True) else (mc, False)]"
  have "keeps_if_unchanged (syncRemoteObjectRef j c)" "keeps_if_unchanged (syncRemoteCheckpointSummary r)" for r
    by (simp_all add: keeps_if_unchanged_def syncRemoteObjectRef_def syncRemoteCheckpointSummary_def Let_def split: option.split)
  moreover have "keeps_if_unchanged (\<lambda>mc. if st_ObservedGeneration (rtj_Status j) \<noteq> mc_RemoteObservedGeneration mc \<and> hasRemoteStatusSignal j
                then (mc\<lparr> mc_RemoteObservedGeneration := st_ObservedGeneration (rtj_Status j) \<rparr>, True) else (mc, False))"
    by (simp add: keeps_if_unchanged_def)
  ultimately have "keeps_if_unchanged ?f" by (intro assigns_keeps) simp
  moreover have "snd (?f zero_MultiClusterStatus)"
    by (simp add: split_beta assign_def zero_MultiClusterStatus_def)
  ultimately have "honest (with_default zero_MultiClusterStatus st_MultiCluster st_MultiCluster_update ?f)"
    by (intro honest_with_default) simp_all
  then show "\<exists>v. honest v \<and> syncRemoteStatus c j = v j" unfolding syncRemoteStatus_def by blast
qed

lemma honest_restoreRemoteCheckpoint: "honest (restoreRemoteCheckpoint pre)"
proof (cases pre)
  case None
  then show ?thesis by (simp add: restoreRemoteCheckpoint_def honest_def)
next
  case (Some cp)
  let ?f = "\<lambda>mc. if mc_RemoteCheckpoint mc \<noteq> None then (mc, False) else (mc\<lparr> mc_RemoteCheckpoint := Some cp \<rparr>, True)"
  have "honest (with_default zero_MultiClusterStatus st_MultiCluster st_MultiCluster_update ?f)"
    by (rule honest_with_default) (simp_all add: keeps_if_unchanged_def zero_MultiClusterStatus_def)
  moreover have "restoreRemoteCheckpoint pre = with_default zero_MultiClusterStatus st_MultiCluster st_MultiCluster_update ?f"
    using Some by (simp add: restoreRemoteCheckpoint_def fun_eq_iff)
  ultimately show ?thesis by simp
qed

lemma honest_markRemotePaused: "honest (markRemotePaused now)"
proof -
  have "honest ensure_multicluster" by (simp add: honest_def ensure_multicluster_def split: option.split)
  moreover have "honest (if_present st_MultiCluster st_MultiCluster_update
      (assigns [assign mc_RemotePhase mc_RemotePhase_update PhasePaused,
                assign mc_LocalExecutionSuppressed mc_LocalExecutionSuppressed_update True]))"
    by (rule honest_if_present, simp, rule assigns_keeps) simp
  ultimately show ?thesis unfolding markRemotePaused_def by (intro honest_run_all) simp
qed

lemma honest_manager_updates: "honest (manager_updates c pre pause now)"
  unfolding manager_updates_def
  by (rule honest_run_all)
    (simp add: honest_syncRemoteStatus honest_restoreRemoteCheckpoint honest_markRemotePaused
      honest_markManagerSuppressed honest_ifI)

text \<open>What the server holds after the manager's reconciliation, when it accepts the write.\<close>

lemma manager_outcome:
  assumes "\<forall>x. ce_UpdateStatus E x = None"
  obtains j' where "persisted E (effects (reconcileManagerIntent E j)) j = j'"
    and "set (effects (reconcileManagerIntent E j)) \<subseteq> {UpdateStatus j'}"
    and "settled_at (if hasRemoteStatusSignal j then st_Phase (rtj_Status j)
                     else if isRemotePauseRequested j then PhasePaused else PhaseQueued)
           (manager_view (execution_cluster E j) j) j j'"
    and "result (reconcileManagerIntent E j) =
           Inr (if isRemotePauseRequested j \<and> hasRemoteStatusSignal j then RequeueAfter (5 * Second) else Done)"
proof -
  let ?pre = "if isRemotePauseRequested j then preserveRemoteCheckpoint j else None"
  let ?u = "manager_updates (execution_cluster E j) ?pre (isRemotePauseRequested j) (ce_Now E)"
  have s: "settled_at (if hasRemoteStatusSignal j then st_Phase (rtj_Status j)
        else if isRemotePauseRequested j then PhasePaused else PhaseQueued)
      (manager_view (execution_cluster E j) j) j (fst (?u j))"
    by (rule manager_updates_settle) simp_all
  have sig: "hasRemoteStatusSignal (fst (?u j)) = hasRemoteStatusSignal j"
    using s by (simp add: settled_at_def hasRemoteStatusSignal_def)
  have stored: "j\<lparr> rtj_Status := rtj_Status (fst (?u j)) \<rparr> = fst (?u j)" using s by (simp add: settled_at_def)
  have r: "reconcileManagerIntent E j = save_if E (snd (?u j)) (fst (?u j))
      (Inr (if isRemotePauseRequested j \<and> hasRemoteStatusSignal j then RequeueAfter (5 * Second) else Done), [], fst (?u j))"
    by (simp add: reconcileManagerIntent_def split_beta sig Let_def)
  have "persisted E (effects (reconcileManagerIntent E j)) j = fst (?u j)"
    using assms stored honestD [OF honest_manager_updates] unfolding r save_if_effects by simp
  moreover have "set (effects (reconcileManagerIntent E j)) \<subseteq> {UpdateStatus (fst (?u j))}"
    unfolding r save_if_effects by simp
  moreover have "result (reconcileManagerIntent E j) =
      Inr (if isRemotePauseRequested j \<and> hasRemoteStatusSignal j then RequeueAfter (5 * Second) else Done)"
    using assms unfolding r by (simp add: save_if_def save_def)
  ultimately show thesis using s by (intro that)
qed


text \<open>A manager whose resolver names a cluster, and a job with a mirrored run that is being paused.\<close>

definition ex_manager_ctl :: ctl_env where
  "ex_manager_ctl = ex_ctl\<lparr> ce_Mode := ModeManager, ce_ClusterResolver := Some (StaticClusterResolver ''east'') \<rparr>"

definition ex_delegated :: job where
  "ex_delegated = (ex_active PhaseRunning None)\<lparr> rtj_Spec := ex_spec\<lparr> sp_Control := Some DesiredStatePaused,
     sp_ManagedBy := ''kueue.x-k8s.io/multikueue'' \<rparr> \<rparr>"


section \<open>Limits of the pause of a remote run\<close>

text \<open>Every reconciliation of a paused job whose remote run is gone writes the status again:
  \<open>syncRemoteStatus\<close> resets the remote phase, which \<open>markRemotePaused\<close> then sets anew.\<close>

lemma remote_pause_rewrites:
  assumes "isRemotePauseRequested j" and "\<not> hasRemoteStatusSignal j"
    and "st_MultiCluster (rtj_Status j) = Some mc" and "mc_RemotePhase mc = PhasePaused"
  shows "effects (reconcileManagerIntent E j) \<noteq> []"
proof -
  have "snd (syncRemoteStatus c j)" for c
  proof (rule ccontr)
    assume "\<not> snd (syncRemoteStatus c j)"
    then have "fst (syncRemoteStatus c j) = j" using honestD [OF honest_syncRemoteStatus] by blast
    from arg_cong [OF this, of "\<lambda>x. st_MultiCluster (rtj_Status x)"]
    have "st_MultiCluster (rtj_Status j) = Some (remote_view c j)" by (simp add: syncRemoteStatus_fst)
    then have "mc_RemotePhase (remote_view c j) = PhasePaused" using assms(3,4) by simp
    then show False using assms(2) by (simp add: remote_view_def)
  qed
  then have "snd (manager_updates c pre pause now j)" for c pre pause now
    by (simp add: manager_updates_def split_beta)
  then show ?thesis by (simp add: reconcileManagerIntent_def split_beta save_if_effects Let_def)
qed

text \<open>The checkpoint summary is preserved in the multi-cluster status itself: once a mirrored status without that
  field (a fresh remote job has none) has replaced it, a pause shows no checkpoint.\<close>

lemma remote_checkpoint_lost:
  assumes "\<forall>x. ce_UpdateStatus E x = None" and "st_MultiCluster (rtj_Status j) = None"
    and "st_LastCompletedCheckpoint (rtj_Status j) = None"
  shows "\<exists>mc. st_MultiCluster (rtj_Status (persisted E (effects (reconcileManagerIntent E j)) j)) = Some mc
      \<and> mc_RemoteCheckpoint mc = None"
proof -
  obtain j' where "persisted E (effects (reconcileManagerIntent E j)) j = j'"
    and "st_MultiCluster (rtj_Status j') = Some (manager_view (execution_cluster E j) j)"
    using manager_outcome [OF assms(1), of j] unfolding settled_at_def by blast
  then show ?thesis
    using assms(2,3) by (simp add: manager_view_def remote_view_def preserveRemoteCheckpoint_def Let_def)
qed

end
