(* ===== verification/Controller.thy ===== *)
theory Controller
  imports Resume_Flow DRA_Control Elastic_Control Priority_State Remote_Status
begin

text \<open>
  The controller: \<open>Reconcile\<close> and \<open>getActiveJobSet\<close> of \<open>internal/controller/resumabletrainingjob_controller.go\<close>, which
  compose the flows of the other theories, and the filter of \<open>workload_observer.go\<close>.  Metrics and logging are left out.
  An error that the code wraps and returns is the text it carries; an update of the whole object replaces the job in
  memory by the server's answer, as \<open>controller-runtime\<close> does.
\<close>

section \<open>The child JobSet\<close>

definition getActiveJobSet :: "ctl_env \<Rightarrow> job \<Rightarrow> api_error + JobSetObject option" where
  "getActiveJobSet E job =
     (if st_ActiveJobSetName (rtj_Status job) = '''' then Inr None
      else case ce_GetJobSet E (rtj_Namespace job) (st_ActiveJobSetName (rtj_Status job)) of
        Inl err \<Rightarrow> if IsNotFound err then Inr None else Inl err
      | Inr child \<Rightarrow> if js_Deleting child then Inr None else Inr (Some child))"

section \<open>Finalizers and deletion\<close>

definition resumableTrainingJobFinalizer :: string where
  "resumableTrainingJobFinalizer = ''training.checkpoint.example.io/finalizer''"

definition update_job :: "ctl_env \<Rightarrow> job \<Rightarrow> (job \<Rightarrow> outcome) \<Rightarrow> outcome" where
  "update_job E job continue =
     (case ce_UpdateJob E job of
        Inl err \<Rightarrow> (Inl (err_text err), [UpdateJob job], job)
      | Inr answer \<Rightarrow> emits [UpdateJob job] (continue answer))"

definition reconcile_deletion :: "ctl_env \<Rightarrow> job \<Rightarrow> outcome" where
  "reconcile_deletion E job =
     (if resumableTrainingJobFinalizer \<in> set (rtj_Finalizers job)
      then update_job E (job\<lparr> rtj_Finalizers := filter (\<lambda>f. f \<noteq> resumableTrainingJobFinalizer) (rtj_Finalizers job) \<rparr>)
             (\<lambda>job1. (Inr Done, [], job1))
      else (Inr Done, [], job))"

section \<open>A job with an active child\<close>

definition stop_active :: "ctl_env \<Rightarrow> job \<Rightarrow> JobSetObject option \<Rightarrow> stopSource \<Rightarrow> gotime \<Rightarrow> outcome" where
  "stop_active E job activeJobSet source now =
     (case (if source = stopSourceKueue \<and> st_WorkloadReference (rtj_Status job) \<noteq> None
            then detectAndRecordEviction (ce_Meta E) (findWorkloadForRTJ E job) now job else (job, False)) of
        (job1, evictionChanged) \<Rightarrow>
          save_if E evictionChanged job1 (reconcileStopFlow E job1 activeJobSet source now))"

definition running_updates :: "meta_ops \<Rightarrow> gotime \<Rightarrow> update" where
  "running_updates M now job =
     (let wasRestoring = (st_Phase (rtj_Status job) = PhaseRestoring) in
      run_all [markRunning M now, syncStartupRecoveryOnRunning now, clearStartupRecoveryTimeoutConditions,
               \<lambda>j. if wasRestoring \<and> isResizeTriggeredStop j then completeResizeAfterRelaunch now j else (j, False)] job)"

text \<open>Priority shaping of a running job; the continuation gets the job, whether its status changed and the delay until
  the next evaluation.\<close>

definition shape_priority ::
  "ctl_env \<Rightarrow> job \<Rightarrow> bool \<Rightarrow> gotime \<Rightarrow> (job \<Rightarrow> bool \<Rightarrow> duration \<Rightarrow> outcome) \<Rightarrow> outcome" where
  "shape_priority E job statusChanged now continue =
     (if isActivePriorityPhase (st_Phase (rtj_Status job)) \<and> IsPriorityShapingEnabled job
      then (case reconcilePriorityState E job now of
              (psResult, es, job1) \<Rightarrow> emits es
                (let changed = psr_StatusChanged psResult \<or> statusChanged in
                 if psr_AnnotationsChanged psResult
                 then update_job E job1 (\<lambda>job2. continue job2 changed (psr_RequeueAfter psResult))
                 else continue job1 changed (psr_RequeueAfter psResult)))
      else continue job statusChanged 0)"

text \<open>The elastic plan of a running job, ending in the stop flow when the plan relaunches.\<close>

definition run_elastic ::
  "ctl_env \<Rightarrow> job \<Rightarrow> JobSetObject \<Rightarrow> bool \<Rightarrow> gotime \<Rightarrow> (job \<Rightarrow> bool \<Rightarrow> outcome) \<Rightarrow> outcome" where
  "run_elastic E job child statusChanged now continue =
     (if \<not> IsElasticityEnabled job then continue job statusChanged
      else case findWorkloadForRTJ E job of
        Inl _ \<Rightarrow> continue job statusChanged
      | Inr workload \<Rightarrow>
          (case evaluateElasticPlan (Option.bind workload wl_Admission \<noteq> None) (workload \<noteq> None) now job of
             (plan, job1, planChanged) \<Rightarrow>
               (case executeElasticPlan E job1 plan now of
                  (execResult, _, es, job2) \<Rightarrow> emits es
                    (let changed = ex_StatusChanged execResult \<or> planChanged \<or> statusChanged in
                     if ex_TriggerStopFlow execResult
                     then save_if E changed job2 (reconcileResizeStopFlow E job2 (Some child) now)
                     else continue job2 changed))))"

definition reconcile_active :: "ctl_env \<Rightarrow> job \<Rightarrow> JobSetObject \<Rightarrow> gotime \<Rightarrow> outcome" where
  "reconcile_active E job child now =
     (case running_updates (ce_Meta E) now job of
        (job1, changed1) \<Rightarrow>
          shape_priority E job1 changed1 now (\<lambda>job2 changed2 priorityRequeue.
            run_elastic E job2 child changed2 now (\<lambda>job3 changed3.
              save_if E changed3 job3
                (Inr (if priorityRequeue > 0 then RequeueAfter priorityRequeue else Done), [], job3))))"

section \<open>A job without one\<close>

definition launchGateRequeueInterval :: duration where
  "launchGateRequeueInterval = 5 * Second"

text \<open>The dry run of the pod set updates; without updates it has no conflict
  (\<open>ApplyPodSetUpdates_no_updates\<close> below), so the code's test of their number is not repeated.\<close>

definition update_conflict :: "ctl_env \<Rightarrow> job \<Rightarrow> LaunchGateResult \<Rightarrow> string option" where
  "update_conflict E job gateResult =
     (if lgr_LaunchView gateResult = None then None
      else case ParseTemplate (ce_Render E) (tpl_Spec (rt_Template (sp_Runtime (rtj_Spec job)))) of
        Inl _ \<Rightarrow> None
      | Inr spec \<Rightarrow>
          (let testResult = fst (ApplyPodSetUpdates (ce_Render E) spec (lp_PodSetUpdates (buildLaunchPlan E job gateResult)))
           in if apr_Applied testResult then None else Some (ConflictMessage testResult)))"

definition launch_conflict :: "ctl_env \<Rightarrow> job \<Rightarrow> string \<Rightarrow> gotime \<Rightarrow> outcome" where
  "launch_conflict E job msg now =
     (case run_all [setLaunchBlockedByConflictingUpdate (ce_Meta E) msg now,
                    markFailed (ce_Meta E) ''LaunchBlockedByConflictingPodSetUpdate'' msg now] job of
        (job1, changed) \<Rightarrow> save_if E changed job1 (Inl (''launch blocked: '' @ msg), [], job1))"

definition launch_gated :: "ctl_env \<Rightarrow> job \<Rightarrow> LaunchGateResult \<Rightarrow> gotime \<Rightarrow> outcome" where
  "launch_gated E job gateResult now =
     (if \<not> lgr_Ready gateResult
      then (case sync_gate_blocked (ce_Meta E) gateResult now job of
              (job1, changed) \<Rightarrow> save_if E changed job1 (Inr (RequeueAfter launchGateRequeueInterval), [], job1))
      else (case sync_gate_passed (ce_Meta E) (resolveWorkerPodSetNameForJob E job) gateResult now job of
              (job1, changed) \<Rightarrow> save_if E changed job1
                (case update_conflict E job1 gateResult of
                   Some msg \<Rightarrow> launch_conflict E job1 msg now
                 | None \<Rightarrow> if shouldResume job1 then reconcileResumeWithGate E job1 now gateResult
                           else reconcileLaunchWithGate E job1 now gateResult)))"

definition reconcile_inactive :: "ctl_env \<Rightarrow> job \<Rightarrow> bool \<Rightarrow> gotime \<Rightarrow> outcome" where
  "reconcile_inactive E job templatesReady now =
     (if \<not> templatesReady then (Inr (RequeueAfter launchGateRequeueInterval), [], job)
      else if IsTopologyEnabled job \<or> st_WorkloadReference (rtj_Status job) \<noteq> None \<or> \<not> List.null (ce_ProvisioningACNames E)
      then (case evaluateLaunchGates E job of
              Inl err \<Rightarrow> failLaunch E job (''evaluate launch gates: '' @ err)
            | Inr gateResult \<Rightarrow> launch_gated E job gateResult now)
      else if shouldResume job then reconcileResume E job now
      else reconcileLaunch E job now)"

section \<open>Reconciliation\<close>

text \<open>From the lookup of the child on.\<close>

definition reconcile_child :: "ctl_env \<Rightarrow> job \<Rightarrow> bool \<Rightarrow> outcome" where
  "reconcile_child E job templatesReady =
     (let now = ce_Now E in
      case getActiveJobSet E job of
        Inl err \<Rightarrow> failLaunch E job (''lookup child JobSet: '' @ err_text err)
      | Inr activeJobSet \<Rightarrow>
          (case requestedStopSource job (activeJobSet \<noteq> None) of
             Some source \<Rightarrow> stop_active E job activeJobSet source now
           | None \<Rightarrow>
               if sp_Control (rtj_Spec job) \<noteq> Some DesiredStateRunning then reconcileManualHold E job now
               else if activeJobSet = None \<and> IsSuspendedForKueue job
               then (case markQueuedForAdmission (ce_Meta E) now job of
                       (job1, changed) \<Rightarrow> save_if E changed job1 (Inr Done, [], job1))
               else case activeJobSet of
                 Some child \<Rightarrow> reconcile_active E job child now
               | None \<Rightarrow> reconcile_inactive E job templatesReady now))"

text \<open>The worker's path, from the claim templates on.\<close>

definition reconcile_runtime :: "ctl_env \<Rightarrow> job \<Rightarrow> outcome" where
  "reconcile_runtime E job =
     (case reconcileDRATemplates E job of
        (Inl err, es, job1) \<Rightarrow> (Inl (''reconcile DRA templates: '' @ err), es, job1)
      | (Inr draResult, es, job1) \<Rightarrow>
          emits es (save_if E (drr_StatusChanged draResult) job1
            (reconcile_child E job1 (drr_TemplatesReady draResult))))"

definition reconcile_job :: "ctl_env \<Rightarrow> job \<Rightarrow> outcome" where
  "reconcile_job E job =
     (if rtj_Deleting job then reconcile_deletion E job
      else if resumableTrainingJobFinalizer \<notin> set (rtj_Finalizers job)
      then update_job E (job\<lparr> rtj_Finalizers := rtj_Finalizers job @ [resumableTrainingJobFinalizer] \<rparr>)
             (\<lambda>job1. (Inr RequeueNow, [], job1))
      else case InitializePhase1Status job (ce_Now E) of
        (job1, initialized) \<Rightarrow>
          if initialized then save E job1 (Inr Done, [], job1)
          else if ShouldSuppressRuntime (ce_Mode E) job1 then reconcileManagerIntent E job1
          else reconcile_runtime E job1)"

definition Reconcile :: "ctl_env \<Rightarrow> string \<Rightarrow> string \<Rightarrow> (go_err + requeue) \<times> effect list" where
  "Reconcile E namespace name =
     (case ce_GetJob E namespace name of
        Inl err \<Rightarrow> (if IsNotFound err then Inr Done else Inl (err_text err), [])
      | Inr job \<Rightarrow> (case reconcile_job E job of (r, es, _) \<Rightarrow> (r, es)))"

section \<open>The workload observer (\<open>workload_observer.go\<close>)\<close>

definition isRTJOwnedWorkload :: "Workload option \<Rightarrow> bool" where
  "isRTJOwnedWorkload workload \<longleftrightarrow>
     (case workload of
        None \<Rightarrow> False
      | Some wl \<Rightarrow> list_ex (\<lambda>ref. own_APIVersion ref = ''training.checkpoint.example.io/v1alpha1''
          \<and> own_Kind ref = ''ResumableTrainingJob'' \<and> own_UID ref \<noteq> '''') (wl_OwnerReferences wl))"

lemma ApplyPodSetUpdates_no_updates: "apr_Applied (fst (ApplyPodSetUpdates R spec Map.empty))"
proof -
  have "fst (apply_updates_loop R Map.empty jobs) = []" for jobs
    by (induction jobs) (simp_all add: split_beta)
  then show ?thesis by (simp add: ApplyPodSetUpdates_def Let_def split_beta)
qed

section \<open>Effects on the child\<close>

text \<open>The flows that neither start nor stop a run.  A class of effects on child JobSets (creating one, deleting one) is
  absent from what they do; each class is an interpretation.\<close>

fun is_delete :: "effect \<Rightarrow> bool" where
  "is_delete (DeleteJobSet _) = True"
| "is_delete _ = False"

locale child_effect =
  fixes hit :: "effect \<Rightarrow> bool"
  assumes hit_child: "hit e \<Longrightarrow> is_create e \<or> is_delete e"
begin

lemma other_effects [simp]:
  "\<not> hit (UpdateStatus j)" "\<not> hit (UpdateJob j)" "\<not> hit (UpdateConfigMap cm)" "\<not> hit (CreateConfigMap cm)"
  "\<not> hit (PatchReclaimablePods n ps)" "\<not> hit (PatchPriority n p)" "\<not> hit (CreateClaimTemplate t)" "\<not> hit (DeleteClaimTemplate n)"
  using hit_child by fastforce+

lemma saves [simp]:
  "list_ex hit (effects (save_if E b j k)) \<longleftrightarrow> \<not> (b \<and> ce_UpdateStatus E j \<noteq> None) \<and> list_ex hit (effects k)"
  "list_ex hit (effects (save E j k)) \<longleftrightarrow> ce_UpdateStatus E j = None \<and> list_ex hit (effects k)"
  by (simp_all add: save_if_effects save_effects)

lemma failing [simp]: "\<not> list_ex hit (effects (failLaunch E j m))"
  by (simp add: failLaunch_def split_beta)

lemma holding [simp]: "\<not> list_ex hit (effects (reconcileManualHold E j now))"
  by (simp add: reconcileManualHold_def split_beta)

lemma managing [simp]: "\<not> list_ex hit (effects (reconcileManagerIntent E j))"
  by (simp add: reconcileManagerIntent_def Let_def split_beta)

lemma controlling [simp]: "\<not> list_ex hit (snd (writePauseControl E j rid t))"
  by (simp add: writePauseControl_def Let_def split: sum.split)

lemma updating:
  assumes "\<And>answer. \<not> list_ex hit (effects (k answer))"
  shows "\<not> list_ex hit (effects (update_job E j k))"
  using assms by (simp add: update_job_def split: sum.split)

lemma prioritising [simp]: "\<not> list_ex hit (fst (snd (reconcilePriorityState E j now)))"
proof -
  have "\<not> list_ex hit (snd (patchWorkloadPriority E x p))" for x p
    by (auto simp: patchWorkloadPriority_def Let_def split: sum.split option.split)
  then show ?thesis by (auto simp: reconcilePriorityState_def apply_policy_def Let_def split_beta split: sum.split)
qed

lemma resizing [simp]: "\<not> list_ex hit (fst (snd (snd (executeElasticPlan E j plan now))))"
proof -
  have "\<not> list_ex hit (snd (patchWorkloadReclaimablePods E x ps))" for x ps
    by (auto simp: patchWorkloadReclaimablePods_def Let_def split: sum.split option.split)
  then show ?thesis
    by (auto simp: executeElasticPlan_def executeShrinkInPlace_def executeRelaunchResize_def clearWorkloadReclaimablePods_def
        Let_def split_beta split: PlanKind.split sum.split option.split)
qed

lemma templating:
  assumes "reconcileDRATemplates E j = (r, es, j1)"
  shows "\<not> list_ex hit es"
proof -
  have single: "\<not> list_ex hit (snd (reconcileSingleTemplate E j dt))" for dt
    by (auto simp: reconcileSingleTemplate_def create_template_def split: sum.split option.split)
  have "\<not> list_ex hit (snd (reconcile_templates E j dts))" for dts
    by (induction dts) (use single in \<open>auto simp: split_beta split: sum.split prod.split\<close>)
  moreover have "\<not> list_ex hit (snd (delete_orphans E j ns items))" for ns items
    by (induction items) (auto simp: split_beta split: option.split)
  then have "\<not> list_ex hit (snd (cleanupOrphanedTemplates E j dts))" for dts
    by (simp add: cleanupOrphanedTemplates_def split: sum.split)
  ultimately show ?thesis
    using assms
    by (auto simp: reconcileDRATemplates_def Let_def split_beta split: option.splits if_splits prod.splits sum.splits)
qed

end

interpretation creating: child_effect is_create
  by unfold_locales simp

interpretation deleting: child_effect is_delete
  by unfold_locales simp

abbreviation deletes :: "effect list \<Rightarrow> bool" where
  "deletes es \<equiv> list_ex is_delete es"

lemma created_empty_iff: "created es = [] \<longleftrightarrow> \<not> list_ex is_create es"
  by (induction es) (auto simp: created_def)

lemma deletes_iff: "deletes es \<longleftrightarrow> (\<exists>n. DeleteJobSet n \<in> set es)"
proof -
  have "is_delete e \<longleftrightarrow> (\<exists>n. e = DeleteJobSet n)" for e by (cases e) simp_all
  then show ?thesis by (auto simp: list_ex_iff)
qed

end
