(* ===== verification/Controller_Runs.thy ===== *)
theory Controller_Runs
  imports Controller
begin

text \<open>
  When the controller starts and stops a run: properties of whole reconciliations (\<open>reconcile_job\<close> of \<open>Controller\<close>),
  composed from those of the flows.  A child JobSet is created only for a job that may run and has no live child, and
  exactly one; a job that can run is launched; a live child is deleted only after a stop was requested and
  the run was drained or out of time; a manager never touches the runtime of a delegated job.
\<close>

section \<open>What each flow creates\<close>

lemma created_other [simp]:
  "created (UpdateJob j # es) = created es" "created (UpdateConfigMap cm # es) = created es"
  "created (DeleteJobSet n # es) = created es" "created (PatchReclaimablePods n ps # es) = created es"
  "created (PatchPriority n p # es) = created es" "created (CreateClaimTemplate t # es) = created es"
  "created (DeleteClaimTemplate n # es) = created es"
  by (simp_all add: created_def)

lemma created_save_if [simp]:
  "created (effects (save_if E b j k)) = (if b \<and> ce_UpdateStatus E j \<noteq> None then [] else created (effects k))"
  by (simp add: save_if_effects)

lemma created_save_any [simp]:
  "created (effects (save E j k)) = (if ce_UpdateStatus E j \<noteq> None then [] else created (effects k))"
  by (simp add: save_effects)

lemma created_elsewhere [simp]:
  "created (effects (reconcileManualHold E j now)) = []" "created (effects (reconcileManagerIntent E j)) = []"
  "created (fst (snd (snd (executeElasticPlan E j plan now)))) = []" "created (fst (snd (reconcilePriorityState E j now))) = []"
  "reconcileDRATemplates E j = (r, es, j1) \<Longrightarrow> created es = []"
  using creating.templating by (simp_all add: created_empty_iff)

lemma created_control: "created (snd (writePauseControl E j rid t)) = []"
  by (simp add: created_empty_iff)

lemma created_stop_flow [simp]: "created (effects (reconcileStopFlow E j js src now)) = []"
proof -
  have cleanup: "created (snd (cleanupActiveJobSet E js)) = []" for E js
    by (auto simp: cleanupActiveJobSet_def split: option.split)
  have drain: "created (effects (drain_failure E j js rid now)) = []"
    "created (effects (observe_drain E j js src rid t now)) = []" for j rid t
    using cleanup [of E js]
    by (auto simp: drain_failure_def observe_drain_def Let_def split_beta split: sum.split option.split)
  show ?thesis
    using created_control by (auto simp: reconcileStopFlow_def split_beta drain split: option.split)
qed

lemma created_update_job:
  assumes "\<And>answer. created (effects (k answer)) = []"
  shows "created (effects (update_job E j k)) = []"
  using assms by (simp add: update_job_def split: sum.split)

lemma created_active [simp]: "created (effects (reconcile_active E j child now)) = []"
proof -
  have elastic: "created (effects (run_elastic E j child b now k)) = []"
    if "\<And>j' b'. created (effects (k j' b')) = []" for j b k
    using that
    by (auto simp: run_elastic_def Let_def split_beta reconcileResizeStopFlow_def split: sum.split)
  have "created (effects (shape_priority E j b now k)) = []"
    if "\<And>j' b' d. created (effects (k j' b' d)) = []" for j b k
    using that
    by (auto simp: shape_priority_def Let_def split_beta intro!: created_update_job)
  then show ?thesis by (simp add: reconcile_active_def split_beta elastic)
qed

section \<open>What a launch creates\<close>

text \<open>At most one JobSet, and only one that was looked up before and is not there.\<close>

definition creates_missing :: "ctl_env \<Rightarrow> effect list \<Rightarrow> bool" where
  "creates_missing E es \<longleftrightarrow>
     created es = [] \<or> (\<exists>obj err. created es = [obj] \<and> ce_GetJobSet E (ob_Namespace obj) (ob_Name obj) = Inl err \<and> IsNotFound err)"

lemma creates_missing_none [simp]: "created es = [] \<Longrightarrow> creates_missing E es"
  by (simp add: creates_missing_def)

lemma creates_missing_attempt:
  "creates_missing E (snd (createRunAttemptResources E j n uri))"
  "creates_missing E (snd (createRunAttemptResourcesWithPlan E j n uri plan))"
proof -
  have "creates_missing E (snd (create_attempt E j n ri))" for ri
    using create_attempt_created [of E j n ri "fst (create_attempt E j n ri)" "snd (create_attempt E j n ri)"]
    by (auto simp: creates_missing_def)
  then show "creates_missing E (snd (createRunAttemptResources E j n uri))"
    "creates_missing E (snd (createRunAttemptResourcesWithPlan E j n uri plan))" by (simp_all add: attempt_defs)
qed

lemma creates_missing_emits:
  "creates_missing E es \<Longrightarrow> created (effects k) = [] \<Longrightarrow> creates_missing E (es @ effects k)"
  by (simp add: creates_missing_def)

lemma created_restored [simp]:
  "created (effects (no_checkpoint E j now)) = []" "created (effects (restored E j now n c names us)) = []"
  by (simp_all add: no_checkpoint_def restored_def Let_def split_beta split: option.split)

lemma launch_creates_missing:
  "creates_missing E (effects (reconcileLaunch E j now))" "creates_missing E (effects (reconcileLaunchWithGate E j now g))"
  "creates_missing E (effects (reconcileResume E j now))" "creates_missing E (effects (reconcileResumeWithGate E j now g))"
proof -
  have l: "creates_missing E (effects (case att of (Inl err, es) \<Rightarrow> emits es (failLaunch E j err)
        | (Inr names, es) \<Rightarrow> emits es (k names)))"
    if "creates_missing E (snd att)" "\<And>names. created (effects (k names)) = []" for att k
    using that by (cases att) (auto split: sum.split intro!: creates_missing_emits)
  show "creates_missing E (effects (reconcileLaunch E j now))" "creates_missing E (effects (reconcileLaunchWithGate E j now g))"
    unfolding reconcileLaunch_def reconcileLaunchWithGate_def Let_def
    by (auto simp: split_beta split: sum.split prod.split intro!: creates_missing_emits creates_missing_attempt)
  show "creates_missing E (effects (reconcileResume E j now))" "creates_missing E (effects (reconcileResumeWithGate E j now g))"
    unfolding reconcileResume_def reconcileResumeWithGate_def Let_def
    by (auto simp: creates_missing_attempt split: sum.split option.split intro!: l)
qed

section \<open>The claim templates leave the run alone\<close>

abbreviation with_devices :: "DeviceStatus option \<Rightarrow> job \<Rightarrow> job" where
  "with_devices d j \<equiv> j\<lparr> rtj_Status := (rtj_Status j)\<lparr> st_Devices := d \<rparr> \<rparr>"

lemma templates_devices_only:
  assumes "reconcileDRATemplates E j = (r, es, j1)"
  shows "created es = []" and "\<exists>d. j1 = with_devices d j"
proof -
  have same: "\<exists>d. j = with_devices d j" by (rule exI [of _ "st_Devices (rtj_Status j)"]) simp
  then have clear: "\<exists>d. fst (clearDeviceStatus j) = with_devices d j"
    by (cases "st_Devices (rtj_Status j)") (simp_all add: clearDeviceStatus_def drop_field_def, blast)
  have sync: "\<exists>d. fst (syncDeviceStatus p refs j) = with_devices d j" for p refs
    unfolding syncDeviceStatus_def Let_def by (rule ex_forward [OF sync_field_fst [OF lens_simps(3)]]) (erule conjunct1)
  show "created es = []" using created_elsewhere(5) [OF assms] .
  have "j1 = j \<or> j1 = fst (clearDeviceStatus j) \<or> (\<exists>p refs. j1 = fst (syncDeviceStatus p refs j))"
    using assms
    by (auto simp: reconcileDRATemplates_def Let_def split_beta split: option.splits if_splits prod.splits sum.splits)
  then show "\<exists>d. j1 = with_devices d j"
  proof (elim disjE exE)
    assume "j1 = j" then show ?thesis using same by (simp only:)
  next
    assume "j1 = fst (clearDeviceStatus j)" then show ?thesis using clear by (simp only:)
  next
    fix p refs assume "j1 = fst (syncDeviceStatus p refs j)" then show ?thesis using sync by (simp only:)
  qed
qed

section \<open>When a child is launched\<close>

lemma with_devices_view [simp]:
  "getActiveJobSet E (with_devices d j) = getActiveJobSet E j"
  "IsSuspendedForKueue (with_devices d j) = IsSuspendedForKueue j"
  "IsTopologyEnabled (with_devices d j) = IsTopologyEnabled j"
  "findWorkloadForRTJ E (with_devices d j) = findWorkloadForRTJ E j"
  by (simp_all add: getActiveJobSet_def api_simps findWorkloadForRTJ_def split: option.split)

lemma with_devices_gates [simp]: "evaluateLaunchGates E (with_devices d j) = evaluateLaunchGates E j"
proof -
  have "topology_gate (with_devices d j) w = topology_gate j w" for w
    by (simp add: fun_eq_iff topology_gate_def gate_open_def isResizeTriggeredStop_def split: option.split sum.split)
  moreover have "view_of E (with_devices d j) w = view_of E j w" for w
    by (simp add: view_of_def)
  ultimately have "gates E (with_devices d j) w = gates E j w" for w
    by (simp only: gates_def with_devices_view)
  then show ?thesis by (simp add: evaluateLaunchGates_def split: sum.split)
qed

abbreviation gated :: "ctl_env \<Rightarrow> job \<Rightarrow> bool" where
  "gated E j \<equiv> IsTopologyEnabled j \<or> st_WorkloadReference (rtj_Status j) \<noteq> None \<or> ce_ProvisioningACNames E \<noteq> []"

lemma creates_missing_save: "creates_missing E (effects k) \<Longrightarrow> creates_missing E (effects (save_if E b j k))"
  by (simp add: creates_missing_def)

lemma inactive_creates:
  assumes "created (effects (reconcile_inactive E j ready now)) \<noteq> []"
  shows "ready" and "gated E j \<Longrightarrow> \<exists>g. evaluateLaunchGates E j = Inr g \<and> lgr_Ready g"
    and "creates_missing E (effects (reconcile_inactive E j ready now))"
proof -
  have gate: "lgr_Ready g \<and> creates_missing E (effects (launch_gated E j g now))"
    if "created (effects (launch_gated E j g now)) \<noteq> []" for g
  proof
    show "lgr_Ready g"
      using that by (cases "lgr_Ready g") (simp_all add: launch_gated_def split_beta split: if_splits)
    show "creates_missing E (effects (launch_gated E j g now))"
      by (auto simp: launch_gated_def split_beta launch_conflict_def split: option.split
          intro!: creates_missing_save launch_creates_missing)
  qed
  show "ready" and "gated E j \<Longrightarrow> \<exists>g. evaluateLaunchGates E j = Inr g \<and> lgr_Ready g"
    using assms gate by (auto simp: reconcile_inactive_def split: sum.splits if_splits)
  show "creates_missing E (effects (reconcile_inactive E j ready now))"
    using assms gate launch_creates_missing by (auto simp: reconcile_inactive_def split: sum.splits if_splits)
qed

lemma child_creates:
  assumes "created (effects (reconcile_child E j ready)) \<noteq> []"
  shows "getActiveJobSet E j = Inr None" and "sp_Control (rtj_Spec j) = Some DesiredStateRunning"
    and "\<not> IsSuspendedForKueue j" and "reconcile_child E j ready = reconcile_inactive E j ready (ce_Now E)"
proof -
  have stop: "created (effects (stop_active E j js src now)) = []" for js src now
    by (simp add: stop_active_def split_beta)
  obtain active where a: "getActiveJobSet E j = Inr active"
    using assms by (cases "getActiveJobSet E j") (simp_all add: reconcile_child_def)
  have none: "requestedStopSource j (active \<noteq> None) = None"
    using assms stop a by (cases "requestedStopSource j (active \<noteq> None)") (simp_all add: reconcile_child_def)
  have run: "sp_Control (rtj_Spec j) = Some DesiredStateRunning"
    using assms a none by (cases "sp_Control (rtj_Spec j) = Some DesiredStateRunning") (simp_all add: reconcile_child_def)
  have inactive: "active = None"
    using assms a none run by (cases active) (auto simp: reconcile_child_def)
  have sus: "\<not> IsSuspendedForKueue j"
    using assms a none run inactive
    by (cases "IsSuspendedForKueue j") (simp_all add: reconcile_child_def split_beta Let_def split: if_splits)
  show "getActiveJobSet E j = Inr None" "sp_Control (rtj_Spec j) = Some DesiredStateRunning" "\<not> IsSuspendedForKueue j"
    using a inactive run sus by simp_all
  show "reconcile_child E j ready = reconcile_inactive E j ready (ce_Now E)"
    using a none inactive run sus by (simp add: reconcile_child_def)
qed

lemma Initialize_unchanged: "\<not> snd (InitializePhase1Status j now) \<Longrightarrow> fst (InitializePhase1Status j now) = j"
  by (cases "st_Phase (rtj_Status j) = PhaseUnset")
    (simp_all add: InitializePhase1Status_def Let_def split_beta setObservedGeneration_def SetPhase_unchanged split: if_splits)

text \<open>A reconciliation that reaches the flows of the worker.\<close>

lemma reconcile_job_runtime:
  assumes "created (effects (reconcile_job E j)) \<noteq> []"
  shows "\<not> rtj_Deleting j" "resumableTrainingJobFinalizer \<in> set (rtj_Finalizers j)"
    "\<not> snd (InitializePhase1Status j (ce_Now E))" "\<not> ShouldSuppressRuntime (ce_Mode E) j"
    "reconcile_job E j = reconcile_runtime E j"
proof -
  have del: "created (effects (reconcile_deletion E j)) = []"
    by (simp add: reconcile_deletion_def created_update_job)
  show d: "\<not> rtj_Deleting j" using assms del by (auto simp: reconcile_job_def)
  show f: "resumableTrainingJobFinalizer \<in> set (rtj_Finalizers j)"
    using assms d by (auto simp: reconcile_job_def created_update_job split: if_splits)
  show i: "\<not> snd (InitializePhase1Status j (ce_Now E))"
    using assms d f by (auto simp: reconcile_job_def split_beta split: if_splits)
  note same = Initialize_unchanged [OF i]
  show s: "\<not> ShouldSuppressRuntime (ce_Mode E) j"
    using assms d f i same by (auto simp: reconcile_job_def split_beta)
  show "reconcile_job E j = reconcile_runtime E j"
    using d f i s same by (simp add: reconcile_job_def split_beta)
qed

text \<open>
  C2: A reconciliation creates a child JobSet only for a job that is not being deleted, carries the finalizer, is
  executed by this cluster, is asked to run, is not suspended by Kueue and has no live child; the claim templates of
  its devices are ready, and when topology, a workload or provisioning checks are involved every launch gate is open.
  It creates exactly one, which did not exist under that name before.
\<close>

theorem launch_preconditions:
  assumes "CreateJobSet obj \<in> set (effects (reconcile_job E j))"
  shows "\<not> rtj_Deleting j \<and> resumableTrainingJobFinalizer \<in> set (rtj_Finalizers j)
     \<and> \<not> ShouldSuppressRuntime (ce_Mode E) j \<and> sp_Control (rtj_Spec j) = Some DesiredStateRunning
     \<and> \<not> IsSuspendedForKueue j \<and> getActiveJobSet E j = Inr None
     \<and> (\<exists>r es j1. reconcileDRATemplates E j = (Inr r, es, j1) \<and> drr_TemplatesReady r)
     \<and> (gated E j \<longrightarrow> (\<exists>g. evaluateLaunchGates E j = Inr g \<and> lgr_Ready g))
     \<and> created (effects (reconcile_job E j)) = [obj]
     \<and> (\<exists>err. ce_GetJobSet E (ob_Namespace obj) (ob_Name obj) = Inl err \<and> IsNotFound err)"
proof -
  have mem: "obj \<in> set (created (effects (reconcile_job E j)))" using assms by (simp add: in_created)
  then have c: "created (effects (reconcile_job E j)) \<noteq> []" by auto
  note run = reconcile_job_runtime [OF c]
  obtain r es j1 where d: "reconcileDRATemplates E j = (r, es, j1)" by (metis prod_cases3)
  note t = templates_devices_only [OF d]
  obtain dev where j1: "j1 = with_devices dev j" using t(2) by blast
  obtain R where r: "r = Inr R" using c t(1) unfolding run(5) by (cases r) (simp_all add: reconcile_runtime_def d)
  have eff: "created (effects (reconcile_job E j)) = created (effects (reconcile_child E j1 (drr_TemplatesReady R)))"
    using c t(1) unfolding run(5) by (auto simp: reconcile_runtime_def d r split: if_splits)
  have c1: "created (effects (reconcile_child E j1 (drr_TemplatesReady R))) \<noteq> []" using c eff by simp
  note ch = child_creates [OF c1]
  have c2: "created (effects (reconcile_inactive E j1 (drr_TemplatesReady R) (ce_Now E))) \<noteq> []" using c1 ch(4) by simp
  note ina = inactive_creates [OF c2]
  have "gated E j \<longrightarrow> (\<exists>g. evaluateLaunchGates E j = Inr g \<and> lgr_Ready g)"
    using ina(2) by (simp add: j1)
  moreover have "getActiveJobSet E j = Inr None" "sp_Control (rtj_Spec j) = Some DesiredStateRunning" "\<not> IsSuspendedForKueue j"
    using ch(1-3) by (simp_all add: j1)
  moreover have "created (effects (reconcile_job E j)) = [obj]
      \<and> (\<exists>err. ce_GetJobSet E (ob_Namespace obj) (ob_Name obj) = Inl err \<and> IsNotFound err)"
    using ina(3) mem eff ch(4) by (auto simp: creates_missing_def)
  ultimately show ?thesis using run d r ina(1) by blast
qed

section \<open>A job that can run is launched\<close>

text \<open>A job the worker is to run and that nothing holds back: no deletion, pause, suspension, device claims or gates.\<close>

definition runnable :: "ctl_env \<Rightarrow> job \<Rightarrow> bool" where
  "runnable E j \<longleftrightarrow> \<not> rtj_Deleting j \<and> resumableTrainingJobFinalizer \<in> set (rtj_Finalizers j)
     \<and> st_Phase (rtj_Status j) \<noteq> PhaseUnset \<and> st_ObservedGeneration (rtj_Status j) = rtj_Generation j
     \<and> \<not> ShouldSuppressRuntime (ce_Mode E) j \<and> sp_Control (rtj_Spec j) = Some DesiredStateRunning
     \<and> \<not> IsSuspendedForKueue j \<and> getActiveJobSet E j = Inr None
     \<and> sp_Devices (rtj_Spec j) = None \<and> st_Devices (rtj_Status j) = None \<and> \<not> gated E j"

lemma runnable_reconciles:
  assumes "runnable E j"
  shows "reconcile_job E j = (if shouldResume j then reconcileResume E j (ce_Now E) else reconcileLaunch E j (ce_Now E))"
proof -
  have i: "InitializePhase1Status j (ce_Now E) = (j, False)"
    using assms by (simp add: runnable_def InitializePhase1Status_def setObservedGeneration_def)
  have d: "reconcileDRATemplates E j = (Inr \<lparr> drr_StatusChanged = False, drr_TemplatesReady = True \<rparr>, [], j)"
    using assms by (simp add: runnable_def reconcileDRATemplates_def clearDeviceStatus_def drop_field_def)
  have "reconcile_child E j True = reconcile_inactive E j True (ce_Now E)"
    using assms by (simp add: runnable_def reconcile_child_def requestedStopSource_def)
  moreover have "reconcile_inactive E j True (ce_Now E) =
      (if shouldResume j then reconcileResume E j (ce_Now E) else reconcileLaunch E j (ce_Now E))"
    using assms by (simp add: runnable_def reconcile_inactive_def)
  ultimately show ?thesis
    using assms i d by (simp add: runnable_def reconcile_job_def reconcile_runtime_def save_if_def emits_def split_beta)
qed

lemma reconcileLaunch_creates:
  assumes "launchable E j (next_attempt j)"
  shows "\<exists>obj. created (effects (reconcileLaunch E j now)) = [obj] \<and> ob_Name obj = ChildJobSetName (rtj_Name j) (next_attempt j)
     \<and> (ResumeManifestURI (st_SelectedCheckpoint (rtj_Status j)) \<noteq> '''' \<longrightarrow>
          restores_from (ResumeManifestURI (st_SelectedCheckpoint (rtj_Status j))) obj)"
proof -
  obtain es obj where a: "createRunAttemptResources E j (next_attempt j) (ResumeManifestURI (st_SelectedCheckpoint (rtj_Status j))) =
       (Inr (ControlConfigMapName (rtj_Name j) (next_attempt j), ChildJobSetName (rtj_Name j) (next_attempt j)), es)"
    and o: "created es = [obj]" "ob_Name obj = ChildJobSetName (rtj_Name j) (next_attempt j)"
      "ResumeManifestURI (st_SelectedCheckpoint (rtj_Status j)) \<noteq> '''' \<longrightarrow>
         restores_from (ResumeManifestURI (st_SelectedCheckpoint (rtj_Status j))) obj"
    using launchable_creates [OF assms] by blast
  have "created (effects (reconcileLaunch E j now)) = created es"
    by (simp add: reconcileLaunch_def Let_def a split_beta)
  with o show ?thesis by auto
qed


text \<open>A job that has failed, asked to run.\<close>

definition ex_failed :: job where
  "ex_failed = ex_paused\<lparr> rtj_Finalizers := [resumableTrainingJobFinalizer],
     rtj_Spec := (rtj_Spec ex_paused)\<lparr> sp_Control := Some DesiredStateRunning \<rparr>,
     rtj_Status := (rtj_Status ex_paused)\<lparr> st_Phase := PhaseFailed, st_ObservedGeneration := 1 \<rparr> \<rparr>"

lemma ex_failed_runnable: "runnable ex_resume_ctl ex_failed" "\<not> shouldResume ex_failed"
  by (simp_all add: runnable_def ex_failed_def ex_paused_def ex_job_def ex_spec_def ex_status_def ex_resume_ctl_def ex_ctl_def
        ShouldSuppressRuntime_def api_simps getActiveJobSet_def shouldResume_def)

lemma ex_failed_launchable: "launchable ex_resume_ctl ex_failed n"
  by (simp add: launchable_def ex_resume_ctl_def ex_ctl_def ex_render_env_def ex_failed_def ex_paused_def ParseTemplate_def visits_def)


lemma ex_failed_creates: "\<exists>obj. CreateJobSet obj \<in> set (effects (reconcile_job ex_resume_ctl ex_failed))"
proof -
  obtain obj where "created (effects (reconcileLaunch ex_resume_ctl ex_failed (ce_Now ex_resume_ctl))) = [obj]"
    using reconcileLaunch_creates [OF ex_failed_launchable] by blast
  then have "obj \<in> set (created (effects (reconcile_job ex_resume_ctl ex_failed)))"
    using ex_failed_runnable by (simp add: runnable_reconciles)
  then show ?thesis by (auto simp: in_created)
qed

theorem launch_preconditions_witness:
  "\<exists>obj. CreateJobSet obj \<in> set (effects (reconcile_job ex_resume_ctl ex_failed))
     \<and> created (effects (reconcile_job ex_resume_ctl ex_failed)) = [obj] \<and> \<not> IsSuspendedForKueue ex_failed"
  using ex_failed_creates launch_preconditions by blast

section \<open>When a child is deleted\<close>

lemma deletes_if_missing:
  "\<not> deletes (snd (createIfMissing current c (CreateConfigMap cm)))"
  "\<not> deletes (snd (createIfMissing current c (CreateJobSet obj)))"
  by (auto simp: createIfMissing_def split: sum.split option.split)

lemma deletes_attempt:
  "\<not> deletes (snd (createRunAttemptResources E j n uri))" "\<not> deletes (snd (createRunAttemptResourcesWithPlan E j n uri plan))"
proof -
  have "\<not> deletes (snd (create_attempt E j n ri))" for ri
    by (auto simp: create_attempt_def Let_def split_beta deletes_if_missing split: option.split sum.split)
  then show "\<not> deletes (snd (createRunAttemptResources E j n uri))"
    "\<not> deletes (snd (createRunAttemptResourcesWithPlan E j n uri plan))" by (simp_all add: attempt_defs)
qed

lemma deletes_restored [simp]:
  "\<not> deletes (effects (no_checkpoint E j now))" "\<not> deletes (effects (restored E j now n c names us))"
  by (simp_all add: no_checkpoint_def restored_def Let_def split_beta split: option.split)

lemma deletes_launch [simp]:
  "\<not> deletes (effects (reconcileLaunch E j now))" "\<not> deletes (effects (reconcileLaunchWithGate E j now g))"
  "\<not> deletes (effects (reconcileResume E j now))" "\<not> deletes (effects (reconcileResumeWithGate E j now g))"
  using deletes_attempt
  by (auto simp: reconcileLaunch_def reconcileLaunchWithGate_def reconcileResume_def reconcileResumeWithGate_def Let_def
      split_beta split: sum.split option.split)

lemma deletes_inactive [simp]: "\<not> deletes (effects (reconcile_inactive E j ready now))"
  by (auto simp: reconcile_inactive_def launch_gated_def launch_conflict_def split_beta split: sum.split option.split)

text \<open>The elastic plan asks for a stop without moving the phase, so that the stop flow it enters only requests the stop.\<close>

lemma elastic_keeps_phase:
  assumes "evaluateElasticPlan a b now j = (plan, j1, ch)" and "executeElasticPlan E j1 plan now = (res, err, es, j2)"
    and "ex_TriggerStopFlow res"
  shows "st_Phase (rtj_Status j2) = st_Phase (rtj_Status j)"
proof -
  define jc where "jc = fst (syncResizeConditions (ce_Meta E) (PlanKind_string (po_Kind plan)) (po_Reason plan) (po_Message plan) now j1)"
  have j1: "j1 = fst (syncElasticityStatus plan (buildElasticPlanInput j a b now) now j)"
    using assms(1) by (auto simp: evaluateElasticPlan_def Let_def prod_eq_iff)
  have quiet: "\<not> ex_TriggerStopFlow (fst (executeShrinkInPlace E x plan now))" for x
    by (auto simp: executeShrinkInPlace_def Let_def split_beta zero_execute_def split: sum.split)
  have "executeRelaunchResize E jc plan now = (res, err, es, j2)"
    using assms(2,3) quiet [of jc] by (auto simp: executeElasticPlan_def jc_def split_beta zero_execute_def split: PlanKind.splits)
  from executeRelaunchResize_fields(3) [OF this] show ?thesis
    using touched_fields(1) [OF touchesD(6) [OF touches_syncResizeConditions]]
    by (simp add: jc_def j1 syncElasticityStatus_fst)
qed

lemma stop_flow_deletes_stopping:
  assumes "deletes (effects (reconcileStopFlow E j js src now))"
  shows "st_Phase (rtj_Status j) \<noteq> PhaseRunning"
proof -
  obtain n where "DeleteJobSet n \<in> set (effects (reconcileStopFlow E j js src now))" using assms by (auto simp: deletes_iff)
  from deletes_only_after(1) [OF this] show ?thesis by (auto simp: stopping_def)
qed

lemma elastic_deletes:
  assumes "deletes (effects (run_elastic E j child b now k))" and "\<And>j' b'. \<not> deletes (effects (k j' b'))"
  shows "st_Phase (rtj_Status j) \<noteq> PhaseRunning"
proof -

  obtain wl where wl: "IsElasticityEnabled j" "findWorkloadForRTJ E j = Inr wl"
    using assms by (cases "findWorkloadForRTJ E j"; cases "IsElasticityEnabled j") (simp_all add: run_elastic_def)
  obtain plan j1 ch where e1: "evaluateElasticPlan (Option.bind wl wl_Admission \<noteq> None) (wl \<noteq> None) now j = (plan, j1, ch)"
    by (rule prod_cases3)
  obtain res err es j2 where e2: "executeElasticPlan E j1 plan now = (res, err, es, j2)" by (rule prod_cases4)
  have "\<not> deletes es" using deleting.resizing [of E j1 plan now] e2 by simp
  have run: "run_elastic E j child b now k =
      emits es (let changed = ex_StatusChanged res \<or> ch \<or> b in
        if ex_TriggerStopFlow res then save_if E changed j2 (reconcileResizeStopFlow E j2 (Some child) now) else k j2 changed)"
    by (simp only: run_elastic_def wl e1 e2 sum.case prod.case not_True_eq_False if_False)
  have t: "ex_TriggerStopFlow res"
  proof (rule ccontr)
    assume "\<not> ex_TriggerStopFlow res"
    with assms \<open>\<not> deletes es\<close> show False by (simp add: run Let_def)
  qed
  then have "deletes (effects (reconcileStopFlow E j2 (Some child) stopSourceResize now))"
    using assms(1) \<open>\<not> deletes es\<close> by (simp add: run Let_def reconcileResizeStopFlow_def)
  from stop_flow_deletes_stopping [OF this] show ?thesis using elastic_keeps_phase [OF e1 e2 t] by simp
qed

abbreviation phase :: "job \<Rightarrow> ResumableTrainingJobPhase" where
  "phase j \<equiv> st_Phase (rtj_Status j)"

lemma keeps_phase [simp]:
  "phase (fst (setCondition M t s r m now j)) = phase j" "phase (fst (clearCondition t j)) = phase j"
  "phase (fst (with_default z st_PriorityShaping st_PriorityShaping_update f j)) = phase j"
  "phase (fst (if_present st_Elasticity st_Elasticity_update g j)) = phase j"
  "phase (fst (syncStartupRecoveryOnRunning now j)) = phase j" "phase (fst (clearStartupRecoveryTimeoutConditions j)) = phase j"
  "phase (fst (SyncPriorityShapingTelemetry snap now j)) = phase j"
  "phase (fst (syncDecisionToStatus b d j)) = phase j" "phase (fst (syncPriorityAnnotations d j)) = phase j"
  "phase (fst (clearPriorityAnnotations j)) = phase j"
proof -
  show w: "phase (fst (setCondition M t s r m now j)) = phase j" "phase (fst (clearCondition t j)) = phase j"
    "phase (fst (with_default z st_PriorityShaping st_PriorityShaping_update f j)) = phase j" for t j z f
    by (simp_all add: setCondition_def clearCondition_def on_conditions_def Let_def with_default_def split_beta)
  show "phase (fst (if_present st_Elasticity st_Elasticity_update g j)) = phase j"
    by (simp add: if_present_def split_beta split: option.split)
  show "phase (fst (syncStartupRecoveryOnRunning now j)) = phase j"
    by (simp add: syncStartupRecoveryOnRunning_def syncStartupRecoveryStatus_state)
  show "phase (fst (clearStartupRecoveryTimeoutConditions j)) = phase j"
    by (simp add: clearStartupRecoveryTimeoutConditions_def split_beta w)
  show "phase (fst (SyncPriorityShapingTelemetry snap now j)) = phase j"
    by (simp add: SyncPriorityShapingTelemetry_def drop_field_def w)
  show "phase (fst (syncDecisionToStatus b d j)) = phase j" by (simp add: syncDecisionToStatus_def w)
  show "phase (fst (syncPriorityAnnotations d j)) = phase j" by (simp add: syncPriorityAnnotations_def split_beta)
  show "phase (fst (clearPriorityAnnotations j)) = phase j"
    by (simp add: clearPriorityAnnotations_def drop_annotation_def split_beta split: option.split)
qed

lemma running_phase: "phase (fst (running_updates M now j)) = PhaseRunning"
proof -
  have m: "phase (fst (markRunning M now j)) = PhaseRunning" using moved_fields(6) [OF moved_markRunning] .
  have c: "phase (fst (completeResizeAfterRelaunch now x)) = phase x" for x
    by (simp add: completeResizeAfterRelaunch_def resize_condition_defs split_beta)
  show ?thesis by (simp add: running_updates_def Let_def split_beta m c)
qed

lemma priority_phase: "phase (snd (snd (reconcilePriorityState E j now))) = phase j"
proof -
  have "phase (snd (snd (apply_policy E j now p b))) = phase j" for p b
    by (auto simp: apply_policy_def Let_def split_beta setPriorityShapingCondition_def split: sum.split)
  then show ?thesis
    by (auto simp: reconcilePriorityState_def Let_def split_beta setPriorityShapingCondition_def drop_field_def split: sum.split)
qed

lemma active_deletes:
  assumes "\<forall>x. UpdateJob x \<notin> set (effects (reconcile_active E j child now))"
  shows "\<not> deletes (effects (reconcile_active E j child now))"
proof
  let ?k = "\<lambda>job2 changed2 priorityRequeue. run_elastic E job2 child changed2 now (\<lambda>job3 changed3.
      save_if E changed3 job3 (Inr (if priorityRequeue > 0 then RequeueAfter priorityRequeue else Done), [], job3))"
  let ?u = "running_updates (ce_Meta E) now j"
  assume d: "deletes (effects (reconcile_active E j child now))"
  obtain R es j1 where r: "reconcilePriorityState E (fst ?u) now = (R, es, j1)" by (rule prod_cases3)
  have ph: "phase j1 = PhaseRunning" using priority_phase [of E "fst ?u" now] r by (simp add: running_phase)
  have quiet: "\<not> deletes es" using deleting.prioritising [of E "fst ?u" now] by (simp add: r)
  have noupd: "\<not> psr_AnnotationsChanged R" if "isActivePriorityPhase (phase (fst ?u)) \<and> IsPriorityShapingEnabled (fst ?u)"
    using assms that by (auto simp: reconcile_active_def shape_priority_def split_beta r update_job_def split: sum.splits)
  have e: "\<not> deletes (effects (?k x b q))" if "phase x = PhaseRunning" for x b q
    using elastic_deletes [of E x child b now] that by fastforce
  show False
  proof (cases "isActivePriorityPhase (phase (fst ?u)) \<and> IsPriorityShapingEnabled (fst ?u)")
    case True
    obtain j0 c0 where u: "?u = (j0, c0)" by (rule prod.exhaust)
    have "reconcile_active E j child now = emits es (?k j1 (psr_StatusChanged R \<or> c0) (psr_RequeueAfter R))"
      using True noupd [OF True] r by (simp add: reconcile_active_def shape_priority_def u Let_def)
    with d quiet e [OF ph] show False by simp
  next
    case False
    obtain j0 c0 where u: "?u = (j0, c0)" by (rule prod.exhaust)
    have "shape_priority E j0 c0 now ?k = ?k j0 c0 0"
      using False unfolding shape_priority_def u fst_conv by (rule if_not_P)
    then have "reconcile_active E j child now = ?k j0 c0 0" by (simp add: reconcile_active_def u)
    moreover have "phase j0 = PhaseRunning" using running_phase [of "ce_Meta E" now j] by (simp add: u)
    ultimately show False using d e [of j0 c0 0] by simp
  qed
qed

text \<open>What the stop flow reads of a job.\<close>

definition stop_view ::
  "job \<Rightarrow> ResumableTrainingJobSpec \<times> ResumableTrainingJobPhase \<times> string \<times> string \<times> gotime option \<times> CheckpointReference option" where
  "stop_view j = (let s = rtj_Status j in
     (rtj_Spec j, st_Phase s, st_PauseRequestID s, st_ActiveControlConfigMapName s,
      tt_YieldRequestedAt (st_TransitionTimestamps s), st_LastCompletedCheckpoint s))"

lemma stop_view_eq:
  assumes "stop_view j = stop_view j'"
  shows "stopping j = stopping j'" "request_time j now = request_time j' now"
    "drain_timed_out j t now = drain_timed_out j' t now"
    "st_LastCompletedCheckpoint (rtj_Status j) = st_LastCompletedCheckpoint (rtj_Status j')"
  using assms by (simp_all add: stop_view_def Let_def stopping_def request_time_def drain_timed_out_def)

lemma keeps_stop_view [simp]:
  "keeps stop_view (setCondition M t s r m now)" "keeps stop_view (clearCondition t)"
  "keeps stop_view (syncStartupRecoveryStatus st pods ev now)"
  by (simp_all add: keeps_def stop_view_def Let_def setCondition_def clearCondition_def on_conditions_def
        syncStartupRecoveryStatus_def with_default_def split_beta)

lemma eviction_keeps: "stop_view (fst (detectAndRecordEviction M wl now j)) = stop_view j"
proof -
  have "keeps stop_view (syncStartupRecoveryOnEviction ev b now)" for ev b
    by (simp add: keeps_def syncStartupRecoveryOnEviction_def keepsD [OF keeps_stop_view(3)])
  moreover have "keeps stop_view (setStartupRecoveryConditions M ev b now)" for ev b
    unfolding setStartupRecoveryConditions_def by (auto intro!: keeps_run_all)
  ultimately have "keeps stop_view (run_all [syncStartupRecoveryOnEviction ev b now, setStartupRecoveryConditions M ev b now])"
    for ev b by (intro keeps_run_all) simp
  from keepsD [OF this] show ?thesis
    by (auto simp: detectAndRecordEviction_def Let_def simp del: run_all.simps split: sum.split option.split)
qed

lemma stop_flow_deletes_child:
  assumes "DeleteJobSet n \<in> set (effects (reconcileStopFlow E j js src now))"
  shows "\<exists>x. js = Some x \<and> js_Name x = n"
proof -
  have "DeleteJobSet n \<notin> set (effects (failLaunch E x m))" "DeleteJobSet n \<notin> set (snd (writePauseControl E x rid t))" for x m rid t
    using failLaunch_effects writePauseControl_effects by fastforce+
  then have "DeleteJobSet n \<in> set (snd (cleanupActiveJobSet E js))"
    using assms
    by (auto simp: reconcileStopFlow_def drain_failure_def observe_drain_def Let_def split_beta save_effects save_if_effects
        simp del: run_all.simps split: option.splits sum.splits if_splits)
  with cleanup_effects [of E js] show ?thesis by (auto split: option.splits if_splits)
qed

lemma stop_active_deletes:
  assumes "DeleteJobSet n \<in> set (effects (stop_active E j js src now))" and "ce_Catalog E = ObjectStoreCatalog S"
  shows "\<exists>x. js = Some x \<and> js_Name x = n"
    and "stopping j \<and> (drain_timed_out j (request_time j now) now
     \<or> (\<exists>c m t. st_LastCompletedCheckpoint (rtj_Status j) = Some c \<and> cr_ManifestURI c = mf_ManifestURI m
          \<and> manifest_complete m \<and> artifacts_present S m \<and> CompletionTime m = Some t \<and> request_time j now < t))"
proof -
  define j1 where "j1 = fst (if src = stopSourceKueue \<and> st_WorkloadReference (rtj_Status j) \<noteq> None
            then detectAndRecordEviction (ce_Meta E) (findWorkloadForRTJ E j) now j else (j, False))"
  have v: "stop_view j1 = stop_view j" using eviction_keeps by (simp add: j1_def)
  have d: "DeleteJobSet n \<in> set (effects (reconcileStopFlow E j1 js src now))"
    using assms(1) unfolding j1_def by (auto simp: stop_active_def split_beta save_if_effects split: if_splits)
  from stop_flow_deletes_safely [OF assms(2) d] show "stopping j \<and> (drain_timed_out j (request_time j now) now
     \<or> (\<exists>c m t. st_LastCompletedCheckpoint (rtj_Status j) = Some c \<and> cr_ManifestURI c = mf_ManifestURI m
          \<and> manifest_complete m \<and> artifacts_present S m \<and> CompletionTime m = Some t \<and> request_time j now < t))"
    by (simp add: stop_view_eq [OF v])
  from stop_flow_deletes_child [OF d] show "\<exists>x. js = Some x \<and> js_Name x = n" .
qed

lemma child_deletes:
  assumes "DeleteJobSet n \<in> set (effects (reconcile_child E j ready))" and "\<forall>x. UpdateJob x \<notin> set (effects (reconcile_child E j ready))"
  shows "\<exists>child src. getActiveJobSet E j = Inr (Some child) \<and> requestedStopSource j True = Some src
     \<and> DeleteJobSet n \<in> set (effects (stop_active E j (Some child) src (ce_Now E)))"
proof -
  have del: "deletes (effects (reconcile_child E j ready))" using assms(1) by (auto simp: deletes_iff)
  obtain active where a: "getActiveJobSet E j = Inr active"
    using del by (cases "getActiveJobSet E j") (simp_all add: reconcile_child_def)
  show ?thesis
  proof (cases "requestedStopSource j (active \<noteq> None)")
    case (Some src)
    then obtain child where "active = Some child" by (cases active) (simp_all add: requestedStopSource_def)
    with Some assms(1) a show ?thesis by (auto simp: reconcile_child_def)
  next
    case None
    have "\<not> deletes (effects (reconcile_child E j ready))"
      using None a active_deletes [of E j _ "ce_Now E"] assms(2)
      by (cases active) (auto simp: reconcile_child_def split_beta Let_def split: if_splits)
    with del show ?thesis by simp
  qed
qed

lemma reconcile_job_deletes:
  assumes "deletes (effects (reconcile_job E j))"
  shows "reconcile_job E j = reconcile_runtime E j"
proof -
  have upd: "\<not> deletes (effects (update_job E x (\<lambda>a. (r, [], a))))" for x r
    by (simp add: update_job_def split: sum.split)
  have d: "\<not> rtj_Deleting j" using assms upd by (auto simp: reconcile_job_def reconcile_deletion_def split: if_splits)
  have f: "resumableTrainingJobFinalizer \<in> set (rtj_Finalizers j)"
    using assms d upd by (auto simp: reconcile_job_def split: if_splits)
  have i: "\<not> snd (InitializePhase1Status j (ce_Now E))"
    using assms d f by (auto simp: reconcile_job_def split_beta)
  note same = Initialize_unchanged [OF i]
  have "\<not> ShouldSuppressRuntime (ce_Mode E) j"
    using assms d f i same by (auto simp: reconcile_job_def split_beta)
  then show ?thesis using d f i same by (simp add: reconcile_job_def split_beta)
qed


text \<open>A job that was asked to pause, two minutes after the request.\<close>

definition ex_drained_ctl :: ctl_env where
  "ex_drained_ctl = ex_ctl\<lparr> ce_Now := 2 * Minute, ce_GetJobSet := (\<lambda>_ _. Inr ex_jobset) \<rparr>"

definition ex_drained :: job where
  "ex_drained = (ex_active PhaseYieldRequested (Some 1))\<lparr> rtj_Finalizers := [resumableTrainingJobFinalizer],
     rtj_Spec := (rtj_Spec (ex_active PhaseYieldRequested (Some 1)))\<lparr> sp_Control := Some DesiredStatePaused \<rparr>,
     rtj_Status := (rtj_Status (ex_active PhaseYieldRequested (Some 1)))\<lparr> st_ObservedGeneration := 1 \<rparr> \<rparr>"

lemma ex_drained_facts:
  "all_ok ex_drained_ctl" "stopping ex_drained" "drain_timed_out ex_drained (request_time ex_drained (2 * Minute)) (2 * Minute)"
  "reconcile_job ex_drained_ctl ex_drained = reconcileStopFlow ex_drained_ctl ex_drained (Some ex_jobset) stopSourceManual (2 * Minute)"
proof -
  show "all_ok ex_drained_ctl" using ex_ctl_ok(1) by (simp add: all_ok_def ex_drained_ctl_def)
  show "stopping ex_drained" by (simp add: ex_drained_def stopping_def ex_active_def)
  show "drain_timed_out ex_drained (request_time ex_drained (2 * Minute)) (2 * Minute)"
    by (simp add: ex_drained_def ex_active_def drain_timed_out_def request_time_def time_Add_def ex_spec_def)
  have "InitializePhase1Status ex_drained (2 * Minute) = (ex_drained, False)"
    by (simp add: ex_drained_def ex_active_def ex_job_def InitializePhase1Status_def setObservedGeneration_def)
  moreover have "reconcileDRATemplates ex_drained_ctl ex_drained =
      (Inr \<lparr> drr_StatusChanged = False, drr_TemplatesReady = True \<rparr>, [], ex_drained)"
    by (simp add: ex_drained_def ex_active_def ex_job_def ex_spec_def ex_status_def reconcileDRATemplates_def
        clearDeviceStatus_def drop_field_def)
  moreover have "getActiveJobSet ex_drained_ctl ex_drained = Inr (Some ex_jobset)"
    by (simp add: ex_drained_def ex_active_def ex_drained_ctl_def getActiveJobSet_def ex_jobset_def)
  moreover have "requestedStopSource ex_drained True = Some stopSourceManual"
    by (simp add: ex_drained_def ex_active_def ex_spec_def requestedStopSource_def api_simps)
  moreover have "\<not> rtj_Deleting ex_drained" "rtj_Finalizers ex_drained = [resumableTrainingJobFinalizer]"
    "ce_Mode ex_drained_ctl = ModeWorker" "ce_Now ex_drained_ctl = 2 * Minute"
    by (simp_all add: ex_drained_def ex_active_def ex_job_def ex_drained_ctl_def ex_ctl_def)
  ultimately show "reconcile_job ex_drained_ctl ex_drained =
      reconcileStopFlow ex_drained_ctl ex_drained (Some ex_jobset) stopSourceManual (2 * Minute)"
    by (simp add: reconcile_job_def reconcile_runtime_def reconcile_child_def ShouldSuppressRuntime_def stop_active_def
        save_if_def emits_def split_beta)
qed


section \<open>The manager of a delegated job\<close>

lemma suppress_status_only: "ShouldSuppressRuntime m (j\<lparr> rtj_Status := s \<rparr>) = ShouldSuppressRuntime m j"
  by (simp add: ShouldSuppressRuntime_def api_simps)

lemma Initialize_status_only: "\<exists>s. fst (InitializePhase1Status j now) = j\<lparr> rtj_Status := s \<rparr>"
  by (rule exI [of _ "rtj_Status (fst (InitializePhase1Status j now))"])
    (simp add: InitializePhase1Status_def Let_def split_beta setObservedGeneration_def)

text \<open>
  C13: An operator in manager mode never touches the runtime of a job it has delegated through MultiKueue: whatever the
  state of the job and the answers of the cluster, a reconciliation writes nothing but the status of the job and, to add
  or remove its own finalizer, the job object with everything else as it was.
\<close>

theorem manager_never_runs:
  assumes "ShouldSuppressRuntime (ce_Mode E) j" and "e \<in> set (effects (reconcile_job E j))"
  shows "(\<exists>j'. e = UpdateStatus j') \<or> (\<exists>fs. e = UpdateJob (j\<lparr> rtj_Finalizers := fs \<rparr>))"
proof -
  obtain s where s: "fst (InitializePhase1Status j (ce_Now E)) = j\<lparr> rtj_Status := s \<rparr>" using Initialize_status_only by blast
  have upd: "effects (update_job E x (\<lambda>a. (r, [], a))) = [UpdateJob x]" for x r
    by (simp add: update_job_def split: sum.split)
  have man: "\<exists>j'. e = UpdateStatus j'" if "e \<in> set (effects (reconcileManagerIntent E x))" for x
    using that by (auto simp: reconcileManagerIntent_def Let_def split_beta save_if_effects split: if_splits)
  show ?thesis
  proof (cases "rtj_Deleting j \<or> resumableTrainingJobFinalizer \<notin> set (rtj_Finalizers j)")
    case True
    then show ?thesis
      using assms(2) upd by (auto simp: reconcile_job_def reconcile_deletion_def split: if_splits)
  next
    case False
    then have "e \<in> set (effects (if snd (InitializePhase1Status j (ce_Now E))
        then save E (j\<lparr> rtj_Status := s \<rparr>) (Inr Done, [], j\<lparr> rtj_Status := s \<rparr>) else reconcileManagerIntent E (j\<lparr> rtj_Status := s \<rparr>)))"
      using assms by (auto simp: reconcile_job_def split_beta s suppress_status_only split: if_splits)
    then show ?thesis using man by (auto simp: save_effects split: if_splits)
  qed
qed

definition ex_delegated_new :: job where
  "ex_delegated_new = ex_delegated\<lparr> rtj_Finalizers := [] \<rparr>"

theorem manager_never_runs_witness:
  "ShouldSuppressRuntime (ce_Mode ex_manager_ctl) ex_delegated_new
     \<and> effects (reconcile_job ex_manager_ctl ex_delegated_new) =
         [UpdateJob (ex_delegated_new\<lparr> rtj_Finalizers := [resumableTrainingJobFinalizer] \<rparr>)]
     \<and> (\<exists>e. e \<in> set (effects (reconcile_job ex_manager_ctl ex_delegated_new))
          \<and> ((\<exists>j'. e = UpdateStatus j') \<or> (\<exists>fs. e = UpdateJob (ex_delegated_new\<lparr> rtj_Finalizers := fs \<rparr>))))"
proof -
  have s: "ShouldSuppressRuntime (ce_Mode ex_manager_ctl) ex_delegated_new"
    by (simp add: ShouldSuppressRuntime_def ex_manager_ctl_def ex_delegated_new_def ex_delegated_def api_simps
        MultiKueueControllerName_def)
  moreover have eff: "effects (reconcile_job ex_manager_ctl ex_delegated_new) =
         [UpdateJob (ex_delegated_new\<lparr> rtj_Finalizers := [resumableTrainingJobFinalizer] \<rparr>)]"
    by (simp add: reconcile_job_def ex_delegated_new_def ex_delegated_def ex_active_def ex_job_def update_job_def split: sum.split)
  moreover have "UpdateJob (ex_delegated_new\<lparr> rtj_Finalizers := [resumableTrainingJobFinalizer] \<rparr>)
      \<in> set (effects (reconcile_job ex_manager_ctl ex_delegated_new))" by (simp add: eff)
  ultimately show ?thesis using manager_never_runs [OF s] by blast
qed

text \<open>The generation the manager shows as observed by the remote worker is its own: by the time the status is reflected,
  \<open>InitializePhase1Status\<close> has replaced the mirrored one.\<close>

lemma remote_generation_is_local:
  assumes "ShouldSuppressRuntime (ce_Mode E) j" and "\<not> rtj_Deleting j" and "resumableTrainingJobFinalizer \<in> set (rtj_Finalizers j)"
    and "\<not> snd (InitializePhase1Status j (ce_Now E))" and "hasRemoteStatusSignal j" and "\<forall>x. ce_UpdateStatus E x = None"
  shows "\<exists>mc. st_MultiCluster (rtj_Status (persisted E (effects (reconcile_job E j)) j)) = Some mc
     \<and> mc_RemoteObservedGeneration mc = rtj_Generation j"
proof -
  have gen: "st_ObservedGeneration (rtj_Status j) = rtj_Generation j"
    using assms(4)
    by (simp add: InitializePhase1Status_def Let_def split_beta setObservedGeneration_def SetPhase_unchanged split: if_splits)
  have run: "reconcile_job E j = reconcileManagerIntent E j"
    using assms(1-4) Initialize_unchanged [OF assms(4)] by (simp add: reconcile_job_def split_beta)
  obtain j' where p: "persisted E (effects (reconcileManagerIntent E j)) j = j'"
    and "st_MultiCluster (rtj_Status j') = Some (manager_view (execution_cluster E j) j)"
    using manager_outcome [OF assms(6), of j] unfolding settled_at_def by blast
  then show ?thesis using assms(5) gen by (simp add: run manager_view_def remote_view_def Let_def)
qed

end
