(* ===== verification/Admission_Runs.thy ===== *)
theory Admission_Runs
  imports Kueue_Job Controller_Runs
begin

text \<open>
  Properties that span the admission webhook, Kueue's integration, the renderer and the controller: a job the
  webhook accepted never makes the resize planner reject its target, the child JobSet runs no more pods than
  Kueue admitted, and the control file a stopping run reads is valid JSON.
\<close>

section \<open>Targets of an accepted job\<close>

lemma valid_target:
  assumes "valid_job b" and "IsElasticityEnabled b"
  shows "wanted_workers b = 0
     \<or> 1 \<le> wanted_workers b \<and> EffectiveElasticityMinCount b \<le> wanted_workers b \<and> wanted_workers b \<le> EffectivePreferredCount b"
proof -
  obtain e where e: "sp_Elasticity (rtj_Spec b) = Some e" "els_Mode e \<noteq> ElasticityModeDisabled"
    using assms(2) by (auto simp: IsElasticityEnabled_def split: option.splits)
  have "elasticity_ok b e" using assms(1) e(1) by (simp add: valid_job_def Let_def)
  then show ?thesis using e by (auto simp: elasticity_ok_def wanted_workers_def split: option.split)
qed

text \<open>The two reasons of the planner that blame the spec.\<close>

lemma plan_in_bounds:
  assumes "pi_ElasticityEnabled i \<Longrightarrow> pi_TargetWorkerCount i \<noteq> 0 \<Longrightarrow>
      pi_MinWorkerCount i \<le> pi_TargetWorkerCount i \<and> pi_TargetWorkerCount i \<le> pi_MaxWorkerCount i"
  shows "po_Reason (EvaluatePlan i) \<noteq> ''TargetBelowMinimum'' \<and> po_Reason (EvaluatePlan i) \<noteq> ''TargetAboveMaximum''"
  using assms
  by (auto simp: EvaluatePlan_def evaluateShrink_def noResize_def blocked_def Let_def)

lemma plan_new_count:
  "active_kind (po_Kind (EvaluatePlan i)) \<Longrightarrow> pi_ElasticityEnabled i \<and> po_NewWorkerCount (EvaluatePlan i) = pi_TargetWorkerCount i
     \<and> pi_TargetWorkerCount i \<noteq> 0"
  by (auto simp: EvaluatePlan_def evaluateShrink_def noResize_def blocked_def active_kind_def Let_def split: if_splits)

text \<open>
  C40: The webhook and the planner agree on the bounds.  For every version of a job the webhook has accepted,
  whatever its status, the planner never blocks a resize because the target lies outside the bounds, and a plan
  that resizes asks for at least one worker, at least the minimum and at most the preferred number.
\<close>

theorem admitted_resize_in_bounds:
  assumes "versions W a b" and "j = b\<lparr> rtj_Status := s \<rparr>"
  shows "let plan = fst (evaluateElasticPlan adm ex now j) in
     po_Reason plan \<noteq> ''TargetBelowMinimum'' \<and> po_Reason plan \<noteq> ''TargetAboveMaximum''
     \<and> (active_kind (po_Kind plan) \<longrightarrow> 1 \<le> po_NewWorkerCount plan
          \<and> EffectiveElasticityMinCount j \<le> po_NewWorkerCount plan \<and> po_NewWorkerCount plan \<le> EffectivePreferredCount j)"
proof -
  let ?i = "buildElasticPlanInput j adm ex now"
  have "valid_job j" using versions_invariant [OF assms(1)] valid_spec_cong [of j b] by (simp add: assms(2))
  then have t: "IsElasticityEnabled j \<Longrightarrow> wanted_workers j = 0 \<or> 1 \<le> wanted_workers j
      \<and> EffectiveElasticityMinCount j \<le> wanted_workers j \<and> wanted_workers j \<le> EffectivePreferredCount j"
    by (rule valid_target)
  have "po_Reason (EvaluatePlan ?i) \<noteq> ''TargetBelowMinimum'' \<and> po_Reason (EvaluatePlan ?i) \<noteq> ''TargetAboveMaximum''"
    by (rule plan_in_bounds) (use t in \<open>auto simp: plan_input_fields\<close>)
  moreover have "1 \<le> po_NewWorkerCount (EvaluatePlan ?i) \<and> EffectiveElasticityMinCount j \<le> po_NewWorkerCount (EvaluatePlan ?i)
      \<and> po_NewWorkerCount (EvaluatePlan ?i) \<le> EffectivePreferredCount j" if "active_kind (po_Kind (EvaluatePlan ?i))"
    using plan_new_count [OF that] t by (auto simp: plan_input_fields)
  ultimately show ?thesis by (simp add: evaluateElasticPlan_def Let_def)
qed

theorem admitted_resize_in_bounds_witness:
  "\<exists>j. versions ex_webhook j j
     \<and> po_Reason (fst (evaluateElasticPlan True True 0 (j\<lparr> rtj_Status := ex_status \<rparr>))) \<noteq> ''TargetAboveMaximum''"
  using ex_version admitted_resize_in_bounds [OF ex_version refl, where s = ex_status] by (auto simp: Let_def)

section \<open>Pods that were admitted\<close>

lemma rendering_keeps_counts:
  "rj_Parallelism (add_selector m rj) = rj_Parallelism rj" "rj_Completions (add_selector m rj) = rj_Completions rj"
  "rj_Parallelism (render_job R input rj) = rj_Parallelism rj" "rj_Completions (render_job R input rj) = rj_Completions rj"
  "rj_Parallelism (snd (apply_update R u rj)) = rj_Parallelism rj" "rj_Completions (snd (apply_update R u rj)) = rj_Completions rj"
  by (simp_all add: add_selector_def render_job_def stripKueuePodTemplateLabels_def applyAdmittedReplicaCount_def
      apply_update_def Let_def split_beta split: option.split)

lemma final_job_pods: "podsPerReplica (final_job_of R input rj) = podsPerReplica rj"
proof -
  have "rj_Parallelism (final_job_of R input rj) = rj_Parallelism rj" "rj_Completions (final_job_of R input rj) = rj_Completions rj"
    by (simp_all add: final_job_of_def Let_def staged_def placed_def rendering_keeps_counts split: option.split)
  then show ?thesis by (simp add: podsPerReplica_def)
qed

text \<open>
  C6: No more pods than admitted.  When a child JobSet is rendered with the admitted count of every replicated
  job, and a replica never has more pods than were admitted, then every rendered job runs as many replicas as fit:
  its pods do not exceed the admitted count, and one more replica would.
\<close>

theorem rendered_within_admission:
  assumes "ParseTemplate R (tpl_Spec (rt_Template (sp_Runtime (rtj_Spec (ri_RTJ input))))) = Inr spec"
    and "\<forall>rj \<in> set (ss_ReplicatedJobs spec). ranges_ok R input rj" and "RenderChildJobSet R input = Inr obj"
    and "ri_AdmittedCounts input = Some counts"
    and "\<forall>rj \<in> set (ss_ReplicatedJobs spec). \<exists>n. map_of counts (rj_Name rj) = Some n
           \<and> 1 \<le> podsCountPerReplica rj \<and> podsCountPerReplica rj \<le> n"
  shows "list_all2 (\<lambda>rj rj'. rj_Name rj' = rj_Name rj \<and> (\<exists>n r. map_of counts (rj_Name rj) = Some n \<and> rj_Replicas rj' = Some r
            \<and> r * podsCountPerReplica rj' \<le> n \<and> n < (r + 1) * podsCountPerReplica rj'))
     (ss_ReplicatedJobs spec) (ob_Jobs obj)"
proof -
  note eq = RenderChildJobSet_eq [OF assms(1,2)]
  have ren: "\<forall>rj \<in> set (ss_ReplicatedJobs spec). renderable R input rj" using eq(2) assms(3) by force
  have jobs: "ob_Jobs obj = map (final_job_of R input) (ss_ReplicatedJobs spec)" using eq(1) [OF ren] assms(3) by simp
  have "\<exists>n r. map_of counts (rj_Name rj) = Some n \<and> rj_Replicas (final_job_of R input rj) = Some r
      \<and> r * podsPerReplica rj \<le> n \<and> n < (r + 1) * podsPerReplica rj" if rj: "rj \<in> set (ss_ReplicatedJobs spec)" for rj
  proof -
    obtain n where n: "map_of counts (rj_Name rj) = Some n" "1 \<le> podsPerReplica rj" "podsPerReplica rj \<le> n"
      using assms(5) rj by (auto simp: podsPerReplica_same)
    let ?p = "podsPerReplica rj"
    have "1 \<le> n div ?p" using n zdiv_mono1 [of ?p n ?p] by simp
    then have "rj_Replicas (final_job_of R input rj) = Some (n div ?p)"
      using final_job_of_correct(2) assms(2) ren rj n by (simp add: admitted_replicas_def assms(4))
    moreover have "n div ?p * ?p = n - n mod ?p" by (simp add: minus_mod_eq_div_mult)
    then have "n div ?p * ?p \<le> n \<and> n < (n div ?p + 1) * ?p"
      using n(2) pos_mod_sign [of ?p n] pos_mod_bound [of ?p n] by (simp add: distrib_right)
    ultimately show ?thesis using n(1) by blast
  qed
  then show ?thesis using assms(2) ren final_job_of_correct(1)
    by (simp add: jobs list_all2_map2 list_all2_same podsPerReplica_same final_job_pods)
qed

theorem rendered_within_admission_witness:
  "\<exists>obj. RenderChildJobSet ex_render_env ex_render_input = Inr obj
     \<and> list_all2 (\<lambda>rj rj'. rj_Name rj' = rj_Name rj \<and> (\<exists>n r. map_of [(''worker'', 8)] (rj_Name rj) = Some n
            \<and> rj_Replicas rj' = Some r \<and> r * podsCountPerReplica rj' \<le> n \<and> n < (r + 1) * podsCountPerReplica rj'))
         [ex_worker] (ob_Jobs obj)"
proof -
  have p: "ParseTemplate ex_render_env (tpl_Spec (rt_Template (sp_Runtime (rtj_Spec (ri_RTJ ex_render_input)))))
      = Inr \<lparr> ss_ReplicatedJobs = [ex_worker] \<rparr>" by (simp add: ex_parse_template)
  have r: "\<forall>rj \<in> set (ss_ReplicatedJobs \<lparr> ss_ReplicatedJobs = [ex_worker] \<rparr>). ranges_ok ex_render_env ex_render_input rj"
    by (simp add: ex_ranges)
  obtain obj where x: "RenderChildJobSet ex_render_env ex_render_input = Inr obj"
    using RenderChildJobSet_eq(1) [OF p r] ex_renderable by auto
  have c: "ri_AdmittedCounts ex_render_input = Some [(''worker'', 8)]" by (simp add: ex_render_input_def)
  have "\<forall>rj \<in> set (ss_ReplicatedJobs \<lparr> ss_ReplicatedJobs = [ex_worker] \<rparr>). \<exists>n. map_of [(''worker'', 8 :: int)] (rj_Name rj) = Some n
           \<and> 1 \<le> podsCountPerReplica rj \<and> podsCountPerReplica rj \<le> n"
    by (simp add: ex_worker_def podsCountPerReplica_def)
  from rendered_within_admission [OF p r x c this] x show ?thesis by auto
qed

text \<open>The condition on the replica is needed: an admission smaller than one replica is rendered as a whole one.\<close>

lemma replica_exceeds_admission:
  assumes "0 < n" and "n < podsPerReplica rj"
  shows "rj_Replicas (applyAdmittedReplicaCount n rj) = Some 1
     \<and> n < 1 * podsPerReplica (applyAdmittedReplicaCount n rj)"
  using assms by (simp add: applyAdmittedReplicaCount_def Let_def) (simp add: podsPerReplica_def)

section \<open>The control file\<close>

lemma controlPayload_valid: "json_Valid (controlPayload desired requestID updatedAt)"
  unfolding controlPayload_def by (rule json_object_valid)

end
