(* ===== verification/Fake_Provisioner.thy ===== *)
theory Fake_Provisioner
  imports Kueue_Types
begin

text \<open>
  The deterministic provisioning backend of the development profile, \<open>internal/fakeprovisioner\<close>: the conditions of
  a \<open>ProvisioningRequest\<close> (\<open>status.go\<close>), the pure decision of the next action and the reconciler around it
  (\<open>controller.go\<close>).  The unstructured object is a record of the fields the code reads; a list of conditions that
  does not decode is an error.  Writing the conditions passes them through JSON, which keeps times to the second.
  \<open>time.ParseDuration\<close> is the parameter \<open>parse\<close>.  The lemmas show that the backend settles: it writes the status a
  bounded number of times, whatever the times of the reconciliations are.
\<close>

section \<open>Conditions and parameters (\<open>status.go\<close>)\<close>

record ProvisioningRequest =
  pr_ClassName :: string
  pr_Created :: gotime
  pr_Params :: "strmap option"
  pr_Conditions :: "go_err + Condition list"

definition GetConditions :: "ProvisioningRequest \<Rightarrow> go_err + Condition list" where
  "GetConditions obj = pr_Conditions obj"

definition json_time :: "gotime \<Rightarrow> gotime" where
  "json_time t = t - t mod Second"

definition SetConditions :: "Condition list \<Rightarrow> ProvisioningRequest \<Rightarrow> ProvisioningRequest" where
  "SetConditions conditions obj =
     obj\<lparr> pr_Conditions := Inr (map (\<lambda>c. c\<lparr> cond_LastTransitionTime := json_time (cond_LastTransitionTime c) \<rparr>) conditions) \<rparr>"

definition HasConditionTrue :: "Condition list \<Rightarrow> string \<Rightarrow> bool" where
  "HasConditionTrue conditions condType \<longleftrightarrow>
     list_ex (\<lambda>c. cond_Type c = condType \<and> cond_Status c = ConditionTrue) conditions"

definition FindCondition :: "Condition list \<Rightarrow> string \<Rightarrow> Condition option" where
  "FindCondition conditions condType = find (\<lambda>c. cond_Type c = condType) conditions"

fun SetCondition :: "Condition list \<Rightarrow> Condition \<Rightarrow> Condition list" where
  "SetCondition [] cond = [cond]"
| "SetCondition (c # cs) cond = (if cond_Type c = cond_Type cond then cond # cs else c # SetCondition cs cond)"

definition GetProvisioningClassName :: "ProvisioningRequest \<Rightarrow> string" where
  "GetProvisioningClassName obj = pr_ClassName obj"

definition GetParameters :: "ProvisioningRequest \<Rightarrow> strmap option" where
  "GetParameters obj = pr_Params obj"

definition GetParamDuration :: "(string \<Rightarrow> duration option) \<Rightarrow> strmap option \<Rightarrow> string \<Rightarrow> duration \<Rightarrow> duration" where
  "GetParamDuration parse params key defaultVal =
     (case Option.bind params (\<lambda>m. m key) of
        None \<Rightarrow> defaultVal
      | Some s \<Rightarrow> if s = '''' then defaultVal else (case parse s of None \<Rightarrow> defaultVal | Some d \<Rightarrow> d))"

definition GetParamString :: "strmap option \<Rightarrow> string \<Rightarrow> string \<Rightarrow> string" where
  "GetParamString params key defaultVal =
     (case Option.bind params (\<lambda>m. m key) of None \<Rightarrow> defaultVal | Some s \<Rightarrow> if s = '''' then defaultVal else s)"

section \<open>The next action (\<open>controller.go\<close>)\<close>

definition ClassDelayedSuccess :: string where "ClassDelayedSuccess = ''check-capacity.fake.dev''"
definition ClassPermanentFailure :: string where "ClassPermanentFailure = ''failed.fake.dev''"
definition ClassBookingExpiry :: string where "ClassBookingExpiry = ''booking-expiry.fake.dev''"
definition DefaultSuccessDelay :: duration where "DefaultSuccessDelay = 10 * Second"
definition DefaultExpiryDelay :: duration where "DefaultExpiryDelay = 60 * Second"

record Action =
  act_Conditions :: "Condition list"
  act_RequeueAfter :: duration
  act_Done :: bool

definition done_action :: Action where
  "done_action = \<lparr> act_Conditions = [], act_RequeueAfter = 0, act_Done = True \<rparr>"

definition wait_action :: "duration \<Rightarrow> Action" where
  "wait_action d = \<lparr> act_Conditions = [], act_RequeueAfter = d, act_Done = False \<rparr>"

definition true_condition :: "string \<Rightarrow> gotime \<Rightarrow> string \<Rightarrow> string \<Rightarrow> Condition" where
  "true_condition t now reason message =
     \<lparr> cond_Type = t, cond_Status = ConditionTrue, cond_ObservedGeneration = 0, cond_LastTransitionTime = now,
       cond_Reason = reason, cond_Message = message \<rparr>"

definition computeDelayedSuccess ::
  "(string \<Rightarrow> duration option) \<Rightarrow> Condition list \<Rightarrow> gotime \<Rightarrow> strmap option \<Rightarrow> gotime \<Rightarrow> Action" where
  "computeDelayedSuccess parse conditions createdAt params now =
     (if HasConditionTrue conditions ''Provisioned'' then done_action
      else let readyTime = time_Add createdAt (GetParamDuration parse params ''fake.dev/delay'' DefaultSuccessDelay) in
           if now < readyTime then wait_action (time_Sub readyTime now)
           else \<lparr> act_Conditions = [true_condition ''Provisioned'' now ''FakeBackendProvisioned''
                    ''Fake backend: capacity provisioned after delay''], act_RequeueAfter = 0, act_Done = False \<rparr>)"

definition computePermanentFailure :: "Condition list \<Rightarrow> strmap option \<Rightarrow> gotime \<Rightarrow> Action" where
  "computePermanentFailure conditions params now =
     (if HasConditionTrue conditions ''Failed'' then done_action
      else \<lparr> act_Conditions = [true_condition ''Failed'' now ''FakeBackendFailed''
               (GetParamString params ''fake.dev/failure-message'' ''Fake backend: provisioning permanently failed'')],
             act_RequeueAfter = 0, act_Done = False \<rparr>)"

definition computeBookingExpiry ::
  "(string \<Rightarrow> duration option) \<Rightarrow> Condition list \<Rightarrow> gotime \<Rightarrow> strmap option \<Rightarrow> gotime \<Rightarrow> Action" where
  "computeBookingExpiry parse conditions createdAt params now =
     (let expiry = GetParamDuration parse params ''fake.dev/expiry'' DefaultExpiryDelay in
      if HasConditionTrue conditions ''CapacityRevoked'' then done_action
      else if HasConditionTrue conditions ''Provisioned''
      then (case FindCondition conditions ''Provisioned'' of
              None \<Rightarrow> done_action
            | Some provCond \<Rightarrow>
                (let expiryTime = time_Add (cond_LastTransitionTime provCond) expiry in
                 if now < expiryTime then wait_action (time_Sub expiryTime now)
                 else \<lparr> act_Conditions = [true_condition ''CapacityRevoked'' now ''FakeBackendBookingExpired''
                          ''Fake backend: booking expired, capacity revoked''], act_RequeueAfter = 0, act_Done = False \<rparr>))
      else let readyTime = time_Add createdAt (GetParamDuration parse params ''fake.dev/delay'' DefaultSuccessDelay) in
           if now < readyTime then wait_action (time_Sub readyTime now)
           else \<lparr> act_Conditions = [true_condition ''Provisioned'' now ''FakeBackendProvisioned''
                    ''Fake backend: capacity provisioned (booking will expire)''], act_RequeueAfter = expiry, act_Done = False \<rparr>)"

definition ComputeAction ::
  "(string \<Rightarrow> duration option) \<Rightarrow> string \<Rightarrow> Condition list \<Rightarrow> gotime \<Rightarrow> strmap option \<Rightarrow> gotime \<Rightarrow> Action" where
  "ComputeAction parse className conditions createdAt params now =
     (if className = ClassDelayedSuccess then computeDelayedSuccess parse conditions createdAt params now
      else if className = ClassPermanentFailure then computePermanentFailure conditions params now
      else if className = ClassBookingExpiry then computeBookingExpiry parse conditions createdAt params now
      else done_action)"

text \<open>One reconciliation at a time \<open>now\<close>: the answer of the read, the answer to the status update, and as results the
  error or the delay of the next run, and the object that was sent.\<close>

definition FakeReconcile ::
  "(string \<Rightarrow> duration option) \<Rightarrow> (ProvisioningRequest \<Rightarrow> api_error option) \<Rightarrow> gotime
   \<Rightarrow> api_error + ProvisioningRequest \<Rightarrow> (go_err + duration) \<times> ProvisioningRequest option" where
  "FakeReconcile parse update now answer =
     (case answer of
        Inl err \<Rightarrow> (if IsNotFound err then Inr 0 else Inl (err_text err), None)
      | Inr pr \<Rightarrow>
          (let className = GetProvisioningClassName pr in
           if className = '''' then (Inr 0, None)
           else if className \<noteq> ClassDelayedSuccess \<and> className \<noteq> ClassPermanentFailure \<and> className \<noteq> ClassBookingExpiry
           then (Inr 0, None)
           else (case GetConditions pr of
                   Inl err \<Rightarrow> (Inl err, None)
                 | Inr conditions \<Rightarrow>
                     (let action = ComputeAction parse className conditions (pr_Created pr) (GetParameters pr) now in
                      if act_Done action then (Inr 0, None)
                      else if act_Conditions action = [] then (Inr (act_RequeueAfter action), None)
                      else let pr' = SetConditions (fold (\<lambda>c cs. SetCondition cs c) (act_Conditions action) conditions) pr
                           in (case update pr' of
                                 Some err \<Rightarrow> (Inl (err_text err), Some pr')
                               | None \<Rightarrow> (Inr (act_RequeueAfter action), Some pr'))))))"

section \<open>The backend settles\<close>

text \<open>A server that keeps what is sent.\<close>

definition fake_step :: "(string \<Rightarrow> duration option) \<Rightarrow> gotime \<Rightarrow> ProvisioningRequest \<Rightarrow> ProvisioningRequest option" where
  "fake_step parse now pr = snd (FakeReconcile parse (\<lambda>_. None) now (Inr pr))"

fun fake_runs :: "(string \<Rightarrow> duration option) \<Rightarrow> gotime list \<Rightarrow> ProvisioningRequest \<Rightarrow> ProvisioningRequest \<times> nat" where
  "fake_runs parse [] pr = (pr, 0)"
| "fake_runs parse (t # ts) pr =
     (case fake_step parse t pr of
        None \<Rightarrow> fake_runs parse ts pr
      | Some pr' \<Rightarrow> (case fake_runs parse ts pr' of (q, n) \<Rightarrow> (q, Suc n)))"

text \<open>The conditions still to come.\<close>

definition pending_conditions :: "ProvisioningRequest \<Rightarrow> nat" where
  "pending_conditions pr =
     (case pr_Conditions pr of
        Inl _ \<Rightarrow> 0
      | Inr cs \<Rightarrow>
          if pr_ClassName pr = ClassBookingExpiry
          then (if HasConditionTrue cs ''CapacityRevoked'' then 0 else if HasConditionTrue cs ''Provisioned'' then 1 else 2)
          else if HasConditionTrue cs (if pr_ClassName pr = ClassPermanentFailure then ''Failed'' else ''Provisioned'') then 0 else 1)"

lemma stamped_true [simp]: "HasConditionTrue (map (\<lambda>c. c\<lparr> cond_LastTransitionTime := f c \<rparr>) cs) k \<longleftrightarrow> HasConditionTrue cs k"
  by (induction cs) (auto simp: HasConditionTrue_def)

lemma SetCondition_true [simp]:
  "cond_Status c = ConditionTrue \<Longrightarrow> HasConditionTrue (SetCondition cs c) k \<longleftrightarrow> k = cond_Type c \<or> HasConditionTrue cs k"
  by (induction cs) (auto simp: HasConditionTrue_def)

lemma SetCondition_find: "FindCondition (SetCondition cs c) (cond_Type c) = Some c"
  by (induction cs) (auto simp: FindCondition_def)

lemma stamped_find:
  "FindCondition (map (\<lambda>c. c\<lparr> cond_LastTransitionTime := f c \<rparr>) cs) k
     = map_option (\<lambda>c. c\<lparr> cond_LastTransitionTime := f c \<rparr>) (FindCondition cs k)"
  by (induction cs) (auto simp: FindCondition_def)

lemmas fake_classes = ClassDelayedSuccess_def ClassPermanentFailure_def ClassBookingExpiry_def
lemmas fake_actions = ComputeAction_def computeDelayedSuccess_def computePermanentFailure_def computeBookingExpiry_def
  done_action_def wait_action_def true_condition_def

text \<open>A status update brings one of the conditions to come, and leaves the request otherwise alone.\<close>

lemma fake_step_decreases:
  assumes "fake_step parse now pr = Some pr'"
  shows "Suc (pending_conditions pr') = pending_conditions pr"
proof -
  note unfold = fake_step_def FakeReconcile_def Let_def GetProvisioningClassName_def GetConditions_def GetParameters_def
    SetConditions_def pending_conditions_def fake_actions
  obtain cs where cs: "pr_Conditions pr = Inr cs" using assms by (auto simp: fake_step_def FakeReconcile_def Let_def GetConditions_def split: sum.splits if_splits)
  consider "pr_ClassName pr = ClassDelayedSuccess" | "pr_ClassName pr = ClassPermanentFailure" | "pr_ClassName pr = ClassBookingExpiry"
    using assms by (auto simp: fake_step_def FakeReconcile_def Let_def GetProvisioningClassName_def split: sum.splits if_splits)
  then show ?thesis
  proof cases
    case 1
    then show ?thesis using assms cs by (auto simp: unfold fake_classes split: if_splits)
  next
    case 2
    then show ?thesis using assms cs by (auto simp: unfold fake_classes split: if_splits)
  next
    case 3
    then show ?thesis using assms cs by (auto simp: unfold fake_classes split: if_splits option.splits)
  qed
qed

lemma fake_runs_bound: "snd (fake_runs parse ts pr) \<le> pending_conditions pr"
proof (induction ts arbitrary: pr)
  case (Cons t ts)
  show ?case
  proof (cases "fake_step parse t pr")
    case (Some pr')
    then show ?thesis using Cons.IH [of pr'] fake_step_decreases [OF Some] by (simp add: split_beta)
  qed (use Cons.IH in simp)
qed simp

lemma pending_le: "pending_conditions pr \<le> 2"
  by (simp add: pending_conditions_def split: sum.split)

text \<open>The life of a booking.\<close>

definition booking_delay :: "(string \<Rightarrow> duration option) \<Rightarrow> ProvisioningRequest \<Rightarrow> duration" where
  "booking_delay parse pr = GetParamDuration parse (pr_Params pr) ''fake.dev/delay'' DefaultSuccessDelay"

definition booking_expiry :: "(string \<Rightarrow> duration option) \<Rightarrow> ProvisioningRequest \<Rightarrow> duration" where
  "booking_expiry parse pr = GetParamDuration parse (pr_Params pr) ''fake.dev/expiry'' DefaultExpiryDelay"

lemma booking_provisioned:
  assumes "pr_ClassName pr = ClassBookingExpiry" and "pr_Conditions pr = Inr cs"
    and "\<not> HasConditionTrue cs ''Provisioned''" and "\<not> HasConditionTrue cs ''CapacityRevoked''"
  shows "fake_step parse now pr =
     (if now < pr_Created pr + booking_delay parse pr then None
      else Some (SetConditions (SetCondition cs (true_condition ''Provisioned'' now ''FakeBackendProvisioned''
             ''Fake backend: capacity provisioned (booking will expire)'')) pr))"
  using assms by (simp add: fake_step_def FakeReconcile_def Let_def GetProvisioningClassName_def GetConditions_def
      GetParameters_def booking_delay_def fake_actions fake_classes time_Add_def)

lemma booking_revoked:
  assumes "pr_ClassName pr = ClassBookingExpiry" and "pr_Conditions pr = Inr cs"
    and "HasConditionTrue cs ''Provisioned''" and "\<not> HasConditionTrue cs ''CapacityRevoked''"
    and "FindCondition cs ''Provisioned'' = Some p"
  shows "fake_step parse now pr =
     (if now < cond_LastTransitionTime p + booking_expiry parse pr then None
      else Some (SetConditions (SetCondition cs (true_condition ''CapacityRevoked'' now ''FakeBackendBookingExpired''
             ''Fake backend: booking expired, capacity revoked'')) pr))"
  using assms by (simp add: fake_step_def FakeReconcile_def Let_def GetProvisioningClassName_def GetConditions_def
      GetParameters_def booking_expiry_def fake_actions fake_classes time_Add_def)

lemma fake_step_settled: "pending_conditions pr = 0 \<Longrightarrow> fake_step parse now pr = None"
  using fake_step_decreases [of parse now pr] by (cases "fake_step parse now pr") auto

lemma fake_runs_settled: "pending_conditions pr = 0 \<Longrightarrow> fake_runs parse ts pr = (pr, 0)"
  by (induction ts) (simp_all add: fake_step_settled)

text \<open>
  C30: The provisioning backend settles.  However often and whenever a request is reconciled, its status is written
  at most twice.  A new booking is provisioned by the first reconciliation at or after its delay and revoked by the
  first one after that at which the booking has expired, counted from the second of its provisioning; from then on
  nothing is written.
\<close>

theorem fake_provisioner_settles:
  "snd (fake_runs parse ts pr) \<le> 2
   \<and> (pr_ClassName pr = ClassBookingExpiry \<and> pr_Conditions pr = Inr []
      \<and> list_all (\<lambda>t. t < pr_Created pr + booking_delay parse pr) early
      \<and> pr_Created pr + booking_delay parse pr \<le> t1
      \<and> list_all (\<lambda>t. t < json_time t1 + booking_expiry parse pr) held \<and> json_time t1 + booking_expiry parse pr \<le> t2
      \<longrightarrow> (\<exists>pr' cs. fake_runs parse (early @ t1 # held @ t2 # late) pr = (pr', 2) \<and> pr_Conditions pr' = Inr cs
             \<and> HasConditionTrue cs ''Provisioned'' \<and> HasConditionTrue cs ''CapacityRevoked''))"
proof -
  have skip: "fake_runs parse (xs @ ys) q = fake_runs parse ys q" if "\<forall>x \<in> set xs. fake_step parse x q = None" for xs ys q
    using that by (induction xs) simp_all
  show ?thesis
  proof (intro conjI impI)
    show "snd (fake_runs parse ts pr) \<le> 2" using fake_runs_bound [of parse ts pr] pending_le [of pr] by simp
    assume a: "pr_ClassName pr = ClassBookingExpiry \<and> pr_Conditions pr = Inr []
      \<and> list_all (\<lambda>t. t < pr_Created pr + booking_delay parse pr) early
      \<and> pr_Created pr + booking_delay parse pr \<le> t1
      \<and> list_all (\<lambda>t. t < json_time t1 + booking_expiry parse pr) held \<and> json_time t1 + booking_expiry parse pr \<le> t2"
    let ?p = "true_condition ''Provisioned'' t1 ''FakeBackendProvisioned'' ''Fake backend: capacity provisioned (booking will expire)''"
    let ?q = "SetConditions [?p] pr"
    have none: "\<not> HasConditionTrue [] k" for k by (simp add: HasConditionTrue_def)
    have s1: "fake_step parse t pr = (if t < pr_Created pr + booking_delay parse pr then None else
        Some (SetConditions (SetCondition [] (true_condition ''Provisioned'' t ''FakeBackendProvisioned''
             ''Fake backend: capacity provisioned (booking will expire)'')) pr))" for t
      using a booking_provisioned [of pr "[]" parse t] none by blast
    define cs where "cs = [?p\<lparr> cond_LastTransitionTime := json_time t1 \<rparr>]"
    have q: "pr_ClassName ?q = ClassBookingExpiry" "pr_Conditions ?q = Inr cs" "booking_expiry parse ?q = booking_expiry parse pr"
      "HasConditionTrue cs ''Provisioned''" "\<not> HasConditionTrue cs ''CapacityRevoked''"
      "FindCondition cs ''Provisioned'' = Some (?p\<lparr> cond_LastTransitionTime := json_time t1 \<rparr>)"
      using a by (simp_all add: SetConditions_def cs_def booking_expiry_def HasConditionTrue_def FindCondition_def true_condition_def)
    note s2 = booking_revoked [OF q(1,2,4,5,6), where parse = parse, unfolded q(3)]
    let ?r = "SetConditions (SetCondition cs (true_condition ''CapacityRevoked'' t2 ''FakeBackendBookingExpired''
             ''Fake backend: booking expired, capacity revoked'')) ?q"
    have step1: "fake_step parse t1 pr = Some ?q" using a s1 [of t1] by simp
    have step2: "fake_step parse t2 ?q = Some ?r" using a s2 [where now = t2] by simp
    have "pending_conditions ?q = 1" using q by (simp add: pending_conditions_def)
    then have "pending_conditions ?r = 0" using fake_step_decreases [OF step2] by simp
    then have "fake_runs parse (t2 # late) ?q = (?r, 1)" using step2 by (simp add: fake_runs_settled)
    moreover have "\<forall>t \<in> set held. fake_step parse t ?q = None" using a s2 by (auto simp: list_all_iff)
    ultimately have "fake_runs parse (held @ t2 # late) ?q = (?r, 1)" by (subst skip)
    then have "fake_runs parse (t1 # held @ t2 # late) pr = (?r, 2)" using step1 by simp
    moreover have "\<forall>t \<in> set early. fake_step parse t pr = None" using a s1 by (auto simp: list_all_iff)
    ultimately have "fake_runs parse (early @ t1 # held @ t2 # late) pr = (?r, 2)" by (subst skip)
    moreover have "HasConditionTrue (map (\<lambda>c. c\<lparr> cond_LastTransitionTime := json_time (cond_LastTransitionTime c) \<rparr>)
        (SetCondition cs (true_condition ''CapacityRevoked'' t2 ''FakeBackendBookingExpired''
           ''Fake backend: booking expired, capacity revoked''))) k" if "k \<in> {''Provisioned'', ''CapacityRevoked''}" for k
      using that q(4) by (auto simp: true_condition_def)
    ultimately show "\<exists>pr' cs. fake_runs parse (early @ t1 # held @ t2 # late) pr = (pr', 2) \<and> pr_Conditions pr' = Inr cs
             \<and> HasConditionTrue cs ''Provisioned'' \<and> HasConditionTrue cs ''CapacityRevoked''"
      by (auto simp: SetConditions_def)
  qed
qed

definition ex_booking :: ProvisioningRequest where
  "ex_booking = \<lparr> pr_ClassName = ClassBookingExpiry, pr_Created = 0, pr_Params = None, pr_Conditions = Inr [] \<rparr>"

theorem fake_provisioner_settles_witness:
  "snd (fake_runs (\<lambda>_. None) [Second, 11 * Second, 12 * Second, 71 * Second, 72 * Second] ex_booking) = 2"
proof -
  have "json_time (11 * Second) = 11 * Second" by (simp add: json_time_def)
  then show ?thesis
    using fake_provisioner_settles [of "\<lambda>_. None" "[]" ex_booking "[Second]" "11 * Second" "[12 * Second]" "71 * Second" "[72 * Second]"]
    by (auto simp: ex_booking_def booking_delay_def booking_expiry_def GetParamDuration_def DefaultSuccessDelay_def
        DefaultExpiryDelay_def)
qed

end
