(* ===== verification/MultiKueue_Config.thy ===== *)
theory MultiKueue_Config
  imports Remote_Status
begin

text \<open>
  The configuration Kueue needs to dispatch jobs to other clusters, \<open>internal/multikueue\<close> (\<open>config.go\<close>,
  \<open>framework.go\<close>), and the registration names of \<open>internal/kueue/register.go\<close>.  The lemmas show that a configuration
  without validation errors names this operator's kind, and that the jobs MultiKueue may dispatch are exactly those
  a manager does not run itself.
\<close>

section \<open>Names\<close>

record GroupVersionKind =
  gvk_Group :: string
  gvk_Version :: string
  gvk_Kind :: string

definition RTJGroupVersionKind :: GroupVersionKind where
  "RTJGroupVersionKind =
     \<lparr> gvk_Group = ''training.checkpoint.example.io'', gvk_Version = ''v1alpha1'', gvk_Kind = ''ResumableTrainingJob'' \<rparr>"

definition ExternalFrameworkName :: string where
  "ExternalFrameworkName = ''ResumableTrainingJob.v1alpha1.training.checkpoint.example.io''"

definition FormatExternalFrameworkName :: "GroupVersionKind \<Rightarrow> string" where
  "FormatExternalFrameworkName gvk = gvk_Kind gvk @ ''.'' @ gvk_Version gvk @ ''.'' @ gvk_Group gvk"

definition KindArgForGVK :: "GroupVersionKind \<Rightarrow> string" where
  "KindArgForGVK gvk = gvk_Kind gvk @ ''.'' @ gvk_Version gvk @ ''.'' @ gvk_Group gvk"

definition ExternalFrameworks :: "string list" where
  "ExternalFrameworks = [ExternalFrameworkName]"

section \<open>The manager's configuration (\<open>config.go\<close>)\<close>

record ManagerClusterConfig =
  mcc_ExternalFrameworks :: "string list"
  mcc_FeatureGates :: "string \<rightharpoonup> bool"
  mcc_AdmissionCheckName :: string
  mcc_MultiKueueConfigName :: string
  mcc_WorkerClusters :: "string list"

definition EffectiveAdmissionCheckName :: "ManagerClusterConfig \<Rightarrow> string" where
  "EffectiveAdmissionCheckName c = (if mcc_AdmissionCheckName c \<noteq> '''' then mcc_AdmissionCheckName c else ''multikueue'')"

definition EffectiveMultiKueueConfigName :: "ManagerClusterConfig \<Rightarrow> string" where
  "EffectiveMultiKueueConfigName c =
     (if mcc_MultiKueueConfigName c \<noteq> '''' then mcc_MultiKueueConfigName c else ''multikueue-config'')"

record ValidationError =
  ve_Field :: string
  ve_Message :: string

definition ValidationError_Error :: "ValidationError \<Rightarrow> string" where
  "ValidationError_Error e = ve_Field e @ '': '' @ ve_Message e"

definition containsExternalFramework :: "string list \<Rightarrow> string \<Rightarrow> bool" where
  "containsExternalFramework frameworks name \<longleftrightarrow> list_ex (\<lambda>f. TrimSpace f = name) frameworks"

definition required_gates :: "string list" where
  "required_gates = [''MultiKueue'', ''MultiKueueAdaptersForCustomJobs'']"

definition gate_errors :: "(string \<rightharpoonup> bool) \<Rightarrow> string \<Rightarrow> ValidationError list" where
  "gate_errors gates gate =
     (case gates gate of
        None \<Rightarrow> [\<lparr> ve_Field = ''featureGates.'' @ gate, ve_Message = ''feature gate '' @ quote gate
                  @ '' must be present and enabled (default-on in Kueue v0.15.1 Beta, but verify it is not explicitly disabled)'' \<rparr>]
      | Some enabled \<Rightarrow>
          if \<not> enabled
          then [\<lparr> ve_Field = ''featureGates.'' @ gate,
                  ve_Message = ''feature gate '' @ quote gate @ '' must be enabled for RTJ MultiKueue dispatch'' \<rparr>]
          else [])"

definition ValidateManagerConfig :: "ManagerClusterConfig \<Rightarrow> ValidationError list" where
  "ValidateManagerConfig cfg =
     (if \<not> containsExternalFramework (mcc_ExternalFrameworks cfg) ExternalFrameworkName
      then [\<lparr> ve_Field = ''integrations.externalFrameworks'',
              ve_Message = ''must include '' @ quote ExternalFrameworkName @ '' for RTJ MultiKueue dispatch'' \<rparr>]
      else [])
     @ concat (map (gate_errors (mcc_FeatureGates cfg)) required_gates)
     @ (if mcc_WorkerClusters cfg = []
        then [\<lparr> ve_Field = ''workerClusters'',
                ve_Message = ''at least one MultiKueueCluster must be configured for dispatch'' \<rparr>]
        else [])"

definition ValidateExternalFrameworkList :: "string list \<Rightarrow> go_err option" where
  "ValidateExternalFrameworkList frameworks =
     (if \<not> containsExternalFramework frameworks ExternalFrameworkName
      then Some (''Kueue integrations.externalFrameworks does not include '' @ quote ExternalFrameworkName
                 @ ''; RTJ objects will not be recognized for MultiKueue dispatch'')
      else None)"

definition RequiredFeatureGates :: "string \<rightharpoonup> bool" where
  "RequiredFeatureGates = [''MultiKueue'' \<mapsto> True, ''MultiKueueAdaptersForCustomJobs'' \<mapsto> True]"

section \<open>Dispatch (\<open>framework.go\<close>)\<close>

definition IsRTJEligibleForMultiKueue :: "ResumableTrainingJob option \<Rightarrow> bool \<times> string" where
  "IsRTJEligibleForMultiKueue job0 =
     (case job0 of
        None \<Rightarrow> (False, ''RTJ is nil'')
      | Some job \<Rightarrow>
          (let mb = sp_ManagedBy (rtj_Spec job) in
           if mb = '''' then (False, ''spec.managedBy is not set; RTJ follows the single-cluster Phase 5 path'')
           else if mb \<noteq> MultiKueueControllerName
           then (False, ''spec.managedBy is '' @ quote mb @ '', not the MultiKueue controller '' @ quote MultiKueueControllerName)
           else (True, '''')))"

record ManagerRBACRules =
  rbac_Group :: string
  rbac_Resource :: string
  rbac_ManagerVerbs :: "string list"
  rbac_WorkerVerbs :: "string list"
  rbac_StatusSubresource :: bool

definition RTJManagerRBACRules :: ManagerRBACRules where
  "RTJManagerRBACRules =
     \<lparr> rbac_Group = gvk_Group RTJGroupVersionKind, rbac_Resource = ''resumabletrainingjobs'',
       rbac_ManagerVerbs = [''get'', ''list'', ''watch'', ''update'', ''patch''],
       rbac_WorkerVerbs = [''get'', ''list'', ''watch'', ''create'', ''delete''], rbac_StatusSubresource = True \<rparr>"

section \<open>Consistency\<close>

text \<open>The registered name is the one Kueue derives from the kind.\<close>

lemma framework_name_derived:
  "FormatExternalFrameworkName RTJGroupVersionKind = ExternalFrameworkName" "KindArgForGVK gvk = FormatExternalFrameworkName gvk"
  by (simp_all add: FormatExternalFrameworkName_def KindArgForGVK_def RTJGroupVersionKind_def ExternalFrameworkName_def)

lemma gate_errors_Nil: "gate_errors gates gate = [] \<longleftrightarrow> gates gate = Some True"
  by (auto simp: gate_errors_def split: option.split)

lemma ValidateManagerConfig_Nil:
  "ValidateManagerConfig cfg = [] \<longleftrightarrow>
     ValidateExternalFrameworkList (mcc_ExternalFrameworks cfg) = None \<and> RequiredFeatureGates \<subseteq>\<^sub>m mcc_FeatureGates cfg
     \<and> mcc_WorkerClusters cfg \<noteq> []"
  by (auto simp: ValidateManagerConfig_def ValidateExternalFrameworkList_def required_gates_def gate_errors_Nil
      RequiredFeatureGates_def map_le_def)

text \<open>MultiKueue may dispatch exactly the jobs whose runtime a manager suppresses.\<close>

lemma eligible_iff_suppressed: "fst (IsRTJEligibleForMultiKueue (Some job)) \<longleftrightarrow> ShouldSuppressRuntime ModeManager job"
  by (auto simp: IsRTJEligibleForMultiKueue_def ShouldSuppressRuntime_def IsManagedByMultiKueue_def MultiKueueControllerName_def Let_def)

end
