(* ===== verification/Go_Schema.thy ===== *)
theory Go_Schema
  imports RTJ_Prelude
begin

text \<open>
  Struct values through \<open>encoding/json\<close>.  A Go type is a \<open>gtype\<close>: the fields of a struct carry the key of their
  \<open>json\<close> tag and whether it says \<open>omitempty\<close>.  A value is a \<open>gval\<close>.  \<open>encode\<close> and \<open>decode\<close> follow \<open>json.Marshal\<close> and
  \<open>json.Unmarshal\<close> into an existing value, on the syntax tree of the JSON text in between: \<open>omitempty\<close> drops empty values,
  a nil pointer, slice or map is \<open>null\<close>, a null leaves a scalar as it was, an integer outside its width is an error, and
  bytes that are not UTF-8 become the replacement character.  Keys are matched exactly, which is what the decoder tries
  first.  Types of other modules that bring their own \<open>MarshalJSON\<close> (times, durations, conditions, raw JSON) are
  parameters, a record \<open>ext_codec\<close>.
\<close>

named_theorems schema_defs

section \<open>Types, values, syntax trees\<close>

datatype gtype =
    TString
  | TEnum "string list"
  | TBool
  | TInt nat
  | TExt string
  | TPtr gtype
  | TSlice gtype
  | TMap gtype
  | TStruct gfields
and gfields =
    FNil
  | FCons string bool gtype gfields

datatype 'x gval =
    GString string
  | GBool bool
  | GInt int
  | GExt 'x
  | GPtr "'x gval option"
  | GSlice "'x gval list option"
  | GMap "(string \<times> 'x gval) list option"
  | GStruct "'x gval list"

datatype json =
    JNull
  | JBool bool
  | JNum int
  | JString string
  | JArray "json list"
  | JObject "(string \<times> json) list"
  | JRaw string

record 'x ext_codec =
  ext_zero :: "string \<Rightarrow> 'x"
  ext_marshal :: "string \<Rightarrow> 'x \<Rightarrow> go_err + json"
  ext_unmarshal :: "string \<Rightarrow> 'x \<Rightarrow> json \<Rightarrow> go_err + 'x"

text \<open>A struct, written as the list of its fields: tag key, \<open>omitempty\<close>, type.\<close>

definition Struct :: "(string \<times> bool \<times> gtype) list \<Rightarrow> gtype" where
  "Struct fs = TStruct (foldr (\<lambda>(k, o', t). FCons k o' t) fs FNil)"

section \<open>UTF-8\<close>

definition cont :: "char \<Rightarrow> bool" where
  "cont c = (let n = of_char c :: nat in 128 \<le> n \<and> n \<le> 191)"

text \<open>The length a first byte announces, 0 when no character starts with it, and the second bytes it excludes: overlong
  forms, surrogates and values beyond the last code point.\<close>

definition rune_lead :: "nat \<Rightarrow> nat" where
  "rune_lead b =
     (if b < 128 then 1 else if 194 \<le> b \<and> b \<le> 223 then 2 else if 224 \<le> b \<and> b \<le> 239 then 3
      else if 240 \<le> b \<and> b \<le> 244 then 4 else 0)"

definition second_ok :: "nat \<Rightarrow> nat \<Rightarrow> bool" where
  "second_ok b c \<longleftrightarrow>
     (b = 224 \<longrightarrow> 160 \<le> c) \<and> (b = 237 \<longrightarrow> c \<le> 159) \<and> (b = 240 \<longrightarrow> 144 \<le> c) \<and> (b = 244 \<longrightarrow> c \<le> 143)"

text \<open>The number of bytes of the first character of a string, 0 when it is not encoded in UTF-8.\<close>

definition rune_width :: "string \<Rightarrow> nat" where
  "rune_width s =
     (case s of
        [] \<Rightarrow> 0
      | c # t \<Rightarrow>
          let n = rune_lead (of_char c) in
          if n \<le> 1 then n
          else if n - 1 \<le> length t \<and> list_all cont (take (n - 1) t) \<and> second_ok (of_char c) (of_char (hd t)) then n
          else 0)"

definition replacement :: string where
  "replacement = [CHR 0xEF, CHR 0xBF, CHR 0xBD]"

text \<open>The strings the encoder writes: each byte that starts no character is replaced.\<close>

function sanitize :: "string \<Rightarrow> string" where
  "sanitize s =
     (if s = [] then []
      else if rune_width s = 0 then replacement @ sanitize (tl s)
      else take (rune_width s) s @ sanitize (drop (rune_width s) s))"
  by pat_completeness auto
termination
  by (relation "measure length") auto

declare sanitize.simps [simp del]

section \<open>Marshal\<close>

fun empty_value :: "'x gval \<Rightarrow> bool" where
  "empty_value (GString s) \<longleftrightarrow> s = []"
| "empty_value (GBool b) \<longleftrightarrow> \<not> b"
| "empty_value (GInt i) \<longleftrightarrow> i = 0"
| "empty_value (GPtr p) \<longleftrightarrow> p = None"
| "empty_value (GSlice vs) \<longleftrightarrow> vs = None \<or> vs = Some []"
| "empty_value (GMap m) \<longleftrightarrow> m = None \<or> m = Some []"
| "empty_value _ \<longleftrightarrow> False"

definition ill_typed :: "go_err" where
  "ill_typed = ''json: unsupported value''"

definition encode_entry :: "('a \<Rightarrow> go_err + json) \<Rightarrow> string \<times> 'a \<Rightarrow> go_err + string \<times> json" where
  "encode_entry enc kv = map_sum id (Pair (sanitize (fst kv))) (enc (snd kv))"

primrec encode :: "'x ext_codec \<Rightarrow> gtype \<Rightarrow> 'x gval \<Rightarrow> go_err + json"
  and encode_fields :: "'x ext_codec \<Rightarrow> gfields \<Rightarrow> 'x gval list \<Rightarrow> go_err + (string \<times> json) list"
where
  "encode X TString = (\<lambda>v. case v of GString s \<Rightarrow> Inr (JString (sanitize s)) | _ \<Rightarrow> Inl ill_typed)"
| "encode X (TEnum consts) = (\<lambda>v. case v of GString s \<Rightarrow> Inr (JString (sanitize s)) | _ \<Rightarrow> Inl ill_typed)"
| "encode X TBool = (\<lambda>v. case v of GBool b \<Rightarrow> Inr (JBool b) | _ \<Rightarrow> Inl ill_typed)"
| "encode X (TInt w) = (\<lambda>v. case v of GInt i \<Rightarrow> Inr (JNum i) | _ \<Rightarrow> Inl ill_typed)"
| "encode X (TExt n) = (\<lambda>v. case v of GExt x \<Rightarrow> ext_marshal X n x | _ \<Rightarrow> Inl ill_typed)"
| "encode X (TPtr t) = (\<lambda>v. case v of GPtr None \<Rightarrow> Inr JNull | GPtr (Some w) \<Rightarrow> encode X t w | _ \<Rightarrow> Inl ill_typed)"
| "encode X (TSlice t) =
     (\<lambda>v. case v of GSlice None \<Rightarrow> Inr JNull
          | GSlice (Some vs) \<Rightarrow> map_sum id JArray (collect (encode X t) vs) | _ \<Rightarrow> Inl ill_typed)"
| "encode X (TMap t) =
     (\<lambda>v. case v of GMap None \<Rightarrow> Inr JNull
          | GMap (Some m) \<Rightarrow> map_sum id JObject (collect (encode_entry (encode X t)) m) | _ \<Rightarrow> Inl ill_typed)"
| "encode X (TStruct fs) =
     (\<lambda>v. case v of GStruct vs \<Rightarrow> map_sum id JObject (encode_fields X fs vs) | _ \<Rightarrow> Inl ill_typed)"
| "encode_fields X FNil = (\<lambda>vs. if vs = [] then Inr [] else Inl ill_typed)"
| "encode_fields X (FCons k omit t fs) =
     (\<lambda>vs. case vs of
         [] \<Rightarrow> Inl ill_typed
       | v # vs' \<Rightarrow>
           if omit \<and> empty_value v then encode_fields X fs vs'
           else (case encode X t v of
                   Inl err \<Rightarrow> Inl err
                 | Inr j \<Rightarrow> map_sum id (Cons (k, j)) (encode_fields X fs vs')))"

section \<open>Unmarshal\<close>

primrec zero_value :: "'x ext_codec \<Rightarrow> gtype \<Rightarrow> 'x gval"
  and zero_fields :: "'x ext_codec \<Rightarrow> gfields \<Rightarrow> 'x gval list"
where
  "zero_value X TString = GString []"
| "zero_value X (TEnum consts) = GString []"
| "zero_value X TBool = GBool False"
| "zero_value X (TInt w) = GInt 0"
| "zero_value X (TExt n) = GExt (ext_zero X n)"
| "zero_value X (TPtr t) = GPtr None"
| "zero_value X (TSlice t) = GSlice None"
| "zero_value X (TMap t) = GMap None"
| "zero_value X (TStruct fs) = GStruct (zero_fields X fs)"
| "zero_fields X FNil = []"
| "zero_fields X (FCons k omit t fs) = zero_value X t # zero_fields X fs"

definition in_width :: "nat \<Rightarrow> int \<Rightarrow> bool" where
  "in_width w i \<longleftrightarrow> - (2 ^ (w - 1)) \<le> i \<and> i < 2 ^ (w - 1)"

definition mismatch_error :: go_err where
  "mismatch_error = ''json: cannot unmarshal value into Go struct field''"

text \<open>A key of the object sets the key of the map, kept in the order of its keys; a key met twice has its last value.\<close>

definition map_put :: "string \<times> 'a \<Rightarrow> (string \<times> 'a) list \<Rightarrow> (string \<times> 'a) list" where
  "map_put kv m = insort_key fst kv (filter (\<lambda>e. fst e \<noteq> fst kv) m)"

definition decode_entry :: "(json \<Rightarrow> go_err + 'a) \<Rightarrow> string \<times> json \<Rightarrow> go_err + string \<times> 'a" where
  "decode_entry dec kj = map_sum id (Pair (fst kj)) (dec (snd kj))"

text \<open>The elements of an array are read over the elements the slice already has.\<close>

primrec decode_list :: "('a \<Rightarrow> json \<Rightarrow> go_err + 'a) \<Rightarrow> 'a \<Rightarrow> 'a list \<Rightarrow> json list \<Rightarrow> go_err + 'a list" where
  "decode_list dec z olds [] = Inr []"
| "decode_list dec z olds (j # js) =
     (case dec (case olds of [] \<Rightarrow> z | x # _ \<Rightarrow> x) j of
        Inl err \<Rightarrow> Inl err
      | Inr v \<Rightarrow> map_sum id (Cons v) (decode_list dec z (tl olds) js))"

text \<open>\<open>decode X t old j\<close> reads \<open>j\<close> over the value \<open>old\<close>: what \<open>j\<close> does not name keeps its value.\<close>

primrec decode :: "'x ext_codec \<Rightarrow> gtype \<Rightarrow> 'x gval \<Rightarrow> json \<Rightarrow> go_err + 'x gval"
  and decode_fields :: "'x ext_codec \<Rightarrow> gfields \<Rightarrow> 'x gval list \<Rightarrow> (string \<times> json) list \<Rightarrow> go_err + 'x gval list"
where
  "decode X TString = (\<lambda>old j. case j of JNull \<Rightarrow> Inr old | JString s \<Rightarrow> Inr (GString s) | _ \<Rightarrow> Inl mismatch_error)"
| "decode X (TEnum consts) = (\<lambda>old j. case j of JNull \<Rightarrow> Inr old | JString s \<Rightarrow> Inr (GString s) | _ \<Rightarrow> Inl mismatch_error)"
| "decode X TBool = (\<lambda>old j. case j of JNull \<Rightarrow> Inr old | JBool b \<Rightarrow> Inr (GBool b) | _ \<Rightarrow> Inl mismatch_error)"
| "decode X (TInt w) =
     (\<lambda>old j. case j of JNull \<Rightarrow> Inr old | JNum i \<Rightarrow> if in_width w i then Inr (GInt i) else Inl mismatch_error
          | _ \<Rightarrow> Inl mismatch_error)"
| "decode X (TExt n) =
     (\<lambda>old j. map_sum id GExt (ext_unmarshal X n (case old of GExt x \<Rightarrow> x | _ \<Rightarrow> ext_zero X n) j))"
| "decode X (TPtr t) =
     (\<lambda>old j. if j = JNull then Inr (GPtr None)
              else map_sum id (GPtr \<circ> Some) (decode X t (case old of GPtr (Some w) \<Rightarrow> w | _ \<Rightarrow> zero_value X t) j))"
| "decode X (TSlice t) =
     (\<lambda>old j. case j of JNull \<Rightarrow> Inr (GSlice None)
          | JArray js \<Rightarrow> map_sum id (GSlice \<circ> Some)
              (decode_list (decode X t) (zero_value X t) (case old of GSlice (Some vs) \<Rightarrow> vs | _ \<Rightarrow> []) js)
          | _ \<Rightarrow> Inl mismatch_error)"
| "decode X (TMap t) =
     (\<lambda>old j. case j of JNull \<Rightarrow> Inr (GMap None)
          | JObject kjs \<Rightarrow> map_sum id (\<lambda>kvs. GMap (Some (fold map_put kvs (case old of GMap (Some m) \<Rightarrow> m | _ \<Rightarrow> []))))
              (collect (decode_entry (decode X t (zero_value X t))) kjs)
          | _ \<Rightarrow> Inl mismatch_error)"
| "decode X (TStruct fs) =
     (\<lambda>old j. case j of JNull \<Rightarrow> Inr old
          | JObject kjs \<Rightarrow> map_sum id GStruct
              (decode_fields X fs (case old of GStruct vs \<Rightarrow> vs | _ \<Rightarrow> zero_fields X fs) kjs)
          | _ \<Rightarrow> Inl mismatch_error)"
| "decode_fields X FNil = (\<lambda>olds kjs. Inr [])"
| "decode_fields X (FCons k omit t fs) =
     (\<lambda>olds kjs.
        let old = (case olds of [] \<Rightarrow> zero_value X t | v # _ \<Rightarrow> v) in
        case (case map_of kjs k of None \<Rightarrow> Inr old | Some j \<Rightarrow> decode X t old j) of
          Inl err \<Rightarrow> Inl err
        | Inr v \<Rightarrow> map_sum id (Cons v) (decode_fields X fs (tl olds) kjs))"

section \<open>Well-typed values and what a round trip makes of them\<close>

text \<open>\<open>K\<close> says which values of the other modules are valid.  The keys of a map are sorted, as the encoder writes them, and valid UTF-8.\<close>

primrec typed :: "(string \<Rightarrow> 'x \<Rightarrow> bool) \<Rightarrow> gtype \<Rightarrow> 'x gval \<Rightarrow> bool" and typed_fields :: "(string \<Rightarrow> 'x \<Rightarrow> bool) \<Rightarrow> gfields \<Rightarrow> 'x gval list \<Rightarrow> bool" where
  "typed K TString = (\<lambda>v. case v of GString s \<Rightarrow> True | _ \<Rightarrow> False)"
| "typed K (TEnum consts) = (\<lambda>v. case v of GString s \<Rightarrow> True | _ \<Rightarrow> False)"
| "typed K TBool = (\<lambda>v. case v of GBool b \<Rightarrow> True | _ \<Rightarrow> False)"
| "typed K (TInt w) = (\<lambda>v. case v of GInt i \<Rightarrow> in_width w i | _ \<Rightarrow> False)"
| "typed K (TExt n) = (\<lambda>v. case v of GExt x \<Rightarrow> K n x | _ \<Rightarrow> False)"
| "typed K (TPtr t) = (\<lambda>v. case v of GPtr None \<Rightarrow> True | GPtr (Some w) \<Rightarrow> typed K t w | _ \<Rightarrow> False)"
| "typed K (TSlice t) = (\<lambda>v. case v of GSlice None \<Rightarrow> True | GSlice (Some vs) \<Rightarrow> list_all (typed K t) vs | _ \<Rightarrow> False)"
| "typed K (TMap t) =
     (\<lambda>v. case v of GMap None \<Rightarrow> True
          | GMap (Some m) \<Rightarrow> sorted_wrt (<) (map fst m) \<and> list_all (\<lambda>kv. sanitize (fst kv) = fst kv \<and> typed K t (snd kv)) m
          | _ \<Rightarrow> False)"
| "typed K (TStruct fs) = (\<lambda>v. case v of GStruct vs \<Rightarrow> typed_fields K fs vs | _ \<Rightarrow> False)"
| "typed_fields K FNil = (\<lambda>vs. vs = [])"
| "typed_fields K (FCons k omit t fs) = (\<lambda>vs. case vs of [] \<Rightarrow> False | v # vs' \<Rightarrow> typed K t v \<and> typed_fields K fs vs')"

primrec tags :: "gfields \<Rightarrow> string list" where
  "tags FNil = []"
| "tags (FCons k omit t fs) = k # tags fs"

primrec tags_ok :: "gtype \<Rightarrow> bool" and tags_ok_fields :: "gfields \<Rightarrow> bool" where
  "tags_ok TString \<longleftrightarrow> True"
| "tags_ok (TEnum consts) \<longleftrightarrow> True"
| "tags_ok TBool \<longleftrightarrow> True"
| "tags_ok (TInt w) \<longleftrightarrow> True"
| "tags_ok (TExt n) \<longleftrightarrow> True"
| "tags_ok (TPtr t) \<longleftrightarrow> tags_ok t"
| "tags_ok (TSlice t) \<longleftrightarrow> tags_ok t"
| "tags_ok (TMap t) \<longleftrightarrow> tags_ok t"
| "tags_ok (TStruct fs) \<longleftrightarrow> distinct (tags fs) \<and> tags_ok_fields fs"
| "tags_ok_fields FNil \<longleftrightarrow> True"
| "tags_ok_fields (FCons k omit t fs) \<longleftrightarrow> tags_ok t \<and> tags_ok_fields fs"

text \<open>The value a round trip leaves: strings in UTF-8, an empty slice or map behind \<open>omitempty\<close> gone, a pointer to a
  value that is written as null gone.\<close>

primrec norm :: "'x ext_codec \<Rightarrow> (string \<Rightarrow> 'x \<Rightarrow> 'x) \<Rightarrow> gtype \<Rightarrow> 'x gval \<Rightarrow> 'x gval"
  and norm_fields :: "'x ext_codec \<Rightarrow> (string \<Rightarrow> 'x \<Rightarrow> 'x) \<Rightarrow> gfields \<Rightarrow> 'x gval list \<Rightarrow> 'x gval list"
where
  "norm X N TString = (\<lambda>v. case v of GString s \<Rightarrow> GString (sanitize s) | _ \<Rightarrow> v)"
| "norm X N (TEnum consts) = (\<lambda>v. case v of GString s \<Rightarrow> GString (sanitize s) | _ \<Rightarrow> v)"
| "norm X N TBool = (\<lambda>v. v)"
| "norm X N (TInt w) = (\<lambda>v. v)"
| "norm X N (TExt n) = (\<lambda>v. case v of GExt x \<Rightarrow> GExt (N n x) | _ \<Rightarrow> v)"
| "norm X N (TPtr t) =
     (\<lambda>v. case v of GPtr (Some w) \<Rightarrow> if encode X t w = Inr JNull then GPtr None else GPtr (Some (norm X N t w)) | _ \<Rightarrow> v)"
| "norm X N (TSlice t) = (\<lambda>v. case v of GSlice (Some vs) \<Rightarrow> GSlice (Some (map (norm X N t) vs)) | _ \<Rightarrow> v)"
| "norm X N (TMap t) =
     (\<lambda>v. case v of GMap (Some m) \<Rightarrow> GMap (Some (map (\<lambda>kv. (fst kv, norm X N t (snd kv))) m)) | _ \<Rightarrow> v)"
| "norm X N (TStruct fs) = (\<lambda>v. case v of GStruct vs \<Rightarrow> GStruct (norm_fields X N fs vs) | _ \<Rightarrow> v)"
| "norm_fields X N FNil = (\<lambda>vs. vs)"
| "norm_fields X N (FCons k omit t fs) =
     (\<lambda>vs. case vs of [] \<Rightarrow> []
          | v # vs' \<Rightarrow> (if omit \<and> empty_value v then zero_value X t else norm X N t v) # norm_fields X N fs vs')"

section \<open>Strings in UTF-8\<close>

lemma rune_width_le: "rune_width s \<le> length s"
  by (auto simp: rune_width_def Let_def split: list.split)

lemma rune_width_prefix:
  assumes "rune_width s = n" and "0 < n"
  shows "rune_width (take n s @ rest) = n"
proof -
  obtain c t where s: "s = c # t" using assms by (cases s) (auto simp: rune_width_def)
  have n: "rune_lead (of_char c) = n" "n - 1 \<le> length t"
    using assms by (auto simp: s rune_width_def Let_def split: if_splits)
  then have "take n s @ rest = c # take (n - 1) t @ rest" using assms(2) by (cases n) (auto simp: s)
  moreover have "hd (take (n - 1) t @ rest) = hd t" if "1 < n" using n(2) that by (cases t) (auto simp: take_Cons')
  ultimately show ?thesis
    using assms n by (auto simp: s rune_width_def Let_def split: if_splits)
qed

lemma rune_width_replacement: "rune_width (replacement @ rest) = 3"
  by (simp add: rune_width_def replacement_def cont_def Let_def rune_lead_def second_ok_def)

lemma sanitize_Nil [simp]: "sanitize [] = []"
  by (simp add: sanitize.simps)

lemma sanitize_rune:
  assumes "rune_width s = n" and "0 < n"
  shows "sanitize (take n s @ rest) = take n s @ sanitize rest"
proof -
  have "length (take n s) = n" using assms rune_width_le [of s] by simp
  then show ?thesis
    using rune_width_prefix [OF assms] assms(2) by (subst sanitize.simps) auto
qed

lemma sanitize_eq_Nil [simp]: "sanitize s = [] \<longleftrightarrow> s = []"
  by (subst sanitize.simps) (auto simp: replacement_def)

lemma sanitize_idem [simp]: "sanitize (sanitize s) = sanitize s"
proof (induction s rule: sanitize.induct)
  case (1 s)
  consider "s = []" | "s \<noteq> []" "rune_width s = 0" | "s \<noteq> []" "0 < rune_width s" by auto
  then show ?case
  proof cases
    case 2
    have "sanitize (replacement @ r) = replacement @ sanitize r" for r
      using sanitize_rune [OF rune_width_replacement [of "[]"]] by (simp add: replacement_def)
    then show ?thesis using 1(1) [OF 2] 2 by (simp add: sanitize.simps [of s])
  next
    case 3
    then show ?thesis using 1(2) sanitize_rune [OF refl, of s] by (simp add: sanitize.simps [of s])
  qed simp
qed

section \<open>The round trip\<close>

lemma map_sum_Inr [simp]: "map_sum id f s = Inr y \<longleftrightarrow> (\<exists>x. s = Inr x \<and> y = f x)"
  by (cases s) auto

lemma collect_map_Inr:
  assumes "collect f xs = Inr ys" and "\<And>x y. x \<in> set xs \<Longrightarrow> f x = Inr y \<Longrightarrow> g y = Inr (h x)"
  shows "collect g ys = Inr (map h xs)"
  using assms
proof (induction xs arbitrary: ys)
  case (Cons x xs)
  then obtain y ys' where y: "f x = Inr y" "collect f xs = Inr ys'" "ys = y # ys'" by (auto split: sum.splits)
  have "collect g ys' = Inr (map h xs)" using Cons.IH [OF y(2)] Cons.prems(2) by simp
  moreover have "g y = Inr (h x)" using Cons.prems(2) y(1) by simp
  ultimately show ?case by (simp add: y(3))
qed simp

lemma decode_list_fresh: "decode_list dec z [] js = collect (dec z) js"
  by (induction js) (auto split: sum.split)

lemma insort_key_last: "list_all (\<lambda>e. fst e < fst kv) m \<Longrightarrow> insort_key fst kv m = m @ [kv]"
  for kv :: "string \<times> 'a"
  by (induction m) auto

lemma map_put_last:
  assumes "list_all (\<lambda>e. fst e < fst kv) m"
  shows "map_put kv m = m @ [kv]"
proof -
  have "filter (\<lambda>e. fst e \<noteq> fst kv) m = m" using assms by (intro filter_True) (auto simp: list_all_iff)
  then show ?thesis by (simp add: map_put_def insort_key_last [OF assms])
qed

lemma fold_map_put: "sorted_wrt (<) (map fst (m @ kvs)) \<Longrightarrow> fold map_put kvs m = m @ kvs"
proof (induction kvs arbitrary: m)
  case (Cons kv kvs)
  have "map_put kv m = m @ [kv]" using Cons.prems by (intro map_put_last) (auto simp: list_all_iff sorted_wrt_append)
  then show ?case using Cons.IH [of "m @ [kv]"] Cons.prems by simp
qed simp

lemma encode_fields_keys: "encode_fields X fs vs = Inr kjs \<Longrightarrow> fst ` set kjs \<subseteq> set (tags fs)"
  by (induction fs arbitrary: vs kjs rule: gfields.induct [of "\<lambda>_. True"])
    (fastforce split: list.splits if_splits sum.splits)+

lemma collect_succeeds: "(\<exists>ys. collect f xs = Inr ys) \<longleftrightarrow> list_all (\<lambda>x. \<exists>y. f x = Inr y) xs"
  by (induction xs) (auto split: sum.split)

text \<open>What a codec of another module promises for valid values: it writes them, and what it wrote it reads back into a zero value, up to a normal form.\<close>

locale json_ext =
  fixes X :: "'x ext_codec" and K :: "string \<Rightarrow> 'x \<Rightarrow> bool" and N :: "string \<Rightarrow> 'x \<Rightarrow> 'x"
  assumes writes: "K n x \<Longrightarrow> \<exists>j. ext_marshal X n x = Inr j"
    and reads_back: "K n x \<Longrightarrow> ext_marshal X n x = Inr j \<Longrightarrow> ext_unmarshal X n (ext_zero X n) j = Inr (N n x)"
    and writes_same: "K n x \<Longrightarrow> ext_marshal X n (N n x) = ext_marshal X n x"
    and valid_normal: "K n x \<Longrightarrow> K n (N n x)"
    and valid_zero: "K n (ext_zero X n)"
    and normal: "K n x \<Longrightarrow> N n (N n x) = N n x"
begin

lemma decode_map:
  assumes "typed K (TMap t) (GMap (Some m))" and "collect (encode_entry (encode X t)) m = Inr js"
    and IH: "\<And>v j. typed K t v \<Longrightarrow> encode X t v = Inr j \<Longrightarrow> decode X t (zero_value X t) j = Inr (norm X N t v)"
  shows "decode X (TMap t) (GMap None) (JObject js) = Inr (norm X N (TMap t) (GMap (Some m)))"
proof -
  have "collect (decode_entry (decode X t (zero_value X t))) js = Inr (map (\<lambda>kv. (fst kv, norm X N t (snd kv))) m)"
  proof (rule collect_map_Inr [OF assms(2)])
    fix kv kj assume kv: "kv \<in> set m" "encode_entry (encode X t) kv = Inr kj"
    then have "typed K t (snd kv)" "sanitize (fst kv) = fst kv" using assms(1) by (auto simp: list_all_iff)
    then show "decode_entry (decode X t (zero_value X t)) kj = Inr (fst kv, norm X N t (snd kv))"
      using kv(2) IH by (auto simp: encode_entry_def decode_entry_def)
  qed
  moreover have "fold map_put (map (\<lambda>kv. (fst kv, norm X N t (snd kv))) m) []
                   = map (\<lambda>kv. (fst kv, norm X N t (snd kv))) m"
    using assms(1) fold_map_put [of "[]" "map (\<lambda>kv. (fst kv, norm X N t (snd kv))) m"] by (simp add: comp_def)
  ultimately show ?thesis by simp
qed

lemma encode_decode:
  "typed K t v \<Longrightarrow> tags_ok t \<Longrightarrow> encode X t v = Inr j \<Longrightarrow> decode X t (zero_value X t) j = Inr (norm X N t v)"
  "typed_fields K fs vs \<Longrightarrow> tags_ok_fields fs \<Longrightarrow> distinct (tags fs) \<Longrightarrow> encode_fields X fs vs = Inr kjs \<Longrightarrow>
     set (tags fs) \<inter> fst ` set pre = {} \<Longrightarrow> decode_fields X fs (zero_fields X fs) (pre @ kjs) = Inr (norm_fields X N fs vs)"
proof (induction t and fs arbitrary: v j and vs kjs pre)
  case (TSlice t)
  then show ?case
    by (auto split: gval.splits option.splits simp: list_all_iff decode_list_fresh intro!: collect_map_Inr)
next
  case (TMap t)
  show ?case
  proof (cases "v = GMap None")
    case False
    then obtain m js where m: "v = GMap (Some m)" "j = JObject js" "collect (encode_entry (encode X t)) m = Inr js"
      using TMap.prems(1,3) by (auto split: gval.splits option.splits)
    have "decode X (TMap t) (GMap None) (JObject js) = Inr (norm X N (TMap t) (GMap (Some m)))"
      by (rule decode_map [OF _ m(3)]) (use TMap m(1) in auto)
    then show ?thesis by (simp add: m(1,2))
  qed (use TMap.prems in auto)
next
  case (FCons k omit t fs)
  from FCons.prems(1) obtain v vs' where vs: "vs = v # vs'" "typed K t v" "typed_fields K fs vs'" by (auto split: list.splits)
  have fs: "tags_ok t" "tags_ok_fields fs" "k \<notin> set (tags fs)" "distinct (tags fs)" using FCons.prems(2,3) by auto
  show ?case
  proof (cases "omit \<and> empty_value v")
    case True
    then have enc: "encode_fields X fs vs' = Inr kjs" using FCons.prems(4) vs(1) by simp
    have "k \<notin> fst ` set (pre @ kjs)" using encode_fields_keys [OF enc] fs(3) FCons.prems(5) by auto
    then have "map_of (pre @ kjs) k = None" by (simp only: map_of_eq_None_iff not_False_eq_True)
    moreover have "decode_fields X fs (zero_fields X fs) (pre @ kjs) = Inr (norm_fields X N fs vs')"
      using FCons.prems(5) by (intro FCons.IH(2) [OF vs(3) fs(2,4) enc]) auto
    ultimately show ?thesis using True by (simp add: vs(1) del: map_of_append)
  next
    case False
    then obtain j rest where enc: "encode X t v = Inr j" "encode_fields X fs vs' = Inr rest" "kjs = (k, j) # rest"
      using FCons.prems(4) vs(1) by (auto split: sum.splits)
    have "map_of pre k = None" using FCons.prems(5) by (auto simp: map_of_eq_None_iff)
    then have "map_of (pre @ kjs) k = Some j" by (simp add: enc(3) map_add_def)
    moreover have "decode_fields X fs (zero_fields X fs) ((pre @ [(k, j)]) @ rest) = Inr (norm_fields X N fs vs')"
      using FCons.prems(5) fs(3) by (intro FCons.IH(2) [OF vs(3) fs(2,4) enc(2)]) auto
    ultimately show ?thesis using False FCons.IH(1) [OF vs(2) fs(1) enc(1)] by (auto simp: vs(1) enc(3) simp del: map_of_append)
  qed
next
  case (TStruct fs)
  then show ?case using TStruct.IH [where pre = "[]"] by (auto split: gval.splits)
qed (auto split: gval.splits option.splits dest: reads_back)

text \<open>The normal form is reached in one trip: it is well typed, is written if the value is, and is its own normal form.\<close>

lemma typed_zero: "typed K t (zero_value X t)" "typed_fields K fs (zero_fields X fs)"
  by (induction t and fs) (auto simp: in_width_def valid_zero)

lemma empty_zero: "typed K t v \<Longrightarrow> empty_value v \<Longrightarrow> empty_value (zero_value X t)"
  by (cases t) (auto split: gval.splits)

lemma norm_empty: "typed K t v \<Longrightarrow> empty_value (norm X N t v) \<Longrightarrow> norm X N t v = zero_value X t \<or> empty_value v"
  by (cases t) (auto split: gval.splits option.splits if_splits)

lemma typed_norm:
  "typed K t v \<Longrightarrow> typed K t (norm X N t v)"
  "typed_fields K fs vs \<Longrightarrow> typed_fields K fs (norm_fields X N fs vs)"
proof (induction t and fs arbitrary: v and vs)
  case (TSlice t)
  then show ?case by (auto split: gval.splits option.splits simp: list_all_iff)
next
  case (TMap t)
  then show ?case by (auto split: gval.splits option.splits simp: list_all_iff comp_def)
next
  case (FCons k omit t fs)
  then show ?case by (auto split: list.splits simp: typed_zero)
qed (auto split: gval.splits option.splits simp: valid_normal)

lemma norm_null: "typed K t v \<Longrightarrow> encode X t (norm X N t v) = Inr JNull \<longleftrightarrow> encode X t v = Inr JNull"
proof (induction t arbitrary: v rule: gtype.induct [of _ "\<lambda>_. True"])
  case (TPtr t)
  then show ?case by (auto split: gval.splits option.splits)
qed (auto split: gval.splits option.splits simp: writes_same)

lemma norm_norm:
  "typed K t v \<Longrightarrow> norm X N t (norm X N t v) = norm X N t v"
  "typed_fields K fs vs \<Longrightarrow> norm_fields X N fs (norm_fields X N fs vs) = norm_fields X N fs vs"
proof (induction t and fs arbitrary: v and vs)
  case (TPtr t)
  then show ?case by (auto split: gval.splits option.splits simp: norm_null)
next
  case (TSlice t)
  then show ?case by (auto split: gval.splits option.splits simp: list_all_iff)
next
  case (TMap t)
  then show ?case by (auto split: gval.splits option.splits simp: list_all_iff)
next
  case (FCons k omit t fs)
  then obtain v vs' where vs: "vs = v # vs'" "typed K t v" "typed_fields K fs vs'" by (auto split: list.splits)
  show ?case using FCons.IH vs empty_zero [OF vs(2)] norm_empty [OF vs(2)] by auto
qed (auto split: gval.splits option.splits simp: normal)

lemma encode_succeeds:
  "typed K t v \<Longrightarrow> \<exists>j. encode X t v = Inr j"
  "typed_fields K fs vs \<Longrightarrow> \<exists>kjs. encode_fields X fs vs = Inr kjs"
proof (induction t and fs arbitrary: v and vs)
  case (TSlice t)
  then show ?case by (auto split: gval.splits option.splits simp: list_all_iff collect_succeeds)
next
  case (TMap t)
  then show ?case by (auto split: gval.splits option.splits simp: list_all_iff collect_succeeds encode_entry_def)
next
  case (FCons k omit t fs)
  then show ?case by (fastforce split: list.splits)
qed (auto split: gval.splits option.splits simp: writes)

text \<open>A valid value is written and read into a zero value as its normal form, and so is the normal form.\<close>

lemma round_trip:
  assumes "typed K t v" and "tags_ok t"
  obtains j where "encode X t v = Inr j" and "decode X t (zero_value X t) j = Inr (norm X N t v)"
  using encode_succeeds(1) [OF assms(1)] encode_decode(1) [OF assms] by blast

lemma second_trip:
  assumes "typed K t v" and "tags_ok t"
  obtains j where "encode X t (norm X N t v) = Inr j" and "decode X t (zero_value X t) j = Inr (norm X N t v)"
  using round_trip [OF typed_norm(1) [OF assms(1)] assms(2)] norm_norm(1) [OF assms(1)] by metis

end

end
