(* ===== verification/Schema_v1alpha1.thy ===== *)
theory Schema_v1alpha1
  imports Go_Schema
begin

text \<open>
  The types of \<open>src/api/v1alpha1\<close> as the JSON encoder sees them: every field of every struct below the spec and the
  status of the three kinds, in the order of the declaration, with the key of its tag, its \<open>omitempty\<close> and its type.  The
  string types carry their declared constants.
\<close>

definition v1alpha1_ResumableTrainingJobIdentity :: gtype where
  [schema_defs]: "v1alpha1_ResumableTrainingJobIdentity = Struct
      [(''image'', False, TString),
       (''codeVersion'', False, TString),
       (''worldSize'', False, TInt 32),
       (''gpuShape'', False, TString)]"

definition v1alpha1_RuntimeMode :: gtype where
  [schema_defs]: "v1alpha1_RuntimeMode = TEnum [''DDP'', ''FSDP'']"

definition v1alpha1_EmbeddedObjectMetadata :: gtype where
  [schema_defs]: "v1alpha1_EmbeddedObjectMetadata = Struct
      [(''labels'', True, TMap TString),
       (''annotations'', True, TMap TString)]"

definition v1alpha1_JobSetTemplate :: gtype where
  [schema_defs]: "v1alpha1_JobSetTemplate = Struct
      [(''apiVersion'', True, TString),
       (''kind'', True, TString),
       (''metadata'', True, TPtr v1alpha1_EmbeddedObjectMetadata),
       (''spec'', False, TExt ''runtime.RawExtension'')]"

definition v1alpha1_ResumableTrainingJobRuntime :: gtype where
  [schema_defs]: "v1alpha1_ResumableTrainingJobRuntime = Struct
      [(''mode'', False, v1alpha1_RuntimeMode),
       (''optimizerMode'', False, TString),
       (''shardingMode'', False, TString),
       (''template'', False, v1alpha1_JobSetTemplate)]"

definition v1alpha1_SafePointMode :: gtype where
  [schema_defs]: "v1alpha1_SafePointMode = TEnum [''StepBoundary'']"

definition v1alpha1_CheckpointPolicy :: gtype where
  [schema_defs]: "v1alpha1_CheckpointPolicy = Struct
      [(''storageURI'', False, TString),
       (''interval'', False, TExt ''metav1.Duration''),
       (''freshnessBudget'', False, TExt ''metav1.Duration''),
       (''maxDrainTime'', False, TExt ''metav1.Duration''),
       (''safePointMode'', True, v1alpha1_SafePointMode)]"

definition v1alpha1_ResumeSourcePolicy :: gtype where
  [schema_defs]: "v1alpha1_ResumeSourcePolicy = TEnum [''LatestCompatibleComplete'']"

definition v1alpha1_ResumePolicy :: gtype where
  [schema_defs]: "v1alpha1_ResumePolicy = Struct
      [(''sourcePolicy'', True, v1alpha1_ResumeSourcePolicy),
       (''maxResumeRetries'', False, TInt 32),
       (''allowWorldSizeChange'', True, TBool)]"

definition v1alpha1_ParallelismSpec :: gtype where
  [schema_defs]: "v1alpha1_ParallelismSpec = Struct
      [(''preferredCount'', True, TInt 32),
       (''minCount'', True, TPtr (TInt 32)),
       (''podSetName'', True, TString),
       (''enablePartialAdmission'', True, TBool)]"

definition v1alpha1_TopologyMode :: gtype where
  [schema_defs]: "v1alpha1_TopologyMode = TEnum [''Disabled'', ''Required'', ''Preferred'', ''Unconstrained'']"

definition v1alpha1_TopologySpec :: gtype where
  [schema_defs]: "v1alpha1_TopologySpec = Struct
      [(''mode'', False, v1alpha1_TopologyMode),
       (''topologyLevel'', True, TString),
       (''leaderWorkerColocation'', True, TBool)]"

definition v1alpha1_PriorityPolicyReference :: gtype where
  [schema_defs]: "v1alpha1_PriorityPolicyReference = Struct
      [(''name'', False, TString)]"

definition v1alpha1_DeviceMode :: gtype where
  [schema_defs]: "v1alpha1_DeviceMode = TEnum [''Disabled'', ''DRA'']"

definition v1alpha1_DeviceRequestSpec :: gtype where
  [schema_defs]: "v1alpha1_DeviceRequestSpec = Struct
      [(''deviceClassName'', False, TString),
       (''count'', True, TInt 32),
       (''selectors'', True, TSlice TString)]"

definition v1alpha1_DeviceClaimSpec :: gtype where
  [schema_defs]: "v1alpha1_DeviceClaimSpec = Struct
      [(''name'', False, TString),
       (''containers'', False, TSlice TString),
       (''request'', False, v1alpha1_DeviceRequestSpec)]"

definition v1alpha1_DeviceSpec :: gtype where
  [schema_defs]: "v1alpha1_DeviceSpec = Struct
      [(''mode'', False, v1alpha1_DeviceMode),
       (''claims'', True, TSlice v1alpha1_DeviceClaimSpec)]"

definition v1alpha1_ElasticityMode :: gtype where
  [schema_defs]: "v1alpha1_ElasticityMode = TEnum [''Disabled'', ''Manual'']"

definition v1alpha1_InPlaceShrinkPolicy :: gtype where
  [schema_defs]: "v1alpha1_InPlaceShrinkPolicy = TEnum [''IfSupported'', ''Never'']"

definition v1alpha1_ReclaimMode :: gtype where
  [schema_defs]: "v1alpha1_ReclaimMode = TEnum [''ReclaimablePods'']"

definition v1alpha1_ElasticitySpec :: gtype where
  [schema_defs]: "v1alpha1_ElasticitySpec = Struct
      [(''mode'', False, v1alpha1_ElasticityMode),
       (''targetWorkerCount'', True, TPtr (TInt 32)),
       (''inPlaceShrinkPolicy'', True, v1alpha1_InPlaceShrinkPolicy),
       (''reclaimMode'', True, v1alpha1_ReclaimMode)]"

definition v1alpha1_DesiredState :: gtype where
  [schema_defs]: "v1alpha1_DesiredState = TEnum [''Running'', ''Paused'']"

definition v1alpha1_ControlSpec :: gtype where
  [schema_defs]: "v1alpha1_ControlSpec = Struct
      [(''desiredState'', True, v1alpha1_DesiredState)]"

definition v1alpha1_ResumableTrainingJobSpec :: gtype where
  [schema_defs]: "v1alpha1_ResumableTrainingJobSpec = Struct
      [(''suspend'', True, TPtr TBool),
       (''queueName'', False, TString),
       (''workloadPriorityClassName'', False, TString),
       (''identity'', False, v1alpha1_ResumableTrainingJobIdentity),
       (''runtime'', False, v1alpha1_ResumableTrainingJobRuntime),
       (''checkpoint'', False, v1alpha1_CheckpointPolicy),
       (''resume'', False, v1alpha1_ResumePolicy),
       (''parallelism'', True, TPtr v1alpha1_ParallelismSpec),
       (''topology'', True, TPtr v1alpha1_TopologySpec),
       (''priorityPolicyRef'', True, TPtr v1alpha1_PriorityPolicyReference),
       (''managedBy'', True, TString),
       (''devices'', True, TPtr v1alpha1_DeviceSpec),
       (''elasticity'', True, TPtr v1alpha1_ElasticitySpec),
       (''control'', True, TPtr v1alpha1_ControlSpec)]"

definition v1alpha1_ResumableTrainingJobPhase :: gtype where
  [schema_defs]: "v1alpha1_ResumableTrainingJobPhase = TEnum [''Pending'', ''Queued'', ''Admitted'', ''Starting'', ''Running'', ''YieldRequested'', ''Draining'', ''Paused'', ''Restoring'', ''Succeeded'', ''Failed'']"

definition v1alpha1_WorkloadReference :: gtype where
  [schema_defs]: "v1alpha1_WorkloadReference = Struct
      [(''apiVersion'', True, TString),
       (''kind'', True, TString),
       (''name'', False, TString),
       (''namespace'', True, TString)]"

definition v1alpha1_SuspensionSource :: gtype where
  [schema_defs]: "v1alpha1_SuspensionSource = TEnum [''Kueue'', ''Manual'', ''Unknown'']"

definition v1alpha1_SuspensionStatus :: gtype where
  [schema_defs]: "v1alpha1_SuspensionStatus = Struct
      [(''suspended'', False, TBool),
       (''source'', True, v1alpha1_SuspensionSource),
       (''reason'', True, TString),
       (''message'', True, TString),
       (''observedAt'', True, TPtr (TExt ''metav1.Time''))]"

definition v1alpha1_CompatibilityState :: gtype where
  [schema_defs]: "v1alpha1_CompatibilityState = TEnum [''Compatible'', ''Incompatible'', ''Unknown'']"

definition v1alpha1_CheckpointReference :: gtype where
  [schema_defs]: "v1alpha1_CheckpointReference = Struct
      [(''id'', False, TString),
       (''storageURI'', False, TString),
       (''manifestURI'', True, TString),
       (''completionTime'', True, TPtr (TExt ''metav1.Time'')),
       (''sourceRunAttempt'', True, TInt 32),
       (''compatibilityState'', True, v1alpha1_CompatibilityState),
       (''compatibilityReason'', True, TString),
       (''worldSize'', True, TInt 32)]"

definition v1alpha1_TransitionTimestamps :: gtype where
  [schema_defs]: "v1alpha1_TransitionTimestamps = Struct
      [(''lastTransitionTime'', True, TPtr (TExt ''metav1.Time'')),
       (''queuedAt'', True, TPtr (TExt ''metav1.Time'')),
       (''admittedAt'', True, TPtr (TExt ''metav1.Time'')),
       (''startingAt'', True, TPtr (TExt ''metav1.Time'')),
       (''runningAt'', True, TPtr (TExt ''metav1.Time'')),
       (''yieldRequestedAt'', True, TPtr (TExt ''metav1.Time'')),
       (''drainingAt'', True, TPtr (TExt ''metav1.Time'')),
       (''lastCheckpointCompletedAt'', True, TPtr (TExt ''metav1.Time'')),
       (''pausedAt'', True, TPtr (TExt ''metav1.Time'')),
       (''restoringAt'', True, TPtr (TExt ''metav1.Time'')),
       (''restoreCompletedAt'', True, TPtr (TExt ''metav1.Time'')),
       (''succeededAt'', True, TPtr (TExt ''metav1.Time'')),
       (''failedAt'', True, TPtr (TExt ''metav1.Time''))]"

definition v1alpha1_AdmissionStatus :: gtype where
  [schema_defs]: "v1alpha1_AdmissionStatus = Struct
      [(''admittedWorkerCount'', True, TInt 32),
       (''preferredWorkerCount'', True, TInt 32),
       (''activeWorkerCount'', True, TInt 32),
       (''admittedFlavors'', True, TMap TString)]"

definition v1alpha1_RestoreMode :: gtype where
  [schema_defs]: "v1alpha1_RestoreMode = TEnum [''SameSize'', ''Reshard'']"

definition v1alpha1_RestoreStatus :: gtype where
  [schema_defs]: "v1alpha1_RestoreStatus = Struct
      [(''lastCheckpointWorldSize'', True, TInt 32),
       (''lastRestoreWorldSize'', True, TInt 32),
       (''restoreMode'', True, v1alpha1_RestoreMode)]"

definition v1alpha1_ReadinessGateState :: gtype where
  [schema_defs]: "v1alpha1_ReadinessGateState = TEnum [''Pending'', ''Ready'', ''Rejected'']"

definition v1alpha1_LaunchReadinessStatus :: gtype where
  [schema_defs]: "v1alpha1_LaunchReadinessStatus = Struct
      [(''ready'', False, TBool),
       (''gateState'', True, v1alpha1_ReadinessGateState),
       (''reason'', True, TString),
       (''message'', True, TString),
       (''lastTransitionTime'', True, TPtr (TExt ''metav1.Time''))]"

definition v1alpha1_TopologyDomainStatus :: gtype where
  [schema_defs]: "v1alpha1_TopologyDomainStatus = Struct
      [(''values'', True, TSlice TString),
       (''count'', True, TInt 32)]"

definition v1alpha1_TopologyStatus :: gtype where
  [schema_defs]: "v1alpha1_TopologyStatus = Struct
      [(''levels'', True, TSlice TString),
       (''domains'', True, TSlice v1alpha1_TopologyDomainStatus)]"

definition v1alpha1_EffectiveLaunchShape :: gtype where
  [schema_defs]: "v1alpha1_EffectiveLaunchShape = Struct
      [(''workerCount'', True, TInt 32),
       (''worldSize'', True, TInt 32),
       (''resumeMode'', True, v1alpha1_RestoreMode),
       (''selectedCheckpointID'', True, TString)]"

definition v1alpha1_PreemptionState :: gtype where
  [schema_defs]: "v1alpha1_PreemptionState = TEnum [''Protected'', ''Active'', ''Cooldown'', ''Preemptible'']"

definition v1alpha1_PriorityShapingStatus :: gtype where
  [schema_defs]: "v1alpha1_PriorityShapingStatus = Struct
      [(''basePriority'', True, TInt 32),
       (''effectivePriority'', True, TInt 32),
       (''preemptionState'', True, v1alpha1_PreemptionState),
       (''preemptionStateReason'', True, TString),
       (''protectedUntil'', True, TPtr (TExt ''metav1.Time'')),
       (''lastCompletedCheckpointTime'', True, TPtr (TExt ''metav1.Time'')),
       (''checkpointAge'', True, TString),
       (''lastYieldTime'', True, TPtr (TExt ''metav1.Time'')),
       (''lastResumeTime'', True, TPtr (TExt ''metav1.Time'')),
       (''recentYieldCount'', True, TInt 32),
       (''appliedPolicyRef'', True, TString)]"

definition v1alpha1_LaunchGateState :: gtype where
  [schema_defs]: "v1alpha1_LaunchGateState = TEnum [''Open'', ''Blocked'', ''Unknown'']"

definition v1alpha1_AdmissionCheckState :: gtype where
  [schema_defs]: "v1alpha1_AdmissionCheckState = TEnum [''Pending'', ''Ready'', ''Retry'', ''Rejected'']"

definition v1alpha1_TopologyGateState :: gtype where
  [schema_defs]: "v1alpha1_TopologyGateState = TEnum [''NotConfigured'', ''Pending'', ''Assigned'']"

definition v1alpha1_LaunchGateStatus :: gtype where
  [schema_defs]: "v1alpha1_LaunchGateStatus = Struct
      [(''launchGateState'', True, v1alpha1_LaunchGateState),
       (''launchGateReason'', True, TString),
       (''message'', True, TString),
       (''admissionCheckSummary'', True, TMap v1alpha1_AdmissionCheckState),
       (''topologyGateState'', True, v1alpha1_TopologyGateState),
       (''lastTransitionTime'', True, TPtr (TExt ''metav1.Time''))]"

definition v1alpha1_ProvisioningState :: gtype where
  [schema_defs]: "v1alpha1_ProvisioningState = TEnum [''NotConfigured'', ''Pending'', ''Provisioned'', ''Failed'']"

definition v1alpha1_ProvisioningRequestReference :: gtype where
  [schema_defs]: "v1alpha1_ProvisioningRequestReference = Struct
      [(''name'', False, TString),
       (''namespace'', True, TString)]"

definition v1alpha1_ProvisioningStatus :: gtype where
  [schema_defs]: "v1alpha1_ProvisioningStatus = Struct
      [(''provisioningState'', True, v1alpha1_ProvisioningState),
       (''provisioningRequestRef'', True, TPtr v1alpha1_ProvisioningRequestReference),
       (''provisioningAttempt'', True, TInt 32),
       (''reason'', True, TString),
       (''message'', True, TString),
       (''provisioningLastTransitionTime'', True, TPtr (TExt ''metav1.Time''))]"

definition v1alpha1_StartupState :: gtype where
  [schema_defs]: "v1alpha1_StartupState = TEnum [''NotStarted'', ''Starting'', ''Running'', ''StartupTimedOut'', ''RecoveryTimedOut'', ''Evicted'']"

definition v1alpha1_PodsReadyState :: gtype where
  [schema_defs]: "v1alpha1_PodsReadyState = TEnum [''Unknown'', ''PodsReady'', ''PodsNotReady'', ''NoRuntime'']"

definition v1alpha1_StartupRecoveryStatus :: gtype where
  [schema_defs]: "v1alpha1_StartupRecoveryStatus = Struct
      [(''startupState'', True, v1alpha1_StartupState),
       (''podsReadyState'', True, v1alpha1_PodsReadyState),
       (''lastLaunchFailureReason'', True, TString),
       (''lastEvictionReason'', True, TString),
       (''lastRequeueReason'', True, TString),
       (''lastTransitionTime'', True, TPtr (TExt ''metav1.Time''))]"

definition v1alpha1_CapacityStatus :: gtype where
  [schema_defs]: "v1alpha1_CapacityStatus = Struct
      [(''guaranteeActive'', False, TBool),
       (''reason'', True, TString)]"

definition v1alpha1_MultiClusterDispatchPhase :: gtype where
  [schema_defs]: "v1alpha1_MultiClusterDispatchPhase = TEnum [''Pending'', ''Dispatched'', ''Active'']"

definition v1alpha1_RemoteObjectReference :: gtype where
  [schema_defs]: "v1alpha1_RemoteObjectReference = Struct
      [(''cluster'', False, TString),
       (''namespace'', True, TString),
       (''name'', False, TString),
       (''uid'', True, TString)]"

definition v1alpha1_RemoteCheckpointSummary :: gtype where
  [schema_defs]: "v1alpha1_RemoteCheckpointSummary = Struct
      [(''lastCompletedCheckpointID'', True, TString),
       (''lastCompletedCheckpointTime'', True, TPtr (TExt ''metav1.Time'')),
       (''storageURI'', True, TString)]"

definition v1alpha1_MultiClusterStatus :: gtype where
  [schema_defs]: "v1alpha1_MultiClusterStatus = Struct
      [(''dispatchPhase'', True, v1alpha1_MultiClusterDispatchPhase),
       (''nominatedClusters'', True, TSlice TString),
       (''executionCluster'', True, TString),
       (''remoteObjectRef'', True, TPtr v1alpha1_RemoteObjectReference),
       (''remotePhase'', True, v1alpha1_ResumableTrainingJobPhase),
       (''remoteCheckpoint'', True, TPtr v1alpha1_RemoteCheckpointSummary),
       (''remoteObservedGeneration'', True, TInt 64),
       (''localExecutionSuppressed'', True, TBool)]"

definition v1alpha1_ResourceClaimTemplateReference :: gtype where
  [schema_defs]: "v1alpha1_ResourceClaimTemplateReference = Struct
      [(''name'', False, TString),
       (''claimName'', False, TString)]"

definition v1alpha1_ClaimAllocationState :: gtype where
  [schema_defs]: "v1alpha1_ClaimAllocationState = TEnum [''Pending'', ''Allocated'', ''Failed'', ''Unknown'']"

definition v1alpha1_DeviceStatus :: gtype where
  [schema_defs]: "v1alpha1_DeviceStatus = Struct
      [(''deviceMode'', True, v1alpha1_DeviceMode),
       (''requestedDeviceClasses'', True, TSlice TString),
       (''currentDeviceProfileFingerprint'', True, TString),
       (''resourceClaimTemplateRefs'', True, TSlice v1alpha1_ResourceClaimTemplateReference),
       (''claimAllocationState'', True, v1alpha1_ClaimAllocationState),
       (''allocatedClaimCount'', True, TInt 32),
       (''lastClaimFailureReason'', True, TString),
       (''lastClaimFailureTime'', True, TPtr (TExt ''metav1.Time'')),
       (''lastCheckpointDeviceProfileFingerprint'', True, TString),
       (''lastResumeDeviceProfileFingerprint'', True, TString)]"

definition v1alpha1_ResizeState :: gtype where
  [schema_defs]: "v1alpha1_ResizeState = TEnum [''Idle'', ''Pending'', ''InProgress'', ''Blocked'', ''Completed'', ''Failed'']"

definition v1alpha1_ExecutionMode :: gtype where
  [schema_defs]: "v1alpha1_ExecutionMode = TEnum [''Fixed'', ''Elastic'']"

definition v1alpha1_ResizePath :: gtype where
  [schema_defs]: "v1alpha1_ResizePath = TEnum [''InPlace'', ''CheckpointAndRelaunch'']"

definition v1alpha1_ElasticityStatus :: gtype where
  [schema_defs]: "v1alpha1_ElasticityStatus = Struct
      [(''desiredWorkerCount'', True, TInt 32),
       (''targetWorkerCount'', True, TInt 32),
       (''activeWorkerCount'', True, TInt 32),
       (''admittedWorkerCount'', True, TInt 32),
       (''resizeState'', True, v1alpha1_ResizeState),
       (''resizeReason'', True, TString),
       (''currentExecutionMode'', True, v1alpha1_ExecutionMode),
       (''resizePath'', True, v1alpha1_ResizePath),
       (''reclaimableWorkerCount'', True, TInt 32),
       (''reclaimablePodsPublished'', True, TBool),
       (''inPlaceShrinkSupported'', True, TBool),
       (''lastResizeEvent'', True, TString),
       (''lastResizeCheckpoint'', True, TPtr v1alpha1_CheckpointReference),
       (''lastResizeFailureReason'', True, TString),
       (''lastElasticTransitionTime'', True, TPtr (TExt ''metav1.Time'')),
       (''lastResizeCompletedTime'', True, TPtr (TExt ''metav1.Time''))]"

definition v1alpha1_ResumableTrainingJobStatus :: gtype where
  [schema_defs]: "v1alpha1_ResumableTrainingJobStatus = Struct
      [(''phase'', True, v1alpha1_ResumableTrainingJobPhase),
       (''conditions'', True, TSlice (TExt ''metav1.Condition'')),
       (''workloadReference'', True, TPtr v1alpha1_WorkloadReference),
       (''admittedClusterQueue'', True, TString),
       (''currentSuspension'', True, TPtr v1alpha1_SuspensionStatus),
       (''currentRunAttempt'', True, TInt 32),
       (''pauseRequestID'', True, TString),
       (''activeJobSetName'', True, TString),
       (''activeControlConfigMapName'', True, TString),
       (''selectedCheckpoint'', True, TPtr v1alpha1_CheckpointReference),
       (''lastCompletedCheckpoint'', True, TPtr v1alpha1_CheckpointReference),
       (''transitionTimestamps'', True, v1alpha1_TransitionTimestamps),
       (''reason'', True, TString),
       (''message'', True, TString),
       (''observedGeneration'', True, TInt 64),
       (''admission'', True, TPtr v1alpha1_AdmissionStatus),
       (''restore'', True, TPtr v1alpha1_RestoreStatus),
       (''launchReadiness'', True, TPtr v1alpha1_LaunchReadinessStatus),
       (''topology'', True, TPtr v1alpha1_TopologyStatus),
       (''effectiveLaunchShape'', True, TPtr v1alpha1_EffectiveLaunchShape),
       (''priorityShaping'', True, TPtr v1alpha1_PriorityShapingStatus),
       (''launchGate'', True, TPtr v1alpha1_LaunchGateStatus),
       (''provisioning'', True, TPtr v1alpha1_ProvisioningStatus),
       (''startupRecovery'', True, TPtr v1alpha1_StartupRecoveryStatus),
       (''capacity'', True, TPtr v1alpha1_CapacityStatus),
       (''multiCluster'', True, TPtr v1alpha1_MultiClusterStatus),
       (''devices'', True, TPtr v1alpha1_DeviceStatus),
       (''elasticity'', True, TPtr v1alpha1_ElasticityStatus)]"

definition v1alpha1_CheckpointPriorityPolicySpec :: gtype where
  [schema_defs]: "v1alpha1_CheckpointPriorityPolicySpec = Struct
      [(''checkpointFreshnessTarget'', False, TExt ''metav1.Duration''),
       (''startupProtectionWindow'', False, TExt ''metav1.Duration''),
       (''minRuntimeBetweenYields'', False, TExt ''metav1.Duration''),
       (''maxYieldsPerWindow'', True, TInt 32),
       (''yieldWindow'', True, TPtr (TExt ''metav1.Duration'')),
       (''failOpenOnTelemetryLoss'', True, TPtr TBool),
       (''failOpenOnCheckpointStoreErrors'', True, TPtr TBool),
       (''protectedBoost'', True, TPtr (TInt 32)),
       (''cooldownBoost'', True, TPtr (TInt 32)),
       (''staleCheckpointBoost'', True, TPtr (TInt 32)),
       (''preemptibleOffset'', True, TPtr (TInt 32)),
       (''minEffectivePriority'', True, TPtr (TInt 32)),
       (''maxEffectivePriority'', True, TPtr (TInt 32))]"

definition v1alpha1_CheckpointPriorityPolicyStatus :: gtype where
  [schema_defs]: "v1alpha1_CheckpointPriorityPolicyStatus = Struct
      [(''conditions'', True, TSlice (TExt ''metav1.Condition''))]"

definition v1alpha1_FailurePolicy :: gtype where
  [schema_defs]: "v1alpha1_FailurePolicy = TEnum [''FailOpen'', ''FailClosed'']"

definition v1alpha1_ResumeReadinessPolicySpec :: gtype where
  [schema_defs]: "v1alpha1_ResumeReadinessPolicySpec = Struct
      [(''requireCompleteCheckpoint'', True, TPtr TBool),
       (''maxCheckpointAge'', True, TPtr (TExt ''metav1.Duration'')),
       (''failurePolicy'', True, v1alpha1_FailurePolicy),
       (''allowInitialLaunchWithoutCheckpoint'', True, TPtr TBool)]"

definition v1alpha1_ResumeReadinessPolicyStatus :: gtype where
  [schema_defs]: "v1alpha1_ResumeReadinessPolicyStatus = Struct
      [(''conditions'', True, TSlice (TExt ''metav1.Condition''))]"

end
