(* ===== verification/Schema_v1beta1.thy ===== *)
theory Schema_v1beta1
  imports Go_Schema
begin

text \<open>
  The types of \<open>src/api/v1beta1\<close>, the hub version, in the same form.
\<close>

definition v1beta1_ResumableTrainingJobIdentity :: gtype where
  [schema_defs]: "v1beta1_ResumableTrainingJobIdentity = Struct
      [(''image'', False, TString),
       (''codeVersion'', False, TString),
       (''worldSize'', False, TInt 32),
       (''gpuShape'', False, TString)]"

definition v1beta1_RuntimeMode :: gtype where
  [schema_defs]: "v1beta1_RuntimeMode = TEnum [''DDP'', ''FSDP'']"

definition v1beta1_EmbeddedObjectMetadata :: gtype where
  [schema_defs]: "v1beta1_EmbeddedObjectMetadata = Struct
      [(''labels'', True, TMap TString),
       (''annotations'', True, TMap TString)]"

definition v1beta1_JobSetTemplate :: gtype where
  [schema_defs]: "v1beta1_JobSetTemplate = Struct
      [(''apiVersion'', True, TString),
       (''kind'', True, TString),
       (''metadata'', True, TPtr v1beta1_EmbeddedObjectMetadata),
       (''spec'', False, TExt ''runtime.RawExtension'')]"

definition v1beta1_ResumableTrainingJobRuntime :: gtype where
  [schema_defs]: "v1beta1_ResumableTrainingJobRuntime = Struct
      [(''mode'', False, v1beta1_RuntimeMode),
       (''optimizerMode'', False, TString),
       (''shardingMode'', False, TString),
       (''template'', False, v1beta1_JobSetTemplate)]"

definition v1beta1_SafePointMode :: gtype where
  [schema_defs]: "v1beta1_SafePointMode = TEnum [''StepBoundary'']"

definition v1beta1_CheckpointPolicy :: gtype where
  [schema_defs]: "v1beta1_CheckpointPolicy = Struct
      [(''storageURI'', False, TString),
       (''interval'', False, TExt ''metav1.Duration''),
       (''freshnessBudget'', False, TExt ''metav1.Duration''),
       (''maxDrainTime'', False, TExt ''metav1.Duration''),
       (''safePointMode'', True, v1beta1_SafePointMode)]"

definition v1beta1_ResumeSourcePolicy :: gtype where
  [schema_defs]: "v1beta1_ResumeSourcePolicy = TEnum [''LatestCompatibleComplete'']"

definition v1beta1_ResumePolicy :: gtype where
  [schema_defs]: "v1beta1_ResumePolicy = Struct
      [(''sourcePolicy'', True, v1beta1_ResumeSourcePolicy),
       (''maxResumeRetries'', False, TInt 32),
       (''allowWorldSizeChange'', True, TBool)]"

definition v1beta1_ParallelismSpec :: gtype where
  [schema_defs]: "v1beta1_ParallelismSpec = Struct
      [(''preferredCount'', True, TInt 32),
       (''minCount'', True, TPtr (TInt 32)),
       (''podSetName'', True, TString),
       (''enablePartialAdmission'', True, TBool)]"

definition v1beta1_TopologyMode :: gtype where
  [schema_defs]: "v1beta1_TopologyMode = TEnum [''Disabled'', ''Required'', ''Preferred'', ''Unconstrained'']"

definition v1beta1_TopologySpec :: gtype where
  [schema_defs]: "v1beta1_TopologySpec = Struct
      [(''mode'', False, v1beta1_TopologyMode),
       (''topologyLevel'', True, TString),
       (''leaderWorkerColocation'', True, TBool)]"

definition v1beta1_PriorityPolicyReference :: gtype where
  [schema_defs]: "v1beta1_PriorityPolicyReference = Struct
      [(''name'', False, TString)]"

definition v1beta1_DeviceMode :: gtype where
  [schema_defs]: "v1beta1_DeviceMode = TEnum [''Disabled'', ''DRA'']"

definition v1beta1_DeviceRequestSpec :: gtype where
  [schema_defs]: "v1beta1_DeviceRequestSpec = Struct
      [(''deviceClassName'', False, TString),
       (''count'', True, TInt 32),
       (''selectors'', True, TSlice TString)]"

definition v1beta1_DeviceClaimSpec :: gtype where
  [schema_defs]: "v1beta1_DeviceClaimSpec = Struct
      [(''name'', False, TString),
       (''containers'', False, TSlice TString),
       (''request'', False, v1beta1_DeviceRequestSpec)]"

definition v1beta1_DeviceSpec :: gtype where
  [schema_defs]: "v1beta1_DeviceSpec = Struct
      [(''mode'', False, v1beta1_DeviceMode),
       (''claims'', True, TSlice v1beta1_DeviceClaimSpec)]"

definition v1beta1_ElasticityMode :: gtype where
  [schema_defs]: "v1beta1_ElasticityMode = TEnum [''Disabled'', ''Manual'']"

definition v1beta1_InPlaceShrinkPolicy :: gtype where
  [schema_defs]: "v1beta1_InPlaceShrinkPolicy = TEnum [''IfSupported'', ''Never'']"

definition v1beta1_ReclaimMode :: gtype where
  [schema_defs]: "v1beta1_ReclaimMode = TEnum [''ReclaimablePods'']"

definition v1beta1_ElasticitySpec :: gtype where
  [schema_defs]: "v1beta1_ElasticitySpec = Struct
      [(''mode'', False, v1beta1_ElasticityMode),
       (''targetWorkerCount'', True, TPtr (TInt 32)),
       (''inPlaceShrinkPolicy'', True, v1beta1_InPlaceShrinkPolicy),
       (''reclaimMode'', True, v1beta1_ReclaimMode)]"

definition v1beta1_DesiredState :: gtype where
  [schema_defs]: "v1beta1_DesiredState = TEnum [''Running'', ''Paused'']"

definition v1beta1_ControlSpec :: gtype where
  [schema_defs]: "v1beta1_ControlSpec = Struct
      [(''desiredState'', True, v1beta1_DesiredState)]"

definition v1beta1_ResumableTrainingJobSpec :: gtype where
  [schema_defs]: "v1beta1_ResumableTrainingJobSpec = Struct
      [(''suspend'', True, TPtr TBool),
       (''queueName'', False, TString),
       (''workloadPriorityClassName'', False, TString),
       (''identity'', False, v1beta1_ResumableTrainingJobIdentity),
       (''runtime'', False, v1beta1_ResumableTrainingJobRuntime),
       (''checkpoint'', False, v1beta1_CheckpointPolicy),
       (''resume'', False, v1beta1_ResumePolicy),
       (''parallelism'', True, TPtr v1beta1_ParallelismSpec),
       (''topology'', True, TPtr v1beta1_TopologySpec),
       (''priorityPolicyRef'', True, TPtr v1beta1_PriorityPolicyReference),
       (''managedBy'', True, TString),
       (''devices'', True, TPtr v1beta1_DeviceSpec),
       (''elasticity'', True, TPtr v1beta1_ElasticitySpec),
       (''control'', True, TPtr v1beta1_ControlSpec)]"

definition v1beta1_ResumableTrainingJobPhase :: gtype where
  [schema_defs]: "v1beta1_ResumableTrainingJobPhase = TEnum [''Pending'', ''Queued'', ''Admitted'', ''Starting'', ''Running'', ''YieldRequested'', ''Draining'', ''Paused'', ''Restoring'', ''Succeeded'', ''Failed'']"

definition v1beta1_WorkloadReference :: gtype where
  [schema_defs]: "v1beta1_WorkloadReference = Struct
      [(''apiVersion'', True, TString),
       (''kind'', True, TString),
       (''name'', False, TString),
       (''namespace'', True, TString)]"

definition v1beta1_SuspensionSource :: gtype where
  [schema_defs]: "v1beta1_SuspensionSource = TEnum [''Kueue'', ''Manual'', ''Unknown'']"

definition v1beta1_SuspensionStatus :: gtype where
  [schema_defs]: "v1beta1_SuspensionStatus = Struct
      [(''suspended'', False, TBool),
       (''source'', True, v1beta1_SuspensionSource),
       (''reason'', True, TString),
       (''message'', True, TString),
       (''observedAt'', True, TPtr (TExt ''metav1.Time''))]"

definition v1beta1_CompatibilityState :: gtype where
  [schema_defs]: "v1beta1_CompatibilityState = TEnum [''Compatible'', ''Incompatible'', ''Unknown'']"

definition v1beta1_CheckpointReference :: gtype where
  [schema_defs]: "v1beta1_CheckpointReference = Struct
      [(''id'', False, TString),
       (''storageURI'', False, TString),
       (''manifestURI'', True, TString),
       (''completionTime'', True, TPtr (TExt ''metav1.Time'')),
       (''sourceRunAttempt'', True, TInt 32),
       (''compatibilityState'', True, v1beta1_CompatibilityState),
       (''compatibilityReason'', True, TString),
       (''worldSize'', True, TInt 32)]"

definition v1beta1_TransitionTimestamps :: gtype where
  [schema_defs]: "v1beta1_TransitionTimestamps = Struct
      [(''lastTransitionTime'', True, TPtr (TExt ''metav1.Time'')),
       (''queuedAt'', True, TPtr (TExt ''metav1.Time'')),
       (''admittedAt'', True, TPtr (TExt ''metav1.Time'')),
       (''startingAt'', True, TPtr (TExt ''metav1.Time'')),
       (''runningAt'', True, TPtr (TExt ''metav1.Time'')),
       (''yieldRequestedAt'', True, TPtr (TExt ''metav1.Time'')),
       (''drainingAt'', True, TPtr (TExt ''metav1.Time'')),
       (''lastCheckpointCompletedAt'', True, TPtr (TExt ''metav1.Time'')),
       (''pausedAt'', True, TPtr (TExt ''metav1.Time'')),
       (''restoringAt'', True, TPtr (TExt ''metav1.Time'')),
       (''restoreCompletedAt'', True, TPtr (TExt ''metav1.Time'')),
       (''succeededAt'', True, TPtr (TExt ''metav1.Time'')),
       (''failedAt'', True, TPtr (TExt ''metav1.Time''))]"

definition v1beta1_AdmissionStatus :: gtype where
  [schema_defs]: "v1beta1_AdmissionStatus = Struct
      [(''admittedWorkerCount'', True, TInt 32),
       (''preferredWorkerCount'', True, TInt 32),
       (''activeWorkerCount'', True, TInt 32),
       (''admittedFlavors'', True, TMap TString)]"

definition v1beta1_RestoreMode :: gtype where
  [schema_defs]: "v1beta1_RestoreMode = TEnum [''SameSize'', ''Reshard'']"

definition v1beta1_RestoreStatus :: gtype where
  [schema_defs]: "v1beta1_RestoreStatus = Struct
      [(''lastCheckpointWorldSize'', True, TInt 32),
       (''lastRestoreWorldSize'', True, TInt 32),
       (''restoreMode'', True, v1beta1_RestoreMode)]"

definition v1beta1_ReadinessGateState :: gtype where
  [schema_defs]: "v1beta1_ReadinessGateState = TEnum [''Pending'', ''Ready'', ''Rejected'']"

definition v1beta1_LaunchReadinessStatus :: gtype where
  [schema_defs]: "v1beta1_LaunchReadinessStatus = Struct
      [(''ready'', False, TBool),
       (''gateState'', True, v1beta1_ReadinessGateState),
       (''reason'', True, TString),
       (''message'', True, TString),
       (''lastTransitionTime'', True, TPtr (TExt ''metav1.Time''))]"

definition v1beta1_TopologyDomainStatus :: gtype where
  [schema_defs]: "v1beta1_TopologyDomainStatus = Struct
      [(''values'', True, TSlice TString),
       (''count'', True, TInt 32)]"

definition v1beta1_TopologyStatus :: gtype where
  [schema_defs]: "v1beta1_TopologyStatus = Struct
      [(''levels'', True, TSlice TString),
       (''domains'', True, TSlice v1beta1_TopologyDomainStatus)]"

definition v1beta1_EffectiveLaunchShape :: gtype where
  [schema_defs]: "v1beta1_EffectiveLaunchShape = Struct
      [(''workerCount'', True, TInt 32),
       (''worldSize'', True, TInt 32),
       (''resumeMode'', True, v1beta1_RestoreMode),
       (''selectedCheckpointID'', True, TString)]"

definition v1beta1_PreemptionState :: gtype where
  [schema_defs]: "v1beta1_PreemptionState = TEnum [''Protected'', ''Active'', ''Cooldown'', ''Preemptible'']"

definition v1beta1_PriorityShapingStatus :: gtype where
  [schema_defs]: "v1beta1_PriorityShapingStatus = Struct
      [(''basePriority'', True, TInt 32),
       (''effectivePriority'', True, TInt 32),
       (''preemptionState'', True, v1beta1_PreemptionState),
       (''preemptionStateReason'', True, TString),
       (''protectedUntil'', True, TPtr (TExt ''metav1.Time'')),
       (''lastCompletedCheckpointTime'', True, TPtr (TExt ''metav1.Time'')),
       (''checkpointAge'', True, TString),
       (''lastYieldTime'', True, TPtr (TExt ''metav1.Time'')),
       (''lastResumeTime'', True, TPtr (TExt ''metav1.Time'')),
       (''recentYieldCount'', True, TInt 32),
       (''appliedPolicyRef'', True, TString)]"

definition v1beta1_LaunchGateState :: gtype where
  [schema_defs]: "v1beta1_LaunchGateState = TEnum [''Open'', ''Blocked'', ''Unknown'']"

definition v1beta1_AdmissionCheckState :: gtype where
  [schema_defs]: "v1beta1_AdmissionCheckState = TEnum [''Pending'', ''Ready'', ''Retry'', ''Rejected'']"

definition v1beta1_TopologyGateState :: gtype where
  [schema_defs]: "v1beta1_TopologyGateState = TEnum [''NotConfigured'', ''Pending'', ''Assigned'']"

definition v1beta1_LaunchGateStatus :: gtype where
  [schema_defs]: "v1beta1_LaunchGateStatus = Struct
      [(''launchGateState'', True, v1beta1_LaunchGateState),
       (''launchGateReason'', True, TString),
       (''message'', True, TString),
       (''admissionCheckSummary'', True, TMap v1beta1_AdmissionCheckState),
       (''topologyGateState'', True, v1beta1_TopologyGateState),
       (''lastTransitionTime'', True, TPtr (TExt ''metav1.Time''))]"

definition v1beta1_ProvisioningState :: gtype where
  [schema_defs]: "v1beta1_ProvisioningState = TEnum [''NotConfigured'', ''Pending'', ''Provisioned'', ''Failed'']"

definition v1beta1_ProvisioningRequestReference :: gtype where
  [schema_defs]: "v1beta1_ProvisioningRequestReference = Struct
      [(''name'', False, TString),
       (''namespace'', True, TString)]"

definition v1beta1_ProvisioningStatus :: gtype where
  [schema_defs]: "v1beta1_ProvisioningStatus = Struct
      [(''provisioningState'', True, v1beta1_ProvisioningState),
       (''provisioningRequestRef'', True, TPtr v1beta1_ProvisioningRequestReference),
       (''provisioningAttempt'', True, TInt 32),
       (''reason'', True, TString),
       (''message'', True, TString),
       (''provisioningLastTransitionTime'', True, TPtr (TExt ''metav1.Time''))]"

definition v1beta1_StartupState :: gtype where
  [schema_defs]: "v1beta1_StartupState = TEnum [''NotStarted'', ''Starting'', ''Running'', ''StartupTimedOut'', ''RecoveryTimedOut'', ''Evicted'']"

definition v1beta1_PodsReadyState :: gtype where
  [schema_defs]: "v1beta1_PodsReadyState = TEnum [''Unknown'', ''PodsReady'', ''PodsNotReady'', ''NoRuntime'']"

definition v1beta1_StartupRecoveryStatus :: gtype where
  [schema_defs]: "v1beta1_StartupRecoveryStatus = Struct
      [(''startupState'', True, v1beta1_StartupState),
       (''podsReadyState'', True, v1beta1_PodsReadyState),
       (''lastLaunchFailureReason'', True, TString),
       (''lastEvictionReason'', True, TString),
       (''lastRequeueReason'', True, TString),
       (''lastTransitionTime'', True, TPtr (TExt ''metav1.Time''))]"

definition v1beta1_CapacityStatus :: gtype where
  [schema_defs]: "v1beta1_CapacityStatus = Struct
      [(''guaranteeActive'', False, TBool),
       (''reason'', True, TString)]"

definition v1beta1_MultiClusterDispatchPhase :: gtype where
  [schema_defs]: "v1beta1_MultiClusterDispatchPhase = TEnum [''Pending'', ''Dispatched'', ''Active'']"

definition v1beta1_RemoteObjectReference :: gtype where
  [schema_defs]: "v1beta1_RemoteObjectReference = Struct
      [(''cluster'', False, TString),
       (''namespace'', True, TString),
       (''name'', False, TString),
       (''uid'', True, TString)]"

definition v1beta1_RemoteCheckpointSummary :: gtype where
  [schema_defs]: "v1beta1_RemoteCheckpointSummary = Struct
      [(''lastCompletedCheckpointID'', True, TString),
       (''lastCompletedCheckpointTime'', True, TPtr (TExt ''metav1.Time'')),
       (''storageURI'', True, TString)]"

definition v1beta1_MultiClusterStatus :: gtype where
  [schema_defs]: "v1beta1_MultiClusterStatus = Struct
      [(''dispatchPhase'', True, v1beta1_MultiClusterDispatchPhase),
       (''nominatedClusters'', True, TSlice TString),
       (''executionCluster'', True, TString),
       (''remoteObjectRef'', True, TPtr v1beta1_RemoteObjectReference),
       (''remotePhase'', True, v1beta1_ResumableTrainingJobPhase),
       (''remoteCheckpoint'', True, TPtr v1beta1_RemoteCheckpointSummary),
       (''remoteObservedGeneration'', True, TInt 64),
       (''localExecutionSuppressed'', True, TBool)]"

definition v1beta1_ResourceClaimTemplateReference :: gtype where
  [schema_defs]: "v1beta1_ResourceClaimTemplateReference = Struct
      [(''name'', False, TString),
       (''claimName'', False, TString)]"

definition v1beta1_ClaimAllocationState :: gtype where
  [schema_defs]: "v1beta1_ClaimAllocationState = TEnum [''Pending'', ''Allocated'', ''Failed'', ''Unknown'']"

definition v1beta1_DeviceStatus :: gtype where
  [schema_defs]: "v1beta1_DeviceStatus = Struct
      [(''deviceMode'', True, v1beta1_DeviceMode),
       (''requestedDeviceClasses'', True, TSlice TString),
       (''currentDeviceProfileFingerprint'', True, TString),
       (''resourceClaimTemplateRefs'', True, TSlice v1beta1_ResourceClaimTemplateReference),
       (''claimAllocationState'', True, v1beta1_ClaimAllocationState),
       (''allocatedClaimCount'', True, TInt 32),
       (''lastClaimFailureReason'', True, TString),
       (''lastClaimFailureTime'', True, TPtr (TExt ''metav1.Time'')),
       (''lastCheckpointDeviceProfileFingerprint'', True, TString),
       (''lastResumeDeviceProfileFingerprint'', True, TString)]"

definition v1beta1_ResizeState :: gtype where
  [schema_defs]: "v1beta1_ResizeState = TEnum [''Idle'', ''Pending'', ''InProgress'', ''Blocked'', ''Completed'', ''Failed'']"

definition v1beta1_ExecutionMode :: gtype where
  [schema_defs]: "v1beta1_ExecutionMode = TEnum [''Fixed'', ''Elastic'']"

definition v1beta1_ResizePath :: gtype where
  [schema_defs]: "v1beta1_ResizePath = TEnum [''InPlace'', ''CheckpointAndRelaunch'']"

definition v1beta1_ElasticityStatus :: gtype where
  [schema_defs]: "v1beta1_ElasticityStatus = Struct
      [(''desiredWorkerCount'', True, TInt 32),
       (''targetWorkerCount'', True, TInt 32),
       (''activeWorkerCount'', True, TInt 32),
       (''admittedWorkerCount'', True, TInt 32),
       (''resizeState'', True, v1beta1_ResizeState),
       (''resizeReason'', True, TString),
       (''currentExecutionMode'', True, v1beta1_ExecutionMode),
       (''resizePath'', True, v1beta1_ResizePath),
       (''reclaimableWorkerCount'', True, TInt 32),
       (''reclaimablePodsPublished'', True, TBool),
       (''inPlaceShrinkSupported'', True, TBool),
       (''lastResizeEvent'', True, TString),
       (''lastResizeCheckpoint'', True, TPtr v1beta1_CheckpointReference),
       (''lastResizeFailureReason'', True, TString),
       (''lastElasticTransitionTime'', True, TPtr (TExt ''metav1.Time'')),
       (''lastResizeCompletedTime'', True, TPtr (TExt ''metav1.Time''))]"

definition v1beta1_ResumableTrainingJobStatus :: gtype where
  [schema_defs]: "v1beta1_ResumableTrainingJobStatus = Struct
      [(''phase'', True, v1beta1_ResumableTrainingJobPhase),
       (''conditions'', True, TSlice (TExt ''metav1.Condition'')),
       (''workloadReference'', True, TPtr v1beta1_WorkloadReference),
       (''admittedClusterQueue'', True, TString),
       (''currentSuspension'', True, TPtr v1beta1_SuspensionStatus),
       (''currentRunAttempt'', True, TInt 32),
       (''pauseRequestID'', True, TString),
       (''activeJobSetName'', True, TString),
       (''activeControlConfigMapName'', True, TString),
       (''selectedCheckpoint'', True, TPtr v1beta1_CheckpointReference),
       (''lastCompletedCheckpoint'', True, TPtr v1beta1_CheckpointReference),
       (''transitionTimestamps'', True, v1beta1_TransitionTimestamps),
       (''reason'', True, TString),
       (''message'', True, TString),
       (''observedGeneration'', True, TInt 64),
       (''admission'', True, TPtr v1beta1_AdmissionStatus),
       (''restore'', True, TPtr v1beta1_RestoreStatus),
       (''launchReadiness'', True, TPtr v1beta1_LaunchReadinessStatus),
       (''topology'', True, TPtr v1beta1_TopologyStatus),
       (''effectiveLaunchShape'', True, TPtr v1beta1_EffectiveLaunchShape),
       (''priorityShaping'', True, TPtr v1beta1_PriorityShapingStatus),
       (''launchGate'', True, TPtr v1beta1_LaunchGateStatus),
       (''provisioning'', True, TPtr v1beta1_ProvisioningStatus),
       (''startupRecovery'', True, TPtr v1beta1_StartupRecoveryStatus),
       (''capacity'', True, TPtr v1beta1_CapacityStatus),
       (''multiCluster'', True, TPtr v1beta1_MultiClusterStatus),
       (''devices'', True, TPtr v1beta1_DeviceStatus),
       (''elasticity'', True, TPtr v1beta1_ElasticityStatus)]"

definition v1beta1_CheckpointPriorityPolicySpec :: gtype where
  [schema_defs]: "v1beta1_CheckpointPriorityPolicySpec = Struct
      [(''checkpointFreshnessTarget'', False, TExt ''metav1.Duration''),
       (''startupProtectionWindow'', False, TExt ''metav1.Duration''),
       (''minRuntimeBetweenYields'', False, TExt ''metav1.Duration''),
       (''maxYieldsPerWindow'', True, TInt 32),
       (''yieldWindow'', True, TPtr (TExt ''metav1.Duration'')),
       (''failOpenOnTelemetryLoss'', True, TPtr TBool),
       (''failOpenOnCheckpointStoreErrors'', True, TPtr TBool),
       (''protectedBoost'', True, TPtr (TInt 32)),
       (''cooldownBoost'', True, TPtr (TInt 32)),
       (''staleCheckpointBoost'', True, TPtr (TInt 32)),
       (''preemptibleOffset'', True, TPtr (TInt 32)),
       (''minEffectivePriority'', True, TPtr (TInt 32)),
       (''maxEffectivePriority'', True, TPtr (TInt 32))]"

definition v1beta1_CheckpointPriorityPolicyStatus :: gtype where
  [schema_defs]: "v1beta1_CheckpointPriorityPolicyStatus = Struct
      [(''conditions'', True, TSlice (TExt ''metav1.Condition''))]"

definition v1beta1_FailurePolicy :: gtype where
  [schema_defs]: "v1beta1_FailurePolicy = TEnum [''FailOpen'', ''FailClosed'']"

definition v1beta1_ResumeReadinessPolicySpec :: gtype where
  [schema_defs]: "v1beta1_ResumeReadinessPolicySpec = Struct
      [(''requireCompleteCheckpoint'', True, TPtr TBool),
       (''maxCheckpointAge'', True, TPtr (TExt ''metav1.Duration'')),
       (''failurePolicy'', True, v1beta1_FailurePolicy),
       (''allowInitialLaunchWithoutCheckpoint'', True, TPtr TBool)]"

definition v1beta1_ResumeReadinessPolicyStatus :: gtype where
  [schema_defs]: "v1beta1_ResumeReadinessPolicyStatus = Struct
      [(''conditions'', True, TSlice (TExt ''metav1.Condition''))]"

end
