(* ===== verification/API_Conversion.thy ===== *)
theory API_Conversion
  imports Schema_v1alpha1 Schema_v1beta1 Go_Time
begin

text \<open>
  The conversion between the two API versions (\<open>src/api/v1alpha1/*_conversion.go\<close>, \<open>src/api/v1beta1/*_conversion.go\<close>).
  An object carries its type meta, its object meta and its spec and status as values of the schemas; the six methods
  copy the object meta and send spec and status through JSON into the destination the webhook hands them.  On an error
  the destination is dropped, so that the error is the whole result.
\<close>

section \<open>Objects and hub\<close>

record ('m, 'x) api_object =
  obj_TypeMeta :: "string \<times> string"
  obj_ObjectMeta :: 'm
  obj_Spec :: "'x gval"
  obj_Status :: "'x gval"

text \<open>The implementations of \<open>conversion.Hub\<close>: the three kinds of v1beta1 with their marker methods.\<close>

datatype ('m, 'x) Hub =
    HubResumableTrainingJob "('m, 'x) api_object"
  | HubCheckpointPriorityPolicy "('m, 'x) api_object"
  | HubResumeReadinessPolicy "('m, 'x) api_object"

fun Hub_type :: "('m, 'x) Hub \<Rightarrow> string" where
  "Hub_type (HubResumableTrainingJob _) = ''*v1beta1.ResumableTrainingJob''"
| "Hub_type (HubCheckpointPriorityPolicy _) = ''*v1beta1.CheckpointPriorityPolicy''"
| "Hub_type (HubResumeReadinessPolicy _) = ''*v1beta1.ResumeReadinessPolicy''"

definition unexpected :: "string \<Rightarrow> ('m, 'x) Hub \<Rightarrow> go_err" where
  "unexpected want h = ''expected '' @ want @ '', got '' @ Hub_type h"

section \<open>Conversion\<close>

definition jsonRoundTrip :: "'x ext_codec \<Rightarrow> gtype \<Rightarrow> gtype \<Rightarrow> 'x gval \<Rightarrow> 'x gval \<Rightarrow> go_err + 'x gval" where
  "jsonRoundTrip X srcT dstT src dst =
     (case encode X srcT src of
        Inl err \<Rightarrow> Inl (''marshal: '' @ err)
      | Inr data \<Rightarrow>
          (case decode X dstT dst data of
             Inl err \<Rightarrow> Inl (''unmarshal: '' @ err)
           | Inr v \<Rightarrow> Inr v))"

text \<open>The body the six methods share: spec and status types of the source, then of the destination.\<close>

definition convert_object ::
  "'x ext_codec \<Rightarrow> gtype \<times> gtype \<Rightarrow> gtype \<times> gtype \<Rightarrow> ('m, 'x) api_object \<Rightarrow> ('m, 'x) api_object
     \<Rightarrow> go_err + ('m, 'x) api_object" where
  "convert_object X srcT dstT src dst =
     (case jsonRoundTrip X (fst srcT) (fst dstT) (obj_Spec src) (obj_Spec dst) of
        Inl err \<Rightarrow> Inl (''converting spec: '' @ err)
      | Inr spec \<Rightarrow>
          (case jsonRoundTrip X (snd srcT) (snd dstT) (obj_Status src) (obj_Status dst) of
             Inl err \<Rightarrow> Inl (''converting status: '' @ err)
           | Inr status \<Rightarrow>
               Inr (dst\<lparr> obj_ObjectMeta := obj_ObjectMeta src, obj_Spec := spec, obj_Status := status \<rparr>)))"

abbreviation job_v1alpha1 :: "gtype \<times> gtype" where
  "job_v1alpha1 \<equiv> (v1alpha1_ResumableTrainingJobSpec, v1alpha1_ResumableTrainingJobStatus)"
abbreviation job_v1beta1 :: "gtype \<times> gtype" where
  "job_v1beta1 \<equiv> (v1beta1_ResumableTrainingJobSpec, v1beta1_ResumableTrainingJobStatus)"
abbreviation priority_v1alpha1 :: "gtype \<times> gtype" where
  "priority_v1alpha1 \<equiv> (v1alpha1_CheckpointPriorityPolicySpec, v1alpha1_CheckpointPriorityPolicyStatus)"
abbreviation priority_v1beta1 :: "gtype \<times> gtype" where
  "priority_v1beta1 \<equiv> (v1beta1_CheckpointPriorityPolicySpec, v1beta1_CheckpointPriorityPolicyStatus)"
abbreviation readiness_v1alpha1 :: "gtype \<times> gtype" where
  "readiness_v1alpha1 \<equiv> (v1alpha1_ResumeReadinessPolicySpec, v1alpha1_ResumeReadinessPolicyStatus)"
abbreviation readiness_v1beta1 :: "gtype \<times> gtype" where
  "readiness_v1beta1 \<equiv> (v1beta1_ResumeReadinessPolicySpec, v1beta1_ResumeReadinessPolicyStatus)"

definition Job_ConvertTo :: "'x ext_codec \<Rightarrow> ('m, 'x) api_object \<Rightarrow> ('m, 'x) Hub \<Rightarrow> go_err + ('m, 'x) Hub" where
  "Job_ConvertTo X src dstRaw =
     (case dstRaw of
        HubResumableTrainingJob dst \<Rightarrow>
          map_sum id HubResumableTrainingJob (convert_object X job_v1alpha1 job_v1beta1 src dst)
      | _ \<Rightarrow> Inl (unexpected ''*v1beta1.ResumableTrainingJob'' dstRaw))"

definition Job_ConvertFrom :: "'x ext_codec \<Rightarrow> ('m, 'x) api_object \<Rightarrow> ('m, 'x) Hub \<Rightarrow> go_err + ('m, 'x) api_object" where
  "Job_ConvertFrom X dst srcRaw =
     (case srcRaw of
        HubResumableTrainingJob src \<Rightarrow> convert_object X job_v1beta1 job_v1alpha1 src dst
      | _ \<Rightarrow> Inl (unexpected ''*v1beta1.ResumableTrainingJob'' srcRaw))"

definition PriorityPolicy_ConvertTo ::
  "'x ext_codec \<Rightarrow> ('m, 'x) api_object \<Rightarrow> ('m, 'x) Hub \<Rightarrow> go_err + ('m, 'x) Hub" where
  "PriorityPolicy_ConvertTo X src dstRaw =
     (case dstRaw of
        HubCheckpointPriorityPolicy dst \<Rightarrow>
          map_sum id HubCheckpointPriorityPolicy (convert_object X priority_v1alpha1 priority_v1beta1 src dst)
      | _ \<Rightarrow> Inl (unexpected ''*v1beta1.CheckpointPriorityPolicy'' dstRaw))"

definition PriorityPolicy_ConvertFrom ::
  "'x ext_codec \<Rightarrow> ('m, 'x) api_object \<Rightarrow> ('m, 'x) Hub \<Rightarrow> go_err + ('m, 'x) api_object" where
  "PriorityPolicy_ConvertFrom X dst srcRaw =
     (case srcRaw of
        HubCheckpointPriorityPolicy src \<Rightarrow> convert_object X priority_v1beta1 priority_v1alpha1 src dst
      | _ \<Rightarrow> Inl (unexpected ''*v1beta1.CheckpointPriorityPolicy'' srcRaw))"

definition ReadinessPolicy_ConvertTo ::
  "'x ext_codec \<Rightarrow> ('m, 'x) api_object \<Rightarrow> ('m, 'x) Hub \<Rightarrow> go_err + ('m, 'x) Hub" where
  "ReadinessPolicy_ConvertTo X src dstRaw =
     (case dstRaw of
        HubResumeReadinessPolicy dst \<Rightarrow>
          map_sum id HubResumeReadinessPolicy (convert_object X readiness_v1alpha1 readiness_v1beta1 src dst)
      | _ \<Rightarrow> Inl (unexpected ''*v1beta1.ResumeReadinessPolicy'' dstRaw))"

definition ReadinessPolicy_ConvertFrom ::
  "'x ext_codec \<Rightarrow> ('m, 'x) api_object \<Rightarrow> ('m, 'x) Hub \<Rightarrow> go_err + ('m, 'x) api_object" where
  "ReadinessPolicy_ConvertFrom X dst srcRaw =
     (case srcRaw of
        HubResumeReadinessPolicy src \<Rightarrow> convert_object X readiness_v1beta1 readiness_v1alpha1 src dst
      | _ \<Rightarrow> Inl (unexpected ''*v1beta1.ResumeReadinessPolicy'' srcRaw))"

lemmas convert_defs =
  Job_ConvertTo_def Job_ConvertFrom_def PriorityPolicy_ConvertTo_def PriorityPolicy_ConvertFrom_def
  ReadinessPolicy_ConvertTo_def ReadinessPolicy_ConvertFrom_def

section \<open>The schemas agree\<close>

lemma schema_tags_ok:
  "tags_ok v1beta1_ResumableTrainingJobSpec" "tags_ok v1beta1_ResumableTrainingJobStatus"
  "tags_ok v1beta1_CheckpointPriorityPolicySpec" "tags_ok v1beta1_CheckpointPriorityPolicyStatus"
  "tags_ok v1beta1_ResumeReadinessPolicySpec" "tags_ok v1beta1_ResumeReadinessPolicyStatus"
  by code_simp+

lemma schema_same:
  "v1alpha1_ResumableTrainingJobSpec = v1beta1_ResumableTrainingJobSpec"
  "v1alpha1_ResumableTrainingJobStatus = v1beta1_ResumableTrainingJobStatus"
  "v1alpha1_CheckpointPriorityPolicySpec = v1beta1_CheckpointPriorityPolicySpec"
  "v1alpha1_CheckpointPriorityPolicyStatus = v1beta1_CheckpointPriorityPolicyStatus"
  "v1alpha1_ResumeReadinessPolicySpec = v1beta1_ResumeReadinessPolicySpec"
  "v1alpha1_ResumeReadinessPolicyStatus = v1beta1_ResumeReadinessPolicyStatus"
  by (simp_all only: schema_defs)

section \<open>Conversion loses nothing\<close>

text \<open>What the conversion webhook hands over: a destination whose spec and status are still zero.\<close>

definition fresh :: "'x ext_codec \<Rightarrow> gtype \<times> gtype \<Rightarrow> ('m, 'x) api_object \<Rightarrow> bool" where
  "fresh X T ob \<longleftrightarrow> obj_Spec ob = zero_value X (fst T) \<and> obj_Status ob = zero_value X (snd T)"

definition valid_object :: "(string \<Rightarrow> 'x \<Rightarrow> bool) \<Rightarrow> gtype \<times> gtype \<Rightarrow> ('m, 'x) api_object \<Rightarrow> bool" where
  "valid_object K T ob \<longleftrightarrow> typed K (fst T) (obj_Spec ob) \<and> typed K (snd T) (obj_Status ob)"

definition normalized ::
  "'x ext_codec \<Rightarrow> (string \<Rightarrow> 'x \<Rightarrow> 'x) \<Rightarrow> gtype \<times> gtype \<Rightarrow> ('m, 'x) api_object \<Rightarrow> ('m, 'x) api_object
     \<Rightarrow> ('m, 'x) api_object" where
  "normalized X N T src dst =
     dst\<lparr> obj_ObjectMeta := obj_ObjectMeta src,
          obj_Spec := norm X N (fst T) (obj_Spec src), obj_Status := norm X N (snd T) (obj_Status src) \<rparr>"

lemma normalized_simps [simp]:
  "obj_TypeMeta (normalized X N T src dst) = obj_TypeMeta dst"
  "obj_ObjectMeta (normalized X N T src dst) = obj_ObjectMeta src"
  "obj_Spec (normalized X N T src dst) = norm X N (fst T) (obj_Spec src)"
  "obj_Status (normalized X N T src dst) = norm X N (snd T) (obj_Status src)"
  by (simp_all add: normalized_def)

context json_ext
begin

lemma jsonRoundTrip_zero:
  assumes "typed K T v" and "tags_ok T"
  shows "jsonRoundTrip X T T v (zero_value X T) = Inr (norm X N T v)"
    and "jsonRoundTrip X T T (norm X N T v) (zero_value X T) = Inr (norm X N T v)"
proof -
  obtain j where "encode X T v = Inr j" "decode X T (zero_value X T) j = Inr (norm X N T v)"
    using round_trip [OF assms] .
  then show "jsonRoundTrip X T T v (zero_value X T) = Inr (norm X N T v)" by (simp add: jsonRoundTrip_def)
  obtain j where "encode X T (norm X N T v) = Inr j" "decode X T (zero_value X T) j = Inr (norm X N T v)"
    using second_trip [OF assms] .
  then show "jsonRoundTrip X T T (norm X N T v) (zero_value X T) = Inr (norm X N T v)" by (simp add: jsonRoundTrip_def)
qed

lemma convert_fresh:
  assumes "valid_object K T src" and "tags_ok (fst T)" and "tags_ok (snd T)" and "fresh X T dst"
  shows "convert_object X T T src dst = Inr (normalized X N T src dst)"
  using assms by (simp add: convert_object_def valid_object_def fresh_def jsonRoundTrip_zero normalized_def)

lemma convert_back:
  assumes "valid_object K T src" and "tags_ok (fst T)" and "tags_ok (snd T)" and "fresh X T back"
  shows "convert_object X T T (normalized X N T src dst) back = Inr (normalized X N T src back)"
  using assms by (simp add: convert_object_def valid_object_def fresh_def jsonRoundTrip_zero normalized_def)

end

section \<open>A codec for the other modules' types\<close>

text \<open>
  A codec that satisfies the laws: instants in RFC 3339 with the zero instant as null, conditions as objects, raw JSON
  as it is, durations as their number of nanoseconds.  A valid instant is zero or at least a second later, so that
  dropping the fraction of a second does not make it zero.
\<close>

datatype meta_value =
    VTime gotime
  | VDuration duration
  | VCondition string string int gotime string string
  | VRaw "string option"

definition meta_zero :: "string \<Rightarrow> meta_value" where
  "meta_zero n =
     (if n = ''metav1.Time'' then VTime time_zero
      else if n = ''metav1.Duration'' then VDuration 0
      else if n = ''metav1.Condition'' then VCondition [] [] 0 time_zero [] []
      else VRaw None)"

definition time_json :: "gotime \<Rightarrow> json" where
  "time_json t = (if t = time_zero then JNull else JString (format_RFC3339 t))"

definition read_time :: "json \<Rightarrow> go_err + gotime" where
  "read_time j =
     (case j of JNull \<Rightarrow> Inr time_zero
      | JString s \<Rightarrow> (case parse_RFC3339 s of None \<Rightarrow> Inl mismatch_error | Some t \<Rightarrow> Inr t)
      | _ \<Rightarrow> Inl mismatch_error)"

fun meta_marshal :: "string \<Rightarrow> meta_value \<Rightarrow> go_err + json" where
  "meta_marshal n (VTime t) = Inr (time_json t)"
| "meta_marshal n (VDuration d) = Inr (JNum d)"
| "meta_marshal n (VCondition ty st gen t r m) =
     Inr (JObject
       ([(''type'', JString (sanitize ty)), (''status'', JString (sanitize st))]
        @ (if gen = 0 then [] else [(''observedGeneration'', JNum gen)])
        @ [(''lastTransitionTime'', time_json t), (''reason'', JString (sanitize r)), (''message'', JString (sanitize m))]))"
| "meta_marshal n (VRaw None) = Inr JNull"
| "meta_marshal n (VRaw (Some s)) = Inr (JRaw s)"

definition read_string :: "string \<Rightarrow> string \<Rightarrow> (string \<times> json) list \<Rightarrow> string" where
  "read_string old k kjs = (case map_of kjs k of Some (JString s) \<Rightarrow> s | _ \<Rightarrow> old)"

fun meta_unmarshal :: "string \<Rightarrow> meta_value \<Rightarrow> json \<Rightarrow> go_err + meta_value" where
  "meta_unmarshal n (VTime t) j = map_sum id VTime (read_time j)"
| "meta_unmarshal n (VDuration d) (JNum i) = Inr (VDuration i)"
| "meta_unmarshal n (VRaw r) JNull = Inr (VRaw r)"
| "meta_unmarshal n (VRaw r) (JRaw s) = Inr (VRaw (Some s))"
| "meta_unmarshal n (VCondition ty st gen t r m) (JObject kjs) =
     (case (case map_of kjs ''lastTransitionTime'' of None \<Rightarrow> Inr t | Some j \<Rightarrow> read_time j) of
        Inl err \<Rightarrow> Inl err
      | Inr t' \<Rightarrow>
          Inr (VCondition (read_string ty ''type'' kjs) (read_string st ''status'' kjs)
                 (case map_of kjs ''observedGeneration'' of Some (JNum i) \<Rightarrow> i | _ \<Rightarrow> gen) t'
                 (read_string r ''reason'' kjs) (read_string m ''message'' kjs)))"
| "meta_unmarshal n old j = Inl mismatch_error"

definition meta_codec :: "meta_value ext_codec" where
  "meta_codec = \<lparr> ext_zero = meta_zero, ext_marshal = meta_marshal, ext_unmarshal = meta_unmarshal \<rparr>"

definition time_ok :: "gotime \<Rightarrow> bool" where
  "time_ok t \<longleftrightarrow> t = time_zero \<or> (time_zero + Second \<le> t \<and> 0 \<le> year_of t \<and> year_of t \<le> 9999)"

definition whole_seconds :: "gotime \<Rightarrow> gotime" where
  "whole_seconds t = t div 1000000000 * 1000000000"

fun meta_valid :: "string \<Rightarrow> meta_value \<Rightarrow> bool" where
  "meta_valid n (VTime t) \<longleftrightarrow> meta_zero n = VTime time_zero \<and> time_ok t"
| "meta_valid n (VDuration d) \<longleftrightarrow> meta_zero n = VDuration 0"
| "meta_valid n (VCondition ty st gen t r m) \<longleftrightarrow> meta_zero n = VCondition [] [] 0 time_zero [] [] \<and> time_ok t"
| "meta_valid n (VRaw r) \<longleftrightarrow> meta_zero n = VRaw None"

fun meta_norm :: "string \<Rightarrow> meta_value \<Rightarrow> meta_value" where
  "meta_norm n (VTime t) = VTime (whole_seconds t)"
| "meta_norm n (VCondition ty st gen t r m) =
     VCondition (sanitize ty) (sanitize st) gen (whole_seconds t) (sanitize r) (sanitize m)"
| "meta_norm n v = v"

lemma whole_seconds_idem [simp]: "whole_seconds (whole_seconds t) = whole_seconds t"
  by (simp add: whole_seconds_def)

lemma whole_seconds_zero [simp]: "whole_seconds time_zero = time_zero"
  by (simp add: whole_seconds_def time_zero_def)

lemma whole_seconds_le: "time_zero + Second \<le> t \<Longrightarrow> time_zero + Second \<le> whole_seconds t"
  by (simp add: whole_seconds_def time_zero_def)

lemma year_whole_seconds [simp]: "year_of (whole_seconds t) = year_of t"
  by (simp add: year_of_def whole_seconds_def)

lemma format_whole_seconds [simp]: "format_RFC3339 (whole_seconds t) = format_RFC3339 t"
  by (simp add: format_RFC3339_def whole_seconds_def)

lemma time_ok_whole_seconds: "time_ok t \<Longrightarrow> time_ok (whole_seconds t)"
  using whole_seconds_le [of t] by (auto simp: time_ok_def)

lemma time_json_whole_seconds: "time_ok t \<Longrightarrow> time_json (whole_seconds t) = time_json t"
  using whole_seconds_le [of t] by (auto simp: time_ok_def time_json_def)

lemma read_time_json: "time_ok t \<Longrightarrow> read_time (time_json t) = Inr (whole_seconds t)"
  by (auto simp: time_ok_def time_json_def read_time_def parse_format_RFC3339 whole_seconds_def time_zero_def)

lemma meta_zero_valid: "meta_valid n (meta_zero n)"
  by (simp add: meta_zero_def time_ok_def)

lemma meta_reads_back: "meta_valid n x \<Longrightarrow> meta_marshal n x = Inr j \<Longrightarrow> meta_unmarshal n (meta_zero n) j = Inr (meta_norm n x)"
  by (cases "(n, x)" rule: meta_valid.cases)
    (auto simp: read_time_json read_string_def split: option.split elim!: meta_marshal.elims)

interpretation meta: json_ext meta_codec meta_valid meta_norm
proof
  fix n :: string and x :: meta_value and j :: json
  show "meta_valid n x \<Longrightarrow> \<exists>j. ext_marshal meta_codec n x = Inr j"
    by (cases "(n, x)" rule: meta_marshal.cases) (simp_all add: meta_codec_def)
  show "meta_valid n x \<Longrightarrow> ext_marshal meta_codec n x = Inr j \<Longrightarrow>
          ext_unmarshal meta_codec n (ext_zero meta_codec n) j = Inr (meta_norm n x)"
    by (simp add: meta_codec_def meta_reads_back)
  show "meta_valid n x \<Longrightarrow> ext_marshal meta_codec n (meta_norm n x) = ext_marshal meta_codec n x"
    by (cases x) (auto simp: meta_codec_def time_json_whole_seconds)
  show "meta_valid n x \<Longrightarrow> meta_valid n (meta_norm n x)"
    by (cases x) (simp_all add: time_ok_whole_seconds)
  show "meta_valid n (ext_zero meta_codec n)" by (simp add: meta_codec_def meta_zero_valid)
  show "meta_valid n x \<Longrightarrow> meta_norm n (meta_norm n x) = meta_norm n x" by (cases x) simp_all
qed

section \<open>The three kinds\<close>

lemma policy_conversion_lossless:
  assumes "json_ext X K N"
  shows "valid_object K priority_v1alpha1 src \<Longrightarrow> fresh X priority_v1beta1 dst \<Longrightarrow>
           PriorityPolicy_ConvertTo X src (HubCheckpointPriorityPolicy dst)
             = Inr (HubCheckpointPriorityPolicy (normalized X N priority_v1alpha1 src dst))"
    and "valid_object K priority_v1alpha1 src \<Longrightarrow> fresh X priority_v1alpha1 back \<Longrightarrow>
           PriorityPolicy_ConvertFrom X back (HubCheckpointPriorityPolicy (normalized X N priority_v1alpha1 src dst))
             = Inr (normalized X N priority_v1alpha1 src back)"
    and "valid_object K readiness_v1alpha1 src \<Longrightarrow> fresh X readiness_v1beta1 dst \<Longrightarrow>
           ReadinessPolicy_ConvertTo X src (HubResumeReadinessPolicy dst)
             = Inr (HubResumeReadinessPolicy (normalized X N readiness_v1alpha1 src dst))"
    and "valid_object K readiness_v1alpha1 src \<Longrightarrow> fresh X readiness_v1alpha1 back \<Longrightarrow>
           ReadinessPolicy_ConvertFrom X back (HubResumeReadinessPolicy (normalized X N readiness_v1alpha1 src dst))
             = Inr (normalized X N readiness_v1alpha1 src back)"
  by (simp_all add: convert_defs schema_same schema_tags_ok
      json_ext.convert_fresh [OF assms] json_ext.convert_back [OF assms])

text \<open>
  C15: Converting a job to the hub version and back loses nothing that JSON can carry.  Into a fresh destination both
  conversions succeed for every well-typed job; they copy the object meta and leave the type meta of the destination;
  the hub object holds the normal form of spec and status (invalid UTF-8 replaced, an empty slice or map behind
  \<open>omitempty\<close> and a pointer to a value written as null read as nil, instants in whole seconds), and the way
  back returns exactly that, so that further conversions change nothing.  The codec of the other modules' types is a
  parameter with the laws of the locale \<open>json_ext\<close>.
\<close>

theorem job_conversion_lossless:
  assumes "json_ext X K N"
    and "valid_object K job_v1alpha1 src" and "fresh X job_v1beta1 dst" and "fresh X job_v1alpha1 back"
  shows "\<exists>hub. Job_ConvertTo X src (HubResumableTrainingJob dst) = Inr (HubResumableTrainingJob hub)
    \<and> obj_TypeMeta hub = obj_TypeMeta dst \<and> obj_ObjectMeta hub = obj_ObjectMeta src
    \<and> obj_Spec hub = norm X N v1alpha1_ResumableTrainingJobSpec (obj_Spec src)
    \<and> obj_Status hub = norm X N v1alpha1_ResumableTrainingJobStatus (obj_Status src)
    \<and> Job_ConvertFrom X back (HubResumableTrainingJob hub)
        = Inr (back\<lparr> obj_ObjectMeta := obj_ObjectMeta src, obj_Spec := obj_Spec hub, obj_Status := obj_Status hub \<rparr>)"
proof -
  let ?hub = "normalized X N job_v1alpha1 src dst"
  have "Job_ConvertTo X src (HubResumableTrainingJob dst) = Inr (HubResumableTrainingJob ?hub)"
    and "Job_ConvertFrom X back (HubResumableTrainingJob ?hub) = Inr (normalized X N job_v1alpha1 src back)"
    using assms(2-4) by (simp_all add: convert_defs schema_same schema_tags_ok
        json_ext.convert_fresh [OF assms(1)] json_ext.convert_back [OF assms(1)])
  then show ?thesis by (intro exI [of _ ?hub]) (simp add: normalized_def)
qed

definition ex_spec :: "meta_value gval" where
  "ex_spec = GStruct
     [GPtr (Some (GBool True)), GString ''train'', GString ''high'',
      GStruct [GString ''img:1'', GString ''v7'', GInt 8, GString ''h100''],
      GStruct [GString ''DDP'', GString ''adam'', GString ''none'',
        GStruct [GString '''', GString '''',
          GPtr (Some (GStruct [GMap (Some [(''app'', GString ''a''), (''team'', GString ''b'')]), GMap (Some [])])),
          GExt (VRaw (Some ''{}''))]],
      GStruct [GString ''s3://b/p'', GExt (VDuration 60), GExt (VDuration 90), GExt (VDuration 30), GString ''''],
      GStruct [GString '''', GInt 3, GBool False],
      GPtr None, GPtr None, GPtr None, GString '''', GPtr None, GPtr None, GPtr (Some (GStruct [GString ''Paused'']))]"

definition ex_object :: "gtype \<times> gtype \<Rightarrow> string \<times> string \<Rightarrow> nat \<Rightarrow> (nat, meta_value) api_object" where
  "ex_object T tm m =
     \<lparr> obj_TypeMeta = tm, obj_ObjectMeta = m,
       obj_Spec = zero_value meta_codec (fst T), obj_Status = zero_value meta_codec (snd T) \<rparr>"

lemma ex_fresh: "fresh meta_codec T (ex_object T tm m)"
  by (simp add: fresh_def ex_object_def)

lemma ex_valid: "valid_object meta_valid job_v1alpha1 ((ex_object job_v1alpha1 tm m)\<lparr> obj_Spec := ex_spec \<rparr>)"
proof -
  have "typed meta_valid v1alpha1_ResumableTrainingJobSpec ex_spec" by code_simp
  then show ?thesis by (simp add: valid_object_def ex_object_def meta.typed_zero)
qed

theorem job_conversion_lossless_witness:
  "\<exists>hub. Job_ConvertTo meta_codec ((ex_object job_v1alpha1 (''v1alpha1'', ''Job'') 7)\<lparr> obj_Spec := ex_spec \<rparr>)
           (HubResumableTrainingJob (ex_object job_v1beta1 (''v1beta1'', ''Job'') 0)) = Inr (HubResumableTrainingJob hub)
    \<and> obj_TypeMeta hub = (''v1beta1'', ''Job'') \<and> obj_ObjectMeta hub = 7
    \<and> Job_ConvertFrom meta_codec (ex_object job_v1alpha1 (''v1alpha1'', ''Job'') 0) (HubResumableTrainingJob hub)
        = Inr ((ex_object job_v1alpha1 (''v1alpha1'', ''Job'') 7)\<lparr> obj_Spec := obj_Spec hub, obj_Status := obj_Status hub \<rparr>)"
  using job_conversion_lossless [OF meta.json_ext_axioms ex_valid ex_fresh ex_fresh,
      of "(''v1alpha1'', ''Job'')" 7 "(''v1beta1'', ''Job'')" 0 "(''v1alpha1'', ''Job'')" 0]
  by (auto simp: ex_object_def)


text \<open>A destination that is not fresh keeps what the source omits.\<close>

lemma stale_field_survives:
  "jsonRoundTrip meta_codec v1alpha1_ControlSpec v1beta1_ControlSpec (GStruct [GString '''']) (GStruct [GString ''Paused''])
     = Inr (GStruct [GString ''Paused''])"
  by code_simp

text \<open>A hub object of another kind is refused.\<close>

lemma conversion_wrong_kind:
  "Job_ConvertTo X src (HubResumeReadinessPolicy dst)
     = Inl ''expected *v1beta1.ResumableTrainingJob, got *v1beta1.ResumeReadinessPolicy''"
  "PriorityPolicy_ConvertFrom X dst (HubResumableTrainingJob src)
     = Inl ''expected *v1beta1.CheckpointPriorityPolicy, got *v1beta1.ResumableTrainingJob''"
  by (simp_all add: convert_defs unexpected_def)

end
