(* ===== verification/Resume_Readiness.thy ===== *)
theory Resume_Readiness
  imports Checkpoints Kueue_Types Conditions
begin

text \<open>
  The resume-readiness admission check (\<open>internal/admissionchecks/resume\<close>): the policy object and
  its defaults, the pure evaluator, and the two reconcilers, one for workloads and one for
  admission-check objects.  The API server and the clock are parameters, gathered in the record
  \<open>rr_env\<close>; one reconciliation reads one clock value.  A reconciliation returns the requeue delay
  or an error, and the object it passed to the status writer, if any.
\<close>

section \<open>Policy (\<open>resumereadinesspolicy_types.go\<close>, \<open>policy.go\<close>)\<close>

datatype FailurePolicy = FailurePolicyUnset | FailurePolicyFailOpen | FailurePolicyFailClosed | FailurePolicyOther string

fun FailurePolicy_string :: "FailurePolicy \<Rightarrow> string" where
  "FailurePolicy_string FailurePolicyUnset = ''''"
| "FailurePolicy_string FailurePolicyFailOpen = ''FailOpen''"
| "FailurePolicy_string FailurePolicyFailClosed = ''FailClosed''"
| "FailurePolicy_string (FailurePolicyOther s) = s"

record ResumeReadinessPolicySpec =
  rrp_RequireCompleteCheckpoint :: "bool option"
  rrp_MaxCheckpointAge :: "duration option"
  rrp_FailurePolicy :: FailurePolicy
  rrp_AllowInitialLaunchWithoutCheckpoint :: "bool option"

record ResolvedPolicy =
  rsp_RequireCompleteCheckpoint :: bool
  rsp_MaxCheckpointAge :: "duration option"
  rsp_FailurePolicy :: FailurePolicy
  rsp_AllowInitialLaunchWithoutCheckpoint :: bool

definition DefaultFailurePolicy :: FailurePolicy where
  "DefaultFailurePolicy = FailurePolicyFailClosed"

definition DefaultRequireCompleteCheckpoint :: bool where
  "DefaultRequireCompleteCheckpoint = True"

definition DefaultAllowInitialLaunchWithoutCheckpoint :: bool where
  "DefaultAllowInitialLaunchWithoutCheckpoint = True"

lemmas policy_defaults =
  DefaultFailurePolicy_def DefaultRequireCompleteCheckpoint_def DefaultAllowInitialLaunchWithoutCheckpoint_def

definition ReadinessPolicy_Default :: "ResumeReadinessPolicySpec \<Rightarrow> ResumeReadinessPolicySpec" where
  "ReadinessPolicy_Default p =
     p\<lparr> rrp_RequireCompleteCheckpoint :=
          (case rrp_RequireCompleteCheckpoint p of
             None \<Rightarrow> Some DefaultRequireCompleteCheckpoint | Some b \<Rightarrow> Some b),
        rrp_FailurePolicy :=
          (if rrp_FailurePolicy p = FailurePolicyUnset then DefaultFailurePolicy else rrp_FailurePolicy p),
        rrp_AllowInitialLaunchWithoutCheckpoint :=
          (case rrp_AllowInitialLaunchWithoutCheckpoint p of
             None \<Rightarrow> Some DefaultAllowInitialLaunchWithoutCheckpoint | Some b \<Rightarrow> Some b) \<rparr>"

definition ResolvePolicy :: "ResumeReadinessPolicySpec option \<Rightarrow> ResolvedPolicy" where
  "ResolvePolicy policy =
     (case policy of
        None \<Rightarrow>
          \<lparr> rsp_RequireCompleteCheckpoint = DefaultRequireCompleteCheckpoint,
            rsp_MaxCheckpointAge = None, rsp_FailurePolicy = DefaultFailurePolicy,
            rsp_AllowInitialLaunchWithoutCheckpoint = DefaultAllowInitialLaunchWithoutCheckpoint \<rparr>
      | Some p \<Rightarrow>
          \<lparr> rsp_RequireCompleteCheckpoint =
              (case rrp_RequireCompleteCheckpoint p of
                 Some b \<Rightarrow> b | None \<Rightarrow> DefaultRequireCompleteCheckpoint),
            rsp_MaxCheckpointAge =
              (case rrp_MaxCheckpointAge p of
                 Some d \<Rightarrow> if d > 0 then Some d else None | None \<Rightarrow> None),
            rsp_FailurePolicy =
              (if rrp_FailurePolicy p \<noteq> FailurePolicyUnset then rrp_FailurePolicy p
               else DefaultFailurePolicy),
            rsp_AllowInitialLaunchWithoutCheckpoint =
              (case rrp_AllowInitialLaunchWithoutCheckpoint p of
                 Some b \<Rightarrow> b | None \<Rightarrow> DefaultAllowInitialLaunchWithoutCheckpoint) \<rparr>)"

section \<open>The evaluator (\<open>evaluator.go\<close>)\<close>

record ReadinessDecision =
  rdn_State :: CheckState
  rdn_Reason :: string
  rdn_Message :: string

record EvaluatorInput =
  evi_RTJ :: "ResumableTrainingJob option"
  evi_Policy :: ResolvedPolicy
  evi_SelectedCheckpoint :: "CheckpointManifest option"
  evi_CatalogQueried :: bool
  evi_CatalogError :: "go_err option"
  evi_Now :: gotime

definition catalogErrorDecision :: "ResolvedPolicy \<Rightarrow> go_err \<Rightarrow> ReadinessDecision" where
  "catalogErrorDecision policy err =
     (if rsp_FailurePolicy policy = FailurePolicyFailOpen
      then \<lparr> rdn_State = CheckStateReady, rdn_Reason = ''StorageUnavailable'',
             rdn_Message = ''checkpoint store unreachable ('' @ err @ ''); proceeding per FailOpen policy'' \<rparr>
      else \<lparr> rdn_State = CheckStateRetry, rdn_Reason = ''StorageUnavailable'',
             rdn_Message = ''checkpoint store unreachable ('' @ err @ ''); retrying per FailClosed policy'' \<rparr>)"

definition noCatalogDecision :: "ResolvedPolicy \<Rightarrow> ReadinessDecision" where
  "noCatalogDecision policy =
     (if rsp_AllowInitialLaunchWithoutCheckpoint policy
      then \<lparr> rdn_State = CheckStateReady, rdn_Reason = ''InitialLaunchReady'',
             rdn_Message = ''no checkpoint catalog configured; initial launch allowed by policy'' \<rparr>
      else if rsp_FailurePolicy policy = FailurePolicyFailOpen
      then \<lparr> rdn_State = CheckStateReady, rdn_Reason = ''StorageUnavailable'',
             rdn_Message = ''no checkpoint catalog configured; proceeding per FailOpen policy'' \<rparr>
      else \<lparr> rdn_State = CheckStateRetry, rdn_Reason = ''StorageUnavailable'',
             rdn_Message = ''no checkpoint catalog configured; retrying per FailClosed policy'' \<rparr>)"

definition noCheckpointDecision ::
  "ResolvedPolicy \<Rightarrow> ResumableTrainingJob option \<Rightarrow> ReadinessDecision" where
  "noCheckpointDecision policy rtj =
     (if rsp_AllowInitialLaunchWithoutCheckpoint policy
      then \<lparr> rdn_State = CheckStateReady, rdn_Reason = ''InitialLaunchReady'',
             rdn_Message =
               (if (case rtj of Some r \<Rightarrow> st_CurrentRunAttempt (rtj_Status r) > 0 | None \<Rightarrow> False)
                then ''no compatible checkpoint found after prior run attempt(s); launch allowed by '' @
                     ''policy (allowInitialLaunchWithoutCheckpoint=true)''
                else ''no compatible checkpoint found; initial launch allowed by policy'') \<rparr>
      else if (case rtj of
                 Some r \<Rightarrow> st_CurrentRunAttempt (rtj_Status r) = 0
                          \<and> st_LastCompletedCheckpoint (rtj_Status r) = None
               | None \<Rightarrow> False)
      then \<lparr> rdn_State = CheckStateRejected, rdn_Reason = ''InitialLaunchBlocked'',
             rdn_Message = ''no checkpoint available and allowInitialLaunchWithoutCheckpoint is false'' \<rparr>
      else \<lparr> rdn_State = CheckStateRejected, rdn_Reason = ''NoCheckpointAvailable'',
             rdn_Message = ''no compatible checkpoint found for resume'' \<rparr>)"

definition Evaluate_readiness :: "EvaluatorInput \<Rightarrow> ReadinessDecision" where
  "Evaluate_readiness input =
     (case evi_CatalogError input of
        Some err \<Rightarrow> catalogErrorDecision (evi_Policy input) err
      | None \<Rightarrow>
     if \<not> evi_CatalogQueried input then noCatalogDecision (evi_Policy input)
     else (case evi_SelectedCheckpoint input of
        None \<Rightarrow> noCheckpointDecision (evi_Policy input) (evi_RTJ input)
      | Some m \<Rightarrow>
          (let too_old = (case rsp_MaxCheckpointAge (evi_Policy input) of
                            None \<Rightarrow> None
                          | Some a \<Rightarrow> (case IsCheckpointTooOld m a (evi_Now input) of
                                        (True, reason) \<Rightarrow> Some reason | (False, _) \<Rightarrow> None))
           in case too_old of
                Some reason \<Rightarrow>
                  \<lparr> rdn_State = CheckStateRejected, rdn_Reason = ''CheckpointTooOld'',
                    rdn_Message = ''selected checkpoint '' @ quote (mf_CheckpointID m) @
                      '' is too old: '' @ reason \<rparr>
              | None \<Rightarrow>
                  \<lparr> rdn_State = CheckStateReady, rdn_Reason = ''CheckpointReady'',
                    rdn_Message = ''checkpoint '' @ quote (mf_CheckpointID m) @
                      '' is compatible, complete, and within age limits'' \<rparr>)))"

section \<open>The workload reconciler (\<open>workload_reconciler.go\<close>)\<close>

definition ControllerName :: string where
  "ControllerName = ''training.checkpoint.example.io/resume-readiness''"

definition API_Group :: string where "API_Group = ''training.checkpoint.example.io''"
definition API_GroupVersion :: string where "API_GroupVersion = API_Group @ ''/v1alpha1''"

record ParametersReference =
  acp_APIGroup :: string
  acp_Kind :: string
  acp_Name :: string

record AdmissionCheck =
  ac_Name :: string
  ac_ControllerName :: string
  ac_Parameters :: "ParametersReference option"
  ac_Conditions :: "Condition list"

record rr_env =
  rr_GetWorkload :: "api_error + Workload"
  rr_GetAdmissionCheck :: "string \<Rightarrow> api_error + AdmissionCheck"
  rr_GetRTJ :: "string \<Rightarrow> string \<Rightarrow> api_error + ResumableTrainingJob"
  rr_GetPolicy :: "string \<Rightarrow> api_error + ResumeReadinessPolicySpec"
  rr_UpdateWorkload :: "Workload \<Rightarrow> go_err option"
  rr_UpdateCheck :: "AdmissionCheck \<Rightarrow> go_err option"
  rr_Catalog :: "Catalog option"
  rr_ClusterIdentity :: string
  rr_Now :: gotime

record managedCheck =
  mgc_checkName :: string
  mgc_admissionCheck :: AdmissionCheck

definition LoadPolicyForCheck :: "rr_env \<Rightarrow> AdmissionCheck \<Rightarrow> go_err + ResumeReadinessPolicySpec" where
  "LoadPolicyForCheck E ac =
     (case ac_Parameters ac of
        None \<Rightarrow> Inl (''AdmissionCheck '' @ quote (ac_Name ac) @ '' has no spec.parameters'')
      | Some p \<Rightarrow>
          if acp_APIGroup p \<noteq> API_Group \<or> acp_Kind p \<noteq> ''ResumeReadinessPolicy''
          then Inl (''AdmissionCheck '' @ quote (ac_Name ac) @ '' parameters reference '' @
                    acp_APIGroup p @ ''/'' @ acp_Kind p @ '', expected '' @
                    API_Group @ ''/ResumeReadinessPolicy'')
          else (case rr_GetPolicy E (acp_Name p) of
                  Inl e \<Rightarrow>
                    if IsNotFound e
                    then Inl (''ResumeReadinessPolicy '' @ quote (acp_Name p) @ '' not found'')
                    else Inl (''fetch ResumeReadinessPolicy '' @ quote (acp_Name p) @ '': '' @ err_text e)
                | Inr policy \<Rightarrow> Inr policy))"

definition findManagedChecks :: "rr_env \<Rightarrow> Workload \<Rightarrow> managedCheck list" where
  "findManagedChecks E wl =
     List.map_filter (\<lambda>acs.
       case rr_GetAdmissionCheck E (acs_Name acs) of
         Inl _ \<Rightarrow> None
       | Inr ac \<Rightarrow>
           if ac_ControllerName ac = ControllerName
           then Some \<lparr> mgc_checkName = acs_Name acs, mgc_admissionCheck = ac \<rparr> else None)
       (wl_AdmissionChecks wl)"

definition findOwningRTJ :: "rr_env \<Rightarrow> Workload \<Rightarrow> go_err + ResumableTrainingJob option" where
  "findOwningRTJ E wl =
     (case find (\<lambda>ref. own_APIVersion ref = API_GroupVersion \<and> own_Kind ref = ''ResumableTrainingJob'')
             (wl_OwnerReferences wl) of
        None \<Rightarrow> Inr None
      | Some ref \<Rightarrow>
          (case rr_GetRTJ E (wl_Namespace wl) (own_Name ref) of
             Inl e \<Rightarrow> Inl (err_text e) | Inr rtj \<Rightarrow> Inr (Some rtj)))"

definition zero_manifest :: CheckpointManifest where
  "zero_manifest = \<lparr> mf_CheckpointID = '''', mf_ClusterIdentity = '''', mf_RTJIdentity = '''',
     mf_RunAttempt = 0, mf_GlobalStep = 0, mf_WallClockTimestamp = '''', mf_ImageIdentity = '''',
     mf_CodeVersionIdentity = '''', mf_RuntimeMode = '''', mf_WorldSize = 0, mf_GPUShape = '''',
     mf_OptimizerMode = '''', mf_ShardingMode = '''', mf_FormatVersion = '''', mf_ProducerVersion = '''',
     mf_CrossSizeRestoreSupported = None, mf_DeviceProfileFingerprint = '''', mf_StorageRootURI = '''',
     mf_ManifestURI = '''', mf_Artifacts = [], mf_CompletionTimestamp = '''' \<rparr>"

definition referenceToManifest :: "CheckpointReference \<Rightarrow> CheckpointManifest" where
  "referenceToManifest ref =
     zero_manifest\<lparr> mf_CheckpointID := cr_ID ref, mf_ManifestURI := cr_ManifestURI ref,
       mf_WorldSize := cr_WorldSize ref,
       mf_CompletionTimestamp :=
         (case cr_CompletionTime ref of None \<Rightarrow> '''' | Some t \<Rightarrow> format_RFC3339 t) \<rparr>"

definition evaluateCheck :: "rr_env \<Rightarrow> managedCheck \<Rightarrow> ResumableTrainingJob \<Rightarrow> ReadinessDecision" where
  "evaluateCheck E mc rtj =
     (case LoadPolicyForCheck E (mgc_admissionCheck mc) of
        Inl err \<Rightarrow>
          \<lparr> rdn_State = CheckStateRetry, rdn_Reason = ''PolicyResolutionFailed'',
            rdn_Message = ''cannot load ResumeReadinessPolicy: '' @ err \<rparr>
      | Inr policy \<Rightarrow>
          (let input = \<lparr> evi_RTJ = Some rtj, evi_Policy = ResolvePolicy (Some policy),
                         evi_SelectedCheckpoint = None, evi_CatalogQueried = False,
                         evi_CatalogError = None, evi_Now = rr_Now E \<rparr>
           in case rr_Catalog E of
                None \<Rightarrow> Evaluate_readiness input
              | Some catalog \<Rightarrow>
                  (let clusterID = (if rr_ClusterIdentity E = '''' then ''phase1-kind'' else rr_ClusterIdentity E)
                   in case catalog_SelectResumeCheckpoint catalog (ResumeRequestFromRTJ rtj clusterID) of
                        Inl err \<Rightarrow> Evaluate_readiness (input\<lparr> evi_CatalogError := Some (store_error_text err) \<rparr>)
                      | Inr found \<Rightarrow>
                          Evaluate_readiness
                            (input\<lparr> evi_CatalogQueried := True,
                                    evi_SelectedCheckpoint := map_option referenceToManifest found \<rparr>))))"

fun apply_to_checks ::
  "WorkloadCheck list \<Rightarrow> string \<Rightarrow> ReadinessDecision \<Rightarrow> gotime \<Rightarrow> WorkloadCheck list \<times> bool" where
  "apply_to_checks [] checkName decision now = ([], False)"
| "apply_to_checks (acs # rest) checkName decision now =
     (if acs_Name acs \<noteq> checkName
      then (case apply_to_checks rest checkName decision now of (rest', b) \<Rightarrow> (acs # rest', b))
      else if acs_State acs = rdn_State decision \<and> acs_Message acs = rdn_Message decision
      then (acs # rest, False)
      else (acs\<lparr> acs_State := rdn_State decision, acs_Message := rdn_Message decision,
                 acs_LastTransitionTime := now \<rparr> # rest, True))"

definition applyDecision ::
  "Workload \<Rightarrow> string \<Rightarrow> ReadinessDecision \<Rightarrow> gotime \<Rightarrow> Workload \<times> bool" where
  "applyDecision wl checkName decision now =
     (case apply_to_checks (wl_AdmissionChecks wl) checkName decision now of
        (checks, b) \<Rightarrow> (wl\<lparr> wl_AdmissionChecks := checks \<rparr>, b))"

text \<open>The loop over the managed checks: each check gets its decision applied; a \<open>Retry\<close> asks for a
  requeue after 30 seconds.\<close>

fun apply_loop ::
  "(managedCheck \<Rightarrow> ReadinessDecision) \<Rightarrow> gotime \<Rightarrow> managedCheck list \<Rightarrow> Workload \<times> bool \<times> duration
   \<Rightarrow> Workload \<times> bool \<times> duration" where
  "apply_loop decide now [] acc = acc"
| "apply_loop decide now (mc # mcs) (wl, updated, requeueAfter) =
     (let decision = decide mc;
          (wl1, b) = applyDecision wl (mgc_checkName mc) decision now
      in apply_loop decide now mcs
           (wl1, updated \<or> b,
            if rdn_State decision = CheckStateRetry
            then (if requeueAfter = 0 \<or> requeueAfter > 30 * Second then 30 * Second else requeueAfter)
            else requeueAfter))"

definition finish_update ::
  "rr_env \<Rightarrow> Workload \<Rightarrow> bool \<Rightarrow> duration \<Rightarrow> (go_err + duration) \<times> Workload option" where
  "finish_update E wl updated requeueAfter =
     (if updated
      then (case rr_UpdateWorkload E wl of
              Some err \<Rightarrow> (Inl (''update Workload status: '' @ err), Some wl)
            | None \<Rightarrow> (Inr requeueAfter, Some wl))
      else (Inr requeueAfter, None))"

definition setAllChecks ::
  "rr_env \<Rightarrow> Workload \<Rightarrow> managedCheck list \<Rightarrow> ReadinessDecision \<Rightarrow> (go_err + duration) \<times> Workload option" where
  "setAllChecks E wl checks decision =
     (let (wl1, updated) =
        fold (\<lambda>mc (w, u). case applyDecision w (mgc_checkName mc) decision (rr_Now E) of (w', b) \<Rightarrow> (w', u \<or> b))
          checks (wl, False)
      in finish_update E wl1 updated
           (if rdn_State decision = CheckStateRetry then 30 * Second else 0))"

definition WorkloadReconciler_Reconcile :: "rr_env \<Rightarrow> (go_err + duration) \<times> Workload option" where
  "WorkloadReconciler_Reconcile E =
     (case rr_GetWorkload E of
        Inl e \<Rightarrow> if IsNotFound e then (Inr 0, None) else (Inl (err_text e), None)
      | Inr wl \<Rightarrow>
          (let managed = findManagedChecks E wl in
           if managed = [] then (Inr 0, None)
           else case findOwningRTJ E wl of
             Inl err \<Rightarrow>
               setAllChecks E wl managed
                 \<lparr> rdn_State = CheckStateRetry, rdn_Reason = ''OwnerNotFound'',
                   rdn_Message = ''cannot find owning RTJ: '' @ err \<rparr>
           | Inr None \<Rightarrow>
               setAllChecks E wl managed
                 \<lparr> rdn_State = CheckStateReady, rdn_Reason = ''OwnerNotFound'',
                   rdn_Message = ''workload is not owned by a ResumableTrainingJob; defaulting to Ready'' \<rparr>
           | Inr (Some rtj) \<Rightarrow>
               (case apply_loop (\<lambda>mc. evaluateCheck E mc rtj) (rr_Now E) managed (wl, False, 0) of
                  (wl1, updated, requeueAfter) \<Rightarrow> finish_update E wl1 updated requeueAfter)))"

section \<open>The admission-check reconciler (\<open>admissioncheck_reconciler.go\<close>)\<close>

definition active_condition ::
  "ConditionStatus \<Rightarrow> string \<Rightarrow> string \<Rightarrow> gotime \<Rightarrow> Condition" where
  "active_condition status reason message now =
     \<lparr> cond_Type = ''Active'', cond_Status = status, cond_ObservedGeneration = 0,
       cond_LastTransitionTime = now, cond_Reason = reason, cond_Message = message \<rparr>"

text \<open>The name of the policy read back is the name it was read by.\<close>

definition evaluateActiveCondition :: "rr_env \<Rightarrow> AdmissionCheck \<Rightarrow> Condition" where
  "evaluateActiveCondition E ac =
     (case ac_Parameters ac of
        None \<Rightarrow> active_condition ConditionFalse ''ParametersMissing''
                  ''AdmissionCheck has no spec.parameters reference'' (rr_Now E)
      | Some p \<Rightarrow>
          if acp_APIGroup p \<noteq> API_Group \<or> acp_Kind p \<noteq> ''ResumeReadinessPolicy''
          then active_condition ConditionFalse ''ParametersMissing''
                 (''AdmissionCheck parameters reference must be '' @ API_Group @
                  ''/ResumeReadinessPolicy, got '' @ acp_APIGroup p @ ''/'' @ acp_Kind p) (rr_Now E)
          else (case rr_GetPolicy E (acp_Name p) of
                  Inl e \<Rightarrow>
                    active_condition ConditionFalse ''PolicyNotFound''
                      (if IsNotFound e
                       then ''ResumeReadinessPolicy '' @ quote (acp_Name p) @ '' not found''
                       else ''error fetching ResumeReadinessPolicy '' @ quote (acp_Name p) @ '': '' @ err_text e)
                      (rr_Now E)
                | Inr policy \<Rightarrow>
                    active_condition ConditionTrue ''ControllerReady''
                      (''Controller is active, policy '' @ quote (acp_Name p) @ '' found'') (rr_Now E)))"

definition AdmissionCheckReconciler_Reconcile ::
  "meta_ops \<Rightarrow> rr_env \<Rightarrow> string \<Rightarrow> (go_err + duration) \<times> AdmissionCheck option" where
  "AdmissionCheckReconciler_Reconcile M E name =
     (case rr_GetAdmissionCheck E name of
        Inl e \<Rightarrow> if IsNotFound e then (Inr 0, None) else (Inl (err_text e), None)
      | Inr ac \<Rightarrow>
          if ac_ControllerName ac \<noteq> ControllerName then (Inr 0, None)
          else
            let newCondition = evaluateActiveCondition E ac in
            if (case FindStatusCondition M (ac_Conditions ac) ''Active'' of
                  None \<Rightarrow> False
                | Some e \<Rightarrow> cond_Status e = cond_Status newCondition
                           \<and> cond_Reason e = cond_Reason newCondition
                           \<and> cond_Message e = cond_Message newCondition)
            then (Inr 0, None)
            else
              let ac1 = ac\<lparr> ac_Conditions := SetStatusCondition M (ac_Conditions ac) newCondition \<rparr> in
              if ac_Conditions ac1 \<noteq> ac_Conditions ac
              then (case rr_UpdateCheck E ac1 of
                      Some err \<Rightarrow> (Inl (''update AdmissionCheck status: '' @ err), Some ac1)
                    | None \<Rightarrow> (Inr 0, Some ac1))
              else (Inr 0, None))"

definition validateResumeReadinessPolicy :: "ResumeReadinessPolicySpec \<Rightarrow> go_err option" where
  "validateResumeReadinessPolicy p =
     (if rrp_FailurePolicy p \<notin> {FailurePolicyUnset, FailurePolicyFailOpen, FailurePolicyFailClosed}
      then Some (''spec.failurePolicy must be FailOpen or FailClosed, got '' @ quote (FailurePolicy_string (rrp_FailurePolicy p)))
      else case rrp_MaxCheckpointAge p of
        Some d \<Rightarrow> if d < 0
                  then Some (''spec.maxCheckpointAge must be non-negative, got '' @ Duration_String d)
                  else None
      | None \<Rightarrow> None)"

section \<open>Soundness of a Ready decision\<close>

text \<open>A policy that insists on a checkpoint: no initial launch without one, no fail-open.\<close>

definition strict_policy :: "ResumeReadinessPolicySpec \<Rightarrow> bool" where
  "strict_policy p \<longleftrightarrow>
     rrp_AllowInitialLaunchWithoutCheckpoint p = Some False \<and> rrp_FailurePolicy p \<noteq> FailurePolicyFailOpen"

lemma ResolvePolicy_strict:
  "strict_policy p \<Longrightarrow> \<not> rsp_AllowInitialLaunchWithoutCheckpoint (ResolvePolicy (Some p))"
  "strict_policy p \<Longrightarrow> rsp_FailurePolicy (ResolvePolicy (Some p)) \<noteq> FailurePolicyFailOpen"
  by (auto simp: strict_policy_def ResolvePolicy_def policy_defaults)

lemma IsCheckpointTooOld_iff:
  "fst (IsCheckpointTooOld m a now) \<longleftrightarrow> 0 < a \<and> (\<exists>t. CompletionTime m = Some t \<and> a < sat64 (now - t))"
  by (auto simp: IsCheckpointTooOld_def Let_def time_Sub_def split: option.split)

lemma strict_Ready:
  assumes "rdn_State (Evaluate_readiness i) = CheckStateReady"
    and "\<not> rsp_AllowInitialLaunchWithoutCheckpoint (evi_Policy i)"
    and "rsp_FailurePolicy (evi_Policy i) \<noteq> FailurePolicyFailOpen"
  shows "\<exists>m. evi_CatalogError i = None \<and> evi_CatalogQueried i \<and> evi_SelectedCheckpoint i = Some m \<and>
           (\<forall>a. rsp_MaxCheckpointAge (evi_Policy i) = Some a \<longrightarrow> \<not> fst (IsCheckpointTooOld m a (evi_Now i)))"
  using assms
  by (auto simp: Evaluate_readiness_def catalogErrorDecision_def noCatalogDecision_def
      noCheckpointDecision_def Let_def split: option.splits if_splits prod.splits bool.splits)

lemma referenceToManifest_time:
  assumes "cr_CompletionTime ref = Some t" and "0 \<le> year_of t" and "year_of t \<le> 9999"
  shows "CompletionTime (referenceToManifest ref) = Some (t div 1000000000 * 1000000000)"
  using assms parse_format_RFC3339 [of t] by (simp add: CompletionTime_def referenceToManifest_def)

text \<open>The cluster identity used in the request.\<close>

definition cluster_id :: "rr_env \<Rightarrow> string" where
  "cluster_id E = (if rr_ClusterIdentity E = '''' then ''phase1-kind'' else rr_ClusterIdentity E)"

lemma evaluateCheck_strict:
  assumes "LoadPolicyForCheck E (mgc_admissionCheck mc) = Inr p" and "strict_policy p"
    and "rdn_State (evaluateCheck E mc rtj) = CheckStateReady"
  shows "\<exists>S ref. rr_Catalog E = Some (ObjectStoreCatalog S)
     \<and> SelectResumeCheckpoint S (ResumeRequestFromRTJ rtj (cluster_id E)) = Inr (Some ref)
     \<and> (\<forall>a. rsp_MaxCheckpointAge (ResolvePolicy (Some p)) = Some a \<longrightarrow>
            \<not> fst (IsCheckpointTooOld (referenceToManifest ref) a (rr_Now E)))"
proof -
  let ?i = "\<lparr> evi_RTJ = Some rtj, evi_Policy = ResolvePolicy (Some p), evi_SelectedCheckpoint = None,
              evi_CatalogQueried = False, evi_CatalogError = None, evi_Now = rr_Now E \<rparr>"
  note strict = ResolvePolicy_strict [OF assms(2)]
  show ?thesis
  proof (cases "rr_Catalog E")
    case None
    then have "evaluateCheck E mc rtj = Evaluate_readiness ?i" using assms(1) by (simp add: evaluateCheck_def)
    then show ?thesis using strict_Ready [of ?i] assms(3) strict by simp
  next
    case (Some cat)
    note c = Some
    show ?thesis
    proof (cases "catalog_SelectResumeCheckpoint cat (ResumeRequestFromRTJ rtj (cluster_id E))")
      case (Inl err)
      then have "evaluateCheck E mc rtj =
          Evaluate_readiness (?i\<lparr> evi_CatalogError := Some (store_error_text err) \<rparr>)"
        using assms(1) c by (simp add: evaluateCheck_def cluster_id_def Let_def)
      then show ?thesis
        using strict_Ready [of "?i\<lparr> evi_CatalogError := Some (store_error_text err) \<rparr>"] assms(3) strict by simp
    next
      case (Inr found)
      then have "evaluateCheck E mc rtj =
          Evaluate_readiness (?i\<lparr> evi_CatalogQueried := True,
            evi_SelectedCheckpoint := map_option referenceToManifest found \<rparr>)"
        using assms(1) c by (simp add: evaluateCheck_def cluster_id_def Let_def)
      with strict_Ready [of "?i\<lparr> evi_CatalogQueried := True,
            evi_SelectedCheckpoint := map_option referenceToManifest found \<rparr>"] assms(3) strict
      obtain ref where "found = Some ref"
        "\<forall>a. rsp_MaxCheckpointAge (ResolvePolicy (Some p)) = Some a \<longrightarrow>
            \<not> fst (IsCheckpointTooOld (referenceToManifest ref) a (rr_Now E))" by auto
      with Inr c show ?thesis by (cases cat) auto
    qed
  qed
qed

section \<open>What a reconciliation writes\<close>

definition set_check :: "ReadinessDecision \<Rightarrow> gotime \<Rightarrow> WorkloadCheck \<Rightarrow> WorkloadCheck" where
  "set_check d now a =
     (if acs_State a = rdn_State d \<and> acs_Message a = rdn_Message d then a
      else a\<lparr> acs_State := rdn_State d, acs_Message := rdn_Message d, acs_LastTransitionTime := now \<rparr>)"

lemma set_check_simps [simp]:
  "acs_Name (set_check d now a) = acs_Name a"
  "acs_State (set_check d now a) = rdn_State d"
  "acs_Message (set_check d now a) = rdn_Message d"
  by (simp_all add: set_check_def)

lemma set_check_same: "set_check d now a = a \<longleftrightarrow> acs_State a = rdn_State d \<and> acs_Message a = rdn_Message d"
  by (metis set_check_def set_check_simps(2,3))

lemma apply_to_checks_map:
  assumes "distinct (map acs_Name cs)"
  shows "fst (apply_to_checks cs n d now) = map (\<lambda>a. if acs_Name a = n then set_check d now a else a) cs"
    and "snd (apply_to_checks cs n d now) \<longleftrightarrow> (\<exists>a \<in> set cs. acs_Name a = n \<and> set_check d now a \<noteq> a)"
proof -
  have keep: "xs = map (\<lambda>a. if acs_Name a = k then set_check d now a else a) xs" if "k \<notin> acs_Name ` set xs" for k xs
    using that by (induction xs) auto
  show "fst (apply_to_checks cs n d now) = map (\<lambda>a. if acs_Name a = n then set_check d now a else a) cs"
    using assms by (induction cs) (auto simp: split_beta set_check_def [of d now] intro!: keep)
  show "snd (apply_to_checks cs n d now) \<longleftrightarrow> (\<exists>a \<in> set cs. acs_Name a = n \<and> set_check d now a \<noteq> a)"
    using assms by (induction cs) (auto simp: split_beta set_check_same image_iff)
qed

definition decided ::
  "(managedCheck \<Rightarrow> ReadinessDecision) \<Rightarrow> gotime \<Rightarrow> managedCheck list \<Rightarrow> WorkloadCheck \<Rightarrow> WorkloadCheck" where
  "decided decide now mcs a =
     (case find (\<lambda>mc. mgc_checkName mc = acs_Name a) mcs of
        None \<Rightarrow> a | Some mc \<Rightarrow> set_check (decide mc) now a)"

lemma acs_Name_decided [simp]: "acs_Name (decided decide now mcs a) = acs_Name a"
  by (simp add: decided_def split: option.split)

lemma applyDecision_eq:
  assumes "distinct (map acs_Name (wl_AdmissionChecks wl))"
  shows "applyDecision wl n d now =
    (wl\<lparr> wl_AdmissionChecks := map (\<lambda>a. if acs_Name a = n then set_check d now a else a) (wl_AdmissionChecks wl) \<rparr>,
     \<exists>a \<in> set (wl_AdmissionChecks wl). acs_Name a = n \<and> set_check d now a \<noteq> a)"
  by (simp add: applyDecision_def split_beta apply_to_checks_map [OF assms])

lemma find_name_notin: "n \<notin> mgc_checkName ` set mcs \<Longrightarrow> find (\<lambda>mc. mgc_checkName mc = n) mcs = None"
  by (auto simp: find_None_iff')

lemma apply_loop_eq:
  assumes "distinct (map acs_Name (wl_AdmissionChecks wl))" and "distinct (map mgc_checkName mcs)"
    and "r \<in> {0, 30 * Second}"
  shows "apply_loop decide now mcs (wl, u, r) =
    (wl\<lparr> wl_AdmissionChecks := map (decided decide now mcs) (wl_AdmissionChecks wl) \<rparr>,
     u \<or> (\<exists>a \<in> set (wl_AdmissionChecks wl). decided decide now mcs a \<noteq> a),
     if \<exists>mc \<in> set mcs. rdn_State (decide mc) = CheckStateRetry then 30 * Second else r)"
  using assms
proof (induction mcs arbitrary: wl u r)
  case Nil
  then show ?case by (simp add: decided_def)
next
  case (Cons mc mcs)
  let ?d = "decide mc" and ?n = "mgc_checkName mc"
  let ?cs = "map (\<lambda>a. if acs_Name a = ?n then set_check ?d now a else a) (wl_AdmissionChecks wl)"
  let ?r = "if rdn_State ?d = CheckStateRetry then (if r = 0 \<or> r > 30 * Second then 30 * Second else r) else r"
  have sel: "wl_AdmissionChecks (wl\<lparr> wl_AdmissionChecks := X \<rparr>) = X" for X by simp
  have "map acs_Name ?cs = map acs_Name (wl_AdmissionChecks wl)" by simp
  then have names: "distinct (map acs_Name (wl_AdmissionChecks (wl\<lparr> wl_AdmissionChecks := ?cs \<rparr>)))"
    using Cons.prems(1) by (simp only: sel)
  have dm: "distinct (map mgc_checkName mcs)" using Cons.prems(2) by simp
  have r: "?r \<in> {0, 30 * Second}" using Cons.prems(3) by auto
  have fresh: "?n \<notin> mgc_checkName ` set mcs" using Cons.prems(2) by auto
  have dec: "decided decide now (mc # mcs) a =
      decided decide now mcs (if acs_Name a = ?n then set_check ?d now a else a)" for a
    using find_name_notin [OF fresh] by (auto simp: decided_def)
  have at: "decided decide now mcs x = x" if "acs_Name x = ?n" for x
    using find_name_notin [OF fresh] that by (simp add: decided_def)
  have "apply_loop decide now (mc # mcs) (wl, u, r) =
      apply_loop decide now mcs (wl\<lparr> wl_AdmissionChecks := ?cs \<rparr>,
        u \<or> (\<exists>a \<in> set (wl_AdmissionChecks wl). acs_Name a = ?n \<and> set_check ?d now a \<noteq> a), ?r)"
    using Cons.prems by (simp add: applyDecision_eq Let_def)
  also have "\<dots> = (wl\<lparr> wl_AdmissionChecks := map (decided decide now mcs) ?cs \<rparr>,
      (u \<or> (\<exists>a \<in> set (wl_AdmissionChecks wl). acs_Name a = ?n \<and> set_check ?d now a \<noteq> a))
        \<or> (\<exists>a \<in> set ?cs. decided decide now mcs a \<noteq> a),
      if \<exists>mc \<in> set mcs. rdn_State (decide mc) = CheckStateRetry then 30 * Second else ?r)"
    by (simp only: Cons.IH [OF names dm r] sel) simp
  also have "map (decided decide now mcs) ?cs = map (decided decide now (mc # mcs)) (wl_AdmissionChecks wl)"
    by (simp add: dec)
  also have "((u \<or> (\<exists>a \<in> set (wl_AdmissionChecks wl). acs_Name a = ?n \<and> set_check ?d now a \<noteq> a))
        \<or> (\<exists>a \<in> set ?cs. decided decide now mcs a \<noteq> a)) \<longleftrightarrow>
      u \<or> (\<exists>a \<in> set (wl_AdmissionChecks wl). decided decide now (mc # mcs) a \<noteq> a)"
    by (auto simp: dec at split: if_splits)
  finally show ?case using Cons.prems(3) by auto
qed

lemma managed_names:
  "map mgc_checkName (findManagedChecks E wl) =
     filter (\<lambda>n. \<exists>ac. rr_GetAdmissionCheck E n = Inr ac \<and> ac_ControllerName ac = ControllerName)
       (map acs_Name (wl_AdmissionChecks wl))"
proof -
  have "map mgc_checkName (List.map_filter (\<lambda>acs.
       case rr_GetAdmissionCheck E (acs_Name acs) of
         Inl _ \<Rightarrow> None
       | Inr ac \<Rightarrow> if ac_ControllerName ac = ControllerName
           then Some \<lparr> mgc_checkName = acs_Name acs, mgc_admissionCheck = ac \<rparr> else None) cs) =
     filter (\<lambda>n. \<exists>ac. rr_GetAdmissionCheck E n = Inr ac \<and> ac_ControllerName ac = ControllerName)
       (map acs_Name cs)" for cs
    by (induction cs) (auto simp: List.map_filter_simps split: sum.splits)
  then show ?thesis by (simp add: findManagedChecks_def)
qed

lemma distinct_managed:
  "distinct (map acs_Name (wl_AdmissionChecks wl)) \<Longrightarrow> distinct (map mgc_checkName (findManagedChecks E wl))"
  by (simp add: managed_names)

lemma decided_cases:
  "find (\<lambda>mc. mgc_checkName mc = acs_Name a) mcs = None \<Longrightarrow> decided decide now mcs a = a"
  "find (\<lambda>mc. mgc_checkName mc = acs_Name a) mcs = Some mc \<Longrightarrow> decided decide now mcs a = set_check (decide mc) now a"
  by (simp_all add: decided_def)

section \<open>Properties\<close>

definition ex_ac :: AdmissionCheck where
  "ex_ac = \<lparr> ac_Name = ''rr'', ac_ControllerName = ControllerName,
     ac_Parameters = Some \<lparr> acp_APIGroup = API_Group, acp_Kind = ''ResumeReadinessPolicy'', acp_Name = ''p'' \<rparr>,
     ac_Conditions = [] \<rparr>"

definition ex_strict :: ResumeReadinessPolicySpec where
  "ex_strict = \<lparr> rrp_RequireCompleteCheckpoint = None, rrp_MaxCheckpointAge = Some Hour,
     rrp_FailurePolicy = FailurePolicyUnset, rrp_AllowInitialLaunchWithoutCheckpoint = Some False \<rparr>"

definition ex_pending :: WorkloadCheck where
  "ex_pending = \<lparr> acs_Name = ''rr'', acs_State = CheckStatePending, acs_Message = '''',
     acs_LastTransitionTime = 0, acs_PodSetUpdates = [] \<rparr>"

definition ex_wl :: Workload where
  "ex_wl = \<lparr> wl_Name = ''wl'', wl_Namespace = ''ns'',
     wl_OwnerReferences = [\<lparr> own_APIVersion = API_GroupVersion, own_Kind = ''ResumableTrainingJob'', own_Name = ''j'', own_UID = ''uid-1'' \<rparr>],
     wl_Priority = None, wl_Admission = None, wl_AdmissionChecks = [ex_pending\<lparr> acs_Name := ''other'' \<rparr>, ex_pending],
     wl_Conditions = [], wl_ReclaimablePods = [] \<rparr>"

definition ex_env :: rr_env where
  "ex_env = \<lparr> rr_GetWorkload = Inr ex_wl,
     rr_GetAdmissionCheck = (\<lambda>n. if n = ''rr'' then Inr ex_ac else Inl (ApiNotFound ''absent'')),
     rr_GetRTJ = (\<lambda>ns n. Inr ex_job), rr_GetPolicy = (\<lambda>n. Inr ex_strict),
     rr_UpdateWorkload = (\<lambda>_. None), rr_UpdateCheck = (\<lambda>_. None),
     rr_Catalog = Some (ObjectStoreCatalog ex_store), rr_ClusterIdentity = ''c'',
     rr_Now = 1714560000000000000 \<rparr>"

text \<open>
  Under a strict policy (no initial launch without a checkpoint, not fail-open) the check
  answers \<open>Ready\<close> only when the object store holds a manifest that is complete, compatible with
  the job and whose artifacts all exist, and, when the policy limits the age, whose age measured
  from the second it completed in does not exceed the limit.
\<close>

theorem evaluateCheck_ready_sound:
  assumes "LoadPolicyForCheck E (mgc_admissionCheck mc) = Inr p" and "strict_policy p"
    and "rdn_State (evaluateCheck E mc rtj) = CheckStateReady"
  shows "\<exists>S uri m t. rr_Catalog E = Some (ObjectStoreCatalog S) \<and> readManifest S uri = Inr m
     \<and> compatible_spec (ResumeRequestFromRTJ rtj (cluster_id E)) m \<and> artifacts_present S m
     \<and> CompletionTime m = Some t
     \<and> (\<forall>a. rrp_MaxCheckpointAge p = Some a \<longrightarrow> 0 < a \<longrightarrow> 0 \<le> year_of t \<longrightarrow> year_of t \<le> 9999 \<longrightarrow>
            sat64 (rr_Now E - t div 1000000000 * 1000000000) \<le> a)"
proof -
  from evaluateCheck_strict [OF assms] obtain S ref where S: "rr_Catalog E = Some (ObjectStoreCatalog S)"
    and sel: "SelectResumeCheckpoint S (ResumeRequestFromRTJ rtj (cluster_id E)) = Inr (Some ref)"
    and age: "\<forall>a. rsp_MaxCheckpointAge (ResolvePolicy (Some p)) = Some a \<longrightarrow>
            \<not> fst (IsCheckpointTooOld (referenceToManifest ref) a (rr_Now E))" by blast
  from SelectResumeCheckpoint_SomeD [OF sel] obtain uri m
    where m: "readManifest S uri = Inr m" "artifacts_present S m"
      "compatible_spec (ResumeRequestFromRTJ rtj (cluster_id E)) m"
      "CheckpointReference_of m resume_select_reason = Some ref" by blast
  from m(3) obtain t where t: "CompletionTime m = Some t"
    using complete_CompletionTime by (auto simp: compatible_spec_def)
  then have "cr_CompletionTime ref = Some t" using CheckpointReference_of_fields [OF m(4)] by simp
  then have "sat64 (rr_Now E - t div 1000000000 * 1000000000) \<le> a"
    if "rrp_MaxCheckpointAge p = Some a" "0 < a" "0 \<le> year_of t" "year_of t \<le> 9999" for a
    using age that referenceToManifest_time [of ref t]
    by (auto simp: ResolvePolicy_def IsCheckpointTooOld_iff)
  with S m t show ?thesis by blast
qed

text \<open>What a check has become: the same when another controller manages it, otherwise its decision.\<close>

definition outcome ::
  "rr_env \<Rightarrow> ResumableTrainingJob \<Rightarrow> managedCheck list \<Rightarrow> WorkloadCheck \<Rightarrow> WorkloadCheck \<Rightarrow> bool" where
  "outcome E rtj mcs a a' \<longleftrightarrow> acs_Name a' = acs_Name a \<and>
     (case find (\<lambda>mc. mgc_checkName mc = acs_Name a) mcs of
        None \<Rightarrow> a' = a
      | Some mc \<Rightarrow> acs_State a' = rdn_State (evaluateCheck E mc rtj)
                 \<and> acs_Message a' = rdn_Message (evaluateCheck E mc rtj))"

lemma outcome_decided: "outcome E rtj mcs a (decided (\<lambda>mc. evaluateCheck E mc rtj) now mcs a)"
  by (auto simp: outcome_def decided_cases split: option.split)

lemma outcome_refl: "outcome E rtj mcs a a \<longleftrightarrow> decided (\<lambda>mc. evaluateCheck E mc rtj) now mcs a = a"
  by (auto simp: outcome_def decided_cases set_check_same split: option.split)

text \<open>
  C19: A successful reconciliation of a workload owned by a job leaves every admission check of
  another controller untouched and gives each managed check the state and the message of its own
  decision; it writes the workload exactly when some check has to change, and asks to be called
  again after 30 seconds exactly when some decision is \<open>Retry\<close>.
\<close>

theorem WorkloadReconciler_correct:
  assumes "rr_GetWorkload E = Inr wl" and "distinct (map acs_Name (wl_AdmissionChecks wl))"
    and "findManagedChecks E wl \<noteq> []" and "findOwningRTJ E wl = Inr (Some rtj)"
    and "WorkloadReconciler_Reconcile E = (Inr r, w)"
  shows "list_all2 (outcome E rtj (findManagedChecks E wl)) (wl_AdmissionChecks wl)
       (wl_AdmissionChecks (case w of Some wl' \<Rightarrow> wl' | None \<Rightarrow> wl))
   \<and> (w = None \<longleftrightarrow> list_all (\<lambda>a. outcome E rtj (findManagedChecks E wl) a a) (wl_AdmissionChecks wl))
   \<and> r = (if list_ex (\<lambda>mc. rdn_State (evaluateCheck E mc rtj) = CheckStateRetry) (findManagedChecks E wl)
          then 30 * Second else 0)"
proof -
  let ?mcs = "findManagedChecks E wl" and ?cs = "wl_AdmissionChecks wl"
  let ?dec = "decided (\<lambda>mc. evaluateCheck E mc rtj) (rr_Now E) ?mcs"
  let ?r = "if \<exists>mc \<in> set ?mcs. rdn_State (evaluateCheck E mc rtj) = CheckStateRetry then 30 * Second else 0"
  let ?changed = "\<exists>a \<in> set ?cs. ?dec a \<noteq> a"
  have "apply_loop (\<lambda>mc. evaluateCheck E mc rtj) (rr_Now E) ?mcs (wl, False, 0) =
      (wl\<lparr> wl_AdmissionChecks := map ?dec ?cs \<rparr>, False \<or> ?changed, ?r)"
    by (rule apply_loop_eq [OF assms(2) distinct_managed [OF assms(2)]]) simp
  then have rec: "(Inr r, w) = finish_update E (wl\<lparr> wl_AdmissionChecks := map ?dec ?cs \<rparr>) ?changed ?r"
    using assms unfolding WorkloadReconciler_Reconcile_def Let_def by simp
  have r: "r = ?r" and w: "w = (if ?changed then Some (wl\<lparr> wl_AdmissionChecks := map ?dec ?cs \<rparr>) else None)"
    using rec by (auto simp: finish_update_def split: option.splits if_splits)
  have all: "list_all (\<lambda>a. outcome E rtj ?mcs a a) ?cs \<longleftrightarrow> \<not> ?changed"
    by (simp add: list_all_iff outcome_refl [of _ _ _ _ "rr_Now E"])
  show ?thesis
  proof (cases ?changed)
    case True
    then have "w = Some (wl\<lparr> wl_AdmissionChecks := map ?dec ?cs \<rparr>)" using w by simp
    with True r all show ?thesis
      by (simp add: list_all2_map2 list.rel_refl outcome_decided list_ex_iff)
  next
    case False
    then have "w = None" using w by simp
    moreover have "list_all2 (outcome E rtj ?mcs) ?cs ?cs"
      using all False by (simp add: list.rel_refl_strong list_all_iff)
    ultimately show ?thesis using False r all by (simp add: list_ex_iff)
  qed
qed

theorem WorkloadReconciler_correct_witness:
  "\<exists>wl'. WorkloadReconciler_Reconcile ex_env = (Inr 0, Some wl')
     \<and> list_all2 (outcome ex_env ex_job (findManagedChecks ex_env ex_wl)) (wl_AdmissionChecks ex_wl) (wl_AdmissionChecks wl')"
proof -
  have "case WorkloadReconciler_Reconcile ex_env of (Inr r, Some wl') \<Rightarrow> r = 0 | _ \<Rightarrow> False" by code_simp
  then obtain wl' where r: "WorkloadReconciler_Reconcile ex_env = (Inr 0, Some wl')"
    by (cases "WorkloadReconciler_Reconcile ex_env"; cases "fst (WorkloadReconciler_Reconcile ex_env)";
        cases "snd (WorkloadReconciler_Reconcile ex_env)") auto
  have "map mgc_checkName (findManagedChecks ex_env ex_wl) = [''rr'']" by code_simp
  then have m: "findManagedChecks ex_env ex_wl \<noteq> []" by auto
  have d: "distinct (map acs_Name (wl_AdmissionChecks ex_wl))"
    by (simp add: ex_wl_def ex_pending_def)
  have o: "findOwningRTJ ex_env ex_wl = Inr (Some ex_job)" "rr_GetWorkload ex_env = Inr ex_wl"
    by (simp_all add: findOwningRTJ_def ex_env_def ex_wl_def)
  from WorkloadReconciler_correct [OF o(2) d m o(1) r] r show ?thesis by simp
qed

lemma evaluateActiveCondition_stable:
  assumes "ac_Parameters ac' = ac_Parameters ac" and "rr_GetPolicy E' = rr_GetPolicy E"
  shows "evaluateActiveCondition E' ac' =
    (evaluateActiveCondition E ac)\<lparr> cond_LastTransitionTime := rr_Now E' \<rparr>"
  using assms by (simp add: evaluateActiveCondition_def active_condition_def split: option.split sum.split)

lemma evaluateActiveCondition_fixed [simp]:
  "cond_Type (evaluateActiveCondition E ac) = ''Active''"
  "cond_LastTransitionTime (evaluateActiveCondition E ac) = rr_Now E"
  by (simp_all add: evaluateActiveCondition_def active_condition_def split: option.split sum.split)

text \<open>
  The admission-check reconciler is idempotent: once it has written the \<open>Active\<close> condition, a
  later run that sees the object it wrote and the same policy writes nothing and does not fail,
  whatever the time.
\<close>

theorem AdmissionCheckReconciler_idempotent:
  assumes "conditions_api M" and "rr_Now E \<noteq> time_zero"
    and "AdmissionCheckReconciler_Reconcile M E n = (res, Some ac1)"
  shows "AdmissionCheckReconciler_Reconcile M (E\<lparr> rr_GetAdmissionCheck := (\<lambda>_. Inr ac1), rr_Now := now' \<rparr>) n
     = (Inr 0, None)"
proof -
  obtain ac where ac: "rr_GetAdmissionCheck E n = Inr ac" "ac_ControllerName ac = ControllerName"
    and ac1: "ac1 = ac\<lparr> ac_Conditions := SetStatusCondition M (ac_Conditions ac) (evaluateActiveCondition E ac) \<rparr>"
    using assms(3) unfolding AdmissionCheckReconciler_Reconcile_def Let_def
    by (auto split: sum.splits if_splits option.splits)
  let ?c = "evaluateActiveCondition E ac"
  have nz: "cond_LastTransitionTime ?c \<noteq> time_zero" using assms(2) by simp
  have "\<exists>e. FindStatusCondition M (ac_Conditions ac1) ''Active'' = Some e \<and> cond_Status e = cond_Status ?c
      \<and> cond_Reason e = cond_Reason ?c \<and> cond_Message e = cond_Message ?c"
  proof (cases "find (\<lambda>x. cond_Type x = cond_Type ?c) (ac_Conditions ac)")
    case None
    then show ?thesis
      using conditions_api.set_absent [OF assms(1) nz None]
      by (simp add: ac1 conditions_api.find_first [OF assms(1)] find_snoc)
  next
    case (Some old)
    then show ?thesis
      using conditions_api.set_found [OF assms(1) nz Some]
      by (simp add: ac1 conditions_api.find_first [OF assms(1)])
  qed
  then obtain e where e: "FindStatusCondition M (ac_Conditions ac1) ''Active'' = Some e"
    "cond_Status e = cond_Status ?c" "cond_Reason e = cond_Reason ?c" "cond_Message e = cond_Message ?c" by blast
  let ?E = "E\<lparr> rr_GetAdmissionCheck := (\<lambda>_. Inr ac1), rr_Now := now' \<rparr>"
  have "evaluateActiveCondition ?E ac1 = ?c\<lparr> cond_LastTransitionTime := now' \<rparr>"
    using evaluateActiveCondition_stable [of ac1 ac ?E E] ac1 by simp
  with e ac show ?thesis
    by (simp add: AdmissionCheckReconciler_Reconcile_def Let_def ac1)
qed

end
