(* ===== verification/API_Defaults.thy ===== *)
theory API_Defaults
  imports API_Validation Checkpoint_Priority Resume_Readiness
begin

text \<open>
  The \<open>Default\<close> methods of v1beta1 (\<open>src/api/v1beta1/*_types.go\<close>).  The fields of the two versions are the same, so
  they work on the records of v1alpha1; each statement is one update in the order of the code.  The lemmas compare them
  with the methods of v1alpha1.
\<close>

section \<open>Constants\<close>

definition v1beta1_DefaultJobSetAPIVersion :: string where
  [go_simps]: "v1beta1_DefaultJobSetAPIVersion = ''jobset.x-k8s.io/v1alpha2''"
definition v1beta1_DefaultJobSetKind :: string where [go_simps]: "v1beta1_DefaultJobSetKind = ''JobSet''"
definition v1beta1_DefaultSafePointMode :: string where [go_simps]: "v1beta1_DefaultSafePointMode = ''StepBoundary''"
definition v1beta1_DefaultResumeSourcePolicy :: string where
  [go_simps]: "v1beta1_DefaultResumeSourcePolicy = ''LatestCompatibleComplete''"
definition v1beta1_DefaultDesiredState :: DesiredState where
  [go_simps]: "v1beta1_DefaultDesiredState = DesiredStateRunning"
definition v1beta1_DefaultMaxResumeRetries :: int where [go_simps]: "v1beta1_DefaultMaxResumeRetries = 3"
definition v1beta1_DefaultTopologyMode :: TopologyMode where
  [go_simps]: "v1beta1_DefaultTopologyMode = TopologyModeDisabled"
definition v1beta1_DefaultDeviceMode :: DeviceMode where [go_simps]: "v1beta1_DefaultDeviceMode = DeviceModeDisabled"
definition v1beta1_DefaultDeviceRequestCount :: int where [go_simps]: "v1beta1_DefaultDeviceRequestCount = 1"
definition v1beta1_DefaultElasticityMode :: ElasticityMode where
  [go_simps]: "v1beta1_DefaultElasticityMode = ElasticityModeDisabled"
definition v1beta1_DefaultInPlaceShrinkPolicy :: InPlaceShrinkPolicy where
  [go_simps]: "v1beta1_DefaultInPlaceShrinkPolicy = InPlaceShrinkPolicyIfSupported"
definition v1beta1_DefaultReclaimMode :: ReclaimMode where
  [go_simps]: "v1beta1_DefaultReclaimMode = ReclaimModeReclaimablePods"

definition v1beta1_DefaultFailOpenOnTelemetryLoss :: bool where [go_simps]: "v1beta1_DefaultFailOpenOnTelemetryLoss = True"
definition v1beta1_DefaultFailOpenOnCheckpointStoreErrors :: bool where
  [go_simps]: "v1beta1_DefaultFailOpenOnCheckpointStoreErrors = False"
definition v1beta1_DefaultProtectedBoost :: int where [go_simps]: "v1beta1_DefaultProtectedBoost = 0"
definition v1beta1_DefaultCooldownBoost :: int where [go_simps]: "v1beta1_DefaultCooldownBoost = 0"
definition v1beta1_DefaultStaleCheckpointBoost :: int where [go_simps]: "v1beta1_DefaultStaleCheckpointBoost = 0"
definition v1beta1_DefaultPreemptibleOffset :: int where [go_simps]: "v1beta1_DefaultPreemptibleOffset = 0"

definition v1beta1_DefaultFailurePolicy :: FailurePolicy where
  [go_simps]: "v1beta1_DefaultFailurePolicy = FailurePolicyFailClosed"
definition v1beta1_DefaultRequireCompleteCheckpoint :: bool where
  [go_simps]: "v1beta1_DefaultRequireCompleteCheckpoint = True"
definition v1beta1_DefaultAllowInitialLaunchWithoutCheckpoint :: bool where
  [go_simps]: "v1beta1_DefaultAllowInitialLaunchWithoutCheckpoint = True"

section \<open>ResumableTrainingJob\<close>

definition v1beta1_default_control :: "ResumableTrainingJobSpec \<Rightarrow> ResumableTrainingJobSpec" where
  "v1beta1_default_control s =
     (let s = (if sp_Control s = None then s\<lparr> sp_Control := Some DesiredStateUnset \<rparr> else s)
      in if sp_Control s = Some DesiredStateUnset then s\<lparr> sp_Control := Some v1beta1_DefaultDesiredState \<rparr> else s)"

definition v1beta1_default_checkpoint :: "ResumableTrainingJobSpec \<Rightarrow> ResumableTrainingJobSpec" where
  "v1beta1_default_checkpoint s =
     (if cp_SafePointMode (sp_Checkpoint s) = ''''
      then s\<lparr> sp_Checkpoint := (sp_Checkpoint s)\<lparr> cp_SafePointMode := v1beta1_DefaultSafePointMode \<rparr> \<rparr> else s)"

definition v1beta1_default_resume :: "ResumableTrainingJobSpec \<Rightarrow> ResumableTrainingJobSpec" where
  "v1beta1_default_resume s =
     (let s = (if rp_SourcePolicy (sp_Resume s) = ''''
               then s\<lparr> sp_Resume := (sp_Resume s)\<lparr> rp_SourcePolicy := v1beta1_DefaultResumeSourcePolicy \<rparr> \<rparr> else s)
      in if rp_MaxResumeRetries (sp_Resume s) = 0
         then s\<lparr> sp_Resume := (sp_Resume s)\<lparr> rp_MaxResumeRetries := v1beta1_DefaultMaxResumeRetries \<rparr> \<rparr> else s)"

definition v1beta1_default_template :: "ResumableTrainingJobSpec \<Rightarrow> ResumableTrainingJobSpec" where
  "v1beta1_default_template s =
     (let t = rt_Template (sp_Runtime s);
          t = (if tpl_APIVersion t = '''' then t\<lparr> tpl_APIVersion := v1beta1_DefaultJobSetAPIVersion \<rparr> else t);
          t = (if tpl_Kind t = '''' then t\<lparr> tpl_Kind := v1beta1_DefaultJobSetKind \<rparr> else t)
      in s\<lparr> sp_Runtime := (sp_Runtime s)\<lparr> rt_Template := t \<rparr> \<rparr>)"

definition v1beta1_default_topology :: "ResumableTrainingJobSpec \<Rightarrow> ResumableTrainingJobSpec" where
  "v1beta1_default_topology s =
     (case sp_Topology s of
        None \<Rightarrow> s
      | Some t \<Rightarrow> if topo_Mode t = TopologyModeUnset
                  then s\<lparr> sp_Topology := Some (t\<lparr> topo_Mode := v1beta1_DefaultTopologyMode \<rparr>) \<rparr> else s)"

definition v1beta1_default_devices :: "ResumableTrainingJobSpec \<Rightarrow> ResumableTrainingJobSpec" where
  "v1beta1_default_devices s =
     (case sp_Devices s of
        None \<Rightarrow> s
      | Some d \<Rightarrow>
          (let d = (if dev_Mode d = DeviceModeUnset then d\<lparr> dev_Mode := v1beta1_DefaultDeviceMode \<rparr> else d)
           in s\<lparr> sp_Devices := Some (d\<lparr> dev_Claims :=
                   map (\<lambda>c. if dr_Count (dc_Request c) = 0
                            then c\<lparr> dc_Request := (dc_Request c)\<lparr> dr_Count := v1beta1_DefaultDeviceRequestCount \<rparr> \<rparr>
                            else c) (dev_Claims d) \<rparr>) \<rparr>))"

definition v1beta1_default_elasticity :: "ResumableTrainingJobSpec \<Rightarrow> ResumableTrainingJobSpec" where
  "v1beta1_default_elasticity s =
     (case sp_Elasticity s of
        None \<Rightarrow> s
      | Some e \<Rightarrow>
          (let e = (if els_Mode e = ElasticityModeUnset then e\<lparr> els_Mode := v1beta1_DefaultElasticityMode \<rparr> else e);
               e = (if els_Mode e = ElasticityModeManual \<and> els_InPlaceShrinkPolicy e = InPlaceShrinkPolicyUnset
                    then e\<lparr> els_InPlaceShrinkPolicy := v1beta1_DefaultInPlaceShrinkPolicy \<rparr> else e);
               e = (if els_Mode e = ElasticityModeManual \<and> els_ReclaimMode e = ReclaimModeUnset
                    then e\<lparr> els_ReclaimMode := v1beta1_DefaultReclaimMode \<rparr> else e)
           in s\<lparr> sp_Elasticity := Some e \<rparr>))"

definition v1beta1_Default :: "ResumableTrainingJob \<Rightarrow> ResumableTrainingJob" where
  "v1beta1_Default r =
     r\<lparr> rtj_Spec := v1beta1_default_elasticity (v1beta1_default_devices (v1beta1_default_topology
          (v1beta1_default_template (v1beta1_default_resume (v1beta1_default_checkpoint
             (v1beta1_default_control (rtj_Spec r))))))) \<rparr>"

section \<open>The policies\<close>

definition v1beta1_Policy_Default :: "CheckpointPriorityPolicySpec \<Rightarrow> CheckpointPriorityPolicySpec" where
  "v1beta1_Policy_Default p =
     (let p = p\<lparr> cpp_FailOpenOnTelemetryLoss :=
                   default_opt (cpp_FailOpenOnTelemetryLoss p) v1beta1_DefaultFailOpenOnTelemetryLoss \<rparr>;
          p = p\<lparr> cpp_FailOpenOnCheckpointStoreErrors :=
                   default_opt (cpp_FailOpenOnCheckpointStoreErrors p) v1beta1_DefaultFailOpenOnCheckpointStoreErrors \<rparr>;
          p = p\<lparr> cpp_ProtectedBoost := default_opt (cpp_ProtectedBoost p) v1beta1_DefaultProtectedBoost \<rparr>;
          p = p\<lparr> cpp_CooldownBoost := default_opt (cpp_CooldownBoost p) v1beta1_DefaultCooldownBoost \<rparr>;
          p = p\<lparr> cpp_StaleCheckpointBoost := default_opt (cpp_StaleCheckpointBoost p) v1beta1_DefaultStaleCheckpointBoost \<rparr>
      in p\<lparr> cpp_PreemptibleOffset := default_opt (cpp_PreemptibleOffset p) v1beta1_DefaultPreemptibleOffset \<rparr>)"

definition v1beta1_ReadinessPolicy_Default :: "ResumeReadinessPolicySpec \<Rightarrow> ResumeReadinessPolicySpec" where
  "v1beta1_ReadinessPolicy_Default p =
     (let p = p\<lparr> rrp_RequireCompleteCheckpoint :=
                   default_opt (rrp_RequireCompleteCheckpoint p) v1beta1_DefaultRequireCompleteCheckpoint \<rparr>;
          p = (if rrp_FailurePolicy p = FailurePolicyUnset
               then p\<lparr> rrp_FailurePolicy := v1beta1_DefaultFailurePolicy \<rparr> else p)
      in p\<lparr> rrp_AllowInitialLaunchWithoutCheckpoint :=
             default_opt (rrp_AllowInitialLaunchWithoutCheckpoint p) v1beta1_DefaultAllowInitialLaunchWithoutCheckpoint \<rparr>)"

section \<open>Both versions default alike\<close>

lemmas v1beta1_steps =
  v1beta1_default_control_def v1beta1_default_checkpoint_def v1beta1_default_resume_def v1beta1_default_template_def
  v1beta1_default_topology_def v1beta1_default_devices_def v1beta1_default_elasticity_def

lemma control_step: "v1beta1_default_control s = s\<lparr> sp_Control := sp_Control (default_spec s) \<rparr>"
  by (cases "sp_Control s") (auto simp: v1beta1_steps default_spec_def go_simps)

lemma checkpoint_step: "v1beta1_default_checkpoint s = s\<lparr> sp_Checkpoint := sp_Checkpoint (default_spec s) \<rparr>"
  by (simp add: v1beta1_steps default_spec_def default_consts go_simps)

lemma resume_step: "v1beta1_default_resume s = s\<lparr> sp_Resume := sp_Resume (default_spec s) \<rparr>"
  by (simp add: v1beta1_steps default_spec_def default_resume_def default_consts Let_def go_simps)

lemma template_step: "v1beta1_default_template s = s\<lparr> sp_Runtime := sp_Runtime (default_spec s) \<rparr>"
  by (simp add: v1beta1_steps default_spec_def default_template_def default_consts go_simps Let_def)

lemma topology_step: "v1beta1_default_topology s = s\<lparr> sp_Topology := sp_Topology (default_spec s) \<rparr>"
  by (simp add: v1beta1_steps default_spec_def default_topology_def go_simps split: option.split)

lemma devices_step: "v1beta1_default_devices s = s\<lparr> sp_Devices := sp_Devices (default_spec s) \<rparr>"
  by (simp add: v1beta1_steps default_spec_def default_devices_def default_count_def [abs_def] default_consts go_simps
      split: option.split)

lemma elasticity_step: "v1beta1_default_elasticity s = s\<lparr> sp_Elasticity := sp_Elasticity (default_spec s) \<rparr>"
  by (simp add: v1beta1_steps default_spec_def default_elasticity_def Let_def go_simps split: option.split)

lemma v1beta1_Default_spec: "rtj_Spec (v1beta1_Default r) = default_spec (rtj_Spec r)"
  by (simp add: v1beta1_Default_def control_step checkpoint_step resume_step template_step topology_step devices_step
      elasticity_step) (simp add: default_spec_def)

text \<open>The method of v1alpha1 does the same and then projects the Kueue labels, which the hub version does not.\<close>

lemma v1beta1_Default_agrees: "Default W r = projectKueueLabels W (v1beta1_Default r)"
  using v1beta1_Default_spec [of r] by (simp add: Default_def v1beta1_Default_def)

lemma v1beta1_policies_agree:
  "v1beta1_Policy_Default p = Policy_Default p"
  "v1beta1_ReadinessPolicy_Default q = ReadinessPolicy_Default q"
  by (simp_all add: v1beta1_Policy_Default_def Policy_Default_def v1beta1_ReadinessPolicy_Default_def
      ReadinessPolicy_Default_def policy_defaults go_simps Let_def split: option.split)

end
