(* ===== verification/Policy_Webhooks.thy ===== *)
theory Policy_Webhooks
  imports API_Defaults
begin

text \<open>
  The admission handlers of the two policy kinds (\<open>src/api/v1alpha1/checkpointprioritypolicy_webhook.go\<close>,
  \<open>resumereadinesspolicy_webhook.go\<close>).  A request carries a runtime object of some Go type; the handlers refuse one of
  another type, complete the policy or return the error of its validation.  The two webhooks share one contract, the
  locale \<open>policy_webhook\<close>: defaulting neither spoils nor repairs a policy and is a normal form.
\<close>

datatype runtime_object =
    PriorityPolicyObject CheckpointPriorityPolicySpec
  | ReadinessPolicyObject ResumeReadinessPolicySpec
  | OtherObject string

fun type_name :: "runtime_object \<Rightarrow> string" where
  "type_name (PriorityPolicyObject _) = ''*v1alpha1.CheckpointPriorityPolicy''"
| "type_name (ReadinessPolicyObject _) = ''*v1alpha1.ResumeReadinessPolicy''"
| "type_name (OtherObject n) = n"

section \<open>CheckpointPriorityPolicy\<close>

definition cppFromRuntimeObject :: "runtime_object \<Rightarrow> go_err + CheckpointPriorityPolicySpec" where
  "cppFromRuntimeObject ob =
     (case ob of PriorityPolicyObject p \<Rightarrow> Inr p
      | _ \<Rightarrow> Inl (''expected CheckpointPriorityPolicy, got '' @ type_name ob))"

definition PriorityWebhook_Default :: "runtime_object \<Rightarrow> go_err + runtime_object" where
  "PriorityWebhook_Default ob =
     (case cppFromRuntimeObject ob of Inl err \<Rightarrow> Inl err | Inr p \<Rightarrow> Inr (PriorityPolicyObject (Policy_Default p)))"

definition PriorityWebhook_ValidateCreate :: "runtime_object \<Rightarrow> go_err option" where
  "PriorityWebhook_ValidateCreate ob =
     (case cppFromRuntimeObject ob of Inl err \<Rightarrow> Some err | Inr p \<Rightarrow> validateCheckpointPriorityPolicy p)"

definition PriorityWebhook_ValidateUpdate :: "runtime_object \<Rightarrow> runtime_object \<Rightarrow> go_err option" where
  "PriorityWebhook_ValidateUpdate old new =
     (case cppFromRuntimeObject new of Inl err \<Rightarrow> Some err | Inr p \<Rightarrow> validateCheckpointPriorityPolicy p)"

definition PriorityWebhook_ValidateDelete :: "runtime_object \<Rightarrow> go_err option" where
  "PriorityWebhook_ValidateDelete ob = None"

section \<open>ResumeReadinessPolicy\<close>

definition rrpFromRuntimeObject :: "runtime_object \<Rightarrow> go_err + ResumeReadinessPolicySpec" where
  "rrpFromRuntimeObject ob =
     (case ob of ReadinessPolicyObject p \<Rightarrow> Inr p
      | _ \<Rightarrow> Inl (''expected ResumeReadinessPolicy, got '' @ type_name ob))"

definition ReadinessWebhook_Default :: "runtime_object \<Rightarrow> go_err + runtime_object" where
  "ReadinessWebhook_Default ob =
     (case rrpFromRuntimeObject ob of Inl err \<Rightarrow> Inl err | Inr p \<Rightarrow> Inr (ReadinessPolicyObject (ReadinessPolicy_Default p)))"

definition ReadinessWebhook_ValidateCreate :: "runtime_object \<Rightarrow> go_err option" where
  "ReadinessWebhook_ValidateCreate ob =
     (case rrpFromRuntimeObject ob of Inl err \<Rightarrow> Some err | Inr p \<Rightarrow> validateResumeReadinessPolicy p)"

definition ReadinessWebhook_ValidateUpdate :: "runtime_object \<Rightarrow> runtime_object \<Rightarrow> go_err option" where
  "ReadinessWebhook_ValidateUpdate old new =
     (case rrpFromRuntimeObject new of Inl err \<Rightarrow> Some err | Inr p \<Rightarrow> validateResumeReadinessPolicy p)"

definition ReadinessWebhook_ValidateDelete :: "runtime_object \<Rightarrow> go_err option" where
  "ReadinessWebhook_ValidateDelete ob = None"

lemmas priority_webhook_defs = cppFromRuntimeObject_def PriorityWebhook_Default_def PriorityWebhook_ValidateCreate_def
  PriorityWebhook_ValidateUpdate_def
lemmas readiness_webhook_defs = rrpFromRuntimeObject_def ReadinessWebhook_Default_def ReadinessWebhook_ValidateCreate_def
  ReadinessWebhook_ValidateUpdate_def

section \<open>The contract of a policy webhook\<close>

locale policy_webhook =
  fixes wrap :: "'p \<Rightarrow> runtime_object" and complete :: "'p \<Rightarrow> 'p" and check :: "'p \<Rightarrow> go_err option"
    and mutate :: "runtime_object \<Rightarrow> go_err + runtime_object" and create :: "runtime_object \<Rightarrow> go_err option"
    and change :: "runtime_object \<Rightarrow> runtime_object \<Rightarrow> go_err option"
  assumes complete_idem: "complete (complete p) = complete p"
    and complete_check: "check (complete p) = None \<longleftrightarrow> check p = None"
    and mutate_wrap: "mutate (wrap p) = Inr (wrap (complete p))"
    and mutate_other: "(\<And>p. ob \<noteq> wrap p) \<Longrightarrow> \<exists>err. mutate ob = Inl err"
    and create_wrap: "create (wrap p) = check p"
    and create_other: "(\<And>p. ob \<noteq> wrap p) \<Longrightarrow> create ob \<noteq> None"
    and change_create: "change old new = create new"
begin

text \<open>What the API server stores after the mutating and the validating handler: a completed policy that passes its
  validation, which a later update with the same content leaves as it is.\<close>

lemma stored:
  assumes "mutate ob = Inr ob'" and "create ob' = None"
  obtains p where "ob' = wrap (complete p)" and "check (complete p) = None" and "mutate ob' = Inr ob'"
    and "change ob' ob' = None"
proof -
  obtain p where p: "ob = wrap p" using mutate_other [of ob] assms(1) by fastforce
  then have "ob' = wrap (complete p)" using assms(1) by (simp add: mutate_wrap)
  then show ?thesis using that assms(2) by (simp add: mutate_wrap create_wrap complete_idem change_create)
qed

lemma accepted_iff: "(\<exists>ob'. mutate (wrap p) = Inr ob' \<and> create ob' = None) \<longleftrightarrow> check p = None"
  by (simp add: mutate_wrap create_wrap complete_check)

end

lemma Policy_Default_idem: "Policy_Default (Policy_Default p) = Policy_Default p"
  by (simp add: Policy_Default_def go_simps split: option.split)

lemma priority_ok_default: "priority_ok (default_opt v 0) \<longleftrightarrow> priority_ok v"
  by (cases v) (auto simp: priority_ok_def MinPriorityBound_def MaxPriorityBound_def go_simps)

lemma Policy_Default_valid: "validateCheckpointPriorityPolicy (Policy_Default p) = None \<longleftrightarrow> validateCheckpointPriorityPolicy p = None"
  unfolding validate_None_iff by (simp add: Policy_Default_def priority_fields_def priority_ok_default)

lemma ReadinessPolicy_Default_valid: "validateResumeReadinessPolicy (ReadinessPolicy_Default p) = validateResumeReadinessPolicy p"
  by (auto simp: validateResumeReadinessPolicy_def ReadinessPolicy_Default_def policy_defaults)

lemma ReadinessPolicy_Default_idem: "ReadinessPolicy_Default (ReadinessPolicy_Default p) = ReadinessPolicy_Default p"
  by (simp add: ReadinessPolicy_Default_def policy_defaults split: option.split)

interpretation pw: policy_webhook PriorityPolicyObject Policy_Default validateCheckpointPriorityPolicy
  PriorityWebhook_Default PriorityWebhook_ValidateCreate PriorityWebhook_ValidateUpdate
  by unfold_locales
    (auto simp: priority_webhook_defs Policy_Default_idem Policy_Default_valid split: runtime_object.split)

interpretation rw: policy_webhook ReadinessPolicyObject ReadinessPolicy_Default validateResumeReadinessPolicy
  ReadinessWebhook_Default ReadinessWebhook_ValidateCreate ReadinessWebhook_ValidateUpdate
  by unfold_locales
    (auto simp: readiness_webhook_defs ReadinessPolicy_Default_idem ReadinessPolicy_Default_valid split: runtime_object.split)

text \<open>A stored readiness policy resolves without falling back to a default, and never to an unknown failure policy.\<close>

lemma stored_readiness_resolves:
  assumes "ReadinessWebhook_Default ob = Inr ob'" and "ReadinessWebhook_ValidateCreate ob' = None"
  obtains p where "ob' = ReadinessPolicyObject p"
    and "rrp_RequireCompleteCheckpoint p = Some (rsp_RequireCompleteCheckpoint (ResolvePolicy (Some p)))"
    and "rrp_AllowInitialLaunchWithoutCheckpoint p = Some (rsp_AllowInitialLaunchWithoutCheckpoint (ResolvePolicy (Some p)))"
    and "rsp_FailurePolicy (ResolvePolicy (Some p)) \<in> {FailurePolicyFailOpen, FailurePolicyFailClosed}"
proof -
  obtain q where q: "ob' = ReadinessPolicyObject (ReadinessPolicy_Default q)"
    "validateResumeReadinessPolicy (ReadinessPolicy_Default q) = None"
    using rw.stored [OF assms] .
  show ?thesis
    by (rule that [OF q(1)])
      (use q(2) in \<open>auto simp: ResolvePolicy_def ReadinessPolicy_Default_def policy_defaults validateResumeReadinessPolicy_def
         split: option.splits if_splits\<close>)
qed

end
