(* ===== verification/Metrics.thy ===== *)
theory Metrics
  imports Complex_Main Kueue_Types
begin

text \<open>
  The metrics of the operator, \<open>internal/metrics/metrics.go\<close>: the declaration of every metric, the recorder with the
  states it remembers per job, and every method of the recorder.  A method performs operations on Prometheus metrics,
  which is the library's code: the model returns them as a list of \<open>metric_op\<close>, and the locale \<open>prometheus\<close> states the
  documented effect of each on the value of a series.  Values are \<open>float64\<close> in the library and \<open>real\<close> here; the
  counts below are sums of ones.  A nil recorder is \<open>None\<close>; the lock of the recorder makes each method one step.
\<close>

section \<open>Metrics\<close>

datatype metric_kind = Counter | Gauge

record metric =
  m_Kind :: metric_kind
  m_Name :: string
  m_Help :: string
  m_Labels :: "string list"

definition NewCounter :: "string \<Rightarrow> string \<Rightarrow> metric" where
  "NewCounter name help = \<lparr> m_Kind = Counter, m_Name = name, m_Help = help, m_Labels = [] \<rparr>"

definition NewCounterVec :: "string \<Rightarrow> string \<Rightarrow> string list \<Rightarrow> metric" where
  "NewCounterVec name help labels = \<lparr> m_Kind = Counter, m_Name = name, m_Help = help, m_Labels = labels \<rparr>"

definition NewGauge :: "string \<Rightarrow> string \<Rightarrow> metric" where
  "NewGauge name help = \<lparr> m_Kind = Gauge, m_Name = name, m_Help = help, m_Labels = [] \<rparr>"

definition NewGaugeVec :: "string \<Rightarrow> string \<Rightarrow> string list \<Rightarrow> metric" where
  "NewGaugeVec name help labels = \<lparr> m_Kind = Gauge, m_Name = name, m_Help = help, m_Labels = labels \<rparr>"

text \<open>The full name of a metric: all share one namespace and one subsystem.\<close>

definition metrics_namespace :: string where
  "metrics_namespace = ''checkpoint_native''"

definition metrics_subsystem :: string where
  "metrics_subsystem = ''operator''"

definition fqName :: "metric \<Rightarrow> string" where
  "fqName m = metrics_namespace @ ''_'' @ metrics_subsystem @ ''_'' @ m_Name m"

definition rtjsByPhase :: metric where
  "rtjsByPhase = NewGaugeVec ''rtjs_by_phase''
     ''Current ResumableTrainingJobs tracked by phase.'' [''phase'']"

definition pausesRequested :: metric where
  "pausesRequested = NewCounter ''pauses_requested_total''
     ''Total manual pause requests accepted by the operator.''"

definition pauseTimeouts :: metric where
  "pauseTimeouts = NewCounter ''pause_timeouts_total''
     ''Total pause drain timeouts observed by the operator.''"

definition resumesAttempted :: metric where
  "resumesAttempted = NewCounter ''resumes_attempted_total''
     ''Total resume attempts started by the operator.''"

definition resumesSucceeded :: metric where
  "resumesSucceeded = NewCounter ''resumes_succeeded_total''
     ''Total resume attempts that returned to Running.''"

definition resumesFailed :: metric where
  "resumesFailed = NewCounter ''resumes_failed_total''
     ''Total resume attempts that failed before returning to Running.''"

definition checkpointsDiscovered :: metric where
  "checkpointsDiscovered = NewCounter ''checkpoints_discovered_total''
     ''Total committed checkpoint manifests discovered during resume selection.''"

definition workloadsCreated :: metric where
  "workloadsCreated = NewCounter ''workloads_created_total''
     ''Total RTJ-owned Kueue Workloads observed by the operator.''"

definition admissionsObserved :: metric where
  "admissionsObserved = NewCounter ''admissions_observed_total''
     ''Total RTJ-owned Kueue Workloads observed with an admission.''"

definition kueueSuspensionsObserved :: metric where
  "kueueSuspensionsObserved = NewCounter ''kueue_suspensions_observed_total''
     ''Total Kueue-driven RTJ suspensions observed by the operator.''"

definition preemptionYieldsCompleted :: metric where
  "preemptionYieldsCompleted = NewCounter ''preemption_yields_completed_total''
     ''Total Kueue-driven graceful yields that completed with checkpoint evidence.''"

definition duplicateChildJobSetPreventions :: metric where
  "duplicateChildJobSetPreventions = NewCounter ''duplicate_child_jobset_preventions_total''
     ''Total duplicate child JobSet create attempts avoided by create-if-missing reconciliation.''"

definition launchesBlockedByReadinessGate :: metric where
  "launchesBlockedByReadinessGate = NewCounter ''launches_blocked_by_readiness_gate_total''
     ''Total launches blocked by the ResumeReadiness admission check gate.''"

definition readinessGateOutcomes :: metric where
  "readinessGateOutcomes = NewCounterVec ''readiness_gate_outcomes_total''
     ''Total readiness gate evaluation outcomes by reason.'' [''reason'']"

definition topologyAwareLaunches :: metric where
  "topologyAwareLaunches = NewCounter ''topology_aware_launches_total''
     ''Total launches that used topology-aware placement.''"

definition topologyAssignmentWaits :: metric where
  "topologyAssignmentWaits = NewCounter ''topology_assignment_waits_total''
     ''Total times the operator waited for a topology assignment on the Workload.''"

definition phase4ResumesAttempted :: metric where
  "phase4ResumesAttempted = NewCounter ''phase4_resumes_attempted_total''
     ''Total resume attempts that went through the Phase 4 gated path.''"

definition phase4ResumesSucceeded :: metric where
  "phase4ResumesSucceeded = NewCounter ''phase4_resumes_succeeded_total''
     ''Total Phase 4 gated resumes that returned to Running.''"

definition phase4ResumesFailed :: metric where
  "phase4ResumesFailed = NewCounter ''phase4_resumes_failed_total''
     ''Total Phase 4 gated resumes that failed.''"

definition unsupportedTopologyShapeFailures :: metric where
  "unsupportedTopologyShapeFailures = NewCounter ''unsupported_topology_shape_failures_total''
     ''Total topology assignments that could not be represented in the child JobSet.''"

definition priorityEvaluations :: metric where
  "priorityEvaluations = NewCounter ''priority_evaluations_total''
     ''Total checkpoint-aware priority evaluations performed by the priority shaping controller.''"

definition priorityPenaltiesApplied :: metric where
  "priorityPenaltiesApplied = NewCounter ''priority_penalties_applied_total''
     ''Total times a priority penalty was applied (effective priority lowered below base).''"

definition priorityProtectionWindowActive :: metric where
  "priorityProtectionWindowActive = NewGauge ''priority_protection_window_active''
     ''Number of RTJs currently within their startup protection window.''"

definition priorityEffectiveValue :: metric where
  "priorityEffectiveValue = NewGaugeVec ''priority_effective_value''
     ''Current effective priority value per RTJ.'' [''rtj'']"

definition priorityTelemetryFailures :: metric where
  "priorityTelemetryFailures = NewCounter ''priority_telemetry_failures_total''
     ''Total failures retrieving checkpoint telemetry for priority evaluation.''"

definition priorityDrivenPreemptions :: metric where
  "priorityDrivenPreemptions = NewCounter ''priority_driven_preemptions_total''
     ''Total preemptions where checkpoint-aware priority shaping influenced the outcome.''"

definition rtjsByPreemptionState :: metric where
  "rtjsByPreemptionState = NewGaugeVec ''rtjs_by_preemption_state''
     ''Current ResumableTrainingJobs tracked by preemption state (Protected, Active, Cooldown, Preemptible).'' [''state'']"

definition priorityBasePriority :: metric where
  "priorityBasePriority = NewGaugeVec ''priority_base_value''
     ''Current base priority value per RTJ (from WorkloadPriorityClass).'' [''rtj'']"

definition priorityDecisionsByStateReason :: metric where
  "priorityDecisionsByStateReason = NewCounterVec ''priority_decisions_total''
     ''Total priority decisions by decision state and reason.'' [''state'', ''reason'']"

definition priorityMaterializationUpdates :: metric where
  "priorityMaterializationUpdates = NewCounter ''priority_materialization_updates_total''
     ''Total times effective priority was written to a Kueue Workload.''"

definition protectedWorkloadsCount :: metric where
  "protectedWorkloadsCount = NewGauge ''protected_workloads''
     ''Number of RTJs currently in Protected preemption state.''"

definition preemptibleWorkloadsCount :: metric where
  "preemptibleWorkloadsCount = NewGauge ''preemptible_workloads''
     ''Number of RTJs currently in Preemptible preemption state.''"

definition yieldsBlockedByBudget :: metric where
  "yieldsBlockedByBudget = NewCounter ''yields_blocked_by_budget_total''
     ''Total times a yield was prevented by yield budget exhaustion.''"

definition yieldsBlockedByCooldown :: metric where
  "yieldsBlockedByCooldown = NewCounter ''yields_blocked_by_cooldown_total''
     ''Total times priority demotion was prevented by the cooldown period.''"

definition admissionComparisons :: metric where
  "admissionComparisons = NewCounterVec ''admission_comparisons_total''
     ''Total launch/resume observations by admitted-vs-preferred outcome.'' [''comparison'']"

definition reshardRestoresAttempted :: metric where
  "reshardRestoresAttempted = NewCounter ''reshard_restores_attempted_total''
     ''Total reshard (different-size) restore attempts started.''"

definition reshardRestoresSucceeded :: metric where
  "reshardRestoresSucceeded = NewCounter ''reshard_restores_succeeded_total''
     ''Total reshard restores that reached Running.''"

definition reshardRestoresFailed :: metric where
  "reshardRestoresFailed = NewCounter ''reshard_restores_failed_total''
     ''Total reshard restores that failed.''"

definition flavorAssignments :: metric where
  "flavorAssignments = NewCounterVec ''flavor_assignments_total''
     ''Total flavor assignments observed during admission, by flavor name.'' [''flavor'']"

definition partialAdmissionLaunches :: metric where
  "partialAdmissionLaunches = NewCounter ''partial_admission_launches_total''
     ''Total launches where admitted count was less than preferred count (partial admission).''"

definition sameSizeResumes :: metric where
  "sameSizeResumes = NewCounter ''same_size_resumes_total''
     ''Total resumes where checkpoint and restore world sizes matched.''"

definition differentSizeResumes :: metric where
  "differentSizeResumes = NewCounter ''different_size_resumes_total''
     ''Total resumes where checkpoint and restore world sizes differed.''"

definition rtjsByExecutionRole :: metric where
  "rtjsByExecutionRole = NewGaugeVec ''rtjs_by_execution_role''
     ''Current ResumableTrainingJobs by operator execution role (manager or worker).'' [''role'']"

definition remoteRTJsByCluster :: metric where
  "remoteRTJsByCluster = NewGaugeVec ''remote_rtjs_by_cluster''
     ''Current MultiKueue-dispatched RTJs by selected worker cluster.'' [''cluster'']"

definition managerLocalSuppressions :: metric where
  "managerLocalSuppressions = NewCounter ''manager_local_suppressions_total''
     ''Total times the manager suppressed local child JobSet creation for a MultiKueue-managed RTJ.''"

definition remoteStatusSyncSuccesses :: metric where
  "remoteStatusSyncSuccesses = NewCounter ''remote_status_sync_successes_total''
     ''Total successful remote status syncs from worker to manager.''"

definition remoteStatusSyncFailures :: metric where
  "remoteStatusSyncFailures = NewCounter ''remote_status_sync_failures_total''
     ''Total failed remote status sync attempts.''"

definition remotePauseEvents :: metric where
  "remotePauseEvents = NewCounter ''remote_pause_events_total''
     ''Total remote pause events completed on the manager.''"

definition remoteResumeEvents :: metric where
  "remoteResumeEvents = NewCounter ''remote_resume_events_total''
     ''Total remote resume events initiated on the manager.''"

definition remoteCheckpointObservations :: metric where
  "remoteCheckpointObservations = NewCounter ''remote_checkpoint_observations_total''
     ''Total remote checkpoint summaries observed by the manager from worker status.''"

definition sharedStoreAccessFailures :: metric where
  "sharedStoreAccessFailures = NewCounter ''shared_store_access_failures_total''
     ''Total failures accessing the shared checkpoint store.''"

definition rtjsByLaunchGateState :: metric where
  "rtjsByLaunchGateState = NewGaugeVec ''rtjs_by_launch_gate_state''
     ''Current ResumableTrainingJobs by launch gate state (Open, Blocked, Unknown).'' [''state'']"

definition provisioningStatesObserved :: metric where
  "provisioningStatesObserved = NewCounterVec ''provisioning_states_observed_total''
     ''Total provisioning state observations by state (NotConfigured, Pending, Provisioned, Failed).'' [''state'']"

definition launchesBlockedByProvisioning :: metric where
  "launchesBlockedByProvisioning = NewCounter ''launches_blocked_by_provisioning_total''
     ''Total launches blocked because the ProvisioningRequest AdmissionCheck is not yet Ready.''"

definition launchesBlockedByDelayedTopology :: metric where
  "launchesBlockedByDelayedTopology = NewCounter ''launches_blocked_by_delayed_topology_total''
     ''Total launches blocked because topology second-pass assignment is still pending.''"

definition startupTimeoutEvents :: metric where
  "startupTimeoutEvents = NewCounter ''startup_timeout_events_total''
     ''Total waitForPodsReady startup timeout evictions observed.''"

definition recoveryTimeoutEvents :: metric where
  "recoveryTimeoutEvents = NewCounter ''recovery_timeout_events_total''
     ''Total waitForPodsReady recovery timeout evictions observed.''"

definition capacityGuaranteedLaunches :: metric where
  "capacityGuaranteedLaunches = NewCounter ''capacity_guaranteed_launches_total''
     (''Total successful capacity-guaranteed launches (provisioning AC Ready '' @ [CHR 0xE2, CHR 0x86, CHR 0x92] @ '' child JobSet created).'')"

definition fakeProvisionerObservations :: metric where
  "fakeProvisionerObservations = NewCounter ''fake_provisioner_observations_total''
     ''Total ProvisioningRequest observations by the fake provisioner backend.''"

definition fakeProvisionerFailures :: metric where
  "fakeProvisionerFailures = NewCounter ''fake_provisioner_failures_total''
     ''Total failures (permanent rejection) set by the fake provisioner backend.''"

definition rtjsByDeviceMode :: metric where
  "rtjsByDeviceMode = NewGaugeVec ''rtjs_by_device_mode''
     ''Current ResumableTrainingJobs by device mode (Disabled, DRA).'' [''mode'']"

definition draTemplateReconciles :: metric where
  "draTemplateReconciles = NewCounter ''dra_template_reconciles_total''
     ''Total successful ResourceClaimTemplate reconcile operations (create, update, no-op).''"

definition draTemplateFailures :: metric where
  "draTemplateFailures = NewCounter ''dra_template_failures_total''
     ''Total failed ResourceClaimTemplate reconcile attempts.''"

definition draClaimsGenerated :: metric where
  "draClaimsGenerated = NewCounter ''dra_claims_generated_total''
     ''Total ResourceClaim objects created from RTJ-managed ResourceClaimTemplates.''"

definition draClaimAllocationSummary :: metric where
  "draClaimAllocationSummary = NewCounterVec ''dra_claim_allocation_summary_total''
     ''Total DRA claim allocation observations by state (Pending, Allocated, Failed).'' [''state'']"

definition draResumeCompatibilityChecks :: metric where
  "draResumeCompatibilityChecks = NewCounterVec ''dra_resume_compatibility_checks_total''
     ''Total DRA device profile resume compatibility checks by result (compatible, incompatible).'' [''result'']"

definition draBackedLaunches :: metric where
  "draBackedLaunches = NewCounter ''dra_backed_launches_total''
     ''Total child JobSet launches that included DRA claim references.''"

definition draLaunchFailures :: metric where
  "draLaunchFailures = NewCounter ''dra_launch_failures_total''
     ''Total DRA-backed launch failures (template not ready, claim injection error).''"

definition rtjsByResizeState :: metric where
  "rtjsByResizeState = NewGaugeVec ''rtjs_by_resize_state''
     ''Current ResumableTrainingJobs by resize state (Idle, Pending, InProgress, Blocked, Completed, Failed).'' [''state'']"

definition elasticActiveWorkers :: metric where
  "elasticActiveWorkers = NewGaugeVec ''elastic_active_workers''
     ''Current active (admitted) worker count per RTJ.'' [''rtj'']"

definition elasticTargetWorkers :: metric where
  "elasticTargetWorkers = NewGaugeVec ''elastic_target_workers''
     ''Current target worker count per RTJ.'' [''rtj'']"

definition elasticReclaimableWorkers :: metric where
  "elasticReclaimableWorkers = NewGaugeVec ''elastic_reclaimable_workers''
     ''Current reclaimable worker count per RTJ (workers pending release via reclaimablePods).'' [''rtj'']"

definition reclaimablePodsPublicationsTotal :: metric where
  "reclaimablePodsPublicationsTotal = NewCounter ''reclaimable_pods_publications_total''
     ''Total reclaimablePods SSA patch writes to Workload.status.''"

definition shrinkInPlaceSuccessesTotal :: metric where
  "shrinkInPlaceSuccessesTotal = NewCounter ''shrink_in_place_successes_total''
     ''Total in-place shrink operations that completed successfully (reclaimablePods published).''"

definition shrinkInPlaceFailuresTotal :: metric where
  "shrinkInPlaceFailuresTotal = NewCounter ''shrink_in_place_failures_total''
     ''Total in-place shrink operations that failed (SSA patch error).''"

definition growViaRelaunchTotal :: metric where
  "growViaRelaunchTotal = NewCounter ''grow_via_relaunch_total''
     ''Total grow-via-checkpoint-and-relaunch operations initiated.''"

definition resizeFallbackRelaunchTotal :: metric where
  "resizeFallbackRelaunchTotal = NewCounter ''resize_fallback_relaunch_total''
     ''Total shrink operations that fell back to checkpoint-and-relaunch because in-place shrink was not supported.''"

definition resizeCheckpointCreationsTotal :: metric where
  "resizeCheckpointCreationsTotal = NewCounter ''resize_checkpoint_creations_total''
     ''Total checkpoint creations triggered by resize operations (both grow and fallback shrink).''"

definition workloadStatusPatchFailuresTotal :: metric where
  "workloadStatusPatchFailuresTotal = NewCounter ''workload_status_patch_failures_total''
     ''Total failures patching Workload.status (reclaimablePods SSA patch conflicts or API errors).''"

definition resizePlanEvaluationsTotal :: metric where
  "resizePlanEvaluationsTotal = NewCounterVec ''resize_plan_evaluations_total''
     ''Total elastic plan evaluations by plan kind.'' [''kind'']"

section \<open>The recorder\<close>

datatype metric_op =
    Inc metric "string list"
  | Dec metric "string list"
  | Add metric "string list" real
  | Set metric "string list" real
  | DeleteLabelValues metric "string list"

record workloadObservation =
  wo_created :: bool
  wo_admitted :: bool

record Recorder =
  rec_phases :: strmap
  rec_workloads :: "string \<rightharpoonup> workloadObservation"
  rec_launchGateState :: strmap
  rec_deviceModeState :: strmap
  rec_resizeState :: strmap

definition MustRegister :: "metric list" where
  "MustRegister =
     [rtjsByPhase, pausesRequested, pauseTimeouts, resumesAttempted,
      resumesSucceeded, resumesFailed, checkpointsDiscovered, workloadsCreated,
      admissionsObserved, kueueSuspensionsObserved, preemptionYieldsCompleted, duplicateChildJobSetPreventions,
      priorityEvaluations, priorityPenaltiesApplied, priorityProtectionWindowActive, priorityEffectiveValue,
      priorityTelemetryFailures, priorityDrivenPreemptions, rtjsByPreemptionState, priorityBasePriority,
      priorityDecisionsByStateReason, priorityMaterializationUpdates, protectedWorkloadsCount, preemptibleWorkloadsCount,
      yieldsBlockedByBudget, yieldsBlockedByCooldown, launchesBlockedByReadinessGate, readinessGateOutcomes,
      topologyAwareLaunches, topologyAssignmentWaits, phase4ResumesAttempted, phase4ResumesSucceeded,
      phase4ResumesFailed, unsupportedTopologyShapeFailures, admissionComparisons, reshardRestoresAttempted,
      reshardRestoresSucceeded, reshardRestoresFailed, flavorAssignments, partialAdmissionLaunches,
      sameSizeResumes, differentSizeResumes, rtjsByExecutionRole, remoteRTJsByCluster,
      managerLocalSuppressions, remoteStatusSyncSuccesses, remoteStatusSyncFailures, remotePauseEvents,
      remoteResumeEvents, remoteCheckpointObservations, sharedStoreAccessFailures, rtjsByLaunchGateState,
      provisioningStatesObserved, launchesBlockedByProvisioning, launchesBlockedByDelayedTopology, startupTimeoutEvents,
      recoveryTimeoutEvents, capacityGuaranteedLaunches, fakeProvisionerObservations, fakeProvisionerFailures,
      rtjsByDeviceMode, draTemplateReconciles, draTemplateFailures, draClaimsGenerated,
      draClaimAllocationSummary, draResumeCompatibilityChecks, draBackedLaunches, draLaunchFailures,
      rtjsByResizeState, elasticActiveWorkers, elasticTargetWorkers, elasticReclaimableWorkers,
      reclaimablePodsPublicationsTotal, shrinkInPlaceSuccessesTotal, shrinkInPlaceFailuresTotal, growViaRelaunchTotal,
      resizeFallbackRelaunchTotal, resizeCheckpointCreationsTotal, workloadStatusPatchFailuresTotal, resizePlanEvaluationsTotal]"

text \<open>\<open>NewRecorder\<close> runs its initialisation once; the metrics it registers then, and the recorder every call returns.\<close>

definition NewRecorder :: "Recorder option \<Rightarrow> metric list \<times> Recorder option" where
  "NewRecorder recorder =
     (case recorder of
        Some r \<Rightarrow> ([], Some r)
      | None \<Rightarrow> (MustRegister,
          Some \<lparr> rec_phases = Map.empty, rec_workloads = Map.empty, rec_launchGateState = Map.empty,
                 rec_deviceModeState = Map.empty, rec_resizeState = Map.empty \<rparr>))"

definition ObservePhase :: "string \<Rightarrow> string \<Rightarrow> Recorder option \<Rightarrow> metric_op list \<times> Recorder option" where
  "ObservePhase key state recorder =
     (case recorder of
        None \<Rightarrow> ([], None)
      | Some r \<Rightarrow>
          if key = '''' \<or> state = '''' then ([], Some r)
          else (case rec_phases r key of
                  Some previous \<Rightarrow>
                    if previous = state then ([], Some r)
                    else ((if previous \<noteq> '''' then [Dec rtjsByPhase [previous]] else []) @ [Inc rtjsByPhase [state]],
                          Some (r\<lparr> rec_phases := (rec_phases r)(key \<mapsto> state) \<rparr>))
                | None \<Rightarrow> ([Inc rtjsByPhase [state]], Some (r\<lparr> rec_phases := (rec_phases r)(key \<mapsto> state) \<rparr>))))"

definition RemoveRTJ :: "string \<Rightarrow> Recorder option \<Rightarrow> metric_op list \<times> Recorder option" where
  "RemoveRTJ key recorder =
     (case recorder of
        None \<Rightarrow> ([], None)
      | Some r \<Rightarrow>
          if key = '''' then ([], Some r)
          else (case rec_phases r key of
                  None \<Rightarrow> ([], Some r)
                | Some previous \<Rightarrow>
                    if previous = '''' then ([], Some r)
                    else ([Dec rtjsByPhase [previous]], Some (r\<lparr> rec_phases := (rec_phases r)(key := None) \<rparr>))))"

definition ObserveLaunchGateState :: "string \<Rightarrow> string \<Rightarrow> Recorder option \<Rightarrow> metric_op list \<times> Recorder option" where
  "ObserveLaunchGateState key state recorder =
     (case recorder of
        None \<Rightarrow> ([], None)
      | Some r \<Rightarrow>
          if key = '''' \<or> state = '''' then ([], Some r)
          else (case rec_launchGateState r key of
                  Some previous \<Rightarrow>
                    if previous = state then ([], Some r)
                    else ((if previous \<noteq> '''' then [Dec rtjsByLaunchGateState [previous]] else []) @ [Inc rtjsByLaunchGateState [state]],
                          Some (r\<lparr> rec_launchGateState := (rec_launchGateState r)(key \<mapsto> state) \<rparr>))
                | None \<Rightarrow> ([Inc rtjsByLaunchGateState [state]], Some (r\<lparr> rec_launchGateState := (rec_launchGateState r)(key \<mapsto> state) \<rparr>))))"

definition RemoveLaunchGateState :: "string \<Rightarrow> Recorder option \<Rightarrow> metric_op list \<times> Recorder option" where
  "RemoveLaunchGateState key recorder =
     (case recorder of
        None \<Rightarrow> ([], None)
      | Some r \<Rightarrow>
          if key = '''' then ([], Some r)
          else (case rec_launchGateState r key of
                  None \<Rightarrow> ([], Some r)
                | Some previous \<Rightarrow>
                    if previous = '''' then ([], Some r)
                    else ([Dec rtjsByLaunchGateState [previous]], Some (r\<lparr> rec_launchGateState := (rec_launchGateState r)(key := None) \<rparr>))))"

definition ObserveDeviceMode :: "string \<Rightarrow> string \<Rightarrow> Recorder option \<Rightarrow> metric_op list \<times> Recorder option" where
  "ObserveDeviceMode key state recorder =
     (case recorder of
        None \<Rightarrow> ([], None)
      | Some r \<Rightarrow>
          if key = '''' \<or> state = '''' then ([], Some r)
          else (case rec_deviceModeState r key of
                  Some previous \<Rightarrow>
                    if previous = state then ([], Some r)
                    else ((if previous \<noteq> '''' then [Dec rtjsByDeviceMode [previous]] else []) @ [Inc rtjsByDeviceMode [state]],
                          Some (r\<lparr> rec_deviceModeState := (rec_deviceModeState r)(key \<mapsto> state) \<rparr>))
                | None \<Rightarrow> ([Inc rtjsByDeviceMode [state]], Some (r\<lparr> rec_deviceModeState := (rec_deviceModeState r)(key \<mapsto> state) \<rparr>))))"

definition RemoveDeviceMode :: "string \<Rightarrow> Recorder option \<Rightarrow> metric_op list \<times> Recorder option" where
  "RemoveDeviceMode key recorder =
     (case recorder of
        None \<Rightarrow> ([], None)
      | Some r \<Rightarrow>
          if key = '''' then ([], Some r)
          else (case rec_deviceModeState r key of
                  None \<Rightarrow> ([], Some r)
                | Some previous \<Rightarrow>
                    if previous = '''' then ([], Some r)
                    else ([Dec rtjsByDeviceMode [previous]], Some (r\<lparr> rec_deviceModeState := (rec_deviceModeState r)(key := None) \<rparr>))))"

definition ObserveResizeState :: "string \<Rightarrow> string \<Rightarrow> Recorder option \<Rightarrow> metric_op list \<times> Recorder option" where
  "ObserveResizeState key state recorder =
     (case recorder of
        None \<Rightarrow> ([], None)
      | Some r \<Rightarrow>
          if key = '''' \<or> state = '''' then ([], Some r)
          else (case rec_resizeState r key of
                  Some previous \<Rightarrow>
                    if previous = state then ([], Some r)
                    else ((if previous \<noteq> '''' then [Dec rtjsByResizeState [previous]] else []) @ [Inc rtjsByResizeState [state]],
                          Some (r\<lparr> rec_resizeState := (rec_resizeState r)(key \<mapsto> state) \<rparr>))
                | None \<Rightarrow> ([Inc rtjsByResizeState [state]], Some (r\<lparr> rec_resizeState := (rec_resizeState r)(key \<mapsto> state) \<rparr>))))"

definition RemoveResizeState :: "string \<Rightarrow> Recorder option \<Rightarrow> metric_op list \<times> Recorder option" where
  "RemoveResizeState key recorder =
     (case recorder of
        None \<Rightarrow> ([], None)
      | Some r \<Rightarrow>
          if key = '''' then ([], Some r)
          else (case rec_resizeState r key of
                  None \<Rightarrow> ([], Some r)
                | Some previous \<Rightarrow>
                    if previous = '''' then ([], Some r)
                    else ([Dec rtjsByResizeState [previous]], Some (r\<lparr> rec_resizeState := (rec_resizeState r)(key := None) \<rparr>))))"

text \<open>The observed workload comes with its UID.\<close>

definition ObserveWorkload :: "(string \<times> Workload) option \<Rightarrow> Recorder option \<Rightarrow> metric_op list \<times> Recorder option" where
  "ObserveWorkload workload recorder =
     (case (recorder, workload) of
        (Some r, Some (uid, wl)) \<Rightarrow>
          if uid = '''' then ([], Some r)
          else (let state = (case rec_workloads r uid of Some s \<Rightarrow> s | None \<Rightarrow> \<lparr> wo_created = False, wo_admitted = False \<rparr>);
                    created = (if \<not> wo_created state then [Inc workloadsCreated []] else []);
                    state1 = state\<lparr> wo_created := True \<rparr>;
                    admitted = wl_Admission wl \<noteq> None \<and> \<not> wo_admitted state1
                in (created @ (if admitted then [Inc admissionsObserved []] else []),
                    Some (r\<lparr> rec_workloads := (rec_workloads r)
                               (uid \<mapsto> (if admitted then state1\<lparr> wo_admitted := True \<rparr> else state1)) \<rparr>)))
      | _ \<Rightarrow> ([], recorder))"

definition ObserveAdmissionComparison :: "int \<Rightarrow> int \<Rightarrow> Recorder option \<Rightarrow> metric_op list" where
  "ObserveAdmissionComparison admitted preferred r =
     (if r = None then []
      else if admitted < preferred then [Inc admissionComparisons [''partial''], Inc partialAdmissionLaunches []]
      else [Inc admissionComparisons [''equal'']])"

definition ObserveResumeWorldSize :: "int \<Rightarrow> int \<Rightarrow> Recorder option \<Rightarrow> metric_op list" where
  "ObserveResumeWorldSize checkpointWorldSize restoreWorldSize r =
     (if r = None then []
      else if checkpointWorldSize = restoreWorldSize then [Inc sameSizeResumes []]
      else [Inc differentSizeResumes [], Inc reshardRestoresAttempted []])"

definition ObservePreemptionState :: "string \<Rightarrow> string \<Rightarrow> string \<Rightarrow> Recorder option \<Rightarrow> metric_op list" where
  "ObservePreemptionState rtjKey previousState newState r =
     (if r = None then []
      else (if previousState \<noteq> '''' \<and> previousState \<noteq> newState then [Dec rtjsByPreemptionState [previousState]] else [])
         @ (if newState \<noteq> '''' \<and> previousState \<noteq> newState then [Inc rtjsByPreemptionState [newState]] else []))"

definition IncPauseRequested :: "Recorder option \<Rightarrow> metric_op list" where
  "IncPauseRequested r = (if r \<noteq> None then [Inc pausesRequested []] else [])"

definition IncPauseTimeout :: "Recorder option \<Rightarrow> metric_op list" where
  "IncPauseTimeout r = (if r \<noteq> None then [Inc pauseTimeouts []] else [])"

definition IncResumeAttempted :: "Recorder option \<Rightarrow> metric_op list" where
  "IncResumeAttempted r = (if r \<noteq> None then [Inc resumesAttempted []] else [])"

definition IncResumeSucceeded :: "Recorder option \<Rightarrow> metric_op list" where
  "IncResumeSucceeded r = (if r \<noteq> None then [Inc resumesSucceeded []] else [])"

definition IncResumeFailed :: "Recorder option \<Rightarrow> metric_op list" where
  "IncResumeFailed r = (if r \<noteq> None then [Inc resumesFailed []] else [])"

definition AddCheckpointsDiscovered :: "int \<Rightarrow> Recorder option \<Rightarrow> metric_op list" where
  "AddCheckpointsDiscovered count r = (if r \<noteq> None \<and> count > 0 then [Add checkpointsDiscovered [] (real_of_int count)] else [])"

definition IncKueueSuspensionObserved :: "Recorder option \<Rightarrow> metric_op list" where
  "IncKueueSuspensionObserved r = (if r \<noteq> None then [Inc kueueSuspensionsObserved []] else [])"

definition IncPreemptionYieldCompleted :: "Recorder option \<Rightarrow> metric_op list" where
  "IncPreemptionYieldCompleted r = (if r \<noteq> None then [Inc preemptionYieldsCompleted []] else [])"

definition IncDuplicateChildJobSetPrevention :: "Recorder option \<Rightarrow> metric_op list" where
  "IncDuplicateChildJobSetPrevention r = (if r \<noteq> None then [Inc duplicateChildJobSetPreventions []] else [])"

definition IncReshardRestoreAttempted :: "Recorder option \<Rightarrow> metric_op list" where
  "IncReshardRestoreAttempted r = (if r \<noteq> None then [Inc reshardRestoresAttempted []] else [])"

definition IncReshardRestoreSucceeded :: "Recorder option \<Rightarrow> metric_op list" where
  "IncReshardRestoreSucceeded r = (if r \<noteq> None then [Inc reshardRestoresSucceeded []] else [])"

definition IncReshardRestoreFailed :: "Recorder option \<Rightarrow> metric_op list" where
  "IncReshardRestoreFailed r = (if r \<noteq> None then [Inc reshardRestoresFailed []] else [])"

definition ObserveFlavorAssignment :: "string \<Rightarrow> Recorder option \<Rightarrow> metric_op list" where
  "ObserveFlavorAssignment flavor r = (if r \<noteq> None \<and> flavor \<noteq> '''' then [Inc flavorAssignments [flavor]] else [])"

definition IncLaunchBlockedByReadinessGate :: "Recorder option \<Rightarrow> metric_op list" where
  "IncLaunchBlockedByReadinessGate r = (if r \<noteq> None then [Inc launchesBlockedByReadinessGate []] else [])"

definition ObserveReadinessGateOutcome :: "string \<Rightarrow> Recorder option \<Rightarrow> metric_op list" where
  "ObserveReadinessGateOutcome reason r = (if r \<noteq> None \<and> reason \<noteq> '''' then [Inc readinessGateOutcomes [reason]] else [])"

definition IncTopologyAwareLaunch :: "Recorder option \<Rightarrow> metric_op list" where
  "IncTopologyAwareLaunch r = (if r \<noteq> None then [Inc topologyAwareLaunches []] else [])"

definition IncTopologyAssignmentWait :: "Recorder option \<Rightarrow> metric_op list" where
  "IncTopologyAssignmentWait r = (if r \<noteq> None then [Inc topologyAssignmentWaits []] else [])"

definition IncPhase4ResumeAttempted :: "Recorder option \<Rightarrow> metric_op list" where
  "IncPhase4ResumeAttempted r = (if r \<noteq> None then [Inc phase4ResumesAttempted []] else [])"

definition IncPhase4ResumeSucceeded :: "Recorder option \<Rightarrow> metric_op list" where
  "IncPhase4ResumeSucceeded r = (if r \<noteq> None then [Inc phase4ResumesSucceeded []] else [])"

definition IncPhase4ResumeFailed :: "Recorder option \<Rightarrow> metric_op list" where
  "IncPhase4ResumeFailed r = (if r \<noteq> None then [Inc phase4ResumesFailed []] else [])"

definition IncUnsupportedTopologyShapeFailure :: "Recorder option \<Rightarrow> metric_op list" where
  "IncUnsupportedTopologyShapeFailure r = (if r \<noteq> None then [Inc unsupportedTopologyShapeFailures []] else [])"

definition IncPriorityEvaluation :: "Recorder option \<Rightarrow> metric_op list" where
  "IncPriorityEvaluation r = (if r \<noteq> None then [Inc priorityEvaluations []] else [])"

definition IncPriorityPenaltyApplied :: "Recorder option \<Rightarrow> metric_op list" where
  "IncPriorityPenaltyApplied r = (if r \<noteq> None then [Inc priorityPenaltiesApplied []] else [])"

definition SetPriorityProtectionWindowActive :: "real \<Rightarrow> Recorder option \<Rightarrow> metric_op list" where
  "SetPriorityProtectionWindowActive count r = (if r \<noteq> None then [Set priorityProtectionWindowActive [] count] else [])"

definition SetPriorityEffectiveValue :: "string \<Rightarrow> real \<Rightarrow> Recorder option \<Rightarrow> metric_op list" where
  "SetPriorityEffectiveValue rtjKey value r = (if r \<noteq> None \<and> rtjKey \<noteq> '''' then [Set priorityEffectiveValue [rtjKey] value] else [])"

definition RemovePriorityEffectiveValue :: "string \<Rightarrow> Recorder option \<Rightarrow> metric_op list" where
  "RemovePriorityEffectiveValue rtjKey r = (if r \<noteq> None \<and> rtjKey \<noteq> '''' then [DeleteLabelValues priorityEffectiveValue [rtjKey]] else [])"

definition IncPriorityTelemetryFailure :: "Recorder option \<Rightarrow> metric_op list" where
  "IncPriorityTelemetryFailure r = (if r \<noteq> None then [Inc priorityTelemetryFailures []] else [])"

definition IncPriorityDrivenPreemption :: "Recorder option \<Rightarrow> metric_op list" where
  "IncPriorityDrivenPreemption r = (if r \<noteq> None then [Inc priorityDrivenPreemptions []] else [])"

definition RemovePreemptionState :: "string \<Rightarrow> Recorder option \<Rightarrow> metric_op list" where
  "RemovePreemptionState state r = (if r \<noteq> None \<and> state \<noteq> '''' then [Dec rtjsByPreemptionState [state]] else [])"

definition SetPriorityBasePriority :: "string \<Rightarrow> real \<Rightarrow> Recorder option \<Rightarrow> metric_op list" where
  "SetPriorityBasePriority rtjKey value r = (if r \<noteq> None \<and> rtjKey \<noteq> '''' then [Set priorityBasePriority [rtjKey] value] else [])"

definition RemovePriorityBasePriority :: "string \<Rightarrow> Recorder option \<Rightarrow> metric_op list" where
  "RemovePriorityBasePriority rtjKey r = (if r \<noteq> None \<and> rtjKey \<noteq> '''' then [DeleteLabelValues priorityBasePriority [rtjKey]] else [])"

definition ObservePriorityDecision :: "string \<Rightarrow> string \<Rightarrow> Recorder option \<Rightarrow> metric_op list" where
  "ObservePriorityDecision state reason r = (if r \<noteq> None \<and> state \<noteq> '''' \<and> reason \<noteq> '''' then [Inc priorityDecisionsByStateReason [state, reason]] else [])"

definition IncPriorityMaterializationUpdate :: "Recorder option \<Rightarrow> metric_op list" where
  "IncPriorityMaterializationUpdate r = (if r \<noteq> None then [Inc priorityMaterializationUpdates []] else [])"

definition SetProtectedWorkloadsCount :: "real \<Rightarrow> Recorder option \<Rightarrow> metric_op list" where
  "SetProtectedWorkloadsCount count r = (if r \<noteq> None then [Set protectedWorkloadsCount [] count] else [])"

definition SetPreemptibleWorkloadsCount :: "real \<Rightarrow> Recorder option \<Rightarrow> metric_op list" where
  "SetPreemptibleWorkloadsCount count r = (if r \<noteq> None then [Set preemptibleWorkloadsCount [] count] else [])"

definition IncYieldBlockedByBudget :: "Recorder option \<Rightarrow> metric_op list" where
  "IncYieldBlockedByBudget r = (if r \<noteq> None then [Inc yieldsBlockedByBudget []] else [])"

definition IncYieldBlockedByCooldown :: "Recorder option \<Rightarrow> metric_op list" where
  "IncYieldBlockedByCooldown r = (if r \<noteq> None then [Inc yieldsBlockedByCooldown []] else [])"

definition ObserveExecutionRole :: "string \<Rightarrow> Recorder option \<Rightarrow> metric_op list" where
  "ObserveExecutionRole role r = (if r \<noteq> None \<and> role \<noteq> '''' then [Inc rtjsByExecutionRole [role]] else [])"

definition RemoveExecutionRole :: "string \<Rightarrow> Recorder option \<Rightarrow> metric_op list" where
  "RemoveExecutionRole role r = (if r \<noteq> None \<and> role \<noteq> '''' then [Dec rtjsByExecutionRole [role]] else [])"

definition ObserveRemoteCluster :: "string \<Rightarrow> Recorder option \<Rightarrow> metric_op list" where
  "ObserveRemoteCluster cluster r = (if r \<noteq> None \<and> cluster \<noteq> '''' then [Inc remoteRTJsByCluster [cluster]] else [])"

definition RemoveRemoteCluster :: "string \<Rightarrow> Recorder option \<Rightarrow> metric_op list" where
  "RemoveRemoteCluster cluster r = (if r \<noteq> None \<and> cluster \<noteq> '''' then [Dec remoteRTJsByCluster [cluster]] else [])"

definition IncManagerLocalSuppression :: "Recorder option \<Rightarrow> metric_op list" where
  "IncManagerLocalSuppression r = (if r \<noteq> None then [Inc managerLocalSuppressions []] else [])"

definition IncRemoteStatusSyncSuccess :: "Recorder option \<Rightarrow> metric_op list" where
  "IncRemoteStatusSyncSuccess r = (if r \<noteq> None then [Inc remoteStatusSyncSuccesses []] else [])"

definition IncRemoteStatusSyncFailure :: "Recorder option \<Rightarrow> metric_op list" where
  "IncRemoteStatusSyncFailure r = (if r \<noteq> None then [Inc remoteStatusSyncFailures []] else [])"

definition IncRemotePauseEvent :: "Recorder option \<Rightarrow> metric_op list" where
  "IncRemotePauseEvent r = (if r \<noteq> None then [Inc remotePauseEvents []] else [])"

definition IncRemoteResumeEvent :: "Recorder option \<Rightarrow> metric_op list" where
  "IncRemoteResumeEvent r = (if r \<noteq> None then [Inc remoteResumeEvents []] else [])"

definition IncRemoteCheckpointObservation :: "Recorder option \<Rightarrow> metric_op list" where
  "IncRemoteCheckpointObservation r = (if r \<noteq> None then [Inc remoteCheckpointObservations []] else [])"

definition IncSharedStoreAccessFailure :: "Recorder option \<Rightarrow> metric_op list" where
  "IncSharedStoreAccessFailure r = (if r \<noteq> None then [Inc sharedStoreAccessFailures []] else [])"

definition ObserveProvisioningState :: "string \<Rightarrow> Recorder option \<Rightarrow> metric_op list" where
  "ObserveProvisioningState state r = (if r \<noteq> None \<and> state \<noteq> '''' then [Inc provisioningStatesObserved [state]] else [])"

definition IncLaunchBlockedByProvisioning :: "Recorder option \<Rightarrow> metric_op list" where
  "IncLaunchBlockedByProvisioning r = (if r \<noteq> None then [Inc launchesBlockedByProvisioning []] else [])"

definition IncLaunchBlockedByDelayedTopology :: "Recorder option \<Rightarrow> metric_op list" where
  "IncLaunchBlockedByDelayedTopology r = (if r \<noteq> None then [Inc launchesBlockedByDelayedTopology []] else [])"

definition IncStartupTimeoutEvent :: "Recorder option \<Rightarrow> metric_op list" where
  "IncStartupTimeoutEvent r = (if r \<noteq> None then [Inc startupTimeoutEvents []] else [])"

definition IncRecoveryTimeoutEvent :: "Recorder option \<Rightarrow> metric_op list" where
  "IncRecoveryTimeoutEvent r = (if r \<noteq> None then [Inc recoveryTimeoutEvents []] else [])"

definition IncCapacityGuaranteedLaunch :: "Recorder option \<Rightarrow> metric_op list" where
  "IncCapacityGuaranteedLaunch r = (if r \<noteq> None then [Inc capacityGuaranteedLaunches []] else [])"

definition IncFakeProvisionerObservation :: "Recorder option \<Rightarrow> metric_op list" where
  "IncFakeProvisionerObservation r = (if r \<noteq> None then [Inc fakeProvisionerObservations []] else [])"

definition IncFakeProvisionerFailure :: "Recorder option \<Rightarrow> metric_op list" where
  "IncFakeProvisionerFailure r = (if r \<noteq> None then [Inc fakeProvisionerFailures []] else [])"

definition IncDRATemplateReconcile :: "Recorder option \<Rightarrow> metric_op list" where
  "IncDRATemplateReconcile r = (if r \<noteq> None then [Inc draTemplateReconciles []] else [])"

definition IncDRATemplateFailure :: "Recorder option \<Rightarrow> metric_op list" where
  "IncDRATemplateFailure r = (if r \<noteq> None then [Inc draTemplateFailures []] else [])"

definition AddDRAClaimsGenerated :: "int \<Rightarrow> Recorder option \<Rightarrow> metric_op list" where
  "AddDRAClaimsGenerated count r = (if r \<noteq> None \<and> count > 0 then [Add draClaimsGenerated [] (real_of_int count)] else [])"

definition ObserveDRAClaimAllocation :: "string \<Rightarrow> Recorder option \<Rightarrow> metric_op list" where
  "ObserveDRAClaimAllocation state r = (if r \<noteq> None \<and> state \<noteq> '''' then [Inc draClaimAllocationSummary [state]] else [])"

definition ObserveDRAResumeCompatibility :: "string \<Rightarrow> Recorder option \<Rightarrow> metric_op list" where
  "ObserveDRAResumeCompatibility result r = (if r \<noteq> None \<and> result \<noteq> '''' then [Inc draResumeCompatibilityChecks [result]] else [])"

definition IncDRABackedLaunch :: "Recorder option \<Rightarrow> metric_op list" where
  "IncDRABackedLaunch r = (if r \<noteq> None then [Inc draBackedLaunches []] else [])"

definition IncDRALaunchFailure :: "Recorder option \<Rightarrow> metric_op list" where
  "IncDRALaunchFailure r = (if r \<noteq> None then [Inc draLaunchFailures []] else [])"

definition SetElasticActiveWorkers :: "string \<Rightarrow> int \<Rightarrow> Recorder option \<Rightarrow> metric_op list" where
  "SetElasticActiveWorkers rtjKey count r = (if r \<noteq> None \<and> rtjKey \<noteq> '''' then [Set elasticActiveWorkers [rtjKey] (real_of_int count)] else [])"

definition SetElasticTargetWorkers :: "string \<Rightarrow> int \<Rightarrow> Recorder option \<Rightarrow> metric_op list" where
  "SetElasticTargetWorkers rtjKey count r = (if r \<noteq> None \<and> rtjKey \<noteq> '''' then [Set elasticTargetWorkers [rtjKey] (real_of_int count)] else [])"

definition SetElasticReclaimableWorkers :: "string \<Rightarrow> int \<Rightarrow> Recorder option \<Rightarrow> metric_op list" where
  "SetElasticReclaimableWorkers rtjKey count r = (if r \<noteq> None \<and> rtjKey \<noteq> '''' then [Set elasticReclaimableWorkers [rtjKey] (real_of_int count)] else [])"

definition RemoveElasticWorkerMetrics :: "string \<Rightarrow> Recorder option \<Rightarrow> metric_op list" where
  "RemoveElasticWorkerMetrics rtjKey r = (if r \<noteq> None \<and> rtjKey \<noteq> '''' then [DeleteLabelValues elasticActiveWorkers [rtjKey], DeleteLabelValues elasticTargetWorkers [rtjKey], DeleteLabelValues elasticReclaimableWorkers [rtjKey]] else [])"

definition IncReclaimablePodsPublication :: "Recorder option \<Rightarrow> metric_op list" where
  "IncReclaimablePodsPublication r = (if r \<noteq> None then [Inc reclaimablePodsPublicationsTotal []] else [])"

definition IncShrinkInPlaceSuccess :: "Recorder option \<Rightarrow> metric_op list" where
  "IncShrinkInPlaceSuccess r = (if r \<noteq> None then [Inc shrinkInPlaceSuccessesTotal []] else [])"

definition IncShrinkInPlaceFailure :: "Recorder option \<Rightarrow> metric_op list" where
  "IncShrinkInPlaceFailure r = (if r \<noteq> None then [Inc shrinkInPlaceFailuresTotal []] else [])"

definition IncGrowViaRelaunch :: "Recorder option \<Rightarrow> metric_op list" where
  "IncGrowViaRelaunch r = (if r \<noteq> None then [Inc growViaRelaunchTotal []] else [])"

definition IncResizeFallbackRelaunch :: "Recorder option \<Rightarrow> metric_op list" where
  "IncResizeFallbackRelaunch r = (if r \<noteq> None then [Inc resizeFallbackRelaunchTotal []] else [])"

definition IncResizeCheckpointCreation :: "Recorder option \<Rightarrow> metric_op list" where
  "IncResizeCheckpointCreation r = (if r \<noteq> None then [Inc resizeCheckpointCreationsTotal []] else [])"

definition IncWorkloadStatusPatchFailure :: "Recorder option \<Rightarrow> metric_op list" where
  "IncWorkloadStatusPatchFailure r = (if r \<noteq> None then [Inc workloadStatusPatchFailuresTotal []] else [])"

definition ObserveResizePlanEvaluation :: "string \<Rightarrow> Recorder option \<Rightarrow> metric_op list" where
  "ObserveResizePlanEvaluation kind r = (if r \<noteq> None \<and> kind \<noteq> '''' then [Inc resizePlanEvaluationsTotal [kind]] else [])"

section \<open>Sequences of calls\<close>

text \<open>The methods that only perform operations, and those that also change what the recorder remembers.\<close>

inductive stateless :: "(Recorder option \<Rightarrow> metric_op list) \<Rightarrow> bool" where
  "stateless IncPauseRequested"
| "stateless IncPauseTimeout"
| "stateless IncResumeAttempted"
| "stateless IncResumeSucceeded"
| "stateless IncResumeFailed"
| "stateless (AddCheckpointsDiscovered count)"
| "stateless IncKueueSuspensionObserved"
| "stateless IncPreemptionYieldCompleted"
| "stateless IncDuplicateChildJobSetPrevention"
| "stateless (ObserveAdmissionComparison admitted preferred)"
| "stateless IncReshardRestoreAttempted"
| "stateless IncReshardRestoreSucceeded"
| "stateless IncReshardRestoreFailed"
| "stateless (ObserveFlavorAssignment flavor)"
| "stateless (ObserveResumeWorldSize checkpointWorldSize restoreWorldSize)"
| "stateless IncLaunchBlockedByReadinessGate"
| "stateless (ObserveReadinessGateOutcome reason)"
| "stateless IncTopologyAwareLaunch"
| "stateless IncTopologyAssignmentWait"
| "stateless IncPhase4ResumeAttempted"
| "stateless IncPhase4ResumeSucceeded"
| "stateless IncPhase4ResumeFailed"
| "stateless IncUnsupportedTopologyShapeFailure"
| "stateless IncPriorityEvaluation"
| "stateless IncPriorityPenaltyApplied"
| "stateless (SetPriorityProtectionWindowActive count)"
| "stateless (SetPriorityEffectiveValue rtjKey value)"
| "stateless (RemovePriorityEffectiveValue rtjKey)"
| "stateless IncPriorityTelemetryFailure"
| "stateless IncPriorityDrivenPreemption"
| "stateless (ObservePreemptionState rtjKey previousState newState)"
| "stateless (RemovePreemptionState state)"
| "stateless (SetPriorityBasePriority rtjKey value)"
| "stateless (RemovePriorityBasePriority rtjKey)"
| "stateless (ObservePriorityDecision state reason)"
| "stateless IncPriorityMaterializationUpdate"
| "stateless (SetProtectedWorkloadsCount count)"
| "stateless (SetPreemptibleWorkloadsCount count)"
| "stateless IncYieldBlockedByBudget"
| "stateless IncYieldBlockedByCooldown"
| "stateless (ObserveExecutionRole role)"
| "stateless (RemoveExecutionRole role)"
| "stateless (ObserveRemoteCluster cluster)"
| "stateless (RemoveRemoteCluster cluster)"
| "stateless IncManagerLocalSuppression"
| "stateless IncRemoteStatusSyncSuccess"
| "stateless IncRemoteStatusSyncFailure"
| "stateless IncRemotePauseEvent"
| "stateless IncRemoteResumeEvent"
| "stateless IncRemoteCheckpointObservation"
| "stateless IncSharedStoreAccessFailure"
| "stateless (ObserveProvisioningState state)"
| "stateless IncLaunchBlockedByProvisioning"
| "stateless IncLaunchBlockedByDelayedTopology"
| "stateless IncStartupTimeoutEvent"
| "stateless IncRecoveryTimeoutEvent"
| "stateless IncCapacityGuaranteedLaunch"
| "stateless IncFakeProvisionerObservation"
| "stateless IncFakeProvisionerFailure"
| "stateless IncDRATemplateReconcile"
| "stateless IncDRATemplateFailure"
| "stateless (AddDRAClaimsGenerated count)"
| "stateless (ObserveDRAClaimAllocation state)"
| "stateless (ObserveDRAResumeCompatibility result)"
| "stateless IncDRABackedLaunch"
| "stateless IncDRALaunchFailure"
| "stateless (SetElasticActiveWorkers rtjKey count)"
| "stateless (SetElasticTargetWorkers rtjKey count)"
| "stateless (SetElasticReclaimableWorkers rtjKey count)"
| "stateless (RemoveElasticWorkerMetrics rtjKey)"
| "stateless IncReclaimablePodsPublication"
| "stateless IncShrinkInPlaceSuccess"
| "stateless IncShrinkInPlaceFailure"
| "stateless IncGrowViaRelaunch"
| "stateless IncResizeFallbackRelaunch"
| "stateless IncResizeCheckpointCreation"
| "stateless IncWorkloadStatusPatchFailure"
| "stateless (ObserveResizePlanEvaluation kind)"

inductive stateful :: "(Recorder option \<Rightarrow> metric_op list \<times> Recorder option) \<Rightarrow> bool" where
  "stateful (ObservePhase key state)"
| "stateful (RemoveRTJ key)"
| "stateful (ObserveLaunchGateState key state)"
| "stateful (RemoveLaunchGateState key)"
| "stateful (ObserveDeviceMode key state)"
| "stateful (RemoveDeviceMode key)"
| "stateful (ObserveResizeState key state)"
| "stateful (RemoveResizeState key)"
| "stateful (ObserveWorkload workload)"

text \<open>Any sequence of calls on the recorder that the process created, with the operations performed so far.\<close>

inductive recorder_runs :: "metric_op list \<Rightarrow> Recorder \<Rightarrow> bool" where
  created: "NewRecorder None = (metrics, Some r) \<Longrightarrow> recorder_runs [] r"
| counted: "recorder_runs ops r \<Longrightarrow> stateless f \<Longrightarrow> recorder_runs (ops @ f (Some r)) r"
| observed: "recorder_runs ops r \<Longrightarrow> stateful f \<Longrightarrow> f (Some r) = (ops', Some r') \<Longrightarrow> recorder_runs (ops @ ops') r'"

lemmas metric_kinds = NewCounter_def NewCounterVec_def NewGauge_def NewGaugeVec_def

lemmas metric_defs =
  rtjsByPhase_def pausesRequested_def pauseTimeouts_def resumesAttempted_def
  resumesSucceeded_def resumesFailed_def checkpointsDiscovered_def workloadsCreated_def
  admissionsObserved_def kueueSuspensionsObserved_def preemptionYieldsCompleted_def duplicateChildJobSetPreventions_def
  launchesBlockedByReadinessGate_def readinessGateOutcomes_def topologyAwareLaunches_def topologyAssignmentWaits_def
  phase4ResumesAttempted_def phase4ResumesSucceeded_def phase4ResumesFailed_def unsupportedTopologyShapeFailures_def
  priorityEvaluations_def priorityPenaltiesApplied_def priorityProtectionWindowActive_def priorityEffectiveValue_def
  priorityTelemetryFailures_def priorityDrivenPreemptions_def rtjsByPreemptionState_def priorityBasePriority_def
  priorityDecisionsByStateReason_def priorityMaterializationUpdates_def protectedWorkloadsCount_def preemptibleWorkloadsCount_def
  yieldsBlockedByBudget_def yieldsBlockedByCooldown_def admissionComparisons_def reshardRestoresAttempted_def
  reshardRestoresSucceeded_def reshardRestoresFailed_def flavorAssignments_def partialAdmissionLaunches_def
  sameSizeResumes_def differentSizeResumes_def rtjsByExecutionRole_def remoteRTJsByCluster_def
  managerLocalSuppressions_def remoteStatusSyncSuccesses_def remoteStatusSyncFailures_def remotePauseEvents_def
  remoteResumeEvents_def remoteCheckpointObservations_def sharedStoreAccessFailures_def rtjsByLaunchGateState_def
  provisioningStatesObserved_def launchesBlockedByProvisioning_def launchesBlockedByDelayedTopology_def startupTimeoutEvents_def
  recoveryTimeoutEvents_def capacityGuaranteedLaunches_def fakeProvisionerObservations_def fakeProvisionerFailures_def
  rtjsByDeviceMode_def draTemplateReconciles_def draTemplateFailures_def draClaimsGenerated_def
  draClaimAllocationSummary_def draResumeCompatibilityChecks_def draBackedLaunches_def draLaunchFailures_def
  rtjsByResizeState_def elasticActiveWorkers_def elasticTargetWorkers_def elasticReclaimableWorkers_def
  reclaimablePodsPublicationsTotal_def shrinkInPlaceSuccessesTotal_def shrinkInPlaceFailuresTotal_def growViaRelaunchTotal_def
  resizeFallbackRelaunchTotal_def resizeCheckpointCreationsTotal_def workloadStatusPatchFailuresTotal_def resizePlanEvaluationsTotal_def

lemmas stateless_defs =
  IncPauseRequested_def IncPauseTimeout_def IncResumeAttempted_def
  IncResumeSucceeded_def IncResumeFailed_def AddCheckpointsDiscovered_def
  IncKueueSuspensionObserved_def IncPreemptionYieldCompleted_def IncDuplicateChildJobSetPrevention_def
  ObserveAdmissionComparison_def IncReshardRestoreAttempted_def IncReshardRestoreSucceeded_def
  IncReshardRestoreFailed_def ObserveFlavorAssignment_def ObserveResumeWorldSize_def
  IncLaunchBlockedByReadinessGate_def ObserveReadinessGateOutcome_def IncTopologyAwareLaunch_def
  IncTopologyAssignmentWait_def IncPhase4ResumeAttempted_def IncPhase4ResumeSucceeded_def
  IncPhase4ResumeFailed_def IncUnsupportedTopologyShapeFailure_def IncPriorityEvaluation_def
  IncPriorityPenaltyApplied_def SetPriorityProtectionWindowActive_def SetPriorityEffectiveValue_def
  RemovePriorityEffectiveValue_def IncPriorityTelemetryFailure_def IncPriorityDrivenPreemption_def
  ObservePreemptionState_def RemovePreemptionState_def SetPriorityBasePriority_def
  RemovePriorityBasePriority_def ObservePriorityDecision_def IncPriorityMaterializationUpdate_def
  SetProtectedWorkloadsCount_def SetPreemptibleWorkloadsCount_def IncYieldBlockedByBudget_def
  IncYieldBlockedByCooldown_def ObserveExecutionRole_def RemoveExecutionRole_def
  ObserveRemoteCluster_def RemoveRemoteCluster_def IncManagerLocalSuppression_def
  IncRemoteStatusSyncSuccess_def IncRemoteStatusSyncFailure_def IncRemotePauseEvent_def
  IncRemoteResumeEvent_def IncRemoteCheckpointObservation_def IncSharedStoreAccessFailure_def
  ObserveProvisioningState_def IncLaunchBlockedByProvisioning_def IncLaunchBlockedByDelayedTopology_def
  IncStartupTimeoutEvent_def IncRecoveryTimeoutEvent_def IncCapacityGuaranteedLaunch_def
  IncFakeProvisionerObservation_def IncFakeProvisionerFailure_def IncDRATemplateReconcile_def
  IncDRATemplateFailure_def AddDRAClaimsGenerated_def ObserveDRAClaimAllocation_def
  ObserveDRAResumeCompatibility_def IncDRABackedLaunch_def IncDRALaunchFailure_def
  SetElasticActiveWorkers_def SetElasticTargetWorkers_def SetElasticReclaimableWorkers_def
  RemoveElasticWorkerMetrics_def IncReclaimablePodsPublication_def IncShrinkInPlaceSuccess_def
  IncShrinkInPlaceFailure_def IncGrowViaRelaunch_def IncResizeFallbackRelaunch_def
  IncResizeCheckpointCreation_def IncWorkloadStatusPatchFailure_def ObserveResizePlanEvaluation_def

lemmas stateful_defs =
  ObservePhase_def RemoveRTJ_def
  ObserveLaunchGateState_def RemoveLaunchGateState_def
  ObserveDeviceMode_def RemoveDeviceMode_def
  ObserveResizeState_def RemoveResizeState_def ObserveWorkload_def

section \<open>What the library does\<close>

text \<open>
  The registry of Prometheus, as documented: \<open>sample\<close> is the value of a series, a series that does not exist reads
  as zero, and an operation changes no other series.
\<close>

locale prometheus =
  fixes perform :: "metric_op \<Rightarrow> 'reg \<Rightarrow> 'reg"
    and sample :: "'reg \<Rightarrow> metric \<Rightarrow> string list \<Rightarrow> real"
  assumes inc: "sample (perform (Inc m ls) g) m' ls' = sample g m' ls' + of_bool (m' = m \<and> ls' = ls)"
    and dec: "sample (perform (Dec m ls) g) m' ls' = sample g m' ls' - of_bool (m' = m \<and> ls' = ls)"
    and add: "sample (perform (Add m ls x) g) m' ls' = sample g m' ls' + (if m' = m \<and> ls' = ls then x else 0)"
    and set: "sample (perform (Set m ls x) g) m' ls' = (if m' = m \<and> ls' = ls then x else sample g m' ls')"
    and delete: "sample (perform (DeleteLabelValues m ls) g) m' ls' = (if m' = m \<and> ls' = ls then 0 else sample g m' ls')"

text \<open>How an operation shifts a series, and whether it overwrites series of a metric instead.\<close>

fun shift_op :: "metric \<Rightarrow> string list \<Rightarrow> metric_op \<Rightarrow> real" where
  "shift_op m ls (Inc m' ls') = of_bool (m = m' \<and> ls = ls')"
| "shift_op m ls (Dec m' ls') = - of_bool (m = m' \<and> ls = ls')"
| "shift_op m ls (Add m' ls' x) = (if m = m' \<and> ls = ls' then x else 0)"
| "shift_op m ls _ = 0"

definition shift :: "metric \<Rightarrow> string list \<Rightarrow> metric_op list \<Rightarrow> real" where
  "shift m ls ops = sum_list (map (shift_op m ls) ops)"

fun overwrites :: "metric \<Rightarrow> metric_op \<Rightarrow> bool" where
  "overwrites m (Set m' ls x) \<longleftrightarrow> m = m'"
| "overwrites m (DeleteLabelValues m' ls) \<longleftrightarrow> m = m'"
| "overwrites m _ \<longleftrightarrow> False"

lemma shift_simps [simp]:
  "shift m ls [] = 0" "shift m ls (op # ops) = shift_op m ls op + shift m ls ops"
  "shift m ls (ops @ ops') = shift m ls ops + shift m ls ops'"
  by (simp_all add: shift_def)

context prometheus
begin

lemma sample_shift:
  "\<forall>op \<in> set ops. \<not> overwrites m op \<Longrightarrow> sample (fold perform ops g) m ls = sample g m ls + shift m ls ops"
proof (induction ops arbitrary: g)
  case (Cons op ops)
  then have "sample (perform op g) m ls = sample g m ls + shift_op m ls op"
    by (cases op) (auto simp: inc dec add set delete)
  with Cons show ?case by simp
qed simp

end

definition documented_perform :: "metric_op \<Rightarrow> (metric \<times> string list \<Rightarrow> real) \<Rightarrow> (metric \<times> string list \<Rightarrow> real)" where
  "documented_perform op g =
     (case op of
        Inc m ls \<Rightarrow> g((m, ls) := g (m, ls) + 1)
      | Dec m ls \<Rightarrow> g((m, ls) := g (m, ls) - 1)
      | Add m ls x \<Rightarrow> g((m, ls) := g (m, ls) + x)
      | Set m ls x \<Rightarrow> g((m, ls) := x)
      | DeleteLabelValues m ls \<Rightarrow> g((m, ls) := 0))"

interpretation registry: prometheus documented_perform "\<lambda>g m ls. g (m, ls)"
  by unfold_locales (auto simp: documented_perform_def)

section \<open>Gauges that count jobs by state\<close>

text \<open>One entry of a state map moves, and the gauge follows it.\<close>

definition moved :: "metric \<Rightarrow> string \<Rightarrow> strmap \<Rightarrow> metric_op list \<Rightarrow> strmap \<Rightarrow> bool" where
  "moved gauge key t ops t' \<longleftrightarrow>
     (\<forall>k. k \<noteq> key \<longrightarrow> t' k = t k)
     \<and> (\<forall>l. shift gauge [l] ops = of_bool (t' key = Some l) - of_bool (t key = Some l))"

definition gauge_exact :: "metric \<Rightarrow> strmap \<Rightarrow> metric_op list \<Rightarrow> bool" where
  "gauge_exact gauge t ops \<longleftrightarrow>
     finite (dom t) \<and> '''' \<notin> ran t \<and> (\<forall>op \<in> set ops. \<not> overwrites gauge op)
     \<and> (\<forall>l. shift gauge [l] ops = real (card {k. t k = Some l}))"

lemma moved_card:
  assumes "finite (dom t)" and "moved gauge key t ops t'"
  shows "real (card {k. t' k = Some l}) = real (card {k. t k = Some l}) + shift gauge [l] ops"
proof -
  let ?A = "{k. k \<noteq> key \<and> t k = Some l}"
  have fin: "finite ?A" by (rule finite_subset [OF _ assms(1)]) auto
  have eq: "{k. f k = Some l} = (if f key = Some l then insert key ?A else ?A)" if "\<forall>k. k \<noteq> key \<longrightarrow> f k = t k" for f
    using that by auto
  have "card {k. f k = Some l} = card ?A + of_bool (f key = Some l)" if "\<forall>k. k \<noteq> key \<longrightarrow> f k = t k" for f
    using fin by (simp add: eq [OF that])
  then show ?thesis using assms(2) unfolding moved_def by (simp add: of_bool_def)
qed

lemma gauge_exact_moved:
  assumes "gauge_exact gauge t ops" and "moved gauge key t ops' t'" and "\<forall>op \<in> set ops'. \<not> overwrites gauge op"
    and "t' key \<noteq> Some ''''"
  shows "gauge_exact gauge t' (ops @ ops')"
proof -
  have keep: "\<forall>k. k \<noteq> key \<longrightarrow> t' k = t k" using assms(2) by (simp add: moved_def)
  then have "dom t' \<subseteq> insert key (dom t)" by force
  then have "finite (dom t')" using assms(1) by (auto simp: gauge_exact_def dest: finite_subset)
  moreover have "'''' \<notin> ran t'"
  proof
    assume "'''' \<in> ran t'"
    then obtain k where "t' k = Some ''''" by (auto simp: ran_def)
    then show False using keep assms(1,4) by (cases "k = key") (auto simp: gauge_exact_def ran_def)
  qed
  ultimately show ?thesis using assms(1,3) moved_card [OF _ assms(2)]
    by (auto simp: gauge_exact_def)
qed

lemma gauge_exact_frame:
  "gauge_exact gauge t ops \<Longrightarrow> \<forall>op \<in> set ops'. \<not> overwrites gauge op \<and> (\<forall>ls. shift_op gauge ls op = 0) \<Longrightarrow> gauge_exact gauge t (ops @ ops')"
proof -
  assume "gauge_exact gauge t ops" and ops': "\<forall>op \<in> set ops'. \<not> overwrites gauge op \<and> (\<forall>ls. shift_op gauge ls op = 0)"
  moreover from ops' have "shift gauge ls ops' = 0" for ls by (induction ops') auto
  ultimately show ?thesis by (auto simp: gauge_exact_def)
qed

text \<open>The contract of a pair of methods that track a state per job.\<close>

locale state_gauge =
  fixes observe :: "string \<Rightarrow> string \<Rightarrow> Recorder option \<Rightarrow> metric_op list \<times> Recorder option"
    and remove :: "string \<Rightarrow> Recorder option \<Rightarrow> metric_op list \<times> Recorder option"
    and tracked :: "Recorder \<Rightarrow> strmap"
    and gauge :: metric
  assumes observe_moves: "'''' \<notin> ran (tracked r) \<Longrightarrow> observe key state (Some r) = (ops, Some r') \<Longrightarrow>
      moved gauge key (tracked r) ops (tracked r') \<and> (\<forall>op \<in> set ops. \<not> overwrites gauge op)"
    and observe_tracks: "observe key state (Some r) = (ops, Some r') \<Longrightarrow>
      tracked r' = (if key = '''' \<or> state = '''' then tracked r else (tracked r)(key \<mapsto> state))"
    and remove_moves: "'''' \<notin> ran (tracked r) \<Longrightarrow> remove key (Some r) = (ops, Some r') \<Longrightarrow>
      moved gauge key (tracked r) ops (tracked r') \<and> (\<forall>op \<in> set ops. \<not> overwrites gauge op)"
    and remove_tracks: "'''' \<notin> ran (tracked r) \<Longrightarrow> remove key (Some r) = (ops, Some r') \<Longrightarrow>
      tracked r' = (if key = '''' then tracked r else (tracked r)(key := None))"
begin

lemma observe_exact:
  assumes "gauge_exact gauge (tracked r) ops" and "observe key state (Some r) = (ops', Some r')"
  shows "gauge_exact gauge (tracked r') (ops @ ops')"
proof (rule gauge_exact_moved [OF assms(1)])
  have ran: "'''' \<notin> ran (tracked r)" using assms(1) by (simp add: gauge_exact_def)
  from observe_moves [OF ran assms(2)] show "moved gauge key (tracked r) ops' (tracked r')" "\<forall>op \<in> set ops'. \<not> overwrites gauge op"
    by simp_all
  show "tracked r' key \<noteq> Some ''''" using observe_tracks [OF assms(2)] ran by (auto simp: ran_def)
qed

lemma remove_exact:
  assumes "gauge_exact gauge (tracked r) ops" and "remove key (Some r) = (ops', Some r')"
  shows "gauge_exact gauge (tracked r') (ops @ ops')"
proof (rule gauge_exact_moved [OF assms(1)])
  have ran: "'''' \<notin> ran (tracked r)" using assms(1) by (simp add: gauge_exact_def)
  from remove_moves [OF ran assms(2)] show "moved gauge key (tracked r) ops' (tracked r')" "\<forall>op \<in> set ops'. \<not> overwrites gauge op"
    by simp_all
  show "tracked r' key \<noteq> Some ''''" using remove_tracks [OF ran assms(2)] ran by (auto simp: ran_def)
qed

end

lemma not_empty_ran: "'''' \<notin> ran t \<Longrightarrow> t k \<noteq> Some ''''"
  by (auto simp: ran_def)

interpretation by_phase: state_gauge ObservePhase RemoveRTJ rec_phases rtjsByPhase
  by unfold_locales
    (auto simp: ObservePhase_def RemoveRTJ_def moved_def not_empty_ran split: option.splits if_splits)

interpretation by_launch_gate: state_gauge ObserveLaunchGateState RemoveLaunchGateState rec_launchGateState rtjsByLaunchGateState
  by unfold_locales
    (auto simp: ObserveLaunchGateState_def RemoveLaunchGateState_def moved_def not_empty_ran split: option.splits if_splits)

interpretation by_device_mode: state_gauge ObserveDeviceMode RemoveDeviceMode rec_deviceModeState rtjsByDeviceMode
  by unfold_locales
    (auto simp: ObserveDeviceMode_def RemoveDeviceMode_def moved_def not_empty_ran split: option.splits if_splits)

interpretation by_resize_state: state_gauge ObserveResizeState RemoveResizeState rec_resizeState rtjsByResizeState
  by unfold_locales
    (auto simp: ObserveResizeState_def RemoveResizeState_def moved_def not_empty_ran split: option.splits if_splits)

section \<open>The registry agrees with the recorder\<close>

fun op_metric :: "metric_op \<Rightarrow> metric" where
  "op_metric (Inc m ls) = m"
| "op_metric (Dec m ls) = m"
| "op_metric (Add m ls x) = m"
| "op_metric (Set m ls x) = m"
| "op_metric (DeleteLabelValues m ls) = m"

fun op_labels :: "metric_op \<Rightarrow> string list" where
  "op_labels (Inc m ls) = ls"
| "op_labels (Dec m ls) = ls"
| "op_labels (Add m ls x) = ls"
| "op_labels (Set m ls x) = ls"
| "op_labels (DeleteLabelValues m ls) = ls"

definition tracked_metrics :: "metric list" where
  "tracked_metrics = [rtjsByPhase, rtjsByLaunchGateState, rtjsByDeviceMode, rtjsByResizeState, workloadsCreated, admissionsObserved]"

lemma other_metric: "op_metric op \<noteq> m \<Longrightarrow> \<not> overwrites m op \<and> shift_op m ls op = 0"
  by (cases op) auto

text \<open>The declared names, kinds and labels, for the simplifier: a name tells two metrics apart.\<close>

lemma metric_names:
  "m_Name rtjsByPhase = ''rtjs_by_phase''"
  "m_Name pausesRequested = ''pauses_requested_total''"
  "m_Name pauseTimeouts = ''pause_timeouts_total''"
  "m_Name resumesAttempted = ''resumes_attempted_total''"
  "m_Name resumesSucceeded = ''resumes_succeeded_total''"
  "m_Name resumesFailed = ''resumes_failed_total''"
  "m_Name checkpointsDiscovered = ''checkpoints_discovered_total''"
  "m_Name workloadsCreated = ''workloads_created_total''"
  "m_Name admissionsObserved = ''admissions_observed_total''"
  "m_Name kueueSuspensionsObserved = ''kueue_suspensions_observed_total''"
  "m_Name preemptionYieldsCompleted = ''preemption_yields_completed_total''"
  "m_Name duplicateChildJobSetPreventions = ''duplicate_child_jobset_preventions_total''"
  "m_Name launchesBlockedByReadinessGate = ''launches_blocked_by_readiness_gate_total''"
  "m_Name readinessGateOutcomes = ''readiness_gate_outcomes_total''"
  "m_Name topologyAwareLaunches = ''topology_aware_launches_total''"
  "m_Name topologyAssignmentWaits = ''topology_assignment_waits_total''"
  "m_Name phase4ResumesAttempted = ''phase4_resumes_attempted_total''"
  "m_Name phase4ResumesSucceeded = ''phase4_resumes_succeeded_total''"
  "m_Name phase4ResumesFailed = ''phase4_resumes_failed_total''"
  "m_Name unsupportedTopologyShapeFailures = ''unsupported_topology_shape_failures_total''"
  "m_Name priorityEvaluations = ''priority_evaluations_total''"
  "m_Name priorityPenaltiesApplied = ''priority_penalties_applied_total''"
  "m_Name priorityProtectionWindowActive = ''priority_protection_window_active''"
  "m_Name priorityEffectiveValue = ''priority_effective_value''"
  "m_Name priorityTelemetryFailures = ''priority_telemetry_failures_total''"
  "m_Name priorityDrivenPreemptions = ''priority_driven_preemptions_total''"
  "m_Name rtjsByPreemptionState = ''rtjs_by_preemption_state''"
  "m_Name priorityBasePriority = ''priority_base_value''"
  "m_Name priorityDecisionsByStateReason = ''priority_decisions_total''"
  "m_Name priorityMaterializationUpdates = ''priority_materialization_updates_total''"
  "m_Name protectedWorkloadsCount = ''protected_workloads''"
  "m_Name preemptibleWorkloadsCount = ''preemptible_workloads''"
  "m_Name yieldsBlockedByBudget = ''yields_blocked_by_budget_total''"
  "m_Name yieldsBlockedByCooldown = ''yields_blocked_by_cooldown_total''"
  "m_Name admissionComparisons = ''admission_comparisons_total''"
  "m_Name reshardRestoresAttempted = ''reshard_restores_attempted_total''"
  "m_Name reshardRestoresSucceeded = ''reshard_restores_succeeded_total''"
  "m_Name reshardRestoresFailed = ''reshard_restores_failed_total''"
  "m_Name flavorAssignments = ''flavor_assignments_total''"
  "m_Name partialAdmissionLaunches = ''partial_admission_launches_total''"
  "m_Name sameSizeResumes = ''same_size_resumes_total''"
  "m_Name differentSizeResumes = ''different_size_resumes_total''"
  "m_Name rtjsByExecutionRole = ''rtjs_by_execution_role''"
  "m_Name remoteRTJsByCluster = ''remote_rtjs_by_cluster''"
  "m_Name managerLocalSuppressions = ''manager_local_suppressions_total''"
  "m_Name remoteStatusSyncSuccesses = ''remote_status_sync_successes_total''"
  "m_Name remoteStatusSyncFailures = ''remote_status_sync_failures_total''"
  "m_Name remotePauseEvents = ''remote_pause_events_total''"
  "m_Name remoteResumeEvents = ''remote_resume_events_total''"
  "m_Name remoteCheckpointObservations = ''remote_checkpoint_observations_total''"
  "m_Name sharedStoreAccessFailures = ''shared_store_access_failures_total''"
  "m_Name rtjsByLaunchGateState = ''rtjs_by_launch_gate_state''"
  "m_Name provisioningStatesObserved = ''provisioning_states_observed_total''"
  "m_Name launchesBlockedByProvisioning = ''launches_blocked_by_provisioning_total''"
  "m_Name launchesBlockedByDelayedTopology = ''launches_blocked_by_delayed_topology_total''"
  "m_Name startupTimeoutEvents = ''startup_timeout_events_total''"
  "m_Name recoveryTimeoutEvents = ''recovery_timeout_events_total''"
  "m_Name capacityGuaranteedLaunches = ''capacity_guaranteed_launches_total''"
  "m_Name fakeProvisionerObservations = ''fake_provisioner_observations_total''"
  "m_Name fakeProvisionerFailures = ''fake_provisioner_failures_total''"
  "m_Name rtjsByDeviceMode = ''rtjs_by_device_mode''"
  "m_Name draTemplateReconciles = ''dra_template_reconciles_total''"
  "m_Name draTemplateFailures = ''dra_template_failures_total''"
  "m_Name draClaimsGenerated = ''dra_claims_generated_total''"
  "m_Name draClaimAllocationSummary = ''dra_claim_allocation_summary_total''"
  "m_Name draResumeCompatibilityChecks = ''dra_resume_compatibility_checks_total''"
  "m_Name draBackedLaunches = ''dra_backed_launches_total''"
  "m_Name draLaunchFailures = ''dra_launch_failures_total''"
  "m_Name rtjsByResizeState = ''rtjs_by_resize_state''"
  "m_Name elasticActiveWorkers = ''elastic_active_workers''"
  "m_Name elasticTargetWorkers = ''elastic_target_workers''"
  "m_Name elasticReclaimableWorkers = ''elastic_reclaimable_workers''"
  "m_Name reclaimablePodsPublicationsTotal = ''reclaimable_pods_publications_total''"
  "m_Name shrinkInPlaceSuccessesTotal = ''shrink_in_place_successes_total''"
  "m_Name shrinkInPlaceFailuresTotal = ''shrink_in_place_failures_total''"
  "m_Name growViaRelaunchTotal = ''grow_via_relaunch_total''"
  "m_Name resizeFallbackRelaunchTotal = ''resize_fallback_relaunch_total''"
  "m_Name resizeCheckpointCreationsTotal = ''resize_checkpoint_creations_total''"
  "m_Name workloadStatusPatchFailuresTotal = ''workload_status_patch_failures_total''"
  "m_Name resizePlanEvaluationsTotal = ''resize_plan_evaluations_total''"
  by (simp_all add: metric_defs metric_kinds)

lemma metric_shapes:
  "m_Kind rtjsByPhase = Gauge" "m_Labels rtjsByPhase = [''phase'']"
  "m_Kind pausesRequested = Counter" "m_Labels pausesRequested = []"
  "m_Kind pauseTimeouts = Counter" "m_Labels pauseTimeouts = []"
  "m_Kind resumesAttempted = Counter" "m_Labels resumesAttempted = []"
  "m_Kind resumesSucceeded = Counter" "m_Labels resumesSucceeded = []"
  "m_Kind resumesFailed = Counter" "m_Labels resumesFailed = []"
  "m_Kind checkpointsDiscovered = Counter" "m_Labels checkpointsDiscovered = []"
  "m_Kind workloadsCreated = Counter" "m_Labels workloadsCreated = []"
  "m_Kind admissionsObserved = Counter" "m_Labels admissionsObserved = []"
  "m_Kind kueueSuspensionsObserved = Counter" "m_Labels kueueSuspensionsObserved = []"
  "m_Kind preemptionYieldsCompleted = Counter" "m_Labels preemptionYieldsCompleted = []"
  "m_Kind duplicateChildJobSetPreventions = Counter" "m_Labels duplicateChildJobSetPreventions = []"
  "m_Kind launchesBlockedByReadinessGate = Counter" "m_Labels launchesBlockedByReadinessGate = []"
  "m_Kind readinessGateOutcomes = Counter" "m_Labels readinessGateOutcomes = [''reason'']"
  "m_Kind topologyAwareLaunches = Counter" "m_Labels topologyAwareLaunches = []"
  "m_Kind topologyAssignmentWaits = Counter" "m_Labels topologyAssignmentWaits = []"
  "m_Kind phase4ResumesAttempted = Counter" "m_Labels phase4ResumesAttempted = []"
  "m_Kind phase4ResumesSucceeded = Counter" "m_Labels phase4ResumesSucceeded = []"
  "m_Kind phase4ResumesFailed = Counter" "m_Labels phase4ResumesFailed = []"
  "m_Kind unsupportedTopologyShapeFailures = Counter" "m_Labels unsupportedTopologyShapeFailures = []"
  "m_Kind priorityEvaluations = Counter" "m_Labels priorityEvaluations = []"
  "m_Kind priorityPenaltiesApplied = Counter" "m_Labels priorityPenaltiesApplied = []"
  "m_Kind priorityProtectionWindowActive = Gauge" "m_Labels priorityProtectionWindowActive = []"
  "m_Kind priorityEffectiveValue = Gauge" "m_Labels priorityEffectiveValue = [''rtj'']"
  "m_Kind priorityTelemetryFailures = Counter" "m_Labels priorityTelemetryFailures = []"
  "m_Kind priorityDrivenPreemptions = Counter" "m_Labels priorityDrivenPreemptions = []"
  "m_Kind rtjsByPreemptionState = Gauge" "m_Labels rtjsByPreemptionState = [''state'']"
  "m_Kind priorityBasePriority = Gauge" "m_Labels priorityBasePriority = [''rtj'']"
  "m_Kind priorityDecisionsByStateReason = Counter" "m_Labels priorityDecisionsByStateReason = [''state'', ''reason'']"
  "m_Kind priorityMaterializationUpdates = Counter" "m_Labels priorityMaterializationUpdates = []"
  "m_Kind protectedWorkloadsCount = Gauge" "m_Labels protectedWorkloadsCount = []"
  "m_Kind preemptibleWorkloadsCount = Gauge" "m_Labels preemptibleWorkloadsCount = []"
  "m_Kind yieldsBlockedByBudget = Counter" "m_Labels yieldsBlockedByBudget = []"
  "m_Kind yieldsBlockedByCooldown = Counter" "m_Labels yieldsBlockedByCooldown = []"
  "m_Kind admissionComparisons = Counter" "m_Labels admissionComparisons = [''comparison'']"
  "m_Kind reshardRestoresAttempted = Counter" "m_Labels reshardRestoresAttempted = []"
  "m_Kind reshardRestoresSucceeded = Counter" "m_Labels reshardRestoresSucceeded = []"
  "m_Kind reshardRestoresFailed = Counter" "m_Labels reshardRestoresFailed = []"
  "m_Kind flavorAssignments = Counter" "m_Labels flavorAssignments = [''flavor'']"
  "m_Kind partialAdmissionLaunches = Counter" "m_Labels partialAdmissionLaunches = []"
  "m_Kind sameSizeResumes = Counter" "m_Labels sameSizeResumes = []"
  "m_Kind differentSizeResumes = Counter" "m_Labels differentSizeResumes = []"
  "m_Kind rtjsByExecutionRole = Gauge" "m_Labels rtjsByExecutionRole = [''role'']"
  "m_Kind remoteRTJsByCluster = Gauge" "m_Labels remoteRTJsByCluster = [''cluster'']"
  "m_Kind managerLocalSuppressions = Counter" "m_Labels managerLocalSuppressions = []"
  "m_Kind remoteStatusSyncSuccesses = Counter" "m_Labels remoteStatusSyncSuccesses = []"
  "m_Kind remoteStatusSyncFailures = Counter" "m_Labels remoteStatusSyncFailures = []"
  "m_Kind remotePauseEvents = Counter" "m_Labels remotePauseEvents = []"
  "m_Kind remoteResumeEvents = Counter" "m_Labels remoteResumeEvents = []"
  "m_Kind remoteCheckpointObservations = Counter" "m_Labels remoteCheckpointObservations = []"
  "m_Kind sharedStoreAccessFailures = Counter" "m_Labels sharedStoreAccessFailures = []"
  "m_Kind rtjsByLaunchGateState = Gauge" "m_Labels rtjsByLaunchGateState = [''state'']"
  "m_Kind provisioningStatesObserved = Counter" "m_Labels provisioningStatesObserved = [''state'']"
  "m_Kind launchesBlockedByProvisioning = Counter" "m_Labels launchesBlockedByProvisioning = []"
  "m_Kind launchesBlockedByDelayedTopology = Counter" "m_Labels launchesBlockedByDelayedTopology = []"
  "m_Kind startupTimeoutEvents = Counter" "m_Labels startupTimeoutEvents = []"
  "m_Kind recoveryTimeoutEvents = Counter" "m_Labels recoveryTimeoutEvents = []"
  "m_Kind capacityGuaranteedLaunches = Counter" "m_Labels capacityGuaranteedLaunches = []"
  "m_Kind fakeProvisionerObservations = Counter" "m_Labels fakeProvisionerObservations = []"
  "m_Kind fakeProvisionerFailures = Counter" "m_Labels fakeProvisionerFailures = []"
  "m_Kind rtjsByDeviceMode = Gauge" "m_Labels rtjsByDeviceMode = [''mode'']"
  "m_Kind draTemplateReconciles = Counter" "m_Labels draTemplateReconciles = []"
  "m_Kind draTemplateFailures = Counter" "m_Labels draTemplateFailures = []"
  "m_Kind draClaimsGenerated = Counter" "m_Labels draClaimsGenerated = []"
  "m_Kind draClaimAllocationSummary = Counter" "m_Labels draClaimAllocationSummary = [''state'']"
  "m_Kind draResumeCompatibilityChecks = Counter" "m_Labels draResumeCompatibilityChecks = [''result'']"
  "m_Kind draBackedLaunches = Counter" "m_Labels draBackedLaunches = []"
  "m_Kind draLaunchFailures = Counter" "m_Labels draLaunchFailures = []"
  "m_Kind rtjsByResizeState = Gauge" "m_Labels rtjsByResizeState = [''state'']"
  "m_Kind elasticActiveWorkers = Gauge" "m_Labels elasticActiveWorkers = [''rtj'']"
  "m_Kind elasticTargetWorkers = Gauge" "m_Labels elasticTargetWorkers = [''rtj'']"
  "m_Kind elasticReclaimableWorkers = Gauge" "m_Labels elasticReclaimableWorkers = [''rtj'']"
  "m_Kind reclaimablePodsPublicationsTotal = Counter" "m_Labels reclaimablePodsPublicationsTotal = []"
  "m_Kind shrinkInPlaceSuccessesTotal = Counter" "m_Labels shrinkInPlaceSuccessesTotal = []"
  "m_Kind shrinkInPlaceFailuresTotal = Counter" "m_Labels shrinkInPlaceFailuresTotal = []"
  "m_Kind growViaRelaunchTotal = Counter" "m_Labels growViaRelaunchTotal = []"
  "m_Kind resizeFallbackRelaunchTotal = Counter" "m_Labels resizeFallbackRelaunchTotal = []"
  "m_Kind resizeCheckpointCreationsTotal = Counter" "m_Labels resizeCheckpointCreationsTotal = []"
  "m_Kind workloadStatusPatchFailuresTotal = Counter" "m_Labels workloadStatusPatchFailuresTotal = []"
  "m_Kind resizePlanEvaluationsTotal = Counter" "m_Labels resizePlanEvaluationsTotal = [''kind'']"
  by (simp_all add: metric_defs metric_kinds)

lemma stateless_names:
  "stateless f \<Longrightarrow> list_all (\<lambda>op. m_Name (op_metric op) \<notin> set (map m_Name tracked_metrics)) (f r)"
  by (induction rule: stateless.induct) (simp_all add: tracked_metrics_def stateless_defs metric_names)

lemma stateless_untracked: "stateless f \<Longrightarrow> op \<in> set (f r) \<Longrightarrow> op_metric op \<notin> set tracked_metrics"
  using stateless_names [of f r] by (force simp: list_all_iff)

definition workloads_exact :: "Recorder \<Rightarrow> metric_op list \<Rightarrow> bool" where
  "workloads_exact r ops \<longleftrightarrow>
     finite (dom (rec_workloads r)) \<and> (\<forall>k w. rec_workloads r k = Some w \<longrightarrow> wo_created w)
     \<and> (\<forall>op \<in> set ops. \<not> overwrites workloadsCreated op \<and> \<not> overwrites admissionsObserved op)
     \<and> shift workloadsCreated [] ops = real (card (dom (rec_workloads r)))
     \<and> shift admissionsObserved [] ops = real (card {k. \<exists>w. rec_workloads r k = Some w \<and> wo_admitted w})"

lemma workloads_exact_frame:
  assumes "workloads_exact r ops" and "rec_workloads r' = rec_workloads r"
    and "\<forall>op \<in> set ops'. op_metric op \<noteq> workloadsCreated \<and> op_metric op \<noteq> admissionsObserved"
  shows "workloads_exact r' (ops @ ops')"
proof -
  have "shift workloadsCreated [] ops' = 0" "shift admissionsObserved [] ops' = 0"
    using assms(3) by (induction ops') (auto simp: other_metric)
  then show ?thesis using assms by (auto simp: workloads_exact_def other_metric)
qed

lemma metrics_differ:
  "rtjsByPhase \<noteq> rtjsByLaunchGateState" "rtjsByPhase \<noteq> rtjsByDeviceMode" "rtjsByPhase \<noteq> rtjsByResizeState"
  "rtjsByLaunchGateState \<noteq> rtjsByDeviceMode" "rtjsByLaunchGateState \<noteq> rtjsByResizeState" "rtjsByDeviceMode \<noteq> rtjsByResizeState"
  "workloadsCreated \<noteq> rtjsByPhase" "workloadsCreated \<noteq> rtjsByLaunchGateState" "workloadsCreated \<noteq> rtjsByDeviceMode"
  "workloadsCreated \<noteq> rtjsByResizeState" "admissionsObserved \<noteq> rtjsByPhase" "admissionsObserved \<noteq> rtjsByLaunchGateState"
  "admissionsObserved \<noteq> rtjsByDeviceMode" "admissionsObserved \<noteq> rtjsByResizeState" "admissionsObserved \<noteq> workloadsCreated"
  by (auto dest: arg_cong [where f = m_Name] simp: metric_names)

lemma card_insert_flag:
  "finite A \<Longrightarrow> real (card (insert x A)) = real (card A) + of_bool (x \<notin> A)"
  by (simp add: card_insert_if)

lemma ObserveWorkload_exact:
  assumes "workloads_exact r ops" and "ObserveWorkload workload (Some r) = (ops', Some r')"
  shows "workloads_exact r' (ops @ ops')"
proof (cases "\<exists>uid wl. workload = Some (uid, wl) \<and> uid \<noteq> ''''")
  case False
  then have "r' = r" "ops' = []" using assms(2) by (auto simp: ObserveWorkload_def split: option.splits if_splits)
  then show ?thesis using assms(1) by simp
next
  case True
  then obtain uid wl where w: "workload = Some (uid, wl)" "uid \<noteq> ''''" by blast
  let ?m = "rec_workloads r"
  let ?A = "{k. \<exists>w. ?m k = Some w \<and> wo_admitted w}"
  have fin: "finite (dom ?m)" "finite ?A"
    using assms(1) by (auto simp: workloads_exact_def intro: finite_subset [of ?A "dom ?m"])
  have dom: "dom (rec_workloads r') = insert uid (dom ?m)"
    using assms(2) w by (auto simp: ObserveWorkload_def Let_def)
  have new: "shift workloadsCreated [] ops' = of_bool (uid \<notin> dom ?m)"
    using assms w by (auto simp: ObserveWorkload_def Let_def workloads_exact_def metrics_differ metrics_differ [symmetric] dom_def
        split: option.splits if_splits)
  have adm: "{k. \<exists>w. rec_workloads r' k = Some w \<and> wo_admitted w} = (if wl_Admission wl \<noteq> None then insert uid ?A else ?A)"
    using assms(2) w by (auto simp: ObserveWorkload_def Let_def split: option.splits if_splits)
  have newadm: "shift admissionsObserved [] ops' = of_bool (wl_Admission wl \<noteq> None \<and> uid \<notin> ?A)"
    using assms(2) w by (auto simp: ObserveWorkload_def Let_def metrics_differ metrics_differ [symmetric] split: option.splits if_splits)
  have "\<forall>k w. rec_workloads r' k = Some w \<longrightarrow> wo_created w"
    using assms w by (auto simp: ObserveWorkload_def Let_def workloads_exact_def split: option.splits if_splits)
  moreover have "\<forall>op \<in> set ops'. \<not> overwrites workloadsCreated op \<and> \<not> overwrites admissionsObserved op"
    using assms(2) w by (auto simp: ObserveWorkload_def Let_def split: option.splits if_splits)
  ultimately show ?thesis using assms(1) fin
    by (auto simp: workloads_exact_def dom new adm newadm card_insert_flag)
qed

definition recorder_exact :: "Recorder \<Rightarrow> metric_op list \<Rightarrow> bool" where
  "recorder_exact r ops \<longleftrightarrow>
     gauge_exact rtjsByPhase (rec_phases r) ops \<and> gauge_exact rtjsByLaunchGateState (rec_launchGateState r) ops
     \<and> gauge_exact rtjsByDeviceMode (rec_deviceModeState r) ops \<and> gauge_exact rtjsByResizeState (rec_resizeState r) ops
     \<and> workloads_exact r ops"

text \<open>What a stateful method leaves alone: the other maps and their metrics.\<close>

lemma stateful_metrics:
  "ObservePhase key state (Some r) = (ops, Some r') \<or> RemoveRTJ key (Some r) = (ops, Some r') \<Longrightarrow>
     (\<forall>op \<in> set ops. op_metric op = rtjsByPhase) \<and> rec_launchGateState r' = rec_launchGateState r \<and> rec_deviceModeState r' = rec_deviceModeState r \<and> rec_resizeState r' = rec_resizeState r \<and> rec_workloads r' = rec_workloads r"
  "ObserveLaunchGateState key state (Some r) = (ops, Some r') \<or> RemoveLaunchGateState key (Some r) = (ops, Some r') \<Longrightarrow>
     (\<forall>op \<in> set ops. op_metric op = rtjsByLaunchGateState) \<and> rec_phases r' = rec_phases r \<and> rec_deviceModeState r' = rec_deviceModeState r \<and> rec_resizeState r' = rec_resizeState r \<and> rec_workloads r' = rec_workloads r"
  "ObserveDeviceMode key state (Some r) = (ops, Some r') \<or> RemoveDeviceMode key (Some r) = (ops, Some r') \<Longrightarrow>
     (\<forall>op \<in> set ops. op_metric op = rtjsByDeviceMode) \<and> rec_phases r' = rec_phases r \<and> rec_launchGateState r' = rec_launchGateState r \<and> rec_resizeState r' = rec_resizeState r \<and> rec_workloads r' = rec_workloads r"
  "ObserveResizeState key state (Some r) = (ops, Some r') \<or> RemoveResizeState key (Some r) = (ops, Some r') \<Longrightarrow>
     (\<forall>op \<in> set ops. op_metric op = rtjsByResizeState) \<and> rec_phases r' = rec_phases r \<and> rec_launchGateState r' = rec_launchGateState r \<and> rec_deviceModeState r' = rec_deviceModeState r \<and> rec_workloads r' = rec_workloads r"
  "ObserveWorkload workload (Some r) = (ops, Some r') \<Longrightarrow>
     (\<forall>op \<in> set ops. op_metric op \<in> {workloadsCreated, admissionsObserved}) \<and> rec_phases r' = rec_phases r \<and> rec_launchGateState r' = rec_launchGateState r \<and> rec_deviceModeState r' = rec_deviceModeState r \<and> rec_resizeState r' = rec_resizeState r"
  by (auto simp: stateful_defs Let_def split: option.splits if_splits)

lemma gauge_exact_other:
  "gauge_exact gauge t ops \<Longrightarrow> \<forall>op \<in> set ops'. op_metric op \<noteq> gauge \<Longrightarrow> gauge_exact gauge t (ops @ ops')"
  by (rule gauge_exact_frame) (auto simp: other_metric)

lemmas metrics_distinct = metrics_differ metrics_differ [symmetric]

text \<open>A step keeps the registry exact when each map either follows its metric or, with its metric, is left alone.\<close>

lemma recorder_exact_step:
  assumes "recorder_exact r ops"
    and "gauge_exact rtjsByPhase (rec_phases r') (ops @ ops')
         \<or> rec_phases r' = rec_phases r \<and> (\<forall>op \<in> set ops'. op_metric op \<noteq> rtjsByPhase)"
    and "gauge_exact rtjsByLaunchGateState (rec_launchGateState r') (ops @ ops')
         \<or> rec_launchGateState r' = rec_launchGateState r \<and> (\<forall>op \<in> set ops'. op_metric op \<noteq> rtjsByLaunchGateState)"
    and "gauge_exact rtjsByDeviceMode (rec_deviceModeState r') (ops @ ops')
         \<or> rec_deviceModeState r' = rec_deviceModeState r \<and> (\<forall>op \<in> set ops'. op_metric op \<noteq> rtjsByDeviceMode)"
    and "gauge_exact rtjsByResizeState (rec_resizeState r') (ops @ ops')
         \<or> rec_resizeState r' = rec_resizeState r \<and> (\<forall>op \<in> set ops'. op_metric op \<noteq> rtjsByResizeState)"
    and "workloads_exact r' (ops @ ops')
         \<or> rec_workloads r' = rec_workloads r \<and> (\<forall>op \<in> set ops'. op_metric op \<noteq> workloadsCreated \<and> op_metric op \<noteq> admissionsObserved)"
  shows "recorder_exact r' (ops @ ops')"
  using assms by (auto simp: recorder_exact_def intro: gauge_exact_other workloads_exact_frame)

lemma recorder_exactD:
  "recorder_exact r ops \<Longrightarrow> gauge_exact rtjsByPhase (rec_phases r) ops"
  "recorder_exact r ops \<Longrightarrow> gauge_exact rtjsByLaunchGateState (rec_launchGateState r) ops"
  "recorder_exact r ops \<Longrightarrow> gauge_exact rtjsByDeviceMode (rec_deviceModeState r) ops"
  "recorder_exact r ops \<Longrightarrow> gauge_exact rtjsByResizeState (rec_resizeState r) ops"
  "recorder_exact r ops \<Longrightarrow> workloads_exact r ops"
  by (simp_all add: recorder_exact_def)

lemma stateful_exact:
  assumes "stateful f" and "recorder_exact r ops" and "f (Some r) = (ops', Some r')"
  shows "recorder_exact r' (ops @ ops')"
  using assms(1)
proof (cases rule: stateful.cases)
  case (1 key state)
  show ?thesis using by_phase.observe_exact [OF recorder_exactD(1) [OF assms(2)]] stateful_metrics(1) assms(3)
    by (intro recorder_exact_step [OF assms(2)]) (fastforce simp: 1 metrics_distinct)+
next
  case (2 key)
  show ?thesis using by_phase.remove_exact [OF recorder_exactD(1) [OF assms(2)]] stateful_metrics(1) assms(3)
    by (intro recorder_exact_step [OF assms(2)]) (fastforce simp: 2 metrics_distinct)+
next
  case (3 key state)
  show ?thesis using by_launch_gate.observe_exact [OF recorder_exactD(2) [OF assms(2)]] stateful_metrics(2) assms(3)
    by (intro recorder_exact_step [OF assms(2)]) (fastforce simp: 3 metrics_distinct)+
next
  case (4 key)
  show ?thesis using by_launch_gate.remove_exact [OF recorder_exactD(2) [OF assms(2)]] stateful_metrics(2) assms(3)
    by (intro recorder_exact_step [OF assms(2)]) (fastforce simp: 4 metrics_distinct)+
next
  case (5 key state)
  show ?thesis using by_device_mode.observe_exact [OF recorder_exactD(3) [OF assms(2)]] stateful_metrics(3) assms(3)
    by (intro recorder_exact_step [OF assms(2)]) (fastforce simp: 5 metrics_distinct)+
next
  case (6 key)
  show ?thesis using by_device_mode.remove_exact [OF recorder_exactD(3) [OF assms(2)]] stateful_metrics(3) assms(3)
    by (intro recorder_exact_step [OF assms(2)]) (fastforce simp: 6 metrics_distinct)+
next
  case (7 key state)
  show ?thesis using by_resize_state.observe_exact [OF recorder_exactD(4) [OF assms(2)]] stateful_metrics(4) assms(3)
    by (intro recorder_exact_step [OF assms(2)]) (fastforce simp: 7 metrics_distinct)+
next
  case (8 key)
  show ?thesis using by_resize_state.remove_exact [OF recorder_exactD(4) [OF assms(2)]] stateful_metrics(4) assms(3)
    by (intro recorder_exact_step [OF assms(2)]) (fastforce simp: 8 metrics_distinct)+
next
  case (9 workload)
  show ?thesis using ObserveWorkload_exact [OF recorder_exactD(5) [OF assms(2)]] stateful_metrics(5) assms(3)
    by (intro recorder_exact_step [OF assms(2)]) (fastforce simp: 9 metrics_distinct)+
qed

lemma runs_exact: "recorder_runs ops r \<Longrightarrow> recorder_exact r ops"
proof (induction rule: recorder_runs.induct)
  case (created metrics r)
  then show ?case by (auto simp: NewRecorder_def recorder_exact_def gauge_exact_def workloads_exact_def)
next
  case (counted ops r f)
  have "\<forall>op \<in> set (f (Some r)). op_metric op \<notin> set tracked_metrics"
    using stateless_untracked [OF counted.hyps(2)] by blast
  then show ?case by (intro recorder_exact_step [OF counted.IH]) (auto simp: tracked_metrics_def)
next
  case (observed ops r f ops' r')
  then show ?case using stateful_exact by blast
qed

text \<open>When the library refuses an operation: the metric is not registered, a number of label values that differs from
  the declared labels, a counter that is made to fall.\<close>

definition op_ok :: "metric_op \<Rightarrow> bool" where
  "op_ok op \<longleftrightarrow>
     op_metric op \<in> set MustRegister \<and> length (op_labels op) = length (m_Labels (op_metric op))
     \<and> (m_Kind (op_metric op) = Counter \<longrightarrow> (case op of Inc _ _ \<Rightarrow> True | Add _ _ x \<Rightarrow> 0 \<le> x | _ \<Rightarrow> False))"

lemma stateless_all_ok: "stateless f \<Longrightarrow> list_all op_ok (f r)"
  by (induction rule: stateless.induct) (simp_all add: op_ok_def stateless_defs MustRegister_def metric_shapes)

lemma stateless_ok: "stateless f \<Longrightarrow> op \<in> set (f r) \<Longrightarrow> op_ok op"
  using stateless_all_ok by (auto simp: list_all_iff)

lemma tracked_registered:
  "rtjsByPhase \<in> set MustRegister"
  "rtjsByLaunchGateState \<in> set MustRegister"
  "rtjsByDeviceMode \<in> set MustRegister"
  "rtjsByResizeState \<in> set MustRegister"
  "workloadsCreated \<in> set MustRegister"
  "admissionsObserved \<in> set MustRegister"
  by (simp_all add: MustRegister_def)

lemma tracked_shape:
  "m_Kind rtjsByPhase = Gauge" "length (m_Labels rtjsByPhase) = 1"
  "m_Kind rtjsByLaunchGateState = Gauge" "length (m_Labels rtjsByLaunchGateState) = 1"
  "m_Kind rtjsByDeviceMode = Gauge" "length (m_Labels rtjsByDeviceMode) = 1"
  "m_Kind rtjsByResizeState = Gauge" "length (m_Labels rtjsByResizeState) = 1"
  "m_Labels workloadsCreated = []" "m_Labels admissionsObserved = []"
  by (simp_all add: metric_shapes)

lemma stateful_ok: "stateful f \<Longrightarrow> f (Some r) = (ops, Some r') \<Longrightarrow> op \<in> set ops \<Longrightarrow> op_ok op"
  by (induction rule: stateful.induct)
    (auto simp: op_ok_def stateful_defs Let_def tracked_registered tracked_shape split: option.splits if_splits)

lemma runs_ok: "recorder_runs ops r \<Longrightarrow> \<forall>op \<in> set ops. op_ok op"
  by (induction rule: recorder_runs.induct) (use stateless_ok stateful_ok in auto)

lemma names_distinct: "distinct (map m_Name MustRegister)"
proof -
  define code where "code = foldl (\<lambda>a c. (2 * a + of_char c) mod 4093) (0::nat)"
  have "distinct (map code (map m_Name MustRegister))" by (simp add: MustRegister_def metric_names code_def)
  then show ?thesis by (metis distinct_map)
qed

lemma fqName_inj: "fqName m = fqName m' \<longleftrightarrow> m_Name m = m_Name m'"
  by (simp add: fqName_def)

lemma fqNames_distinct: "distinct (map fqName MustRegister)"
  using names_distinct by (simp add: distinct_map inj_on_def fqName_inj)

lemma nil_stateless: "stateless f \<Longrightarrow> f None = []"
  by (induction rule: stateless.induct) (simp_all add: stateless_defs)

lemma nil_stateful: "stateful f \<Longrightarrow> f None = ([], None)"
  by (induction rule: stateful.induct) (simp_all add: stateful_defs)

section \<open>Properties\<close>


lemma two_jobs:
  "\<exists>ops r. recorder_runs ops r \<and> rec_phases r = [''a'' \<mapsto> ''Running'', ''b'' \<mapsto> ''Running'']"
proof -
  let ?r = "\<lparr> rec_phases = Map.empty, rec_workloads = Map.empty, rec_launchGateState = Map.empty,
              rec_deviceModeState = Map.empty, rec_resizeState = Map.empty \<rparr>"
  have "recorder_runs [] ?r" by (rule recorder_runs.created) (simp add: NewRecorder_def)
  from recorder_runs.observed [OF this stateful.intros(1), of "''a''" "''Pending''"]
  have "recorder_runs [Inc rtjsByPhase [''Pending'']] (?r\<lparr> rec_phases := [''a'' \<mapsto> ''Pending''] \<rparr>)"
    by (simp add: ObservePhase_def)
  from recorder_runs.observed [OF this stateful.intros(1), of "''a''" "''Running''"]
  have "recorder_runs [Inc rtjsByPhase [''Pending''], Dec rtjsByPhase [''Pending''], Inc rtjsByPhase [''Running'']]
     (?r\<lparr> rec_phases := [''a'' \<mapsto> ''Running''] \<rparr>)"
    by (simp add: ObservePhase_def)
  from recorder_runs.observed [OF this stateful.intros(1), of "''b''" "''Running''"]
  show ?thesis by (auto simp: ObservePhase_def intro!: exI)
qed


text \<open>
  No call of the recorder can make the metrics library panic.  The full names of the registered metrics are
  distinct, and every operation any sequence of calls performs is on a registered metric, with as many label values as
  the metric declares, and never lowers or resets a counter; on a nil recorder every method does nothing.
\<close>

theorem recorder_calls_safe:
  "distinct (map fqName (fst (NewRecorder None)))
   \<and> (\<forall>ops r. recorder_runs ops r \<longrightarrow> (\<forall>op \<in> set ops. op_ok op))
   \<and> (\<forall>f. stateless f \<longrightarrow> f None = []) \<and> (\<forall>f. stateful f \<longrightarrow> f None = ([], None))"
  using fqNames_distinct runs_ok nil_stateless nil_stateful by (simp add: NewRecorder_def)

end
