(* ===== verification/Go_URL.thy ===== *)
theory Go_URL
  imports Kueue_Types
begin

text \<open>
  \<open>net/url\<close> as the object store uses it: \<open>url.Parse\<close> with its error texts, and \<open>Hostname\<close> (Go 1.25.0, the version the
  module names).  Of the parsed URL only the scheme, the host and the decoded path are kept; user information, query
  and fragment are checked for the errors they cause and dropped.
\<close>

section \<open>Splitting\<close>

text \<open>\<open>strings.Cut\<close> at the first separator, and the split at the last one.\<close>

definition cut :: "char \<Rightarrow> string \<Rightarrow> string \<times> string option" where
  "cut c s = (takeWhile (\<lambda>x. x \<noteq> c) s, case dropWhile (\<lambda>x. x \<noteq> c) s of [] \<Rightarrow> None | _ # t \<Rightarrow> Some t)"

definition cut_last :: "char \<Rightarrow> string \<Rightarrow> (string \<times> string) option" where
  "cut_last c s =
     (case cut c (rev s) of (_, None) \<Rightarrow> None | (t, Some h) \<Rightarrow> Some (rev h, rev t))"

definition HasSuffix :: "string \<Rightarrow> string \<Rightarrow> bool" where
  "HasSuffix s p = HasPrefix (rev s) (rev p)"

definition TrimPrefix :: "string \<Rightarrow> string \<Rightarrow> string" where
  "TrimPrefix s p = (if HasPrefix s p then drop (length p) s else s)"

definition ToLower :: "string \<Rightarrow> string" where
  "ToLower s = map to_lower s"

section \<open>Escapes\<close>

definition is_alpha :: "char \<Rightarrow> bool" where
  "is_alpha c = (let n = of_char c :: nat in 97 \<le> n \<and> n \<le> 122 \<or> 65 \<le> n \<and> n \<le> 90)"

definition unhex :: "char \<Rightarrow> nat option" where
  "unhex c = (let n = of_char c :: nat in
     if 48 \<le> n \<and> n \<le> 57 then Some (n - 48)
     else if 97 \<le> n \<and> n \<le> 102 then Some (n - 87)
     else if 65 \<le> n \<and> n \<le> 70 then Some (n - 55) else None)"

datatype encoding = encodePath | encodeUserPassword | encodeHost | encodeZone | encodeFragment

text \<open>The bytes a host may contain unescaped.\<close>

definition host_char :: "char \<Rightarrow> bool" where
  "host_char c \<longleftrightarrow> is_alpha c \<or> is_digit c \<or> c \<in> set ''-_.~!$&()*+,;=:[]<>'' \<or> of_char c \<in> {34::nat, 39}"

definition EscapeError :: "string \<Rightarrow> string" where
  "EscapeError s = ''invalid URL escape '' @ quote s"

definition escape_ok :: "encoding \<Rightarrow> nat \<Rightarrow> nat \<Rightarrow> bool" where
  "escape_ok mode a b =
     (case mode of
        encodeHost \<Rightarrow> 8 \<le> a \<or> a = 2 \<and> b = 5
      | encodeZone \<Rightarrow> a = 2 \<and> b = 5 \<or> a = 2 \<and> b = 0 \<or> host_char (char_of (16 * a + b))
      | _ \<Rightarrow> True)"

fun unescape :: "encoding \<Rightarrow> string \<Rightarrow> go_err + string" where
  "unescape mode [] = Inr []"
| "unescape mode (c # s) =
     (if c = CHR ''%'' then
        (case s of
           x # y # t \<Rightarrow>
             (case (unhex x, unhex y) of
                (Some a, Some b) \<Rightarrow>
                  if \<not> escape_ok mode a b then Inl (EscapeError [c, x, y])
                  else (case unescape mode t of Inl err \<Rightarrow> Inl err | Inr r \<Rightarrow> Inr (char_of (16 * a + b) # r))
              | _ \<Rightarrow> Inl (EscapeError [c, x, y]))
         | _ \<Rightarrow> Inl (EscapeError (c # s)))
      else if mode \<in> {encodeHost, encodeZone} \<and> of_char c < (128::nat) \<and> \<not> host_char c
      then Inl (''invalid character '' @ quote [c] @ '' in host name'')
      else (case unescape mode s of Inl err \<Rightarrow> Inl err | Inr r \<Rightarrow> Inr (c # r)))"

section \<open>Parsing\<close>

definition validOptionalPort :: "string \<Rightarrow> bool" where
  "validOptionalPort port =
     (case port of [] \<Rightarrow> True | c # t \<Rightarrow> c = CHR '':'' \<and> list_all is_digit t)"

definition invalid_port :: "string \<Rightarrow> go_err" where
  "invalid_port port = ''invalid port '' @ quote port @ '' after host''"

text \<open>The index of \<open>%25\<close> in a bracketed host: the part before it and the part from it on.\<close>

fun split_zone :: "string \<Rightarrow> (string \<times> string) option" where
  "split_zone [] = None"
| "split_zone (c # s) =
     (if HasPrefix (c # s) ''%25'' then Some ([], c # s)
      else map_option (\<lambda>(a, b). (c # a, b)) (split_zone s))"

definition parseHost :: "string \<Rightarrow> go_err + string" where
  "parseHost host =
     (if HasPrefix host ''['' then
        (case cut_last (CHR '']'') host of
           None \<Rightarrow> Inl (''missing '' @ [char_of (39::nat)] @ '']'' @ [char_of (39::nat)] @ '' in host'')
         | Some (inside, colonPort) \<Rightarrow>
             if \<not> validOptionalPort colonPort then Inl (invalid_port colonPort)
             else (case split_zone inside of
                     None \<Rightarrow> unescape encodeHost host
                   | Some (h, z) \<Rightarrow>
                       (case (unescape encodeHost h, unescape encodeZone z, unescape encodeHost ('']'' @ colonPort)) of
                          (Inr h1, Inr h2, Inr h3) \<Rightarrow> Inr (h1 @ h2 @ h3)
                        | (Inl err, _, _) \<Rightarrow> Inl err
                        | (_, Inl err, _) \<Rightarrow> Inl err
                        | (_, _, Inl err) \<Rightarrow> Inl err)))
      else (case cut_last (CHR '':'') host of
              Some (_, port) \<Rightarrow>
                if \<not> validOptionalPort ('':'' @ port) then Inl (invalid_port ('':'' @ port)) else unescape encodeHost host
            | None \<Rightarrow> unescape encodeHost host))"

definition validUserinfo :: "string \<Rightarrow> bool" where
  "validUserinfo s =
     list_all (\<lambda>c. is_alpha c \<or> is_digit c \<or> c \<in> set ''-._:~!$&()*+,;=%@'' \<or> of_char c = (39::nat)) s"

text \<open>User name and password are decoded one by one.\<close>

definition userinfo_error :: "string \<Rightarrow> go_err option" where
  "userinfo_error userinfo =
     (if \<not> validUserinfo userinfo then Some ''net/url: invalid userinfo''
      else (case cut (CHR '':'') userinfo of
              (u, None) \<Rightarrow> (case unescape encodeUserPassword u of Inl err \<Rightarrow> Some err | Inr _ \<Rightarrow> None)
            | (u, Some p) \<Rightarrow>
                (case unescape encodeUserPassword u of
                   Inl err \<Rightarrow> Some err
                 | Inr _ \<Rightarrow> (case unescape encodeUserPassword p of Inl err \<Rightarrow> Some err | Inr _ \<Rightarrow> None))))"

definition parseAuthority :: "string \<Rightarrow> go_err + string" where
  "parseAuthority authority =
     (case cut_last (CHR ''@'') authority of
        None \<Rightarrow> parseHost authority
      | Some (userinfo, h) \<Rightarrow>
          (case parseHost h of
             Inl err \<Rightarrow> Inl err
           | Inr host \<Rightarrow> (case userinfo_error userinfo of Some err \<Rightarrow> Inl err | None \<Rightarrow> Inr host)))"

text \<open>The scheme: letters, then letters, digits, \<open>+\<close>, \<open>-\<close> and \<open>.\<close> up to a colon; anything else means there is none.\<close>

fun scan_scheme :: "bool \<Rightarrow> string \<Rightarrow> string \<Rightarrow> (string \<times> string) option option" where
  "scan_scheme first acc [] = Some None"
| "scan_scheme first acc (c # s) =
     (if is_alpha c then scan_scheme False (c # acc) s
      else if is_digit c \<or> c \<in> set ''+-.'' then (if first then Some None else scan_scheme False (c # acc) s)
      else if c = CHR '':'' then (if first then None else Some (Some (rev acc, s)))
      else Some None)"

definition getScheme :: "string \<Rightarrow> go_err + string \<times> string" where
  "getScheme rawURL =
     (case scan_scheme True [] rawURL of
        None \<Rightarrow> Inl ''missing protocol scheme''
      | Some None \<Rightarrow> Inr ([], rawURL)
      | Some (Some (scheme, rest)) \<Rightarrow> Inr (scheme, rest))"

record URL =
  url_Scheme :: string
  url_Host :: string
  url_Path :: string

definition is_ctl :: "char \<Rightarrow> bool" where
  "is_ctl c = (let n = of_char c :: nat in n < 32 \<or> n = 127)"

definition set_path :: "string \<Rightarrow> string \<Rightarrow> string \<Rightarrow> go_err + URL" where
  "set_path scheme host rest =
     (case unescape encodePath rest of
        Inl err \<Rightarrow> Inl err
      | Inr path \<Rightarrow> Inr \<lparr> url_Scheme = scheme, url_Host = host, url_Path = path \<rparr>)"

definition parse_url :: "string \<Rightarrow> go_err + URL" where
  "parse_url rawURL =
     (if list_ex is_ctl rawURL then Inl ''net/url: invalid control character in URL''
      else if rawURL = ''*'' then Inr \<lparr> url_Scheme = [], url_Host = [], url_Path = ''*'' \<rparr>
      else case getScheme rawURL of
        Inl err \<Rightarrow> Inl err
      | Inr (scheme0, rest0) \<Rightarrow>
          (let scheme = ToLower scheme0; rest = fst (cut (CHR ''?'') rest0) in
           if \<not> HasPrefix rest ''/'' \<and> scheme \<noteq> []
           then Inr \<lparr> url_Scheme = scheme, url_Host = [], url_Path = [] \<rparr>
           else if \<not> HasPrefix rest ''/'' \<and> CHR '':'' \<in> set (fst (cut (CHR ''/'') rest))
           then Inl ''first path segment in URL cannot contain colon''
           else if (scheme \<noteq> [] \<or> \<not> HasPrefix rest ''///'') \<and> HasPrefix rest ''//''
           then (case cut (CHR ''/'') (drop 2 rest) of
                   (authority, tail) \<Rightarrow>
                     (case parseAuthority authority of
                        Inl err \<Rightarrow> Inl err
                      | Inr host \<Rightarrow> set_path scheme host (case tail of None \<Rightarrow> [] | Some t \<Rightarrow> ''/'' @ t)))
           else set_path scheme [] rest))"

definition Parse_URL :: "string \<Rightarrow> go_err + URL" where
  "Parse_URL rawURL =
     (case cut (CHR ''#'') rawURL of
        (u, frag) \<Rightarrow>
          (case parse_url u of
             Inl err \<Rightarrow> Inl (''parse '' @ quote u @ '': '' @ err)
           | Inr url \<Rightarrow>
               (case unescape encodeFragment (case frag of None \<Rightarrow> [] | Some f \<Rightarrow> f) of
                  Inl err \<Rightarrow> Inl (''parse '' @ quote rawURL @ '': '' @ err)
                | Inr _ \<Rightarrow> Inr url)))"

text \<open>\<open>URL.Hostname\<close>: the host without a valid port and without brackets.\<close>

definition Hostname :: "URL \<Rightarrow> string" where
  "Hostname url =
     (let hostPort = url_Host url;
          host = (case cut_last (CHR '':'') hostPort of
                    Some (h, port) \<Rightarrow> if validOptionalPort ('':'' @ port) then h else hostPort
                  | None \<Rightarrow> hostPort)
      in if HasPrefix host ''['' \<and> HasSuffix host '']'' then butlast (tl host) else host)"

end
