(* ===== verification/Object_Store.thy ===== *)
theory Object_Store
  imports Checkpoints Go_URL "HOL-Library.Multiset"
begin

text \<open>
  The object store of the checkpoint catalog, \<open>internal/checkpoints/store.go\<close>: the environment that configures it, the
  addressing of objects by \<open>s3://\<close> URIs, the three operations of \<open>MinIOObjectStore\<close> over the client library, and the
  check that an endpoint can be shared by several clusters.  The client library is a record of its operations
  (\<open>minio_client\<close>) and its constructor (\<open>minio_New\<close>); \<open>os.Getenv\<close> is a function.  Endpoints are ASCII, so \<open>strings.ToLower\<close>
  maps \<open>A\<close>-\<open>Z\<close> only.
\<close>

section \<open>The store\<close>

record S3Location =
  Bucket :: string
  Key :: string

record minio_error =
  me_Code :: string
  me_StatusCode :: int
  me_Error :: string

text \<open>The client: the objects of a bucket below a prefix as they arrive (a key, or an error that ends the listing), the
  opening of an object and the reading of its contents, and its attributes.\<close>

record minio_client =
  mc_ListObjects :: "string \<Rightarrow> string \<Rightarrow> (minio_error + string) list"
  mc_GetObject :: "string \<Rightarrow> string \<Rightarrow> minio_error + (minio_error + string)"
  mc_StatObject :: "string \<Rightarrow> string \<Rightarrow> minio_error option"

record minio_options =
  mo_Creds :: "string \<times> string"
  mo_Secure :: bool
  mo_Region :: string

type_synonym minio_New = "string \<Rightarrow> minio_options \<Rightarrow> go_err + minio_client"

definition minio_isNotFound :: "minio_error \<Rightarrow> bool" where
  "minio_isNotFound response \<longleftrightarrow> me_Code response = ''NoSuchKey'' \<or> me_StatusCode response = 404"

definition store_error_of :: "minio_error \<Rightarrow> store_error" where
  "store_error_of err = (if minio_isNotFound err then NotFound (me_Error err) else OtherError (me_Error err))"

definition ParseS3URI :: "string \<Rightarrow> go_err + S3Location" where
  "ParseS3URI uri =
     (case Parse_URL uri of
        Inl err \<Rightarrow> Inl (''parse s3 uri: '' @ err)
      | Inr parsed \<Rightarrow>
          if url_Scheme parsed \<noteq> ''s3'' then Inl (''unsupported storage uri '' @ quote uri)
          else Inr \<lparr> Bucket = url_Host parsed, Key = TrimPrefix (url_Path parsed) ''/'' \<rparr>)"

definition object_uri :: "string \<Rightarrow> string \<Rightarrow> string" where
  "object_uri bucket key = ''s3://'' @ bucket @ ''/'' @ key"

fun list_loop :: "string \<Rightarrow> (minio_error + string) list \<Rightarrow> store_error + string list" where
  "list_loop bucket [] = Inr []"
| "list_loop bucket (Inl err # objects) = Inl (store_error_of err)"
| "list_loop bucket (Inr key # objects) =
     (case list_loop bucket objects of
        Inl err \<Rightarrow> Inl err
      | Inr uris \<Rightarrow> Inr (if HasSuffix key ''/'' then uris else object_uri bucket key # uris))"

definition MinIO_ListObjects :: "minio_client \<Rightarrow> string \<Rightarrow> store_error + string list" where
  "MinIO_ListObjects client prefixURI =
     (case ParseS3URI prefixURI of
        Inl err \<Rightarrow> Inl (OtherError err)
      | Inr location \<Rightarrow>
          (case list_loop (Bucket location) (mc_ListObjects client (Bucket location) (Key location)) of
             Inl err \<Rightarrow> Inl err
           | Inr uris \<Rightarrow> Inr (sort uris)))"

definition MinIO_ReadObject :: "minio_client \<Rightarrow> string \<Rightarrow> store_error + string" where
  "MinIO_ReadObject client uri =
     (case ParseS3URI uri of
        Inl err \<Rightarrow> Inl (OtherError err)
      | Inr location \<Rightarrow>
          (case mc_GetObject client (Bucket location) (Key location) of
             Inl err \<Rightarrow> Inl (store_error_of err)
           | Inr (Inl err) \<Rightarrow> Inl (store_error_of err)
           | Inr (Inr raw) \<Rightarrow> Inr raw))"

definition MinIO_StatObject :: "minio_client \<Rightarrow> string \<Rightarrow> store_error option" where
  "MinIO_StatObject client uri =
     (case ParseS3URI uri of
        Inl err \<Rightarrow> Some (OtherError err)
      | Inr location \<Rightarrow> map_option store_error_of (mc_StatObject client (Bucket location) (Key location)))"

text \<open>The store the catalog works on, with the JSON decoders of the catalog.\<close>

definition MinIOObjectStore ::
  "(string \<Rightarrow> go_err + CheckpointManifest) \<Rightarrow> (string \<Rightarrow> go_err + YieldMarker) \<Rightarrow> minio_client \<Rightarrow> store_ops" where
  "MinIOObjectStore decode_manifest decode_marker client =
     \<lparr> ListObjects = MinIO_ListObjects client, ReadObject = MinIO_ReadObject client, StatObject = MinIO_StatObject client,
       unmarshal_manifest = decode_manifest, unmarshal_marker = decode_marker \<rparr>"

section \<open>Configuration\<close>

definition newMinIOClient :: "minio_New \<Rightarrow> string \<Rightarrow> string \<Rightarrow> string \<Rightarrow> string \<Rightarrow> go_err + minio_client" where
  "newMinIOClient New endpointURL accessKey secretKey region =
     (case Parse_URL endpointURL of
        Inl err \<Rightarrow> Inl (''parse object-store endpoint: '' @ err)
      | Inr parsed \<Rightarrow>
          (let host = (if url_Host parsed = '''' then url_Path parsed else url_Host parsed) in
           case New host \<lparr> mo_Creds = (accessKey, secretKey), mo_Secure = (url_Scheme parsed = ''https''), mo_Region = region \<rparr> of
             Inl err \<Rightarrow> Inl (''create object-store client: '' @ err)
           | Inr client \<Rightarrow> Inr client))"

text \<open>The first of several environment variables that is not blank.\<close>

fun first_env :: "(string \<Rightarrow> string) \<Rightarrow> string list \<Rightarrow> string" where
  "first_env Getenv [] = ''''"
| "first_env Getenv (name # names) =
     (if TrimSpace (Getenv name) = '''' then first_env Getenv names else TrimSpace (Getenv name))"

definition endpoint_env :: "string list" where
  "endpoint_env = [''AWS_ENDPOINT_URL'', ''YIELD_SDK_S3_ENDPOINT'', ''S3_ENDPOINT'']"

definition NewStoreFromEnv :: "minio_New \<Rightarrow> (string \<Rightarrow> string) \<Rightarrow> go_err + minio_client option" where
  "NewStoreFromEnv New Getenv =
     (let endpointURL = first_env Getenv endpoint_env;
          accessKey = first_env Getenv [''AWS_ACCESS_KEY_ID'', ''YIELD_SDK_S3_ACCESS_KEY''];
          secretKey = first_env Getenv [''AWS_SECRET_ACCESS_KEY'', ''YIELD_SDK_S3_SECRET_KEY'']
      in if endpointURL = '''' \<or> accessKey = '''' \<or> secretKey = '''' then Inr None
         else case newMinIOClient New endpointURL accessKey secretKey (Getenv ''AWS_REGION'') of
                Inl err \<Rightarrow> Inl err
              | Inr client \<Rightarrow> Inr (Some client))"

text \<open>\<open>NewCatalogFromEnv\<close> of \<open>catalog.go\<close>: without a configured store the catalog finds nothing.\<close>

definition NewCatalogFromEnv ::
  "minio_New \<Rightarrow> (string \<Rightarrow> go_err + CheckpointManifest) \<Rightarrow> (string \<Rightarrow> go_err + YieldMarker) \<Rightarrow> (string \<Rightarrow> string)
     \<Rightarrow> go_err + Catalog" where
  "NewCatalogFromEnv New decode_manifest decode_marker Getenv =
     (case NewStoreFromEnv New Getenv of
        Inl err \<Rightarrow> Inl err
      | Inr None \<Rightarrow> Inr NoopCatalog
      | Inr (Some client) \<Rightarrow> Inr (ObjectStoreCatalog (MinIOObjectStore decode_manifest decode_marker client)))"

record SharedStoreConfig =
  ssc_Endpoint :: string
  ssc_Region :: string
  ssc_AccessKey :: string
  ssc_SecretKey :: string

definition NewStoreFromConfig :: "minio_New \<Rightarrow> SharedStoreConfig \<Rightarrow> go_err + minio_client" where
  "NewStoreFromConfig New cfg =
     (if ssc_Endpoint cfg = '''' \<or> ssc_AccessKey cfg = '''' \<or> ssc_SecretKey cfg = ''''
      then Inl ''shared store config requires endpoint, accessKey, and secretKey''
      else newMinIOClient New (ssc_Endpoint cfg) (ssc_AccessKey cfg) (ssc_SecretKey cfg) (ssc_Region cfg))"

definition cluster_local :: "string \<Rightarrow> bool" where
  "cluster_local host \<longleftrightarrow>
     HasSuffix host ''.svc.cluster.local'' \<or> HasSuffix host ''.cluster.local'' \<or> HasSuffix host ''.svc''"

definition loopback :: "string \<Rightarrow> bool" where
  "loopback host \<longleftrightarrow> host = ''localhost'' \<or> host = ''127.0.0.1'' \<or> host = ''::1'' \<or> host = ''0.0.0.0''"

definition ValidateSharedEndpoint :: "string \<Rightarrow> go_err option" where
  "ValidateSharedEndpoint endpoint =
     (let lower = ToLower (TrimSpace endpoint) in
      if lower = '''' then Some ''endpoint is empty''
      else case Parse_URL lower of
        Inl err \<Rightarrow> Some (''parse endpoint: '' @ err)
      | Inr parsed \<Rightarrow>
          (let host = (if Hostname parsed = '''' then lower else Hostname parsed) in
           if cluster_local host
           then Some (''endpoint '' @ quote endpoint @ '' appears to be a cluster-local Kubernetes service; ''
                  @ ''MultiKueue requires a shared endpoint reachable from all clusters'')
           else if loopback host
           then Some (''endpoint '' @ quote endpoint @ '' is a loopback address; ''
                  @ ''MultiKueue requires a shared endpoint reachable from all clusters'')
           else None))"

definition IsSharedStoreConfigured :: "(string \<Rightarrow> string) \<Rightarrow> bool \<times> go_err option" where
  "IsSharedStoreConfigured Getenv =
     (let endpointURL = first_env Getenv endpoint_env in
      if endpointURL = '''' then (False, None)
      else case ValidateSharedEndpoint endpointURL of Some err \<Rightarrow> (False, Some err) | None \<Rightarrow> (True, None))"

lemma endpoint_bypass:
  "ValidateSharedEndpoint ''localhost:9000'' = None"
  "ValidateSharedEndpoint ''minio.svc:9000'' = None"
  by code_simp+

lemma encoded_key_misread:
  "ParseS3URI (object_uri ''b'' ''step%31'') = Inr \<lparr> Bucket = ''b'', Key = ''step1'' \<rparr>"
  "ParseS3URI (object_uri ''b'' ''run#2'') = Inr \<lparr> Bucket = ''b'', Key = ''run'' \<rparr>"
  by code_simp+


section \<open>Plain names\<close>

definition plain_bucket :: "string \<Rightarrow> bool" where
  "plain_bucket s \<longleftrightarrow> (\<forall>c \<in> set s. is_alpha c \<or> is_digit c \<or> c \<in> set ''-._'')"

definition plain_key :: "string \<Rightarrow> bool" where
  "plain_key s \<longleftrightarrow> (\<forall>c \<in> set s. \<not> is_ctl c \<and> c \<notin> set ''%?#'')"

lemma cut_absent: "c \<notin> set s \<Longrightarrow> cut c s = (s, None)"
proof -
  assume "c \<notin> set s"
  then have "takeWhile (\<lambda>x. x \<noteq> c) s = s" "dropWhile (\<lambda>x. x \<noteq> c) s = []" by (induction s) auto
  then show ?thesis by (simp only: cut_def list.case)
qed

lemma cut_at: "c \<notin> set s \<Longrightarrow> cut c (s @ c # t) = (s, Some t)"
proof -
  assume "c \<notin> set s"
  then have "\<forall>x \<in> set s. x \<noteq> c" by auto
  then have "takeWhile (\<lambda>x. x \<noteq> c) (s @ c # t) = s" "dropWhile (\<lambda>x. x \<noteq> c) (s @ c # t) = c # t"
    by (induction s) auto
  then show ?thesis by (simp add: cut_def)
qed

lemma cut_last_absent: "c \<notin> set s \<Longrightarrow> cut_last c s = None"
  by (simp add: cut_last_def cut_absent)

lemma cut_last_at: "c \<notin> set t \<Longrightarrow> cut_last c (s @ c # t) = Some (s, t)"
  using cut_at [of c "rev t" "rev s"] by (simp add: cut_last_def)

lemma unescape_plain:
  "\<forall>c \<in> set s. c \<noteq> CHR ''%'' \<and> (mode \<in> {encodeHost, encodeZone} \<longrightarrow> host_char c) \<Longrightarrow> unescape mode s = Inr s"
  by (induction s) auto

lemma special_chars: "x \<in> set ''%?#/:@[]'' \<Longrightarrow> \<not> (is_alpha x \<or> is_digit x \<or> x \<in> set ''-._'')"
  by (auto simp: is_alpha_def is_digit_def)

lemma plain_chars:
  assumes "is_alpha c \<or> is_digit c \<or> c \<in> set ''-._''"
  shows "c \<notin> set ''%?#/:@[]''" "\<not> is_ctl c" "host_char c"
proof -
  show "c \<notin> set ''%?#/:@[]''" using special_chars assms by blast
  consider "is_alpha c" | "is_digit c" | "c = CHR ''-''" | "c = CHR ''.''" | "c = CHR ''_''" using assms by auto
  then have "\<not> is_ctl c \<and> host_char c"
    by cases (auto simp: is_ctl_def host_char_def is_alpha_def is_digit_def Let_def)
  then show "\<not> is_ctl c" "host_char c" by simp_all
qed

lemma plain_bucketD:
  assumes "plain_bucket s"
  shows "x \<in> set ''%?#/:@[]'' \<Longrightarrow> x \<notin> set s" "\<forall>c \<in> set s. \<not> is_ctl c" "\<forall>c \<in> set s. host_char c" "\<forall>c \<in> set s. c \<noteq> CHR ''%''"
  using assms plain_chars unfolding plain_bucket_def by (blast, blast, blast, fastforce)

lemma parseAuthority_plain: "plain_bucket b \<Longrightarrow> parseAuthority b = Inr b"
proof -
  assume b: "plain_bucket b"
  have "\<not> HasPrefix b ''[''" using plain_bucketD(1) [OF b, of "CHR ''[''"] by (cases b) auto
  then show ?thesis using plain_bucketD [OF b]
    by (simp add: parseAuthority_def parseHost_def cut_last_absent unescape_plain)
qed

lemma Parse_URL_object:
  assumes "plain_bucket b" and "plain_key k"
  shows "Parse_URL (object_uri b k) = Inr \<lparr> url_Scheme = ''s3'', url_Host = b, url_Path = ''/'' @ k \<rparr>"
proof -
  have k: "CHR ''#'' \<notin> set k" "CHR ''?'' \<notin> set k" "CHR ''%'' \<notin> set k" "\<not> list_ex is_ctl k"
    using assms(2) by (auto simp: plain_key_def list_ex_iff)
  have b: "CHR ''#'' \<notin> set b" "CHR ''?'' \<notin> set b" "CHR ''/'' \<notin> set b" "\<not> list_ex is_ctl b"
    using plain_bucketD [OF assms(1)] by (auto simp: list_ex_iff)
  have frag: "cut (CHR ''#'') (object_uri b k) = (object_uri b k, None)"
    using k b by (intro cut_absent) (simp add: object_uri_def)
  have query: "cut (CHR ''?'') (''//'' @ b @ ''/'' @ k) = (''//'' @ b @ ''/'' @ k, None)"
    using k b by (intro cut_absent) simp
  have path: "cut (CHR ''/'') (b @ CHR ''/'' # k) = (b, Some k)" using b by (simp add: cut_at)
  have "unescape encodePath (CHR ''/'' # k) = Inr (CHR ''/'' # k)" using k by (intro unescape_plain) auto
  moreover have "\<not> list_ex is_ctl (object_uri b k)" using k b by (simp add: object_uri_def is_ctl_def)
  moreover have "getScheme (object_uri b k) = Inr (''s3'', ''//'' @ b @ ''/'' @ k)"
    by (simp add: getScheme_def object_uri_def is_alpha_def is_digit_def)
  moreover have "object_uri b k \<noteq> ''*''" by (simp add: object_uri_def)
  moreover have "ToLower ''s3'' = ''s3''" by code_simp
  ultimately have "parse_url (object_uri b k) = Inr \<lparr> url_Scheme = ''s3'', url_Host = b, url_Path = ''/'' @ k \<rparr>"
    using query path parseAuthority_plain [OF assms(1)] by (simp add: parse_url_def Let_def set_path_def)
  then show ?thesis by (simp add: Parse_URL_def frag)
qed

lemma ParseS3URI_object:
  "plain_bucket b \<Longrightarrow> plain_key k \<Longrightarrow> ParseS3URI (object_uri b k) = Inr \<lparr> Bucket = b, Key = k \<rparr>"
  by (simp add: ParseS3URI_def Parse_URL_object TrimPrefix_def)

section \<open>Listing and reading\<close>

definition listed_keys :: "(minio_error + string) list \<Rightarrow> string list" where
  "listed_keys objects = filter (\<lambda>key. \<not> HasSuffix key ''/'') (map projr objects)"

lemma list_loop_keys:
  "\<forall>obj \<in> set objects. \<exists>key. obj = Inr key \<Longrightarrow> list_loop bucket objects = Inr (map (object_uri bucket) (listed_keys objects))"
  by (induction bucket objects rule: list_loop.induct) (auto simp: listed_keys_def)

lemma list_loop_error:
  "list_loop bucket (map Inr keys @ Inl err # objects) = Inl (store_error_of err)"
  by (induction keys) auto

lemma listed_uris:
  assumes "ParseS3URI prefixURI = Inr loc" and "\<forall>obj \<in> set (mc_ListObjects client (Bucket loc) (Key loc)). \<exists>key. obj = Inr key"
  shows "MinIO_ListObjects client prefixURI =
    Inr (sort (map (object_uri (Bucket loc)) (listed_keys (mc_ListObjects client (Bucket loc) (Key loc)))))"
  using assms by (simp add: MinIO_ListObjects_def list_loop_keys)

text \<open>
  C16: The URIs of a listing address the objects that were listed.  When the keys below a prefix contain no percent
  sign, question mark, hash or control character, listing returns in byte order exactly one URI for every object that
  is not a directory marker, and reading or probing such a URI reads or probes that very object.
\<close>

theorem store_addresses_objects:
  assumes "ParseS3URI prefixURI = Inr loc" and "plain_bucket (Bucket loc)"
    and "\<forall>obj \<in> set (mc_ListObjects client (Bucket loc) (Key loc)). \<exists>key. obj = Inr key \<and> plain_key key"
  shows "\<exists>uris. MinIO_ListObjects client prefixURI = Inr uris \<and> sorted uris
    \<and> mset uris = mset (map (object_uri (Bucket loc)) (listed_keys (mc_ListObjects client (Bucket loc) (Key loc))))
    \<and> (\<forall>key \<in> set (listed_keys (mc_ListObjects client (Bucket loc) (Key loc))).
         ParseS3URI (object_uri (Bucket loc) key) = Inr \<lparr> Bucket = Bucket loc, Key = key \<rparr>
         \<and> (\<forall>raw. MinIO_ReadObject client (object_uri (Bucket loc) key) = Inr raw
               \<longleftrightarrow> mc_GetObject client (Bucket loc) key = Inr (Inr raw))
         \<and> (MinIO_StatObject client (object_uri (Bucket loc) key) = None \<longleftrightarrow> mc_StatObject client (Bucket loc) key = None))"
proof -
  let ?keys = "listed_keys (mc_ListObjects client (Bucket loc) (Key loc))"
  have "plain_key key" if "key \<in> set ?keys" for key using that assms(3) by (auto simp: listed_keys_def)
  then have parse: "ParseS3URI (object_uri (Bucket loc) key) = Inr \<lparr> Bucket = Bucket loc, Key = key \<rparr>" if "key \<in> set ?keys" for key
    using that assms(2) by (simp add: ParseS3URI_object)
  moreover have "(MinIO_ReadObject client (object_uri (Bucket loc) key) = Inr raw \<longleftrightarrow> mc_GetObject client (Bucket loc) key = Inr (Inr raw))
      \<and> (MinIO_StatObject client (object_uri (Bucket loc) key) = None \<longleftrightarrow> mc_StatObject client (Bucket loc) key = None)"
    if "key \<in> set ?keys" for key raw
    by (simp add: MinIO_ReadObject_def MinIO_StatObject_def parse [OF that] split: sum.split)
  moreover have "MinIO_ListObjects client prefixURI = Inr (sort (map (object_uri (Bucket loc)) ?keys))"
    using assms(3) by (intro listed_uris [OF assms(1)]) blast
  ultimately show ?thesis by simp
qed

text \<open>A client that serves two objects and a directory marker.\<close>

definition ex_client :: minio_client where
  "ex_client =
     \<lparr> mc_ListObjects = (\<lambda>b p. [Inr ''manifests/2.json'', Inr ''manifests/'', Inr ''manifests/1.json'']),
       mc_GetObject = (\<lambda>b k. if b = ''bucket'' then Inr (Inr k) else Inl \<lparr> me_Code = ''NoSuchBucket'', me_StatusCode = 404, me_Error = ''gone'' \<rparr>),
       mc_StatObject = (\<lambda>b k. None) \<rparr>"

theorem store_addresses_objects_witness:
  "MinIO_ListObjects ex_client ''s3://bucket/manifests/''
     = Inr [object_uri ''bucket'' ''manifests/1.json'', object_uri ''bucket'' ''manifests/2.json'']
   \<and> MinIO_ReadObject ex_client (object_uri ''bucket'' ''manifests/1.json'') = Inr ''manifests/1.json''"
proof -
  let ?loc = "\<lparr> Bucket = ''bucket'', Key = ''manifests/'' \<rparr>"
  have "ParseS3URI ''s3://bucket/manifests/'' = Inr ?loc" by code_simp
  moreover have "plain_bucket (Bucket ?loc)" by code_simp
  moreover have "\<forall>obj \<in> set (mc_ListObjects ex_client (Bucket ?loc) (Key ?loc)). \<exists>key. obj = Inr key \<and> plain_key key"
  proof -
    have "plain_key ''manifests/2.json''" "plain_key ''manifests/''" "plain_key ''manifests/1.json''" by code_simp+
    then show ?thesis by (simp add: ex_client_def)
  qed
  moreover have keys: "listed_keys (mc_ListObjects ex_client (Bucket ?loc) (Key ?loc)) = [''manifests/2.json'', ''manifests/1.json'']"
    by code_simp
  ultimately have "MinIO_ReadObject ex_client (object_uri ''bucket'' ''manifests/1.json'') = Inr ''manifests/1.json''"
    using store_addresses_objects [of "''s3://bucket/manifests/''" ?loc ex_client] by (auto simp: ex_client_def)
  moreover have "MinIO_ListObjects ex_client ''s3://bucket/manifests/''
     = Inr [object_uri ''bucket'' ''manifests/1.json'', object_uri ''bucket'' ''manifests/2.json'']" by code_simp
  ultimately show ?thesis by simp
qed

section \<open>Shared endpoints\<close>

lemma strip_any_none: "find (HasPrefix s) ps = None \<Longrightarrow> strip_any n ps s = s"
  by (cases n) simp_all

lemma visible_not_space:
  assumes "of_char c \<in> {33 .. 126::nat}"
  shows "find (HasPrefix (c # s)) utf8_spaces = None" "find (HasPrefix (c # s)) (map rev utf8_spaces) = None"
proof -
  have "c \<noteq> CHR 0x09" "c \<noteq> CHR 0x0A" "c \<noteq> CHR 0x0B" "c \<noteq> CHR 0x0C" "c \<noteq> CHR 0x0D" "c \<noteq> CHR 0x20"
    "c \<noteq> CHR 0xC2" "c \<noteq> CHR 0xE1" "c \<noteq> CHR 0xE2" "c \<noteq> CHR 0xE3" "c \<noteq> CHR 0x85" "c \<noteq> CHR 0xA0" "c \<noteq> CHR 0x80"
    "c \<noteq> CHR 0x81" "c \<noteq> CHR 0x82" "c \<noteq> CHR 0x83" "c \<noteq> CHR 0x84" "c \<noteq> CHR 0x86" "c \<noteq> CHR 0x87" "c \<noteq> CHR 0x88"
    "c \<noteq> CHR 0x89" "c \<noteq> CHR 0x8A" "c \<noteq> CHR 0xA8" "c \<noteq> CHR 0xA9" "c \<noteq> CHR 0xAF" "c \<noteq> CHR 0x9F"
    using assms by auto
  then show "find (HasPrefix (c # s)) utf8_spaces = None" "find (HasPrefix (c # s)) (map rev utf8_spaces) = None"
    by (simp_all add: utf8_spaces_def)
qed

lemma TrimSpace_visible:
  assumes "of_char c \<in> {33 .. 126::nat}" and "of_char d \<in> {33 .. 126::nat}"
  shows "TrimSpace (c # s @ [d]) = c # s @ [d]"
  using assms by (simp add: TrimSpace_def TrimLeftSpace_def strip_any_none visible_not_space)

lemma plain_visible: "is_alpha c \<or> is_digit c \<or> c \<in> set ''-._'' \<Longrightarrow> of_char c \<in> {33 .. 126::nat}"
  by (auto simp: is_alpha_def is_digit_def Let_def)

lemma to_lower_plain:
  "is_alpha c \<or> is_digit c \<or> c \<in> set ''-._'' \<Longrightarrow> is_alpha (to_lower c) \<or> is_digit (to_lower c) \<or> to_lower c \<in> set ''-._''"
  by (auto simp: is_alpha_def is_digit_def to_lower_def Let_def)

lemma plain_bucket_lower: "plain_bucket s \<Longrightarrow> plain_bucket (ToLower s)"
  using to_lower_plain by (auto simp: plain_bucket_def ToLower_def)

text \<open>An endpoint \<open>http://host\<close> or \<open>https://host\<close>, with an optional port.\<close>

definition port_suffix :: "string \<Rightarrow> bool" where
  "port_suffix port \<longleftrightarrow> port = [] \<or> (\<exists>digits. port = '':'' @ digits \<and> digits \<noteq> [] \<and> (\<forall>d \<in> set digits. is_digit d))"

lemma to_lower_digit: "is_digit d \<Longrightarrow> to_lower d = d"
  by (auto simp: is_digit_def to_lower_def Let_def)

lemma port_lower: "port_suffix port \<Longrightarrow> ToLower port = port"
  by (auto simp: port_suffix_def ToLower_def to_lower_digit map_idI) (simp add: to_lower_def)

lemma port_chars: "port_suffix port \<Longrightarrow> c \<in> set port \<Longrightarrow> c = CHR '':'' \<or> is_digit c"
  by (auto simp: port_suffix_def)

lemma digit_chars: "is_digit c \<Longrightarrow> c \<notin> set ''%?#/:@[]'' \<and> \<not> is_ctl c \<and> host_char c"
  using plain_chars by blast

lemma port_plain: "port_suffix port \<Longrightarrow> c \<in> set port \<Longrightarrow> c \<notin> set ''%?#/@[]'' \<and> \<not> is_ctl c \<and> host_char c"
  using port_chars [of port c] digit_chars [of c] by (auto simp: host_char_def is_ctl_def)

definition authority_char :: "char \<Rightarrow> bool" where
  "authority_char c \<longleftrightarrow> c \<notin> set ''%?#/@[]'' \<and> \<not> is_ctl c \<and> host_char c"

lemma not_authority:
  "\<not> authority_char (CHR ''%'')" "\<not> authority_char (CHR ''?'')" "\<not> authority_char (CHR ''#'')" "\<not> authority_char (CHR ''/'')"
  "\<not> authority_char (CHR ''@'')" "\<not> authority_char (CHR ''['')"
  by (simp_all add: authority_char_def)

lemma absent: "\<forall>c \<in> set s. authority_char c \<Longrightarrow> \<not> authority_char x \<Longrightarrow> x \<notin> set s"
  by blast

lemma authority_chars: "plain_bucket host \<Longrightarrow> port_suffix port \<Longrightarrow> \<forall>c \<in> set (host @ port). authority_char c"
  using plain_chars port_plain unfolding plain_bucket_def authority_char_def by (simp add: ball_Un)

lemma no_bracket: "\<forall>c \<in> set s. authority_char c \<Longrightarrow> \<not> HasPrefix s ''[''"
  using not_authority(6) by (cases s) auto

lemma host_port:
  assumes "plain_bucket host" and "port_suffix port"
  shows "parseAuthority (host @ port) = Inr (host @ port)"
    and "Hostname \<lparr> url_Scheme = scheme, url_Host = host @ port, url_Path = path \<rparr> = host"
proof -
  note chars = authority_chars [OF assms]
  have un: "unescape encodeHost (host @ port) = Inr (host @ port)"
    using chars not_authority(1) by (intro unescape_plain) (auto simp: authority_char_def)
  have colon: "CHR '':'' \<notin> set host" using plain_bucketD(1) [OF assms(1)] by simp
  consider "port = []" | digits where "port = CHR '':'' # digits" "\<forall>d \<in> set digits. is_digit d"
    using assms(2) unfolding port_suffix_def by auto
  then have "parseHost (host @ port) = Inr (host @ port)
      \<and> Hostname \<lparr> url_Scheme = scheme, url_Host = host @ port, url_Path = path \<rparr> = host"
  proof cases
    case 1
    then show ?thesis using no_bracket [OF chars] un colon by (simp add: parseHost_def Hostname_def cut_last_absent Let_def)
  next
    case (2 digits)
    then have "CHR '':'' \<notin> set digits" by (auto simp: is_digit_def)
    then have "cut_last (CHR '':'') (host @ port) = Some (host, digits)" by (simp add: 2 cut_last_at)
    moreover have "validOptionalPort (CHR '':'' # digits)" using 2 by (simp add: validOptionalPort_def list_all_iff)
    moreover have "\<not> HasPrefix host ''[''" using chars by (intro no_bracket) simp
    ultimately show ?thesis using no_bracket [OF chars] un by (simp add: parseHost_def Hostname_def Let_def)
  qed
  then show "parseAuthority (host @ port) = Inr (host @ port)"
    "Hostname \<lparr> url_Scheme = scheme, url_Host = host @ port, url_Path = path \<rparr> = host"
    using absent [OF chars not_authority(5)] by (simp_all add: parseAuthority_def cut_last_absent)
qed

lemma Parse_URL_endpoint:
  assumes "plain_bucket host" and "port_suffix port" and "scheme \<in> {''http'', ''https''}"
  shows "Parse_URL (scheme @ ''://'' @ host @ port) = Inr \<lparr> url_Scheme = scheme, url_Host = host @ port, url_Path = [] \<rparr>"
proof -
  define hp where "hp = host @ port"
  note chars = authority_chars [OF assms(1,2), folded hp_def]
  let ?s = "scheme @ ''://'' @ hp"
  have ctl: "\<not> list_ex is_ctl ?s"
  proof -
    have "\<not> list_ex is_ctl hp" using chars by (auto simp: list_ex_iff authority_char_def)
    moreover have "\<not> list_ex is_ctl scheme" using assms(3) by (auto simp: is_ctl_def)
    ultimately show ?thesis by (simp add: is_ctl_def)
  qed
  have "CHR ''#'' \<notin> set scheme" using assms(3) by auto
  then have frag: "cut (CHR ''#'') ?s = (?s, None)" using absent [OF chars not_authority(3)] by (intro cut_absent) simp
  have scheme: "getScheme ?s = Inr (scheme, ''//'' @ hp)" using assms(3) by (auto simp: getScheme_def is_alpha_def is_digit_def)
  have lower: "ToLower scheme = scheme" "?s \<noteq> ''*''" "scheme \<noteq> []" using assms(3) by (auto simp: ToLower_def to_lower_def)
  have query: "cut (CHR ''?'') (''//'' @ hp) = (''//'' @ hp, None)" using absent [OF chars not_authority(2)] by (intro cut_absent) simp
  have slash: "cut (CHR ''/'') hp = (hp, None)" using absent [OF chars not_authority(4)] by (rule cut_absent)
  have "parse_url ?s = Inr \<lparr> url_Scheme = scheme, url_Host = hp, url_Path = [] \<rparr>"
    using ctl scheme lower query slash host_port(1) [OF assms(1,2), folded hp_def] by (simp add: parse_url_def Let_def set_path_def)
  then show ?thesis unfolding hp_def [symmetric] by (simp only: Parse_URL_def frag) simp
qed

text \<open>
  The check of a shared endpoint is exact for URLs.  An endpoint \<open>http(s)://host:port\<close>, in any mixture of cases
  of the host, is refused exactly when the host is a Kubernetes service name or a loopback address.
\<close>

theorem shared_endpoint_checked:
  assumes "plain_bucket host" and "host \<noteq> []" and "port_suffix port" and "scheme \<in> {''http'', ''https''}"
  shows "ValidateSharedEndpoint (scheme @ ''://'' @ host @ port) = None
     \<longleftrightarrow> \<not> cluster_local (ToLower host) \<and> \<not> loopback (ToLower host)"
proof -
  let ?s = "scheme @ ''://'' @ host @ port"
  have "host @ port \<noteq> []" using assms(2) by simp
  then obtain s d where d: "host @ port = s @ [d]" by (cases "host @ port" rule: rev_cases) auto
  have "d \<in> set (host @ port)" by (simp add: d)
  then have "of_char d \<in> {33 .. 126::nat}"
    using plain_visible [of d] port_chars [OF assms(3), of d] assms(1) by (auto simp: plain_bucket_def)
  then have trim: "TrimSpace ?s = ?s"
    using assms(4) d TrimSpace_visible [of "CHR ''h''" d "tl scheme @ ''://'' @ s"] by auto
  have lower: "ToLower ?s = scheme @ ''://'' @ ToLower host @ port"
    using assms(4) port_lower [OF assms(3)] by (auto simp: ToLower_def to_lower_def)
  have "ToLower host \<noteq> []" using assms(2) by (simp add: ToLower_def)
  then show ?thesis
    using Parse_URL_endpoint [OF plain_bucket_lower [OF assms(1)] assms(3,4)] host_port(2) [OF plain_bucket_lower [OF assms(1)] assms(3)]
    unfolding ValidateSharedEndpoint_def Let_def trim lower by simp
qed

section \<open>The catalog over the store\<close>

lemma manifest_prefix:
  assumes "TrimRight1 root (CHR ''/'') = object_uri bucket dir" and "plain_bucket bucket" and "plain_key dir"
  shows "ParseS3URI (ManifestPrefixURI root) = Inr \<lparr> Bucket = bucket, Key = dir @ ''/manifests/'' \<rparr>"
proof -
  have "plain_key ''/manifests/''" by code_simp
  then have "plain_key (dir @ ''/manifests/'')" using assms(3) unfolding plain_key_def set_append by blast
  moreover have "ManifestPrefixURI root = object_uri bucket (dir @ ''/manifests/'')"
    using assms(1) by (simp add: ManifestPrefixURI_def object_uri_def)
  ultimately show ?thesis using ParseS3URI_object [OF assms(2)] by simp
qed


definition ex_decode :: "string \<Rightarrow> go_err + CheckpointManifest" where
  "ex_decode raw = Inr ex_old"

definition ex_single :: minio_client where
  "ex_single = ex_client\<lparr> mc_ListObjects := (\<lambda>b p. [Inr ''run/manifests/1.json'']) \<rparr>"

lemma ex_resumed:
  "case catalog_SelectResumeCheckpoint (ObjectStoreCatalog (MinIOObjectStore ex_decode (\<lambda>_. Inr ex_marker) ex_single))
     (ex_request\<lparr> rq_StorageRootURI := ''s3://bucket/run/'' \<rparr>) of Inr (Some ref) \<Rightarrow> True | _ \<Rightarrow> False"
  by code_simp


end
