(* ===== verification/Controller_Edges.thy ===== *)
theory Controller_Edges
  imports Controller Metrics Object_Store Go_Schema
begin

text \<open>
  The edges of the controller: the reconciler of the workload observer (\<open>workload_observer.go\<close>), the phase it reports to
  the recorder, the choice of the catalog (\<open>suspend_flow.go\<close>) and the payload of the status patch that publishes
  reclaimable pods (\<open>workload_status_patch.go\<close>).  The payload is the JSON syntax tree of \<open>Go_Schema\<close>.
\<close>

section \<open>Phases as text\<close>

fun Phase_string :: "ResumableTrainingJobPhase \<Rightarrow> string" where
  "Phase_string PhaseUnset = ''''"
| "Phase_string PhasePending = ''Pending''"
| "Phase_string PhaseQueued = ''Queued''"
| "Phase_string PhaseAdmitted = ''Admitted''"
| "Phase_string PhaseStarting = ''Starting''"
| "Phase_string PhaseRunning = ''Running''"
| "Phase_string PhaseYieldRequested = ''YieldRequested''"
| "Phase_string PhaseDraining = ''Draining''"
| "Phase_string PhasePaused = ''Paused''"
| "Phase_string PhaseRestoring = ''Restoring''"
| "Phase_string PhaseSucceeded = ''Succeeded''"
| "Phase_string PhaseFailed = ''Failed''"

definition job_String :: "job \<Rightarrow> string" where
  "job_String job = rtj_Namespace job @ ''/'' @ rtj_Name job"

section \<open>Metrics\<close>

definition observePhase :: "job option \<Rightarrow> Recorder option \<Rightarrow> metric_op list \<times> Recorder option" where
  "observePhase job recorder =
     (case job of
        None \<Rightarrow> ([], recorder)
      | Some j \<Rightarrow>
          if recorder = None \<or> st_Phase (rtj_Status j) = PhaseUnset then ([], recorder)
          else ObservePhase (job_String j) (Phase_string (st_Phase (rtj_Status j))) recorder)"

text \<open>The API server answers with a workload and its UID.\<close>

definition WorkloadObserver_Reconcile ::
  "(string \<Rightarrow> string \<Rightarrow> api_error + string \<times> Workload) \<Rightarrow> string \<Rightarrow> string \<Rightarrow> Recorder option
     \<Rightarrow> go_err option \<times> metric_op list \<times> Recorder option" where
  "WorkloadObserver_Reconcile Get namespace name metrics =
     (case Get namespace name of
        Inl err \<Rightarrow> (if IsNotFound err then None else Some (err_text err), [], metrics)
      | Inr (uid, wl) \<Rightarrow>
          if \<not> isRTJOwnedWorkload (Some wl) then (None, [], metrics)
          else if metrics \<noteq> None then (None, ObserveWorkload (Some (uid, wl)) metrics)
          else (None, [], metrics))"

section \<open>The catalog\<close>

text \<open>The catalog the reconciler was built with, or one from the environment, which it keeps; an environment that gives
  none leaves the field unset and the empty catalog for this call.\<close>

definition checkpointCatalog :: "go_err + Catalog \<Rightarrow> Catalog option \<Rightarrow> Catalog \<times> Catalog option" where
  "checkpointCatalog fromEnv field =
     (case field of
        Some c \<Rightarrow> (c, Some c)
      | None \<Rightarrow> (case fromEnv of Inl err \<Rightarrow> (NoopCatalog, None) | Inr c \<Rightarrow> (c, Some c)))"

section \<open>The patch of the reclaimable pods\<close>

definition reclaimPodsToRaw :: "ReclaimablePod list \<Rightarrow> json" where
  "reclaimPodsToRaw pods =
     (if pods = [] then JArray []
      else JArray (map (\<lambda>p. JObject [(''count'', JNum (rpod_Count p)), (''name'', JString (sanitize (rpod_Name p)))]) pods))"

definition buildReclaimablePodsSSAPatch :: "ReclaimablePod list \<Rightarrow> json" where
  "buildReclaimablePodsSSAPatch reclaimPods =
     JObject [(''apiVersion'', JString ''kueue.x-k8s.io/v1beta2''), (''kind'', JString ''Workload''),
       (''status'', JObject [(''reclaimablePods'', reclaimPodsToRaw reclaimPods)])]"

section \<open>Lemmas\<close>

text \<open>The patch names no field but the reclaimable pods, and an empty list clears them.\<close>

lemma patch_fields:
  "buildReclaimablePodsSSAPatch pods = JObject kjs \<Longrightarrow> map fst kjs = [''apiVersion'', ''kind'', ''status'']"
  "buildReclaimablePodsSSAPatch pods = JObject kjs \<Longrightarrow> map_of kjs ''status'' = Some (JObject [(''reclaimablePods'', raw)])
     \<Longrightarrow> raw = JArray [] \<longleftrightarrow> pods = []"
  by (auto simp: buildReclaimablePodsSSAPatch_def reclaimPodsToRaw_def split: if_splits)

text \<open>The API server reads back the pods that were sent.\<close>

lemma patch_carries_pods:
  assumes "buildReclaimablePodsSSAPatch pods = buildReclaimablePodsSSAPatch pods'"
    and "list_all (\<lambda>p. sanitize (rpod_Name p) = rpod_Name p) (pods @ pods')"
  shows "pods = pods'"
proof -
  let ?f = "\<lambda>p. JObject [(''count'', JNum (rpod_Count p)), (''name'', JString (sanitize (rpod_Name p)))]"
  have "map ?f pods = map ?f pods'"
    using assms(1) by (auto simp: buildReclaimablePodsSSAPatch_def reclaimPodsToRaw_def split: if_splits)
  moreover have "inj_on ?f (set pods \<union> set pods')"
    using assms(2) by (auto simp: inj_on_def list_all_iff intro!: ReclaimablePod.equality)
  ultimately show ?thesis by (simp add: inj_on_map_eq_map)
qed

text \<open>A catalog once found is used from then on.\<close>

lemma checkpointCatalog_stable:
  "checkpointCatalog fromEnv field = (c, Some c') \<Longrightarrow> checkpointCatalog fromEnv' (Some c') = (c, Some c')"
  by (auto simp: checkpointCatalog_def split: option.splits sum.splits)

lemma Phase_string_inj: "Phase_string p = Phase_string q \<longleftrightarrow> p = q"
  by (cases p; cases q) simp_all

text \<open>The observer counts a workload once, whatever the number of reconciliations, and only one that a job owns.\<close>

lemma observer_twice:
  assumes "WorkloadObserver_Reconcile Get ns name (Some r) = (e, ops, r')"
  shows "fst (snd (WorkloadObserver_Reconcile Get ns name r')) = []"
proof (cases "Get ns name")
  case (Inr uw)
  then show ?thesis
    using assms by (cases uw) (auto simp: WorkloadObserver_Reconcile_def ObserveWorkload_def Let_def split: if_splits option.splits)
qed (use assms in \<open>auto simp: WorkloadObserver_Reconcile_def\<close>)

lemma observer_foreign:
  assumes "Get ns name = Inr (uid, wl)" and "\<not> isRTJOwnedWorkload (Some wl)"
  shows "WorkloadObserver_Reconcile Get ns name m = (None, [], m)"
  using assms by (simp add: WorkloadObserver_Reconcile_def)

lemma observePhase_twice:
  assumes "observePhase job recorder = (ops, recorder')"
  shows "fst (observePhase job recorder') = []"
  using assms by (auto simp: observePhase_def ObservePhase_def split: option.splits if_splits)

end
