(* ===== verification/Spec2Isabelle.thy ===== *)
theory Spec2Isabelle
  imports Admission_Runs Fake_Provisioner MultiKueue_Config API_Conversion Policy_Webhooks Controller_Edges
begin

text \<open>
  A verification development of the ResumableTrainingJob operator (\<open>src/\<close>): a Kubernetes operator that
  runs checkpointed training jobs under Kueue.  A job (RTJ) can be paused, preempted and resumed from its
  latest compatible checkpoint, resized while it runs, delegated to another cluster, and its priority follows
  the age of its checkpoints.

  \<^bold>\<open>How the parts interact.\<close>  A job is created through the admission webhook, which completes and validates it.
  Kueue's framework drives it as a generic job: it asks for its pod sets, starts it with the pod sets it
  admitted (the template of the job is rewritten and the admitted counts are stored in an annotation) and
  suspends it again.  The controller reconciles the job: it passes the launch gates (admission checks, topology,
  provisioning), renders the child JobSet with the admitted shape, follows its start-up, evaluates the resize
  planner and the priority policy, and on a pause, a suspension or a resize asks the run to drain, waits for its
  checkpoint and deletes the child.  A resume asks the checkpoint catalog for the latest compatible manifest.
  The resume-readiness admission check lets Kueue hold a job back until such a checkpoint exists.

  \<^bold>\<open>Library theories.\<close>

  \<^item> \<open>RTJ_Prelude\<close>: \<open>int32\<close> arithmetic with its wrap-around, saturating \<open>int64\<close> durations, decimal
    printing, the \<open>strings\<close> functions, a stable sort as Go's \<open>sort.SliceStable\<close> (locale \<open>weak_order\<close>), results with
    errors.
  \<^item> \<open>Go_Time\<close>: \<open>time.Time\<close> as nanoseconds, RFC 3339 parsing and printing.
  \<^item> \<open>Go_URL\<close>: \<open>url.Parse\<close> and \<open>Hostname\<close> of \<open>net/url\<close>.
  \<^item> \<open>Go_JSON\<close>: the scanner of \<open>encoding/json\<close> (\<open>json_Valid\<close>), the printing of strings and objects; printed objects
    of plain strings are valid.

  \<^item> \<open>Go_Schema\<close>: \<open>json.Marshal\<close> and \<open>json.Unmarshal\<close> of values of a declared struct type, on JSON syntax trees, with
    \<open>omitempty\<close>, nulls, integer widths and UTF-8; a value that is written is read back as its normal form (locale
    \<open>json_ext\<close>, the laws of the codecs of other modules' types).

  \<^bold>\<open>The API.\<close>

  \<^item> \<open>API_Types\<close>: the records of \<open>api/v1alpha1/resumabletrainingjob_types.go\<close> and the status setters.
  \<^item> \<open>API_Validation\<close>: defaulting, validation and the admission webhook
    (\<open>api/v1alpha1/resumabletrainingjob_types.go\<close>, \<open>resumabletrainingjob_webhook.go\<close>).  The validators return no error
    exactly for \<open>valid_job\<close>; the defaults are a normal form and complete a job; the versions of a job that pass
    the webhook (inductive \<open>versions\<close>) keep the invariant.  The functions of Kueue's job framework are fields of
    \<open>webhook_env\<close>.
  \<^item> \<open>Schema_v1alpha1\<close>, \<open>Schema_v1beta1\<close>: every struct and string type of the two versions as a schema (fields in order,
    tag keys, \<open>omitempty\<close>, types, constants); \<open>API_Conversion\<close>: the conversion methods (\<open>api/v1alpha1/*_conversion.go\<close>).
    The schemas agree, and a trip through the hub version returns the normal form of an object.
  \<^item> \<open>API_Defaults\<close>: the \<open>Default\<close> methods of \<open>api/v1beta1\<close>, equal to those of v1alpha1 but for the Kueue labels.
  \<^item> \<open>Policy_Webhooks\<close>: the admission handlers of the two policy kinds (locale \<open>policy_webhook\<close>).
  \<^item> \<open>Kueue_Types\<close>: the parts of a Kueue workload the operator reads.

  \<^bold>\<open>Pure engines.\<close>

  \<^item> \<open>Checkpoints\<close>: \<open>internal/checkpoints\<close>; manifests, their completeness and compatibility, the selector
    and the catalog over an object store.  The store is a record of operations (\<open>store_ops\<close>).
  \<^item> \<open>Object_Store\<close>: \<open>internal/checkpoints/store.go\<close>; the store operations of the catalog over the client of an S3
    service (\<open>minio_client\<close>, a record of its operations), the addressing of objects by URI, the configuration from the
    environment and the check of a shared endpoint.
  \<^item> \<open>Elastic\<close>: \<open>internal/elastic\<close>; resize planner and reclaimable pods.
  \<^item> \<open>Checkpoint_Priority\<close>: \<open>internal/policy/checkpointpriority\<close> and the defaulting and validation of
    \<open>CheckpointPriorityPolicy\<close>.
  \<^item> \<open>Provisioning\<close>: \<open>internal/provisioning\<close>, the launch-readiness view of a workload.
  \<^item> \<open>Topology\<close>: \<open>internal/topology\<close>; decoding of compressed topology assignments.
  \<^item> \<open>Names\<close>: \<open>internal/jobset/names.go\<close>.
  \<^item> \<open>Jobset_Render\<close>: \<open>internal/jobset\<close>; the child JobSet from the embedded template, the admitted counts, the
    environment, topology, pod-set updates and device claims.  YAML decoding is a parameter (\<open>render_env\<close>).
  \<^item> \<open>DRA\<close>: \<open>internal/dra\<close>; device profile and fingerprint (SHA-256 is a parameter), claim templates, allocation
    summary.
  \<^item> \<open>Metrics\<close>: \<open>internal/metrics\<close>; every metric, every method of the recorder and the operations it performs on the
    metrics registry (locale \<open>prometheus\<close>, the documented behaviour of the registry).  The four gauges that count jobs
    by state share one contract (locale \<open>state_gauge\<close>).

  \<^bold>\<open>Controllers.\<close>

  \<^item> \<open>Conditions\<close>: \<open>meta.SetStatusCondition\<close> and its siblings as a contract (locale \<open>conditions_api\<close>) with
    the documented implementation as interpretation, and \<open>setCondition\<close>/\<open>clearCondition\<close> of
    \<open>internal/controller/status_helpers.go\<close>.
  \<^item> \<open>Status_Helpers\<close>, \<open>Startup_Recovery\<close>: phases, suspension and the other status synchronisations; the start-up
    state machine and the classification of evictions.
  \<^item> \<open>Controller_Env\<close>: the answers of the API server, the clock and the catalog as a record \<open>ctl_env\<close>, the
    writes of the controller as a list of effects.
  \<^item> \<open>Stop_Flow\<close>, \<open>Elastic_Control\<close>, \<open>DRA_Control\<close>, \<open>Launch_Gate\<close>, \<open>Resume_Flow\<close>, \<open>Priority_State\<close>,
    \<open>Remote_Status\<close>: the flows of \<open>internal/controller\<close>, one theory for the file or files of the same name.
  \<^item> \<open>Controller\<close>: \<open>Reconcile\<close> of \<open>resumabletrainingjob_controller.go\<close>, composed from the flows (locale
    \<open>child_effect\<close> for what holds of every effect on a child), and \<open>Controller_Runs\<close>, the properties of whole
    reconciliations.
  \<^item> \<open>Controller_Edges\<close>: the workload observer, the report of phases, the choice of the catalog and the payload of the
    reclaimable-pods patch.
  \<^item> \<open>Resume_Readiness\<close>: \<open>internal/admissionchecks/resume\<close>; the evaluator and the two reconcilers, which
    read the cluster through a record of API answers (\<open>rr_env\<close>).
  \<^item> \<open>Kueue_Job\<close>: \<open>internal/kueue\<close>; the generic job, its pod sets, the admission view.
  \<^item> \<open>Admission_Runs\<close>: properties that span the webhook, Kueue's integration, the renderer and the controller.
  \<^item> \<open>MultiKueue_Config\<close>: \<open>internal/multikueue\<close> and the names of \<open>internal/kueue/register.go\<close>.
  \<^item> \<open>Fake_Provisioner\<close>: \<open>internal/fakeprovisioner\<close>; a provisioning request settles after finitely many
    reconciliations.

  \<^bold>\<open>What the lemma groups show.\<close>  Safety of a run: a child is deleted only after its checkpoint is recorded or its
  deadline passed or it ended, it is launched only with every gate open, a resume restores a complete and
  compatible checkpoint, and no more pods run than were admitted.  Liveness: a runnable job launches, a stop
  completes, a drain ends by its deadline, claim templates converge, a fake provisioning request settles.
  Functional correctness of the engines on every branch: planner, priority, readiness, compatibility, topology,
  rendering, validation.  Round trips: the admitted counts reach the controller through the annotation, a suspended
  job gets its template back, the URIs of a listing address the listed objects, a job converted to the hub
  version and back is the same up to its normal form.  Invariants of the status (conditions and phases), of the
  versions of a job and of the metrics.

  \<^bold>\<open>Conventions.\<close>  A Go error is the left side of a sum or \<open>Some\<close> of an error text; a pointer is an
  \<open>option\<close>; a map is an association list where the order of iteration is fixed by the code, a HOL map
  otherwise; \<open>int32\<close> values are \<open>int\<close> with \<open>wrap32\<close> written where the code adds, subtracts or multiplies.  Loops are
  structural recursion over lists, except the in-place deduplication \<open>dedup_loop\<close>, which has its termination proof,
  so no fuel is needed.  Calls of other programs (Kubernetes, Kueue, the object store, YAML, SHA-256, Prometheus) are
  fields of environment records or the operations of a locale; theorems that rely on their documented behaviour say so
  in a hypothesis, and a witness instantiates it.

  \<^bold>\<open>Not modelled.\<close>  Logging, process start-up (\<open>cmd\<close>) and the registration with the controller manager
  (\<open>setup.go\<close>, \<open>Setup...\<close>); generated deep copies (values are immutable here); the list
  types and their scheme registration; the points at which the controller calls the other methods of the metrics
  recorder; \<open>parseAdmittedFlavorsAnnotation\<close>, which nothing calls; a key of a JSON object that matches a tag only up to
  its case.
\<close>

end
